(* ===== verification/Prelude.thy ===== *)
theory Prelude
  imports Main "HOL-Library.AList"
begin

text \<open>
  Shared vocabulary of the development: the hint collections, Python strings (lists of
  code points up to 255), Python dictionaries as association lists in insertion order,
  and the lemmas on them that several components use.
\<close>

section \<open>Hint collections\<close>

named_theorems op_defs \<open>definitions of component operations, for unfolding in proofs\<close>
named_theorems inv_defs \<open>definitions of invariants\<close>

section \<open>Python dictionaries\<close>

text \<open>
  A Python dictionary keeps its insertion order. Assignment replaces the value of a present
  key in place and appends a new key; \<open>pop\<close> removes the key. The library's
  \<open>AList.update\<close> and \<open>AList.delete\<close> are exactly these two operations.
\<close>

type_synonym ('k, 'v) dict = "('k \<times> 'v) list"

abbreviation dict_get :: "('k, 'v) dict \<Rightarrow> 'k \<Rightarrow> 'v option" where
  "dict_get \<equiv> map_of"

abbreviation dict_set :: "'k \<Rightarrow> 'v \<Rightarrow> ('k, 'v) dict \<Rightarrow> ('k, 'v) dict" where
  "dict_set \<equiv> AList.update"

abbreviation dict_pop :: "'k \<Rightarrow> ('k, 'v) dict \<Rightarrow> ('k, 'v) dict" where
  "dict_pop \<equiv> AList.delete"

definition dict_ok :: "('k, 'v) dict \<Rightarrow> bool" where
  "dict_ok d \<longleftrightarrow> distinct (map fst d)"

lemma dict_get_set: "dict_get (dict_set k v d) = (dict_get d)(k \<mapsto> v)"
  by (rule update_conv')

lemma dict_get_set_same [simp]: "dict_get (dict_set k v d) k = Some v"
  by (simp add: dict_get_set)

lemma dict_get_set_other [simp]: "j \<noteq> k \<Longrightarrow> dict_get (dict_set k v d) j = dict_get d j"
  by (simp add: dict_get_set)

lemma dict_get_pop_same [simp]: "dict_get (dict_pop k d) k = None"
  by (simp add: delete_conv')

lemma dict_get_pop_other [simp]: "j \<noteq> k \<Longrightarrow> dict_get (dict_pop k d) j = dict_get d j"
  by (simp add: delete_conv')

lemma dict_ok_Nil [simp]: "dict_ok []"
  by (simp add: dict_ok_def)

lemma dict_ok_set [simp, intro]: "dict_ok d \<Longrightarrow> dict_ok (dict_set k v d)"
  by (simp add: dict_ok_def distinct_update)

lemma dict_ok_pop [simp, intro]: "dict_ok d \<Longrightarrow> dict_ok (dict_pop k d)"
  by (simp add: dict_ok_def distinct_delete)

lemma dict_get_mem: "dict_ok d \<Longrightarrow> dict_get d k = Some v \<longleftrightarrow> (k, v) \<in> set d"
  by (simp add: dict_ok_def)

lemma dict_unique: "dict_ok d \<Longrightarrow> (k, v) \<in> set d \<Longrightarrow> (k, w) \<in> set d \<Longrightarrow> v = w"
  unfolding dict_ok_def by (rule eq_key_imp_eq_value)

lemma dict_get_exists: "dict_get d k = None \<longleftrightarrow> k \<notin> fst ` set d"
  by (simp add: map_of_eq_None_iff)

lemma set_dict_pop: "set (dict_pop k d) = {p \<in> set d. fst p \<noteq> k}"
  by (auto simp: AList.delete_eq)

lemma set_dict_set:
  assumes "dict_ok d"
  shows "set (dict_set k v d) = insert (k, v) {p \<in> set d. fst p \<noteq> k}"
proof -
  have "(j, w) \<in> set (dict_set k v d) \<longleftrightarrow> (j, w) \<in> insert (k, v) {p \<in> set d. fst p \<noteq> k}" for j w
  proof -
    have "(j, w) \<in> set (dict_set k v d) \<longleftrightarrow> dict_get (dict_set k v d) j = Some w"
      using assms by (intro dict_get_mem [symmetric]) blast
    also have "\<dots> \<longleftrightarrow> (j, w) \<in> insert (k, v) {p \<in> set d. fst p \<noteq> k}"
      using dict_get_mem [OF assms] by (auto simp: dict_get_set)
    finally show ?thesis .
  qed
  then show ?thesis by auto
qed

section \<open>Searching and filtering a table\<close>

lemma dict_ok_filter [simp]: "dict_ok d \<Longrightarrow> dict_ok (filter P d)"
  by (simp add: dict_ok_def distinct_map_filter)

lemma dict_get_filter:
  "dict_ok d \<Longrightarrow> dict_get (filter P d) k = (case dict_get d k of None \<Rightarrow> None | Some v \<Rightarrow> if P (k, v) then Some v else None)"
proof (induction d)
  case (Cons p d)
  obtain j w where p: "p = (j, w)" by (cases p)
  have ok: "dict_ok d" and fresh: "dict_get d j = None"
    using Cons.prems by (auto simp: dict_ok_def p dict_get_exists)
  show ?case
    using Cons.IH [OF ok] fresh by (cases "k = j") (auto simp: p)
qed simp

lemma find_set_hit:
  assumes "dict_ok d" "\<forall>(j, x) \<in> set d. key x = j" "find P (map snd d) = Some u" "P u'"
  shows "find P (map snd (dict_set (key u) u' d)) = Some u'"
  using assms
proof (induction d)
  case (Cons p d)
  obtain j x where p: "p = (j, x)" by (cases p)
  show ?case
  proof (cases "P x")
    case True
    then show ?thesis using Cons.prems by (auto simp: p)
  next
    case False
    then have found: "find P (map snd d) = Some u" using Cons.prems(3) by (simp add: p)
    then have "P u" "u \<in> snd ` set d" by (auto simp: find_Some_iff)
    then have "key u \<noteq> j"
      using Cons.prems(1,2) by (force simp: p dict_ok_def)
    moreover have "find P (map snd (dict_set (key u) u' d)) = Some u'"
      using Cons.IH Cons.prems found by (simp add: p dict_ok_def)
    ultimately show ?thesis using False by (simp add: p)
  qed
qed simp

lemma find_set_miss:
  "dict_get d k = Some u \<Longrightarrow> \<not> P u \<Longrightarrow> \<not> P u' \<Longrightarrow>
   find P (map snd (dict_set k u' d)) = find P (map snd d)"
  by (induction d) (auto split: if_splits)

lemma find_unique:
  "distinct (map key xs) \<Longrightarrow> x \<in> set xs \<Longrightarrow> find (\<lambda>y. key y = key x) xs = Some x"
  by (induction xs) (auto simp: image_iff)

lemma find_append: "find P (xs @ ys) = (case find P xs of None \<Rightarrow> find P ys | Some x \<Rightarrow> Some x)"
  by (induction xs) auto

lemma dict_set_fresh: "dict_get d k = None \<Longrightarrow> dict_set k v d = d @ [(k, v)]"
  by (induction d) (auto split: if_splits)

lemma set_update_sub: "set (dict_set k v d) \<subseteq> insert (k, v) (set d)"
  by (induction d) auto

text \<open>The sum of a number over the values of a dictionary.\<close>

definition dict_sum :: "('v \<Rightarrow> int) \<Rightarrow> ('k, 'v) dict \<Rightarrow> int" where
  "dict_sum f d = sum_list (map (\<lambda>kv. f (snd kv)) d)"

lemma dict_sum_set: "dict_sum f (dict_set k v d) = dict_sum f d - (case dict_get d k of None \<Rightarrow> 0 | Some w \<Rightarrow> f w) + f v"
  by (induction d) (auto simp: dict_sum_def)

end
