(* ===== verification/PyVal.thy ===== *)
theory PyVal
  imports Prelude "HOL-Library.Sublist" "HOL-Library.Char_ord" "HOL-Library.List_Lexorder" Complex_Main
begin

text \<open>
  Python strings and JSON-shaped Python values. A string is a list of code points up to
  255 (Isabelle's \<open>char\<close>); the predicates below are Python's on that range. A value that
  \<open>json.loads\<close> can return is a \<open>pyval\<close>; conversions that raise return \<open>None\<close>.
\<close>

section \<open>Strings\<close>

definition ord_of :: "char \<Rightarrow> nat" where
  "ord_of c = of_char c"

definition py_isspace :: "char \<Rightarrow> bool" where
  "py_isspace c = (let n = ord_of c in
     (9 \<le> n \<and> n \<le> 13) \<or> (28 \<le> n \<and> n \<le> 32) \<or> n = 133 \<or> n = 160)"

definition py_isdigit :: "char \<Rightarrow> bool" where
  "py_isdigit c = (let n = ord_of c in 48 \<le> n \<and> n \<le> 57)"

text \<open>\<open>str.isalnum\<close> on one character: letters, decimal digits and the numeric signs of Latin-1.\<close>

definition py_isalnum :: "char \<Rightarrow> bool" where
  "py_isalnum c = (let n = ord_of c in
     (48 \<le> n \<and> n \<le> 57) \<or> (65 \<le> n \<and> n \<le> 90) \<or> (97 \<le> n \<and> n \<le> 122)
     \<or> n = 170 \<or> n = 178 \<or> n = 179 \<or> n = 181 \<or> n = 185 \<or> n = 186 \<or> n = 188 \<or> n = 189 \<or> n = 190
     \<or> (192 \<le> n \<and> n \<le> 214) \<or> (216 \<le> n \<and> n \<le> 246) \<or> (248 \<le> n \<and> n \<le> 255))"

definition py_lower_char :: "char \<Rightarrow> char" where
  "py_lower_char c = (let n = ord_of c in
     if (65 \<le> n \<and> n \<le> 90) \<or> (192 \<le> n \<and> n \<le> 222 \<and> n \<noteq> 215) then char_of (n + 32) else c)"

definition py_lower :: "string \<Rightarrow> string" where
  "py_lower s = map py_lower_char s"

text \<open>
  \<open>str.upper\<close>: the sharp s becomes two letters; the two letters whose capitals lie beyond code
  point 255 (the micro sign and the y with diaeresis) are left as they are.
\<close>

definition py_upper_char :: "char \<Rightarrow> string" where
  "py_upper_char c = (let n = ord_of c in
     if (97 \<le> n \<and> n \<le> 122) \<or> (224 \<le> n \<and> n \<le> 254 \<and> n \<noteq> 247) then [char_of (n - 32)]
     else if n = 223 then ''SS'' else [c])"

definition py_upper :: "string \<Rightarrow> string" where
  "py_upper s = concat (map py_upper_char s)"

definition py_lstrip :: "string \<Rightarrow> string" where
  "py_lstrip s = dropWhile py_isspace s"

definition py_rstrip :: "string \<Rightarrow> string" where
  "py_rstrip s = rev (dropWhile py_isspace (rev s))"

definition py_strip :: "string \<Rightarrow> string" where
  "py_strip s = py_rstrip (py_lstrip s)"

definition py_startswith :: "string \<Rightarrow> string \<Rightarrow> bool" where
  "py_startswith s p = (take (length p) s = p)"

definition py_endswith :: "string \<Rightarrow> string \<Rightarrow> bool" where
  "py_endswith s p = (length p \<le> length s \<and> drop (length s - length p) s = p)"

text \<open>\<open>s.split(sep)\<close> for a one-character separator: never empty, keeps empty pieces.\<close>

fun py_split :: "char \<Rightarrow> string \<Rightarrow> string list" where
  "py_split sep [] = [[]]"
| "py_split sep (c # s) =
     (if c = sep then [] # py_split sep s
      else (case py_split sep s of [] \<Rightarrow> [[c]] | p # ps \<Rightarrow> (c # p) # ps))"

text \<open>\<open>s.split()\<close>: the maximal runs of non-space characters.\<close>

fun py_split_ws :: "string \<Rightarrow> string list" where
  "py_split_ws [] = []"
| "py_split_ws (c # s) =
     (if py_isspace c then py_split_ws s
      else (case s of
          [] \<Rightarrow> [[c]]
        | d # _ \<Rightarrow>
            (if py_isspace d then [c] # py_split_ws s
             else (case py_split_ws s of [] \<Rightarrow> [[c]] | p # ps \<Rightarrow> (c # p) # ps))))"

definition line_break :: "char \<Rightarrow> bool" where
  "line_break c = (let n = ord_of c in (10 \<le> n \<and> n \<le> 13) \<or> (28 \<le> n \<and> n \<le> 30) \<or> n = 133)"

text \<open>\<open>splitlines\<close>: a carriage return and line feed are one break, and no empty last line.\<close>

fun py_splitlines :: "string \<Rightarrow> string list" where
  "py_splitlines [] = []"
| "py_splitlines (c # s) =
     (if line_break c then [] # py_splitlines (if ord_of c = 13 \<and> s \<noteq> [] \<and> ord_of (hd s) = 10 then tl s else s)
      else (case py_splitlines s of
          [] \<Rightarrow> [[c]]
        | l # ls \<Rightarrow> (case s of [] \<Rightarrow> [[c]] | d # _ \<Rightarrow> (c # l) # ls)))"

fun py_join :: "string \<Rightarrow> string list \<Rightarrow> string" where
  "py_join sep [] = []"
| "py_join sep [s] = s"
| "py_join sep (s # t # ts) = s @ sep @ py_join sep (t # ts)"

lemma py_split_nonempty [simp]: "py_split sep s \<noteq> []"
  by (induction s) (auto split: list.splits)

lemma py_join_split: "py_join [sep] (py_split sep s) = s"
proof (induction s)
  case (Cons c s)
  obtain p ps where split: "py_split sep s = p # ps"
    using py_split_nonempty by (metis list.exhaust)
  with Cons.IH show ?case by (cases ps) auto
qed simp

lemma py_split_no_sep: "x \<in> set (py_split sep s) \<Longrightarrow> sep \<notin> set x"
proof (induction s arbitrary: x)
  case (Cons c s)
  obtain p ps where split: "py_split sep s = p # ps"
    using py_split_nonempty by (metis list.exhaust)
  with Cons show ?case by (cases "c = sep") auto
qed simp

lemma py_startswith_iff: "py_startswith s p \<longleftrightarrow> prefix p s"
  by (auto simp: py_startswith_def prefix_def) (metis append_take_drop_id)

lemma py_endswith_iff: "py_endswith s p \<longleftrightarrow> suffix p s"
  by (auto simp: py_endswith_def suffix_def) (metis append_take_drop_id)

subsection \<open>Decimal numbers\<close>

fun show_nat :: "nat \<Rightarrow> string" where
  "show_nat n = (if n < 10 then [char_of (48 + n)] else show_nat (n div 10) @ [char_of (48 + n mod 10)])"

declare show_nat.simps [simp del]

definition show_int :: "int \<Rightarrow> string" where
  "show_int i = (if i < 0 then CHR ''-'' # show_nat (nat (- i)) else show_nat (nat i))"

definition digit_val :: "char \<Rightarrow> nat" where
  "digit_val c = ord_of c - 48"

definition digits_val :: "string \<Rightarrow> nat" where
  "digits_val s = foldl (\<lambda>n c. 10 * n + digit_val c) 0 s"

text \<open>
  The digit part of \<open>int(s)\<close>: digits, single underscores allowed between digits.
\<close>

fun int_digits :: "bool \<Rightarrow> nat \<Rightarrow> string \<Rightarrow> nat option" where
  "int_digits after_digit n [] = (if after_digit then Some n else None)"
| "int_digits after_digit n (c # s) =
     (if py_isdigit c then int_digits True (10 * n + digit_val c) s
      else if c = CHR ''_'' \<and> after_digit then int_digits False n s
      else None)"

text \<open>\<open>int(s)\<close> for a string; \<open>None\<close> is the \<open>ValueError\<close>.\<close>

definition py_int_str :: "string \<Rightarrow> int option" where
  "py_int_str s = (case py_strip s of
       [] \<Rightarrow> None
     | c # t \<Rightarrow>
         (if c = CHR ''-'' then map_option (\<lambda>n. - int n) (int_digits False 0 t)
          else if c = CHR ''+'' then map_option int (int_digits False 0 t)
          else map_option int (int_digits False 0 (c # t))))"

lemma digit_char [simp]: "d < 10 \<Longrightarrow> py_isdigit (char_of (48 + d)) \<and> digit_val (char_of (48 + d)) = d"
  by (simp add: py_isdigit_def digit_val_def ord_of_def Let_def)

lemma int_digits_digits:
  "\<forall>c \<in> set s. py_isdigit c \<Longrightarrow>
   int_digits a n s = (if a \<or> s \<noteq> [] then Some (foldl (\<lambda>n c. 10 * n + digit_val c) n s) else None)"
  by (induction s arbitrary: a n) auto

lemma show_nat_digits: "\<forall>c \<in> set (show_nat n). py_isdigit c"
proof (induction n rule: show_nat.induct)
  case (1 n)
  then show ?case
    by (cases "n < 10") (auto simp: show_nat.simps [of n])
qed

lemma show_nat_nonempty [simp]: "show_nat n \<noteq> []"
  by (simp add: show_nat.simps [of n])

lemma digits_val_show_nat: "digits_val (show_nat n) = n"
proof (induction n rule: show_nat.induct)
  case (1 n)
  then show ?case
    by (cases "n < 10") (auto simp: show_nat.simps [of n] digits_val_def)
qed

lemma digit_not_space: "py_isdigit c \<Longrightarrow> \<not> py_isspace c"
  by (auto simp: py_isdigit_def py_isspace_def Let_def)

lemma py_strip_id:
  assumes "s \<noteq> []" "\<not> py_isspace (hd s)" "\<not> py_isspace (last s)"
  shows "py_strip s = s"
proof -
  have l: "py_lstrip s = s"
    using assms(1,2) by (cases s) (auto simp: py_lstrip_def)
  have "rev s \<noteq> []" "\<not> py_isspace (hd (rev s))"
    using assms(1,3) by (simp_all add: hd_rev)
  then have "dropWhile py_isspace (rev s) = rev s"
    by (cases "rev s") auto
  then show ?thesis by (simp add: py_strip_def l py_rstrip_def)
qed


lemma last_show_nat_digit: "py_isdigit (last (show_nat n))"
  using show_nat_digits last_in_set show_nat_nonempty by blast

lemma int_digits_show_nat: "int_digits False 0 (show_nat n) = Some n"
  using int_digits_digits [OF show_nat_digits, of False 0 n] digits_val_show_nat [of n]
  by (simp add: digits_val_def)

lemma minus_not_space: "\<not> py_isspace (CHR ''-'')"
  by (simp add: py_isspace_def ord_of_def)

lemma py_int_show: "py_int_str (show_int i) = Some i"
proof (cases "i < 0")
  case True
  let ?s = "CHR ''-'' # show_nat (nat (- i))"
  have "py_strip ?s = ?s"
    by (rule py_strip_id) (simp_all add: minus_not_space digit_not_space last_show_nat_digit)
  then show ?thesis
    using True by (simp add: py_int_str_def show_int_def int_digits_show_nat)
next
  case False
  obtain c t where ct: "show_nat (nat i) = c # t"
    using show_nat_nonempty by (metis list.exhaust)
  have dig: "py_isdigit c"
    using show_nat_digits [of "nat i"] ct by simp
  then have sign: "c \<noteq> CHR ''-''" "c \<noteq> CHR ''+''"
    by (auto simp: py_isdigit_def ord_of_def Let_def)
  have "py_strip (c # t) = c # t"
    using dig last_show_nat_digit [of "nat i"] ct by (intro py_strip_id) (auto simp: digit_not_space)
  with False ct sign int_digits_show_nat [of "nat i"] show ?thesis
    by (simp add: py_int_str_def show_int_def)
qed

text \<open>\<open>os.path.basename\<close>: what follows the last slash.\<close>

definition py_basename :: "string \<Rightarrow> string" where
  "py_basename p = rev (takeWhile (\<lambda>c. c \<noteq> CHR ''/'') (rev p))"

lemma py_basename_no_slash: "CHR ''/'' \<notin> set (py_basename p)"
  by (auto simp: py_basename_def dest: set_takeWhileD)

section \<open>Values of \<open>json.loads\<close>\<close>

datatype pyval =
    PNone
  | PBool bool
  | PInt int
  | PFloat rat
  | PStr string
  | PList "pyval list"
  | PDict "(string \<times> pyval) list"

text \<open>Python truthiness, as \<open>x or y\<close> and \<open>if x\<close> use it.\<close>

fun truthy :: "pyval \<Rightarrow> bool" where
  "truthy PNone = False"
| "truthy (PBool b) = b"
| "truthy (PInt i) = (i \<noteq> 0)"
| "truthy (PFloat q) = (q \<noteq> 0)"
| "truthy (PStr s) = (s \<noteq> [])"
| "truthy (PList xs) = (xs \<noteq> [])"
| "truthy (PDict d) = (d \<noteq> [])"

definition py_or :: "pyval \<Rightarrow> pyval \<Rightarrow> pyval" where
  "py_or x y = (if truthy x then x else y)"

text \<open>\<open>int(x)\<close>; \<open>None\<close> is the \<open>TypeError\<close> or \<open>ValueError\<close>.\<close>

fun py_int :: "pyval \<Rightarrow> int option" where
  "py_int (PBool b) = Some (if b then 1 else 0)"
| "py_int (PInt i) = Some i"
| "py_int (PFloat q) = Some (if q < 0 then - \<lfloor>- q\<rfloor> else \<lfloor>q\<rfloor>)"
| "py_int (PStr s) = py_int_str s"
| "py_int _ = None"

text \<open>
  \<open>repr\<close> and \<open>str\<close>. The shortest decimal form of a float is the argument \<open>fr\<close>; a string's
  \<open>repr\<close> escapes the quote in use, the backslash and what is not printable.
\<close>

definition hex_digit :: "nat \<Rightarrow> char" where
  "hex_digit n = (if n < 10 then char_of (48 + n) else char_of (87 + n))"

definition repr_char :: "char \<Rightarrow> char \<Rightarrow> string" where
  "repr_char q c = (let n = ord_of c in
     if c = q \<or> n = 92 then [char_of (92::nat), c]
     else if n = 9 then [char_of (92::nat), CHR ''t'']
     else if n = 10 then [char_of (92::nat), CHR ''n'']
     else if n = 13 then [char_of (92::nat), CHR ''r'']
     else if n < 32 \<or> (127 \<le> n \<and> n \<le> 160) \<or> n = 173
       then [char_of (92::nat), CHR ''x'', hex_digit (n div 16), hex_digit (n mod 16)]
     else [c])"

definition quote1 :: char where "quote1 = char_of (39::nat)"
definition quote2 :: char where "quote2 = char_of (34::nat)"

definition py_repr_str :: "string \<Rightarrow> string" where
  "py_repr_str s = (let q = (if quote1 \<in> set s \<and> quote2 \<notin> set s then quote2 else quote1)
     in q # concat (map (repr_char q) s) @ [q])"

fun py_repr :: "(rat \<Rightarrow> string) \<Rightarrow> pyval \<Rightarrow> string" where
  "py_repr fr PNone = ''None''"
| "py_repr fr (PBool b) = (if b then ''True'' else ''False'')"
| "py_repr fr (PInt i) = show_int i"
| "py_repr fr (PFloat q) = fr q"
| "py_repr fr (PStr s) = py_repr_str s"
| "py_repr fr (PList xs) = ''['' @ py_join '', '' (map (py_repr fr) xs) @ '']''"
| "py_repr fr (PDict d) =
     ''{'' @ py_join '', '' (map (\<lambda>(k, v). py_repr_str k @ '': '' @ py_repr fr v) d) @ ''}''"

definition py_str :: "(rat \<Rightarrow> string) \<Rightarrow> pyval \<Rightarrow> string" where
  "py_str fr v = (case v of PStr s \<Rightarrow> s | _ \<Rightarrow> py_repr fr v)"

lemma py_str_PStr [simp]: "py_str fr (PStr s) = s"
  by (simp add: py_str_def)

text \<open>\<open>d.get(k)\<close> and \<open>d.get(k, default)\<close> on a JSON object.\<close>

definition obj_get :: "(string, pyval) dict \<Rightarrow> string \<Rightarrow> pyval" where
  "obj_get d k = (case dict_get d k of None \<Rightarrow> PNone | Some v \<Rightarrow> v)"

definition obj_get_or :: "(string, pyval) dict \<Rightarrow> string \<Rightarrow> pyval \<Rightarrow> pyval" where
  "obj_get_or d k dflt = (case dict_get d k of None \<Rightarrow> dflt | Some v \<Rightarrow> v)"


text \<open>Iteration over a value; \<open>None\<close> is the \<open>TypeError\<close> of a value that is not iterable.\<close>

fun py_iter :: "pyval \<Rightarrow> pyval list option" where
  "py_iter (PList xs) = Some xs"
| "py_iter (PStr s) = Some (map (\<lambda>c. PStr [c]) s)"
| "py_iter (PDict d) = Some (map (\<lambda>(k, _). PStr k) d)"
| "py_iter _ = None"

text \<open>Iteration that an exception of the step leaves.\<close>

fun map_opt :: "('a \<Rightarrow> 'b option) \<Rightarrow> 'a list \<Rightarrow> 'b list option" where
  "map_opt f [] = Some []"
| "map_opt f (x # xs) = (case f x of None \<Rightarrow> None | Some y \<Rightarrow> map_option ((#) y) (map_opt f xs))"

text \<open>\<open>isinstance(x, int)\<close>, which holds of booleans too, and the number such a value stands for.\<close>

fun is_int :: "pyval \<Rightarrow> bool" where
  "is_int (PInt _) = True"
| "is_int (PBool _) = True"
| "is_int _ = False"

fun as_int :: "pyval \<Rightarrow> int" where
  "as_int (PInt i) = i"
| "as_int (PBool b) = (if b then 1 else 0)"
| "as_int _ = 0"

fun is_str :: "pyval \<Rightarrow> bool" where
  "is_str (PStr _) = True"
| "is_str _ = False"

fun is_bool :: "pyval \<Rightarrow> bool" where
  "is_bool (PBool _) = True"
| "is_bool _ = False"

fun str_of :: "pyval \<Rightarrow> string" where
  "str_of (PStr s) = s"
| "str_of _ = []"

fun hashable :: "pyval \<Rightarrow> bool" where
  "hashable (PList _) = False"
| "hashable (PDict _) = False"
| "hashable _ = True"

lemma str_hashable: "is_str x \<Longrightarrow> hashable x"
  by (cases x) simp_all

text \<open>The number a value stands for in a comparison, and a value as a JSON object.\<close>

fun num_val :: "pyval \<Rightarrow> rat option" where
  "num_val (PBool b) = Some (if b then 1 else 0)"
| "num_val (PInt i) = Some (of_int i)"
| "num_val (PFloat q) = Some q"
| "num_val _ = None"

fun as_dict :: "pyval \<Rightarrow> (string, pyval) dict option" where
  "as_dict (PDict d) = Some d"
| "as_dict _ = None"

text \<open>\<open>sorted\<close>, on texts or on numbers; of other values the model orders none.\<close>

definition py_sorted :: "pyval list \<Rightarrow> pyval list option" where
  "py_sorted xs =
     (if length xs \<le> 1 then Some xs
      else if list_all is_str xs then Some (map PStr (sort (map str_of xs)))
      else if list_all (\<lambda>x. num_val x \<noteq> None) xs then Some (sort_key (\<lambda>x. the (num_val x)) xs)
      else None)"

text \<open>Exceptions that leave a function, where the model follows them.\<close>

datatype py_exc = TypeError | ValueError | KeyError | IndexError | AttributeError | StructError | OSError | IntegrityError

end
