(* ===== verification/ExclusiveCapture.thy ===== *)
theory ExclusiveCapture
  imports PyVal
begin

text \<open>
  The contract that both registries of running captures share: the web application's lock
  table (\<open>marlinspike/capture/sessions.py\<close>) and the privileged daemon's session table
  (\<open>marlinspike-capd/capd/server.py\<close>). A named interface carries at most one capture, and a
  capture on the pseudo-interface \<open>any\<close> excludes every other one.
\<close>

definition clash :: "string \<Rightarrow> string \<Rightarrow> bool" where
  "clash i j \<longleftrightarrow> i = j \<or> i = ''any'' \<or> j = ''any''"

definition exclusive :: "(string \<times> 'i) set \<Rightarrow> bool" where
  "exclusive H \<longleftrightarrow> (\<forall>i a j b. (i, a) \<in> H \<longrightarrow> (j, b) \<in> H \<longrightarrow> a \<noteq> b \<longrightarrow> \<not> clash i j)"

lemma clash_sym: "clash i j \<longleftrightarrow> clash j i"
  by (auto simp: clash_def)

lemma exclusive_empty [simp]: "exclusive {}"
  by (simp add: exclusive_def)

lemma exclusive_subset: "exclusive H \<Longrightarrow> G \<subseteq> H \<Longrightarrow> exclusive G"
  unfolding exclusive_def by blast

lemma exclusive_insert:
  assumes "exclusive H" and "\<And>j b. (j, b) \<in> H \<Longrightarrow> b \<noteq> a \<Longrightarrow> \<not> clash i j"
  shows "exclusive (insert (i, a) H)"
  using assms clash_sym unfolding exclusive_def by blast

datatype 'i capture_event = Acquire string 'i | Release string 'i

locale exclusive_capture =
  fixes ok :: "'s \<Rightarrow> bool"
    and good :: "'i \<Rightarrow> bool"
    and held :: "'s \<Rightarrow> (string \<times> 'i) set"
    and acquire :: "string \<Rightarrow> 'i \<Rightarrow> 's \<Rightarrow> 's option"
    and release :: "string \<Rightarrow> 'i \<Rightarrow> 's \<Rightarrow> 's"
  assumes ok_acquire: "ok s \<Longrightarrow> good a \<Longrightarrow> acquire i a s = Some s' \<Longrightarrow> ok s'"
    and ok_release: "ok s \<Longrightarrow> ok (release i a s)"
    and acquire_held: "ok s \<Longrightarrow> good a \<Longrightarrow> acquire i a s = Some s' \<Longrightarrow> held s' = insert (i, a) (held s)"
    and acquire_clear: "ok s \<Longrightarrow> good a \<Longrightarrow> acquire i a s = Some s' \<Longrightarrow> (j, b) \<in> held s \<Longrightarrow> b \<noteq> a \<Longrightarrow>
       \<not> clash i j"
    and release_held: "ok s \<Longrightarrow> held (release i a s) \<subseteq> held s"
    and release_other: "ok s \<Longrightarrow> (j, b) \<in> held s \<Longrightarrow> b \<noteq> a \<Longrightarrow> (j, b) \<in> held (release i a s)"
    and release_gone: "ok s \<Longrightarrow> (i, a) \<notin> held (release i a s)"
begin

text \<open>A refused request leaves the registry as it was, as both handlers do.\<close>

fun handle :: "'s \<Rightarrow> 'i capture_event \<Rightarrow> 's" where
  "handle s (Acquire i a) = (case acquire i a s of None \<Rightarrow> s | Some s' \<Rightarrow> s')"
| "handle s (Release i a) = release i a s"

fun event_good :: "'i capture_event \<Rightarrow> bool" where
  "event_good (Acquire i a) = good a"
| "event_good (Release i a) = True"

definition run_events :: "'s \<Rightarrow> 'i capture_event list \<Rightarrow> 's" where
  "run_events s es = foldl handle s es"

lemma handle_invariant:
  assumes "ok s" "exclusive (held s)" "event_good e"
  shows "ok (handle s e) \<and> exclusive (held (handle s e))"
proof (cases e)
  case (Acquire i a)
  show ?thesis
  proof (cases "acquire i a s")
    case None
    with Acquire assms show ?thesis by simp
  next
    case (Some s')
    with Acquire assms have "good a" by simp
    note facts = assms(1) this Some
    have "exclusive (insert (i, a) (held s))"
      using assms(2) acquire_clear [OF facts] by (rule exclusive_insert)
    with Acquire Some facts show ?thesis
      by (simp add: acquire_held [OF facts] ok_acquire [OF facts])
  qed
next
  case (Release i a)
  with ok_release [OF assms(1)] exclusive_subset [OF assms(2) release_held [OF assms(1)]]
  show ?thesis by simp
qed

lemma run_events_exclusive:
  "ok s \<Longrightarrow> exclusive (held s) \<Longrightarrow> list_all event_good es \<Longrightarrow>
   ok (run_events s es) \<and> exclusive (held (run_events s es))"
proof (induction es arbitrary: s)
  case Nil
  then show ?case by (simp add: run_events_def)
next
  case (Cons e es)
  then have "ok (handle s e) \<and> exclusive (held (handle s e))"
    by (intro handle_invariant) simp_all
  with Cons show ?case by (simp add: run_events_def)
qed

lemma any_is_alone:
  assumes "exclusive (held s)" "(''any'', a) \<in> held s" "(j, b) \<in> held s"
  shows "b = a"
  using assms unfolding exclusive_def clash_def by blast

end

text \<open>A registry that refuses only because of a clash with a capture it holds.\<close>

locale exclusive_capture_fair = exclusive_capture +
  assumes refused_clash: "ok s \<Longrightarrow> good a \<Longrightarrow> acquire i a s = None \<Longrightarrow> \<exists>j b. (j, b) \<in> held s \<and> clash i j"
begin

lemma free_granted:
  assumes "ok s" "good a" "\<And>j b. (j, b) \<in> held s \<Longrightarrow> \<not> clash i j"
  shows "\<exists>s'. acquire i a s = Some s'"
  using assms refused_clash by (cases "acquire i a s") blast+

lemma release_makes_room:
  assumes "ok s" "good b" "held s = {(i, a)}" 
  shows "\<exists>s'. acquire j b (release i a s) = Some s'"
proof (rule free_granted)
  show "ok (release i a s)" using assms(1) by (rule ok_release)
next
  show "good b" by (rule assms(2))
next
  fix k c assume "(k, c) \<in> held (release i a s)"
  then have "(k, c) \<in> held s" and "(k, c) \<noteq> (i, a)"
    using release_held release_gone assms(1) by blast+
  with assms(3) show "\<not> clash j k" by simp
qed

end

end
