(* ===== verification/CaptureSessions.thy ===== *)
theory CaptureSessions
  imports ExclusiveCapture
begin

text \<open>
  \<open>marlinspike/capture/sessions.py\<close>: the statistics hub of one local capture session (a
  worker that reads capd's frame stream, fans it out to subscribers and calls the rotation
  and finish listeners), and the per-process manager with its interface lock table.
\<close>

section \<open>The statistics hub\<close>

type_synonym frame = "(string, pyval) dict"

definition frame_running :: "frame \<Rightarrow> bool" where
  "frame_running f = truthy (obj_get_or f ''running'' (PBool True))"

text \<open>
  \<open>frame.get("files_closed") or ()\<close>, as the loop iterates it: a list gives its elements, a
  string its characters, an object its keys; \<open>None\<close> is the \<open>TypeError\<close> for a number.
\<close>

definition frame_files :: "frame \<Rightarrow> pyval list option" where
  "frame_files f = (let v = obj_get f ''files_closed'' in
     if \<not> truthy v then Some [] else py_iter v)"

text \<open>\<open>deque(maxlen=n).append(x)\<close>: the oldest element falls off.\<close>

definition deque_append :: "nat \<Rightarrow> 'a \<Rightarrow> 'a list \<Rightarrow> 'a list" where
  "deque_append n x q = (let q' = q @ [x] in drop (length q' - n) q')"

definition replay_buffer :: nat where "replay_buffer = 8"
definition subscriber_queue :: nat where "subscriber_queue = 64"

record subscriber =
  sub_id :: nat
  queue :: "frame list"
  closed :: bool

text \<open>The calls a hub makes to the functions registered with it, in order.\<close>

datatype hub_call =
    FileClosed nat pyval
  | Finished nat "frame option"

record hub =
  session_uuid :: string
  hub_thread :: bool
  stop_event :: bool
  subscribers :: "subscriber list"
  file_listeners :: "nat list"
  finished_listeners :: "nat list"
  last_frames :: "frame list"
  hub_running :: bool
  final_frame :: "frame option"
  calls :: "hub_call list"

definition new_hub :: "string \<Rightarrow> hub" where
  "new_hub uuid = \<lparr>session_uuid = uuid, hub_thread = False, stop_event = False, subscribers = [],
     file_listeners = [], finished_listeners = [], last_frames = [], hub_running = False,
     final_frame = None, calls = []\<rparr>"

definition hub_start :: "hub \<Rightarrow> hub" where
  "hub_start h = (if hub_thread h then h else h\<lparr>hub_running := True, hub_thread := True\<rparr>)"

definition close_all :: "hub \<Rightarrow> hub" where
  "close_all h = h\<lparr>subscribers := map (\<lambda>s. s\<lparr>closed := True\<rparr>) (subscribers h)\<rparr>"

definition hub_shutdown :: "hub \<Rightarrow> hub" where
  "hub_shutdown h = close_all (h\<lparr>stop_event := True\<rparr>)"

definition last_frame :: "hub \<Rightarrow> frame option" where
  "last_frame h = (if last_frames h = [] then None else Some (last (last_frames h)))"

definition add_file_listener :: "nat \<Rightarrow> hub \<Rightarrow> hub" where
  "add_file_listener fn h = h\<lparr>file_listeners := file_listeners h @ [fn]\<rparr>"

definition add_finished_listener :: "nat \<Rightarrow> hub \<Rightarrow> hub" where
  "add_finished_listener fn h = h\<lparr>finished_listeners := finished_listeners h @ [fn]\<rparr>"

text \<open>
  \<open>subscribe()\<close>: registration with the replay of the recent frames, the frames one waiting
  client takes from its queue in one round (with whether its generator then returns), and
  the deregistration of the \<open>finally\<close> block.
\<close>

definition subscribe :: "nat \<Rightarrow> hub \<Rightarrow> hub" where
  "subscribe i h = h\<lparr>subscribers := subscribers h @
     [\<lparr>sub_id = i, queue = foldl (\<lambda>q f. deque_append subscriber_queue f q) [] (last_frames h), closed = False\<rparr>]\<rparr>"

definition is_final_stats :: "frame \<Rightarrow> bool" where
  "is_final_stats f \<longleftrightarrow> \<not> frame_running f \<and> obj_get f ''type'' = PStr ''stats''"

fun drain :: "frame list \<Rightarrow> frame list \<times> frame list \<times> bool" where
  "drain [] = ([], [], False)"
| "drain (f # q) =
     (if is_final_stats f then ([f], q, True)
      else let (ys, rest, stop) = drain q in (f # ys, rest, stop))"

definition subscriber_round :: "subscriber \<Rightarrow> frame list \<times> subscriber \<times> bool" where
  "subscriber_round s =
     (if closed s \<and> queue s = [] then ([], s, True)
      else let (ys, rest, stop) = drain (queue s) in (ys, s\<lparr>queue := rest\<rparr>, stop))"

definition unsubscribe :: "nat \<Rightarrow> hub \<Rightarrow> hub" where
  "unsubscribe i h = h\<lparr>subscribers := filter (\<lambda>s. sub_id s \<noteq> i) (subscribers h)\<rparr>"

definition broadcast :: "frame \<Rightarrow> hub \<Rightarrow> hub" where
  "broadcast f h = h\<lparr>subscribers := map (\<lambda>s. if closed s then s
      else s\<lparr>queue := deque_append subscriber_queue f (queue s)\<rparr>) (subscribers h)\<rparr>"

text \<open>\<open>_handle_frame\<close>; the flag tells that it raised. A crashing listener is caught and logged.\<close>

definition handle_frame :: "frame \<Rightarrow> hub \<Rightarrow> hub \<times> bool" where
  "handle_frame f h =
     (let h1 = h\<lparr>last_frames := deque_append replay_buffer f (last_frames h)\<rparr> in
      case frame_files f of
        None \<Rightarrow> (h1, True)
      | Some paths \<Rightarrow>
          (broadcast f (h1\<lparr>calls := calls h1 @
             concat (map (\<lambda>p. map (\<lambda>fn. FileClosed fn p) (file_listeners h1)) paths)\<rparr>), False))"

text \<open>
  The frame stream that capd serves is outside this process: each frame comes with whether
  the stop event is set when it is read, and the stream ends by itself, with capd gone, with
  an error reply, or with any other exception.
\<close>

datatype stream_end = Exhausted | Unavailable string | ErrorReply string | Crashed

definition error_frame :: "string \<Rightarrow> rat \<Rightarrow> hub \<Rightarrow> frame" where
  "error_frame msg now h = [(''type'', PStr ''error''), (''error'', PStr msg),
     (''session_id'', PStr (session_uuid h)), (''running'', PBool False), (''ts'', PFloat now)]"

fun hub_loop :: "(bool \<times> frame) list \<Rightarrow> stream_end \<Rightarrow> rat \<Rightarrow> hub \<Rightarrow> hub" where
  "hub_loop [] e now h = (case e of
       Unavailable m \<Rightarrow> broadcast (error_frame (''capd unavailable: '' @ m) now h) h
     | ErrorReply m \<Rightarrow> broadcast (error_frame m now h) h
     | _ \<Rightarrow> h)"
| "hub_loop ((stop, f) # fs) e now h =
     (if stop then h
      else let (h', crashed) = handle_frame f h in
        if crashed then h'
        else if \<not> frame_running f then h'\<lparr>final_frame := Some f\<rparr>
        else hub_loop fs e now h')"

definition hub_finish :: "hub \<Rightarrow> hub" where
  "hub_finish h =
     (let h1 = close_all (h\<lparr>hub_running := False\<rparr>) in
      h1\<lparr>calls := calls h1 @ map (\<lambda>fn. Finished fn (final_frame h1)) (finished_listeners h1)\<rparr>)"

definition hub_run :: "(bool \<times> frame) list \<Rightarrow> stream_end \<Rightarrow> rat \<Rightarrow> hub \<Rightarrow> hub" where
  "hub_run fs e now h = hub_finish (hub_loop fs e now h)"

subsection \<open>Lemmas on the hub\<close>

lemma length_deque_append: "length (deque_append n x q) \<le> n"
  by (simp add: deque_append_def Let_def)

lemma deque_append_room: "length q < n \<Longrightarrow> deque_append n x q = q @ [x]"
  by (simp add: deque_append_def Let_def)

lemma last_deque_append: "0 < n \<Longrightarrow> deque_append n x q \<noteq> [] \<and> last (deque_append n x q) = x"
  by (simp add: deque_append_def Let_def)

definition hub_bounded :: "hub \<Rightarrow> bool" where
  "hub_bounded h \<longleftrightarrow> length (last_frames h) \<le> replay_buffer
     \<and> (\<forall>s \<in> set (subscribers h). length (queue s) \<le> subscriber_queue)"

named_theorems hub_defs \<open>operations of the hub\<close>
declare hub_start_def [hub_defs] close_all_def [hub_defs] hub_shutdown_def [hub_defs]
  broadcast_def [hub_defs] hub_finish_def [hub_defs]

lemma broadcast_fields [simp]:
  "finished_listeners (broadcast f h) = finished_listeners h"
  "file_listeners (broadcast f h) = file_listeners h"
  "calls (broadcast f h) = calls h"
  "final_frame (broadcast f h) = final_frame h"
  "last_frames (broadcast f h) = last_frames h"
  "session_uuid (broadcast f h) = session_uuid h"
  by (simp_all add: broadcast_def)

lemma broadcast_bounded: "hub_bounded h \<Longrightarrow> hub_bounded (broadcast f h)"
  by (auto simp: hub_bounded_def broadcast_def length_deque_append)

lemma handle_frame_bounded:
  assumes "hub_bounded h" "handle_frame f h = (h', c)"
  shows "hub_bounded h'"
proof -
  let ?h1 = "h\<lparr>last_frames := deque_append replay_buffer f (last_frames h)\<rparr>"
  have "hub_bounded ?h1"
    using assms(1) by (simp add: hub_bounded_def length_deque_append)
  moreover from this have "hub_bounded (?h1\<lparr>calls := cs\<rparr>)" for cs
    by (simp add: hub_bounded_def)
  ultimately show ?thesis
    using assms(2) by (auto simp: handle_frame_def Let_def split: option.splits intro: broadcast_bounded)
qed

lemma handle_frame_listeners:
  assumes "handle_frame f h = (h', c)"
  shows "finished_listeners h' = finished_listeners h \<and> file_listeners h' = file_listeners h
     \<and> final_frame h' = final_frame h"
  using assms by (auto simp: handle_frame_def Let_def split: option.splits)

lemma hub_loop_bounded: "hub_bounded h \<Longrightarrow> hub_bounded (hub_loop fs e now h)"
proof (induction fs e now h rule: hub_loop.induct)
  case (1 e now h)
  then show ?case by (auto intro: broadcast_bounded split: stream_end.split)
next
  case (2 stop f fs e now h)
  obtain h' c where hf: "handle_frame f h = (h', c)" by force
  have "hub_bounded h'" using "2.prems" hf by (rule handle_frame_bounded)
  then have "hub_bounded (h'\<lparr>final_frame := x\<rparr>)" for x by (simp add: hub_bounded_def)
  with "2.prems" "2.IH" hf \<open>hub_bounded h'\<close> show ?case by auto
qed

lemma hub_finish_bounded: "hub_bounded h \<Longrightarrow> hub_bounded (hub_finish h)"
  by (auto simp: hub_bounded_def hub_finish_def close_all_def Let_def)

definition finished_calls :: "hub_call list \<Rightarrow> (nat \<times> frame option) list" where
  "finished_calls cs = concat (map (\<lambda>c. case c of Finished fn f \<Rightarrow> [(fn, f)] | _ \<Rightarrow> []) cs)"

definition file_calls :: "hub_call list \<Rightarrow> (nat \<times> pyval) list" where
  "file_calls cs = concat (map (\<lambda>c. case c of FileClosed fn p \<Rightarrow> [(fn, p)] | _ \<Rightarrow> []) cs)"

lemma finished_calls_append [simp]: "finished_calls (a @ b) = finished_calls a @ finished_calls b"
  by (simp add: finished_calls_def)

lemma file_calls_append [simp]: "file_calls (a @ b) = file_calls a @ file_calls b"
  by (simp add: file_calls_def)

lemma finished_calls_Finished [simp]: "finished_calls (map (\<lambda>fn. Finished fn f) fns) = map (\<lambda>fn. (fn, f)) fns"
  by (induction fns) (auto simp: finished_calls_def)

lemma file_calls_Finished [simp]: "file_calls (map (\<lambda>fn. Finished fn f) fns) = []"
  by (induction fns) (auto simp: file_calls_def)

lemma finished_calls_FileClosed [simp]:
  "finished_calls (concat (map (\<lambda>p. map (\<lambda>fn. FileClosed fn p) fns) ps)) = []"
proof (induction ps)
  case (Cons p ps)
  have "finished_calls (map (\<lambda>fn. FileClosed fn p) fns) = []"
    by (induction fns) (auto simp: finished_calls_def)
  with Cons show ?case by simp
qed (simp add: finished_calls_def)

lemma file_calls_FileClosed [simp]:
  "file_calls (concat (map (\<lambda>p. map (\<lambda>fn. FileClosed fn p) fns) ps)) = concat (map (\<lambda>p. map (\<lambda>fn. (fn, p)) fns) ps)"
proof (induction ps)
  case (Cons p ps)
  have "file_calls (map (\<lambda>fn. FileClosed fn p) fns) = map (\<lambda>fn. (fn, p)) fns"
    by (induction fns) (auto simp: file_calls_def)
  with Cons show ?case by simp
qed (simp add: file_calls_def)

lemma hub_loop_finished:
  "finished_calls (calls (hub_loop fs e now h)) = finished_calls (calls h)
   \<and> finished_listeners (hub_loop fs e now h) = finished_listeners h"
proof (induction fs e now h rule: hub_loop.induct)
  case (1 e now h)
  then show ?case by (cases e) auto
next
  case (2 stop f fs e now h)
  obtain h' c where hf: "handle_frame f h = (h', c)" by force
  have "finished_calls (calls h') = finished_calls (calls h)"
    using hf by (auto simp: handle_frame_def Let_def split: option.splits)
  with "2.IH" hf handle_frame_listeners [OF hf] show ?case by auto
qed


fun take_final :: "frame list \<Rightarrow> frame list" where
  "take_final [] = []"
| "take_final (f # fs) = (if frame_running f then f # take_final fs else [f])"

definition frame_calls :: "nat list \<Rightarrow> frame \<Rightarrow> (nat \<times> pyval) list" where
  "frame_calls fns f = concat (map (\<lambda>p. map (\<lambda>fn. (fn, p)) fns) (case frame_files f of None \<Rightarrow> [] | Some ps \<Rightarrow> ps))"

lemma handle_frame_calls:
  assumes "handle_frame f h = (h', c)" "frame_files f \<noteq> None"
  shows "\<not> c \<and> file_calls (calls h') = file_calls (calls h) @ frame_calls (file_listeners h) f"
  using assms by (auto simp: handle_frame_def Let_def frame_calls_def split: option.splits)

lemma hub_loop_clean:
  assumes "list_all (\<lambda>(stop, f). \<not> stop \<and> frame_files f \<noteq> None) fs" "final_frame h = None"
  shows "final_frame (hub_loop fs e now h) = find (\<lambda>f. \<not> frame_running f) (map snd fs)
     \<and> file_calls (calls (hub_loop fs e now h)) =
        file_calls (calls h) @ concat (map (frame_calls (file_listeners h)) (take_final (map snd fs)))"
  using assms
proof (induction fs e now h rule: hub_loop.induct)
  case (1 e now h)
  then show ?case by (cases e) auto
next
  case (2 stop f fs e now h)
  obtain h' c where hf: "handle_frame f h = (h', c)" by force
  have files: "frame_files f \<noteq> None" and go: "\<not> stop" using "2.prems" by auto
  note calls = handle_frame_calls [OF hf files] and same = handle_frame_listeners [OF hf]
  show ?case
  proof (cases "frame_running f")
    case True
    have "final_frame h' = None" using same "2.prems" by simp
    with "2.IH" [of "(h', c)" h' c] "2.prems" hf calls same go True show ?thesis by auto
  next
    case False
    with hf calls same go show ?thesis by auto
  qed
qed

section \<open>The session manager\<close>

record manager =
  hubs :: "(string, hub) dict"
  iface_locks :: "(string, string) dict"

definition new_manager :: manager where
  "new_manager = \<lparr>hubs = [], iface_locks = []\<rparr>"

text \<open>\<open>acquire_interface\<close> returns \<open>None\<close> on success and the holder's session otherwise.\<close>

definition acquire_interface :: "string \<Rightarrow> string \<Rightarrow> manager \<Rightarrow> string option \<times> manager" where
  "acquire_interface interface uuid m =
     (let locks = iface_locks m; holder = dict_get locks interface in
      case holder of
        Some h \<Rightarrow>
          if h \<noteq> [] \<and> h \<noteq> uuid then (Some h, m)
          else if interface = ''any'' \<and> list_ex (\<lambda>(k, _). k \<noteq> ''any'') locks then (Some (snd (hd locks)), m)
          else if interface \<noteq> ''any'' \<and> dict_get locks ''any'' \<noteq> None then (dict_get locks ''any'', m)
          else (None, m\<lparr>iface_locks := dict_set interface uuid locks\<rparr>)
      | None \<Rightarrow>
          if interface = ''any'' \<and> list_ex (\<lambda>(k, _). k \<noteq> ''any'') locks then (Some (snd (hd locks)), m)
          else if interface \<noteq> ''any'' \<and> dict_get locks ''any'' \<noteq> None then (dict_get locks ''any'', m)
          else (None, m\<lparr>iface_locks := dict_set interface uuid locks\<rparr>))"

definition release_interface :: "string \<Rightarrow> string \<Rightarrow> manager \<Rightarrow> manager" where
  "release_interface interface uuid m =
     (if dict_get (iface_locks m) interface = Some uuid
      then m\<lparr>iface_locks := dict_pop interface (iface_locks m)\<rparr> else m)"

definition register_hub :: "hub \<Rightarrow> manager \<Rightarrow> manager" where
  "register_hub h m = m\<lparr>hubs := dict_set (session_uuid h) h (hubs m)\<rparr>"

definition get_hub :: "string \<Rightarrow> manager \<Rightarrow> hub option" where
  "get_hub uuid m = dict_get (hubs m) uuid"

definition drop_hub :: "string \<Rightarrow> manager \<Rightarrow> hub option \<times> manager" where
  "drop_hub uuid m = (dict_get (hubs m) uuid, m\<lparr>hubs := dict_pop uuid (hubs m)\<rparr>)"

definition active_session_count :: "manager \<Rightarrow> nat" where
  "active_session_count m = length (filter (\<lambda>(_, h). hub_running h) (hubs m))"

text \<open>The lock table as a registry of exclusive captures.\<close>

definition locks_ok :: "manager \<Rightarrow> bool" where
  "locks_ok m \<longleftrightarrow> dict_ok (iface_locks m) \<and> [] \<notin> snd ` set (iface_locks m)"

definition locks_held :: "manager \<Rightarrow> (string \<times> string) set" where
  "locks_held m = set (iface_locks m)"

definition locks_acquire :: "string \<Rightarrow> string \<Rightarrow> manager \<Rightarrow> manager option" where
  "locks_acquire i a m = (case acquire_interface i a m of (None, m') \<Rightarrow> Some m' | _ \<Rightarrow> None)"

lemma locks_get: "locks_ok m \<Longrightarrow> dict_get (iface_locks m) i = Some a \<longleftrightarrow> (i, a) \<in> locks_held m"
  by (simp add: locks_ok_def locks_held_def dict_get_mem)

text \<open>What a granted request has checked, and what it stores.\<close>

lemma acquire_granted:
  assumes "locks_ok m" "locks_acquire i a m = Some m'"
  shows "m' = m\<lparr>iface_locks := dict_set i a (iface_locks m)\<rparr>
     \<and> dict_get (iface_locks m) i \<in> {None, Some a}
     \<and> (\<forall>j b. (j, b) \<in> locks_held m \<longrightarrow> b \<noteq> a \<longrightarrow> \<not> clash i j)"
proof -
  let ?L = "iface_locks m"
  have names: "dict_get ?L i = Some b \<Longrightarrow> b \<noteq> []" for b
    using assms(1) map_of_SomeD [of ?L i b] by (force simp: locks_ok_def)
  have granted: "m' = m\<lparr>iface_locks := dict_set i a ?L\<rparr>"
    and free: "dict_get ?L i \<in> {None, Some a}"
    and any1: "i = ''any'' \<longrightarrow> \<not> list_ex (\<lambda>(k, _). k \<noteq> ''any'') ?L"
    and any2: "i \<noteq> ''any'' \<longrightarrow> dict_get ?L ''any'' = None"
    using assms(2) names
    by (auto simp: locks_acquire_def acquire_interface_def Let_def split: option.splits if_splits)
  have "\<not> clash i j" if held: "(j, b) \<in> locks_held m" and other: "b \<noteq> a" for j b
  proof -
    have jb: "dict_get ?L j = Some b" using held assms(1) by (simp add: locks_get)
    then have "i \<noteq> j" using free other by auto
    moreover have "i \<noteq> ''any''"
      using any1 held \<open>i \<noteq> j\<close> by (auto simp: locks_held_def list_ex_iff)
    moreover have "j \<noteq> ''any''" using any2 jb calculation(2) by auto
    ultimately show ?thesis by (simp add: clash_def)
  qed
  with granted free show ?thesis by blast
qed

lemma locks_held_set:
  assumes "locks_ok m" "dict_get (iface_locks m) i \<in> {None, Some a}"
  shows "set (dict_set i a (iface_locks m)) = insert (i, a) (locks_held m)"
proof -
  have ok: "dict_ok (iface_locks m)" using assms(1) by (simp add: locks_ok_def)
  have "b = a" if "(i, b) \<in> locks_held m" for b
    using that assms(2) by (auto simp: locks_get [OF assms(1), symmetric])
  then show ?thesis
    unfolding set_dict_set [OF ok] by (auto simp: locks_held_def [symmetric])
qed

lemma release_locks:
  assumes "locks_ok m"
  shows "locks_held (release_interface i a m) = locks_held m - {(i, a)}"
proof (cases "dict_get (iface_locks m) i = Some a")
  case True
  then have "(i, b) \<in> locks_held m \<Longrightarrow> b = a" for b
    using True by (simp add: locks_get [OF assms, symmetric])
  then have "{p \<in> locks_held m. fst p \<noteq> i} = locks_held m - {(i, a)}"
    by (fastforce simp: True locks_get [OF assms, symmetric])
  with True show ?thesis
    by (simp add: release_interface_def locks_held_def set_dict_pop)
next
  case False
  with locks_get [OF assms] show ?thesis by (simp add: release_interface_def)
qed

lemma release_ok: "locks_ok m \<Longrightarrow> locks_ok (release_interface i a m)"
  by (auto simp: locks_ok_def release_interface_def set_dict_pop)

interpretation locks: exclusive_capture_fair locks_ok "\<lambda>a. a \<noteq> []" locks_held locks_acquire release_interface
proof unfold_locales
  fix m m' :: manager and i a :: string
  assume ok: "locks_ok m" and a: "a \<noteq> []" and acq: "locks_acquire i a m = Some m'"
  note g = acquire_granted [OF ok acq]
  note stored = locks_held_set [OF ok g [THEN conjunct2, THEN conjunct1]]
  show "locks_held m' = insert (i, a) (locks_held m)"
    using g stored by (simp add: locks_held_def)
  show "locks_ok m'"
    using g stored ok a by (auto simp: locks_ok_def locks_held_def)
next
  fix m m' :: manager and i a j b :: string
  assume "locks_ok m" "locks_acquire i a m = Some m'" "(j, b) \<in> locks_held m" "b \<noteq> a"
  then show "\<not> clash i j" using acquire_granted by blast
next
  fix m :: manager and i a :: string
  assume ok: "locks_ok m" and refused: "locks_acquire i a m = None"
  show "\<exists>j b. (j, b) \<in> locks_held m \<and> clash i j"
  proof (rule ccontr)
    assume none: "\<not> ?thesis"
    then have "dict_get (iface_locks m) i = None" "dict_get (iface_locks m) ''any'' = None"
      using ok locks_get [of m i] locks_get [of m "''any''"]
      by (auto simp: clash_def) (metis not_None_eq)+
    moreover have "i = ''any'' \<Longrightarrow> iface_locks m = []"
      using none by (cases "iface_locks m") (auto simp: clash_def locks_held_def)
    ultimately show False using refused
      by (auto simp: locks_acquire_def acquire_interface_def Let_def split: if_splits)
  qed
qed (simp_all add: release_locks release_ok)


text \<open>The lock table over a sequence of requests of the two routes and the finish callback.\<close>

fun manager_event :: "manager \<Rightarrow> string capture_event \<Rightarrow> manager" where
  "manager_event m (Acquire i a) = snd (acquire_interface i a m)"
| "manager_event m (Release i a) = release_interface i a m"

fun event_session :: "string capture_event \<Rightarrow> string" where
  "event_session (Acquire i a) = a"
| "event_session (Release i a) = a"

lemma refused_unchanged: "acquire_interface i a m = (Some h, m') \<Longrightarrow> m' = m"
  by (auto simp: acquire_interface_def Let_def split: option.splits if_splits)

lemma refused_holder:
  assumes "acquire_interface i a m = (Some h, m')"
  shows "dict_get (iface_locks m) i = Some h \<or> dict_get (iface_locks m) ''any'' = Some h
     \<or> i = ''any'' \<and> iface_locks m \<noteq> [] \<and> h = snd (hd (iface_locks m))"
proof -
  have "list_ex P xs \<Longrightarrow> xs \<noteq> []" for P and xs :: "(string \<times> string) list" by auto
  with assms show ?thesis
    unfolding acquire_interface_def Let_def by (simp split: option.splits if_splits) blast+
qed

lemma manager_event_handle: "manager_event m e = locks.handle m e"
  by (cases e) (auto simp: locks_acquire_def refused_unchanged split: prod.splits option.splits)

lemma manager_events_run: "foldl manager_event m es = locks.run_events m es"
  by (simp add: locks.run_events_def manager_event_handle cong: foldl_cong)

section \<open>Properties\<close>

text \<open>
  From an empty lock table, any sequence of acquire and release requests by sessions with
  a non-empty id leaves a table in which an interface has at most one holder and \<open>any\<close> is held
  only alone.
\<close>

theorem lock_table_exclusive:
  assumes "\<forall>e \<in> set es. event_session e \<noteq> []"
  shows "exclusive (locks_held (foldl manager_event new_manager es))"
proof -
  have "locks.event_good e" if "event_session e \<noteq> []" for e
    using that by (cases e) simp_all
  with assms have "list_all locks.event_good es" by (auto simp: list_all_iff)
  moreover have "locks_ok new_manager" "exclusive (locks_held new_manager)"
    by (simp_all add: locks_ok_def locks_held_def new_manager_def)
  ultimately show ?thesis
    unfolding manager_events_run by (blast dest: locks.run_events_exclusive)
qed

theorem lock_table_exclusive_witness:
  "exclusive (locks_held (foldl manager_event new_manager
     [Acquire ''eth0'' ''s1'', Acquire ''any'' ''s2'', Acquire ''eth1'' ''s3'', Release ''eth0'' ''s1'']))"
  by (rule lock_table_exclusive) simp

text \<open>
  \<open>acquire_interface\<close> refuses a request exactly when a capture it may not run beside is
  held; a refusal names the session of such a holder and changes nothing, and a grant adds
  exactly the requested pair.
\<close>

theorem acquire_interface_spec:
  assumes ok: "locks_ok m" and a: "a \<noteq> []"
  shows "case acquire_interface i a m of
       (Some h, m') \<Rightarrow> m' = m \<and> (\<exists>j. (j, h) \<in> locks_held m \<and> clash i j)
     | (None, m') \<Rightarrow> locks_held m' = insert (i, a) (locks_held m) \<and> locks_ok m'
         \<and> (\<forall>j b. (j, b) \<in> locks_held m \<longrightarrow> b \<noteq> a \<longrightarrow> \<not> clash i j)"
proof (cases "acquire_interface i a m")
  case (Pair r m')
  show ?thesis
  proof (cases r)
    case None
    with Pair have "locks_acquire i a m = Some m'" by (simp add: locks_acquire_def)
    with Pair None show ?thesis
      using locks.acquire_held [OF ok a] locks.ok_acquire [OF ok a] locks.acquire_clear [OF ok a] by simp
  next
    case (Some h)
    have "\<exists>j. (j, h) \<in> locks_held m \<and> clash i j"
      using refused_holder [of i a m h m'] Pair Some locks_get [OF ok] unfolding clash_def locks_held_def
      by (metis list.set_sel(1) prod.collapse)
    with Pair Some refused_unchanged show ?thesis by auto
  qed
qed

theorem acquire_interface_spec_witness:
  "acquire_interface ''any'' ''s2'' (snd (acquire_interface ''eth0'' ''s1'' new_manager))
     = (Some ''s1'', \<lparr>hubs = [], iface_locks = [(''eth0'', ''s1'')]\<rparr>)
   \<and> (\<exists>j. (j, ''s1'') \<in> locks_held \<lparr>hubs = [], iface_locks = [(''eth0'', ''s1'')]\<rparr> \<and> clash ''any'' j)"
proof -
  have "locks_ok \<lparr>hubs = [], iface_locks = [(''eth0'', ''s1'')]\<rparr>"
    by (simp add: locks_ok_def dict_ok_def)
  from acquire_interface_spec [OF this, of "''s2''" "''any''"] show ?thesis
    by (simp add: acquire_interface_def new_manager_def)
qed

text \<open>
  However the stream from capd ends, be it a final frame, an unreachable or failing capd,
  a crash on a malformed frame or a stop request, the hub is no longer running, every
  subscriber is closed, and every finish listener is called exactly once, all with the same
  final frame.
\<close>

theorem hub_run_notifies:
  "\<not> hub_running (hub_run fs e now h)
   \<and> list_all closed (subscribers (hub_run fs e now h))
   \<and> finished_calls (calls (hub_run fs e now h)) = finished_calls (calls h)
       @ map (\<lambda>fn. (fn, final_frame (hub_run fs e now h))) (finished_listeners h)"
  using hub_loop_finished [of fs e now h]
  by (auto simp: hub_run_def hub_finish_def close_all_def Let_def list_all_iff)

text \<open>
  On a stream of well-formed frames that is not interrupted, the listeners of closed files
  are called for every file of every frame up to and including the first final one, in order
  and once per listener, and the finish listeners get that final frame (or nothing when the
  stream ended without one).
\<close>

theorem hub_run_delivers:
  assumes "list_all (\<lambda>(stop, f). \<not> stop \<and> frame_files f \<noteq> None) fs" "final_frame h = None"
  shows "file_calls (calls (hub_run fs e now h)) = file_calls (calls h)
       @ concat (map (frame_calls (file_listeners h)) (take_final (map snd fs)))
     \<and> final_frame (hub_run fs e now h) = find (\<lambda>f. \<not> frame_running f) (map snd fs)"
  using hub_loop_clean [OF assms]
  by (simp add: hub_run_def hub_finish_def close_all_def Let_def)

theorem hub_run_delivers_witness:
  "file_calls (calls (hub_run
      [(False, [(''files_closed'', PList [PStr ''a'', PStr ''b''])]),
       (False, [(''running'', PBool False), (''files_closed'', PList [PStr ''c''])]),
       (False, [(''files_closed'', PList [PStr ''d''])])]
      Exhausted 0 (add_file_listener 7 (new_hub ''s''))))
   = [(7, PStr ''a''), (7, PStr ''b''), (7, PStr ''c'')]"
  using hub_run_delivers [of
      "[(False, [(''files_closed'', PList [PStr ''a'', PStr ''b''])]),
       (False, [(''running'', PBool False), (''files_closed'', PList [PStr ''c''])]),
       (False, [(''files_closed'', PList [PStr ''d''])])]" "add_file_listener 7 (new_hub ''s'')" Exhausted 0]
  by (simp add: add_file_listener_def new_hub_def frame_files_def obj_get_def obj_get_or_def
      frame_running_def frame_calls_def file_calls_def)

text \<open>
  A hub never keeps more than its replay buffer, and never more than a queue's capacity
  for a subscriber, however many frames capd sends.
\<close>

theorem hub_run_bounded:
  assumes "hub_bounded h"
  shows "hub_bounded (hub_run fs e now (subscribe i h))"
proof -
  have "length (foldl (\<lambda>q f. deque_append subscriber_queue f q) [] fr) \<le> subscriber_queue" for fr
    by (induction fr rule: rev_induct) (simp_all add: length_deque_append)
  with assms have "hub_bounded (subscribe i h)"
    by (auto simp: hub_bounded_def subscribe_def)
  then show ?thesis
    unfolding hub_run_def by (intro hub_finish_bounded hub_loop_bounded)
qed

theorem hub_run_bounded_witness:
  "hub_bounded (hub_run [(False, [])] Crashed 0 (subscribe 1 (new_hub ''s'')))"
  by (rule hub_run_bounded) (simp add: hub_bounded_def new_hub_def)

end
