(* ===== verification/CapturePolicy.thy ===== *)
theory CapturePolicy
  imports PyVal
begin

text \<open>
  The per-project capture policy of \<open>marlinspike/capture/api.py\<close>: reading the stored JSON,
  validating a new policy, the effective interface allowlist, and the clamp that keeps a
  ring buffer within the retained-bytes limit.
\<close>

section \<open>Reading and validating a policy\<close>

type_synonym policy = "(string, pyval) dict"

definition policy_allowed_keys :: "string list" where
  "policy_allowed_keys = [''enabled'', ''allowed_interfaces'', ''max_session_duration_s'',
     ''max_total_bytes'', ''operator_warning'']"

text \<open>The JSON reader is an argument; \<open>None\<close> is its \<open>ValueError\<close> or \<open>TypeError\<close>.\<close>

definition parse_policy :: "(string \<Rightarrow> pyval option) \<Rightarrow> string option \<Rightarrow> policy" where
  "parse_policy loads raw = (case raw of
       None \<Rightarrow> []
     | Some s \<Rightarrow>
         if s = [] then []
         else (case loads s of Some (PDict d) \<Rightarrow> d | _ \<Rightarrow> []))"

definition bad_count :: "pyval \<Rightarrow> bool" where
  "bad_count v \<longleftrightarrow> v \<noteq> PNone \<and> (\<not> is_int v \<or> as_int v < 0)"

definition bad_interfaces :: "pyval \<Rightarrow> bool" where
  "bad_interfaces v = (case v of PList xs \<Rightarrow> \<not> list_all is_str xs | _ \<Rightarrow> True)"

definition has_key :: "policy \<Rightarrow> string \<Rightarrow> bool" where
  "has_key d k \<longleftrightarrow> dict_get d k \<noteq> None"

definition validate_policy_body :: "policy \<Rightarrow> string option" where
  "validate_policy_body body =
     (let unknown = filter (\<lambda>k. k \<notin> set policy_allowed_keys) (map fst body);
          has = has_key body; val = obj_get body in
      if unknown \<noteq> [] then Some (''unknown keys: '' @ py_join '', '' (sort (remdups unknown)))
      else if has ''enabled'' \<and> \<not> is_bool (val ''enabled'') then Some ''enabled must be a boolean''
      else if has ''allowed_interfaces'' \<and> bad_interfaces (val ''allowed_interfaces'')
        then Some ''allowed_interfaces must be a list of strings''
      else if has ''max_session_duration_s'' \<and> bad_count (val ''max_session_duration_s'')
        then Some ''max_session_duration_s must be a non-negative integer or null''
      else if has ''max_total_bytes'' \<and> bad_count (val ''max_total_bytes'')
        then Some ''max_total_bytes must be a non-negative integer or null''
      else if has ''operator_warning'' \<and> val ''operator_warning'' \<noteq> PNone
          \<and> \<not> is_str (val ''operator_warning'')
        then Some ''operator_warning must be a string or null''
      else None)"

section \<open>The effective interface allowlist\<close>

definition resolve_interface_allowlist :: "string list \<Rightarrow> policy \<Rightarrow> py_exc + pyval list option" where
  "resolve_interface_allowlist system policy =
     (let project = obj_get policy ''allowed_interfaces'' in
      if system = [] \<and> project = PNone then Inr None
      else if system \<noteq> [] \<and> project = PNone then Inr (Some (map PStr system))
      else (case py_iter project of
          None \<Rightarrow> Inl TypeError
        | Some ifaces \<Rightarrow>
            if system = [] then Inr (Some ifaces)
            else if \<not> list_all hashable ifaces then Inl TypeError
            else Inr (Some (filter (\<lambda>i. i \<in> set (map PStr system)) ifaces))))"

section \<open>The retained-bytes clamp\<close>

function cap_loop :: "int \<Rightarrow> int \<Rightarrow> int \<Rightarrow> int \<Rightarrow> int \<times> int" where
  "cap_loop filesize_kb max_total_kb files sz =
     (if files > 1 \<and> files * sz > max_total_kb
      then cap_loop filesize_kb max_total_kb (files - 1)
             (min filesize_kb (max 1 (max_total_kb div (files - 1))))
      else (files, sz))"
  by pat_completeness auto
termination
  by (relation "measure (\<lambda>(_, _, files, _). nat files)") auto

declare cap_loop.simps [simp del]

type_synonym capped = "int option \<times> int option \<times> int \<times> int option"

definition apply_max_total_bytes_cap :: "int \<Rightarrow> int \<Rightarrow> int option \<Rightarrow> capped" where
  "apply_max_total_bytes_cap ring_filesize_kb ring_files max_total_bytes =
     (let requested = ring_filesize_kb * 1024 * ring_files in
      case max_total_bytes of
        None \<Rightarrow> (Some ring_filesize_kb, Some ring_files, requested, Some requested)
      | Some limit \<Rightarrow>
          if limit < 1024 then (None, None, requested, None)
          else
            let max_kb = limit div 1024;
                files0 = max 1 (min ring_files max_kb);
                sz0 = min ring_filesize_kb (max 1 (max_kb div files0));
                (files, sz) = cap_loop ring_filesize_kb max_kb files0 sz0;
                applied = files * sz * 1024
            in if applied > limit then (None, None, requested, None)
               else (Some sz, Some files, requested, Some applied))"

lemma div_mult_le: "0 < b \<Longrightarrow> b * (a div b) \<le> (a::int)"
  by (simp add: minus_mod_eq_mult_div [symmetric])

lemma cap_fits:
  fixes fs files kb :: int
  assumes "1 \<le> kb"
  defines "n \<equiv> max 1 (min files kb)"
  defines "sz \<equiv> min fs (max 1 (kb div n))"
  shows "n * sz \<le> kb"
proof -
  have n: "1 \<le> n" "n \<le> kb" using assms(1) by (simp_all add: n_def)
  then have "1 \<le> kb div n" using zdiv_mono1 [of n kb n] by simp
  then have "sz \<le> kb div n" by (simp add: sz_def)
  then have "n * sz \<le> n * (kb div n)" using n by (simp add: mult_left_mono)
  also have "\<dots> \<le> kb" using n by (intro div_mult_le) simp
  finally show ?thesis .
qed

lemma kb_bytes: "1024 \<le> (limit::int) \<Longrightarrow> 1 \<le> limit div 1024 \<and> limit div 1024 * 1024 \<le> limit"
  using zdiv_mono1 [of 1024 limit 1024] div_mult_le [of 1024 limit] by (simp add: mult.commute)

text \<open>The first guess already fits, so the loop never runs and the final check never rejects.\<close>

lemma cap_closed_form:
  assumes "1024 \<le> limit"
  shows "apply_max_total_bytes_cap fs files (Some limit) =
     (let kb = limit div 1024; n = max 1 (min files kb); sz = min fs (max 1 (kb div n))
      in (Some sz, Some n, fs * 1024 * files, Some (n * sz * 1024)))"
proof -
  define kb where "kb = limit div 1024"
  define n where "n = max 1 (min files kb)"
  define sz where "sz = min fs (max 1 (kb div n))"
  have kb: "1 \<le> kb" "kb * 1024 \<le> limit" using kb_bytes [OF assms] by (simp_all add: kb_def)
  have fits: "n * sz \<le> kb" unfolding n_def sz_def by (rule cap_fits [OF kb(1)])
  then have loop: "cap_loop fs kb n sz = (n, sz)"
    by (simp add: cap_loop.simps [of fs kb n sz])
  have nl: "(limit < 1024) = False" using assms by simp
  have na: "(n * sz * 1024 > limit) = False" using fits kb(2) by simp
  show ?thesis
    by (simp only: apply_max_total_bytes_cap_def option.case Let_def kb_def [symmetric] nl if_False
        n_def [symmetric] sz_def [symmetric] loop prod.case na)
qed

section \<open>Properties\<close>

text \<open>
  For any positive ring request, the clamp either rejects (exactly when the limit is
  below one KiB) or returns a valid ring, at least one file of at least one KiB and no larger
  than requested in either dimension, whose total size is within the limit.
\<close>

theorem cap_bounds:
  assumes "1 \<le> fs" "1 \<le> files"
  shows "case apply_max_total_bytes_cap fs files (Some limit) of
      (Some sz, Some n, req, Some tot) \<Rightarrow>
         1024 \<le> limit \<and> 1 \<le> sz \<and> sz \<le> fs \<and> 1 \<le> n \<and> n \<le> files
         \<and> tot = n * sz * 1024 \<and> tot \<le> limit \<and> req = fs * 1024 * files
    | (sz, n, req, tot) \<Rightarrow> limit < 1024 \<and> sz = None \<and> n = None \<and> tot = None"
proof (cases "limit < 1024")
  case True
  then show ?thesis by (simp add: apply_max_total_bytes_cap_def Let_def)
next
  case False
  then have kb: "1 \<le> limit div 1024" "limit div 1024 * 1024 \<le> limit" using kb_bytes by simp_all
  define n where "n = max 1 (min files (limit div 1024))"
  define sz where "sz = min fs (max 1 (limit div 1024 div n))"
  have eq: "apply_max_total_bytes_cap fs files (Some limit) = (Some sz, Some n, fs * 1024 * files, Some (n * sz * 1024))"
    using False by (simp only: cap_closed_form not_less Let_def n_def sz_def)
  have "n * sz \<le> limit div 1024" unfolding n_def sz_def by (rule cap_fits [OF kb(1)])
  with kb(2) have "n * sz * 1024 \<le> limit" by linarith
  moreover have "1 \<le> n" "n \<le> files" "1 \<le> sz" "sz \<le> fs"
    using assms by (simp_all add: n_def sz_def)
  ultimately show ?thesis using False by (simp add: eq)
qed

theorem cap_bounds_witness:
  "apply_max_total_bytes_cap 4 3 (Some 5000) = (Some 1, Some 3, 12288, Some 3072) \<and> (3072::int) \<le> 5000"
proof -
  have eq: "apply_max_total_bytes_cap 4 3 (Some 5000) = (Some 1, Some 3, 12288, Some 3072)"
    by (simp add: cap_closed_form Let_def)
  from cap_bounds [of 4 3 5000, unfolded eq] show ?thesis by (simp add: eq)
qed

text \<open>
  Without a limit, or with one that the request already meets exactly in whole kilobytes,
  the request passes unchanged; clamping a clamped ring again changes nothing.
\<close>

theorem cap_idempotent:
  assumes "1 \<le> fs" "1 \<le> files"
    and "apply_max_total_bytes_cap fs files (Some limit) = (Some sz, Some n, req, Some tot)"
  shows "apply_max_total_bytes_cap sz n (Some limit) = (Some sz, Some n, tot, Some tot)"
proof -
  have limit: "1024 \<le> limit"
  proof (rule ccontr)
    assume "\<not> 1024 \<le> limit"
    then have "apply_max_total_bytes_cap fs files (Some limit) = (None, None, fs * 1024 * files, None)"
      by (simp add: apply_max_total_bytes_cap_def)
    with assms(3) show False by simp
  qed
  define kb where "kb = limit div 1024"
  have kb: "1 \<le> kb" using kb_bytes [OF limit] by (simp add: kb_def)
  have n: "n = max 1 (min files kb)" and sz: "sz = min fs (max 1 (kb div n))"
    and tot: "tot = n * sz * 1024"
    using assms(3) unfolding cap_closed_form [OF limit] Let_def kb_def [symmetric] prod.inject option.inject
    by blast+
  have n': "max 1 (min n kb) = n" using n kb by simp
  have sz': "min sz (max 1 (kb div n)) = sz" using sz by simp
  show ?thesis
    by (simp only: cap_closed_form [OF limit] Let_def kb_def [symmetric] n' sz' tot)
      (simp add: algebra_simps)
qed

theorem cap_idempotent_witness:
  "apply_max_total_bytes_cap 1 3 (Some 5000) = (Some 1, Some 3, 3072, Some 3072)"
  by (rule cap_idempotent [of 4 3]) (simp_all add: cap_closed_form Let_def)

text \<open>
  The effective allowlist of a valid policy never raises, is unrestricted exactly when
  neither side restricts, and otherwise permits an interface exactly when every side that
  restricts permits it.
\<close>

theorem allowlist_meaning:
  assumes "validate_policy_body policy = None"
  shows "\<exists>r. resolve_interface_allowlist system policy = Inr r
     \<and> (r = None \<longleftrightarrow> system = [] \<and> obj_get policy ''allowed_interfaces'' = PNone)
     \<and> (case r of None \<Rightarrow> True | Some xs \<Rightarrow> PStr i \<in> set xs \<longleftrightarrow>
          (system = [] \<or> i \<in> set system)
          \<and> (case obj_get policy ''allowed_interfaces'' of PList ys \<Rightarrow> PStr i \<in> set ys | _ \<Rightarrow> True))"
proof (cases "dict_get policy ''allowed_interfaces''")
  case None
  then show ?thesis
    by (auto simp: resolve_interface_allowlist_def obj_get_def Let_def)
next
  case (Some v)
  then have "\<not> bad_interfaces v"
    using assms by (auto simp: validate_policy_body_def has_key_def obj_get_def Let_def split: if_splits)
  then obtain ys where ys: "v = PList ys" "list_all is_str ys"
    by (auto simp: bad_interfaces_def split: pyval.splits)
  then have "list_all hashable ys"
    by (auto simp: list_all_iff intro: str_hashable)
  with Some ys show ?thesis
    by (auto simp: resolve_interface_allowlist_def obj_get_def Let_def)
qed

theorem allowlist_meaning_witness:
  "validate_policy_body [(''allowed_interfaces'', PList [PStr ''eth0'', PStr ''eth1''])] = None
   \<and> resolve_interface_allowlist [''eth1'', ''eth2''] [(''allowed_interfaces'', PList [PStr ''eth0'', PStr ''eth1''])]
       = Inr (Some [PStr ''eth1''])"
proof -
  have v: "validate_policy_body [(''allowed_interfaces'', PList [PStr ''eth0'', PStr ''eth1''])] = None"
    by (simp add: validate_policy_body_def policy_allowed_keys_def has_key_def obj_get_def bad_interfaces_def Let_def)
  from allowlist_meaning [OF v, of "[''eth1'', ''eth2'']" "''eth1''"] v show ?thesis
    by (simp add: resolve_interface_allowlist_def obj_get_def Let_def)
qed

end
