(* ===== verification/CaptureApi.thy ===== *)
theory CaptureApi
  imports CaptureSessions CapturePolicy
begin

text \<open>
  The session routes of \<open>marlinspike/capture/api.py\<close>: project and agent access checks, the
  policy-gated start shared by the route and the scheduler, the stop route, and the callback
  that finalises a session whose stream ended by itself. The database is a table of capture
  rows; the reply of capd, local or through the fleet gateway, is an argument, and what the start
  calls ask of the daemons is recorded in \<open>orders\<close>.
\<close>

section \<open>Rows, state and replies\<close>

datatype cs_status = Pending | Running | Stopping | Stopped | Failed

record capture_session =
  cs_id :: int
  cs_uuid :: string
  cs_user :: int
  cs_project :: int
  cs_agent :: "int option"
  cs_interface :: string
  cs_bpf :: string
  cs_filesize_kb :: int
  cs_files :: int
  cs_max_duration :: int
  cs_status :: cs_status
  cs_started_at :: "int option"
  cs_stopped_at :: "int option"
  cs_dir :: pyval
  cs_bytes :: int
  cs_packets :: int
  cs_drops :: int
  cs_rotations :: int
  cs_error :: "string option"

record audit_entry =
  au_event :: string
  au_target :: string
  au_actor :: "string option"
  au_detail :: "(string, pyval) dict"

text \<open>What a client's start call asks of its daemon: the agent's, or the local one.\<close>

record start_order =
  so_agent :: "int option"
  so_session :: string
  so_interface :: string
  so_bpf :: string
  so_filesize_kb :: int
  so_files :: int
  so_max_duration :: int

record api =
  mgr :: manager
  rows :: "(int, capture_session) dict"
  next_id :: int
  audit_log :: "audit_entry list"
  orders :: "start_order list"

record capture_config =
  interface_allowlist :: "string list"
  max_concurrent :: nat
  live_enabled :: bool

record project =
  p_id :: int
  p_user :: int
  p_policy :: "string option"

record agent =
  ag_id :: int
  ag_project :: int
  ag_status :: string

record member =
  m_project :: int
  m_user :: int
  m_role :: string

record caller =
  caller_uid :: int
  caller_admin :: bool

text \<open>A reply: the JSON object, the row that \<open>_serialize\<close> puts under \<open>session\<close>, the HTTP status.\<close>

record reply =
  body :: "(string, pyval) dict"
  session_row :: "capture_session option"
  code :: nat

definition failure :: "string \<Rightarrow> nat \<Rightarrow> reply" where
  "failure msg c = \<lparr>body = [(''ok'', PBool False), (''error'', PStr msg)], session_row = None, code = c\<rparr>"

text \<open>What the client's start or stop call gives: the response object, or an exception.\<close>

datatype rpc =
    RpcOk "(string, pyval) dict"
  | RpcUnavailable string
  | RpcError string
  | RpcRaised py_exc

section \<open>Access checks\<close>

fun role_rank :: "string \<Rightarrow> nat" where
  "role_rank r = (if r = ''viewer'' then 1 else if r = ''editor'' then 2 else if r = ''owner'' then 3 else 0)"

definition min_rank :: "string \<Rightarrow> nat" where
  "min_rank r = (if role_rank r = 0 then 1 else role_rank r)"

definition member_of :: "member list \<Rightarrow> int \<Rightarrow> int \<Rightarrow> member option" where
  "member_of ms pid uid = find (\<lambda>m. m_project m = pid \<and> m_user m = uid) ms"

definition member_allows :: "member list \<Rightarrow> int \<Rightarrow> int \<Rightarrow> string \<Rightarrow> bool" where
  "member_allows ms pid uid min_role = (case member_of ms pid uid of
       None \<Rightarrow> False
     | Some m \<Rightarrow> role_rank (m_role m) \<ge> min_rank min_role)"

definition require_project ::
    "(int, project) dict \<Rightarrow> member list \<Rightarrow> caller \<Rightarrow> pyval \<Rightarrow> string \<Rightarrow> project option" where
  "require_project projects ms who project_id min_role =
     (if project_id = PNone then None
      else case py_int project_id of
        None \<Rightarrow> None
      | Some pid \<Rightarrow> (case dict_get projects pid of
          None \<Rightarrow> None
        | Some p \<Rightarrow>
            if p_user p = caller_uid who then Some p
            else if min_role = ''owner'' then None
            else if member_allows ms pid (caller_uid who) min_role then Some p
            else None))"

definition require_agent ::
    "(int, agent) dict \<Rightarrow> (int, project) dict \<Rightarrow> member list \<Rightarrow> caller \<Rightarrow> pyval \<Rightarrow> string \<Rightarrow> agent option" where
  "require_agent agents projects ms who agent_id min_role =
     (case py_int agent_id of
        None \<Rightarrow> None
      | Some aid \<Rightarrow> (case dict_get agents aid of
          None \<Rightarrow> None
        | Some ag \<Rightarrow>
            if ag_status ag = ''revoked'' then None
            else (case dict_get projects (ag_project ag) of
                None \<Rightarrow> None
              | Some p \<Rightarrow>
                  if p_user p = caller_uid who then Some ag
                  else if member_allows ms (p_id p) (caller_uid who) min_role then Some ag
                  else None)))"

definition require_project_admin_or_owner :: "(int, project) dict \<Rightarrow> caller \<Rightarrow> int \<Rightarrow> project option" where
  "require_project_admin_or_owner projects who pid = (case dict_get projects pid of
       None \<Rightarrow> None
     | Some p \<Rightarrow> if caller_admin who \<or> p_user p = caller_uid who then Some p else None)"

section \<open>Starting a session\<close>

record start_request =
  rq_user :: int
  rq_project :: "project option"
  rq_agent :: "agent option"
  rq_interface :: string
  rq_bpf :: string
  rq_filesize_kb :: int
  rq_files :: int
  rq_max_duration :: int
  rq_actor :: "string option"

definition log_audit :: "audit_entry \<Rightarrow> api \<Rightarrow> api" where
  "log_audit e s = s\<lparr>audit_log := audit_log s @ [e]\<rparr>"

text \<open>Gate 2: \<open>None\<close> when the interface is permitted, otherwise the reply or the exception.\<close>

definition interface_gate :: "capture_config \<Rightarrow> policy \<Rightarrow> string \<Rightarrow> (py_exc + reply) option" where
  "interface_gate cfg policy interface =
     (case resolve_interface_allowlist (interface_allowlist cfg) policy of
        Inl e \<Rightarrow> Some (Inl e)
      | Inr None \<Rightarrow> None
      | Inr (Some xs) \<Rightarrow>
          if PStr interface \<in> set xs then None
          else if xs \<noteq> [] then
            (if list_all is_str xs
             then Some (Inr (failure (''interface '' @ py_repr_str interface @ '' not permitted by policy; allowed: ''
                    @ py_join '', '' (map str_of xs)) 403))
             else Some (Inl TypeError))
          else Some (Inr (failure (''interface '' @ py_repr_str interface
                    @ '' not permitted by policy (empty intersection of system and project allowlists)'') 403)))"

text \<open>Gate 3: the applied duration and the audit record of a cap.\<close>

definition duration_capped :: "policy \<Rightarrow> int \<Rightarrow> bool" where
  "duration_capped policy max_duration_s =
     (let v = obj_get policy ''max_session_duration_s'' in
      is_int v \<and> as_int v > 0 \<and> (max_duration_s \<le> 0 \<or> max_duration_s > as_int v))"

definition applied_duration :: "policy \<Rightarrow> int \<Rightarrow> int" where
  "applied_duration policy max_duration_s =
     (if duration_capped policy max_duration_s then as_int (obj_get policy ''max_session_duration_s'')
      else max_duration_s)"

definition duration_audit :: "policy \<Rightarrow> start_request \<Rightarrow> project \<Rightarrow> audit_entry list" where
  "duration_audit policy rq p =
     (if duration_capped policy (rq_max_duration rq)
      then [\<lparr>au_event = ''capture.policy_capped'', au_target = show_int (p_id p), au_actor = rq_actor rq,
             au_detail = [(''field'', PStr ''max_session_duration_s''), (''requested'', PInt (rq_max_duration rq)),
               (''applied'', obj_get policy ''max_session_duration_s''), (''project_id'', PInt (p_id p)),
               (''interface'', PStr (rq_interface rq))]\<rparr>]
      else [])"

text \<open>Gate 4: the applied ring, or \<open>None\<close> when the policy's limit is too small for any ring.\<close>

definition policy_bytes :: "policy \<Rightarrow> int option" where
  "policy_bytes policy = (let v = obj_get policy ''max_total_bytes'' in if is_int v then Some (as_int v) else None)"

definition applied_ring :: "policy \<Rightarrow> int \<Rightarrow> int \<Rightarrow> (int \<times> int) option" where
  "applied_ring policy filesize_kb files = (case policy_bytes policy of
       None \<Rightarrow> Some (filesize_kb, files)
     | Some limit \<Rightarrow> (case apply_max_total_bytes_cap filesize_kb files (Some limit) of
           (Some kb, Some n, _, Some _) \<Rightarrow> Some (kb, n)
         | _ \<Rightarrow> None))"

definition ring_audit :: "policy \<Rightarrow> start_request \<Rightarrow> project \<Rightarrow> audit_entry list" where
  "ring_audit policy rq p = (case policy_bytes policy of
       None \<Rightarrow> []
     | Some limit \<Rightarrow> (case apply_max_total_bytes_cap (rq_filesize_kb rq) (rq_files rq) (Some limit) of
         (Some kb, Some n, req, Some tot) \<Rightarrow>
           if kb \<noteq> rq_filesize_kb rq \<or> n \<noteq> rq_files rq
           then [\<lparr>au_event = ''capture.policy_capped'', au_target = show_int (p_id p), au_actor = rq_actor rq,
                  au_detail = [(''field'', PStr ''max_total_bytes''), (''requested'', PInt req),
                    (''applied'', PInt tot), (''project_id'', PInt (p_id p)), (''interface'', PStr (rq_interface rq)),
                    (''requested_ring_filesize_kb'', PInt (rq_filesize_kb rq)), (''requested_ring_files'', PInt (rq_files rq)),
                    (''applied_ring_filesize_kb'', PInt kb), (''applied_ring_files'', PInt n)]\<rparr>]
           else []
       | _ \<Rightarrow> []))"

text \<open>Gate 5: the warning passed through to the operator.\<close>

definition operator_warning :: "policy \<Rightarrow> pyval" where
  "operator_warning policy = (let w = py_or (obj_get policy ''operator_warning'') PNone in
     case w of PStr s \<Rightarrow> py_or (PStr (py_strip s)) PNone | _ \<Rightarrow> w)"

text \<open>The concurrency cap and interface lock, for a local capture only.\<close>

definition local_slot :: "capture_config \<Rightarrow> start_request \<Rightarrow> string \<Rightarrow> api \<Rightarrow> reply option \<times> api" where
  "local_slot cfg rq uuid s =
     (if rq_agent rq \<noteq> None then (None, s)
      else if active_session_count (mgr s) \<ge> max_concurrent cfg then
        (Some (failure (''max '' @ show_nat (max_concurrent cfg) @ '' concurrent live captures reached'') 409), s)
      else (case acquire_interface (rq_interface rq) uuid (mgr s) of
          (Some holder, m) \<Rightarrow>
            (Some (failure (''interface '' @ rq_interface rq @ '' in use by session '' @ take 8 holder) 409), s\<lparr>mgr := m\<rparr>)
        | (None, m) \<Rightarrow> (None, s\<lparr>mgr := m\<rparr>)))"

definition new_row :: "int \<Rightarrow> string \<Rightarrow> start_request \<Rightarrow> project \<Rightarrow> int \<Rightarrow> int \<Rightarrow> int \<Rightarrow> capture_session" where
  "new_row i uuid rq p kb n dur = \<lparr>cs_id = i, cs_uuid = uuid, cs_user = rq_user rq, cs_project = p_id p,
     cs_agent = map_option ag_id (rq_agent rq), cs_interface = rq_interface rq, cs_bpf = rq_bpf rq,
     cs_filesize_kb = kb, cs_files = n, cs_max_duration = dur, cs_status = Pending, cs_started_at = None,
     cs_stopped_at = None, cs_dir = PNone, cs_bytes = 0, cs_packets = 0, cs_drops = 0, cs_rotations = 0,
     cs_error = None\<rparr>"

definition put_row :: "capture_session \<Rightarrow> api \<Rightarrow> api" where
  "put_row r s = s\<lparr>rows := dict_set (cs_id r) r (rows s)\<rparr>"

definition release_local :: "bool \<Rightarrow> string \<Rightarrow> string \<Rightarrow> api \<Rightarrow> api" where
  "release_local is_local interface uuid s =
     (if is_local then s\<lparr>mgr := release_interface interface uuid (mgr s)\<rparr> else s)"

text \<open>A local session's hub, with the rotation consumer and the finaliser registered, started.\<close>

definition wire_hub :: "bool \<Rightarrow> int \<Rightarrow> string \<Rightarrow> api \<Rightarrow> api" where
  "wire_hub is_local i uuid s =
     (if is_local then
        s\<lparr>mgr := register_hub (hub_start (add_finished_listener (nat i) (add_file_listener (nat i) (new_hub uuid)))) (mgr s)\<rparr>
      else s)"

text \<open>The call of the daemon, with the arguments the stored row has, and what becomes of its outcome.\<close>

definition start_order :: "capture_session \<Rightarrow> start_order" where
  "start_order row = \<lparr>so_agent = cs_agent row, so_session = cs_uuid row, so_interface = cs_interface row, so_bpf = cs_bpf row,
     so_filesize_kb = cs_filesize_kb row, so_files = cs_files row, so_max_duration = cs_max_duration row\<rparr>"

definition send_order :: "start_order \<Rightarrow> api \<Rightarrow> api" where
  "send_order order s = s\<lparr>orders := orders s @ [order]\<rparr>"

definition finish_start :: "start_request \<Rightarrow> pyval \<Rightarrow> project \<Rightarrow> capture_session \<Rightarrow> int \<Rightarrow> rpc \<Rightarrow> api \<Rightarrow> (py_exc + reply) \<times> api" where
  "finish_start rq warning p row now rpc_result s0 =
     (let is_local = (rq_agent rq = None);
          s = send_order (start_order row) s0;
          failed = (\<lambda>msg c. (Inr (failure msg c),
             release_local is_local (rq_interface rq) (cs_uuid row)
               (put_row (row\<lparr>cs_status := Failed, cs_error := Some msg, cs_stopped_at := Some now\<rparr>) s)))
      in case rpc_result of
        RpcUnavailable msg \<Rightarrow> failed msg 503
      | RpcError msg \<Rightarrow> failed msg 502
      | RpcRaised e \<Rightarrow> (Inl e, s)
      | RpcOk resp \<Rightarrow>
          let row' = row\<lparr>cs_status := Running, cs_started_at := Some now, cs_dir := obj_get resp ''output_dir''\<rparr>;
              entry = \<lparr>au_event = ''capture.start'', au_target = show_int (cs_id row), au_actor = rq_actor rq,
                au_detail = [(''interface'', PStr (rq_interface rq)), (''bpf'', PStr (rq_bpf rq)),
                  (''project_id'', PInt (p_id p)),
                  (''agent_id'', case rq_agent rq of None \<Rightarrow> PNone | Some ag \<Rightarrow> PInt (ag_id ag))]\<rparr>
          in (Inr \<lparr>body = (''ok'', PBool True) # (if truthy warning then [(''operator_warning'', warning)] else []),
                   session_row = Some row', code = 201\<rparr>,
              log_audit entry (wire_hub is_local (cs_id row) (cs_uuid row) (put_row row' s))))"

definition start_capture_session ::
    "(string \<Rightarrow> pyval option) \<Rightarrow> capture_config \<Rightarrow> string \<Rightarrow> int \<Rightarrow> rpc \<Rightarrow> start_request \<Rightarrow> api \<Rightarrow> (py_exc + reply) \<times> api" where
  "start_capture_session loads cfg uuid now rpc_result rq s =
     (if rq_interface rq = [] then (Inr (failure ''interface required'' 400), s)
      else if rq_filesize_kb rq < 1 \<or> rq_files rq < 1 \<or> rq_max_duration rq < 0 then
        (Inr (failure ''ring_filesize_kb and ring_files must be >= 1; max_duration_s must be >= 0'' 400), s)
      else case rq_project rq of
        None \<Rightarrow> (Inr (failure ''valid project_id required'' 400), s)
      | Some p \<Rightarrow>
          let policy = parse_policy loads (p_policy p) in
          if obj_get policy ''enabled'' = PBool False then
            (Inr (failure ''Live capture disabled for this project'' 403), s)
          else (case interface_gate cfg policy (rq_interface rq) of
            Some r \<Rightarrow> (r, s)
          | None \<Rightarrow>
              let s1 = s\<lparr>audit_log := audit_log s @ duration_audit policy rq p\<rparr> in
              (case applied_ring policy (rq_filesize_kb rq) (rq_files rq) of
                None \<Rightarrow> (Inr (failure ''project max_total_bytes policy is below dumpcap's minimum 1024-byte ring size'' 403), s1)
              | Some (kb, n) \<Rightarrow>
                  let s2 = s1\<lparr>audit_log := audit_log s1 @ ring_audit policy rq p\<rparr> in
                  (case local_slot cfg rq uuid s2 of
                    (Some r, s3) \<Rightarrow> (Inr r, s3)
                  | (None, s3) \<Rightarrow>
                      let row = new_row (next_id s3) uuid rq p kb n (applied_duration policy (rq_max_duration rq));
                          s4 = put_row row (s3\<lparr>next_id := next_id s3 + 1\<rparr>)
                      in finish_start rq (operator_warning policy) p row now rpc_result s4))))"


text \<open>
  The route: the request body's fields, the access checks, and the check that the named
  agent belongs to the named project.
\<close>

definition body_int :: "(string, pyval) dict \<Rightarrow> string \<Rightarrow> int \<Rightarrow> int option" where
  "body_int b k dflt = py_int (py_or (obj_get b k) (PInt dflt))"

definition route_request :: "caller \<Rightarrow> project option \<Rightarrow> string \<Rightarrow> string \<Rightarrow> int \<Rightarrow> int \<Rightarrow> int \<Rightarrow> agent option \<Rightarrow> start_request" where
  "route_request who project interface bpf kb n dur ag = \<lparr>rq_user = caller_uid who, rq_project = project, rq_agent = ag,
     rq_interface = interface, rq_bpf = bpf, rq_filesize_kb = kb, rq_files = n, rq_max_duration = dur, rq_actor = None\<rparr>"

definition start_session ::
    "(rat \<Rightarrow> string) \<Rightarrow> (string \<Rightarrow> pyval option) \<Rightarrow> capture_config \<Rightarrow> (int, agent) dict \<Rightarrow> (int, project) dict \<Rightarrow> member list
      \<Rightarrow> caller \<Rightarrow> string \<Rightarrow> int \<Rightarrow> rpc \<Rightarrow> (string, pyval) dict \<Rightarrow> api \<Rightarrow> (py_exc + reply) \<times> api" where
  "start_session fr loads cfg agents projects ms who uuid now rpc_result b s =
     (if \<not> live_enabled cfg then (Inr (failure ''live capture disabled'' 503), s)
      else
        let interface = py_strip (py_str fr (obj_get_or b ''interface'' (PStr [])));
            bpf = py_str fr (py_or (obj_get_or b ''bpf_filter'' (PStr [])) (obj_get_or b ''bpf'' (PStr [])))
        in case (body_int b ''ring_filesize_kb'' 200000, body_int b ''ring_files'' 10, body_int b ''max_duration_s'' 0) of
          (Some kb, Some n, Some dur) \<Rightarrow>
            (let project = require_project projects ms who (obj_get b ''project_id'') ''editor'';
                 rq = route_request who project interface bpf kb n dur
             in if obj_get b ''agent_id'' = PNone
                then start_capture_session loads cfg uuid now rpc_result (rq None) s
                else (case require_agent agents projects ms who (obj_get b ''agent_id'') ''editor'' of
                    None \<Rightarrow> (Inr (failure ''Agent not found'' 404), s)
                  | Some ag \<Rightarrow>
                      if (case project of None \<Rightarrow> False | Some p \<Rightarrow> ag_project ag \<noteq> p_id p)
                      then (Inr (failure ''Agent not found'' 404), s)
                      else start_capture_session loads cfg uuid now rpc_result (rq (Some ag)) s))
        | _ \<Rightarrow> (Inr (failure ''ring_filesize_kb, ring_files, and max_duration_s must be integers'' 400), s))"

section \<open>Ending a session\<close>

definition drop_local :: "bool \<Rightarrow> capture_session \<Rightarrow> api \<Rightarrow> api" where
  "drop_local is_local r s =
     (if is_local then s\<lparr>mgr := snd (drop_hub (cs_uuid r) (release_interface (cs_interface r) (cs_uuid r) (mgr s)))\<rparr> else s)"

definition py_len :: "pyval \<Rightarrow> nat option" where
  "py_len v = map_option length (py_iter v)"

definition optional_count :: "pyval \<Rightarrow> int \<Rightarrow> int option" where
  "optional_count v old = (if v = PNone then Some old else py_int v)"

definition stop_session :: "(int, agent) dict \<Rightarrow> caller \<Rightarrow> int \<Rightarrow> rpc \<Rightarrow> int \<Rightarrow> api \<Rightarrow> (py_exc + reply) \<times> api" where
  "stop_session agents who now rpc_result sid s =
     (case dict_get (rows s) sid of
        None \<Rightarrow> (Inr (failure ''not found'' 404), s)
      | Some cs \<Rightarrow>
        if \<not> caller_admin who \<and> cs_user cs \<noteq> caller_uid who then (Inr (failure ''not found'' 404), s)
        else if cs_status cs \<notin> {Running, Pending} then
          (Inr \<lparr>body = [(''ok'', PBool True), (''note'', PStr ''already stopped'')], session_row = Some cs, code = 200\<rparr>, s)
        else
          let admin_override = (caller_admin who \<and> cs_user cs \<noteq> caller_uid who);
              cs1 = cs\<lparr>cs_status := Stopping\<rparr>;
              s1 = put_row cs1 s;
              is_local = (case cs_agent cs of None \<Rightarrow> True | Some aid \<Rightarrow> dict_get agents aid = None);
              failed = (\<lambda>msg c.
                let row = cs1\<lparr>cs_status := Failed, cs_error := Some (''stop failed: '' @ msg), cs_stopped_at := Some now\<rparr>
                in (Inr ((failure msg c)\<lparr>session_row := Some row\<rparr>), drop_local is_local row (put_row row s1)))
          in (case rpc_result of
            RpcUnavailable msg \<Rightarrow> failed msg 503
          | RpcError msg \<Rightarrow> failed msg 502
          | RpcRaised e \<Rightarrow> (Inl e, s1)
          | RpcOk resp \<Rightarrow>
              (case (py_int (py_or (obj_get resp ''bytes_total'') (PInt 0)),
                     optional_count (obj_get resp ''packets'') (cs_packets cs1),
                     optional_count (obj_get resp ''drops'') (cs_drops cs1),
                     py_len (py_or (obj_get resp ''files_closed'') (PList []))) of
                (Some bytes, Some packets, Some drops, Some closed_n) \<Rightarrow>
                  (let row = cs1\<lparr>cs_status := Stopped, cs_stopped_at := Some now, cs_bytes := bytes,
                         cs_packets := packets, cs_drops := drops, cs_rotations := max (cs_rotations cs1) (int closed_n)\<rparr>;
                       entry = \<lparr>au_event = (if admin_override then ''capture.admin_stop'' else ''capture.stop''),
                         au_target = show_int (cs_id cs), au_actor = None,
                         au_detail = [(''packets'', PInt packets), (''drops'', PInt drops), (''bytes'', PInt bytes),
                           (''owner_user_id'', if admin_override then PInt (cs_user cs) else PNone)]\<rparr>
                   in (Inr \<lparr>body = [(''ok'', PBool True), (''admin_override'', PBool admin_override)],
                            session_row = Some row, code = 200\<rparr>,
                       log_audit entry (drop_local is_local row (put_row row s1))))
              | _ \<Rightarrow> (Inl ValueError, s1))))"

text \<open>
  The callback of \<open>_make_session_finalizer\<close>; \<open>None\<close> when it raises before its commit, which
  the hub catches and logs.
\<close>

definition finalize_session :: "int \<Rightarrow> string \<Rightarrow> string \<Rightarrow> int \<Rightarrow> frame option \<Rightarrow> api \<Rightarrow> api option" where
  "finalize_session sid interface uuid now final s =
     (case dict_get (rows s) sid of
        None \<Rightarrow> Some s
      | Some cs \<Rightarrow>
        if cs_status cs \<noteq> Running then Some s
        else
          let row = (case final of
              None \<Rightarrow> Some (cs\<lparr>cs_status := Failed,
                 cs_error := Some ''capture ended unexpectedly (capd unavailable or crashed)''\<rparr>)
            | Some f \<Rightarrow>
                (case (py_int (py_or (obj_get f ''bytes_total'') (PInt 0)),
                       optional_count (obj_get f ''file_index'') (cs_rotations cs),
                       optional_count (obj_get f ''packets'') (cs_packets cs),
                       optional_count (obj_get f ''drops'') (cs_drops cs)) of
                  (Some bytes, Some idx, Some packets, Some drops) \<Rightarrow>
                    Some (cs\<lparr>cs_status := Stopped, cs_bytes := bytes, cs_rotations := max (cs_rotations cs) idx,
                      cs_packets := packets, cs_drops := drops\<rparr>)
                | _ \<Rightarrow> None))
          in map_option (\<lambda>r.
               let s1 = put_row (r\<lparr>cs_stopped_at := Some now\<rparr>) s
               in s1\<lparr>mgr := snd (drop_hub uuid (release_interface interface uuid (mgr s1)))\<rparr>) row)"

section \<open>Policy and saved-filter routes\<close>

text \<open>Storing a policy; the JSON writer is an argument. The reply carries what is then in force.\<close>

definition set_capture_policy ::
    "(string \<Rightarrow> pyval option) \<Rightarrow> (pyval \<Rightarrow> string) \<Rightarrow> caller \<Rightarrow> int \<Rightarrow> pyval \<Rightarrow> (int, project) dict \<Rightarrow> audit_entry list
      \<Rightarrow> (py_exc + (string + policy) \<times> nat) \<times> (int, project) dict \<times> audit_entry list" where
  "set_capture_policy loads dumps who pid b projects aud =
     (case require_project_admin_or_owner projects who pid of
        None \<Rightarrow> (Inr (Inl ''not found'', 404), projects, aud)
      | Some p \<Rightarrow> (case b of
          PDict d \<Rightarrow> (case validate_policy_body d of
              Some err \<Rightarrow> (Inr (Inl (''invalid policy: '' @ err), 400), projects, aud)
            | None \<Rightarrow>
                let new_raw = (if d \<noteq> [] then Some (dumps b) else None);
                    projects' = dict_set pid (p\<lparr>p_policy := new_raw\<rparr>) projects;
                    old = (case p_policy p of None \<Rightarrow> Some PNone | Some raw \<Rightarrow> if raw = [] then Some PNone else loads raw)
                in (case old of
                     None \<Rightarrow> (Inl ValueError, projects', aud)
                   | Some old_policy \<Rightarrow>
                       (Inr (Inr (parse_policy loads new_raw), 200), projects',
                        aud @ [\<lparr>au_event = ''capture.policy_set'', au_target = show_int pid, au_actor = None,
                          au_detail = [(''project_id'', PInt pid), (''old_policy'', old_policy), (''new_policy'', b)]\<rparr>])))
        | _ \<Rightarrow> (Inr (Inl ''JSON body required'', 400), projects, aud)))"

record saved_filter =
  sf_id :: int
  sf_project :: int
  sf_user :: int
  sf_name :: string
  sf_expression :: string

text \<open>\<open>(body.get(k) or "").strip()\<close>; a value that has no \<open>strip\<close> raises.\<close>

definition body_text :: "(string, pyval) dict \<Rightarrow> string \<Rightarrow> py_exc + string" where
  "body_text b k = (case py_or (obj_get b k) (PStr []) of PStr s \<Rightarrow> Inr (py_strip s) | _ \<Rightarrow> Inl TypeError)"

definition create_filter ::
    "(int, project) dict \<Rightarrow> member list \<Rightarrow> caller \<Rightarrow> int \<Rightarrow> (string, pyval) dict \<Rightarrow> saved_filter list
      \<Rightarrow> (py_exc + reply) \<times> saved_filter list" where
  "create_filter projects ms who new_id b fs =
     (case body_text b ''name'' of Inl e \<Rightarrow> (Inl e, fs) | Inr name \<Rightarrow>
      (case body_text b ''expression'' of Inl e \<Rightarrow> (Inl e, fs) | Inr expression \<Rightarrow>
        if name = [] \<or> length name > 80 then (Inr (failure ''name required (1-80 chars)'' 400), fs)
        else if expression = [] then (Inr (failure ''expression required'' 400), fs)
        else (case require_project projects ms who (obj_get b ''project_id'') ''owner'' of
            None \<Rightarrow> (Inr (failure ''project not found'' 404), fs)
          | Some p \<Rightarrow>
              if list_ex (\<lambda>f. sf_project f = p_id p \<and> sf_name f = name) fs
              then (Inr (failure ''filter with this name already exists'' 409), fs)
              else (Inr \<lparr>body = [(''ok'', PBool True)], session_row = None, code = 201\<rparr>,
                fs @ [\<lparr>sf_id = new_id, sf_project = p_id p, sf_user = caller_uid who, sf_name = name,
                       sf_expression = expression\<rparr>]))))"

definition delete_filter ::
    "(int, project) dict \<Rightarrow> member list \<Rightarrow> caller \<Rightarrow> int \<Rightarrow> saved_filter list \<Rightarrow> reply \<times> saved_filter list" where
  "delete_filter projects ms who fid fs = (case find (\<lambda>f. sf_id f = fid) fs of
       None \<Rightarrow> (failure ''not found'' 404, fs)
     | Some f \<Rightarrow>
         if require_project projects ms who (PInt (sf_project f)) ''owner'' = None then (failure ''not found'' 404, fs)
         else (\<lparr>body = [(''ok'', PBool True)], session_row = None, code = 200\<rparr>, filter (\<lambda>g. sf_id g \<noteq> fid) fs))"


section \<open>Lemmas\<close>

lemma local_slot_unchanged:
  assumes "local_slot cfg rq uuid s = (Some r, s')"
  shows "s' = s \<and> code r = 409"
proof -
  have "s\<lparr>mgr := m\<rparr> = s" if "m = mgr s" for m using that by simp
  with assms refused_unchanged [of "rq_interface rq" uuid "mgr s"] show ?thesis
    by (auto simp: local_slot_def failure_def split: if_splits prod.splits option.splits)
qed

lemma local_slot_granted:
  assumes "local_slot cfg rq uuid s = (None, s')"
  shows "(rq_agent rq \<noteq> None \<and> s' = s)
     \<or> (rq_agent rq = None \<and> active_session_count (mgr s) < max_concurrent cfg
        \<and> (\<exists>m. locks_acquire (rq_interface rq) uuid (mgr s) = Some m \<and> s' = s\<lparr>mgr := m\<rparr>))"
  using assms by (auto simp: local_slot_def locks_acquire_def split: if_splits prod.splits option.splits)

lemma interface_gate_code: "interface_gate cfg policy i = Some (Inr r) \<Longrightarrow> code r = 403"
  by (auto simp: interface_gate_def failure_def split: sum.splits option.splits if_splits)

text \<open>A start either is refused before anything but the audit log changes, or reaches capd.\<close>

lemma start_cases:
  assumes "start_capture_session loads cfg uuid now rpc_result rq s = (res, s')"
  obtains (refused) "rows s' = rows s" "mgr s' = mgr s" "next_id s' = next_id s" "\<And>r. res = Inr r \<Longrightarrow> code r \<noteq> 201" "orders s' = orders s"
  | (reaches) p policy kb n s2 s3 row where
      "rq_project rq = Some p" "policy = parse_policy loads (p_policy p)"
      "rq_interface rq \<noteq> []" "1 \<le> rq_filesize_kb rq" "1 \<le> rq_files rq"
      "obj_get policy ''enabled'' \<noteq> PBool False" "interface_gate cfg policy (rq_interface rq) = None"
      "applied_ring policy (rq_filesize_kb rq) (rq_files rq) = Some (kb, n)"
      "rows s2 = rows s" "mgr s2 = mgr s" "next_id s2 = next_id s" "local_slot cfg rq uuid s2 = (None, s3)"
      "row = new_row (next_id s3) uuid rq p kb n (applied_duration policy (rq_max_duration rq))"
      "finish_start rq (operator_warning policy) p row now rpc_result
         (put_row row (s3\<lparr>next_id := next_id s3 + 1\<rparr>)) = (res, s')"
      "orders s3 = orders s"
proof (cases "rq_interface rq = [] \<or> rq_filesize_kb rq < 1 \<or> rq_files rq < 1 \<or> rq_max_duration rq < 0 \<or> rq_project rq = None")
  case True
  with assms show ?thesis
    by (intro refused) (auto simp: start_capture_session_def failure_def split: if_splits)
next
  case False
  then obtain p where p: "rq_project rq = Some p" by auto
  define policy where "policy = parse_policy loads (p_policy p)"
  note start = assms [unfolded start_capture_session_def] False p
  consider "obj_get policy ''enabled'' = PBool False"
    | r where "obj_get policy ''enabled'' \<noteq> PBool False" "interface_gate cfg policy (rq_interface rq) = Some r"
    | "obj_get policy ''enabled'' \<noteq> PBool False" "interface_gate cfg policy (rq_interface rq) = None"
      "applied_ring policy (rq_filesize_kb rq) (rq_files rq) = None"
    | kb n where "obj_get policy ''enabled'' \<noteq> PBool False" "interface_gate cfg policy (rq_interface rq) = None"
      "applied_ring policy (rq_filesize_kb rq) (rq_files rq) = Some (kb, n)"
    by (metis not_None_eq surj_pair)
  then show ?thesis
  proof cases
    case 1
    with start show ?thesis by (intro refused) (auto simp: policy_def [symmetric] failure_def Let_def)
  next
    case 2
    with start interface_gate_code [of cfg policy "rq_interface rq"] show ?thesis
      by (intro refused) (auto simp: policy_def [symmetric] Let_def)
  next
    case 3
    with start show ?thesis by (intro refused) (auto simp: policy_def [symmetric] failure_def Let_def)
  next
    case 4
    define s2 where "s2 = s\<lparr>audit_log := audit_log s @ duration_audit policy rq p @ ring_audit policy rq p\<rparr>"
    have same: "rows s2 = rows s" "mgr s2 = mgr s" "next_id s2 = next_id s" "orders s2 = orders s" by (simp_all add: s2_def)
    obtain slot s3 where slot: "local_slot cfg rq uuid s2 = (slot, s3)" by force
    show ?thesis
    proof (cases slot)
      case (Some r)
      with slot have "s3 = s2" "code r = 409" by (auto dest: local_slot_unchanged)
      with 4 start slot Some same show ?thesis
        by (intro refused) (auto simp: policy_def [symmetric] s2_def [symmetric] Let_def)
    next
      case None
      with 4 start slot have "finish_start rq (operator_warning policy) p
          (new_row (next_id s3) uuid rq p kb n (applied_duration policy (rq_max_duration rq))) now rpc_result
          (put_row (new_row (next_id s3) uuid rq p kb n (applied_duration policy (rq_max_duration rq)))
            (s3\<lparr>next_id := next_id s3 + 1\<rparr>)) = (res, s')"
        by (simp add: policy_def [symmetric] s2_def [symmetric] Let_def)
      moreover have "orders s3 = orders s" using local_slot_granted [of cfg rq uuid s2 s3] slot None same(4) by auto
      ultimately show ?thesis
        using 4 False slot None same p by (intro reaches [of p policy kb n s2 s3]) (auto simp: policy_def)
    qed
  qed
qed

lemma put_row_mgr [simp]: "mgr (put_row r s) = mgr s"
  by (simp add: put_row_def)

lemma put_row_rows [simp]: "rows (put_row r s) = dict_set (cs_id r) r (rows s)"
  by (simp add: put_row_def)

lemma put_row_next [simp]: "next_id (put_row r s) = next_id s"
  by (simp add: put_row_def)

lemma wire_hub_fields [simp]:
  "rows (wire_hub l i u s) = rows s" "iface_locks (mgr (wire_hub l i u s)) = iface_locks (mgr s)"
  by (simp_all add: wire_hub_def register_hub_def)

lemma log_audit_fields [simp]:
  "rows (log_audit e s) = rows s" "mgr (log_audit e s) = mgr s"
  by (simp_all add: log_audit_def)

lemma release_local_fields [simp]: "rows (release_local l i u s) = rows s"
  by (simp add: release_local_def)

lemma drop_local_fields [simp]: "rows (drop_local l r s) = rows s"
  by (simp add: drop_local_def)

lemma send_order_fields [simp]:
  "rows (send_order x s) = rows s" "mgr (send_order x s) = mgr s" "next_id (send_order x s) = next_id s"
  "orders (send_order x s) = orders s @ [x]"
  by (simp_all add: send_order_def)

lemma order_kept [simp]:
  "orders (put_row r s) = orders s" "orders (release_local l i u s) = orders s" "orders (log_audit e s) = orders s"
  "orders (wire_hub l k u s) = orders s"
  by (simp_all add: put_row_def release_local_def log_audit_def wire_hub_def)

lemma finish_start_orders: "orders (snd (finish_start rq w p row now rpc_result s)) = orders s @ [start_order row]"
  by (simp add: finish_start_def Let_def split: rpc.split)

lemma finish_start_ok:
  assumes "finish_start rq w p row now rpc_result s = (Inr r, s')" "code r = 201"
  obtains row' where "session_row r = Some row'" "dict_get (rows s') (cs_id row) = Some row'"
    "cs_status row' = Running" "cs_id row' = cs_id row" "cs_interface row' = cs_interface row"
    "cs_project row' = cs_project row" "cs_agent row' = cs_agent row" "cs_max_duration row' = cs_max_duration row"
    "cs_filesize_kb row' = cs_filesize_kb row" "cs_files row' = cs_files row"
    "iface_locks (mgr s') = iface_locks (mgr s)" "orders s' = orders s @ [start_order row']"
  using assms by (force simp: finish_start_def failure_def start_order_def Let_def split: rpc.splits)

lemma locks_ok_locks: "iface_locks m = iface_locks m' \<Longrightarrow> locks_ok m = locks_ok m' \<and> locks_held m = locks_held m'"
  by (simp add: locks_ok_def locks_held_def)

lemma drop_hub_locks [simp]: "iface_locks (snd (drop_hub u m)) = iface_locks m"
  by (simp add: drop_hub_def)


lemma applied_duration_capped:
  assumes "obj_get policy ''max_session_duration_s'' = PInt cap" "0 < cap"
  shows "0 < applied_duration policy d \<and> applied_duration policy d \<le> cap"
  using assms by (auto simp: applied_duration_def duration_capped_def Let_def)

lemma applied_ring_capped:
  assumes "applied_ring policy kb0 n0 = Some (kb, n)" "1 \<le> kb0" "1 \<le> n0"
  shows "1 \<le> kb \<and> kb \<le> kb0 \<and> 1 \<le> n \<and> n \<le> n0
     \<and> (\<forall>limit. policy_bytes policy = Some limit \<longrightarrow> kb * 1024 * n \<le> limit)"
proof (cases "policy_bytes policy")
  case None
  with assms show ?thesis by (simp add: applied_ring_def)
next
  case (Some limit)
  then obtain req tot where cap: "apply_max_total_bytes_cap kb0 n0 (Some limit) = (Some kb, Some n, req, Some tot)"
    using assms(1) by (auto simp: applied_ring_def split: prod.splits option.splits)
  from cap_bounds [OF assms(2,3), of limit] show ?thesis
    by (simp add: cap Some mult.commute mult.left_commute)
qed

section \<open>Properties\<close>

text \<open>
  C16. A start that is answered with 201 has stored a running row that obeys the project's
  policy: capture is not disabled, the interface is in the effective allowlist, a duration
  limit bounds the (positive) stored duration, and a byte limit bounds the stored ring. The daemon
  was asked once, for what that row says.
\<close>

theorem start_respects_policy:
  assumes "start_capture_session loads cfg uuid now rpc_result rq s = (Inr r, s')"
    and "code r = 201" and "rq_project rq = Some p"
  shows "\<exists>row. session_row r = Some row \<and> dict_get (rows s') (cs_id row) = Some row
     \<and> cs_status row = Running \<and> cs_interface row = rq_interface rq \<and> cs_project row = p_id p
     \<and> obj_get (parse_policy loads (p_policy p)) ''enabled'' \<noteq> PBool False
     \<and> (case resolve_interface_allowlist (interface_allowlist cfg) (parse_policy loads (p_policy p)) of
          Inl _ \<Rightarrow> False | Inr None \<Rightarrow> True | Inr (Some xs) \<Rightarrow> PStr (rq_interface rq) \<in> set xs)
     \<and> (\<forall>cap. obj_get (parse_policy loads (p_policy p)) ''max_session_duration_s'' = PInt cap \<and> 0 < cap \<longrightarrow>
          0 < cs_max_duration row \<and> cs_max_duration row \<le> cap)
     \<and> (\<forall>limit. obj_get (parse_policy loads (p_policy p)) ''max_total_bytes'' = PInt limit \<longrightarrow>
          cs_filesize_kb row * 1024 * cs_files row \<le> limit)
     \<and> orders s' = orders s @ [start_order row]"
  using assms(1)
proof (cases rule: start_cases)
  case refused
  with assms(2) show ?thesis by blast
next
  case (reaches p' policy kb n s2 s3 row)
  then have p: "p' = p" and policy: "policy = parse_policy loads (p_policy p)" using assms(3) by auto
  obtain row' where row': "session_row r = Some row'" "dict_get (rows s') (cs_id row') = Some row'"
      "cs_status row' = Running" "cs_interface row' = rq_interface rq" "cs_project row' = p_id p"
      "cs_max_duration row' = applied_duration policy (rq_max_duration rq)" "cs_filesize_kb row' = kb" "cs_files row' = n"
      "orders s' = orders s @ [start_order row']"
    by (rule finish_start_ok [OF reaches(14) assms(2)]) (simp add: reaches(13,15) new_row_def p)
  have "case resolve_interface_allowlist (interface_allowlist cfg) policy of
      Inl _ \<Rightarrow> False | Inr None \<Rightarrow> True | Inr (Some xs) \<Rightarrow> PStr (rq_interface rq) \<in> set xs"
    using reaches(7) by (auto simp: interface_gate_def split: sum.splits option.splits if_splits)
  moreover note ring = applied_ring_capped [OF reaches(8,4,5)]
  have "cs_filesize_kb row' * 1024 * cs_files row' \<le> limit"
    if "obj_get policy ''max_total_bytes'' = PInt limit" for limit
    using ring that by (auto simp: row' policy_bytes_def Let_def)
  ultimately show ?thesis
    using row' reaches(6) applied_duration_capped [of policy] unfolding policy by auto
qed

definition demo_project :: project where
  "demo_project = \<lparr>p_id = 3, p_user = 1, p_policy = Some ''P''\<rparr>"

definition demo_policy :: policy where
  "demo_policy = [(''max_session_duration_s'', PInt 60), (''max_total_bytes'', PInt 5000)]"

definition demo_loads :: "string \<Rightarrow> pyval option" where
  "demo_loads t = (if t = ''P'' then Some (PDict demo_policy) else None)"

definition demo_config :: capture_config where
  "demo_config = \<lparr>interface_allowlist = [''eth0''], max_concurrent = 2, live_enabled = True\<rparr>"

definition demo_request :: start_request where
  "demo_request = \<lparr>rq_user = 7, rq_project = Some demo_project, rq_agent = None, rq_interface = ''eth0'', rq_bpf = [],
     rq_filesize_kb = 4, rq_files = 3, rq_max_duration = 0, rq_actor = None\<rparr>"

definition empty_api :: api where
  "empty_api = \<lparr>mgr = new_manager, rows = [], next_id = 1, audit_log = [], orders = []\<rparr>"

named_theorems demo_defs \<open>the concrete inputs of the witnesses\<close>
declare demo_project_def [demo_defs] demo_policy_def [demo_defs] demo_loads_def [demo_defs]
  demo_config_def [demo_defs] demo_request_def [demo_defs] empty_api_def [demo_defs] new_manager_def [demo_defs]

lemma demo_reaches:
  "start_capture_session demo_loads demo_config ''u1'' 100 rpc_result demo_request empty_api =
   finish_start demo_request PNone demo_project (new_row 1 ''u1'' demo_request demo_project 1 3 60) 100 rpc_result
     \<lparr>mgr = \<lparr>hubs = [], iface_locks = [(''eth0'', ''u1'')]\<rparr>,
      rows = [(1, new_row 1 ''u1'' demo_request demo_project 1 3 60)], next_id = 2,
      audit_log = duration_audit demo_policy demo_request demo_project @ ring_audit demo_policy demo_request demo_project,
      orders = []\<rparr>"
proof -
  have policy: "parse_policy demo_loads (p_policy demo_project) = demo_policy"
    by (simp add: parse_policy_def demo_defs)
  have gate: "interface_gate demo_config demo_policy ''eth0'' = None"
    by (simp add: interface_gate_def resolve_interface_allowlist_def obj_get_def demo_defs)
  have bytes: "policy_bytes demo_policy = Some 5000"
    by (simp add: policy_bytes_def obj_get_def demo_defs)
  have ring: "applied_ring demo_policy 4 3 = Some (1, 3)"
    by (simp add: applied_ring_def bytes cap_closed_form Let_def)
  have dur: "applied_duration demo_policy 0 = 60"
    by (simp add: applied_duration_def duration_capped_def obj_get_def demo_defs)
  have warn: "operator_warning demo_policy = PNone" "obj_get demo_policy ''enabled'' \<noteq> PBool False"
    by (simp_all add: operator_warning_def obj_get_def py_or_def demo_defs)
  have req: "rq_interface demo_request = ''eth0''" "rq_filesize_kb demo_request = 4" "rq_files demo_request = 3"
      "rq_max_duration demo_request = 0" "rq_project demo_request = Some demo_project" "rq_agent demo_request = None"
      "max_concurrent demo_config = 2"
    by (simp_all add: demo_request_def demo_config_def)
  show ?thesis
    by (simp add: start_capture_session_def req policy gate ring dur warn local_slot_def active_session_count_def
        acquire_interface_def empty_api_def new_manager_def put_row_def new_row_def Let_def)
qed

theorem start_respects_policy_witness:
  "\<exists>row::capture_session. cs_status row = Running \<and> cs_interface row = ''eth0'' \<and> 0 < cs_max_duration row \<and> cs_max_duration row \<le> 60
     \<and> cs_filesize_kb row * 1024 * cs_files row \<le> 5000"
proof -
  obtain r s' where run: "start_capture_session demo_loads demo_config ''u1'' 100 (RpcOk []) demo_request empty_api = (Inr r, s')"
      "code r = 201"
    unfolding demo_reaches by (simp add: finish_start_def Let_def)
  have "rq_project demo_request = Some demo_project" by (simp add: demo_request_def)
  from start_respects_policy [OF run this] show ?thesis
    by (simp add: demo_defs parse_policy_def obj_get_def) (elim exE conjE, intro exI conjI, assumption+)
qed


text \<open>
  Unless the client raises something other than its own two errors, a start takes the
  interface lock exactly when it is answered with 201 for a local capture: every refusal and
  every failure of capd leaves the set of held locks as it was.
\<close>

theorem start_lock_balance:
  assumes "start_capture_session loads cfg uuid now rpc_result rq s = (Inr r, s')"
    and "locks_ok (mgr s)" and "uuid \<noteq> []" and "(rq_interface rq, uuid) \<notin> locks_held (mgr s)"
  shows "locks_held (mgr s') =
     (if code r = 201 \<and> rq_agent rq = None then insert (rq_interface rq, uuid) (locks_held (mgr s))
      else locks_held (mgr s))"
  using assms(1)
proof (cases rule: start_cases)
  case refused
  then show ?thesis by auto
next
  case (reaches p policy kb n s2 s3 row)
  have uuid: "cs_uuid row = uuid" using reaches(13) by (simp add: new_row_def)
  let ?s4 = "put_row row (s3\<lparr>next_id := next_id s3 + 1\<rparr>)"
  note fin = reaches(14)
  show ?thesis
  proof (cases "rq_agent rq")
    case (Some ag)
    then have "s3 = s2" using local_slot_granted [OF reaches(12)] by auto
    then have "iface_locks (mgr s') = iface_locks (mgr s)"
      using fin Some reaches(10) by (auto simp: finish_start_def release_local_def Let_def split: rpc.splits)
    then show ?thesis using Some by (simp add: locks_ok_locks [of "mgr s'" "mgr s"])
  next
    case None
    then obtain m where m: "locks_acquire (rq_interface rq) uuid (mgr s) = Some m" "mgr s3 = m"
      using local_slot_granted [OF reaches(12)] reaches(10) by auto
    have held: "locks_held m = insert (rq_interface rq, uuid) (locks_held (mgr s))" and ok: "locks_ok m"
      using locks.acquire_held [OF assms(2,3) m(1)] locks.ok_acquire [OF assms(2,3) m(1)] by simp_all
    have released: "locks_held (release_interface (rq_interface rq) uuid m) = locks_held (mgr s)"
      using release_locks [OF ok] held assms(4) by simp
    show ?thesis
    proof (cases rpc_result)
      case (RpcOk resp)
      with fin None have "iface_locks (mgr s') = iface_locks m \<and> code r = 201"
        by (auto simp: finish_start_def m(2) Let_def)
      with None held locks_ok_locks [of "mgr s'" m] show ?thesis by simp
    next
      case (RpcRaised e)
      with fin show ?thesis by (simp add: finish_start_def Let_def)
    next
      case (RpcUnavailable msg)
      with fin None have "mgr s' = release_interface (rq_interface rq) uuid m \<and> code r = 503"
        by (auto simp: finish_start_def release_local_def failure_def m(2) uuid Let_def)
      with released show ?thesis by simp
    next
      case (RpcError msg)
      with fin None have "mgr s' = release_interface (rq_interface rq) uuid m \<and> code r = 502"
        by (auto simp: finish_start_def release_local_def failure_def m(2) uuid Let_def)
      with released show ?thesis by simp
    qed
  qed
qed

theorem start_lock_balance_witness:
  "locks_held (mgr (snd (start_capture_session demo_loads demo_config ''u1'' 100 (RpcError ''boom'') demo_request empty_api))) = {}"
proof -
  obtain r s' where run: "start_capture_session demo_loads demo_config ''u1'' 100 (RpcError ''boom'') demo_request empty_api = (Inr r, s')"
      "code r = 502"
    unfolding demo_reaches by (simp add: finish_start_def failure_def Let_def)
  have "locks_ok (mgr empty_api)" "(''u1''::string) \<noteq> []" "(rq_interface demo_request, ''u1'') \<notin> locks_held (mgr empty_api)"
    by (simp_all add: locks_ok_def locks_held_def demo_defs)
  from start_lock_balance [OF run(1) this] run show ?thesis
    by (simp add: locks_held_def demo_defs)
qed

lemma member_allows_editor:
  assumes "member_allows ms pid uid ''editor''"
  shows "\<exists>m \<in> set ms. m_project m = pid \<and> m_user m = uid \<and> m_role m \<in> {''editor'', ''owner''}"
  using assms
  by (auto simp: member_allows_def member_of_def min_rank_def find_Some_iff split: option.splits if_splits)

lemma start_needs_project:
  assumes "start_capture_session loads cfg uuid now rpc_result rq s = (Inr r, s')" "code r = 201"
  shows "\<exists>p row. rq_project rq = Some p \<and> session_row r = Some row \<and> cs_project row = p_id p
     \<and> cs_agent row = map_option ag_id (rq_agent rq)"
  using assms(1)
proof (cases rule: start_cases)
  case refused
  with assms(2) show ?thesis by blast
next
  case (reaches p policy kb n s2 s3 row)
  obtain row' where "session_row r = Some row'" "cs_project row' = p_id p" "cs_agent row' = map_option ag_id (rq_agent rq)"
    by (rule finish_start_ok [OF reaches(14) assms(2)]) (simp add: reaches(13) new_row_def)
  with reaches(1) show ?thesis by blast
qed

lemma require_project_editor:
  assumes "require_project projects ms who v ''editor'' = Some p"
  shows "\<exists>pid. dict_get projects pid = Some p \<and> (p_user p = caller_uid who
     \<or> (\<exists>m \<in> set ms. m_project m = pid \<and> m_user m = caller_uid who \<and> m_role m \<in> {''editor'', ''owner''}))"
  using assms member_allows_editor [of ms _ "caller_uid who"]
  by (auto simp: require_project_def split: if_splits option.splits)

lemma start_session_reaches:
  assumes "start_session fr loads cfg agents projects ms who uuid now rpc_result b s = (Inr r, s')" "code r = 201"
  shows "live_enabled cfg \<and> (\<exists>interface bpf kb n dur ag.
      start_capture_session loads cfg uuid now rpc_result
        (route_request who (require_project projects ms who (obj_get b ''project_id'') ''editor'') interface bpf kb n dur ag) s
        = (Inr r, s')
      \<and> (\<forall>x. ag = Some x \<longrightarrow> require_agent agents projects ms who (obj_get b ''agent_id'') ''editor'' = Some x
         \<and> (\<forall>p. require_project projects ms who (obj_get b ''project_id'') ''editor'' = Some p \<longrightarrow> ag_project x = p_id p)))"
  using assms
  by (auto simp: start_session_def failure_def Let_def split: if_splits option.splits) blast+

text \<open>
  A start through the route is answered with 201 only for a project that the caller owns
  or is a member of as editor or owner, and an agent it names is not revoked and belongs to
  that same project.
\<close>

theorem start_session_access:
  assumes "start_session fr loads cfg agents projects ms who uuid now rpc_result b s = (Inr r, s')"
    and "code r = 201"
  shows "live_enabled cfg \<and> (\<exists>pid p row. dict_get projects pid = Some p \<and> session_row r = Some row \<and> cs_project row = p_id p
     \<and> (p_user p = caller_uid who
        \<or> (\<exists>m \<in> set ms. m_project m = pid \<and> m_user m = caller_uid who \<and> m_role m \<in> {''editor'', ''owner''}))
     \<and> (\<forall>aid. cs_agent row = Some aid \<longrightarrow>
          (\<exists>k ag. dict_get agents k = Some ag \<and> ag_id ag = aid \<and> ag_project ag = p_id p \<and> ag_status ag \<noteq> ''revoked'')))"
proof -
  define project where "project = require_project projects ms who (obj_get b ''project_id'') ''editor''"
  obtain interface bpf kb n dur ag where live: "live_enabled cfg"
      and run: "start_capture_session loads cfg uuid now rpc_result (route_request who project interface bpf kb n dur ag) s = (Inr r, s')"
      and agent: "\<forall>x. ag = Some x \<longrightarrow> require_agent agents projects ms who (obj_get b ''agent_id'') ''editor'' = Some x
       \<and> (\<forall>p. project = Some p \<longrightarrow> ag_project x = p_id p)"
    using start_session_reaches [OF assms, folded project_def] by (elim exE conjE)
  obtain p row where p: "project = Some p" "session_row r = Some row" "cs_project row = p_id p"
      "cs_agent row = map_option ag_id ag"
    using start_needs_project [OF run assms(2)] by (auto simp: route_request_def)
  obtain pid where pid: "dict_get projects pid = Some p" "p_user p = caller_uid who
     \<or> (\<exists>m \<in> set ms. m_project m = pid \<and> m_user m = caller_uid who \<and> m_role m \<in> {''editor'', ''owner''})"
    using require_project_editor project_def p(1) by metis
  have "\<exists>k. dict_get agents k = Some x \<and> ag_project x = p_id p \<and> ag_status x \<noteq> ''revoked''" if "ag = Some x" for x
    using agent that p(1) by (auto simp: require_agent_def split: option.splits if_splits)
  then have "\<forall>aid. cs_agent row = Some aid \<longrightarrow>
          (\<exists>k x. dict_get agents k = Some x \<and> ag_id x = aid \<and> ag_project x = p_id p \<and> ag_status x \<noteq> ''revoked'')"
    using p(4) by auto blast
  with live pid p show ?thesis by blast
qed


theorem start_session_access_witness:
  "\<exists>p row. session_row row = Some p \<and> cs_project (p::capture_session) = 3 \<and> code (row::reply) = 201"
proof -
  let ?b = "[(''interface'', PStr ''eth0''), (''project_id'', PInt 3), (''ring_filesize_kb'', PInt 4), (''ring_files'', PInt 3)]"
  let ?ms = "[\<lparr>m_project = 3, m_user = 7, m_role = ''editor''\<rparr>]"
  let ?who = "\<lparr>caller_uid = 7, caller_admin = False\<rparr>"
  have strip: "py_strip ''eth0'' = ''eth0''"
    by (rule py_strip_id) (simp_all add: py_isspace_def ord_of_def)
  have req: "route_request ?who (Some demo_project) ''eth0'' [] 4 3 0 None = demo_request"
    by (simp add: route_request_def demo_request_def)
  have proj: "require_project [(3, demo_project)] ?ms ?who (PInt 3) ''editor'' = Some demo_project"
    by (simp add: require_project_def member_allows_def member_of_def min_rank_def demo_project_def)
  have route: "start_session (\<lambda>_. []) demo_loads demo_config [] [(3, demo_project)] ?ms ?who ''u1'' 100 (RpcOk []) ?b empty_api
      = start_capture_session demo_loads demo_config ''u1'' 100 (RpcOk []) demo_request empty_api"
    using strip req proj by (simp add: start_session_def obj_get_def obj_get_or_def body_int_def py_or_def demo_config_def)
  obtain r s' where run: "start_capture_session demo_loads demo_config ''u1'' 100 (RpcOk []) demo_request empty_api = (Inr r, s')"
      "code r = 201"
    unfolding demo_reaches by (simp add: finish_start_def Let_def)
  from start_session_access [OF route [unfolded run(1)] run(2)] run(2) show ?thesis
    by (auto simp: demo_project_def split: if_splits)
qed

text \<open>The ways a session of the table can end: the stop route, and the hub's callback.\<close>

datatype end_event = StopRequest caller int rpc | HubFinished int "frame option"

fun end_step :: "(int, agent) dict \<Rightarrow> int \<Rightarrow> string \<Rightarrow> string \<Rightarrow> api \<Rightarrow> end_event \<Rightarrow> api" where
  "end_step agents sid iface uuid s (StopRequest who now r) = snd (stop_session agents who now r sid s)"
| "end_step agents sid iface uuid s (HubFinished now f) =
     (case finalize_session sid iface uuid now f s of None \<Rightarrow> s | Some s' \<Rightarrow> s')"

lemma end_step_fixed:
  assumes "dict_get (rows s) sid = Some cs" "cs_status cs \<notin> {Running, Pending}"
  shows "end_step agents sid iface uuid s e = s"
  using assms by (cases e) (auto simp: stop_session_def finalize_session_def)

lemma end_steps_fixed:
  assumes "dict_get (rows s) sid = Some cs" "cs_status cs \<notin> {Running, Pending}"
  shows "foldl (end_step agents sid iface uuid) s es = s"
  by (induction es) (simp_all add: end_step_fixed [OF assms])

text \<open>
  A row ends once: after a stop request that is answered with 200, 502 or 503 for a
  running or pending session, or after the hub's callback on a running one, the row is
  stopped or failed, and no later stop or callback for it changes anything at all.
\<close>

theorem session_ends_once:
  assumes "dict_get (rows s) sid = Some cs" "cs_id cs = sid"
    and "(cs_status cs \<in> {Running, Pending} \<and> stop_session agents who now r sid s = (Inr rep, s') \<and> code rep \<noteq> 404)
       \<or> (cs_status cs = Running \<and> finalize_session sid iface uuid now final s = Some s')"
  shows "\<exists>row. dict_get (rows s') sid = Some row \<and> cs_status row \<in> {Stopped, Failed}
     \<and> (\<forall>es. foldl (end_step agents sid iface uuid) s' es = s')"
proof -
  have "\<exists>row. dict_get (rows s') sid = Some row \<and> cs_status row \<in> {Stopped, Failed}"
    using assms(3)
  proof (elim disjE conjE)
    assume "cs_status cs \<in> {Running, Pending}" "stop_session agents who now r sid s = (Inr rep, s')" "code rep \<noteq> 404"
    with assms(1,2) show ?thesis
      by (auto simp: stop_session_def failure_def Let_def split: if_splits rpc.splits option.splits)
  next
    assume "cs_status cs = Running" "finalize_session sid iface uuid now final s = Some s'"
    with assms(1,2) show ?thesis
      by (auto simp: finalize_session_def Let_def split: option.splits)
  qed
  then obtain row where row: "dict_get (rows s') sid = Some row" "cs_status row \<in> {Stopped, Failed}" by blast
  with end_steps_fixed [OF row(1)] show ?thesis by auto
qed

definition demo_row :: capture_session where
  "demo_row = (new_row 1 ''u1'' demo_request demo_project 1 3 60)\<lparr>cs_status := Running\<rparr>"

definition demo_running :: api where
  "demo_running = \<lparr>mgr = \<lparr>hubs = [], iface_locks = [(''eth0'', ''u1'')]\<rparr>, rows = [(1, demo_row)], next_id = 2, audit_log = [], orders = []\<rparr>"

lemma demo_row_fields [simp]:
  "cs_id demo_row = 1" "cs_status demo_row = Running" "cs_user demo_row = 7" "cs_agent demo_row = None"
  "cs_interface demo_row = ''eth0''" "cs_uuid demo_row = ''u1''"
  by (simp_all add: demo_row_def new_row_def demo_request_def)

theorem session_ends_once_witness:
  "\<exists>row. dict_get (rows (the (finalize_session 1 ''eth0'' ''u1'' 5 None demo_running))) 1 = Some row
     \<and> cs_status row \<in> {Stopped, Failed}"
proof -
  have get: "dict_get (rows demo_running) 1 = Some demo_row" by (simp add: demo_running_def)
  obtain s' where fin: "finalize_session 1 ''eth0'' ''u1'' 5 None demo_running = Some s'"
    by (simp add: finalize_session_def demo_running_def)
  then have "cs_status demo_row = Running \<and> finalize_session 1 ''eth0'' ''u1'' 5 None demo_running = Some s'" by simp
  from session_ends_once [OF get demo_row_fields(1) disjI2 [OF this]] show ?thesis by (auto simp: fin)
qed

text \<open>
  When a local session's stop request gets an answer at all (success or one of the
  client's two errors), its interface lock and its hub are gone.
\<close>

theorem stop_releases:
  assumes "dict_get (rows s) sid = Some cs" "cs_status cs \<in> {Running, Pending}" "cs_agent cs = None"
    and "stop_session agents who now r sid s = (Inr rep, s')" "code rep \<noteq> 404" "locks_ok (mgr s)"
  shows "(cs_interface cs, cs_uuid cs) \<notin> locks_held (mgr s') \<and> get_hub (cs_uuid cs) (mgr s') = None"
proof -
  have "mgr s' = snd (drop_hub (cs_uuid cs) (release_interface (cs_interface cs) (cs_uuid cs) (mgr s)))"
    using assms(1-5)
    by (auto simp: stop_session_def failure_def drop_local_def Let_def split: if_splits rpc.splits option.splits)
  moreover have "locks_held (snd (drop_hub u m)) = locks_held m" for u m
    by (simp add: locks_held_def drop_hub_def)
  ultimately show ?thesis
    using release_locks [OF assms(6)] by (simp add: get_hub_def drop_hub_def)
qed

theorem stop_releases_witness:
  "locks_held (mgr (snd (stop_session [] \<lparr>caller_uid = 7, caller_admin = False\<rparr> 9 (RpcError ''unknown session'') 1 demo_running))) = {}"
proof -
  obtain rep s' where run: "stop_session [] \<lparr>caller_uid = 7, caller_admin = False\<rparr> 9 (RpcError ''unknown session'') 1 demo_running = (Inr rep, s')"
      "code rep = 502"
    by (simp add: stop_session_def demo_running_def failure_def Let_def)
  have "iface_locks (mgr s') = []"
    using run by (auto simp: stop_session_def demo_running_def failure_def drop_local_def release_interface_def drop_hub_def Let_def)
  moreover have "dict_get (rows demo_running) 1 = Some demo_row" "locks_ok (mgr demo_running)"
    by (simp_all add: demo_running_def locks_ok_def dict_ok_def)
  ultimately show ?thesis
    using stop_releases [of demo_running 1 demo_row, OF _ _ _ run(1)] run by (simp add: locks_held_def)
qed

text \<open>
  When the stop call raises anything else (a reset or timed-out connection is neither of
  the client's two errors), the row has already been committed as stopping and the interface
  lock is still held, and no later stop request or hub callback ever changes that.
\<close>

theorem stop_raise_stuck:
  assumes "dict_get (rows s) sid = Some cs" "cs_id cs = sid"
    and "stop_session agents who now (RpcRaised e) sid s = (Inl e, s')"
  shows "mgr s' = mgr s \<and> dict_get (rows s') sid = Some (cs\<lparr>cs_status := Stopping\<rparr>)
     \<and> (\<forall>es. foldl (end_step agents sid iface uuid) s' es = s')"
proof -
  have s': "mgr s' = mgr s" "dict_get (rows s') sid = Some (cs\<lparr>cs_status := Stopping\<rparr>)"
    using assms by (auto simp: stop_session_def Let_def split: if_splits)
  with end_steps_fixed [OF s'(2)] show ?thesis by simp
qed

theorem stop_raise_stuck_witness:
  "\<exists>s'. stop_session [] \<lparr>caller_uid = 7, caller_admin = False\<rparr> 9 (RpcRaised OSError) 1 demo_running = (Inl OSError, s')
     \<and> (''eth0'', ''u1'') \<in> locks_held (mgr s')
     \<and> foldl (end_step [] 1 ''eth0'' ''u1'') s'
         [HubFinished 10 None, StopRequest \<lparr>caller_uid = 7, caller_admin = False\<rparr> 11 (RpcOk [])] = s'"
proof -
  obtain s' where run: "stop_session [] \<lparr>caller_uid = 7, caller_admin = False\<rparr> 9 (RpcRaised OSError) 1 demo_running = (Inl OSError, s')"
    by (simp add: stop_session_def demo_running_def Let_def)
  have "dict_get (rows demo_running) 1 = Some demo_row" by (simp add: demo_running_def)
  from stop_raise_stuck [OF this demo_row_fields(1) run, of "''eth0''" "''u1''"]
  have "mgr s' = mgr demo_running" "\<forall>es. foldl (end_step [] 1 ''eth0'' ''u1'') s' es = s'"
    by blast+
  then show ?thesis using run by (auto simp: demo_running_def locks_held_def simp del: foldl_Cons)
qed

end
