(* ===== verification/Supervisor.thy ===== *)
theory Supervisor
  imports PyVal
begin

text \<open>
  \<open>marlinspike-capd/capd/supervisor.py\<close>: the supervisor of one dumpcap process. The operating
  system's answers (whether the process lives, what the capture directory lists, the clock)
  are arguments; the bookkeeping of rotated, closed and lost files is the model.
\<close>

section \<open>File names and dumpcap's summary\<close>

definition basename :: "string \<Rightarrow> string" where
  "basename path = last (py_split (CHR ''/'') path)"

text \<open>\<open>re.search(r"cap_(\d+)_", name)\<close>: the leftmost match.\<close>

definition seq_at :: "string \<Rightarrow> nat option" where
  "seq_at s = (if py_startswith s ''cap_'' then
       (let ds = takeWhile py_isdigit (drop 4 s); rest = dropWhile py_isdigit (drop 4 s)
        in if ds \<noteq> [] \<and> py_startswith rest ''_'' then Some (digits_val ds) else None)
     else None)"

fun seq_search :: "string \<Rightarrow> nat option" where
  "seq_search [] = None"
| "seq_search (c # s) = (case seq_at (c # s) of Some n \<Rightarrow> Some n | None \<Rightarrow> seq_search s)"

definition seq_of :: "string \<Rightarrow> nat option" where
  "seq_of path = seq_search (basename path)"

text \<open>\<open>re.search(label + r"\s*(\d+)", text)\<close>.\<close>

definition count_at :: "string \<Rightarrow> string \<Rightarrow> int option" where
  "count_at label s = (if py_startswith s label then
       (let ds = takeWhile py_isdigit (dropWhile py_isspace (drop (length label) s))
        in if ds \<noteq> [] then Some (int (digits_val ds)) else None)
     else None)"

fun count_search :: "string \<Rightarrow> string \<Rightarrow> int option" where
  "count_search label [] = None"
| "count_search label (c # s) = (case count_at label (c # s) of Some n \<Rightarrow> Some n | None \<Rightarrow> count_search label s)"

section \<open>State\<close>

record sup_config =
  sc_session :: string
  sc_interface :: string
  sc_bpf :: string
  sc_out_dir :: string
  sc_filesize_kb :: int
  sc_files :: int
  sc_max_duration :: int

record supervisor =
  sup_cfg :: sup_config
  has_proc :: bool
  stderr_buf :: "string list"
  started_at :: "rat option"
  last_poll_ts :: rat
  last_poll_bytes :: int
  previous_active :: "string option"
  closed_emitted :: "string list"
  chmod_done :: "string list"
  highest_seq :: nat
  files_lost :: nat
  final_packets :: "int option"
  final_drops :: "int option"

record capture_stats =
  st_ts :: rat
  st_bytes_total :: int
  st_bytes_per_sec :: rat
  st_current_file :: "string option"
  st_file_index :: nat
  st_files_closed :: "string list"
  st_running :: bool
  st_files_lost :: nat

text \<open>A directory entry: its path, its size if it can be read, whether \<open>chmod\<close> succeeds.\<close>

type_synonym dir_entry = "string \<times> int option \<times> bool"

section \<open>Construction, start, stderr\<close>

definition session_id_ok :: "string \<Rightarrow> bool" where
  "session_id_ok sid \<longleftrightarrow> sid \<noteq> [] \<and>
     (let rest = filter (\<lambda>c. c \<noteq> CHR ''-'' \<and> c \<noteq> CHR ''_'') sid in rest \<noteq> [] \<and> list_all py_isalnum rest)"

definition new_supervisor :: "sup_config \<Rightarrow> bool \<Rightarrow> string + supervisor" where
  "new_supervisor cfg dumpcap_found =
     (if \<not> session_id_ok (sc_session cfg) then Inl ''session_id must be alphanumeric (with - or _)''
      else if \<not> dumpcap_found then Inl ''dumpcap not found on PATH''
      else Inr \<lparr>sup_cfg = cfg, has_proc = False, stderr_buf = [], started_at = None, last_poll_ts = 0,
        last_poll_bytes = 0, previous_active = None, closed_emitted = [], chmod_done = [], highest_seq = 0,
        files_lost = 0, final_packets = None, final_drops = None\<rparr>)"

definition dumpcap_argv :: "string \<Rightarrow> sup_config \<Rightarrow> string list" where
  "dumpcap_argv dumpcap cfg =
     [dumpcap, ''-i'', sc_interface cfg, ''-q'', ''-n'',
      ''-b'', ''filesize:'' @ show_int (sc_filesize_kb cfg), ''-b'', ''files:'' @ show_int (sc_files cfg),
      ''-w'', sc_out_dir cfg @ ''/cap.pcapng'']
     @ (if py_strip (sc_bpf cfg) \<noteq> [] then [''-f'', py_strip (sc_bpf cfg)] else [])
     @ (if sc_max_duration cfg \<noteq> 0 \<and> sc_max_duration cfg > 0
        then [''-a'', ''duration:'' @ show_int (sc_max_duration cfg)] else [])"

definition consume_line :: "string \<Rightarrow> supervisor \<Rightarrow> supervisor" where
  "consume_line line s =
     (let line' = rev (dropWhile (\<lambda>c. c = CHR 0x0A) (rev line));
          buf = stderr_buf s @ [line']
      in s\<lparr>stderr_buf := (if length buf > 500 then drop 250 buf else buf)\<rparr>)"

text \<open>
  The start: what dumpcap wrote during the grace period, and its exit code if it is gone
  after it. The supervisor of a failed start is discarded by its caller.
\<close>

definition sup_start :: "rat \<Rightarrow> string list \<Rightarrow> int option \<Rightarrow> supervisor \<Rightarrow> string + supervisor" where
  "sup_start now early_lines exit_code s =
     (if has_proc s then Inl ''supervisor already started''
      else
        let s1 = fold consume_line early_lines (s\<lparr>has_proc := True, started_at := Some now\<rparr>) in
        case exit_code of
          None \<Rightarrow> Inr s1
        | Some c \<Rightarrow>
            let reason = py_strip (py_join [CHR 0x0A] (stderr_buf s1))
            in Inl (if reason \<noteq> [] then reason else ''dumpcap exited immediately with code '' @ show_int c))"

definition parse_final_stats :: "supervisor \<Rightarrow> supervisor" where
  "parse_final_stats s =
     (let joined = py_join [CHR 0x0A] (stderr_buf s) in
      s\<lparr>final_packets := (case count_search ''Packets captured:'' joined of Some n \<Rightarrow> Some n | None \<Rightarrow> final_packets s),
        final_drops := (case count_search ''Packets dropped:'' joined of Some n \<Rightarrow> Some n | None \<Rightarrow> final_drops s)\<rparr>)"

section \<open>The snapshot\<close>

definition chmod_new :: "dir_entry list \<Rightarrow> string list \<Rightarrow> string list \<Rightarrow> string list" where
  "chmod_new dir files done = foldl (\<lambda>d f. if f \<in> set d then d
       else (case map_of dir f of Some (_, True) \<Rightarrow> d @ [f] | _ \<Rightarrow> d)) done files"

definition lost_gap :: "nat list \<Rightarrow> nat \<Rightarrow> nat" where
  "lost_gap seqs highest =
     (if seqs = [] then 0
      else if Min (set seqs) > highest + 1 then Min (set seqs) - highest - 1 else 0)"

definition raise_highest :: "nat list \<Rightarrow> nat \<Rightarrow> nat" where
  "raise_highest seqs highest = (if seqs = [] then highest else max highest (Max (set seqs)))"

text \<open>Reporting a file as closed at most once: what is new in this snapshot, and all so far.\<close>

definition close_file :: "string \<Rightarrow> string list \<times> string list \<Rightarrow> string list \<times> string list" where
  "close_file f acc = (if f \<in> set (snd acc) then acc else (fst acc @ [f], snd acc @ [f]))"

definition rotate_files :: "string list \<Rightarrow> bool \<Rightarrow> string option \<Rightarrow> string list \<Rightarrow> string list \<times> string list" where
  "rotate_files files finalize previous emitted =
     (let active = (if files = [] then None else Some (last files));
          acc1 = (case previous of
              None \<Rightarrow> ([], emitted)
            | Some p \<Rightarrow> if p \<noteq> [] \<and> Some p \<noteq> active then close_file p ([], emitted) else ([], emitted));
          acc2 = foldl (\<lambda>acc f. if Some f \<noteq> active then close_file f acc else acc) acc1 files
      in if finalize then (case active of Some a \<Rightarrow> if a \<noteq> [] then close_file a acc2 else acc2 | None \<Rightarrow> acc2)
         else acc2)"

definition bytes_of :: "dir_entry list \<Rightarrow> string list \<Rightarrow> int" where
  "bytes_of dir files = sum_list (map (\<lambda>f. case map_of dir f of Some (Some n, _) \<Rightarrow> n | _ \<Rightarrow> 0) files)"

definition snapshot :: "dir_entry list \<Rightarrow> rat \<Rightarrow> bool \<Rightarrow> bool \<Rightarrow> supervisor \<Rightarrow> capture_stats \<times> supervisor" where
  "snapshot dir now running finalize s =
     (let files = sort (map fst dir);
          active = (if files = [] then None else Some (last files));
          seqs = List.map_filter seq_of files;
          lost = files_lost s + lost_gap seqs (highest_seq s);
          (newly, emitted) = rotate_files files finalize (previous_active s) (closed_emitted s);
          total = bytes_of dir files;
          bps = (if last_poll_ts s \<noteq> 0 \<and> now > last_poll_ts s
                 then max 0 (of_int (total - last_poll_bytes s) / (now - last_poll_ts s)) else 0)
      in (\<lparr>st_ts = now, st_bytes_total = total, st_bytes_per_sec = bps, st_current_file = active,
           st_file_index = length files, st_files_closed = newly, st_running = running, st_files_lost = lost\<rparr>,
          s\<lparr>chmod_done := chmod_new dir files (chmod_done s), files_lost := lost,
            highest_seq := raise_highest seqs (highest_seq s), closed_emitted := emitted,
            previous_active := active, last_poll_ts := now, last_poll_bytes := total\<rparr>))"

definition poll :: "bool \<Rightarrow> dir_entry list \<Rightarrow> rat \<Rightarrow> supervisor \<Rightarrow> capture_stats \<times> supervisor" where
  "poll alive dir now s =
     (let running = (has_proc s \<and> alive);
          s1 = (if \<not> running \<and> final_packets s = None then parse_final_stats s else s)
      in snapshot dir now running (\<not> running) s1)"

text \<open>
  The stop; \<open>None\<close> when even the killed process is not reaped in time, which raises.
\<close>

definition sup_stop :: "bool \<Rightarrow> dir_entry list \<Rightarrow> rat \<Rightarrow> supervisor \<Rightarrow> (capture_stats \<times> supervisor) option" where
  "sup_stop reaped dir now s =
     (if \<not> has_proc s then Some (snapshot dir now False False s)
      else if \<not> reaped then None
      else let (st, s1) = snapshot dir now False True (parse_final_stats s) in Some (st, s1\<lparr>has_proc := False\<rparr>))"


section \<open>Lemmas\<close>

definition acc_ok :: "string list \<Rightarrow> string list \<times> string list \<Rightarrow> bool" where
  "acc_ok emitted acc \<longleftrightarrow> snd acc = emitted @ fst acc \<and> distinct (snd acc)"

lemma close_file_ok: "acc_ok emitted acc \<Longrightarrow> acc_ok emitted (close_file f acc)"
  by (auto simp: acc_ok_def close_file_def)

lemma close_file_set: "set (snd (close_file f acc)) = insert f (set (snd acc))"
  by (auto simp: close_file_def)

lemma close_files_ok:
  "acc_ok emitted acc \<Longrightarrow> acc_ok emitted (foldl (\<lambda>acc f. if P f then close_file f acc else acc) acc files)"
  by (induction files arbitrary: acc) (simp_all add: close_file_ok)

lemma close_files_set:
  "set (snd (foldl (\<lambda>acc f. if P f then close_file f acc else acc) acc files)) = set (snd acc) \<union> {f \<in> set files. P f}"
  by (induction files arbitrary: acc) (auto simp: close_file_set)

definition active_of :: "string list \<Rightarrow> string option" where
  "active_of files = (if files = [] then None else Some (last files))"

lemma active_mem: "active_of files = Some p \<Longrightarrow> p \<in> set files"
  by (auto simp: active_of_def split: if_splits)

lemma active_nonempty: "[] \<notin> set files \<Longrightarrow> active_of files = Some p \<Longrightarrow> p \<noteq> []"
  using active_mem by blast

lemma rotate_files_ok:
  assumes "distinct emitted"
  shows "acc_ok emitted (rotate_files files finalize previous emitted)"
proof -
  have start: "acc_ok emitted ([], emitted)" using assms by (simp add: acc_ok_def)
  show ?thesis
    unfolding rotate_files_def Let_def
    by (auto intro!: close_file_ok close_files_ok start split: option.split)
qed

lemma rotate_files_set:
  "set (snd (rotate_files files finalize previous emitted)) = set emitted
     \<union> {p. previous = Some p \<and> p \<noteq> [] \<and> Some p \<noteq> active_of files}
     \<union> {f \<in> set files. Some f \<noteq> active_of files}
     \<union> {a. finalize \<and> active_of files = Some a \<and> a \<noteq> []}"
proof -
  let ?act = "active_of files"
  define acc1 where "acc1 = (case previous of None \<Rightarrow> ([], emitted)
      | Some p \<Rightarrow> if p \<noteq> [] \<and> Some p \<noteq> ?act then close_file p ([], emitted) else ([], emitted))"
  define acc2 where "acc2 = foldl (\<lambda>acc f. if Some f \<noteq> ?act then close_file f acc else acc) acc1 files"
  have 1: "set (snd acc1) = set emitted \<union> {p. previous = Some p \<and> p \<noteq> [] \<and> Some p \<noteq> ?act}"
    by (auto simp: acc1_def close_file_set split: option.split)
  have 2: "set (snd acc2) = set (snd acc1) \<union> {f \<in> set files. Some f \<noteq> ?act}"
    by (simp add: acc2_def close_files_set)
  have "rotate_files files finalize previous emitted =
      (if finalize then (case ?act of Some a \<Rightarrow> if a \<noteq> [] then close_file a acc2 else acc2 | None \<Rightarrow> acc2) else acc2)"
    unfolding rotate_files_def Let_def active_of_def [symmetric] acc2_def acc1_def by (rule refl)
  then show ?thesis by (auto simp: close_file_set 1 2 split: option.split)
qed

lemma snapshot_fields:
  assumes "snapshot dir now running finalize s = (st, s')"
  defines "files \<equiv> sort (map fst dir)"
  shows "(st_files_closed st, closed_emitted s') = rotate_files files finalize (previous_active s) (closed_emitted s)"
    and "previous_active s' = active_of files" "st_current_file st = active_of files"
    and "files_lost s' = files_lost s + lost_gap (List.map_filter seq_of files) (highest_seq s)"
    and "highest_seq s' = raise_highest (List.map_filter seq_of files) (highest_seq s)"
    and "st_files_lost st = files_lost s'" "st_running st = running"
    and "has_proc s' = has_proc s" "sup_cfg s' = sup_cfg s"
  using assms(1) by (auto simp: snapshot_def Let_def files_def active_of_def split: prod.splits)

text \<open>A run of snapshots: each with its listing, its time and whether it is final.\<close>

type_synonym look = "dir_entry list \<times> rat \<times> bool"

fun look_files :: "look \<Rightarrow> string list" where
  "look_files (dir, now, fin) = sort (map fst dir)"

fun run_looks :: "look list \<Rightarrow> supervisor \<Rightarrow> string list \<times> supervisor" where
  "run_looks [] s = ([], s)"
| "run_looks ((dir, now, fin) # ls) s =
     (let (st, s1) = snapshot dir now (\<not> fin) fin s; (cl, s2) = run_looks ls s1
      in (st_files_closed st @ cl, s2))"

lemma run_looks_emitted:
  "distinct (closed_emitted s) \<Longrightarrow> run_looks ls s = (cl, s') \<Longrightarrow>
   closed_emitted s' = closed_emitted s @ cl \<and> distinct (closed_emitted s')"
proof (induction ls arbitrary: s cl s')
  case (Cons l ls)
  obtain dir now fin where l: "l = (dir, now, fin)" by (cases l)
  obtain st s1 where snap: "snapshot dir now (\<not> fin) fin s = (st, s1)" by force
  obtain c s2 where rest: "run_looks ls s1 = (c, s2)" by force
  have "closed_emitted s1 = closed_emitted s @ st_files_closed st \<and> distinct (closed_emitted s1)"
    using rotate_files_ok [OF Cons.prems(1), of "sort (map fst dir)" fin "previous_active s"]
    unfolding snapshot_fields(1) [OF snap, symmetric] acc_ok_def fst_conv snd_conv by blast
  then have d: "distinct (closed_emitted s1)" and e: "closed_emitted s1 = closed_emitted s @ st_files_closed st"
    by blast+
  have "s' = s2" "cl = st_files_closed st @ c" using Cons.prems(2) l snap rest by auto
  then show ?case using Cons.IH [OF d rest] e by (metis append_assoc)
qed simp

text \<open>Everything seen so far is reported or is the file last seen as the newest.\<close>

lemma run_looks_seen:
  assumes "run_looks ls s = (cl, s')" "\<forall>l \<in> set ls. [] \<notin> set (look_files l)"
    and "\<forall>p. previous_active s = Some p \<longrightarrow> p \<noteq> []"
  shows "(\<Union>l \<in> set ls. set (look_files l)) \<union> set (closed_emitted s) \<union> set_option (previous_active s)
     \<subseteq> set (closed_emitted s') \<union> set_option (previous_active s') \<and> (\<forall>p. previous_active s' = Some p \<longrightarrow> p \<noteq> [])"
  using assms
proof (induction ls arbitrary: s cl)
  case (Cons l ls)
  obtain dir now fin where l: "l = (dir, now, fin)" by (cases l)
  let ?files = "sort (map fst dir)"
  obtain st s1 where snap: "snapshot dir now (\<not> fin) fin s = (st, s1)" by force
  obtain c s2 where rest: "run_looks ls s1 = (c, s2)" by force
  note f = snapshot_fields [OF snap]
  have em: "set (closed_emitted s1) = set (closed_emitted s)
     \<union> {p. previous_active s = Some p \<and> p \<noteq> [] \<and> Some p \<noteq> active_of ?files}
     \<union> {f \<in> set ?files. Some f \<noteq> active_of ?files} \<union> {a. fin \<and> active_of ?files = Some a \<and> a \<noteq> []}"
    using rotate_files_set [of ?files fin "previous_active s" "closed_emitted s"] f(1) by (metis snd_conv)
  have ne: "[] \<notin> set ?files" using Cons.prems(2) l by simp
  then have prev1: "\<forall>p. previous_active s1 = Some p \<longrightarrow> p \<noteq> []"
    using active_nonempty [OF ne] by (simp add: f(2))
  have step: "set ?files \<union> set (closed_emitted s) \<union> set_option (previous_active s)
      \<subseteq> set (closed_emitted s1) \<union> set_option (previous_active s1)"
    using Cons.prems(3) by (auto simp: em f(2))
  have "s2 = s'" using Cons.prems(1) l snap rest by auto
  with Cons.IH [of s1 c] rest prev1 Cons.prems(2) step l show ?case by (simp add: subset_iff) blast
qed auto


lemma run_looks_sound:
  "run_looks ls s = (cl, s') \<Longrightarrow>
   set (closed_emitted s') \<union> set_option (previous_active s')
     \<subseteq> (\<Union>l \<in> set ls. set (look_files l)) \<union> set (closed_emitted s) \<union> set_option (previous_active s)"
proof (induction ls arbitrary: s cl)
  case (Cons l ls)
  obtain dir now fin where l: "l = (dir, now, fin)" by (cases l)
  let ?files = "sort (map fst dir)"
  obtain st s1 where snap: "snapshot dir now (\<not> fin) fin s = (st, s1)" by force
  obtain c s2 where rest: "run_looks ls s1 = (c, s2)" by force
  note f = snapshot_fields [OF snap]
  have "set (closed_emitted s1) = set (closed_emitted s)
     \<union> {p. previous_active s = Some p \<and> p \<noteq> [] \<and> Some p \<noteq> active_of ?files}
     \<union> {f \<in> set ?files. Some f \<noteq> active_of ?files} \<union> {a. fin \<and> active_of ?files = Some a \<and> a \<noteq> []}"
    using rotate_files_set [of ?files fin "previous_active s" "closed_emitted s"] f(1) by (metis snd_conv)
  then have em: "set (closed_emitted s1) \<subseteq> set (closed_emitted s) \<union> set_option (previous_active s) \<union> set ?files"
    by (auto dest: active_mem)
  have "set_option (previous_active s1) \<subseteq> set ?files"
    by (auto simp: f(2) dest!: active_mem)
  moreover have "s2 = s'" using Cons.prems l snap rest by auto
  ultimately show ?case using em Cons.IH [of s1 c] rest l by (simp add: subset_iff) blast
qed simp

lemma run_looks_append:
  "run_looks (ls @ ks) s = (let (c1, s1) = run_looks ls s; (c2, s2) = run_looks ks s1 in (c1 @ c2, s2))"
  by (induction ls s rule: run_looks.induct) (auto simp: Let_def split: prod.splits)

lemma run_looks_final:
  assumes "run_looks (ls @ [(dir, now, True)]) s = (cl, s')" "[] \<notin> set (map fst dir)"
  shows "set_option (previous_active s') \<subseteq> set (closed_emitted s')"
proof -
  obtain c1 s1 where first: "run_looks ls s = (c1, s1)" by force
  obtain st s2 where snap: "snapshot dir now False True s1 = (st, s2)" by force
  have "s' = s2" using assms(1) first snap by (simp add: run_looks_append)
  note f = snapshot_fields [OF snap]
  have "set (closed_emitted s2) = snd ` {} \<union> set (snd (rotate_files (sort (map fst dir)) True (previous_active s1) (closed_emitted s1)))"
    using f(1) by (metis image_empty snd_conv sup_bot.left_neutral)
  then have "{a. active_of (sort (map fst dir)) = Some a \<and> a \<noteq> []} \<subseteq> set (closed_emitted s2)"
    unfolding rotate_files_set by auto
  with active_nonempty [of "sort (map fst dir)"] assms(2) show ?thesis
    by (auto simp: \<open>s' = s2\<close> f(2))
qed

subsection \<open>Lost files\<close>

fun look_seqs :: "look \<Rightarrow> nat list" where
  "look_seqs (dir, now, fin) = List.map_filter seq_of (sort (map fst dir))"

text \<open>
  What dumpcap's ring shows over time: at each look an interval of sequence numbers, whose
  ends never move back.
\<close>

fun ring_looks :: "nat \<Rightarrow> nat \<Rightarrow> look list \<Rightarrow> bool" where
  "ring_looks lo hi [] = True"
| "ring_looks lo hi (l # ls) = (let q = look_seqs l in
     q \<noteq> [] \<and> 1 \<le> Min (set q) \<and> set q = set [Min (set q)..<Suc (Max (set q))]
     \<and> lo \<le> Min (set q) \<and> hi \<le> Max (set q) \<and> ring_looks (Min (set q)) (Max (set q)) ls)"

lemma interval_step:
  fixes hi lo' hi' :: nat
  assumes "finite Obs" "Obs \<subseteq> {..hi}" "{lo..hi} \<subseteq> Obs" "lo \<le> lo'" "hi \<le> hi'" "1 \<le> lo'" "lo' \<le> hi'"
  shows "card ({1..hi'} - (Obs \<union> {lo'..hi'})) = card ({1..hi} - Obs) + (if lo' > hi + 1 then lo' - hi - 1 else 0)"
proof -
  have "{1..hi'} - (Obs \<union> {lo'..hi'}) = ({1..hi} - Obs) \<union> {hi + 1..<lo'}"
  proof (rule set_eqI)
    fix x
    show "x \<in> {1..hi'} - (Obs \<union> {lo'..hi'}) \<longleftrightarrow> x \<in> ({1..hi} - Obs) \<union> {hi + 1..<lo'}"
      using subsetD [OF assms(2), of x] subsetD [OF assms(3), of x] assms(4-7) by auto
  qed
  moreover have "card (({1..hi} - Obs) \<union> {hi + 1..<lo'}) = card ({1..hi} - Obs) + card {hi + 1..<lo'}"
    by (rule card_Un_disjoint) auto
  ultimately show ?thesis by simp
qed

lemma run_looks_lost:
  assumes "ring_looks lo hi ls" "run_looks ls s = (cl, s')"
    and "highest_seq s = hi" "files_lost s = card ({1..hi} - Obs)" "finite Obs" "Obs \<subseteq> {..hi}" "{lo..hi} \<subseteq> Obs"
  shows "files_lost s' = card ({1..highest_seq s'} - (Obs \<union> (\<Union>l \<in> set ls. set (look_seqs l))))"
  using assms
proof (induction ls arbitrary: lo hi s cl Obs)
  case (Cons l ls)
  obtain dir now fin where l: "l = (dir, now, fin)" by (cases l)
  obtain st s1 where snap: "snapshot dir now (\<not> fin) fin s = (st, s1)" by force
  obtain c s2 where rest: "run_looks ls s1 = (c, s2)" by force
  have s2: "s2 = s'" using Cons.prems(2) l snap rest by auto
  define q where "q = look_seqs l"
  define lo' where "lo' = Min (set q)"
  define hi' where "hi' = Max (set q)"
  have ring: "q \<noteq> []" "1 \<le> lo'" "set q = {lo'..hi'}" "lo \<le> lo'" "hi \<le> hi'" "ring_looks lo' hi' ls"
    using Cons.prems(1) unfolding lo'_def hi'_def q_def by (auto simp: Let_def atLeastLessThanSuc_atLeastAtMost simp del: upt_Suc)
  have le: "lo' \<le> hi'" using ring(1) by (simp add: lo'_def hi'_def)
  note f = snapshot_fields [OF snap]
  have "files_lost s1 = files_lost s + (if lo' > hi + 1 then lo' - hi - 1 else 0)"
    using f(4) ring(1) Cons.prems(3) by (simp add: lost_gap_def q_def l lo'_def)
  then have lost: "files_lost s1 = card ({1..hi'} - (Obs \<union> {lo'..hi'}))"
    using interval_step [OF Cons.prems(5-7) ring(4,5,2) le] Cons.prems(4) by simp
  have high: "highest_seq s1 = hi'"
    using f(5) ring(1,5) Cons.prems(3) by (simp add: raise_highest_def q_def l hi'_def)
  have "files_lost s' = card ({1..highest_seq s'} - ((Obs \<union> {lo'..hi'}) \<union> (\<Union>l \<in> set ls. set (look_seqs l))))"
    using Cons.prems(5,6) ring(5) rest s2 by (intro Cons.IH [OF ring(6) _ high lost]) auto
  then show ?case using ring(3) by (simp add: q_def Un_assoc)
qed simp


section \<open>Properties\<close>

text \<open>
  Over any sequence of snapshots of a fresh supervisor that ends with a final one (an
  explicit stop, or the poll that finds dumpcap gone), the files reported as closed are
  exactly the files ever seen in the capture directory, each reported once.
\<close>

theorem files_closed_exactly_once:
  assumes "new_supervisor cfg True = Inr s" "run_looks (ls @ [(dir, now, True)]) s = (cl, s')"
    and "\<forall>l \<in> set (ls @ [(dir, now, True)]). [] \<notin> set (look_files l)"
  shows "distinct cl \<and> set cl = (\<Union>l \<in> set (ls @ [(dir, now, True)]). set (look_files l))"
proof -
  have fresh: "closed_emitted s = []" "previous_active s = None"
    using assms(1) by (auto simp: new_supervisor_def split: if_splits)
  have cl: "closed_emitted s' = cl \<and> distinct cl"
    using run_looks_emitted [OF _ assms(2)] fresh by (metis append_Nil distinct.simps(1))
  have "set_option (previous_active s') \<subseteq> set cl"
    using run_looks_final [OF assms(2)] assms(3) cl by simp
  moreover have "(\<Union>l \<in> set (ls @ [(dir, now, True)]). set (look_files l)) \<subseteq> set cl \<union> set_option (previous_active s')"
    using run_looks_seen [OF assms(2,3)] fresh cl by auto
  moreover have "set cl \<subseteq> (\<Union>l \<in> set (ls @ [(dir, now, True)]). set (look_files l))"
    using run_looks_sound [OF assms(2)] fresh cl by auto
  ultimately show ?thesis using cl by blast
qed

text \<open>
  When dumpcap's ring shows at each look an interval of sequence numbers whose ends never
  move back, the reported count of lost files is exactly the number of sequence numbers up to
  the highest one seen that no look ever showed.
\<close>

theorem files_lost_exact:
  assumes "new_supervisor cfg True = Inr s" "run_looks ls s = (cl, s')" "ring_looks 1 0 ls"
  shows "files_lost s' = card ({1..highest_seq s'} - (\<Union>l \<in> set ls. set (look_seqs l)))"
proof -
  have "highest_seq s = 0" "files_lost s = card ({1..0::nat} - {})"
    using assms(1) by (auto simp: new_supervisor_def split: if_splits)
  from run_looks_lost [OF assms(3,2) this] show ?thesis by simp
qed

subsection \<open>Witnesses\<close>

definition demo_cfg :: sup_config where
  "demo_cfg = \<lparr>sc_session = ''s1'', sc_interface = ''eth0'', sc_bpf = [], sc_out_dir = ''c'', sc_filesize_kb = 1,
     sc_files = 2, sc_max_duration = 0\<rparr>"

definition demo_sup :: supervisor where
  "demo_sup = \<lparr>sup_cfg = demo_cfg, has_proc = False, stderr_buf = [], started_at = None, last_poll_ts = 0,
        last_poll_bytes = 0, previous_active = None, closed_emitted = [], chmod_done = [], highest_seq = 0,
        files_lost = 0, final_packets = None, final_drops = None\<rparr>"

lemma demo_new: "new_supervisor demo_cfg True = Inr demo_sup"
  by (simp add: new_supervisor_def demo_cfg_def demo_sup_def session_id_ok_def py_isalnum_def ord_of_def)

definition demo_looks :: "look list" where
  "demo_looks = [([(''c/cap_00001_x'', Some 5, True)], 10, False),
     ([(''c/cap_00003_x'', Some 5, True), (''c/cap_00004_x'', Some 7, True)], 11, False)]"

definition demo_last :: "dir_entry list" where
  "demo_last = [(''c/cap_00003_x'', Some 5, True), (''c/cap_00004_x'', Some 7, True)]"

theorem files_closed_exactly_once_witness:
  "\<exists>cl s'. run_looks (demo_looks @ [(demo_last, 12, True)]) demo_sup = (cl, s') \<and> distinct cl
     \<and> ''c/cap_00004_x'' \<in> set cl"
proof -
  obtain cl s' where r: "run_looks (demo_looks @ [(demo_last, 12, True)]) demo_sup = (cl, s')" by force
  have "\<forall>l \<in> set (demo_looks @ [(demo_last, 12, True)]). [] \<notin> set (look_files l)"
    by (simp add: demo_looks_def demo_last_def)
  from files_closed_exactly_once [OF demo_new r this] r show ?thesis by (auto simp: demo_last_def)
qed

theorem files_lost_exact_witness:
  "\<exists>cl s'. run_looks demo_looks demo_sup = (cl, s')
     \<and> files_lost s' = card ({1..highest_seq s'} - (\<Union>l \<in> set demo_looks. set (look_seqs l)))"
proof -
  obtain cl s' where r: "run_looks demo_looks demo_sup = (cl, s')" by force
  have "ring_looks 1 0 demo_looks" by code_simp
  from files_lost_exact [OF demo_new r this] r show ?thesis by blast
qed

text \<open>
  The names are compared as strings. Once dumpcap's five digit sequence number overflows
  to six digits, the live file sorts before the previous one: it is reported as closed while
  dumpcap still writes it, and the finished file is shown as the current one.
\<close>

theorem live_file_reported_closed:
  "let (st1, s1) = snapshot [(''c/cap_99999_x'', Some 5, True)] 10 True False demo_sup;
       (st2, s2) = snapshot [(''c/cap_99999_x'', Some 5, True), (''c/cap_100000_x'', Some 0, True)] 11 True False s1
   in st_files_closed st2 = [''c/cap_100000_x''] \<and> st_current_file st2 = Some ''c/cap_99999_x''"
proof -
  let ?d1 = "[(''c/cap_99999_x'', Some 5, True)] :: dir_entry list"
  let ?d2 = "[(''c/cap_99999_x'', Some 5, True), (''c/cap_100000_x'', Some 0, True)] :: dir_entry list"
  obtain st1 s1 where 1: "snapshot ?d1 10 True False demo_sup = (st1, s1)" by force
  obtain st2 s2 where 2: "snapshot ?d2 11 True False s1 = (st2, s2)" by force
  have files: "sort (map fst ?d2) = [''c/cap_100000_x'', ''c/cap_99999_x'']" by code_simp
  have "closed_emitted s1 = []" "previous_active s1 = Some ''c/cap_99999_x''"
    using snapshot_fields(1,2) [OF 1] by (simp_all add: rotate_files_def active_of_def demo_sup_def)
  with snapshot_fields(1,3) [OF 2] have "st_files_closed st2 = [''c/cap_100000_x'']"
    "st_current_file st2 = Some ''c/cap_99999_x''"
    unfolding files by (simp_all add: rotate_files_def active_of_def close_file_def)
  then show ?thesis by (simp add: 1 2)
qed

end
