(* ===== verification/CapdHost.thy ===== *)
theory CapdHost
  imports PyVal
begin

text \<open>
  What the capture daemon asks the host: \<open>marlinspike-capd/capd/interfaces.py\<close> (which network
  interfaces there are, with psutil's answers as arguments) and \<open>capd/bpf.py\<close> (whether libpcap
  compiles a filter, with the library as an argument).
\<close>

section \<open>Interface names\<close>

text \<open>
  The name patterns: a fixed prefix and then only characters of a class, of which at least a
  number must be there. \<open>$\<close> also matches before a final newline.
\<close>

definition py_isdecimal_az :: "char \<Rightarrow> bool" where
  "py_isdecimal_az c = (let n = ord_of c in (48 \<le> n \<and> n \<le> 57) \<or> (97 \<le> n \<and> n \<le> 122))"

definition py_ishex :: "char \<Rightarrow> bool" where
  "py_ishex c = (let n = ord_of c in (48 \<le> n \<and> n \<le> 57) \<or> (97 \<le> n \<and> n \<le> 102))"

definition not_newline :: "char \<Rightarrow> bool" where
  "not_newline c \<longleftrightarrow> c \<noteq> CHR 0x0A"

definition drop_final_newline :: "string \<Rightarrow> string" where
  "drop_final_newline s = (if s \<noteq> [] \<and> last s = CHR 0x0A then butlast s else s)"

definition class_match :: "string \<Rightarrow> (char \<Rightarrow> bool) \<Rightarrow> nat \<Rightarrow> string \<Rightarrow> bool" where
  "class_match p P least name \<longleftrightarrow> py_startswith name p \<and>
     (let rest = drop_final_newline (drop (length p) name)
      in least \<le> length rest \<and> list_all P rest)"

text \<open>\<open>^en[0-9]+\.\d+$\<close>.\<close>

definition vlan_match :: "string \<Rightarrow> bool" where
  "vlan_match name \<longleftrightarrow> py_startswith name ''en'' \<and>
     (let a = takeWhile py_isdigit (drop 2 name); b = dropWhile py_isdigit (drop 2 name)
      in a \<noteq> [] \<and> py_startswith b ''.'' \<and>
         (let ds = drop_final_newline (drop 1 b) in ds \<noteq> [] \<and> list_all py_isdigit ds))"

definition is_virtual_name :: "string \<Rightarrow> bool" where
  "is_virtual_name name \<longleftrightarrow>
     list_ex (\<lambda>p. class_match p py_isdigit 0 name)
       [''lo'', ''docker'', ''tun'', ''tap'', ''wg'', ''utun'', ''awdl'', ''llw'', ''anpi'', ''bridge'',
        ''tailscale'', ''gif'', ''stf'', ''ap'']
     \<or> class_match ''br-'' py_ishex 1 name \<or> class_match ''veth'' not_newline 0 name
     \<or> class_match ''zt'' py_isdecimal_az 1 name \<or> vlan_match name"

definition is_loopback_name :: "string \<Rightarrow> bool" where
  "is_loopback_name name \<longleftrightarrow> class_match ''lo'' py_isdigit 0 name"

section \<open>Enumeration\<close>

datatype family = AfLink | AfInet | AfInet6 | AfOther

record iface =
  if_name :: string
  if_mac :: "string option"
  if_ips :: "string list"
  if_is_up :: bool
  if_is_loopback :: bool
  if_is_virtual :: bool
  if_mtu :: "int option"
  if_speed :: "int option"

text \<open>psutil's two answers: addresses by interface, and (up, mtu, speed) by interface.\<close>

record netinfo =
  ni_addrs :: "(string, (family \<times> string option) list) dict"
  ni_stats :: "(string, bool \<times> int \<times> int) dict"

definition addr_step :: "string option \<times> string list \<Rightarrow> family \<times> string option \<Rightarrow> string option \<times> string list" where
  "addr_step acc a =
     (case a of (fam, address) \<Rightarrow>
        if fam = AfLink then (if address = Some [] then None else address, snd acc)
        else if fam = AfInet \<or> fam = AfInet6 then
          (let addr = hd (py_split (CHR ''%'') (case address of None \<Rightarrow> [] | Some x \<Rightarrow> x))
           in (fst acc, if addr \<noteq> [] then snd acc @ [addr] else snd acc))
        else acc)"

definition iface_of :: "netinfo \<Rightarrow> string \<Rightarrow> (family \<times> string option) list \<Rightarrow> iface" where
  "iface_of ni name addr_list =
     (let (mac, ips) = foldl addr_step (None, []) addr_list; st = dict_get (ni_stats ni) name
      in \<lparr>if_name = name, if_mac = mac, if_ips = ips,
          if_is_up = (case st of None \<Rightarrow> False | Some (up, _) \<Rightarrow> up),
          if_is_loopback = is_loopback_name name,
          if_is_virtual = (is_virtual_name name \<and> \<not> is_loopback_name name),
          if_mtu = (case st of Some (_, mtu, _) \<Rightarrow> if mtu \<noteq> 0 then Some mtu else None | None \<Rightarrow> None),
          if_speed = (case st of Some (_, _, sp) \<Rightarrow> if sp \<noteq> 0 then Some sp else None | None \<Rightarrow> None)\<rparr>)"

definition any_iface :: iface where
  "any_iface = \<lparr>if_name = ''any'', if_mac = None, if_ips = [], if_is_up = True, if_is_loopback = False,
     if_is_virtual = False, if_mtu = None, if_speed = None\<rparr>"

text \<open>
  The sort by the tuple (not up, virtual, loopback, name) is the stable sort by each
  component in turn, the last one first.
\<close>

definition sort_ifaces :: "iface list \<Rightarrow> iface list" where
  "sort_ifaces xs = sort_key (\<lambda>i. \<not> if_is_up i) (sort_key if_is_virtual
     (sort_key if_is_loopback (sort_key if_name xs)))"

definition list_interfaces :: "netinfo \<Rightarrow> bool \<Rightarrow> iface list" where
  "list_interfaces ni include_virtual =
     (let shown = filter (\<lambda>(name, _). include_virtual
              \<or> \<not> (is_loopback_name name \<or> (is_virtual_name name \<and> \<not> is_loopback_name name))) (ni_addrs ni)
      in sort_ifaces (map (\<lambda>(name, al). iface_of ni name al) shown)
         @ (if include_virtual then [] else [any_iface]))"

definition find_interface :: "netinfo \<Rightarrow> string \<Rightarrow> iface option" where
  "find_interface ni name =
     (case find (\<lambda>i. if_name i = name) (list_interfaces ni True) of
        Some i \<Rightarrow> Some i
      | None \<Rightarrow> if name = ''any'' then Some any_iface else None)"

section \<open>Filter validation\<close>

text \<open>
  libpcap: \<open>Inl\<close> the text of the loading error, or the return code of
  \<open>pcap_compile_nopcap\<close> for a filter and a link type.
\<close>

type_synonym libpcap = "string + (string \<Rightarrow> int \<Rightarrow> int)"

definition DLT_EN10MB :: int where "DLT_EN10MB = 1"
definition DLT_LINUX_SLL2 :: int where "DLT_LINUX_SLL2 = 276"

definition bpf_validate :: "libpcap \<Rightarrow> string \<Rightarrow> int \<Rightarrow> bool \<times> string option" where
  "bpf_validate lib filter_str link_type =
     (let s = py_strip filter_str in
      if s = [] then (True, None)
      else case lib of
          Inl err \<Rightarrow> (False, Some (''libpcap unavailable: '' @ err))
        | Inr compile \<Rightarrow>
            if compile s link_type < 0
            then (False, Some ''BPF compile failed (check syntax, protocol/port names, parens)'')
            else (True, None))"

section \<open>Lemmas\<close>

lemma if_name_iface_of [simp]: "if_name (iface_of ni name al) = name"
  by (simp add: iface_of_def Let_def split: prod.splits)

lemma flags_iface_of [simp]:
  "if_is_loopback (iface_of ni name al) = is_loopback_name name"
  "if_is_virtual (iface_of ni name al) = (is_virtual_name name \<and> \<not> is_loopback_name name)"
  by (simp_all add: iface_of_def Let_def split: prod.splits)

lemma sort_ifaces_set [simp]: "set (sort_ifaces xs) = set xs"
  by (simp add: sort_ifaces_def)

lemma list_interfaces_names:
  "if_name ` set (list_interfaces ni v) =
     (if v then fst ` set (ni_addrs ni)
      else insert ''any'' {n \<in> fst ` set (ni_addrs ni). \<not> is_loopback_name n \<and> \<not> is_virtual_name n})"
  by (auto simp: list_interfaces_def Let_def any_iface_def image_iff split: prod.splits) force+

lemma find_name_None: "find (\<lambda>i. if_name i = n) xs = None \<longleftrightarrow> n \<notin> if_name ` set xs"
  by (auto simp: find_None_iff)

lemma find_name_Some: "find (\<lambda>i. if_name i = n) xs = Some i \<Longrightarrow> if_name i = n"
  by (auto simp: find_Some_iff)

lemma find_interface_iff:
  "find_interface ni name = None \<longleftrightarrow> name \<notin> fst ` set (ni_addrs ni) \<and> name \<noteq> ''any''"
  using find_name_None [of name "list_interfaces ni True"]
  by (cases "find (\<lambda>i. if_name i = name) (list_interfaces ni True)")
     (simp_all add: find_interface_def list_interfaces_names)

lemma find_interface_name: "find_interface ni name = Some i \<Longrightarrow> if_name i = name"
  by (auto simp: find_interface_def any_iface_def dest: find_name_Some split: option.splits if_splits)

section \<open>Properties\<close>

text \<open>
  Looking an interface up succeeds exactly for the interfaces the host has and for the
  pseudo-interface \<open>any\<close>, and the record found carries the name asked for.
\<close>

theorem find_interface_correct:
  "(find_interface ni name = None \<longleftrightarrow> name \<notin> fst ` set (ni_addrs ni) \<and> name \<noteq> ''any'')
   \<and> map_option if_name (find_interface ni name) \<in> {None, Some name}"
  using find_interface_iff [of ni name] find_interface_name [of ni name]
  by (cases "find_interface ni name") simp_all

text \<open>
  The default listing shows each interface that is neither a loopback nor virtual, the
  ones that are up before the others, and ends with \<open>any\<close>; with the virtual ones included it
  shows all interfaces of the host and no other.
\<close>

theorem list_interfaces_shows:
  "\<exists>xs. list_interfaces ni False = xs @ [any_iface]
     \<and> if_name ` set xs = {n \<in> fst ` set (ni_addrs ni). \<not> is_loopback_name n \<and> \<not> is_virtual_name n}
     \<and> sorted (map (\<lambda>i. \<not> if_is_up i) xs)
     \<and> if_name ` set (list_interfaces ni True) = fst ` set (ni_addrs ni)"
proof (intro exI conjI)
  let ?xs = "sort_ifaces (map (\<lambda>(name, al). iface_of ni name al)
     (filter (\<lambda>(name, _). \<not> (is_loopback_name name \<or> (is_virtual_name name \<and> \<not> is_loopback_name name))) (ni_addrs ni)))"
  show "list_interfaces ni False = ?xs @ [any_iface]" by (simp add: list_interfaces_def)
  show "if_name ` set ?xs = {n \<in> fst ` set (ni_addrs ni). \<not> is_loopback_name n \<and> \<not> is_virtual_name n}"
    by (auto simp: image_iff split: prod.splits) force
  show "sorted (map (\<lambda>i. \<not> if_is_up i) ?xs)" unfolding sort_ifaces_def by (rule sorted_sort_key)
  show "if_name ` set (list_interfaces ni True) = fst ` set (ni_addrs ni)" by (simp add: list_interfaces_names)
qed

end
