(* ===== verification/CapdServer.thy ===== *)
theory CapdServer
  imports Supervisor CapdHost ExclusiveCapture
begin

text \<open>
  \<open>marlinspike-capd/capd/server.py\<close>: the privileged daemon. Its table of sessions, the requests it
  serves, and the interleavings that its coroutines allow: a stop or a poll reads the table,
  runs the supervisor in another thread, and only then comes back to the table.
\<close>

section \<open>Who may connect\<close>

record server_config =
  sv_capture_root :: string
  sv_allowed_uids :: "int set"
  sv_uid_file :: bool

text \<open>The extra uid file as the host answers: no such file, or its time and its text.\<close>

datatype uid_file = NoFile | Unreadable rat | UidFile rat string

fun uid_file_mtime :: "uid_file \<Rightarrow> rat option" where
  "uid_file_mtime NoFile = None"
| "uid_file_mtime (Unreadable t) = Some t"
| "uid_file_mtime (UidFile t _) = Some t"

definition uid_line :: "string \<Rightarrow> int option" where
  "uid_line line = (let l = py_strip line in
     if l = [] \<or> py_startswith l ''#'' then None else py_int_str l)"

definition parse_uid_file :: "string \<Rightarrow> int set" where
  "parse_uid_file text = set (List.map_filter uid_line (py_splitlines text))"

fun file_uids :: "uid_file \<Rightarrow> int set" where
  "file_uids (UidFile _ text) = parse_uid_file text"
| "file_uids _ = {}"

type_synonym uid_cache = "(rat \<times> int set) option"

definition effective_allowed_uids :: "server_config \<Rightarrow> uid_file \<Rightarrow> uid_cache \<Rightarrow> int set \<times> uid_cache" where
  "effective_allowed_uids cfg uf cache =
     (if \<not> sv_uid_file cfg then (sv_allowed_uids cfg, cache)
      else case uid_file_mtime uf of
          None \<Rightarrow> (sv_allowed_uids cfg, cache)
        | Some t \<Rightarrow>
            (case cache of
               Some (t', uids) \<Rightarrow>
                 if t' = t then (sv_allowed_uids cfg \<union> uids, cache)
                 else (sv_allowed_uids cfg \<union> file_uids uf, Some (t, file_uids uf))
             | None \<Rightarrow> (sv_allowed_uids cfg \<union> file_uids uf, Some (t, file_uids uf))))"

text \<open>The check at the head of \<open>_handle_client\<close>.\<close>

definition client_admitted :: "server_config \<Rightarrow> uid_file \<Rightarrow> uid_cache \<Rightarrow> int option \<Rightarrow> bool \<times> uid_cache" where
  "client_admitted cfg uf cache peer_uid =
     (let (allowed, cache') = effective_allowed_uids cfg uf cache
      in (case peer_uid of None \<Rightarrow> False | Some u \<Rightarrow> u \<in> allowed, cache'))"

section \<open>The session table\<close>

text \<open>
  A supervisor object: its bookkeeping and whether its dumpcap still lives. Objects are
  never moved, so a reference is a position in the list of all objects ever made.
\<close>

record capture_proc =
  cp_sup :: supervisor
  cp_alive :: bool

definition proc_running :: "capture_proc \<Rightarrow> bool" where
  "proc_running p \<longleftrightarrow> has_proc (cp_sup p) \<and> cp_alive p"

definition proc_iface :: "capture_proc \<Rightarrow> string" where
  "proc_iface p = sc_interface (sup_cfg (cp_sup p))"

definition proc_session :: "capture_proc \<Rightarrow> string" where
  "proc_session p = sc_session (sup_cfg (cp_sup p))"

text \<open>A coroutine that has left the table and will come back to it.\<close>

datatype task =
    Stopping string nat
  | Stopped string nat capture_stats
  | Polling string nat bool
  | Polled string nat bool capture_stats
  | Sleeping string nat
  | Ended

record capd =
  procs :: "capture_proc list"
  sessions :: "(string, nat) dict"
  tasks :: "task list"

definition new_capd :: capd where
  "new_capd = \<lparr>procs = [], sessions = [], tasks = []\<rparr>"

text \<open>The host as a start finds it; the last two are what \<open>sup.start()\<close> meets.\<close>

record start_host =
  sh_netinfo :: netinfo
  sh_libpcap :: libpcap
  sh_dumpcap :: bool
  sh_now :: rat
  sh_stderr :: "string list"
  sh_exit :: "int option"
  sh_float_repr :: "rat \<Rightarrow> string"
  sh_os_error :: "string option"

datatype capd_reply =
    CapdFailure string
  | Started string string
  | StopReply string "int option" "int option" capture_stats
  | StatusReply string capture_stats "int option" "int option"

section \<open>Starting a session\<close>

definition param_str :: "(rat \<Rightarrow> string) \<Rightarrow> (string, pyval) dict \<Rightarrow> string \<Rightarrow> string" where
  "param_str fr params k = py_str fr (obj_get_or params k (PStr []))"

definition param_int :: "(string, pyval) dict \<Rightarrow> string list \<Rightarrow> int \<Rightarrow> int option" where
  "param_int params keys dflt =
     py_int (foldr (\<lambda>k v. py_or (obj_get params k) v) keys (PInt dflt))"

definition start_config :: "(rat \<Rightarrow> string) \<Rightarrow> string \<Rightarrow> (string, pyval) dict \<Rightarrow> string + sup_config" where
  "start_config fr rootdir params =
     (let session_id = py_strip (param_str fr params ''session_id'');
          interface = py_strip (param_str fr params ''interface'');
          bpf_filter = py_str fr (py_or (obj_get_or params ''bpf'' (PStr [])) (obj_get_or params ''bpf_filter'' (PStr [])))
      in case (param_int params [''ring_filesize_kb'', ''filesize_kb''] 200000,
               param_int params [''ring_files'', ''files''] 10, param_int params [''max_duration_s''] 0) of
          (Some kb, Some n, Some d) \<Rightarrow>
            if session_id = [] then Inl ''session_id required''
            else if interface = [] then Inl ''interface required''
            else Inr \<lparr>sc_session = session_id, sc_interface = interface, sc_bpf = bpf_filter,
              sc_out_dir = rootdir @ ''/'' @ session_id, sc_filesize_kb = kb, sc_files = n, sc_max_duration = d\<rparr>
        | _ \<Rightarrow> Inl ''ring_filesize_kb, ring_files, and max_duration_s must be integers'')"

text \<open>The two checks before the lock is taken.\<close>

definition preflight :: "start_host \<Rightarrow> sup_config \<Rightarrow> string option" where
  "preflight host cfg =
     (let iface = sc_interface cfg;
          v = bpf_validate (sh_libpcap host) (sc_bpf cfg) (if iface = ''any'' then DLT_LINUX_SLL2 else DLT_EN10MB)
      in if \<not> fst v then Some (''bpf invalid: '' @ (case snd v of Some e \<Rightarrow> e | None \<Rightarrow> ''None''))
         else if iface \<noteq> ''any'' \<and> find_interface (sh_netinfo host) iface = None
         then Some (''interface not found: '' @ iface) else None)"

definition registered :: "capd \<Rightarrow> string \<Rightarrow> capture_proc option" where
  "registered st sid = map_option (\<lambda>r. procs st ! r) (dict_get (sessions st) sid)"

definition session_runs :: "capd \<Rightarrow> string \<Rightarrow> bool" where
  "session_runs st sid = (case registered st sid of None \<Rightarrow> False | Some p \<Rightarrow> proc_running p)"

text \<open>The first other running session, in table order, whose interface clashes.\<close>

definition conflict :: "capd \<Rightarrow> string \<Rightarrow> string \<Rightarrow> (string \<times> string) option" where
  "conflict st sid iface =
     (case find (\<lambda>(oid, r). oid \<noteq> sid \<and> proc_running (procs st ! r)
               \<and> (iface = ''any'' \<or> proc_iface (procs st ! r) = ''any'' \<or> proc_iface (procs st ! r) = iface))
        (sessions st) of
        None \<Rightarrow> None
      | Some (oid, r) \<Rightarrow> Some (oid, proc_iface (procs st ! r)))"

definition conflict_message :: "string \<Rightarrow> string \<times> string \<Rightarrow> string" where
  "conflict_message iface other = ''interface '' @ py_repr_str iface @ '' conflicts with session '' @ fst other
     @ '', already capturing on '' @ py_repr_str (snd other)
     @ '' ('' @ py_repr_str ''any'' @ '' captures every interface, so it can'' @ [quote1]
     @ ''t run alongside a capture on any specific NIC)''"

definition spawn :: "start_host \<Rightarrow> sup_config \<Rightarrow> string + supervisor" where
  "spawn host cfg =
     (case new_supervisor cfg (sh_dumpcap host) of
        Inl e \<Rightarrow> Inl e
      | Inr s \<Rightarrow>
          (case sh_os_error host of
             Some e \<Rightarrow> Inl e
           | None \<Rightarrow> sup_start (sh_now host) (sh_stderr host) (sh_exit host) s))"

text \<open>The section under the lock: the checks against the table, the spawn, the registration.\<close>

definition register_session :: "start_host \<Rightarrow> sup_config \<Rightarrow> capd \<Rightarrow> string + capd" where
  "register_session host cfg st =
     (let sid = sc_session cfg; iface = sc_interface cfg in
      if session_runs st sid then Inl (''session '' @ sid @ '' already running'')
      else case conflict st sid iface of
          Some other \<Rightarrow> Inl (conflict_message iface other)
        | None \<Rightarrow>
            (case spawn host cfg of
               Inl e \<Rightarrow> Inl e
             | Inr s \<Rightarrow> Inr (st\<lparr>procs := procs st @ [\<lparr>cp_sup = s, cp_alive = True\<rparr>],
                              sessions := dict_set sid (length (procs st)) (sessions st)\<rparr>)))"

definition capd_start_session :: "string \<Rightarrow> start_host \<Rightarrow> (string, pyval) dict \<Rightarrow> capd \<Rightarrow> capd_reply \<times> capd" where
  "capd_start_session rootdir host params st =
     (case start_config (sh_float_repr host) rootdir params of
        Inl e \<Rightarrow> (CapdFailure e, st)
      | Inr cfg \<Rightarrow>
          (case preflight host cfg of
             Some e \<Rightarrow> (CapdFailure e, st)
           | None \<Rightarrow>
               (case register_session host cfg st of
                  Inl e \<Rightarrow> (CapdFailure e, st)
                | Inr st' \<Rightarrow> (Started (sc_session cfg) (sc_out_dir cfg), st'))))"

section \<open>Stopping and polling\<close>

text \<open>
  Each request is cut at its \<open>await\<close>s: \<open>stop_begin\<close>, \<open>status_begin\<close> and \<open>stream_begin\<close> read the
  table; \<open>stop_run\<close> and \<open>poll_run\<close> are the supervisor's call in the executor thread; \<open>stop_end\<close>,
  \<open>status_end\<close> and \<open>stream_end\<close> come back to the table. A task's number is its position.
\<close>

definition unknown_session :: "string \<Rightarrow> capd_reply" where
  "unknown_session sid = CapdFailure (''unknown session: '' @ sid)"

definition begin_task :: "(string \<Rightarrow> nat \<Rightarrow> task) \<Rightarrow> string \<Rightarrow> capd \<Rightarrow> capd_reply option \<times> capd" where
  "begin_task mk sid st =
     (case dict_get (sessions st) sid of
        None \<Rightarrow> (Some (unknown_session sid), st)
      | Some r \<Rightarrow> (None, st\<lparr>tasks := tasks st @ [mk sid r]\<rparr>))"

definition stop_begin :: "string \<Rightarrow> capd \<Rightarrow> capd_reply option \<times> capd" where
  "stop_begin = begin_task Stopping"

definition status_begin :: "string \<Rightarrow> capd \<Rightarrow> capd_reply option \<times> capd" where
  "status_begin = begin_task (\<lambda>sid r. Polling sid r False)"

definition stream_begin :: "string \<Rightarrow> capd \<Rightarrow> capd_reply option \<times> capd" where
  "stream_begin = begin_task (\<lambda>sid r. Polling sid r True)"

text \<open>
  \<open>sup.stop()\<close> in the executor: \<open>reaped\<close> tells that the process went away in time; if it did
  not, the call raises and the coroutine ends without touching the table.
\<close>

definition stop_run :: "nat \<Rightarrow> bool \<Rightarrow> dir_entry list \<Rightarrow> rat \<Rightarrow> capd \<Rightarrow> capd" where
  "stop_run i reaped dir now st =
     (case tasks st ! i of
        Stopping sid r \<Rightarrow>
          (case sup_stop reaped dir now (cp_sup (procs st ! r)) of
             None \<Rightarrow> st\<lparr>tasks := (tasks st)[i := Ended]\<rparr>
           | Some (stats, s) \<Rightarrow>
               st\<lparr>procs := (procs st)[r := \<lparr>cp_sup = s, cp_alive = cp_alive (procs st ! r) \<and> \<not> reaped\<rparr>],
                  tasks := (tasks st)[i := Stopped sid r stats]\<rparr>)
      | _ \<Rightarrow> st)"

definition stop_end :: "nat \<Rightarrow> capd \<Rightarrow> capd_reply option \<times> capd" where
  "stop_end i st =
     (case tasks st ! i of
        Stopped sid r stats \<Rightarrow>
          (Some (StopReply sid (final_packets (cp_sup (procs st ! r))) (final_drops (cp_sup (procs st ! r))) stats),
           st\<lparr>sessions := dict_pop sid (sessions st), tasks := (tasks st)[i := Ended]\<rparr>)
      | _ \<Rightarrow> (None, st))"

definition poll_run :: "nat \<Rightarrow> dir_entry list \<Rightarrow> rat \<Rightarrow> capd \<Rightarrow> capd" where
  "poll_run i dir now st =
     (case tasks st ! i of
        Polling sid r stream \<Rightarrow>
          (let (stats, s) = poll (cp_alive (procs st ! r)) dir now (cp_sup (procs st ! r))
           in st\<lparr>procs := (procs st)[r := (procs st ! r)\<lparr>cp_sup := s\<rparr>],
                 tasks := (tasks st)[i := Polled sid r stream stats]\<rparr>)
      | _ \<Rightarrow> st)"

definition reap_if_finished :: "string \<Rightarrow> capture_stats \<Rightarrow> capd \<Rightarrow> capd" where
  "reap_if_finished sid stats st =
     (if \<not> st_running stats then st\<lparr>sessions := dict_pop sid (sessions st)\<rparr> else st)"

definition status_reply :: "string \<Rightarrow> nat \<Rightarrow> capture_stats \<Rightarrow> capd \<Rightarrow> capd_reply" where
  "status_reply sid r stats st =
     StatusReply sid stats (final_packets (cp_sup (procs st ! r))) (final_drops (cp_sup (procs st ! r)))"

text \<open>
  The reply of a status request, or one frame of a stream: the stream goes on after its sleep
  while the capture runs and the client is there.
\<close>

definition poll_end :: "nat \<Rightarrow> bool \<Rightarrow> capd \<Rightarrow> capd_reply option \<times> capd" where
  "poll_end i client_there st =
     (case tasks st ! i of
        Polled sid r stream stats \<Rightarrow>
          (let st1 = reap_if_finished sid stats st in
           (if client_there then Some (status_reply sid r stats st) else None,
            st1\<lparr>tasks := (tasks st)[i := if stream \<and> client_there \<and> st_running stats then Sleeping sid r else Ended]\<rparr>))
      | _ \<Rightarrow> (None, st))"

definition stream_wake :: "nat \<Rightarrow> capd \<Rightarrow> capd" where
  "stream_wake i st =
     (case tasks st ! i of
        Sleeping sid r \<Rightarrow> st\<lparr>tasks := (tasks st)[i := Polling sid r True]\<rparr>
      | _ \<Rightarrow> st)"

definition stream_interval :: "rat \<Rightarrow> rat" where
  "stream_interval interval = max (1 / 4) (min 10 interval)"

text \<open>A dumpcap that ends by itself: its duration is over, or it was killed from outside.\<close>

definition proc_exit :: "nat \<Rightarrow> capd \<Rightarrow> capd" where
  "proc_exit r st = st\<lparr>procs := (procs st)[r := (procs st ! r)\<lparr>cp_alive := False\<rparr>]\<rparr>"

section \<open>Dispatch\<close>

text \<open>
  What one message makes the daemon do; \<open>Crash\<close> is the exception that closes the connection
  (a value that \<open>int\<close> or \<open>float\<close> refuses, or parameters that are no object).
\<close>

datatype action =
    ListInterfaces bool
  | ValidateBpf string int
  | StartAction "(string, pyval) dict"
  | StopAction string
  | StatusAction string
  | StreamAction string pyval
  | VersionAction
  | UnknownMethod pyval
  | Crash

definition dispatch :: "(rat \<Rightarrow> string) \<Rightarrow> pyval \<Rightarrow> action" where
  "dispatch fr msg =
     (case (if truthy msg then msg else PDict []) of
        PDict m \<Rightarrow>
          (let meth = obj_get m ''method''; ps = py_or (obj_get m ''params'') (PDict []);
               sid = (\<lambda>params. param_str fr params ''session_id'')
           in if meth \<notin> PStr ` {''list_interfaces'', ''validate_bpf'', ''start'', ''stop'', ''session_status'', ''stats'', ''version''}
              then UnknownMethod meth
              else if meth = PStr ''version'' then VersionAction
              else case ps of
                  PDict params \<Rightarrow>
                    if meth = PStr ''list_interfaces'' then
                      ListInterfaces (truthy (obj_get_or params ''include_virtual'' (PBool False)))
                    else if meth = PStr ''validate_bpf'' then
                      (case py_int (obj_get_or params ''link_type'' (PInt DLT_EN10MB)) of
                         None \<Rightarrow> Crash
                       | Some lt \<Rightarrow> ValidateBpf (param_str fr params ''filter'') lt)
                    else if meth = PStr ''start'' then StartAction params
                    else if meth = PStr ''stop'' then StopAction (sid params)
                    else if meth = PStr ''session_status'' then StatusAction (sid params)
                    else StreamAction (sid params) (obj_get_or params ''interval_s'' (PInt 1))
                | _ \<Rightarrow> Crash)
      | _ \<Rightarrow> Crash)"

section \<open>The daemon as a step relation\<close>

text \<open>
  One step is one uninterrupted piece of a coroutine, one executor call, or an exit of a
  dumpcap. Requests come in any number and any order.
\<close>

inductive capd_internal :: "capd \<Rightarrow> capd \<Rightarrow> bool" where
  StopBegin: "stop_begin sid st = (rep, st') \<Longrightarrow> capd_internal st st'"
| StatusBegin: "status_begin sid st = (rep, st') \<Longrightarrow> capd_internal st st'"
| StreamBegin: "stream_begin sid st = (rep, st') \<Longrightarrow> capd_internal st st'"
| StopRun: "i < length (tasks st) \<Longrightarrow> capd_internal st (stop_run i reaped dir now st)"
| StopEnd: "i < length (tasks st) \<Longrightarrow> stop_end i st = (rep, st') \<Longrightarrow> capd_internal st st'"
| PollRun: "i < length (tasks st) \<Longrightarrow> capd_internal st (poll_run i dir now st)"
| PollEnd: "i < length (tasks st) \<Longrightarrow> poll_end i there st = (rep, st') \<Longrightarrow> capd_internal st st'"
| StreamWake: "i < length (tasks st) \<Longrightarrow> capd_internal st (stream_wake i st)"
| ProcExit: "r < length (procs st) \<Longrightarrow> capd_internal st (proc_exit r st)"

inductive capd_reachable :: "capd \<Rightarrow> bool" where
  Init: "capd_reachable new_capd"
| Start: "capd_reachable st \<Longrightarrow> capd_start_session rootdir host params st = (rep, st') \<Longrightarrow> capd_reachable st'"
| Internal: "capd_reachable st \<Longrightarrow> capd_internal st st' \<Longrightarrow> capd_reachable st'"

text \<open>The same with session ids that are never used twice, as the web application's uuids are.\<close>

inductive capd_reachable_fresh :: "capd \<Rightarrow> bool" where
  FInit: "capd_reachable_fresh new_capd"
| FStart: "capd_reachable_fresh st \<Longrightarrow> capd_start_session rootdir host params st = (rep, st') \<Longrightarrow>
    (\<And>sid dir. rep = Started sid dir \<Longrightarrow> sid \<notin> proc_session ` set (procs st)) \<Longrightarrow> capd_reachable_fresh st'"
| FInternal: "capd_reachable_fresh st \<Longrightarrow> capd_internal st st' \<Longrightarrow> capd_reachable_fresh st'"

inductive_cases capd_internalE: "capd_internal st st'"

section \<open>Invariants\<close>

text \<open>The captures that the table knows to run, and all that do run.\<close>

definition table_captures :: "capd \<Rightarrow> (string \<times> string) set" where
  "table_captures st = {(proc_iface (procs st ! r), sid) | sid r. (sid, r) \<in> set (sessions st) \<and> proc_running (procs st ! r)}"

definition live_captures :: "capd \<Rightarrow> (string \<times> nat) set" where
  "live_captures st = {(proc_iface (procs st ! r), r) | r. r < length (procs st) \<and> proc_running (procs st ! r)}"

fun task_ref :: "task \<Rightarrow> (string \<times> nat) option" where
  "task_ref (Stopping sid r) = Some (sid, r)"
| "task_ref (Stopped sid r _) = Some (sid, r)"
| "task_ref (Polling sid r _) = Some (sid, r)"
| "task_ref (Polled sid r _ _) = Some (sid, r)"
| "task_ref (Sleeping sid r) = Some (sid, r)"
| "task_ref Ended = None"

text \<open>A task that will remove its session from the table when it goes on.\<close>

fun task_removes :: "task \<Rightarrow> bool" where
  "task_removes (Stopped _ _ _) = True"
| "task_removes (Polled _ _ _ stats) = (\<not> st_running stats)"
| "task_removes _ = False"

definition ref_ok :: "capd \<Rightarrow> string \<times> nat \<Rightarrow> bool" where
  "ref_ok st q \<longleftrightarrow> snd q < length (procs st) \<and> proc_session (procs st ! snd q) = fst q"

definition table_ok :: "capd \<Rightarrow> bool" where
  "table_ok st \<longleftrightarrow> dict_ok (sessions st) \<and> (\<forall>q \<in> set (sessions st). ref_ok st q)
     \<and> (\<forall>t \<in> set (tasks st). \<forall>q. task_ref t = Some q \<longrightarrow> ref_ok st q)
     \<and> (\<forall>t \<in> set (tasks st). \<forall>q. task_ref t = Some q \<longrightarrow> task_removes t \<longrightarrow> \<not> proc_running (procs st ! snd q))"

text \<open>A step that only winds captures down: objects keep their configuration and do not revive.\<close>

definition procs_wind_down :: "capture_proc list \<Rightarrow> capture_proc list \<Rightarrow> bool" where
  "procs_wind_down ps ps' \<longleftrightarrow> list_all2 (\<lambda>p p'. sup_cfg (cp_sup p') = sup_cfg (cp_sup p)
     \<and> (proc_running p' \<longrightarrow> proc_running p)) ps ps'"

lemma wind_down_refl [simp, intro]: "procs_wind_down ps ps"
  by (simp add: procs_wind_down_def list_all2_refl)

lemma wind_down_update:
  "sup_cfg (cp_sup p) = sup_cfg (cp_sup (ps ! r)) \<Longrightarrow> (proc_running p \<Longrightarrow> proc_running (ps ! r)) \<Longrightarrow>
   procs_wind_down ps (ps[r := p])"
  unfolding procs_wind_down_def list_all2_conv_all_nth
  by (metis length_list_update nth_list_update_eq nth_list_update_neq)

lemma wind_downD:
  assumes "procs_wind_down ps ps'"
  shows "length ps' = length ps"
    and "r < length ps \<Longrightarrow> proc_session (ps' ! r) = proc_session (ps ! r)"
    and "r < length ps \<Longrightarrow> proc_iface (ps' ! r) = proc_iface (ps ! r)"
    and "r < length ps \<Longrightarrow> proc_running (ps' ! r) \<Longrightarrow> proc_running (ps ! r)"
  using assms by (auto simp: procs_wind_down_def list_all2_conv_all_nth proc_session_def proc_iface_def)

lemma snapshot_keeps: "snapshot dir now running fin s = (st, s') \<Longrightarrow>
    has_proc s' = has_proc s \<and> sup_cfg s' = sup_cfg s \<and> st_running st = running"
  by (intro conjI snapshot_fields(7) snapshot_fields(8) snapshot_fields(9))

lemma parse_final_keeps [simp]: "has_proc (parse_final_stats s) = has_proc s" "sup_cfg (parse_final_stats s) = sup_cfg s"
  by (simp_all add: parse_final_stats_def Let_def)

lemma poll_keeps: "poll alive dir now s = (st, s') \<Longrightarrow>
    has_proc s' = has_proc s \<and> sup_cfg s' = sup_cfg s \<and> st_running st = (has_proc s \<and> alive)"
  by (auto simp: poll_def Let_def dest!: snapshot_keeps split: if_splits)

lemma stop_keeps: "sup_stop reaped dir now s = Some (st, s') \<Longrightarrow> \<not> has_proc s' \<and> sup_cfg s' = sup_cfg s"
  by (auto simp: sup_stop_def dest!: snapshot_keeps split: if_splits prod.splits)

lemma consume_keeps: "has_proc (fold consume_line ls s) = has_proc s \<and> sup_cfg (fold consume_line ls s) = sup_cfg s"
  by (induction ls arbitrary: s) (simp_all add: consume_line_def Let_def)

lemma spawn_Inr: "spawn host cfg = Inr s \<Longrightarrow> sup_cfg s = cfg \<and> has_proc s \<and> session_id_ok (sc_session cfg)"
  by (auto simp: spawn_def new_supervisor_def sup_start_def consume_keeps Let_def split: sum.splits option.splits if_splits)

lemma register_Inr:
  assumes "register_session host cfg st = Inr st'"
  obtains s where "\<not> session_runs st (sc_session cfg)" "conflict st (sc_session cfg) (sc_interface cfg) = None"
    "spawn host cfg = Inr s" "st' = st\<lparr>procs := procs st @ [\<lparr>cp_sup = s, cp_alive = True\<rparr>],
       sessions := dict_set (sc_session cfg) (length (procs st)) (sessions st)\<rparr>"
  using assms by (auto simp: register_session_def Let_def split: if_splits option.splits sum.splits)

lemma conflict_None:
  assumes "conflict st sid iface = None" "(j, b) \<in> table_captures st" "b \<noteq> sid"
  shows "\<not> clash iface j"
proof -
  obtain r where r: "(b, r) \<in> set (sessions st)" "j = proc_iface (procs st ! r)" "proc_running (procs st ! r)"
    using assms(2) by (auto simp: table_captures_def)
  have "find (\<lambda>(oid, r). oid \<noteq> sid \<and> proc_running (procs st ! r)
      \<and> (iface = ''any'' \<or> proc_iface (procs st ! r) = ''any'' \<or> proc_iface (procs st ! r) = iface)) (sessions st) = None"
    using assms(1) by (simp add: conflict_def split: option.splits prod.splits)
  with r assms(3) show ?thesis unfolding find_None_iff clash_def by fastforce
qed

lemma register_captures:
  assumes "table_ok st" "register_session host cfg st = Inr st'"
  shows "table_captures st' = insert (sc_interface cfg, sc_session cfg) (table_captures st)"
proof -
  obtain s where s: "\<not> session_runs st (sc_session cfg)" "spawn host cfg = Inr s"
    "st' = st\<lparr>procs := procs st @ [\<lparr>cp_sup = s, cp_alive = True\<rparr>],
       sessions := dict_set (sc_session cfg) (length (procs st)) (sessions st)\<rparr>"
    using register_Inr [OF assms(2)] by metis
  have d: "dict_ok (sessions st)" and refs: "\<And>q. q \<in> set (sessions st) \<Longrightarrow> snd q < length (procs st)"
    using assms(1) by (auto simp: table_ok_def ref_ok_def)
  have old: "(sc_session cfg, r) \<in> set (sessions st) \<Longrightarrow> \<not> proc_running (procs st ! r)" for r
    using s(1) dict_get_mem [OF d, of "sc_session cfg" r] by (simp add: session_runs_def registered_def)
  have new: "proc_running \<lparr>cp_sup = s, cp_alive = True\<rparr>" "proc_iface \<lparr>cp_sup = s, cp_alive = True\<rparr> = sc_interface cfg"
    using spawn_Inr [OF s(2)] by (simp_all add: proc_running_def proc_iface_def)
  have nth: "q \<in> set (sessions st) \<Longrightarrow> (procs st @ [x]) ! snd q = procs st ! snd q" for q x
    using refs by (simp add: nth_append)
  have split: "table_captures st' = (\<lambda>q. (proc_iface (procs st' ! snd q), fst q)) ` {q \<in> set (sessions st'). proc_running (procs st' ! snd q)}" for st'
    by (force simp: table_captures_def)
  have "{q \<in> set (sessions st'). proc_running (procs st' ! snd q)}
      = insert (sc_session cfg, length (procs st)) {q \<in> set (sessions st). proc_running (procs st ! snd q)}"
    using old new(1) nth by (auto simp: s(3) set_dict_set [OF d])
  moreover have "(\<lambda>q. (proc_iface (procs st' ! snd q), fst q)) ` {q \<in> set (sessions st). proc_running (procs st ! snd q)}
      = (\<lambda>q. (proc_iface (procs st ! snd q), fst q)) ` {q \<in> set (sessions st). proc_running (procs st ! snd q)}"
    using nth by (intro image_cong) (simp_all add: s(3))
  ultimately show ?thesis using new(2) unfolding split by (simp add: s(3))
qed

lemma ref_ok_append: "ref_ok st q \<Longrightarrow> procs st' = procs st @ ps \<Longrightarrow> ref_ok st' q"
  by (simp add: ref_ok_def nth_append)

lemma register_ok:
  assumes "table_ok st" "register_session host cfg st = Inr st'"
  shows "table_ok st'"
proof -
  obtain s where s: "spawn host cfg = Inr s" "st' = st\<lparr>procs := procs st @ [\<lparr>cp_sup = s, cp_alive = True\<rparr>],
       sessions := dict_set (sc_session cfg) (length (procs st)) (sessions st)\<rparr>"
    using register_Inr [OF assms(2)] by metis
  have d: "dict_ok (sessions st)" and q: "\<And>q. q \<in> set (sessions st) \<Longrightarrow> ref_ok st q"
    and t: "\<And>t q. t \<in> set (tasks st) \<Longrightarrow> task_ref t = Some q \<Longrightarrow> ref_ok st q"
    and rm: "\<And>t q. t \<in> set (tasks st) \<Longrightarrow> task_ref t = Some q \<Longrightarrow> task_removes t \<Longrightarrow> \<not> proc_running (procs st ! snd q)"
    using assms(1) by (auto simp: table_ok_def)
  have p: "procs st' = procs st @ [\<lparr>cp_sup = s, cp_alive = True\<rparr>]" "tasks st' = tasks st" by (simp_all add: s(2))
  have "ref_ok st' (sc_session cfg, length (procs st))"
    using spawn_Inr [OF s(1)] by (simp add: ref_ok_def p proc_session_def)
  then have "\<forall>q \<in> set (sessions st'). ref_ok st' q"
    using q ref_ok_append [OF _ p(1)] by (auto simp: s(2) set_dict_set [OF d] simp del: ref_ok_def)
  moreover have "proc_running (procs st' ! snd q) = proc_running (procs st ! snd q)" if "ref_ok st q" for q
    using that by (simp add: p nth_append ref_ok_def)
  ultimately show ?thesis
    using t rm ref_ok_append [OF _ p(1)] d unfolding table_ok_def p(2) by (auto simp: s(2))
qed

lemma start_session_cases:
  assumes "capd_start_session rootdir host params st = (rep, st')"
  shows "(st' = st \<and> (\<exists>e. rep = CapdFailure e)) \<or>
    (\<exists>cfg. start_config (sh_float_repr host) rootdir params = Inr cfg \<and> preflight host cfg = None
       \<and> register_session host cfg st = Inr st' \<and> rep = Started (sc_session cfg) (sc_out_dir cfg))"
  using assms by (auto simp: capd_start_session_def split: sum.splits option.splits)

text \<open>What every step other than a start does.\<close>

definition winds_down :: "capd \<Rightarrow> capd \<Rightarrow> bool" where
  "winds_down st st' \<longleftrightarrow> procs_wind_down (procs st) (procs st') \<and> set (sessions st') \<subseteq> set (sessions st)
     \<and> table_ok st'
     \<and> (\<forall>q \<in> set (sessions st) - set (sessions st'). \<exists>t \<in> set (tasks st). task_removes t \<and> (\<exists>r. task_ref t = Some (fst q, r)))"

lemma winds_downI:
  assumes "table_ok st" and down: "procs_wind_down (procs st) (procs st')"
    and sess: "sessions st' = sessions st \<or> (\<exists>t \<in> set (tasks st). task_removes t \<and>
      (\<exists>sid r. task_ref t = Some (sid, r) \<and> sessions st' = dict_pop sid (sessions st)))"
    and tasks: "\<And>t. t \<in> set (tasks st') \<Longrightarrow> t \<in> set (tasks st) \<or> (\<forall>q. task_ref t = Some q \<longrightarrow> ref_ok st q
      \<and> (task_removes t \<longrightarrow> \<not> proc_running (procs st' ! snd q)))"
  shows "winds_down st st'"
proof -
  have d: "dict_ok (sessions st')" and sub: "set (sessions st') \<subseteq> set (sessions st)"
    using sess assms(1) by (auto simp: table_ok_def set_dict_pop)
  have keep: "ref_ok st q \<Longrightarrow> ref_ok st' q" for q
    using wind_downD [OF down] by (simp add: ref_ok_def)
  have dead: "ref_ok st q \<Longrightarrow> \<not> proc_running (procs st ! snd q) \<Longrightarrow> \<not> proc_running (procs st' ! snd q)" for q
    using wind_downD(4) [OF down] by (auto simp: ref_ok_def)
  have "table_ok st'"
    unfolding table_ok_def
  proof (intro conjI ballI allI impI)
    fix q assume "q \<in> set (sessions st')"
    then have "ref_ok st q" using sub assms(1) unfolding table_ok_def by blast
    then show "ref_ok st' q" by (rule keep)
  next
    fix t q assume "t \<in> set (tasks st')" "task_ref t = Some q"
    then have "ref_ok st q" using tasks [of t] assms(1) unfolding table_ok_def by blast
    then show "ref_ok st' q" by (rule keep)
  next
    fix t q assume t: "t \<in> set (tasks st')" "task_ref t = Some q" "task_removes t"
    show "\<not> proc_running (procs st' ! snd q)"
    proof (cases "t \<in> set (tasks st)")
      case True
      then have "ref_ok st q" "\<not> proc_running (procs st ! snd q)" using t assms(1) unfolding table_ok_def by blast+
      then show ?thesis by (rule dead)
    next
      case False
      then show ?thesis using tasks [OF t(1)] t by blast
    qed
  qed (rule d)
  then show ?thesis
    using down sub sess by (auto simp: winds_down_def set_dict_pop)
qed

lemma begin_task_winds:
  assumes "table_ok st" "begin_task mk sid st = (rep, st')"
    and "\<And>r. task_ref (mk sid r) = Some (sid, r)" "\<And>r. \<not> task_removes (mk sid r)"
  shows "winds_down st st'"
proof (cases "dict_get (sessions st) sid")
  case None
  with assms(2) have "st' = st" by (simp add: begin_task_def)
  then show ?thesis using assms(1) by (intro winds_downI) auto
next
  case (Some r)
  then have st': "st' = st\<lparr>tasks := tasks st @ [mk sid r]\<rparr>" using assms(2) by (simp add: begin_task_def)
  have "(sid, r) \<in> set (sessions st)" using Some by (rule map_of_SomeD)
  then have "ref_ok st (sid, r)" using assms(1) by (simp add: table_ok_def)
  then show ?thesis using assms by (intro winds_downI) (auto simp: st')
qed

lemma task_nth:
  assumes "table_ok st" "i < length (tasks st)" "task_ref (tasks st ! i) = Some q"
  shows "ref_ok st q" "task_removes (tasks st ! i) \<Longrightarrow> \<not> proc_running (procs st ! snd q)" "tasks st ! i \<in> set (tasks st)"
  using assms nth_mem [OF assms(2)] unfolding table_ok_def by blast+

lemma set_upd: "x \<in> set (xs[i := y]) \<Longrightarrow> x \<in> set xs \<or> x = y"
  using set_update_subset_insert by fastforce

lemma stop_run_winds:
  assumes "table_ok st" "i < length (tasks st)"
  shows "winds_down st (stop_run i reaped dir now st)"
proof (cases "tasks st ! i")
  case (Stopping sid r)
  then have ref: "ref_ok st (sid, r)" using task_nth(1) [OF assms] by simp
  show ?thesis
  proof (cases "sup_stop reaped dir now (cp_sup (procs st ! r))")
    case None
    with Stopping show ?thesis
      using assms(1) by (intro winds_downI) (auto simp: stop_run_def dest!: set_upd)
  next
    case (Some a)
    obtain stats s where a: "a = (stats, s)" by force
    with Some have k: "\<not> has_proc s" "sup_cfg s = sup_cfg (cp_sup (procs st ! r))" using stop_keeps by blast+
    show ?thesis
    proof (rule winds_downI [OF assms(1)])
      show "procs_wind_down (procs st) (procs (stop_run i reaped dir now st))"
        using Stopping Some a k by (auto simp: stop_run_def proc_running_def intro!: wind_down_update)
    next
      fix t assume "t \<in> set (tasks (stop_run i reaped dir now st))"
      then show "t \<in> set (tasks st) \<or> (\<forall>q. task_ref t = Some q \<longrightarrow> ref_ok st q
          \<and> (task_removes t \<longrightarrow> \<not> proc_running (procs (stop_run i reaped dir now st) ! snd q)))"
        using Stopping Some a k ref by (auto simp: stop_run_def proc_running_def ref_ok_def dest!: set_upd)
    qed (use Stopping Some a in \<open>simp add: stop_run_def\<close>)
  qed
qed (use assms(1) in \<open>auto simp: stop_run_def intro!: winds_downI\<close>)

lemma poll_run_winds:
  assumes "table_ok st" "i < length (tasks st)"
  shows "winds_down st (poll_run i dir now st)"
proof (cases "tasks st ! i")
  case (Polling sid r stream)
  then have ref: "ref_ok st (sid, r)" using task_nth(1) [OF assms] by simp
  obtain stats s where a: "poll (cp_alive (procs st ! r)) dir now (cp_sup (procs st ! r)) = (stats, s)" by force
  note k = poll_keeps [OF a]
  show ?thesis
  proof (rule winds_downI [OF assms(1)])
    show "procs_wind_down (procs st) (procs (poll_run i dir now st))"
      using Polling a k by (auto simp: poll_run_def proc_running_def intro!: wind_down_update)
  next
    fix t assume "t \<in> set (tasks (poll_run i dir now st))"
    then show "t \<in> set (tasks st) \<or> (\<forall>q. task_ref t = Some q \<longrightarrow> ref_ok st q
        \<and> (task_removes t \<longrightarrow> \<not> proc_running (procs (poll_run i dir now st) ! snd q)))"
      using Polling a k ref by (auto simp: poll_run_def proc_running_def ref_ok_def dest!: set_upd)
  qed (use Polling a in \<open>simp add: poll_run_def\<close>)
qed (use assms(1) in \<open>auto simp: poll_run_def intro!: winds_downI\<close>)

lemma end_task_winds:
  assumes "table_ok st" "i < length (tasks st)" "task_ref (tasks st ! i) = Some (sid, r)" "task_ref t = Some (sid, r) \<or> task_ref t = None"
    and "\<not> task_removes t" "procs st' = procs st" "tasks st' = (tasks st)[i := t]"
    and "sessions st' = sessions st \<or> task_removes (tasks st ! i) \<and> sessions st' = dict_pop sid (sessions st)"
  shows "winds_down st st'"
proof (rule winds_downI [OF assms(1)])
  note old = task_nth [OF assms(1-3)]
  show "sessions st' = sessions st \<or> (\<exists>t \<in> set (tasks st). task_removes t \<and>
      (\<exists>sid r. task_ref t = Some (sid, r) \<and> sessions st' = dict_pop sid (sessions st)))"
    using assms(3,8) old(3) by blast
  fix u assume "u \<in> set (tasks st')"
  then have "u \<in> set (tasks st) \<or> u = t" using set_upd assms(7) by metis
  then show "u \<in> set (tasks st) \<or> (\<forall>q. task_ref u = Some q \<longrightarrow> ref_ok st q
      \<and> (task_removes u \<longrightarrow> \<not> proc_running (procs st' ! snd q)))"
    using old(1) assms(4,5) by auto
qed (simp add: assms(6))

lemma stop_end_winds:
  assumes "table_ok st" "i < length (tasks st)" "stop_end i st = (rep, st')"
  shows "winds_down st st'"
proof (cases "tasks st ! i")
  case (Stopped sid r stats)
  show ?thesis
    by (rule end_task_winds [OF assms(1,2), where t = Ended and sid = sid and r = r])
       (use Stopped assms(3) in \<open>auto simp: stop_end_def\<close>)
qed (use assms in \<open>auto simp: stop_end_def intro!: winds_downI\<close>)

lemma poll_end_winds:
  assumes "table_ok st" "i < length (tasks st)" "poll_end i there st = (rep, st')"
  shows "winds_down st st'"
proof (cases "tasks st ! i")
  case (Polled sid r stream stats)
  show ?thesis
    by (rule end_task_winds [OF assms(1,2), where sid = sid and r = r and
          t = "if stream \<and> there \<and> st_running stats then Sleeping sid r else Ended"])
       (use Polled assms(3) in \<open>auto simp: poll_end_def Let_def reap_if_finished_def\<close>)
qed (use assms in \<open>auto simp: poll_end_def intro!: winds_downI\<close>)

lemma stream_wake_winds:
  assumes "table_ok st" "i < length (tasks st)"
  shows "winds_down st (stream_wake i st)"
proof (cases "tasks st ! i")
  case (Sleeping sid r)
  show ?thesis
    by (rule end_task_winds [OF assms, where sid = sid and r = r and t = "Polling sid r True"])
       (use Sleeping in \<open>auto simp: stream_wake_def\<close>)
qed (use assms in \<open>auto simp: stream_wake_def intro!: winds_downI\<close>)

lemma proc_exit_winds:
  assumes "table_ok st"
  shows "winds_down st (proc_exit r st)"
  using assms by (intro winds_downI) (auto simp: proc_exit_def proc_running_def intro!: wind_down_update)

lemma internal_winds: "capd_internal st st' \<Longrightarrow> table_ok st \<Longrightarrow> winds_down st st'"
  by (erule capd_internalE)
     (auto simp: stop_begin_def status_begin_def stream_begin_def proc_exit_winds stream_wake_winds
       poll_run_winds stop_run_winds stop_end_winds poll_end_winds elim!: begin_task_winds)

lemma winds_down_captures: "winds_down st st' \<Longrightarrow> table_ok st \<Longrightarrow> table_captures st' \<subseteq> table_captures st"
proof (rule subsetI)
  fix x assume w: "winds_down st st'" "table_ok st" and "x \<in> table_captures st'"
  then obtain sid r where r: "x = (proc_iface (procs st' ! r), sid)" "(sid, r) \<in> set (sessions st')" "proc_running (procs st' ! r)"
    by (auto simp: table_captures_def)
  with w have mem: "(sid, r) \<in> set (sessions st)" and down: "procs_wind_down (procs st) (procs st')"
    by (auto simp: winds_down_def)
  with w(2) have "r < length (procs st)" by (auto simp: table_ok_def ref_ok_def)
  with wind_downD(3,4) [OF down this] r mem show "x \<in> table_captures st" by (auto simp: table_captures_def)
qed

lemma new_capd_ok: "table_ok new_capd" "table_captures new_capd = {}"
  by (simp_all add: new_capd_def table_ok_def table_captures_def)

section \<open>The registry contract\<close>

text \<open>
  A start of a session, and a stop served without interruption, are the two operations of
  the registry. A start is made with the session's identifier and interface put into an
  otherwise fixed configuration.
\<close>

definition stop_now :: "string \<Rightarrow> capd \<Rightarrow> capd" where
  "stop_now sid st = (let (rep, st1) = stop_begin sid st in
     if rep \<noteq> None then st1
     else snd (stop_end (length (tasks st)) (stop_run (length (tasks st)) True [] 0 st1)))"

definition acquire_session :: "start_host \<Rightarrow> sup_config \<Rightarrow> string \<Rightarrow> string \<Rightarrow> capd \<Rightarrow> capd option" where
  "acquire_session host cfg iface sid st =
     (case register_session host (cfg\<lparr>sc_session := sid, sc_interface := iface\<rparr>) st of
        Inl _ \<Rightarrow> None | Inr st' \<Rightarrow> Some st')"

lemma sup_stop_reaped: "\<exists>stats s'. sup_stop True dir now s = Some (stats, s')"
  unfolding sup_stop_def by (simp split: prod.split)

lemma stop_now_sessions: "table_ok st \<Longrightarrow> sessions (stop_now sid st) = dict_pop sid (sessions st)"
proof (cases "dict_get (sessions st) sid")
  case None
  then have "dict_pop sid (sessions st) = sessions st" by (simp add: delete_id dict_get_exists)
  with None show ?thesis by (simp add: stop_now_def stop_begin_def begin_task_def)
next
  case (Some r)
  obtain stats s where run: "sup_stop True [] 0 (cp_sup (procs st ! r)) = Some (stats, s)"
    using sup_stop_reaped by blast
  with Some show ?thesis by (simp add: stop_now_def stop_begin_def begin_task_def stop_run_def stop_end_def)
qed

lemma stop_now_winds: "table_ok st \<Longrightarrow> table_ok (stop_now sid st) \<and> procs_wind_down (procs st) (procs (stop_now sid st))"
proof -
  assume ok: "table_ok st"
  obtain rep st1 where b: "stop_begin sid st = (rep, st1)" by force
  have w1: "winds_down st st1" using internal_winds [OF StopBegin [OF b] ok] .
  show ?thesis
  proof (cases rep)
    case (Some x)
    then show ?thesis using w1 b by (simp add: stop_now_def winds_down_def)
  next
    case None
    let ?n = "length (tasks st)"
    have n: "?n < length (tasks st1)" using b None
      by (auto simp: stop_begin_def begin_task_def split: option.splits)
    have ok1: "table_ok st1" using w1 by (simp add: winds_down_def)
    let ?st2 = "stop_run ?n True [] 0 st1"
    have w2: "winds_down st1 ?st2" using stop_run_winds [OF ok1 n] .
    have n2: "?n < length (tasks ?st2)"
      using n by (simp add: stop_run_def split: task.splits option.splits prod.splits)
    have ok2: "table_ok ?st2" using w2 by (simp add: winds_down_def)
    have w3: "winds_down ?st2 (snd (stop_end ?n ?st2))"
      by (rule stop_end_winds [OF ok2 n2]) (rule prod.collapse [symmetric])
    have "procs_wind_down (procs st) (procs (snd (stop_end ?n ?st2)))"
      using w1 w2 w3 unfolding winds_down_def procs_wind_down_def list_all2_conv_all_nth by metis
    then show ?thesis using b None w3 by (simp add: stop_now_def winds_down_def)
  qed
qed

lemma stop_now_others:
  assumes "dict_get (sessions st) sid \<noteq> Some r"
  shows "procs (stop_now sid st) ! r = procs st ! r"
proof (cases "dict_get (sessions st) sid")
  case None
  then show ?thesis by (simp add: stop_now_def stop_begin_def begin_task_def)
next
  case (Some q)
  obtain stats s where run: "sup_stop True [] 0 (cp_sup (procs st ! q)) = Some (stats, s)"
    using sup_stop_reaped by blast
  with Some assms show ?thesis
    by (simp add: stop_now_def stop_begin_def begin_task_def stop_run_def stop_end_def)
qed

lemma stop_now_captures:
  assumes "table_ok st"
  shows "table_captures (stop_now sid st) = {c \<in> table_captures st. snd c \<noteq> sid}"
proof -
  have d: "dict_ok (sessions st)" and q: "\<And>b r. (b, r) \<in> set (sessions st) \<Longrightarrow> ref_ok st (b, r)"
    using assms by (auto simp: table_ok_def)
  have same: "procs (stop_now sid st) ! r = procs st ! r" if "(b, r) \<in> set (sessions st)" "b \<noteq> sid" for b r
  proof (rule stop_now_others)
    show "dict_get (sessions st) sid \<noteq> Some r"
      using that q [of b r] q [of sid r] map_of_SomeD by (fastforce simp: ref_ok_def)
  qed
  show ?thesis
  proof (intro set_eqI iffI)
    fix c assume "c \<in> table_captures (stop_now sid st)"
    then show "c \<in> {c \<in> table_captures st. snd c \<noteq> sid}"
      unfolding table_captures_def stop_now_sessions [OF assms] set_dict_pop by (auto simp: same)
  next
    fix c assume "c \<in> {c \<in> table_captures st. snd c \<noteq> sid}"
    then obtain b r where c: "c = (proc_iface (procs st ! r), b)" "(b, r) \<in> set (sessions st)"
      "proc_running (procs st ! r)" "b \<noteq> sid" by (auto simp: table_captures_def)
    with same [OF c(2,4)] show "c \<in> table_captures (stop_now sid st)"
      unfolding table_captures_def stop_now_sessions [OF assms] set_dict_pop by force
  qed
qed

lemma acquire_session_Some:
  "acquire_session host cfg i a st = Some st' \<Longrightarrow> register_session host (cfg\<lparr>sc_session := a, sc_interface := i\<rparr>) st = Inr st'"
  by (auto simp: acquire_session_def split: sum.splits)

interpretation capd_registry: exclusive_capture table_ok "\<lambda>_. True" table_captures "acquire_session host cfg" "\<lambda>i. stop_now"
  for host cfg
proof unfold_locales
  fix s s' i a assume a: "table_ok s" "acquire_session host cfg i a s = Some s'"
  note reg = acquire_session_Some [OF a(2)]
  show "table_ok s'" by (rule register_ok [OF a(1) reg])
  show "table_captures s' = insert (i, a) (table_captures s)"
    using register_captures [OF a(1) reg] by simp
  fix j b assume "(j, b) \<in> table_captures s" "b \<noteq> a"
  with register_Inr [OF reg] conflict_None show "\<not> clash i j"
    by (metis sup_config.select_convs(1,2) sup_config.surjective sup_config.update_convs(1,2))
next
  fix s i a j b assume ok: "table_ok s"
  show "table_ok (stop_now a s)" using stop_now_winds [OF ok] by blast
  show "table_captures (stop_now a s) \<subseteq> table_captures s" "(i, a) \<notin> table_captures (stop_now a s)"
    "(j, b) \<in> table_captures s \<Longrightarrow> b \<noteq> a \<Longrightarrow> (j, b) \<in> table_captures (stop_now a s)"
    using stop_now_captures [OF ok] by auto
qed

section \<open>Reachable states\<close>

lemma start_captures:
  assumes "table_ok st" "exclusive (table_captures st)" "capd_start_session rootdir host params st = (rep, st')"
  shows "table_ok st' \<and> exclusive (table_captures st')"
  using start_session_cases [OF assms(3)]
proof (elim disjE exE conjE)
  fix cfg assume reg: "register_session host cfg st = Inr st'"
  have "exclusive (insert (sc_interface cfg, sc_session cfg) (table_captures st))"
    using assms(2) conflict_None register_Inr [OF reg] by (metis exclusive_insert)
  then show ?thesis using register_captures [OF assms(1) reg] register_ok [OF assms(1) reg] by simp
qed (use assms in simp)

lemma reachable_invariant: "capd_reachable st \<Longrightarrow> table_ok st \<and> exclusive (table_captures st)"
proof (induction rule: capd_reachable.induct)
  case (Internal st st')
  then have "winds_down st st'" using internal_winds by blast
  with Internal winds_down_captures [of st st'] show ?case
    using exclusive_subset unfolding winds_down_def by blast
qed (auto simp: new_capd_ok dest: start_captures)

definition fresh_ok :: "capd \<Rightarrow> bool" where
  "fresh_ok st \<longleftrightarrow> distinct (map proc_session (procs st))
     \<and> (\<forall>r < length (procs st). proc_running (procs st ! r) \<longrightarrow> (proc_session (procs st ! r), r) \<in> set (sessions st))"

lemma fresh_reachable: "capd_reachable_fresh st \<Longrightarrow> capd_reachable st"
  by (induction rule: capd_reachable_fresh.induct) (blast intro: capd_reachable.intros)+

lemma wind_down_sessions: "procs_wind_down ps ps' \<Longrightarrow> map proc_session ps' = map proc_session ps"
  using wind_downD(1,2) by (intro nth_equalityI) simp_all

lemma fresh_internal:
  assumes "table_ok st" "fresh_ok st" "winds_down st st'"
  shows "fresh_ok st'"
proof -
  have down: "procs_wind_down (procs st) (procs st')" using assms(3) by (simp add: winds_down_def)
  note len = wind_downD [OF down]
  have "(proc_session (procs st' ! r), r) \<in> set (sessions st')"
    if r: "r < length (procs st')" and run: "proc_running (procs st' ! r)" for r
  proof (rule ccontr)
    assume gone: "(proc_session (procs st' ! r), r) \<notin> set (sessions st')"
    have r': "r < length (procs st)" and run': "proc_running (procs st ! r)"
      using len r run by auto
    then have "(proc_session (procs st ! r), r) \<in> set (sessions st) - set (sessions st')"
      using gone len(2) assms(2) by (simp add: fresh_ok_def)
    then obtain t q where t: "t \<in> set (tasks st)" "task_removes t" "task_ref t = Some (proc_session (procs st ! r), q)"
      using assms(3) unfolding winds_down_def by (metis fst_conv)
    then have q: "ref_ok st (proc_session (procs st ! r), q)" "\<not> proc_running (procs st ! q)"
      using assms(1) unfolding table_ok_def by force+
    then have "map proc_session (procs st) ! q = map proc_session (procs st) ! r" "q < length (procs st)"
      using r' by (simp_all add: ref_ok_def)
    then have "q = r" using assms(2) r' by (simp add: fresh_ok_def nth_eq_iff_index_eq del: nth_map)
    with q(2) run' show False by simp
  qed
  then show ?thesis using assms(2) wind_down_sessions [OF down] by (simp add: fresh_ok_def)
qed

lemma fresh_start:
  assumes "table_ok st" "fresh_ok st" "capd_start_session rootdir host params st = (rep, st')"
    and "\<And>sid dir. rep = Started sid dir \<Longrightarrow> sid \<notin> proc_session ` set (procs st)"
  shows "fresh_ok st'"
  using start_session_cases [OF assms(3)]
proof (elim disjE exE conjE)
  fix cfg assume reg: "register_session host cfg st = Inr st'" and "rep = Started (sc_session cfg) (sc_out_dir cfg)"
  then have new: "sc_session cfg \<notin> proc_session ` set (procs st)" using assms(4) by blast
  obtain s where s: "spawn host cfg = Inr s" "st' = st\<lparr>procs := procs st @ [\<lparr>cp_sup = s, cp_alive = True\<rparr>],
       sessions := dict_set (sc_session cfg) (length (procs st)) (sessions st)\<rparr>"
    using register_Inr [OF reg] by metis
  have d: "dict_ok (sessions st)" using assms(1) by (simp add: table_ok_def)
  have sid: "proc_session \<lparr>cp_sup = s, cp_alive = True\<rparr> = sc_session cfg"
    using spawn_Inr [OF s(1)] by (simp add: proc_session_def)
  have "(proc_session (procs st' ! r), r) \<in> set (sessions st')"
    if "r < length (procs st')" "proc_running (procs st' ! r)" for r
  proof (cases "r < length (procs st)")
    case True
    then have "proc_session (procs st ! r) \<noteq> sc_session cfg" using new by (metis image_eqI nth_mem)
    with True that assms(2) show ?thesis by (simp add: s(2) nth_append set_dict_set [OF d] fresh_ok_def)
  next
    case False
    with that(1) have "r = length (procs st)" by (simp add: s(2))
    then show ?thesis by (simp add: s(2) set_dict_set [OF d] sid)
  qed
  then show ?thesis using assms(2) new sid by (simp add: fresh_ok_def s(2))
qed (use assms in simp)

lemma fresh_invariant: "capd_reachable_fresh st \<Longrightarrow> fresh_ok st"
proof (induction rule: capd_reachable_fresh.induct)
  case FInit
  show ?case by (simp add: fresh_ok_def new_capd_def)
next
  case (FStart st rootdir host params rep st')
  then show ?case using fresh_start reachable_invariant [OF fresh_reachable [OF FStart(1)]] by blast
next
  case (FInternal st st')
  then show ?case using fresh_internal internal_winds reachable_invariant [OF fresh_reachable [OF FInternal(1)]] by blast
qed

section \<open>A concrete host\<close>

definition demo_host :: start_host where
  "demo_host = \<lparr>sh_netinfo = \<lparr>ni_addrs = [(''eth0'', []), (''eth1'', [])], ni_stats = []\<rparr>, sh_libpcap = Inl ''none'',
     sh_dumpcap = True, sh_now = 5, sh_stderr = [], sh_exit = None, sh_float_repr = (\<lambda>_. ''0.0''), sh_os_error = None\<rparr>"

definition demo_params :: "string \<Rightarrow> string \<Rightarrow> (string, pyval) dict" where
  "demo_params sid iface = [(''session_id'', PStr sid), (''interface'', PStr iface)]"

definition demo_start :: "string \<Rightarrow> string \<Rightarrow> capd \<Rightarrow> capd" where
  "demo_start sid iface st = snd (capd_start_session ''/c'' demo_host (demo_params sid iface) st)"

lemma demo_start_step: "capd_reachable st \<Longrightarrow> capd_reachable (demo_start sid iface st)"
  unfolding demo_start_def by (erule capd_reachable.Start) (rule prod.collapse [symmetric])

text \<open>
  A session identifier used again: a status request finds the first capture finished, a new
  capture starts under the same identifier, then the status request comes back to the table.
\<close>

definition stale_poll :: capd where
  "stale_poll = (let st1 = demo_start ''s1'' ''eth0'' new_capd;
       st2 = snd (status_begin ''s1'' st1);
       st3 = poll_run 0 [] 6 (proc_exit 0 st2);
       st4 = demo_start ''s1'' ''eth0'' st3;
       st5 = snd (poll_end 0 True st4)
     in demo_start ''s2'' ''eth0'' st5)"

lemma stale_poll_reachable: "capd_reachable stale_poll"
proof -
  let ?s1 = "demo_start ''s1'' ''eth0'' new_capd"
  let ?s2 = "snd (status_begin ''s1'' ?s1)"
  let ?s3 = "poll_run 0 [] 6 (proc_exit 0 ?s2)"
  let ?s4 = "demo_start ''s1'' ''eth0'' ?s3"
  let ?s5 = "snd (poll_end 0 True ?s4)"
  have 1: "capd_reachable ?s1" by (intro demo_start_step capd_reachable.Init)
  have 2: "capd_reachable ?s2"
    by (rule capd_reachable.Internal [OF 1 StatusBegin]) (rule prod.collapse [symmetric])
  have p2: "0 < length (procs ?s2)" by code_simp
  have 3: "capd_reachable (proc_exit 0 ?s2)" by (rule capd_reachable.Internal [OF 2 ProcExit [OF p2]])
  have p3: "0 < length (tasks (proc_exit 0 ?s2))" by code_simp
  have 4: "capd_reachable ?s4" by (intro demo_start_step capd_reachable.Internal [OF 3 PollRun [OF p3]])
  have p4: "0 < length (tasks ?s4)" by code_simp
  have "capd_reachable ?s5"
    by (rule capd_reachable.Internal [OF 4 PollEnd [OF p4]]) (rule prod.collapse [symmetric])
  then show ?thesis unfolding stale_poll_def Let_def by (rule demo_start_step)
qed

lemma demo_start_fresh: "capd_reachable_fresh (demo_start ''s1'' ''eth0'' new_capd)"
  unfolding demo_start_def
  by (rule FStart [OF FInit prod.collapse [symmetric]]) (simp add: new_capd_def)

section \<open>Properties\<close>

text \<open>
  C1. In every state the daemon can reach, whatever the interleaving of requests, executor
  calls and exits, the running sessions of the table hold pairwise compatible interfaces; a
  session on \<open>any\<close> is then the only running one.
\<close>

theorem capd_table_exclusive:
  assumes "capd_reachable st"
  shows "exclusive (table_captures st)
    \<and> ((''any'', a) \<in> table_captures st \<longrightarrow> (j, b) \<in> table_captures st \<longrightarrow> b = a)"
  using reachable_invariant [OF assms] capd_registry.any_is_alone by blast

theorem capd_table_exclusive_witness:
  "let st = demo_start ''s1'' ''any'' new_capd in exclusive (table_captures st)
    \<and> ((''any'', ''s1'') \<in> table_captures st \<longrightarrow> (''eth0'', ''s2'') \<in> table_captures st \<longrightarrow> ''s2'' = ''s1'')"
  unfolding Let_def by (rule capd_table_exclusive) (intro demo_start_step capd_reachable.Init)

text \<open>
  When no session identifier is ever used twice, as with the web application's uuids,
  every dumpcap that lives is a registered one, and the interfaces of all living dumpcaps
  are pairwise compatible.
\<close>

theorem capd_live_exclusive:
  assumes "capd_reachable_fresh st"
  shows "exclusive (live_captures st)
    \<and> (\<forall>r < length (procs st). proc_running (procs st ! r) \<longrightarrow> (proc_session (procs st ! r), r) \<in> set (sessions st))"
proof -
  have inv: "table_ok st" "exclusive (table_captures st)" and fresh: "fresh_ok st"
    using reachable_invariant [OF fresh_reachable [OF assms]] fresh_invariant [OF assms] by blast+
  have "\<not> clash i j" if ij: "(i, a) \<in> live_captures st" "(j, b) \<in> live_captures st" "a \<noteq> b" for i a j b
  proof -
    have "(i, proc_session (procs st ! a)) \<in> table_captures st" "(j, proc_session (procs st ! b)) \<in> table_captures st"
      using ij fresh by (auto simp: live_captures_def table_captures_def fresh_ok_def)
    moreover have "proc_session (procs st ! a) \<noteq> proc_session (procs st ! b)"
      using ij fresh by (auto simp: live_captures_def fresh_ok_def distinct_conv_nth)
    ultimately show ?thesis using inv(2) unfolding exclusive_def by blast
  qed
  then show ?thesis using fresh by (auto simp: exclusive_def fresh_ok_def)
qed

theorem capd_live_exclusive_witness:
  "exclusive (live_captures (demo_start ''s1'' ''eth0'' new_capd))"
  using capd_live_exclusive [OF demo_start_fresh] by blast

text \<open>
  Without that assumption the exclusion is lost: a status request that comes back late
  removes the session that was started again under its identifier, its dumpcap lives on
  unregistered, and a second one is started on the same interface.
\<close>

theorem reused_session_two_captures:
  "capd_reachable stale_poll \<and> {(''eth0'', 1), (''eth0'', 2)} \<subseteq> live_captures stale_poll
   \<and> \<not> exclusive (live_captures stale_poll)"
proof -
  have "length (procs stale_poll) = 3" by code_simp
  moreover have "proc_running (procs stale_poll ! 1) \<and> proc_running (procs stale_poll ! 2)
     \<and> proc_iface (procs stale_poll ! 1) = ''eth0'' \<and> proc_iface (procs stale_poll ! 2) = ''eth0''" by code_simp
  ultimately have "{(''eth0'', 1), (''eth0'', 2)} \<subseteq> live_captures stale_poll" by (force simp: live_captures_def)
  moreover from this have "\<not> exclusive (live_captures stale_poll)"
    unfolding exclusive_def clash_def by (metis insert_subset n_not_Suc_n numeral_2_eq_2 One_nat_def)
  ultimately show ?thesis using stale_poll_reachable by blast
qed

text \<open>
  A start that is answered with success has a well-formed session identifier that was not
  running, a filter that libpcap accepts and an interface the host has (or \<open>any\<close>), conflicts
  with no running session, and registers a running dumpcap for exactly that identifier and
  interface; a start answered with an error changes nothing.
\<close>

theorem start_session_sound:
  assumes "capd_start_session rootdir host params st = (rep, st')" "table_ok st"
  shows "case rep of
      Started sid dir \<Rightarrow> session_id_ok sid \<and> dir = rootdir @ ''/'' @ sid \<and> \<not> session_runs st sid
        \<and> (\<exists>p. registered st' sid = Some p \<and> proc_running p \<and> proc_session p = sid
             \<and> (proc_iface p = ''any'' \<or> proc_iface p \<in> fst ` set (ni_addrs (sh_netinfo host)))
             \<and> fst (bpf_validate (sh_libpcap host) (sc_bpf (sup_cfg (cp_sup p)))
                  (if proc_iface p = ''any'' then DLT_LINUX_SLL2 else DLT_EN10MB))
             \<and> (\<forall>(j, b) \<in> table_captures st. b \<noteq> sid \<longrightarrow> \<not> clash (proc_iface p) j)
             \<and> table_captures st' = insert (proc_iface p, sid) (table_captures st))
    | _ \<Rightarrow> st' = st"
  using start_session_cases [OF assms(1)]
proof (elim disjE exE conjE)
  fix cfg assume cfg: "start_config (sh_float_repr host) rootdir params = Inr cfg" "preflight host cfg = None"
    and reg: "register_session host cfg st = Inr st'" and rep: "rep = Started (sc_session cfg) (sc_out_dir cfg)"
  obtain s where s: "\<not> session_runs st (sc_session cfg)" "conflict st (sc_session cfg) (sc_interface cfg) = None"
    "spawn host cfg = Inr s" "st' = st\<lparr>procs := procs st @ [\<lparr>cp_sup = s, cp_alive = True\<rparr>],
       sessions := dict_set (sc_session cfg) (length (procs st)) (sessions st)\<rparr>"
    using register_Inr [OF reg] by metis
  let ?p = "\<lparr>cp_sup = s, cp_alive = True\<rparr>"
  note sp = spawn_Inr [OF s(3)]
  have p: "registered st' (sc_session cfg) = Some ?p" "proc_running ?p" "proc_session ?p = sc_session cfg"
    "proc_iface ?p = sc_interface cfg" "sup_cfg (cp_sup ?p) = cfg"
    using sp by (simp_all add: registered_def s(4) proc_running_def proc_session_def proc_iface_def)
  have dir: "sc_out_dir cfg = rootdir @ ''/'' @ sc_session cfg"
    using cfg(1) by (auto simp: start_config_def Let_def split: option.splits if_splits)
  have host: "sc_interface cfg = ''any'' \<or> sc_interface cfg \<in> fst ` set (ni_addrs (sh_netinfo host))"
    "fst (bpf_validate (sh_libpcap host) (sc_bpf cfg) (if sc_interface cfg = ''any'' then DLT_LINUX_SLL2 else DLT_EN10MB))"
    using cfg(2) unfolding preflight_def Let_def find_interface_iff by (auto split: if_splits)
  have clear: "\<forall>(j, b) \<in> table_captures st. b \<noteq> sc_session cfg \<longrightarrow> \<not> clash (sc_interface cfg) j"
    using conflict_None [OF s(2)] by blast
  show ?thesis
    unfolding rep capd_reply.case
    by (intro conjI exI [of _ ?p]) (simp_all add: sp dir s(1) p host clear register_captures [OF assms(2) reg])
qed auto

lemma demo_start_reply:
  "fst (capd_start_session ''/c'' demo_host (demo_params ''s1'' ''eth0'') new_capd) = Started ''s1'' ''/c/s1''"
  by code_simp

theorem start_session_sound_witness:
  "\<exists>st'. capd_start_session ''/c'' demo_host (demo_params ''s1'' ''eth0'') new_capd = (Started ''s1'' ''/c/s1'', st')
     \<and> session_id_ok ''s1'' \<and> table_captures st' = {(''eth0'', ''s1'')}"
proof -
  obtain rep st' where r: "capd_start_session ''/c'' demo_host (demo_params ''s1'' ''eth0'') new_capd = (rep, st')" by force
  have rep: "rep = Started ''s1'' ''/c/s1''"
    using demo_start_reply r by simp
  have "registered st' ''s1'' = registered (demo_start ''s1'' ''eth0'' new_capd) ''s1''"
    by (simp add: demo_start_def r)
  moreover have "map_option proc_iface (registered (demo_start ''s1'' ''eth0'' new_capd) ''s1'') = Some ''eth0''" by code_simp
  ultimately have "map_option proc_iface (registered st' ''s1'') = Some ''eth0''" by simp
  moreover have "session_id_ok ''s1''" and "\<exists>p. registered st' ''s1'' = Some p
      \<and> table_captures st' = insert (proc_iface p, ''s1'') (table_captures new_capd)"
    using start_session_sound [OF r new_capd_ok(1)] unfolding rep capd_reply.case by blast+
  ultimately show ?thesis by (auto simp only: r rep new_capd_ok(2) option.map option.inject)
qed

fun admit_all :: "server_config \<Rightarrow> uid_cache \<Rightarrow> (uid_file \<times> int option) list \<Rightarrow> bool list" where
  "admit_all cfg cache [] = []"
| "admit_all cfg cache ((uf, peer) # cs) =
     (let (ok, cache') = client_admitted cfg uf cache peer in ok # admit_all cfg cache' cs)"

definition cache_current :: "uid_file set \<Rightarrow> uid_cache \<Rightarrow> bool" where
  "cache_current files cache \<longleftrightarrow> (\<forall>t uids. cache = Some (t, uids) \<longrightarrow>
     (\<forall>f \<in> files. uid_file_mtime f = Some t \<longrightarrow> file_uids f = uids))"

lemma effective_uids:
  assumes "cache_current files cache" "uf \<in> files"
    and "\<forall>f \<in> files. \<forall>g \<in> files. uid_file_mtime f = uid_file_mtime g \<longrightarrow> file_uids f = file_uids g"
  shows "fst (effective_allowed_uids cfg uf cache) = sv_allowed_uids cfg \<union> (if sv_uid_file cfg then file_uids uf else {})
     \<and> cache_current files (snd (effective_allowed_uids cfg uf cache))"
proof (cases "uid_file_mtime uf")
  case None
  then have "file_uids uf = {}" by (cases uf) simp_all
  with None assms(1) show ?thesis by (simp add: effective_allowed_uids_def)
next
  case (Some t)
  have new: "cache_current files (Some (t, file_uids uf))"
    unfolding cache_current_def using assms(2,3) Some by (metis Pair_inject option.inject)
  show ?thesis
  proof (cases "\<exists>uids. cache = Some (t, uids)")
    case True
    then obtain uids where c: "cache = Some (t, uids)" by blast
    with assms(1,2) Some have "file_uids uf = uids" unfolding cache_current_def by blast
    with c Some assms(1) show ?thesis by (simp add: effective_allowed_uids_def)
  next
    case False
    with new Some assms(1) show ?thesis
      by (simp add: effective_allowed_uids_def split: option.split prod.split)
  qed
qed

lemma admit_all_current:
  assumes "\<forall>f \<in> files. \<forall>g \<in> files. uid_file_mtime f = uid_file_mtime g \<longrightarrow> file_uids f = file_uids g"
  shows "cache_current files cache \<Longrightarrow> fst ` set cs \<subseteq> files \<Longrightarrow>
    admit_all cfg cache cs = map (\<lambda>(uf, peer). \<exists>u. peer = Some u \<and>
       u \<in> sv_allowed_uids cfg \<union> (if sv_uid_file cfg then file_uids uf else {})) cs"
proof (induction cs arbitrary: cache)
  case (Cons c cs)
  obtain uf peer where c: "c = (uf, peer)" by force
  obtain allowed cache' where e: "effective_allowed_uids cfg uf cache = (allowed, cache')" by force
  have "allowed = sv_allowed_uids cfg \<union> (if sv_uid_file cfg then file_uids uf else {})" "cache_current files cache'"
    using effective_uids [OF Cons.prems(1) _ assms, of uf cfg] Cons.prems(2) c e by auto
  with Cons.IH [of cache'] Cons.prems(2) c e show ?case
    by (auto simp: client_admitted_def split: option.split)
qed simp

text \<open>
  Along any sequence of connections, where a file whose time did not change did not change
  either, the uids admitted are the configured ones and those the extra file lists now: a
  removed or unreadable file grants nothing, and a peer without a uid is never admitted.
\<close>

theorem admission_follows_file:
  assumes "\<forall>f \<in> fst ` set cs. \<forall>g \<in> fst ` set cs. uid_file_mtime f = uid_file_mtime g \<longrightarrow> file_uids f = file_uids g"
  shows "admit_all cfg None cs = map (\<lambda>(uf, peer). \<exists>u. peer = Some u \<and>
     u \<in> sv_allowed_uids cfg \<union> (if sv_uid_file cfg then file_uids uf else {})) cs"
  using admit_all_current [OF assms, of None cs cfg] by (simp add: cache_current_def)

theorem admission_follows_file_witness:
  "admit_all \<lparr>sv_capture_root = ''/c'', sv_allowed_uids = {0}, sv_uid_file = True\<rparr> None
     [(UidFile 1 ''42'', Some 42), (NoFile, Some 42)]
   = map (\<lambda>(uf, peer). \<exists>u. peer = Some u \<and> u \<in> {0} \<union> file_uids uf) [(UidFile 1 ''42'', Some 42), (NoFile, Some 42)]"
  using admission_follows_file [of "[(UidFile 1 ''42'', Some 42), (NoFile, Some 42)]"
    "\<lparr>sv_capture_root = ''/c'', sv_allowed_uids = {0}, sv_uid_file = True\<rparr>"] by simp

text \<open>
  A stop that is served without interruption removes its session from the table, leaves
  every other running session running, and no dumpcap of the stopped session lives on.
\<close>

theorem stop_now_stops:
  assumes "capd_reachable st"
  shows "registered (stop_now sid st) sid = None
    \<and> table_captures (stop_now sid st) = {c \<in> table_captures st. snd c \<noteq> sid}
    \<and> (\<forall>r. dict_get (sessions st) sid = Some r \<longrightarrow> \<not> proc_running (procs (stop_now sid st) ! r))"
proof -
  have ok: "table_ok st" using reachable_invariant [OF assms] by blast
  have "\<not> proc_running (procs (stop_now sid st) ! r)" if r: "dict_get (sessions st) sid = Some r" for r
  proof -
    have "r < length (procs st)" using ok map_of_SomeD [OF r] by (fastforce simp: table_ok_def ref_ok_def)
    moreover obtain stats s where run: "sup_stop True [] 0 (cp_sup (procs st ! r)) = Some (stats, s)"
      using sup_stop_reaped by blast
    ultimately show ?thesis
      using r by (simp add: stop_now_def stop_begin_def begin_task_def stop_run_def stop_end_def proc_running_def)
  qed
  then show ?thesis
    using stop_now_captures [OF ok] by (simp add: registered_def stop_now_sessions [OF ok])
qed

theorem stop_now_stops_witness:
  "table_captures (stop_now ''s1'' (demo_start ''s1'' ''eth0'' new_capd))
     = {c \<in> table_captures (demo_start ''s1'' ''eth0'' new_capd). snd c \<noteq> ''s1''}"
  using stop_now_stops [OF demo_start_step [OF capd_reachable.Init]] by blast

text \<open>
  A link type that is not a number closes the connection instead of being answered, while
  the same mistake in a start is answered with an error.
\<close>

theorem bad_link_type_crashes:
  "dispatch fr (PDict [(''method'', PStr ''validate_bpf''), (''params'', PDict [(''link_type'', PStr ''x'')])]) = Crash
   \<and> fst (capd_start_session rootdir host [(''ring_files'', PStr ''x'')] st)
      = CapdFailure ''ring_filesize_kb, ring_files, and max_duration_s must be integers''"
proof -
  have "py_int_str ''x'' = None" by code_simp
  then show ?thesis
    by (simp add: dispatch_def py_or_def obj_get_def obj_get_or_def capd_start_session_def start_config_def param_int_def
        split: option.splits)
qed

end
