(* ===== verification/Bytes.thy ===== *)
theory Bytes
  imports PyVal "HOL-Library.Word"
begin

text \<open>
  Byte strings and the fixed-width unsigned fields of Python's \<open>struct\<close>: decoding in either
  byte order, encoding, and that each undoes the other within the width.
\<close>

type_synonym bytes = "8 word list"

datatype endian = LittleE | BigE

definition be_nat :: "bytes \<Rightarrow> nat" where
  "be_nat bs = foldl (\<lambda>n b. n * 256 + unat b) 0 bs"

definition unpack_u :: "endian \<Rightarrow> bytes \<Rightarrow> nat" where
  "unpack_u e bs = be_nat (case e of BigE \<Rightarrow> bs | LittleE \<Rightarrow> rev bs)"

fun be_bytes :: "nat \<Rightarrow> nat \<Rightarrow> bytes" where
  "be_bytes 0 n = []"
| "be_bytes (Suc k) n = be_bytes k (n div 256) @ [word_of_nat (n mod 256)]"

definition pack_u :: "endian \<Rightarrow> nat \<Rightarrow> nat \<Rightarrow> bytes" where
  "pack_u e k n = (case e of BigE \<Rightarrow> be_bytes k n | LittleE \<Rightarrow> rev (be_bytes k n))"

text \<open>\<open>struct.pack(">I", n)\<close>; \<open>None\<close> is the \<open>struct.error\<close> of a value out of range.\<close>

definition pack_I :: "nat \<Rightarrow> bytes option" where
  "pack_I n = (if n < 2 ^ 32 then Some (pack_u BigE 4 n) else None)"

lemma length_be_bytes [simp]: "length (be_bytes k n) = k"
  by (induction k arbitrary: n) simp_all

lemma length_pack_u [simp]: "length (pack_u e k n) = k"
  by (simp add: pack_u_def split: endian.split)

lemma be_nat_snoc: "be_nat (bs @ [b]) = be_nat bs * 256 + unat b"
  by (simp add: be_nat_def)

lemma unat_byte: "unat (word_of_nat (n mod 256) :: 8 word) = n mod 256"
  by (simp add: unat_of_nat)

lemma be_nat_be_bytes: "be_nat (be_bytes k n) = n mod 256 ^ k"
proof (induction k arbitrary: n)
  case 0
  then show ?case by (simp add: be_nat_def)
next
  case (Suc k)
  have "n mod (256 * 256 ^ k) = 256 * (n div 256 mod 256 ^ k) + n mod 256"
    by (rule mod_mult2_eq)
  with Suc show ?case by (simp add: be_nat_snoc unat_of_nat del: of_nat_mod)
qed

lemma unpack_pack: "n < 256 ^ k \<Longrightarrow> unpack_u e (pack_u e k n) = n"
  by (simp add: unpack_u_def pack_u_def be_nat_be_bytes split: endian.split)

lemma be_nat_bound: "be_nat bs < 256 ^ length bs"
proof (induction bs rule: rev_induct)
  case (snoc b bs)
  have "unat b < 2 ^ LENGTH(8)" by (rule unsigned_less)
  then have b: "unat b < 256" by simp
  have "be_nat bs * 256 + 256 \<le> 256 ^ length bs * 256"
    using snoc mult_le_mono1 [of "Suc (be_nat bs)" "256 ^ length bs" 256] by simp
  with b have "be_nat bs * 256 + unat b < 256 ^ length bs * 256" by linarith
  then show ?case by (simp add: be_nat_snoc mult.commute)
qed (simp add: be_nat_def)

lemma unpack_bound: "unpack_u e bs < 256 ^ length bs"
  using be_nat_bound [of bs] be_nat_bound [of "rev bs"] by (simp add: unpack_u_def split: endian.split)

end
