(* ===== verification/Wire.thy ===== *)
theory Wire
  imports Bytes
begin

text \<open>
  The length-prefixed JSON wire of the suite: \<open>_recv_exact\<close>, \<open>_recv_json\<close> and \<open>_send_json\<close> as the
  daemon (\<open>capd/server.py\<close>), its two clients (\<open>capture/client.py\<close>, \<open>agent/capd_client.py\<close>) and the
  fleet gateway's client (\<open>fleet/gateway_client.py\<close>) have them, and what the clients make of
  the answers. \<open>json.loads\<close> and \<open>json.dumps\<close> are arguments.
\<close>

section \<open>Sockets\<close>

text \<open>
  What will arrive on a connection: the pieces in which the bytes come, and what happens
  after them (an orderly end, or an exception such as a timeout).
\<close>

datatype tail = AtEof | Fails py_exc

record sock =
  segs :: "bytes list"
  sock_tail :: tail

datatype 'a io = Got 'a | NoData | Raised py_exc

definition recv :: "nat \<Rightarrow> sock \<Rightarrow> bytes io \<times> sock" where
  "recv n s = (case segs s of
       [] \<Rightarrow> (case sock_tail s of AtEof \<Rightarrow> (Got [], s) | Fails e \<Rightarrow> (Raised e, s))
     | b # bs \<Rightarrow> (Got (take n b), s\<lparr>segs := if n < length b then drop n b # bs else bs\<rparr>))"

definition content :: "sock \<Rightarrow> bytes" where
  "content s = concat (segs s)"

function recv_exact :: "nat \<Rightarrow> bytes \<Rightarrow> sock \<Rightarrow> bytes io \<times> sock" where
  "recv_exact n buf s =
     (if length buf < n then
        (case recv (n - length buf) s of
           (Got chunk, s') \<Rightarrow> if chunk = [] then (NoData, s') else recv_exact n (buf @ chunk) s'
         | (NoData, s') \<Rightarrow> (NoData, s')
         | (Raised e, s') \<Rightarrow> (Raised e, s'))
      else (Got buf, s))"
  by pat_completeness auto
termination
  by (relation "measure (\<lambda>(n, buf, s). n - length buf)") (auto simp: length_greater_0_conv [symmetric] simp del: length_greater_0_conv)

declare recv_exact.simps [simp del]

section \<open>Frames\<close>

definition max_message :: nat where
  "max_message = 2 ^ 20"

text \<open>The daemon's sender refuses large bodies; the clients' does not.\<close>

definition frame_bytes :: "bytes \<Rightarrow> bytes option" where
  "frame_bytes body = map_option (\<lambda>h. h @ body) (pack_I (length body))"

definition server_frame :: "(pyval \<Rightarrow> bytes) \<Rightarrow> pyval \<Rightarrow> py_exc + bytes" where
  "server_frame dumps v = (if length (dumps v) > max_message then Inl ValueError
     else case frame_bytes (dumps v) of None \<Rightarrow> Inl StructError | Some bs \<Rightarrow> Inr bs)"

definition client_frame :: "(pyval \<Rightarrow> bytes) \<Rightarrow> pyval \<Rightarrow> py_exc + bytes" where
  "client_frame dumps v = (case frame_bytes (dumps v) of None \<Rightarrow> Inl StructError | Some bs \<Rightarrow> Inr bs)"

text \<open>
  The receivers. \<open>NoData\<close> is Python's \<open>None\<close>. On a length out of range the client raises its
  own exception and the daemon drops the connection; a body that is no JSON raises in the
  client and is an empty object in the daemon.
\<close>

datatype capd_exc = CapdError pyval | CapdUnavailable string | Other py_exc

definition length_ok :: "nat \<Rightarrow> bool" where
  "length_ok n \<longleftrightarrow> 0 < n \<and> n \<le> max_message"

definition client_recv_json :: "(bytes \<Rightarrow> pyval option) \<Rightarrow> sock \<Rightarrow> (capd_exc + pyval option) \<times> sock" where
  "client_recv_json loads s =
     (case recv_exact 4 [] s of
        (Raised e, s') \<Rightarrow> (Inl (Other e), s')
      | (NoData, s') \<Rightarrow> (Inr None, s')
      | (Got header, s') \<Rightarrow>
          (let n = unpack_u BigE header in
           if \<not> length_ok n
           then (Inl (CapdError (PStr (''capd sent oversized frame: '' @ show_nat n @ '' bytes''))), s')
           else case recv_exact n [] s' of
               (Raised e, s'') \<Rightarrow> (Inl (Other e), s'')
             | (NoData, s'') \<Rightarrow> (Inr None, s'')
             | (Got body, s'') \<Rightarrow>
                 (case loads body of None \<Rightarrow> (Inl (Other ValueError), s'') | Some v \<Rightarrow> (Inr (Some v), s''))))"

definition server_recv_json :: "(bytes \<Rightarrow> pyval option) \<Rightarrow> sock \<Rightarrow> pyval io \<times> sock" where
  "server_recv_json loads s =
     (case recv_exact 4 [] s of
        (Raised e, s') \<Rightarrow> (Raised e, s')
      | (NoData, s') \<Rightarrow> (NoData, s')
      | (Got header, s') \<Rightarrow>
          (let n = unpack_u BigE header in
           if \<not> length_ok n then (NoData, s')
           else case recv_exact n [] s' of
               (Raised e, s'') \<Rightarrow> (Raised e, s'')
             | (NoData, s'') \<Rightarrow> (NoData, s'')
             | (Got body, s'') \<Rightarrow> (Got (case loads body of None \<Rightarrow> PDict [] | Some v \<Rightarrow> v), s'')))"

section \<open>Calls\<close>

text \<open>
  One connection: whether it can be made (or the text of the error), whether the sending
  raises, and what comes back.
\<close>

record conn =
  cn_refused :: "string option"
  cn_send_error :: "py_exc option"
  cn_sock :: sock

definition connect_error :: "string \<Rightarrow> string \<Rightarrow> capd_exc" where
  "connect_error path e = CapdUnavailable (''capd unreachable at '' @ path @ '': '' @ e)"

definition client_call ::
    "(pyval \<Rightarrow> bytes) \<Rightarrow> (bytes \<Rightarrow> pyval option) \<Rightarrow> string \<Rightarrow> conn \<Rightarrow> string \<Rightarrow> (string, pyval) dict \<Rightarrow> capd_exc + pyval" where
  "client_call dumps loads path cn meth params =
     (case cn_refused cn of
        Some e \<Rightarrow> Inl (connect_error path e)
      | None \<Rightarrow>
          (case client_frame dumps (PDict [(''method'', PStr meth), (''params'', PDict params)]) of
             Inl e \<Rightarrow> Inl (Other e)
           | Inr _ \<Rightarrow>
               (case cn_send_error cn of
                  Some e \<Rightarrow> Inl (Other e)
                | None \<Rightarrow>
                    (case fst (client_recv_json loads (cn_sock cn)) of
                       Inl e \<Rightarrow> Inl e
                     | Inr None \<Rightarrow> Inl (CapdError (PStr (''capd closed connection on method='' @ meth)))
                     | Inr (Some v) \<Rightarrow> Inr v))))"

text \<open>The check of \<open>resp["ok"]\<close> that the calls share.\<close>

definition checked_reply :: "string \<Rightarrow> pyval \<Rightarrow> capd_exc + (string, pyval) dict" where
  "checked_reply dflt resp =
     (case resp of
        PDict d \<Rightarrow> if truthy (obj_get d ''ok'') then Inr d else Inl (CapdError (py_or (obj_get d ''error'') (PStr dflt)))
      | _ \<Rightarrow> Inl (Other AttributeError))"

definition bind_reply :: "capd_exc + 'a \<Rightarrow> ('a \<Rightarrow> capd_exc + 'b) \<Rightarrow> capd_exc + 'b" where
  "bind_reply r f = (case r of Inl e \<Rightarrow> Inl e | Inr v \<Rightarrow> f v)"

definition client_start ::
    "(pyval \<Rightarrow> bytes) \<Rightarrow> (bytes \<Rightarrow> pyval option) \<Rightarrow> string \<Rightarrow> conn \<Rightarrow> string \<Rightarrow> string \<Rightarrow> string \<Rightarrow> int \<Rightarrow> int \<Rightarrow> int
      \<Rightarrow> capd_exc + (string, pyval) dict" where
  "client_start dumps loads path cn sid iface bpf kb n dur =
     bind_reply (client_call dumps loads path cn ''start''
       [(''session_id'', PStr sid), (''interface'', PStr iface), (''bpf'', PStr bpf), (''ring_filesize_kb'', PInt kb),
        (''ring_files'', PInt n), (''max_duration_s'', PInt dur)]) (checked_reply ''capd start failed'')"

definition client_stop ::
    "(pyval \<Rightarrow> bytes) \<Rightarrow> (bytes \<Rightarrow> pyval option) \<Rightarrow> string \<Rightarrow> conn \<Rightarrow> string \<Rightarrow> capd_exc + (string, pyval) dict" where
  "client_stop dumps loads path cn sid =
     bind_reply (client_call dumps loads path cn ''stop'' [(''session_id'', PStr sid)]) (checked_reply ''capd stop failed'')"

definition client_session_status ::
    "(pyval \<Rightarrow> bytes) \<Rightarrow> (bytes \<Rightarrow> pyval option) \<Rightarrow> string \<Rightarrow> conn \<Rightarrow> string \<Rightarrow> capd_exc + (string, pyval) dict" where
  "client_session_status dumps loads path cn sid =
     bind_reply (client_call dumps loads path cn ''session_status'' [(''session_id'', PStr sid)])
       (checked_reply ''capd session_status failed'')"

definition client_validate_bpf ::
    "(pyval \<Rightarrow> bytes) \<Rightarrow> (bytes \<Rightarrow> pyval option) \<Rightarrow> string \<Rightarrow> conn \<Rightarrow> string \<Rightarrow> int \<Rightarrow> capd_exc + bool \<times> pyval" where
  "client_validate_bpf dumps loads path cn filter_str link_type =
     bind_reply (client_call dumps loads path cn ''validate_bpf''
         [(''filter'', PStr filter_str), (''link_type'', PInt link_type)])
       (\<lambda>resp. case resp of PDict d \<Rightarrow> Inr (truthy (obj_get d ''ok''), obj_get d ''error'') | _ \<Rightarrow> Inl (Other AttributeError))"

definition is_reachable ::
    "(pyval \<Rightarrow> bytes) \<Rightarrow> (bytes \<Rightarrow> pyval option) \<Rightarrow> string \<Rightarrow> conn \<Rightarrow> py_exc + bool" where
  "is_reachable dumps loads path cn =
     (case client_call dumps loads path cn ''version'' [] of
        Inr _ \<Rightarrow> Inr True
      | Inl (Other e) \<Rightarrow> Inl e
      | Inl _ \<Rightarrow> Inr False)"

text \<open>\<open>Interface.from_dict\<close> and \<open>list_interfaces\<close>.\<close>

record client_iface =
  ci_name :: pyval
  ci_mac :: pyval
  ci_ips :: "pyval list"
  ci_is_up :: bool
  ci_is_loopback :: bool
  ci_is_virtual :: bool
  ci_mtu :: pyval
  ci_speed :: pyval

definition iface_from_dict :: "pyval \<Rightarrow> py_exc + client_iface" where
  "iface_from_dict v =
     (case v of
        PDict d \<Rightarrow>
          (case dict_get d ''name'' of
             None \<Rightarrow> Inl KeyError
           | Some name \<Rightarrow>
               (case py_iter (py_or (obj_get d ''ips'') (PList [])) of
                  None \<Rightarrow> Inl TypeError
                | Some ips \<Rightarrow> Inr \<lparr>ci_name = name, ci_mac = obj_get d ''mac'', ci_ips = ips,
                    ci_is_up = truthy (obj_get d ''is_up''), ci_is_loopback = truthy (obj_get d ''is_loopback''),
                    ci_is_virtual = truthy (obj_get d ''is_virtual''), ci_mtu = obj_get d ''mtu'',
                    ci_speed = obj_get d ''speed_mbps''\<rparr>))
      | _ \<Rightarrow> Inl TypeError)"

fun map_exc :: "('a \<Rightarrow> py_exc + 'b) \<Rightarrow> 'a list \<Rightarrow> py_exc + 'b list" where
  "map_exc f [] = Inr []"
| "map_exc f (x # xs) = (case f x of Inl e \<Rightarrow> Inl e
     | Inr y \<Rightarrow> (case map_exc f xs of Inl e \<Rightarrow> Inl e | Inr ys \<Rightarrow> Inr (y # ys)))"

definition ifaces_of_reply :: "(string, pyval) dict \<Rightarrow> capd_exc + client_iface list" where
  "ifaces_of_reply d =
     (case py_iter (obj_get_or d ''interfaces'' (PList [])) of
        None \<Rightarrow> Inl (Other TypeError)
      | Some vs \<Rightarrow> (case map_exc iface_from_dict vs of Inl e \<Rightarrow> Inl (Other e) | Inr xs \<Rightarrow> Inr xs))"

definition client_list_interfaces ::
    "(pyval \<Rightarrow> bytes) \<Rightarrow> (bytes \<Rightarrow> pyval option) \<Rightarrow> string \<Rightarrow> conn \<Rightarrow> bool \<Rightarrow> capd_exc + client_iface list" where
  "client_list_interfaces dumps loads path cn include_virtual =
     bind_reply (bind_reply (client_call dumps loads path cn ''list_interfaces'' [(''include_virtual'', PBool include_virtual)])
       (checked_reply ''capd list_interfaces failed'')) ifaces_of_reply"

section \<open>The gateway's client\<close>

text \<open>
  \<open>GatewayAdminClient._push\<close>: \<open>extra\<close> is the token that a routed connection adds. A connection
  that hangs is reported as unavailable.
\<close>

fun hung_is_unavailable :: "string \<Rightarrow> capd_exc \<Rightarrow> capd_exc" where
  "hung_is_unavailable meth (Other OSError) = CapdUnavailable (''gateway connection hung during '' @ meth)"
| "hung_is_unavailable meth e = e"

definition push_request :: "string \<Rightarrow> string \<Rightarrow> (string, pyval) dict \<Rightarrow> rat \<Rightarrow> (string, pyval) dict \<Rightarrow> pyval" where
  "push_request agent meth params timeout extra =
     PDict [(''method'', PStr ''push_command''), (''id'', PInt 1),
       (''params'', PDict ([(''agent_uuid'', PStr agent), (''command_method'', PStr meth),
          (''command_params'', PDict params), (''timeout_s'', PFloat timeout)] @ extra))]"

definition gateway_exchange ::
    "(pyval \<Rightarrow> bytes) \<Rightarrow> (bytes \<Rightarrow> pyval option) \<Rightarrow> conn \<Rightarrow> string \<Rightarrow> pyval \<Rightarrow> capd_exc + (string, pyval) dict" where
  "gateway_exchange dumps loads cn meth request =
     (case client_frame dumps request of
        Inl e \<Rightarrow> Inl (Other e)
      | Inr _ \<Rightarrow>
          (case cn_send_error cn of
             Some e \<Rightarrow> Inl (Other e)
           | None \<Rightarrow>
               (case fst (client_recv_json loads (cn_sock cn)) of
                  Inl e \<Rightarrow> Inl e
                | Inr None \<Rightarrow> Inl (CapdError (PStr ''fleet gateway closed connection''))
                | Inr (Some v) \<Rightarrow> checked_reply (meth @ '' failed'') v)))"

definition gateway_push ::
    "(pyval \<Rightarrow> bytes) \<Rightarrow> (bytes \<Rightarrow> pyval option) \<Rightarrow> conn \<Rightarrow> string \<Rightarrow> string \<Rightarrow> (string, pyval) dict \<Rightarrow> rat
      \<Rightarrow> (string, pyval) dict \<Rightarrow> capd_exc + pyval" where
  "gateway_push dumps loads cn agent meth params timeout extra =
     (case cn_refused cn of
        Some e \<Rightarrow> Inl (CapdUnavailable e)
      | None \<Rightarrow>
          (case gateway_exchange dumps loads cn meth (push_request agent meth params timeout extra) of
             Inl e \<Rightarrow> Inl (hung_is_unavailable meth e)
           | Inr d \<Rightarrow> Inr (py_or (obj_get d ''result'') (PDict []))))"

text \<open>\<open>disconnect_agent\<close>: best effort, \<open>False\<close> when the peer hangs or refuses the request.\<close>

definition gateway_disconnect ::
    "(pyval \<Rightarrow> bytes) \<Rightarrow> (bytes \<Rightarrow> pyval option) \<Rightarrow> conn \<Rightarrow> pyval \<Rightarrow> capd_exc + bool" where
  "gateway_disconnect dumps loads cn request =
     (case cn_refused cn of
        Some e \<Rightarrow> Inl (CapdUnavailable e)
      | None \<Rightarrow>
          (case client_frame dumps request of
             Inl e \<Rightarrow> Inl (Other e)
           | Inr _ \<Rightarrow>
               (case cn_send_error cn of
                  Some e \<Rightarrow> if e = OSError then Inr False else Inl (Other e)
                | None \<Rightarrow>
                    (case fst (client_recv_json loads (cn_sock cn)) of
                       Inl e \<Rightarrow> if e = Other OSError then Inr False else Inl e
                     | Inr None \<Rightarrow> Inr False
                     | Inr (Some (PDict d)) \<Rightarrow>
                         if \<not> truthy (obj_get d ''ok'') then Inr False
                         else (case py_or (obj_get d ''result'') (PDict []) of
                             PDict r \<Rightarrow> Inr (truthy (obj_get r ''disconnected''))
                           | _ \<Rightarrow> Inl (Other AttributeError))
                     | Inr (Some _) \<Rightarrow> Inl (Other AttributeError)))))"

section \<open>Lemmas on receiving\<close>

definition sock_ok :: "sock \<Rightarrow> bool" where
  "sock_ok s \<longleftrightarrow> [] \<notin> set (segs s)"

lemma recv_exact_spec:
  "sock_ok s \<Longrightarrow> length buf \<le> n \<Longrightarrow>
   (if n - length buf \<le> length (content s)
    then \<exists>s'. recv_exact n buf s = (Got (buf @ take (n - length buf) (content s)), s') \<and> sock_ok s'
        \<and> content s' = drop (n - length buf) (content s) \<and> sock_tail s' = sock_tail s
    else fst (recv_exact n buf s) = (case sock_tail s of AtEof \<Rightarrow> NoData | Fails e \<Rightarrow> Raised e))"
proof (induction n buf s rule: recv_exact.induct)
  case (1 n buf s)
  show ?case
  proof (cases "length buf < n")
    case False
    with "1.prems" show ?thesis by (simp add: recv_exact.simps [of n buf s])
  next
    case True
    let ?k = "n - length buf"
    show ?thesis
    proof (cases "segs s")
      case Nil
      with True show ?thesis
        by (cases "sock_tail s") (simp_all add: recv_exact.simps [of n buf s] recv_def content_def)
    next
      case (Cons b bs)
      let ?s' = "s\<lparr>segs := if ?k < length b then drop ?k b # bs else bs\<rparr>"
      have b: "b \<noteq> []" "take ?k b \<noteq> []" using "1.prems"(1) Cons True by (auto simp: sock_ok_def)
      have r: "recv ?k s = (Got (take ?k b), ?s')" using Cons by (simp add: recv_def)
      have ok: "sock_ok ?s'" using "1.prems"(1) Cons by (auto simp: sock_ok_def)
      have le: "length (buf @ take ?k b) \<le> n" using True by simp
      have step: "recv_exact n buf s = recv_exact n (buf @ take ?k b) ?s'"
        using True r b by (simp add: recv_exact.simps [of n buf s])
      have c: "content s = b @ concat bs" by (simp add: content_def Cons)
      note IH = "1.IH" [OF True r [symmetric] _ _ ok le]
      show ?thesis
      proof (cases "?k < length b")
        case True
        then have "length (buf @ take ?k b) = n" using \<open>length buf < n\<close> by simp
        then have "recv_exact n (buf @ take ?k b) ?s' = (Got (buf @ take ?k b), ?s')"
          by (simp add: recv_exact.simps)
        then show ?thesis unfolding step c using True ok by (simp add: content_def)
      next
        case False
        then have "content ?s' = concat bs" "take ?k b = b" by (simp_all add: content_def)
        then show ?thesis using IH b False unfolding step c by (auto simp: split: if_splits)
      qed
    qed
  qed
qed

lemma recv_length: "recv n s = (Got c, s') \<Longrightarrow> length (content s') + length c = length (content s)"
  by (cases "segs s") (auto simp: recv_def content_def split: tail.splits if_splits)

lemma recv_exact_length:
  "recv_exact n buf s = (Got r, s') \<Longrightarrow> length (content s') + length r = length (content s) + length buf
     \<and> (length buf \<le> n \<longrightarrow> n \<le> length r)"
proof (induction n buf s rule: recv_exact.induct)
  case (1 n buf s)
  show ?case
  proof (cases "length buf < n")
    case False
    with "1.prems" show ?thesis by (simp add: recv_exact.simps [of n buf s])
  next
    case True
    obtain x s1 where r: "recv (n - length buf) s = (x, s1)" by force
    show ?thesis
    proof (cases x)
      case (Got c)
      with r True "1.prems" have c: "c \<noteq> []" "recv_exact n (buf @ c) s1 = (Got r, s')"
        by (auto simp: recv_exact.simps [of n buf s] split: if_splits)
      have "length c \<le> n - length buf"
        using r Got by (auto simp: recv_def split: list.splits tail.splits)
      with "1.IH" [OF True r [symmetric] Got c] recv_length [of "n - length buf" s c s1] r Got True
      show ?thesis by simp
    qed (use r True "1.prems" in \<open>simp_all add: recv_exact.simps [of n buf s]\<close>)
  qed
qed

lemma client_recv_shrinks:
  "client_recv_json loads s = (Inr (Some v), s') \<Longrightarrow> length (content s') < length (content s)"
  by (auto simp: client_recv_json_def Let_def dest!: recv_exact_length split: prod.splits io.splits if_splits option.splits)

text \<open>\<open>stream_stats\<close>: the frames it yields, and the exception it ends with, if any.\<close>

function stream_frames :: "(bytes \<Rightarrow> pyval option) \<Rightarrow> sock \<Rightarrow> pyval list \<times> capd_exc option" where
  "stream_frames loads s =
     (case client_recv_json loads s of
        (Inl e, _) \<Rightarrow> ([], Some e)
      | (Inr None, _) \<Rightarrow> ([], None)
      | (Inr (Some v), s') \<Rightarrow>
          (case v of
             PDict d \<Rightarrow>
               if \<not> truthy (obj_get_or d ''running'' (PBool True)) then ([v], None)
               else (let (vs, e) = stream_frames loads s' in (v # vs, e))
           | _ \<Rightarrow> ([v], Some (Other AttributeError))))"
  by pat_completeness auto
termination
  by (relation "measure (\<lambda>(loads, s). length (content s))") (auto dest!: sym [THEN client_recv_shrinks])

declare stream_frames.simps [simp del]

lemma recv_take:
  assumes "sock_ok s" "content s = a @ b" "n = length a"
  shows "\<exists>s'. recv_exact n [] s = (Got a, s') \<and> sock_ok s' \<and> content s' = b \<and> sock_tail s' = sock_tail s"
  using recv_exact_spec [OF assms(1), of "[]" n] assms(2,3) by simp

lemma pack_header: "length_ok n \<Longrightarrow> pack_I n = Some (pack_u BigE 4 n) \<and> unpack_u BigE (pack_u BigE 4 n) = n"
  by (simp add: pack_I_def length_ok_def max_message_def unpack_pack)

lemma client_recv_one:
  assumes "sock_ok s" "client_frame dumps v = Inr bs" "length_ok (length (dumps v))" "loads (dumps v) = Some v"
    and "content s = bs @ rest"
  shows "\<exists>s'. client_recv_json loads s = (Inr (Some v), s') \<and> sock_ok s' \<and> content s' = rest \<and> sock_tail s' = sock_tail s"
proof -
  note h = pack_header [OF assms(3)]
  have bs: "bs = pack_u BigE 4 (length (dumps v)) @ dumps v" using assms(2) h by (simp add: client_frame_def frame_bytes_def)
  obtain s1 where s1: "recv_exact 4 [] s = (Got (pack_u BigE 4 (length (dumps v))), s1)" "sock_ok s1"
    "content s1 = dumps v @ rest" "sock_tail s1 = sock_tail s"
    using recv_take [OF assms(1), of "pack_u BigE 4 (length (dumps v))" "dumps v @ rest" 4] assms(5) bs by auto
  obtain s2 where s2: "recv_exact (length (dumps v)) [] s1 = (Got (dumps v), s2)" "sock_ok s2" "content s2 = rest"
    "sock_tail s2 = sock_tail s1"
    using recv_take [OF s1(2,3) refl] by blast
  show ?thesis using s1 s2 h assms(3,4) by (simp add: client_recv_json_def)
qed

lemma server_recv_one:
  assumes "sock_ok s" "server_frame dumps v = Inr bs" "0 < length (dumps v)" "loads (dumps v) = Some v"
    and "content s = bs @ rest"
  shows "\<exists>s'. server_recv_json loads s = (Got v, s') \<and> sock_ok s' \<and> content s' = rest \<and> sock_tail s' = sock_tail s"
proof -
  have len: "length_ok (length (dumps v))" using assms(2,3) by (simp add: server_frame_def length_ok_def split: if_splits)
  note h = pack_header [OF len]
  have bs: "bs = pack_u BigE 4 (length (dumps v)) @ dumps v" using assms(2) h
    by (simp add: server_frame_def frame_bytes_def split: if_splits)
  obtain s1 where s1: "recv_exact 4 [] s = (Got (pack_u BigE 4 (length (dumps v))), s1)" "sock_ok s1"
    "content s1 = dumps v @ rest" "sock_tail s1 = sock_tail s"
    using recv_take [OF assms(1), of "pack_u BigE 4 (length (dumps v))" "dumps v @ rest" 4] assms(5) bs by auto
  obtain s2 where s2: "recv_exact (length (dumps v)) [] s1 = (Got (dumps v), s2)" "sock_ok s2" "content s2 = rest"
    "sock_tail s2 = sock_tail s1"
    using recv_take [OF s1(2,3) refl] by blast
  show ?thesis using s1 s2 h len assms(4) by (simp add: server_recv_json_def)
qed

lemma client_recv_eof:
  assumes "sock_ok s" "content s = []" "sock_tail s = AtEof"
  shows "fst (client_recv_json loads s) = Inr None"
  using recv_exact_spec [OF assms(1), of "[]" 4] assms(2,3)
  by (auto simp: client_recv_json_def split: prod.splits)

lemma client_recv_hang:
  assumes "sock_ok s" "content s = []" "sock_tail s = Fails e"
  shows "fst (client_recv_json loads s) = Inl (Other e)"
  using recv_exact_spec [OF assms(1), of "[]" 4] assms(2,3)
  by (auto simp: client_recv_json_def split: prod.splits)

text \<open>The daemon's reading loop on one connection: the messages it gets before it stops.\<close>

fun server_recv_many :: "(bytes \<Rightarrow> pyval option) \<Rightarrow> nat \<Rightarrow> sock \<Rightarrow> pyval list" where
  "server_recv_many loads 0 s = []"
| "server_recv_many loads (Suc n) s =
     (case server_recv_json loads s of (Got v, s') \<Rightarrow> v # server_recv_many loads n s' | _ \<Rightarrow> [])"

text \<open>The bytes of a sequence of messages, as the daemon sends them.\<close>

fun server_bytes :: "(pyval \<Rightarrow> bytes) \<Rightarrow> pyval list \<Rightarrow> py_exc + bytes" where
  "server_bytes dumps [] = Inr []"
| "server_bytes dumps (v # vs) = (case server_frame dumps v of Inl e \<Rightarrow> Inl e
     | Inr b \<Rightarrow> (case server_bytes dumps vs of Inl e \<Rightarrow> Inl e | Inr bs \<Rightarrow> Inr (b @ bs)))"

lemma server_frame_client: "server_frame dumps v = Inr bs \<Longrightarrow> client_frame dumps v = Inr bs \<and> length (dumps v) \<le> max_message"
  by (auto simp: server_frame_def client_frame_def split: if_splits)

text \<open>The frames up to and including the first that says the capture has ended.\<close>

definition goes_on :: "pyval \<Rightarrow> bool" where
  "goes_on v = (case v of PDict d \<Rightarrow> truthy (obj_get_or d ''running'' (PBool True)) | _ \<Rightarrow> False)"

fun upto_end :: "pyval list \<Rightarrow> pyval list" where
  "upto_end [] = []"
| "upto_end (v # vs) = (if goes_on v then v # upto_end vs else [v])"

lemma stream_frames_sent:
  "sock_ok s \<Longrightarrow> server_bytes dumps vs = Inr bs \<Longrightarrow> content s = bs \<Longrightarrow> sock_tail s = AtEof \<Longrightarrow>
   \<forall>v \<in> set vs. (\<exists>d. v = PDict d) \<and> loads (dumps v) = Some v \<and> dumps v \<noteq> [] \<Longrightarrow>
   stream_frames loads s = (upto_end vs, None)"
proof (induction vs arbitrary: s bs)
  case Nil
  then show ?case using client_recv_eof [of s loads]
    by (auto simp: stream_frames.simps split: prod.splits)
next
  case (Cons v vs)
  obtain b bs' where b: "server_frame dumps v = Inr b" "server_bytes dumps vs = Inr bs'" "bs = b @ bs'"
    using Cons.prems(2) by (auto split: sum.splits)
  obtain d where d: "v = PDict d" using Cons.prems(5) by auto
  have "length_ok (length (dumps v))" using server_frame_client [OF b(1)] Cons.prems(5) by (simp add: length_ok_def)
  then obtain s' where s': "client_recv_json loads s = (Inr (Some v), s')" "sock_ok s'" "content s' = bs'" "sock_tail s' = AtEof"
    using client_recv_one [of s dumps v b loads bs'] server_frame_client [OF b(1)] Cons.prems b(3) by auto
  have "stream_frames loads s' = (upto_end vs, None)"
    using Cons.prems(5) by (intro Cons.IH [OF s'(2) b(2) s'(3,4)]) simp
  with s'(1) d show ?case by (simp add: stream_frames.simps [of loads s] goes_on_def)
qed

lemma server_recv_many_sent:
  "sock_ok s \<Longrightarrow> server_bytes dumps vs = Inr bs \<Longrightarrow> content s = bs @ rest \<Longrightarrow>
   \<forall>v \<in> set vs. loads (dumps v) = Some v \<and> dumps v \<noteq> [] \<Longrightarrow>
   server_recv_many loads (length vs) s = vs"
proof (induction vs arbitrary: s bs)
  case (Cons v vs)
  obtain b bs' where b: "server_frame dumps v = Inr b" "server_bytes dumps vs = Inr bs'" "bs = b @ bs'"
    using Cons.prems(2) by (auto split: sum.splits)
  then obtain s' where s': "server_recv_json loads s = (Got v, s')" "sock_ok s'" "content s' = bs' @ rest"
    using server_recv_one [of s dumps v b loads "bs' @ rest"] Cons.prems by auto
  have "server_recv_many loads (length vs) s' = vs"
    using Cons.prems(4) by (intro Cons.IH [OF s'(2) b(2) s'(3)]) simp
  with s'(1) show ?case by simp
qed simp

section \<open>Properties\<close>

text \<open>
  C21. Whatever the pieces in which the bytes arrive, the daemon's reading loop returns exactly
  the messages that were sent, in order, and nothing of what follows them; the hypothesis on
  \<open>json\<close> is that reading undoes writing.
\<close>

theorem wire_messages_roundtrip:
  assumes "sock_ok s" "server_bytes dumps vs = Inr bs" "content s = bs @ rest"
    and "\<forall>v \<in> set vs. loads (dumps v) = Some v \<and> dumps v \<noteq> []"
  shows "server_recv_many loads (length vs) s = vs"
  using server_recv_many_sent [OF assms] .

text \<open>
  The client's statistics stream yields the frames the daemon sent, up to and including the
  first that says the capture has ended, and ends without an exception, whatever the pieces in
  which the bytes arrive and whatever comes later.
\<close>

theorem stream_yields_sent_frames:
  assumes "sock_ok s" "server_bytes dumps vs = Inr (content s)" "sock_tail s = AtEof"
    and "\<forall>v \<in> set vs. (\<exists>d. v = PDict d) \<and> loads (dumps v) = Some v \<and> dumps v \<noteq> []"
  shows "stream_frames loads s = (upto_end vs, None)"
  using stream_frames_sent [OF assms(1,2) refl assms(3,4)] .

text \<open>
  A length out of range is refused after the four bytes of the header alone: neither side
  ever asks the socket for a body of more than one megabyte.
\<close>

theorem oversized_frame_refused:
  assumes "sock_ok s" "content s = pack_u BigE 4 n @ rest" "n < 2 ^ 32" "n = 0 \<or> n > 2 ^ 20"
  shows "(\<exists>s'. server_recv_json loads s = (NoData, s') \<and> content s' = rest)
    \<and> (\<exists>s' v. client_recv_json loads s = (Inl (CapdError v), s') \<and> content s' = rest)"
proof -
  obtain s' where s': "recv_exact 4 [] s = (Got (pack_u BigE 4 n), s')" "content s' = rest"
    using recv_take [OF assms(1,2), of 4] by auto
  have "unpack_u BigE (pack_u BigE 4 n) = n" using assms(3) by (simp add: unpack_pack)
  moreover have "\<not> length_ok n" using assms(4) by (auto simp: length_ok_def max_message_def)
  ultimately show ?thesis using s' by (simp add: server_recv_json_def client_recv_json_def)
qed

text \<open>
  The gateway's client never lets a socket error escape: a connection that hangs is reported
  as unavailable. The local client lets the same error through as it is, so that its callers,
  which catch the client's own exceptions only, do not see it.
\<close>

theorem hung_connection:
  "gateway_push dumps loads cn agent meth params timeout extra \<noteq> Inl (Other OSError)
   \<and> (sock_ok (cn_sock cn) \<and> content (cn_sock cn) = [] \<and> sock_tail (cn_sock cn) = Fails OSError
      \<and> cn_refused cn = None \<and> cn_send_error cn = None
      \<and> length (dumps (PDict [(''method'', PStr meth), (''params'', PDict params)])) < 2 ^ 32
      \<longrightarrow> client_call dumps loads path cn meth params = Inl (Other OSError))"
proof (intro conjI impI)
  have "hung_is_unavailable meth e \<noteq> Other OSError" for e
    by (cases "(meth, e)" rule: hung_is_unavailable.cases) simp_all
  then show "gateway_push dumps loads cn agent meth params timeout extra \<noteq> Inl (Other OSError)"
    by (simp add: gateway_push_def split: option.split sum.split)
next
  assume a: "sock_ok (cn_sock cn) \<and> content (cn_sock cn) = [] \<and> sock_tail (cn_sock cn) = Fails OSError
      \<and> cn_refused cn = None \<and> cn_send_error cn = None
      \<and> length (dumps (PDict [(''method'', PStr meth), (''params'', PDict params)])) < 2 ^ 32"
  then show "client_call dumps loads path cn meth params = Inl (Other OSError)"
    using client_recv_hang [of "cn_sock cn" OSError loads]
    by (simp add: client_call_def client_frame_def frame_bytes_def pack_I_def)
qed

subsection \<open>Witnesses\<close>

text \<open>A writer and a reader of two messages, and a stream cut in odd places.\<close>

definition demo_dumps :: "pyval \<Rightarrow> bytes" where
  "demo_dumps v = (if v = PDict [] then [123, 125] else [123, 49, 125])"

definition demo_msg :: pyval where
  "demo_msg = PDict [(''running'', PBool False)]"

definition demo_loads_bytes :: "bytes \<Rightarrow> pyval option" where
  "demo_loads_bytes b = (if b = [123, 125] then Some (PDict []) else if b = [123, 49, 125] then Some demo_msg else None)"

definition demo_sock :: sock where
  "demo_sock = \<lparr>segs = [[0, 0], [0, 2, 123], [125, 0, 0, 0, 3, 123, 49], [125]], sock_tail = AtEof\<rparr>"

lemma demo_wire:
  "sock_ok demo_sock" "server_bytes demo_dumps [PDict [], demo_msg] = Inr (content demo_sock)" "sock_tail demo_sock = AtEof"
  "\<forall>v \<in> set [PDict [], demo_msg]. (\<exists>d. v = PDict d) \<and> demo_loads_bytes (demo_dumps v) = Some v \<and> demo_dumps v \<noteq> []"
proof -
  have f: "server_frame demo_dumps v = Inr (pack_u BigE 4 (length (demo_dumps v)) @ demo_dumps v)" for v
    by (simp add: server_frame_def frame_bytes_def pack_I_def max_message_def demo_dumps_def)
  have "pack_u BigE 4 2 = [0, 0, 0, 2]" "pack_u BigE 4 3 = [0, 0, 0, 3]" by code_simp+
  then show "server_bytes demo_dumps [PDict [], demo_msg] = Inr (content demo_sock)"
    by (simp add: f demo_sock_def content_def) (simp add: demo_dumps_def demo_msg_def numeral_eq_Suc)
  show "\<forall>v \<in> set [PDict [], demo_msg]. (\<exists>d. v = PDict d) \<and> demo_loads_bytes (demo_dumps v) = Some v \<and> demo_dumps v \<noteq> []"
    by (simp add: demo_msg_def demo_dumps_def demo_loads_bytes_def)
qed (simp_all add: sock_ok_def demo_sock_def)

theorem wire_messages_roundtrip_witness:
  "server_recv_many demo_loads_bytes 2 demo_sock = [PDict [], demo_msg]"
  using wire_messages_roundtrip [OF demo_wire(1,2), of "[]" demo_loads_bytes] demo_wire(4)
  by (simp add: numeral_2_eq_2)

theorem stream_yields_sent_frames_witness:
  "stream_frames demo_loads_bytes demo_sock = ([PDict [], demo_msg], None)"
  using stream_yields_sent_frames [OF demo_wire]
  by (simp add: goes_on_def obj_get_or_def demo_msg_def)

definition demo_oversized :: sock where
  "demo_oversized = \<lparr>segs = [pack_u BigE 4 4294967295], sock_tail = AtEof\<rparr>"

theorem oversized_frame_refused_witness:
  "\<exists>s' v. client_recv_json demo_loads_bytes demo_oversized = (Inl (CapdError v), s') \<and> content s' = []"
proof -
  have "segs demo_oversized = [pack_u BigE 4 4294967295]" by (simp add: demo_oversized_def)
  moreover have "pack_u BigE 4 4294967295 \<noteq> []" using length_pack_u by (metis list.size(3) zero_neq_numeral)
  ultimately have "sock_ok demo_oversized" "content demo_oversized = pack_u BigE 4 4294967295 @ []"
    by (simp_all add: sock_ok_def content_def)
  from oversized_frame_refused [OF this, of demo_loads_bytes] show ?thesis by simp
qed

definition demo_hung :: conn where
  "demo_hung = \<lparr>cn_refused = None, cn_send_error = None, cn_sock = \<lparr>segs = [], sock_tail = Fails OSError\<rparr>\<rparr>"

theorem hung_connection_witness:
  "client_call demo_dumps demo_loads_bytes ''s'' demo_hung ''stop'' [] = Inl (Other OSError)"
  using hung_connection [of demo_dumps demo_loads_bytes demo_hung "[]" "''stop''" "[]" 1 "[]" "''s''"]
  by (simp add: demo_hung_def sock_ok_def content_def demo_dumps_def)

end
