(* ===== verification/PcapHeader.thy ===== *)
theory PcapHeader
  imports Bytes
begin

text \<open>
  \<open>marlinspike/_pcap_header.py\<close>: the header walker for classic pcap and for pcapng files. A file
  is its bytes; a read position is the rest of the file from there (a seek beyond the end leaves
  nothing to read, as in Python). Time stamps are exact rationals where the code has floats.
\<close>

section \<open>Summaries\<close>

datatype cap_format = Pcap | Pcapng

record capture_summary =
  packet_count :: nat
  duration_seconds :: rat
  start_ts :: "rat option"
  end_ts :: "rat option"
  link_type :: string
  snap_len :: nat
  cap_format :: cap_format

datatype header_exc = BadCapture string | BadIndex

definition linktype_name :: "nat \<Rightarrow> string" where
  "linktype_name n =
     (case map_of [(0, ''BSD loopback''), (1, ''Ethernet''), (9, ''PPP''), (105, ''IEEE 802.11''),
         (113, ''Linux cooked v1''), (127, ''IEEE 802.11 radiotap''), (143, ''DOCSIS''), (147, ''DLT_USER0''),
         (148, ''DLT_USER1''), (195, ''IEEE 802.15.4 with FCS''), (228, ''IPv4''), (229, ''IPv6''),
         (276, ''Linux cooked v2'')] n of
        Some s \<Rightarrow> s | None \<Rightarrow> ''LINKTYPE_'' @ show_nat n)"

text \<open>The packets counted so far and the first and last time stamp.\<close>

record tally =
  tl_count :: nat
  tl_first :: "rat option"
  tl_last :: "rat option"

definition no_packets :: tally where
  "no_packets = \<lparr>tl_count = 0, tl_first = None, tl_last = None\<rparr>"

definition count_packet :: "rat \<Rightarrow> tally \<Rightarrow> tally" where
  "count_packet ts t = \<lparr>tl_count = tl_count t + 1, tl_first = (case tl_first t of None \<Rightarrow> Some ts | Some f \<Rightarrow> Some f),
     tl_last = Some ts\<rparr>"

definition tally_duration :: "tally \<Rightarrow> rat" where
  "tally_duration t = (case (tl_first t, tl_last t) of (Some f, Some l) \<Rightarrow> l - f | _ \<Rightarrow> 0)"

text \<open>The field of width \<open>w\<close> at offset \<open>k\<close>.\<close>

definition field :: "endian \<Rightarrow> nat \<Rightarrow> nat \<Rightarrow> bytes \<Rightarrow> nat" where
  "field e k w bs = unpack_u e (take w (drop k bs))"

section \<open>Classic pcap\<close>

definition pcap_magic :: "nat \<Rightarrow> (endian \<times> nat) option" where
  "pcap_magic m =
     (if m = 0xA1B2C3D4 then Some (LittleE, 1000000)
      else if m = 0xD4C3B2A1 then Some (BigE, 1000000)
      else if m = 0xA1B23C4D then Some (LittleE, 1000000000)
      else if m = 0x4D3CB2A1 then Some (BigE, 1000000000)
      else None)"

definition absurd_length :: "nat \<Rightarrow> nat \<Rightarrow> bool" where
  "absurd_length snaplen incl_len \<longleftrightarrow> incl_len > snaplen * 4 + 2 ^ 20 \<and> incl_len > 2 ^ 24"

function pcap_records :: "endian \<Rightarrow> nat \<Rightarrow> nat \<Rightarrow> bytes \<Rightarrow> tally \<Rightarrow> header_exc + tally" where
  "pcap_records e divisor snaplen bs t =
     (if length bs < 16 then Inr t
      else let incl_len = field e 8 4 bs in
        if absurd_length snaplen incl_len
        then Inl (BadCapture (''pcap record claims absurd payload length '' @ show_nat incl_len))
        else pcap_records e divisor snaplen (drop (16 + incl_len) bs)
               (count_packet (of_nat (field e 0 4 bs) + of_nat (field e 4 4 bs) / of_nat divisor) t))"
  by pat_completeness auto
termination
  by (relation "measure (\<lambda>(e, d, sl, bs, t). length bs)") auto

declare pcap_records.simps [simp del]

definition read_pcap :: "bytes \<Rightarrow> header_exc + capture_summary" where
  "read_pcap bs =
     (if length bs < 24 then Inl (BadCapture ''pcap file is truncated (missing global header)'')
      else case pcap_magic (field LittleE 0 4 bs) of
          None \<Rightarrow> Inl (BadCapture ''not a recognised pcap magic'')
        | Some (e, divisor) \<Rightarrow>
            (case pcap_records e divisor (field e 16 4 bs) (drop 24 bs) no_packets of
               Inl x \<Rightarrow> Inl x
             | Inr t \<Rightarrow> Inr \<lparr>packet_count = tl_count t, duration_seconds = tally_duration t, start_ts = tl_first t,
                 end_ts = tl_last t, link_type = linktype_name (field e 20 4 bs), snap_len = field e 16 4 bs,
                 cap_format = Pcap\<rparr>))"

section \<open>Pcapng\<close>

datatype block_kind = Shb | Idb | Pb | Spb | Epb | OtherBlock

definition block_kind :: "nat \<Rightarrow> block_kind" where
  "block_kind n = (if n = 0x0A0D0D0A then Shb else if n = 1 then Idb else if n = 2 then Pb
     else if n = 3 then Spb else if n = 6 then Epb else OtherBlock)"

text \<open>How much of a block's body the walker reads.\<close>

definition read_len :: "block_kind \<Rightarrow> int \<Rightarrow> int" where
  "read_len k body_len = (case k of Idb \<Rightarrow> min body_len 4096 | Epb \<Rightarrow> min body_len 20 | Pb \<Rightarrow> min body_len 12 | _ \<Rightarrow> 0)"

text \<open>
  The options of an interface block, from a position on: the last \<open>if_tsresol\<close> wins. \<open>BadIndex\<close>
  is the \<open>IndexError\<close> of an option whose value lies beyond what was read.
\<close>

definition tsresol_divisor :: "nat \<Rightarrow> nat" where
  "tsresol_divisor b = (if b \<ge> 128 then 2 ^ (b - 128) else 10 ^ b)"

definition align4 :: "nat \<Rightarrow> nat" where
  "align4 n = (n + 3) div 4 * 4"

function idb_options :: "endian \<Rightarrow> bytes \<Rightarrow> nat \<Rightarrow> nat \<Rightarrow> header_exc + nat" where
  "idb_options e body pos resolution =
     (if pos + 4 \<le> length body then
        let code = field e pos 2 body; len = field e (pos + 2) 2 body in
        if code = 0 then Inr resolution
        else if code = 9 \<and> len \<ge> 1 then
          (if pos + 4 < length body
           then idb_options e body (pos + (4 + align4 len)) (tsresol_divisor (unat (body ! (pos + 4))))
           else Inl BadIndex)
        else idb_options e body (pos + (4 + align4 len)) resolution
      else Inr resolution)"
  by pat_completeness auto
termination
  by (relation "measure (\<lambda>(e, body, pos, r). length body - pos)") auto

declare idb_options.simps [simp del]

record ng_state =
  ng_resolutions :: "nat list"
  ng_linktypes :: "nat list"
  ng_snaplen :: nat
  ng_tally :: tally

definition ng_start :: ng_state where
  "ng_start = \<lparr>ng_resolutions = [], ng_linktypes = [], ng_snaplen = 0, ng_tally = no_packets\<rparr>"

definition ng_block :: "endian \<Rightarrow> block_kind \<Rightarrow> bytes \<Rightarrow> ng_state \<Rightarrow> header_exc + ng_state" where
  "ng_block e k body s =
     (case k of
        Idb \<Rightarrow>
          (if length body < 8 then Inr s
           else case idb_options e body 8 1000000 of
               Inl x \<Rightarrow> Inl x
             | Inr r \<Rightarrow> Inr (s\<lparr>ng_linktypes := ng_linktypes s @ [field e 0 2 body],
                 ng_resolutions := ng_resolutions s @ [r], ng_snaplen := max (ng_snaplen s) (field e 4 4 body)\<rparr>))
      | Epb \<Rightarrow>
          (if length body < 20 then Inr s
           else let if_id = field e 0 4 body;
                    divisor = (if if_id < length (ng_resolutions s) then ng_resolutions s ! if_id else 1000000);
                    ts = of_nat (field e 4 4 body * 2 ^ 32 + field e 8 4 body) / of_nat divisor
                in Inr (s\<lparr>ng_tally := count_packet ts (ng_tally s)\<rparr>))
      | Pb \<Rightarrow>
          (if length body < 20 then Inr s
           else Inr (s\<lparr>ng_tally := count_packet (of_nat (field e 4 4 body * 2 ^ 32 + field e 8 4 body) / 1000000) (ng_tally s)\<rparr>))
      | Spb \<Rightarrow> Inr (s\<lparr>ng_tally := (ng_tally s)\<lparr>tl_count := tl_count (ng_tally s) + 1\<rparr>\<rparr>)
      | _ \<Rightarrow> Inr s)"

text \<open>
  The walk over the blocks of a file from a position on. After the header and the part of the
  body that is read, the rest of the body is skipped and the four bytes of the trailing length
  are read. Lengths and positions are integers as in Python: a block length below twelve would
  give a negative body length, with which a read raises and a seek goes backwards (or raises
  \<open>OSError\<close> before the start of the file). A walk that goes round for ever is \<open>None\<close>.
\<close>

definition file_read :: "bytes \<Rightarrow> int \<Rightarrow> int \<Rightarrow> bytes" where
  "file_read data pos n = take (nat n) (drop (nat pos) data)"

partial_function (option) ng_blocks :: "endian \<Rightarrow> bytes \<Rightarrow> int \<Rightarrow> ng_state \<Rightarrow> (header_exc + ng_state) option" where
  "ng_blocks e data pos s =
     (let header = file_read data pos 8 in
      if length header < 8 then Some (Inr s)
      else
        let k = block_kind (field e 0 4 header); block_len = int (field e 4 4 header) in
        if block_len < 12 \<or> block_len mod 4 \<noteq> 0 then Some (Inr s)
        else
          let body_len = block_len - 12; rl = read_len k body_len; body = file_read data (pos + 8) rl;
              skipped = pos + 8 + body_len
          in if rl < 0 then Some (Inl (BadCapture ''read length must be non-negative or -1''))
             else if int (length body) < rl then Some (Inr s)
             else if skipped < 0 \<or> length (file_read data skipped 4) < 4 then Some (Inr s)
             else case ng_block e k body s of
                 Inl x \<Rightarrow> Some (Inl x)
               | Inr s' \<Rightarrow> ng_blocks e data (skipped + 4) s')"

definition shb_order :: "nat \<Rightarrow> endian option" where
  "shb_order bom = (if bom = 0x1A2B3C4D then Some LittleE else if bom = 0x4D3C2B1A then Some BigE else None)"

definition read_pcapng :: "bytes \<Rightarrow> (header_exc + capture_summary) option" where
  "read_pcapng bs =
     (if length bs < 12 then Some (Inl (BadCapture ''pcapng file is truncated (missing SHB)''))
      else if block_kind (field LittleE 0 4 bs) \<noteq> Shb then Some (Inl (BadCapture ''pcapng file does not start with SHB''))
      else case shb_order (field LittleE 8 4 bs) of
          None \<Rightarrow> Some (Inl (BadCapture ''unrecognised pcapng byte-order magic''))
        | Some e \<Rightarrow>
            (case ng_blocks e bs (int (field e 4 4 bs)) ng_start of
               None \<Rightarrow> None
             | Some (Inl x) \<Rightarrow> Some (Inl x)
             | Some (Inr s) \<Rightarrow> Some (Inr \<lparr>packet_count = tl_count (ng_tally s), duration_seconds = tally_duration (ng_tally s),
                 start_ts = tl_first (ng_tally s), end_ts = tl_last (ng_tally s),
                 link_type = (case ng_linktypes s of [] \<Rightarrow> ''Unknown'' | n # _ \<Rightarrow> linktype_name n),
                 snap_len = ng_snaplen s, cap_format = Pcapng\<rparr>)))"

text \<open>\<open>None\<close> is a summary that never comes.\<close>

definition read_capture_summary :: "bytes \<Rightarrow> (header_exc + capture_summary) option" where
  "read_capture_summary bs =
     (if length bs < 4 then Some (Inl (BadCapture ''file is too short to be a capture''))
      else if field BigE 0 4 bs = 0x0A0D0D0A then read_pcapng bs else Some (read_pcap bs))"

section \<open>Lemmas\<close>

lemma field_skip [simp]: "length a \<le> k \<Longrightarrow> field e k w (a @ b) = field e (k - length a) w b"
  by (simp add: field_def)

lemma field_here [simp]: "n < 256 ^ w \<Longrightarrow> field e 0 w (pack_u e w n @ b) = n"
  by (simp add: field_def unpack_pack)

lemma field_here_end [simp]: "n < 256 ^ w \<Longrightarrow> field e 0 w (pack_u e w n) = n"
  using field_here [of n w e "[]"] by simp

lemma drop_skip [simp]: "length a \<le> k \<Longrightarrow> drop k (a @ b) = drop (k - length a) b"
  by simp

text \<open>Counting packets with time stamps: how many, the first, the last.\<close>

definition tally_of :: "rat list \<Rightarrow> tally" where
  "tally_of ts = \<lparr>tl_count = length ts, tl_first = (if ts = [] then None else Some (hd ts)),
     tl_last = (if ts = [] then None else Some (last ts))\<rparr>"

lemma tally_of_Nil: "tally_of [] = no_packets"
  by (simp add: tally_of_def no_packets_def)

lemma count_packet_tally: "count_packet t (tally_of ts) = tally_of (ts @ [t])"
  by (cases ts) (simp_all add: count_packet_def tally_of_def)

subsection \<open>Classic files\<close>

text \<open>A record: seconds, fraction, original length, payload; and the bytes of a file.\<close>

type_synonym pcap_record = "nat \<times> nat \<times> nat \<times> bytes"

definition record_bytes :: "endian \<Rightarrow> pcap_record \<Rightarrow> bytes" where
  "record_bytes e r = (case r of (sec, sub, orig, payload) \<Rightarrow>
     pack_u e 4 sec @ pack_u e 4 sub @ pack_u e 4 (length payload) @ pack_u e 4 orig @ payload)"

definition record_ok :: "nat \<Rightarrow> pcap_record \<Rightarrow> bool" where
  "record_ok snaplen r = (case r of (sec, sub, orig, payload) \<Rightarrow>
     sec < 2 ^ 32 \<and> sub < 2 ^ 32 \<and> length payload < 2 ^ 32 \<and> \<not> absurd_length snaplen (length payload))"

definition record_ts :: "nat \<Rightarrow> pcap_record \<Rightarrow> rat" where
  "record_ts divisor r = (case r of (sec, sub, _) \<Rightarrow> of_nat sec + of_nat sub / of_nat divisor)"

definition pcap_bytes :: "endian \<Rightarrow> bool \<Rightarrow> nat \<Rightarrow> nat \<Rightarrow> pcap_record list \<Rightarrow> bytes" where
  "pcap_bytes e nano snaplen network rs =
     pack_u e 4 (if nano then 0xA1B23C4D else 0xA1B2C3D4) @ pack_u e 2 2 @ pack_u e 2 4 @ pack_u e 4 0 @ pack_u e 4 0
     @ pack_u e 4 snaplen @ pack_u e 4 network @ concat (map (record_bytes e) rs)"

lemma pcap_records_sent:
  "list_all (record_ok snaplen) rs \<Longrightarrow> length junk < 16 \<Longrightarrow>
   pcap_records e divisor snaplen (concat (map (record_bytes e) rs) @ junk) (tally_of ts)
     = Inr (tally_of (ts @ map (record_ts divisor) rs))"
proof (induction rs arbitrary: ts)
  case Nil
  then show ?case by (simp add: pcap_records.simps)
next
  case (Cons r rs)
  obtain sec sub orig payload where r: "r = (sec, sub, orig, payload)" by (metis prod.exhaust)
  let ?bs = "record_bytes e r @ concat (map (record_bytes e) rs) @ junk"
  have ok: "sec < 2 ^ 32" "sub < 2 ^ 32" "length payload < 2 ^ 32" "\<not> absurd_length snaplen (length payload)"
    using Cons.prems(1) by (simp_all add: r record_ok_def)
  have ts: "record_ts divisor r = of_nat sec + of_nat sub / of_nat divisor" by (simp add: r record_ts_def)
  have f: "field e 0 4 ?bs = sec" "field e 4 4 ?bs = sub" "field e 8 4 ?bs = length payload"
    "drop (16 + length payload) ?bs = concat (map (record_bytes e) rs) @ junk" "\<not> length ?bs < 16"
    using ok by (simp_all add: r record_bytes_def)
  have "pcap_records e divisor snaplen ?bs (tally_of ts) =
      pcap_records e divisor snaplen (concat (map (record_bytes e) rs) @ junk) (tally_of (ts @ [record_ts divisor r]))"
    using ok(4) by (subst pcap_records.simps) (simp only: f Let_def if_False count_packet_tally ts)
  then show ?case using Cons by simp
qed

lemma be_bytes_4: "be_bytes 4 n = [word_of_nat (n div 256 div 256 div 256 mod 256), word_of_nat (n div 256 div 256 mod 256),
    word_of_nat (n div 256 mod 256), word_of_nat (n mod 256)]"
proof -
  have "(4::nat) = Suc (Suc (Suc (Suc 0)))" by simp
  then show ?thesis by (simp only: be_bytes.simps append.simps)
qed

lemma swapped_4:
  "be_nat (rev (be_bytes 4 n)) =
     ((n mod 256 * 256 + n div 256 mod 256) * 256 + n div 256 div 256 mod 256) * 256 + n div 256 div 256 div 256 mod 256"
  unfolding be_bytes_4 by (simp only: be_nat_def rev.simps append.simps foldl.simps unat_byte mult_0 add_0)

lemma pcap_magic_bytes:
  "pcap_magic (unpack_u LittleE (pack_u e 4 (if nano then 0xA1B23C4D else 0xA1B2C3D4)))
     = Some (e, if nano then 1000000000 else 1000000)"
  "unpack_u BigE (pack_u e 4 (if nano then 0xA1B23C4D else 0xA1B2C3D4)) \<noteq> 0x0A0D0D0A"
  by (cases e; cases nano; simp add: pack_u_def unpack_u_def pcap_magic_def swapped_4 be_nat_be_bytes)+

lemma field_first: "length a = w \<Longrightarrow> field e 0 w (a @ b) = unpack_u e a"
  by (simp add: field_def)

subsection \<open>Pcapng files\<close>

text \<open>
  The walk as a recursion over what is left of the file. It is what the code's loop does
  because block lengths are at least twelve there: positions only grow.
\<close>

definition read_size :: "block_kind \<Rightarrow> nat \<Rightarrow> nat" where
  "read_size k n = nat (read_len k (int n))"

lemma read_size_simps [simp]:
  "read_size Idb n = min n 4096" "read_size Epb n = min n 20" "read_size Pb n = min n 12" "read_size Spb n = 0"
  "read_size Shb n = 0" "read_size OtherBlock n = 0"
  by (simp_all add: read_size_def read_len_def min_def)

lemma read_size_le: "read_size k n \<le> n"
  by (cases k) simp_all

lemma read_len_int: "read_len k (int n) = int (read_size k n)"
  by (cases k) (simp_all add: read_len_def)

function ng_walk :: "endian \<Rightarrow> bytes \<Rightarrow> ng_state \<Rightarrow> header_exc + ng_state" where
  "ng_walk e bs s =
     (if length bs < 8 then Inr s
      else
        let k = block_kind (field e 0 4 bs); block_len = field e 4 4 bs; body_len = block_len - 12;
            rl = read_size k body_len; body = take rl (drop 8 bs)
        in if block_len < 12 \<or> block_len mod 4 \<noteq> 0 then Inr s
           else if length body < rl then Inr s
           else if length (drop (8 + body_len) bs) < 4 then Inr s
           else case ng_block e k body s of
               Inl x \<Rightarrow> Inl x
             | Inr s' \<Rightarrow> ng_walk e (drop (12 + body_len) bs) s')"
  by pat_completeness auto
termination
  by (relation "measure (\<lambda>(e, bs, s). length bs)") auto

declare ng_walk.simps [simp del]

lemma ng_blocks_walk: "ng_blocks e data (int p) s = Some (ng_walk e (drop p data) s)"
proof (induction "length data - p" arbitrary: p s rule: less_induct)
  case less
  let ?bs = "drop p data"
  let ?n = "field e 4 4 ?bs"
  have hd: "file_read data (int p) 8 = take 8 ?bs" "length (take 8 ?bs) < 8 \<longleftrightarrow> length ?bs < 8"
    "field e 0 4 (take 8 ?bs) = field e 0 4 ?bs" "field e 4 4 (take 8 ?bs) = ?n"
    by (auto simp: file_read_def field_def drop_take)
  show ?case
  proof (cases "length ?bs < 8 \<or> ?n < 12 \<or> ?n mod 4 \<noteq> 0")
    case True
    have ni: "int ?n < 12 \<or> int ?n mod 4 \<noteq> 0 \<longleftrightarrow> ?n < 12 \<or> ?n mod 4 \<noteq> 0" by presburger
    show ?thesis
    proof (cases "length ?bs < 8")
      case True
      then show ?thesis
        unfolding ng_blocks.simps [where e = e and data = data and pos = "int p" and s = s] ng_walk.simps [of e ?bs s] Let_def hd
        by (simp only: if_True)
    next
      case False
      with \<open>length ?bs < 8 \<or> ?n < 12 \<or> ?n mod 4 \<noteq> 0\<close> have "?n < 12 \<or> ?n mod 4 \<noteq> 0" by blast
      with False show ?thesis
        unfolding ng_blocks.simps [where e = e and data = data and pos = "int p" and s = s] ng_walk.simps [of e ?bs s] Let_def hd ni
        by (simp only: if_True if_False)
    qed
  next
    case False
    let ?k = "block_kind (field e 0 4 ?bs)"
    let ?m = "?n - 12"
    have n: "\<not> length ?bs < 8" "\<not> (?n < 12 \<or> ?n mod 4 \<noteq> 0)" using False by blast+
    have ni: "\<not> (int ?n < 12 \<or> int ?n mod 4 \<noteq> 0)" "int ?n - 12 = int ?m" using n(2) by presburger+
    have rd: "file_read data (int p + 8) (int r) = take r (drop 8 ?bs)" for r
      by (simp add: file_read_def nat_add_distrib add.commute)
    have sk: "int p + 8 + int ?m = int (p + 8 + ?m)" "int (p + 8 + ?m) + 4 = int (p + 12 + ?m)" by simp_all
    have tr: "file_read data (int (p + 8 + ?m)) 4 = take 4 (drop (8 + ?m) ?bs)"
      by (simp only: file_read_def nat_int nat_numeral drop_drop ac_simps)
    have rec: "ng_blocks e data (int (p + 12 + ?m)) s' = Some (ng_walk e (drop (12 + ?m) ?bs) s')" for s'
    proof -
      have "length data - (p + 12 + ?m) < length data - p" using n(1) by simp
      then show ?thesis using less [of "p + 12 + ?m" s'] by (simp only: drop_drop ac_simps)
    qed
    show ?thesis
      unfolding ng_blocks.simps [where e = e and data = data and pos = "int p" and s = s] ng_walk.simps [of e ?bs s] Let_def hd
      by (cases "ng_block e ?k (take (read_size ?k ?m) (drop 8 ?bs)) s";
          simp only: n ni if_False read_len_int rd sk tr sum.case rec) simp_all
  qed
qed

definition block_bytes :: "endian \<Rightarrow> nat \<Rightarrow> bytes \<Rightarrow> bytes" where
  "block_bytes e t body = pack_u e 4 t @ pack_u e 4 (12 + length body) @ body @ pack_u e 4 (12 + length body)"

definition body_ok :: "bytes \<Rightarrow> bool" where
  "body_ok body \<longleftrightarrow> length body mod 4 = 0 \<and> 12 + length body < 2 ^ 32"

lemma ng_walk_step:
  assumes "t < 2 ^ 32" "body_ok body"
  shows "ng_walk e (block_bytes e t body @ rest) s =
    (case ng_block e (block_kind t) (take (read_size (block_kind t) (length body)) body) s of
       Inl x \<Rightarrow> Inl x | Inr s' \<Rightarrow> ng_walk e rest s')"
proof -
  let ?bs = "block_bytes e t body @ rest"
  have len: "12 + length body < 256 ^ 4" "t < 256 ^ 4" "(12 + length body) mod 4 = 0"
    using assms by (simp_all add: body_ok_def) presburger
  have rl: "read_size (block_kind t) (length body) \<le> length body" by (rule read_size_le)
  have f: "field e 0 4 ?bs = t" "field e 4 4 ?bs = 12 + length body" "\<not> length ?bs < 8"
    "drop (12 + length body) ?bs = rest" "\<not> length (drop (8 + length body) ?bs) < 4"
    using len by (simp_all add: block_bytes_def)
  have b: "take (read_size (block_kind t) (length body)) (drop 8 ?bs) = take (read_size (block_kind t) (length body)) body"
    using rl by (simp add: block_bytes_def)
  have lb: "length (take (read_size (block_kind t) (length body)) body) = read_size (block_kind t) (length body)"
    using rl by simp
  show ?thesis
    by (subst ng_walk.simps) (simp only: Let_def f b lb len(3) if_False diff_add_inverse, simp)
qed

text \<open>
  The blocks of a file: an interface with its link type, snapshot length and an optional time
  resolution; an enhanced packet with interface, time stamp (high, low) and the rest of its
  body; a simple packet; an obsolete packet; a block of another type.
\<close>

datatype ng_item = NIdb nat nat "8 word option" | NEpb nat nat nat bytes | NSpb bytes | NPb bytes | NOther nat bytes

fun item_type :: "ng_item \<Rightarrow> nat" where
  "item_type (NIdb _ _ _) = 1"
| "item_type (NEpb _ _ _ _) = 6"
| "item_type (NSpb _) = 3"
| "item_type (NPb _) = 2"
| "item_type (NOther t _) = t"

fun item_body :: "endian \<Rightarrow> ng_item \<Rightarrow> bytes" where
  "item_body e (NIdb lt sl res) = pack_u e 2 lt @ pack_u e 2 0 @ pack_u e 4 sl @
     (case res of None \<Rightarrow> [] | Some b \<Rightarrow> pack_u e 2 9 @ pack_u e 2 1 @ [b, 0, 0, 0] @ pack_u e 2 0 @ pack_u e 2 0)"
| "item_body e (NEpb i hi lo rest) = pack_u e 4 i @ pack_u e 4 hi @ pack_u e 4 lo @ rest"
| "item_body e (NSpb b) = b"
| "item_body e (NPb b) = b"
| "item_body e (NOther _ b) = b"

definition item_bytes :: "endian \<Rightarrow> ng_item \<Rightarrow> bytes" where
  "item_bytes e x = block_bytes e (item_type x) (item_body e x)"

fun item_fields_ok :: "ng_item \<Rightarrow> bool" where
  "item_fields_ok (NIdb lt sl _) = (lt < 2 ^ 16 \<and> sl < 2 ^ 32)"
| "item_fields_ok (NEpb i hi lo rest) = (i < 2 ^ 32 \<and> hi < 2 ^ 32 \<and> lo < 2 ^ 32 \<and> 8 \<le> length rest)"
| "item_fields_ok (NOther t _) = (t < 2 ^ 32 \<and> block_kind t \<in> {Shb, OtherBlock})"
| "item_fields_ok _ = True"

definition item_ok :: "ng_item \<Rightarrow> bool" where
  "item_ok x \<longleftrightarrow> item_fields_ok x \<and> body_ok (item_body LittleE x)"

definition item_divisor :: "8 word option \<Rightarrow> nat" where
  "item_divisor res = (case res of None \<Rightarrow> 1000000 | Some b \<Rightarrow> tsresol_divisor (unat b))"

text \<open>The time stamps of the enhanced packets, each in the resolution of its interface.\<close>

fun ng_times :: "nat list \<Rightarrow> ng_item list \<Rightarrow> rat list" where
  "ng_times ds [] = []"
| "ng_times ds (NIdb lt sl res # xs) = ng_times (ds @ [item_divisor res]) xs"
| "ng_times ds (NEpb i hi lo rest # xs) =
     of_nat (hi * 2 ^ 32 + lo) / of_nat (if i < length ds then ds ! i else 1000000) # ng_times ds xs"
| "ng_times ds (_ # xs) = ng_times ds xs"

fun ng_simple :: "ng_item list \<Rightarrow> nat" where
  "ng_simple [] = 0"
| "ng_simple (NSpb _ # xs) = Suc (ng_simple xs)"
| "ng_simple (_ # xs) = ng_simple xs"

fun ng_links :: "ng_item list \<Rightarrow> nat list" where
  "ng_links [] = []"
| "ng_links (NIdb lt sl res # xs) = lt # ng_links xs"
| "ng_links (_ # xs) = ng_links xs"

fun ng_snap :: "ng_item list \<Rightarrow> nat" where
  "ng_snap [] = 0"
| "ng_snap (NIdb lt sl res # xs) = max sl (ng_snap xs)"
| "ng_snap (_ # xs) = ng_snap xs"

definition tally_with :: "nat \<Rightarrow> rat list \<Rightarrow> tally" where
  "tally_with k ts = (tally_of ts)\<lparr>tl_count := length ts + k\<rparr>"

lemma tally_with_simps [simp]:
  "count_packet t (tally_with k ts) = tally_with k (ts @ [t])"
  "(tally_with k ts)\<lparr>tl_count := Suc (length ts + k)\<rparr> = tally_with (Suc k) ts"
  "tl_count (tally_with k ts) = length ts + k"
  by (cases ts; simp add: tally_with_def tally_of_def count_packet_def)+

lemma length_item_body: "length (item_body e x) = length (item_body LittleE x)"
  by (cases x) (simp_all split: option.split)

lemma idb_options_item:
  "lt < 2 ^ 16 \<Longrightarrow> sl < 2 ^ 32 \<Longrightarrow> idb_options e (item_body e (NIdb lt sl res)) 8 1000000 = Inr (item_divisor res)"
proof (cases res)
  case None
  then show ?thesis by (subst idb_options.simps) (simp add: item_divisor_def)
next
  case (Some b)
  let ?body = "item_body e (NIdb lt sl (Some b))"
  have f: "field e 8 2 ?body = 9" "field e 10 2 ?body = 1" "?body ! 12 = b" "field e 16 2 ?body = 0" "length ?body = 20"
    by (simp_all add: nth_append field_def unpack_pack)
  have 2: "idb_options e ?body 16 r = Inr r" for r
    by (subst idb_options.simps) (simp add: f del: item_body.simps)
  show ?thesis
    unfolding Some by (subst idb_options.simps)
      (simp add: f 2 align4_def item_divisor_def del: item_body.simps)
qed

definition ng_state_of :: "nat list \<Rightarrow> nat list \<Rightarrow> nat \<Rightarrow> nat \<Rightarrow> rat list \<Rightarrow> ng_state" where
  "ng_state_of ds links snap k ts =
     \<lparr>ng_resolutions = ds, ng_linktypes = links, ng_snaplen = snap, ng_tally = tally_with k ts\<rparr>"

fun item_divisors :: "ng_item list \<Rightarrow> nat list" where
  "item_divisors [] = []"
| "item_divisors (NIdb lt sl res # xs) = item_divisor res # item_divisors xs"
| "item_divisors (_ # xs) = item_divisors xs"

text \<open>One block: what is read of its body, and what the walker makes of it.\<close>

lemma ng_block_item:
  assumes "item_ok x"
  shows "ng_block e (block_kind (item_type x))
      (take (read_size (block_kind (item_type x)) (length (item_body e x))) (item_body e x)) (ng_state_of ds links snap k ts)
    = Inr (ng_state_of (ds @ item_divisors [x]) (links @ ng_links [x]) (max snap (ng_snap [x])) (k + ng_simple [x])
        (ts @ ng_times ds [x]))"
proof (cases x)
  case (NIdb lt sl res)
  let ?b = "item_body e (NIdb lt sl res)"
  have ok: "lt < 2 ^ 16" "sl < 2 ^ 32" using assms by (simp_all add: NIdb item_ok_def)
  have len: "8 \<le> length ?b" "length ?b \<le> 4096" by (simp_all split: option.split)
  have f: "field e 0 2 ?b = lt" "field e 4 4 ?b = sl" using ok by simp_all
  show ?thesis
    using len idb_options_item [OF ok, of e res]
    by (simp add: NIdb block_kind_def read_size_simps ng_block_def f ng_state_of_def del: item_body.simps)
next
  case (NEpb i hi lo rest)
  let ?b = "take 20 (item_body e (NEpb i hi lo rest))"
  have ok: "i < 2 ^ 32" "hi < 2 ^ 32" "lo < 2 ^ 32" "8 \<le> length rest" using assms by (simp_all add: NEpb item_ok_def)
  have f: "field e 0 4 ?b = i" "field e 4 4 ?b = hi" "field e 8 4 ?b = lo" "length ?b = 20" using ok by simp_all
  have "read_size Epb (length (item_body e x)) = 20" "min (length (item_body e x)) 20 = 20"
    using ok(4) by (simp_all add: NEpb read_size_simps)
  then show ?thesis
    by (simp add: NEpb block_kind_def ng_block_def f ng_state_of_def Let_def del: item_body.simps)
next
  case (NOther t b)
  then show ?thesis using assms by (auto simp: item_ok_def ng_block_def ng_state_of_def)
qed (simp_all add: block_kind_def ng_block_def ng_state_of_def read_size_simps)

lemma item_lists_Cons:
  "item_divisors (x # xs) = item_divisors [x] @ item_divisors xs" "ng_links (x # xs) = ng_links [x] @ ng_links xs"
  "ng_snap (x # xs) = max (ng_snap [x]) (ng_snap xs)" "ng_simple (x # xs) = ng_simple [x] + ng_simple xs"
  "ng_times ds (x # xs) = ng_times ds [x] @ ng_times (ds @ item_divisors [x]) xs"
  by (cases x; simp)+

lemma ng_walk_sent:
  "list_all item_ok xs \<Longrightarrow> length junk < 8 \<Longrightarrow>
   ng_walk e (concat (map (item_bytes e) xs) @ junk) (ng_state_of ds links snap k ts)
     = Inr (ng_state_of (ds @ item_divisors xs) (links @ ng_links xs) (max snap (ng_snap xs)) (k + ng_simple xs)
         (ts @ ng_times ds xs))"
proof (induction xs arbitrary: ds links snap k ts)
  case Nil
  then show ?case by (simp add: ng_walk.simps)
next
  case (Cons x xs)
  have x: "item_ok x" and xs: "list_all item_ok xs" using Cons.prems(1) by simp_all
  have "item_type x < 2 ^ 32" using x by (cases x) (simp_all add: item_ok_def)
  moreover have "body_ok (item_body e x)" using x length_item_body [of e x] by (simp add: item_ok_def body_ok_def)
  ultimately have "ng_walk e (concat (map (item_bytes e) (x # xs)) @ junk) (ng_state_of ds links snap k ts) =
     ng_walk e (concat (map (item_bytes e) xs) @ junk)
       (ng_state_of (ds @ item_divisors [x]) (links @ ng_links [x]) (max snap (ng_snap [x])) (k + ng_simple [x]) (ts @ ng_times ds [x]))"
    unfolding concat.simps list.map append_assoc item_bytes_def [of e x] by (simp add: ng_walk_step ng_block_item [OF x])
  also have "\<dots> = Inr (ng_state_of (ds @ item_divisors (x # xs)) (links @ ng_links (x # xs)) (max snap (ng_snap (x # xs)))
      (k + ng_simple (x # xs)) (ts @ ng_times ds (x # xs)))"
    by (simp only: Cons.IH [OF xs Cons.prems(2)] item_lists_Cons(1-4) [of x xs] item_lists_Cons(5) [of ds x xs]
        append_assoc max.assoc add.assoc)
  finally show ?case .
qed

text \<open>The section header: byte-order magic, version, unknown section length, no options.\<close>

definition shb_bytes :: "endian \<Rightarrow> bytes" where
  "shb_bytes e = pack_u e 4 0x0A0D0D0A @ pack_u e 4 28 @ pack_u e 4 0x1A2B3C4D @ pack_u e 2 1 @ pack_u e 2 0
     @ pack_u e 4 0xFFFFFFFF @ pack_u e 4 0xFFFFFFFF @ pack_u e 4 28"

definition pcapng_bytes :: "endian \<Rightarrow> ng_item list \<Rightarrow> bytes" where
  "pcapng_bytes e xs = shb_bytes e @ concat (map (item_bytes e) xs)"

lemma shb_magic:
  "unpack_u e' (pack_u e 4 0x0A0D0D0A) = 0x0A0D0D0A"
  "shb_order (unpack_u LittleE (pack_u e 4 0x1A2B3C4D)) = Some e"
  by (cases e; cases e'; simp add: pack_u_def unpack_u_def shb_order_def swapped_4 be_nat_be_bytes)
     (cases e; simp add: pack_u_def unpack_u_def shb_order_def swapped_4 be_nat_be_bytes)

lemma read_pcapng_shb:
  "read_capture_summary (shb_bytes e @ bs) =
     Some (case ng_walk e bs ng_start of
        Inl x \<Rightarrow> Inl x
      | Inr s \<Rightarrow> Inr \<lparr>packet_count = tl_count (ng_tally s), duration_seconds = tally_duration (ng_tally s),
          start_ts = tl_first (ng_tally s), end_ts = tl_last (ng_tally s),
          link_type = (case ng_linktypes s of [] \<Rightarrow> ''Unknown'' | n # _ \<Rightarrow> linktype_name n),
          snap_len = ng_snaplen s, cap_format = Pcapng\<rparr>)"
proof -
  let ?bs = "shb_bytes e @ bs"
  have len: "\<not> length ?bs < 4" "\<not> length ?bs < 12" by (simp_all add: shb_bytes_def)
  have f: "field e' 0 4 ?bs = 0x0A0D0D0A" "field LittleE 8 4 ?bs = unpack_u LittleE (pack_u e 4 0x1A2B3C4D)"
    "field e 4 4 ?bs = 28" "drop 28 ?bs = bs" for e'
    by (simp_all add: shb_bytes_def field_first shb_magic(1) unpack_pack)
  have "ng_blocks e ?bs (int 28) ng_start = Some (ng_walk e bs ng_start)"
    unfolding ng_blocks_walk f(4) by (rule refl)
  then show ?thesis
    by (simp only: read_capture_summary_def read_pcapng_def len f shb_magic(2) if_False option.case block_kind_def
        refl if_True not_True_eq_False simp_thms) (cases "ng_walk e bs ng_start"; simp)
qed

lemma tally_with_fields [simp]:
  "tl_first (tally_with k ts) = tl_first (tally_of ts)" "tl_last (tally_with k ts) = tl_last (tally_of ts)"
  "tally_duration (tally_with k ts) = tally_duration (tally_of ts)"
  by (simp_all add: tally_with_def tally_duration_def)

lemma tally_of_fields:
  "tl_count (tally_of ts) = length ts" "tl_first (tally_of ts) = (if ts = [] then None else Some (hd ts))"
  "tl_last (tally_of ts) = (if ts = [] then None else Some (last ts))"
  "tally_duration (tally_of ts) = (if ts = [] then 0 else last ts - hd ts)"
  by (simp_all add: tally_of_def tally_duration_def)

text \<open>No walk counts more packets than the bytes it passes can hold.\<close>

lemma pcap_records_bound:
  "pcap_records e d sl bs t = Inr t' \<Longrightarrow> tl_count t' * 16 \<le> tl_count t * 16 + length bs"
proof (induction e d sl bs t rule: pcap_records.induct)
  case (1 e d sl bs t)
  show ?case
  proof (cases "length bs < 16 \<or> absurd_length sl (field e 8 4 bs)")
    case True
    then show ?thesis using "1.prems" by (auto simp: pcap_records.simps [of e d sl bs t] Let_def split: if_splits)
  next
    case False
    then have n: "\<not> length bs < 16" "\<not> absurd_length sl (field e 8 4 bs)" by simp_all
    note IH = "1.IH" [OF n(1) refl n(2)]
    from n "1.prems" have "tl_count t' * 16 \<le> tl_count t * 16 + 16 + (length bs - (16 + field e 8 4 bs))"
      using IH by (simp add: pcap_records.simps [of e d sl bs t] Let_def count_packet_def)
    with n(1) show ?thesis by linarith
  qed
qed

lemma ng_block_count: "ng_block e k body s = Inr s' \<Longrightarrow> tl_count (ng_tally s') \<le> Suc (tl_count (ng_tally s))"
  by (auto simp: ng_block_def count_packet_def Let_def split: block_kind.splits if_splits sum.splits)

lemma ng_walk_bound:
  "ng_walk e bs s = Inr s' \<Longrightarrow> tl_count (ng_tally s') * 12 \<le> tl_count (ng_tally s) * 12 + length bs"
proof (induction e bs s rule: ng_walk.induct)
  case (1 e bs s)
  let ?k = "block_kind (field e 0 4 bs)"
  let ?bl = "field e 4 4 bs - 12"
  let ?body = "take (read_size ?k ?bl) (drop 8 bs)"
  show ?case
  proof (cases "length bs < 8 \<or> (field e 4 4 bs < 12 \<or> field e 4 4 bs mod 4 \<noteq> 0) \<or> length ?body < read_size ?k ?bl
      \<or> length (drop (8 + ?bl) bs) < 4")
    case True
    then show ?thesis using "1.prems" unfolding ng_walk.simps [of e bs s] Let_def by (auto split: if_splits)
  next
    case False
    then have n: "\<not> length bs < 8" "\<not> (field e 4 4 bs < 12 \<or> field e 4 4 bs mod 4 \<noteq> 0)"
      "\<not> length ?body < read_size ?k ?bl" "\<not> length (drop (8 + ?bl) bs) < 4" by blast+
    then obtain s1 where s1: "ng_block e ?k ?body s = Inr s1" "ng_walk e (drop (12 + ?bl) bs) s1 = Inr s'"
      using "1.prems" unfolding ng_walk.simps [of e bs s] Let_def by (auto split: sum.splits if_splits)
    have "tl_count (ng_tally s') * 12 \<le> tl_count (ng_tally s1) * 12 + length (drop (12 + ?bl) bs)"
      by (rule "1.IH" [OF n(1) refl refl refl refl refl n(2-4) s1(1,2)])
    moreover have "length (drop (12 + ?bl) bs) + 12 \<le> length bs" using n(4) by simp
    ultimately show ?thesis using ng_block_count [OF s1(1)] by linarith
  qed
qed

section \<open>Properties\<close>

text \<open>
  A classic pcap file in either byte order and either resolution, cut anywhere in the header
  of a further record, is summarised exactly: the number of its records, the time stamps of the
  first and the last, their difference, the name of its link type and its snapshot length.
\<close>

theorem pcap_summary_exact:
  assumes "list_all (record_ok snaplen) rs" "length junk < 16" "snaplen < 2 ^ 32" "network < 2 ^ 32"
    and "ts = map (record_ts (if nano then 1000000000 else 1000000)) rs"
  shows "read_capture_summary (pcap_bytes e nano snaplen network rs @ junk) =
    Some (Inr \<lparr>packet_count = length rs, duration_seconds = (if rs = [] then 0 else last ts - hd ts),
      start_ts = (if rs = [] then None else Some (hd ts)), end_ts = (if rs = [] then None else Some (last ts)),
      link_type = linktype_name network, snap_len = snaplen, cap_format = Pcap\<rparr>)"
proof -
  let ?bs = "pcap_bytes e nano snaplen network rs @ junk"
  let ?m = "if nano then 0xA1B23C4D else 0xA1B2C3D4 :: nat"
  have len: "\<not> length ?bs < 4" "\<not> length ?bs < 24" by (simp_all add: pcap_bytes_def)
  have "?bs = pack_u e 4 ?m @ (pack_u e 2 2 @ pack_u e 2 4 @ pack_u e 4 0 @ pack_u e 4 0
     @ pack_u e 4 snaplen @ pack_u e 4 network @ concat (map (record_bytes e) rs) @ junk)"
    unfolding pcap_bytes_def append_assoc by (rule refl)
  then have magic: "field e' 0 4 ?bs = unpack_u e' (pack_u e 4 ?m)" for e' by (simp only: field_first length_pack_u)
  have f: "field e 16 4 ?bs = snaplen" "field e 20 4 ?bs = network" "drop 24 ?bs = concat (map (record_bytes e) rs) @ junk"
    using assms(3,4) by (simp_all add: pcap_bytes_def)
  have r: "pcap_records e (if nano then 1000000000 else 1000000) snaplen (concat (map (record_bytes e) rs) @ junk) no_packets
      = Inr (tally_of ts)"
    using pcap_records_sent [OF assms(1,2), of e _ "[]"] by (simp add: tally_of_Nil assms(5))
  have "read_capture_summary ?bs = Some (Inr \<lparr>packet_count = tl_count (tally_of ts), duration_seconds = tally_duration (tally_of ts),
      start_ts = tl_first (tally_of ts), end_ts = tl_last (tally_of ts), link_type = linktype_name network,
      snap_len = snaplen, cap_format = Pcap\<rparr>)"
    by (simp only: read_capture_summary_def read_pcap_def len magic pcap_magic_bytes f r if_False option.case
        prod.case sum.case)
  moreover have "ts = [] \<longleftrightarrow> rs = []" "length ts = length rs" by (simp_all add: assms(5))
  ultimately show ?thesis by (simp add: tally_of_fields)
qed

text \<open>
  C22. A pcapng file of one section in either byte order, whose section header has no options and whose
  interface blocks have at most a time-resolution option, cut anywhere in the header of a further
  block, is summarised exactly: enhanced packets count and carry their time in the resolution of
  their interface (microseconds for an unknown one), simple packets count without a time, and
  blocks of other types are skipped; obsolete packet blocks are not counted.
\<close>

theorem pcapng_summary_exact:
  assumes "list_all item_ok xs" "length junk < 8" "ts = ng_times [] xs"
  shows "read_capture_summary (pcapng_bytes e xs @ junk) =
    Some (Inr \<lparr>packet_count = length ts + ng_simple xs, duration_seconds = (if ts = [] then 0 else last ts - hd ts),
      start_ts = (if ts = [] then None else Some (hd ts)), end_ts = (if ts = [] then None else Some (last ts)),
      link_type = (case ng_links xs of [] \<Rightarrow> ''Unknown'' | n # _ \<Rightarrow> linktype_name n), snap_len = ng_snap xs,
      cap_format = Pcapng\<rparr>)"
proof -
  have start: "ng_start = ng_state_of [] [] 0 0 []"
    by (simp add: ng_start_def ng_state_of_def tally_with_def tally_of_Nil [symmetric]) (simp add: tally_of_def)
  show ?thesis
    unfolding pcapng_bytes_def append_assoc read_pcapng_shb start ng_walk_sent [OF assms(1,2)]
    by (simp add: ng_state_of_def tally_of_fields assms(3))
qed

text \<open>
  C40. Whatever the bytes of the file, the walk ends with a summary or an error, and the number of
  packets it reports is at most a twelfth of the file's length: a hostile file can make it neither
  loop nor count for ever. It rests on the check for block lengths below twelve, without which a
  block of length zero would be read again and again.
\<close>

theorem packet_count_bounded:
  "\<exists>r. read_capture_summary bs = Some r \<and> (case r of Inl _ \<Rightarrow> True | Inr c \<Rightarrow> packet_count c * 12 \<le> length bs)"
proof (cases "length bs < 4 \<or> field BigE 0 4 bs \<noteq> 0x0A0D0D0A")
  case True
  then have r: "read_capture_summary bs = Some (read_pcap bs) \<or> (\<exists>x. read_capture_summary bs = Some (Inl x))"
    by (auto simp: read_capture_summary_def)
  have "packet_count c * 12 \<le> length bs" if "read_pcap bs = Inr c" for c
  proof -
    from that obtain e d t where "pcap_records e d (field e 16 4 bs) (drop 24 bs) no_packets = Inr t" "packet_count c = tl_count t"
      by (auto simp: read_pcap_def split: if_splits option.splits sum.splits)
    with pcap_records_bound [of e d "field e 16 4 bs" "drop 24 bs" no_packets t] show ?thesis
      by (simp add: no_packets_def)
  qed
  with r show ?thesis by (auto split: sum.split)
next
  case False
  have count: "tl_count (ng_tally s) * 12 \<le> length bs" if "ng_walk e (drop (field e 4 4 bs) bs) ng_start = Inr s" for e s
    using ng_walk_bound [OF that] by (simp add: ng_start_def no_packets_def)
  have ng: "read_capture_summary bs = read_pcapng bs" using False by (simp add: read_capture_summary_def)
  show ?thesis
  proof (cases "shb_order (field LittleE 8 4 bs)")
    case None
    then show ?thesis by (simp add: ng read_pcapng_def)
  next
    case (Some e)
    then show ?thesis
      using count [of e] by (cases "ng_walk e (drop (field e 4 4 bs) bs) ng_start") (simp_all add: ng read_pcapng_def ng_blocks_walk)
  qed
qed

text \<open>
  The walker reads at most twelve bytes of an obsolete packet block and counts it only when it
  has twenty: whatever such a block holds, it changes nothing.
\<close>

theorem obsolete_packets_ignored:
  "ng_block e Pb (take (nat (read_len Pb body_len)) body) s = Inr s"
  by (simp add: ng_block_def read_len_def)

text \<open>
  An interface block that ends right after the header of a time-resolution option raises an
  \<open>IndexError\<close> instead of the documented \<open>ValueError\<close>.
\<close>

theorem truncated_tsresol_raises:
  "read_capture_summary (shb_bytes e @ block_bytes e 1 (pack_u e 2 1 @ pack_u e 2 0 @ pack_u e 4 65535 @ pack_u e 2 9 @ pack_u e 2 1))
     = Some (Inl BadIndex)"
proof -
  let ?body = "pack_u e 2 1 @ pack_u e 2 0 @ pack_u e 4 65535 @ pack_u e 2 9 @ pack_u e 2 1"
  have ok: "(1::nat) < 2 ^ 32" "body_ok ?body" by (simp_all add: body_ok_def)
  have f: "field e 8 2 ?body = 9" "field e 10 2 ?body = 1" "length ?body = 12" by simp_all
  have "idb_options e ?body 8 1000000 = Inl BadIndex"
    by (subst idb_options.simps) (simp only: f Let_def, simp)
  then have "ng_block e (block_kind 1) (take (read_size (block_kind 1) (length ?body)) ?body) ng_start = Inl BadIndex"
    by (simp add: block_kind_def ng_block_def read_size_simps)
  with ng_walk_step [OF ok, of e "[]" ng_start] show ?thesis
    by (simp add: read_pcapng_shb)
qed

subsection \<open>Witnesses\<close>

theorem pcap_summary_exact_witness:
  "read_capture_summary (pcap_bytes BigE False 65535 1 [(10, 500000, 60, [1, 2]), (12, 0, 60, [])] @ [7]) =
    Some (Inr \<lparr>packet_count = 2, duration_seconds = 3 / 2, start_ts = Some (21 / 2), end_ts = Some 12,
      link_type = ''Ethernet'', snap_len = 65535, cap_format = Pcap\<rparr>)"
  using pcap_summary_exact [of 65535 "[(10, 500000, 60, [1, 2]), (12, 0, 60, [])]" "[7]" 1 _ False BigE]
  by (simp add: record_ok_def absurd_length_def record_ts_def linktype_name_def)

theorem pcapng_summary_exact_witness:
  "read_capture_summary (pcapng_bytes LittleE [NIdb 1 0 (Some 9), NEpb 0 0 5 [0, 0, 0, 0, 0, 0, 0, 0], NSpb []] @ []) =
    Some (Inr \<lparr>packet_count = 2, duration_seconds = 0, start_ts = Some (5 / 1000000000), end_ts = Some (5 / 1000000000),
      link_type = ''Ethernet'', snap_len = 0, cap_format = Pcapng\<rparr>)"
  using pcapng_summary_exact [of "[NIdb 1 0 (Some 9), NEpb 0 0 5 [0, 0, 0, 0, 0, 0, 0, 0], NSpb []]" "[]" _ LittleE]
  by (simp add: item_ok_def body_ok_def item_divisor_def tsresol_divisor_def linktype_name_def)

end
