(* ===== verification/RunStore.thy ===== *)
theory RunStore
  imports PyVal
begin

text \<open>
  \<open>marlinspike/run_store.py\<close>: the durable rows of \<open>scan_history\<close> and the operations on them. A
  time is a number of seconds. A failing database is the argument \<open>up = False\<close>; \<open>width\<close> is the
  length the database enforces on the column \<open>recovery_state\<close> (20 in PostgreSQL, none in SQLite).
\<close>

section \<open>Rows\<close>

record scan_row =
  sr_user :: int
  sr_project :: "int option"
  sr_command :: string
  sr_profile :: string
  sr_pcap_source :: "string option"
  sr_pcap_hash :: "string option"
  sr_status :: string
  sr_started_at :: "int option"
  sr_completed_at :: "int option"
  sr_report_path :: "string option"
  sr_pcap_path :: "string option"
  sr_engine_pid :: "int option"
  sr_engine_argv :: "string option"
  sr_timeout_at :: "int option"
  sr_recovery :: "string option"
  sr_nodes :: "int option"
  sr_edges :: "int option"
  sr_error_tail :: "string option"
  sr_agent :: "int option"

record store =
  rows :: "(string, scan_row) dict"
  webhooks :: "(int option \<times> string option \<times> string) list"

section \<open>Launch\<close>

text \<open>What a launch hands over; the fields that the row does not keep from before.\<close>

record launch =
  la_user :: int
  la_project :: "int option"
  la_command :: string
  la_profile :: string
  la_pcap_source :: "string option"
  la_pcap_hash :: "string option"
  la_pcap_path :: string
  la_report_path :: string
  la_pid :: "int option"
  la_argv :: "string list"
  la_timeout :: "int option"
  la_agent :: "int option"

definition new_scan_row :: "int \<Rightarrow> int \<Rightarrow> scan_row" where
  "new_scan_row user now = \<lparr>sr_user = user, sr_project = None, sr_command = [], sr_profile = ''full'', sr_pcap_source = None,
     sr_pcap_hash = None, sr_status = [], sr_started_at = Some now, sr_completed_at = None, sr_report_path = None,
     sr_pcap_path = None, sr_engine_pid = None, sr_engine_argv = None, sr_timeout_at = None, sr_recovery = None,
     sr_nodes = Some 0, sr_edges = Some 0, sr_error_tail = None, sr_agent = None\<rparr>"

definition argv_text :: "(string list \<Rightarrow> string) \<Rightarrow> string list \<Rightarrow> string option" where
  "argv_text dumps argv = (if argv = [] then None else Some (dumps argv))"

definition record_start :: "(string list \<Rightarrow> string) \<Rightarrow> int \<Rightarrow> int \<Rightarrow> string \<Rightarrow> launch \<Rightarrow> store \<Rightarrow> store" where
  "record_start dumps default_timeout now run_id la s =
     (let timeout = (case la_timeout la of None \<Rightarrow> default_timeout | Some t \<Rightarrow> t);
          deadline = (if timeout \<noteq> 0 \<and> timeout > 0 then Some (now + timeout) else None);
          rec = (case dict_get (rows s) run_id of None \<Rightarrow> new_scan_row (la_user la) now | Some r \<Rightarrow> r);
          rec' = rec\<lparr>sr_user := la_user la, sr_project := la_project la, sr_command := la_command la,
            sr_profile := la_profile la, sr_pcap_source := la_pcap_source la, sr_pcap_hash := la_pcap_hash la,
            sr_status := ''running'', sr_report_path := Some (la_report_path la), sr_pcap_path := Some (la_pcap_path la),
            sr_engine_pid := la_pid la, sr_engine_argv := argv_text dumps (la_argv la), sr_timeout_at := deadline,
            sr_recovery := None, sr_agent := la_agent la\<rparr>
      in s\<lparr>rows := dict_set run_id rec' (rows s)\<rparr>)"

definition update_pid :: "(string list \<Rightarrow> string) \<Rightarrow> bool \<Rightarrow> string \<Rightarrow> int option \<Rightarrow> string list \<Rightarrow> store \<Rightarrow> store" where
  "update_pid dumps up run_id pid argv s =
     (case dict_get (rows s) run_id of
        None \<Rightarrow> s
      | Some r \<Rightarrow> if \<not> up then s
          else s\<lparr>rows := dict_set run_id (r\<lparr>sr_engine_pid := pid, sr_engine_argv := argv_text dumps argv\<rparr>) (rows s)\<rparr>)"

section \<open>Finish\<close>

record finish =
  fi_status :: string
  fi_error_tail :: "string option"
  fi_nodes :: "int option"
  fi_edges :: "int option"
  fi_recovery :: "string option"

definition fits :: "nat option \<Rightarrow> string option \<Rightarrow> bool" where
  "fits width v = (case (width, v) of (Some w, Some s) \<Rightarrow> length s \<le> w | _ \<Rightarrow> True)"

definition finished_row :: "int \<Rightarrow> finish \<Rightarrow> scan_row \<Rightarrow> scan_row" where
  "finished_row now f r = r\<lparr>sr_status := fi_status f, sr_completed_at := Some now,
     sr_error_tail := (case fi_error_tail f of None \<Rightarrow> sr_error_tail r | Some e \<Rightarrow> Some e),
     sr_nodes := (case fi_nodes f of None \<Rightarrow> sr_nodes r | Some n \<Rightarrow> Some n),
     sr_edges := (case fi_edges f of None \<Rightarrow> sr_edges r | Some n \<Rightarrow> Some n),
     sr_recovery := (case fi_recovery f of None \<Rightarrow> sr_recovery r | Some x \<Rightarrow> Some x), sr_engine_pid := None\<rparr>"

text \<open>An error of the commit is caught: the row stays as it was.\<close>

definition record_finish :: "nat option \<Rightarrow> bool \<Rightarrow> int \<Rightarrow> string \<Rightarrow> finish \<Rightarrow> store \<Rightarrow> store" where
  "record_finish width up now run_id f s =
     (case dict_get (rows s) run_id of
        None \<Rightarrow> s
      | Some r \<Rightarrow>
          if \<not> up \<or> \<not> fits width (fi_recovery f) then s
          else s\<lparr>rows := dict_set run_id (finished_row now f r) (rows s),
                 webhooks := (if fi_status f = ''completed''
                   then webhooks s @ [(sr_project r, sr_report_path r, run_id)] else webhooks s)\<rparr>)"

section \<open>Claims\<close>

definition active_for_recovery :: "store \<Rightarrow> string list" where
  "active_for_recovery s = map fst (filter (\<lambda>(_, r). sr_status r = ''running'' \<and> sr_agent r = None) (rows s))"

definition active_agent_scans :: "store \<Rightarrow> string list" where
  "active_agent_scans s = map fst (filter (\<lambda>(_, r). sr_status r = ''running'' \<and> sr_agent r \<noteq> None) (rows s))"

text \<open>The conditional updates: the number of rows they match decides who won.\<close>

definition update_state :: "(scan_row \<Rightarrow> bool) \<Rightarrow> string \<Rightarrow> bool \<Rightarrow> string \<Rightarrow> store \<Rightarrow> bool \<times> store" where
  "update_state matches new up run_id s =
     (case dict_get (rows s) run_id of
        None \<Rightarrow> (False, s)
      | Some r \<Rightarrow>
          if up \<and> matches r then (True, s\<lparr>rows := dict_set run_id (r\<lparr>sr_recovery := Some new\<rparr>) (rows s)\<rparr>)
          else (False, s))"

definition claim_for_recovery :: "bool \<Rightarrow> string \<Rightarrow> store \<Rightarrow> bool \<times> store" where
  "claim_for_recovery = update_state (\<lambda>r. sr_status r = ''running'' \<and> sr_recovery r = None) ''claimed''"

definition mark_finalizing :: "bool \<Rightarrow> string \<Rightarrow> store \<Rightarrow> store" where
  "mark_finalizing up run_id s = snd (update_state (\<lambda>r. sr_status r = ''running'') ''finalizing'' up run_id s)"

definition reclaim_finalizing :: "bool \<Rightarrow> string \<Rightarrow> store \<Rightarrow> bool \<times> store" where
  "reclaim_finalizing = update_state (\<lambda>r. sr_status r = ''running'' \<and> sr_recovery r = Some ''finalizing'') ''claimed''"

definition active_count :: "int option \<Rightarrow> store \<Rightarrow> nat" where
  "active_count user s = length (filter (\<lambda>(_, r). sr_status r = ''running'' \<and> (user = None \<or> user = Some (sr_user r))) (rows s))"

section \<open>The view for the status page\<close>

definition opt_val :: "('a \<Rightarrow> pyval) \<Rightarrow> 'a option \<Rightarrow> pyval" where
  "opt_val f x = (case x of None \<Rightarrow> PNone | Some y \<Rightarrow> f y)"

definition run_view :: "(string \<Rightarrow> string list option) \<Rightarrow> (int \<Rightarrow> string) \<Rightarrow> string \<Rightarrow> store \<Rightarrow> (string, pyval) dict option" where
  "run_view loads isofmt run_id s =
     (case dict_get (rows s) run_id of
        None \<Rightarrow> None
      | Some r \<Rightarrow>
          let argv = (case sr_engine_argv r of None \<Rightarrow> None | Some t \<Rightarrow> if t = [] then None else loads t) in
          Some [(''run_id'', PStr run_id), (''user_id'', PInt (sr_user r)), (''project_id'', opt_val PInt (sr_project r)),
            (''command'', PStr (sr_command r)), (''scan_profile'', PStr (sr_profile r)), (''status'', PStr (sr_status r)),
            (''started_at'', opt_val (PStr \<circ> isofmt) (sr_started_at r)), (''finished_at'', opt_val (PStr \<circ> isofmt) (sr_completed_at r)),
            (''report_path'', opt_val PStr (sr_report_path r)), (''pcap_path'', opt_val PStr (sr_pcap_path r)),
            (''engine_pid'', opt_val PInt (sr_engine_pid r)), (''engine_argv'', opt_val (PList \<circ> map PStr) argv),
            (''timeout_at'', opt_val (PStr \<circ> isofmt) (sr_timeout_at r)), (''recovery_state'', opt_val PStr (sr_recovery r)),
            (''node_count'', PInt (case sr_nodes r of None \<Rightarrow> 0 | Some n \<Rightarrow> n)),
            (''edge_count'', PInt (case sr_edges r of None \<Rightarrow> 0 | Some n \<Rightarrow> n)), (''error_tail'', opt_val PStr (sr_error_tail r))])"

section \<open>Lemmas\<close>

definition row :: "store \<Rightarrow> string \<Rightarrow> scan_row option" where
  "row s run_id = dict_get (rows s) run_id"

definition store_ok :: "store \<Rightarrow> bool" where
  "store_ok s \<longleftrightarrow> dict_ok (rows s)"

lemma row_finish: "row (record_finish width up now k f s) j =
    (if j = k \<and> up \<and> fits width (fi_recovery f) then map_option (finished_row now f) (row s k) else row s j)"
  by (cases "dict_get (rows s) k") (simp_all add: row_def record_finish_def dict_get_set)

lemma row_update: "row (snd (update_state m new up k s)) j =
    (if j = k \<and> up then map_option (\<lambda>r. if m r then r\<lparr>sr_recovery := Some new\<rparr> else r) (row s k) else row s j)"
  by (cases "dict_get (rows s) k") (simp_all add: row_def update_state_def dict_get_set)

lemma won_update: "fst (update_state m new up k s) \<longleftrightarrow> up \<and> (\<exists>r. row s k = Some r \<and> m r)"
  by (cases "dict_get (rows s) k") (simp_all add: row_def update_state_def)

lemma claim_row: "row (snd (claim_for_recovery up k s)) j =
    (if j = k \<and> up then map_option (\<lambda>r. if sr_status r = ''running'' \<and> sr_recovery r = None
        then r\<lparr>sr_recovery := Some ''claimed''\<rparr> else r) (row s k) else row s j)"
  unfolding claim_for_recovery_def by (rule row_update)

lemma claim_won: "fst (claim_for_recovery up k s) \<longleftrightarrow>
    up \<and> (\<exists>r. row s k = Some r \<and> sr_status r = ''running'' \<and> sr_recovery r = None)"
  unfolding claim_for_recovery_def by (rule won_update)

lemma reclaim_row: "row (snd (reclaim_finalizing up k s)) j =
    (if j = k \<and> up then map_option (\<lambda>r. if sr_status r = ''running'' \<and> sr_recovery r = Some ''finalizing''
        then r\<lparr>sr_recovery := Some ''claimed''\<rparr> else r) (row s k) else row s j)"
  unfolding reclaim_finalizing_def by (rule row_update)

lemma reclaim_won: "fst (reclaim_finalizing up k s) \<longleftrightarrow>
    up \<and> (\<exists>r. row s k = Some r \<and> sr_status r = ''running'' \<and> sr_recovery r = Some ''finalizing'')"
  unfolding reclaim_finalizing_def by (rule won_update)

lemma update_state_lost: "\<not> fst (update_state m new up k s) \<Longrightarrow> snd (update_state m new up k s) = s"
  by (cases "dict_get (rows s) k") (auto simp: update_state_def)

lemma update_state_wins:
  "row s k = Some r \<Longrightarrow> m r \<Longrightarrow> \<exists>s1. update_state m new True k s = (True, s1)
     \<and> row s1 = (row s)(k \<mapsto> r\<lparr>sr_recovery := Some new\<rparr>)"
  by (simp add: row_def update_state_def dict_get_set fun_eq_iff)

lemma update_state_loses: "row s k = Some r \<Longrightarrow> \<not> m r \<Longrightarrow> update_state m new up k s = (False, s)"
  by (simp add: row_def update_state_def)

lemma claim_wins:
  "row s k = Some r \<Longrightarrow> sr_status r = ''running'' \<Longrightarrow> sr_recovery r = None \<Longrightarrow>
   \<exists>s1. claim_for_recovery True k s = (True, s1) \<and> row s1 = (row s)(k \<mapsto> r\<lparr>sr_recovery := Some ''claimed''\<rparr>)"
  unfolding claim_for_recovery_def by (rule update_state_wins) simp_all

lemma reclaim_wins:
  "row s k = Some r \<Longrightarrow> sr_status r = ''running'' \<Longrightarrow> sr_recovery r = Some ''finalizing'' \<Longrightarrow>
   \<exists>s1. reclaim_finalizing True k s = (True, s1) \<and> row s1 = (row s)(k \<mapsto> r\<lparr>sr_recovery := Some ''claimed''\<rparr>)"
  unfolding reclaim_finalizing_def by (rule update_state_wins) simp_all

lemma claim_loses:
  "row s k = Some r \<Longrightarrow> sr_recovery r \<noteq> None \<Longrightarrow> claim_for_recovery up k s = (False, s)"
  unfolding claim_for_recovery_def by (rule update_state_loses) auto

lemma reclaim_loses:
  "row s k = Some r \<Longrightarrow> sr_recovery r \<noteq> Some ''finalizing'' \<Longrightarrow> reclaim_finalizing up k s = (False, s)"
  unfolding reclaim_finalizing_def by (rule update_state_loses) auto

end
