(* ===== verification/Recovery.thy ===== *)
theory Recovery
  imports RunStore
begin

text \<open>
  \<open>marlinspike/recovery.py\<close>: at each boot the rows still marked running are reconciled with the
  host. The host (signals, command lines, report files, enrichment) is an argument. The long dash
  in the text of an abandoned run is written as a hyphen.
\<close>

section \<open>Liveness\<close>

datatype kill_result = KillOk | NoProcess | NotPermitted | KillFailed

datatype platform = Linux | Darwin | OtherOs

text \<open>A report file: absent, unreadable or no JSON, no text, or the value it holds.\<close>

datatype report_file = NoReport | BadReport | NotText | Report pyval

record host =
  h_platform :: platform
  h_kill :: "int \<Rightarrow> kill_result"
  h_cmdline :: "int \<Rightarrow> string option"
  h_report :: "string \<Rightarrow> report_file"
  h_enrich :: "string \<Rightarrow> string option"
  h_loads :: "string \<Rightarrow> string list option"
  h_width :: "nat option"
  h_timeout :: int

definition pid_alive :: "host \<Rightarrow> int option \<Rightarrow> bool" where
  "pid_alive h pid = (case pid of
       None \<Rightarrow> False
     | Some p \<Rightarrow> p > 0 \<and> (h_kill h p = KillOk \<or> h_kill h p = NotPermitted))"

definition plain_token :: "string \<Rightarrow> bool" where
  "plain_token t \<longleftrightarrow> t \<noteq> [] \<and> \<not> py_startswith t ''-''"

definition path_tokens :: "string list \<Rightarrow> string list" where
  "path_tokens expected = filter (\<lambda>t. plain_token t \<and> CHR ''/'' \<in> set t) (drop 1 expected)"

definition live_argv_matches :: "string list \<Rightarrow> string list \<Rightarrow> bool" where
  "live_argv_matches actual expected =
     (if actual = [] \<or> expected = [] then False
      else if path_tokens expected \<noteq> [] then list_ex (\<lambda>t. t \<in> set actual) (path_tokens expected)
      else list_ex (\<lambda>t. plain_token t \<and> t \<in> set actual) (drop 1 expected))"

text \<open>
  \<open>h_cmdline\<close> is the raw text of \<open>/proc/<pid>/cmdline\<close> on Linux and the stripped output of \<open>ps\<close> on
  macOS; \<open>None\<close> is any failure to get it.
\<close>

definition pid_argv_matches :: "host \<Rightarrow> int \<Rightarrow> string list option \<Rightarrow> bool" where
  "pid_argv_matches h pid expected =
     (case expected of
        None \<Rightarrow> True
      | Some ex \<Rightarrow>
          if ex = [] then True
          else case h_platform h of
              Linux \<Rightarrow> (case h_cmdline h pid of
                  None \<Rightarrow> False
                | Some raw \<Rightarrow> live_argv_matches (filter (\<lambda>a. a \<noteq> []) (py_split (CHR 0x00) raw)) ex)
            | Darwin \<Rightarrow> (case h_cmdline h pid of
                  None \<Rightarrow> False
                | Some cmdline \<Rightarrow> if cmdline = [] then False else live_argv_matches (py_split_ws cmdline) ex)
            | OtherOs \<Rightarrow> True)"

section \<open>Reports\<close>

definition final_stage :: string where
  "final_stage = ''Risk Surface Report''"

text \<open>\<open>x in v\<close>; \<open>None\<close> is the \<open>TypeError\<close>.\<close>

fun str_in :: "string \<Rightarrow> pyval \<Rightarrow> bool option" where
  "str_in x (PList vs) = Some (PStr x \<in> set vs)"
| "str_in x (PStr s) = Some (sublist x s)"
| "str_in x (PDict d) = Some (x \<in> fst ` set d)"
| "str_in x _ = None"

text \<open>\<open>None\<close> is an exception: the file is no text, or its value has not the shape expected.\<close>

definition report_complete :: "host \<Rightarrow> string option \<Rightarrow> bool option" where
  "report_complete h path =
     (case path of
        None \<Rightarrow> Some False
      | Some p \<Rightarrow>
          if p = [] then Some False
          else case h_report h p of
              NoReport \<Rightarrow> Some False
            | BadReport \<Rightarrow> Some False
            | NotText \<Rightarrow> None
            | Report v \<Rightarrow>
                (case v of
                   PDict d \<Rightarrow>
                     if truthy (obj_get d ''completed_stages'') then str_in final_stage (obj_get d ''completed_stages'')
                     else (case obj_get_or d ''results'' (PDict []) of
                         PDict r \<Rightarrow> str_in final_stage (py_or (obj_get r ''completed_stages'') (PList []))
                       | _ \<Rightarrow> None)
                 | _ \<Rightarrow> None))"

definition value_len :: "pyval \<Rightarrow> nat option" where
  "value_len v = (case v of PList xs \<Rightarrow> Some (length xs) | PStr s \<Rightarrow> Some (length s) | PDict d \<Rightarrow> Some (length d) | _ \<Rightarrow> None)"

text \<open>Node and edge counts; whatever raises leaves the counts it did not reach at zero.\<close>

definition report_counts :: "host \<Rightarrow> string option \<Rightarrow> int \<times> int" where
  "report_counts h path =
     (case path of
        Some p \<Rightarrow>
          (case h_report h p of
             Report (PDict d) \<Rightarrow>
               (case obj_get_or d ''results'' (PDict []) of
                  PDict r \<Rightarrow>
                    (case obj_get_or r ''topology'' (obj_get_or d ''topology'' (PDict [])) of
                       PDict t \<Rightarrow>
                         (case value_len (obj_get_or t ''nodes'' (PList [])) of
                            None \<Rightarrow> (0, 0)
                          | Some n \<Rightarrow>
                              (case value_len (obj_get_or t ''edges'' (PList [])) of
                                 None \<Rightarrow> (int n, 0) | Some m \<Rightarrow> (int n, int m)))
                     | _ \<Rightarrow> (0, 0))
                | _ \<Rightarrow> (0, 0))
           | _ \<Rightarrow> (0, 0))
      | None \<Rightarrow> (0, 0))"

definition ingest_finish :: "host \<Rightarrow> scan_row \<Rightarrow> finish" where
  "ingest_finish h r =
     (let (nodes, edges) = report_counts h (sr_report_path r);
          degraded = (case sr_report_path r of
              None \<Rightarrow> None
            | Some p \<Rightarrow>
                if sr_command r = ''chain'' \<and> p \<noteq> [] \<and> h_report h p \<noteq> NoReport
                then map_option (\<lambda>e. ''enrichment incomplete during recovery: '' @ e) (h_enrich h p) else None)
      in \<lparr>fi_status = ''completed'', fi_error_tail = degraded, fi_nodes = Some nodes, fi_edges = Some edges,
          fi_recovery = Some (if degraded \<noteq> None then ''reaped_completed_degraded'' else ''reaped_completed'')\<rparr>)"

section \<open>The reaper\<close>

record counters =
  c_checked :: nat
  c_reattached :: nat
  c_completed :: nat
  c_failed :: nat
  c_abandoned :: nat
  c_skipped :: nat

definition zero_counters :: "nat \<Rightarrow> counters" where
  "zero_counters n = \<lparr>c_checked = n, c_reattached = 0, c_completed = 0, c_failed = 0, c_abandoned = 0, c_skipped = 0\<rparr>"

record reaper =
  rp_store :: store
  rp_counters :: counters
  rp_watchers :: "(string \<times> int \<times> string option) list"

definition failed_finish :: "string \<Rightarrow> string \<Rightarrow> finish" where
  "failed_finish tail state = \<lparr>fi_status = ''failed'', fi_error_tail = Some tail, fi_nodes = None, fi_edges = None,
     fi_recovery = Some state\<rparr>"

definition abandoned_finish :: "host \<Rightarrow> finish" where
  "abandoned_finish h = failed_finish (''abandoned - scan exceeded '' @ show_int (h_timeout h)
     @ ''s deadline before Flask restart could observe completion'') ''reaped_abandoned''"

definition crashed_finish :: finish where
  "crashed_finish = failed_finish (''engine crashed mid-scan (Flask was unable to observe completion). ''
     @ ''PCAP is preserved; retry from the report viewer or upload page.'') ''reaped_failed''"

definition past_deadline :: "int \<Rightarrow> scan_row \<Rightarrow> bool" where
  "past_deadline now r = (case sr_timeout_at r of None \<Rightarrow> False | Some t \<Rightarrow> now > t)"

definition saved_argv :: "host \<Rightarrow> scan_row \<Rightarrow> string list option" where
  "saved_argv h r = (case sr_engine_argv r of None \<Rightarrow> None | Some t \<Rightarrow> if t = [] then None else h_loads h t)"

definition engine_alive :: "host \<Rightarrow> bool \<Rightarrow> scan_row \<Rightarrow> bool" where
  "engine_alive h reclaimed r \<longleftrightarrow> \<not> reclaimed \<and> (case sr_engine_pid r of
       None \<Rightarrow> False
     | Some pid \<Rightarrow> pid_alive h (Some pid) \<and> pid_argv_matches h pid (saved_argv h r))"

text \<open>The claim: not won, won, or won back from a worker that died while finalizing.\<close>

definition win_claim :: "bool \<Rightarrow> bool \<Rightarrow> string \<Rightarrow> store \<Rightarrow> bool option \<times> store" where
  "win_claim up past run_id s =
     (let (won, s1) = claim_for_recovery up run_id s in
      if won then (Some False, s1)
      else if past then (let (won2, s2) = reclaim_finalizing up run_id s1 in (if won2 then Some True else None, s2))
      else (None, s1))"

text \<open>One row of the loop; \<open>None\<close> is the exception of \<open>report_complete\<close>, which ends the whole walk.\<close>

definition reap_row :: "host \<Rightarrow> bool \<Rightarrow> int \<Rightarrow> string \<Rightarrow> reaper \<Rightarrow> reaper option" where
  "reap_row h up now run_id rp =
     (case row (rp_store rp) run_id of
        None \<Rightarrow> Some rp
      | Some r \<Rightarrow>
          let past = past_deadline now r; c = rp_counters rp in
          (case win_claim up past run_id (rp_store rp) of
             (None, s1) \<Rightarrow> Some (rp\<lparr>rp_store := s1, rp_counters := c\<lparr>c_skipped := c_skipped c + 1\<rparr>\<rparr>)
           | (Some reclaimed, s1) \<Rightarrow>
               if engine_alive h reclaimed r then
                 Some (rp\<lparr>rp_store := s1, rp_counters := c\<lparr>c_reattached := c_reattached c + 1\<rparr>,
                   rp_watchers := rp_watchers rp @ [(run_id, the (sr_engine_pid r), sr_report_path r)]\<rparr>)
               else
                 (case report_complete h (sr_report_path r) of
                    None \<Rightarrow> None
                  | Some True \<Rightarrow>
                      Some (rp\<lparr>rp_store := record_finish (h_width h) up now run_id (ingest_finish h r) s1,
                        rp_counters := c\<lparr>c_completed := c_completed c + 1\<rparr>\<rparr>)
                  | Some False \<Rightarrow>
                      if past \<and> \<not> reclaimed then
                        Some (rp\<lparr>rp_store := record_finish (h_width h) up now run_id (abandoned_finish h) s1,
                          rp_counters := c\<lparr>c_abandoned := c_abandoned c + 1\<rparr>\<rparr>)
                      else
                        Some (rp\<lparr>rp_store := record_finish (h_width h) up now run_id crashed_finish s1,
                          rp_counters := c\<lparr>c_failed := c_failed c + 1\<rparr>\<rparr>))))"

fun reap_rows :: "host \<Rightarrow> bool \<Rightarrow> int \<Rightarrow> string list \<Rightarrow> reaper \<Rightarrow> reaper option" where
  "reap_rows h up now [] rp = Some rp"
| "reap_rows h up now (k # ks) rp =
     (case reap_row h up now k rp of None \<Rightarrow> None | Some rp' \<Rightarrow> reap_rows h up now ks rp')"

definition reap_orphan_runs :: "host \<Rightarrow> bool \<Rightarrow> int \<Rightarrow> (store \<Rightarrow> string list) \<Rightarrow> store \<Rightarrow> reaper option" where
  "reap_orphan_runs h up now get_active s =
     (let active = get_active s in
      reap_rows h up now active \<lparr>rp_store = s, rp_counters = zero_counters (length active), rp_watchers = []\<rparr>)"

section \<open>The watcher\<close>

text \<open>One wake of the polling thread: \<open>None\<close> while the engine lives; the inner \<open>None\<close> is the exception.\<close>

definition watch_tick :: "host \<Rightarrow> bool \<Rightarrow> int \<Rightarrow> string \<Rightarrow> int \<Rightarrow> string option \<Rightarrow> store \<Rightarrow> store option option" where
  "watch_tick h up now run_id pid path s =
     (if pid_alive h (Some pid) then None
      else case report_complete h path of
          None \<Rightarrow> Some None
        | Some True \<Rightarrow> Some (Some (case row s run_id of
              None \<Rightarrow> s
            | Some r \<Rightarrow> record_finish (h_width h) up now run_id (ingest_finish h r) s))
        | Some False \<Rightarrow> Some (Some (record_finish (h_width h) up now run_id
            (failed_finish ''re-attached engine exited without writing a complete report'' ''reattached'') s)))"

section \<open>What becomes of a row\<close>

definition reclaimable :: "int \<Rightarrow> scan_row \<Rightarrow> bool" where
  "reclaimable now r \<longleftrightarrow> past_deadline now r \<and> sr_recovery r = Some ''finalizing''"

definition put_finish :: "host \<Rightarrow> int \<Rightarrow> finish \<Rightarrow> scan_row \<Rightarrow> scan_row" where
  "put_finish h now f r = (if fits (h_width h) (fi_recovery f) then finished_row now f r else r)"

definition verdict :: "host \<Rightarrow> int \<Rightarrow> scan_row \<Rightarrow> scan_row" where
  "verdict h now r =
     (if sr_status r \<noteq> ''running'' \<or> \<not> (sr_recovery r = None \<or> reclaimable now r) then r
      else let claimed = r\<lparr>sr_recovery := Some ''claimed''\<rparr>; reclaimed = (sr_recovery r \<noteq> None) in
        if engine_alive h reclaimed r then claimed
        else if report_complete h (sr_report_path r) = Some True then put_finish h now (ingest_finish h r) claimed
        else if past_deadline now r \<and> \<not> reclaimed then put_finish h now (abandoned_finish h) claimed
        else put_finish h now crashed_finish claimed)"

lemma win_claim_cases:
  assumes "row s k = Some r" "sr_status r = ''running''"
  shows "if sr_recovery r = None \<or> (past \<and> sr_recovery r = Some ''finalizing'')
    then fst (win_claim True past k s) = Some (sr_recovery r \<noteq> None)
       \<and> row (snd (win_claim True past k s)) = (row s)(k \<mapsto> r\<lparr>sr_recovery := Some ''claimed''\<rparr>)
    else win_claim True past k s = (None, s)"
proof (cases "sr_recovery r")
  case None
  with assms obtain s1 where "claim_for_recovery True k s = (True, s1)"
    "row s1 = (row s)(k \<mapsto> r\<lparr>sr_recovery := Some ''claimed''\<rparr>)"
    using claim_wins by blast
  with None show ?thesis by (simp add: win_claim_def)
next
  case (Some x)
  have lost: "claim_for_recovery True k s = (False, s)" using claim_loses [OF assms(1)] Some by simp
  show ?thesis
  proof (cases "past \<and> x = ''finalizing''")
    case True
    with Some assms obtain s1 where "reclaim_finalizing True k s = (True, s1)"
      "row s1 = (row s)(k \<mapsto> r\<lparr>sr_recovery := Some ''claimed''\<rparr>)"
      using reclaim_wins by blast
    with Some True show ?thesis by (simp add: win_claim_def lost)
  next
    case False
    have "x = ''finalizing'' \<or> reclaim_finalizing True k s = (False, s)"
      using reclaim_loses [OF assms(1), of True] Some by auto
    with False Some show ?thesis by (auto simp: win_claim_def lost)
  qed
qed

lemma row_finish_up:
  assumes "row s1 = (row s)(k \<mapsto> r')"
  shows "row (record_finish (h_width h) True now k f s1) = (row s)(k \<mapsto> put_finish h now f r')"
  using assms by (auto simp: row_finish put_finish_def fun_eq_iff)

definition counters_sum :: "counters \<Rightarrow> nat" where
  "counters_sum c = c_reattached c + c_completed c + c_failed c + c_abandoned c + c_skipped c"

lemma reap_row_spec:
  assumes "row (rp_store rp) k = Some r" "sr_status r = ''running''" "reap_row h True now k rp = Some rp'"
  shows "row (rp_store rp') = (row (rp_store rp))(k \<mapsto> verdict h now r)"
    and "counters_sum (rp_counters rp') = counters_sum (rp_counters rp) + 1"
    and "c_checked (rp_counters rp') = c_checked (rp_counters rp)"
proof -
  let ?s = "rp_store rp"
  let ?past = "past_deadline now r"
  have "row (rp_store rp') = (row ?s)(k \<mapsto> verdict h now r)
    \<and> counters_sum (rp_counters rp') = counters_sum (rp_counters rp) + 1
    \<and> c_checked (rp_counters rp') = c_checked (rp_counters rp)"
  proof (cases "sr_recovery r = None \<or> reclaimable now r")
    case False
    then have "win_claim True ?past k ?s = (None, ?s)"
      using win_claim_cases [OF assms(1,2), of ?past] by (auto simp: reclaimable_def)
    moreover have "verdict h now r = r" using False by (auto simp: verdict_def)
    ultimately show ?thesis using assms(1,3) by (auto simp: reap_row_def counters_sum_def Let_def fun_upd_idem)
  next
    case True
    let ?rc = "sr_recovery r \<noteq> None"
    let ?claimed = "r\<lparr>sr_recovery := Some ''claimed''\<rparr>"
    obtain s1 where s1: "win_claim True ?past k ?s = (Some ?rc, s1)" "row s1 = (row ?s)(k \<mapsto> ?claimed)"
      using win_claim_cases [OF assms(1,2), of ?past] True
      by (cases "win_claim True ?past k ?s") (auto simp: reclaimable_def)
    note run = assms(3) [unfolded reap_row_def assms(1) option.case Let_def s1(1) prod.case]
    note v = verdict_def [of h now r, unfolded Let_def]
    show ?thesis
    proof (cases "engine_alive h ?rc r")
      case alive: True
      then show ?thesis using run True assms(2) s1(2) by (auto simp: v counters_sum_def)
    next
      case dead: False
      show ?thesis
      proof (cases "report_complete h (sr_report_path r)")
        case None
        then show ?thesis using run dead by simp
      next
        case (Some b)
        show ?thesis
          using run dead Some True assms(2)
          by (cases b; cases "?past \<and> \<not> ?rc") (auto simp: v counters_sum_def row_finish_up [OF s1(2)])
      qed
    qed
  qed
  then show "row (rp_store rp') = (row ?s)(k \<mapsto> verdict h now r)"
    "counters_sum (rp_counters rp') = counters_sum (rp_counters rp) + 1"
    "c_checked (rp_counters rp') = c_checked (rp_counters rp)" by blast+
qed

lemma reap_rows_spec:
  "distinct ks \<Longrightarrow> \<forall>k \<in> set ks. \<exists>r. row (rp_store rp) k = Some r \<and> sr_status r = ''running'' \<Longrightarrow>
   reap_rows h True now ks rp = Some rp' \<Longrightarrow>
   (\<forall>j. row (rp_store rp') j = (if j \<in> set ks then map_option (verdict h now) (row (rp_store rp) j) else row (rp_store rp) j))
   \<and> counters_sum (rp_counters rp') = counters_sum (rp_counters rp) + length ks
   \<and> c_checked (rp_counters rp') = c_checked (rp_counters rp)"
proof (induction ks arbitrary: rp)
  case (Cons k ks)
  obtain r where r: "row (rp_store rp) k = Some r" "sr_status r = ''running''" using Cons.prems(2) by auto
  obtain rp1 where rp1: "reap_row h True now k rp = Some rp1" "reap_rows h True now ks rp1 = Some rp'"
    using Cons.prems(3) by (auto split: option.splits)
  note one = reap_row_spec [OF r rp1(1)]
  have "\<forall>j \<in> set ks. \<exists>r. row (rp_store rp1) j = Some r \<and> sr_status r = ''running''"
    using Cons.prems(1,2) by (auto simp: one(1))
  with Cons.IH [of rp1] Cons.prems(1) rp1(2)
  have "(\<forall>j. row (rp_store rp') j = (if j \<in> set ks then map_option (verdict h now) (row (rp_store rp1) j) else row (rp_store rp1) j))
   \<and> counters_sum (rp_counters rp') = counters_sum (rp_counters rp1) + length ks
   \<and> c_checked (rp_counters rp') = c_checked (rp_counters rp1)" by simp
  then show ?case using one Cons.prems(1) r(1) by auto
qed simp

lemma active_rows:
  assumes "store_ok s"
  shows "distinct (active_for_recovery s)"
    and "k \<in> set (active_for_recovery s) \<longleftrightarrow> (\<exists>r. row s k = Some r \<and> sr_status r = ''running'' \<and> sr_agent r = None)"
proof -
  have d: "dict_ok (rows s)" using assms by (simp add: store_ok_def)
  then show "distinct (active_for_recovery s)"
    unfolding active_for_recovery_def dict_ok_def by (rule distinct_map_filter)
  show "k \<in> set (active_for_recovery s) \<longleftrightarrow> (\<exists>r. row s k = Some r \<and> sr_status r = ''running'' \<and> sr_agent r = None)"
    using dict_get_mem [OF d] by (force simp: active_for_recovery_def row_def)
qed

text \<open>Workers that boot together claim rows in some order.\<close>

fun claims :: "string list \<Rightarrow> store \<Rightarrow> (string \<times> bool) list \<times> store" where
  "claims [] s = ([], s)"
| "claims (k # ks) s = (let (w, s1) = claim_for_recovery True k s; (ws, s2) = claims ks s1 in ((k, w) # ws, s2))"

definition claimable :: "store \<Rightarrow> string \<Rightarrow> bool" where
  "claimable s k \<longleftrightarrow> (\<exists>r. row s k = Some r \<and> sr_status r = ''running'' \<and> sr_recovery r = None)"

lemma claim_claimable:
  "claim_for_recovery True k s = (w, s1) \<Longrightarrow> w = claimable s k \<and> claimable s1 j = (claimable s j \<and> j \<noteq> k)"
  using claim_won [of True k s] claim_row [of True k s j] by (auto simp: claimable_def split: if_splits)

lemma claims_count:
  "length (filter (\<lambda>(j, w). j = k \<and> w) (fst (claims ks s))) = (if claimable s k \<and> k \<in> set ks then 1 else 0)"
proof (induction ks arbitrary: s)
  case (Cons i ks)
  obtain w s1 where c: "claim_for_recovery True i s = (w, s1)" by force
  have w: "w = claimable s i" and k: "claimable s1 k = (claimable s k \<and> k \<noteq> i)" using claim_claimable [OF c] by blast+
  have "fst (claims (i # ks) s) = (i, w) # fst (claims ks s1)" by (simp add: c split: prod.split)
  then show ?case using Cons.IH [of s1] w k by auto
qed simp

section \<open>Properties\<close>

text \<open>
  However many workers claim however many runs in whatever order, each run that was running
  and unclaimed and that somebody claims is won exactly once, and any other run never.
\<close>

theorem claim_exactly_once:
  "length (filter (\<lambda>(j, w). j = k \<and> w) (fst (claims ks s))) = (if claimable s k \<and> k \<in> set ks then 1 else 0)"
  by (rule claims_count)

text \<open>
  C20. A walk over the running rows of the application that ends does to each of them what the
  verdict on this row alone says, leaves all other rows as they are, and its counters add up to
  the number of rows it checked.
\<close>

theorem reap_is_verdict_per_row:
  assumes "store_ok s" "reap_orphan_runs h True now active_for_recovery s = Some rp"
  shows "(\<forall>k. row (rp_store rp) k = (case row s k of None \<Rightarrow> None | Some r \<Rightarrow>
           Some (if sr_agent r = None then verdict h now r else r)))
     \<and> counters_sum (rp_counters rp) = c_checked (rp_counters rp)"
proof -
  let ?ks = "active_for_recovery s"
  let ?rp = "\<lparr>rp_store = s, rp_counters = zero_counters (length ?ks), rp_watchers = []\<rparr>"
  have run: "reap_rows h True now ?ks ?rp = Some rp" using assms(2) by (simp add: reap_orphan_runs_def Let_def)
  have act: "\<forall>k \<in> set ?ks. \<exists>r. row (rp_store ?rp) k = Some r \<and> sr_status r = ''running''"
    using active_rows(2) [OF assms(1)] by auto
  note spec = reap_rows_spec [OF active_rows(1) [OF assms(1)] act run]
  have "row (rp_store rp) k = (case row s k of None \<Rightarrow> None | Some r \<Rightarrow> Some (if sr_agent r = None then verdict h now r else r))" for k
  proof (cases "row s k")
    case None
    then show ?thesis using spec active_rows(2) [OF assms(1)] by simp
  next
    case (Some r)
    then show ?thesis using spec active_rows(2) [OF assms(1), of k] by (auto simp: verdict_def)
  qed
  then show ?thesis using spec by (simp add: zero_counters_def counters_sum_def)
qed

text \<open>
  The verdict fails a run only when it was running and its engine is not known to be alive (or
  it was won back from a dead finalizing worker) and it has no complete report: a complete report
  is never thrown away, a live engine never given up, whatever the deadline.
\<close>

theorem verdict_fails_only_dead_incomplete:
  assumes "sr_status (verdict h now r) = ''failed''" "sr_status r \<noteq> ''failed''"
  shows "sr_status r = ''running'' \<and> report_complete h (sr_report_path r) \<noteq> Some True
    \<and> (sr_recovery r = None \<and> \<not> engine_alive h False r \<or> past_deadline now r \<and> sr_recovery r = Some ''finalizing'')"
proof -
  have fin: "sr_status (put_finish h now f r') \<in> {fi_status f, sr_status r'}" for f r'
    by (simp add: put_finish_def finished_row_def)
  have "fi_status (ingest_finish h r) = ''completed''" by (simp add: ingest_finish_def Let_def split: prod.split)
  with assms fin [of "ingest_finish h r" "r\<lparr>sr_recovery := Some ''claimed''\<rparr>"] show ?thesis
    by (auto simp: verdict_def Let_def reclaimable_def split: if_splits)
qed

text \<open>
  A row that a reaper has claimed, for instance because its engine still lived, is never
  reconciled again: every later walk, in whatever state the host is then, skips it, so that it
  stays marked running if the process that watched it is gone.
\<close>

theorem claimed_row_never_reaped:
  assumes "store_ok s" "row s k = Some r" "sr_status r = ''running''" "sr_recovery r = Some ''claimed''"
    and "reap_orphan_runs h True now active_for_recovery s = Some rp"
  shows "row (rp_store rp) k = Some r"
proof -
  let ?ks = "active_for_recovery s"
  let ?rp = "\<lparr>rp_store = s, rp_counters = zero_counters (length ?ks), rp_watchers = []\<rparr>"
  have run: "reap_rows h True now ?ks ?rp = Some rp" using assms(5) by (simp add: reap_orphan_runs_def Let_def)
  have act: "\<forall>k \<in> set ?ks. \<exists>r. row (rp_store ?rp) k = Some r \<and> sr_status r = ''running''"
    using active_rows(2) [OF assms(1)] by auto
  have "verdict h now r = r" using assms(4) by (simp add: verdict_def reclaimable_def)
  then show ?thesis using reap_rows_spec [OF active_rows(1) [OF assms(1)] act run] assms(2) by simp
qed

text \<open>
  On a database that enforces the length of its columns, a dead run with a complete report
  whose enrichment fails is counted as completed, yet its row stays running and claimed: the
  state \<open>reaped_completed_degraded\<close> has 25 characters, the column 20.
\<close>

theorem degraded_completion_lost:
  assumes "row (rp_store rp) k = Some r" "sr_status r = ''running''" "sr_recovery r = None" "\<not> engine_alive h False r"
    and "report_complete h (sr_report_path r) = Some True" "sr_command r = ''chain''"
    and "h_enrich h (the (sr_report_path r)) = Some e" "h_width h = Some 20"
  shows "\<exists>rp'. reap_row h True now k rp = Some rp' \<and> row (rp_store rp') k = Some (r\<lparr>sr_recovery := Some ''claimed''\<rparr>)
     \<and> c_completed (rp_counters rp') = c_completed (rp_counters rp) + 1"
proof -
  obtain p where p: "sr_report_path r = Some p" "p \<noteq> []" "h_report h p \<noteq> NoReport"
    using assms(5) by (auto simp: report_complete_def split: option.splits if_splits report_file.splits)
  then have "fi_recovery (ingest_finish h r) = Some ''reaped_completed_degraded''"
    using assms(6,7) by (simp add: ingest_finish_def Let_def split: prod.split)
  then have keep: "put_finish h now (ingest_finish h r) r' = r'" for r'
    using assms(8) by (simp add: put_finish_def fits_def)
  obtain s1 where s1: "claim_for_recovery True k (rp_store rp) = (True, s1)"
    "row s1 = (row (rp_store rp))(k \<mapsto> r\<lparr>sr_recovery := Some ''claimed''\<rparr>)"
    using claim_wins [OF assms(1-3)] by blast
  then have "reap_row h True now k rp = Some (rp\<lparr>rp_store := record_finish (h_width h) True now k (ingest_finish h r) s1,
      rp_counters := (rp_counters rp)\<lparr>c_completed := c_completed (rp_counters rp) + 1\<rparr>\<rparr>)"
    using assms(1,4,5) by (simp add: reap_row_def win_claim_def Let_def)
  then show ?thesis using row_finish_up [OF s1(2), of h now "ingest_finish h r"] by (simp add: keep)
qed

subsection \<open>Witnesses\<close>

definition demo_host :: host where
  "demo_host = \<lparr>h_platform = Linux, h_kill = (\<lambda>p. if p = 7 then KillOk else NoProcess), h_cmdline = (\<lambda>_. None),
     h_report = (\<lambda>p. if p = ''full.json'' then Report (PDict [(''completed_stages'', PList [PStr ''Risk Surface Report''])])
       else NoReport),
     h_enrich = (\<lambda>_. Some ''boom''), h_loads = (\<lambda>_. None), h_width = Some 20, h_timeout = 5\<rparr>"

definition demo_run :: "string \<Rightarrow> int option \<Rightarrow> string option \<Rightarrow> scan_row" where
  "demo_run report pid state = (new_scan_row 1 0)\<lparr>sr_command := ''chain'', sr_status := ''running'',
     sr_report_path := Some report, sr_engine_pid := pid, sr_recovery := state\<rparr>"

definition demo_store :: store where
  "demo_store = \<lparr>rows = [(''a'', demo_run ''none.json'' None None), (''b'', demo_run ''none.json'' (Some 7) (Some ''claimed'')),
     (''c'', demo_run ''full.json'' None None)], webhooks = []\<rparr>"

lemma demo_store_ok: "store_ok demo_store"
  by (simp add: store_ok_def dict_ok_def demo_store_def)

lemma demo_reap: "\<exists>rp. reap_orphan_runs demo_host True 9 active_for_recovery demo_store = Some rp"
proof -
  have "reap_orphan_runs demo_host True 9 active_for_recovery demo_store \<noteq> None" by code_simp
  then show ?thesis by blast
qed

theorem reap_is_verdict_per_row_witness:
  "\<exists>rp. reap_orphan_runs demo_host True 9 active_for_recovery demo_store = Some rp
     \<and> row (rp_store rp) ''a'' = Some (verdict demo_host 9 (demo_run ''none.json'' None None))
     \<and> counters_sum (rp_counters rp) = c_checked (rp_counters rp)"
proof -
  obtain rp where rp: "reap_orphan_runs demo_host True 9 active_for_recovery demo_store = Some rp" using demo_reap by blast
  have "row demo_store ''a'' = Some (demo_run ''none.json'' None None)" by (simp add: row_def demo_store_def)
  moreover have "sr_agent (demo_run ''none.json'' None None) = None" by (simp add: demo_run_def new_scan_row_def)
  ultimately show ?thesis using reap_is_verdict_per_row [OF demo_store_ok rp] rp by simp
qed

theorem verdict_fails_only_dead_incomplete_witness:
  "\<not> engine_alive demo_host False (demo_run ''none.json'' None None)"
  using verdict_fails_only_dead_incomplete [of demo_host 9 "demo_run ''none.json'' None None"]
  by (simp add: verdict_def demo_run_def new_scan_row_def engine_alive_def report_complete_def demo_host_def
      past_deadline_def put_finish_def crashed_finish_def failed_finish_def fits_def finished_row_def)

theorem claimed_row_never_reaped_witness:
  "\<exists>rp. reap_orphan_runs demo_host True 9 active_for_recovery demo_store = Some rp
     \<and> row (rp_store rp) ''b'' = Some (demo_run ''none.json'' (Some 7) (Some ''claimed''))"
proof -
  obtain rp where rp: "reap_orphan_runs demo_host True 9 active_for_recovery demo_store = Some rp" using demo_reap by blast
  have "row demo_store ''b'' = Some (demo_run ''none.json'' (Some 7) (Some ''claimed''))"
    "sr_status (demo_run ''none.json'' (Some 7) (Some ''claimed'')) = ''running''"
    "sr_recovery (demo_run ''none.json'' (Some 7) (Some ''claimed'')) = Some ''claimed''"
    by (simp_all add: row_def demo_store_def demo_run_def)
  from claimed_row_never_reaped [OF demo_store_ok this rp] rp show ?thesis by blast
qed

theorem degraded_completion_lost_witness:
  "\<exists>rp'. reap_row demo_host True 9 ''c'' \<lparr>rp_store = demo_store, rp_counters = zero_counters 3, rp_watchers = []\<rparr> = Some rp'
     \<and> row (rp_store rp') ''c'' = Some ((demo_run ''full.json'' None None)\<lparr>sr_recovery := Some ''claimed''\<rparr>)"
proof -
  let ?rp = "\<lparr>rp_store = demo_store, rp_counters = zero_counters 3, rp_watchers = []\<rparr>"
  have r: "row (rp_store ?rp) ''c'' = Some (demo_run ''full.json'' None None)" by (simp add: row_def demo_store_def)
  have "report_complete demo_host (sr_report_path (demo_run ''full.json'' None None)) = Some True"
    by (simp add: report_complete_def demo_run_def demo_host_def obj_get_def final_stage_def)
  from degraded_completion_lost [OF r _ _ _ this, of "''boom''" 9] show ?thesis
    by (auto simp: demo_run_def engine_alive_def demo_host_def new_scan_row_def)
qed

end
