(* ===== verification/Auth.thy ===== *)
theory Auth
  imports PyVal
begin

text \<open>
  Accounts and sessions: \<open>marlinspike/auth.py\<close>, \<open>marlinspike/csrf.py\<close> and the writer of
  \<open>marlinspike/audit.py\<close>. The database is a table of users, one of reset tokens and the
  audit rows; times are microseconds in UTC. Password hashing, the token digest and the
  random source are library code and are arguments; the primary key and the salt that a row
  is created with are arguments as well, so that a theorem can quantify over them.
\<close>

section \<open>Rows, request context, audit\<close>

record user =
  us_id :: int
  us_name :: string
  us_hash :: string
  us_role :: string
  us_version :: int
  us_attempts :: nat
  us_locked :: "int option"
  us_limit :: int

record reset_token =
  rt_id :: int
  rt_user :: int
  rt_hash :: string
  rt_expires :: int
  rt_used :: "int option"
  rt_ip :: "string option"

record audit_row =
  ar_event :: string
  ar_category :: string
  ar_actor_id :: "int option"
  ar_actor_name :: "string option"
  ar_actor_role :: "string option"
  ar_target_type :: "string option"
  ar_target_id :: "string option"
  ar_status :: string
  ar_ip :: "string option"
  ar_detail :: "pyval option"

record auth =
  users :: "(int, user) dict"
  tokens :: "(int, reset_token) dict"
  audit_rows :: "audit_row list"

text \<open>The request: the keys of the signed session cookie and the peer's address.\<close>

record web =
  w_user :: "string option"
  w_uid :: "int option"
  w_role :: "string option"
  w_version :: "int option"
  w_csrf :: "string option"
  w_ip :: "string option"

definition session_clear :: "web \<Rightarrow> web" where
  "session_clear w = w\<lparr>w_user := None, w_uid := None, w_role := None, w_version := None, w_csrf := None\<rparr>"

text \<open>The keyword arguments of \<open>audit\<close>, and their defaults.\<close>

record audit_args =
  aa_target_type :: "string option"
  aa_target_id :: "string option"
  aa_status :: string
  aa_detail :: "pyval option"
  aa_actor_id :: "int option"
  aa_actor_name :: "string option"
  aa_ip :: "string option"

definition no_args :: audit_args where
  "no_args = \<lparr>aa_target_type = None, aa_target_id = None, aa_status = ''success'', aa_detail = None,
     aa_actor_id = None, aa_actor_name = None, aa_ip = None\<rparr>"

definition about_user :: "string \<Rightarrow> audit_args" where
  "about_user i = no_args\<lparr>aa_target_type := Some ''user'', aa_target_id := Some i\<rparr>"

definition or_else :: "'a option \<Rightarrow> 'a option \<Rightarrow> 'a option" where
  "or_else x y = (case x of None \<Rightarrow> y | Some _ \<Rightarrow> x)"

text \<open>Without a dot the whole event type is the category; the split's first piece is then the same.\<close>

definition audit_row_of :: "web \<Rightarrow> string \<Rightarrow> audit_args \<Rightarrow> audit_row" where
  "audit_row_of w event a =
     \<lparr>ar_event = event, ar_category = hd (py_split (CHR ''.'') event),
       ar_actor_id = or_else (aa_actor_id a) (w_uid w), ar_actor_name = or_else (aa_actor_name a) (w_user w),
       ar_actor_role = w_role w, ar_target_type = aa_target_type a, ar_target_id = aa_target_id a,
       ar_status = aa_status a, ar_ip = or_else (aa_ip a) (w_ip w), ar_detail = aa_detail a\<rparr>"

definition audit :: "web \<Rightarrow> string \<Rightarrow> audit_args \<Rightarrow> auth \<Rightarrow> auth" where
  "audit w event a s = s\<lparr>audit_rows := audit_rows s @ [audit_row_of w event a]\<rparr>"

section \<open>CSRF tokens\<close>

text \<open>\<open>fresh\<close> is the next value of \<open>secrets.token_urlsafe\<close>.\<close>

definition csrf_token :: "string \<Rightarrow> web \<Rightarrow> string \<times> web" where
  "csrf_token fresh w = (case w_csrf w of
       None \<Rightarrow> (fresh, w\<lparr>w_csrf := Some fresh\<rparr>)
     | Some t \<Rightarrow> (t, w))"

definition validate_csrf :: "string option \<Rightarrow> web \<Rightarrow> bool" where
  "validate_csrf candidate w = (case candidate of
       None \<Rightarrow> False
     | Some c \<Rightarrow> c \<noteq> [] \<and> (case w_csrf w of None \<Rightarrow> False | Some t \<Rightarrow> t \<noteq> [] \<and> t = c))"

definition rotate_csrf :: "web \<Rightarrow> web" where
  "rotate_csrf w = w\<lparr>w_csrf := None\<rparr>"

section \<open>Session checks\<close>

datatype http =
    Redirect string
  | Json "(string, pyval) dict" nat
  | Plain string nat
  | Page string "(string, string) dict"

type_synonym view = "web \<Rightarrow> auth \<Rightarrow> http \<times> web \<times> auth"

definition session_invalidated :: "web \<Rightarrow> auth \<Rightarrow> bool" where
  "session_invalidated w s = (case (w_version w, w_uid w) of
       (Some v, Some i) \<Rightarrow> (case dict_get (users s) i of
           None \<Rightarrow> True
         | Some u \<Rightarrow> us_version u \<noteq> v)
     | _ \<Rightarrow> False)"

definition login_required :: "view \<Rightarrow> view" where
  "login_required f w s =
     (if w_user w = None then (Redirect ''login_page'', w, s)
      else if session_invalidated w s then (Redirect ''login_page'', session_clear w, s)
      else f w s)"

definition api_error :: "string \<Rightarrow> nat \<Rightarrow> http" where
  "api_error msg c = Json [(''error'', PStr msg)] c"

definition admin_required :: "string \<Rightarrow> view \<Rightarrow> view" where
  "admin_required path f w s =
     (let is_api = py_startswith path ''/api/'' in
      if w_user w = None then
        (if is_api then api_error ''Not authenticated'' 401 else Redirect ''login_page'', w, s)
      else if session_invalidated w s then
        (if is_api then api_error ''Session expired'' 401 else Redirect ''login_page'', session_clear w, s)
      else if w_role w \<noteq> Some ''admin'' then
        (if is_api then api_error ''Admin role required'' 403 else Plain ''Forbidden'' 403, w, s)
      else f w s)"

section \<open>Users\<close>

definition minutes :: "int \<Rightarrow> int" where
  "minutes m = m * 60000000"

definition put_user :: "user \<Rightarrow> auth \<Rightarrow> auth" where
  "put_user u s = s\<lparr>users := dict_set (us_id u) u (users s)\<rparr>"

definition find_user :: "string \<Rightarrow> auth \<Rightarrow> user option" where
  "find_user name s = find (\<lambda>u. us_name u = name) (map snd (users s))"

text \<open>
  \<open>uid\<close> is the key the database assigns. The username column is unique, so committing a
  second row with the name raises.
\<close>

definition create_user ::
    "(string \<Rightarrow> string) \<Rightarrow> int \<Rightarrow> int \<Rightarrow> string \<Rightarrow> string \<Rightarrow> string \<Rightarrow> int option \<Rightarrow> auth \<Rightarrow> (py_exc + user) \<times> auth" where
  "create_user hash default_limit uid username password role limit s =
     (let u = \<lparr>us_id = uid, us_name = username, us_hash = hash password, us_role = role, us_version = 1,
         us_attempts = 0, us_locked = None,
         us_limit = (case limit of None \<Rightarrow> default_limit | Some l \<Rightarrow> l)\<rparr>
      in if find_user username s \<noteq> None then (Inl IntegrityError, s)
         else (Inr u, put_user u s))"

definition max_failed_attempts :: nat where "max_failed_attempts = 5"
definition lockout_minutes :: int where "lockout_minutes = 15"

definition is_locked :: "int \<Rightarrow> user \<Rightarrow> bool" where
  "is_locked now u = (case us_locked u of None \<Rightarrow> False | Some t \<Rightarrow> now < t)"

definition failed_login :: "(int \<Rightarrow> string) \<Rightarrow> int \<Rightarrow> web \<Rightarrow> user \<Rightarrow> auth \<Rightarrow> auth" where
  "failed_login isoformat now w u s =
     (let n = us_attempts u + 1;
          until = now + minutes lockout_minutes
      in if n \<ge> max_failed_attempts then
           audit w ''auth.account_locked''
             ((about_user (us_name u))\<lparr>aa_status := ''failure'',
               aa_detail := Some (PDict [(''failed_attempts'', PInt (int n)), (''locked_until'', PStr (isoformat until))])\<rparr>)
             (put_user (u\<lparr>us_attempts := n, us_locked := Some until\<rparr>) s)
         else put_user (u\<lparr>us_attempts := n\<rparr>) s)"

text \<open>
  One login attempt, as one step: the row is read, the password compared and the counter written
  without another request in between. The code holds no lock over these, so concurrent attempts
  may read the same counter.
\<close>

definition verify_user ::
    "(string \<Rightarrow> string \<Rightarrow> bool) \<Rightarrow> string \<Rightarrow> (int \<Rightarrow> string) \<Rightarrow> int \<Rightarrow> web \<Rightarrow> string \<Rightarrow> string \<Rightarrow> auth \<Rightarrow> user option \<times> auth" where
  "verify_user check dummy isoformat now w username password s =
     (let found = find_user username s in
      if (case found of None \<Rightarrow> False | Some u \<Rightarrow> is_locked now u) then (None, s)
      else
        let password_ok = check (case found of None \<Rightarrow> dummy | Some u \<Rightarrow> us_hash u) password in
        (case found of
          None \<Rightarrow> (None, s)
        | Some u \<Rightarrow>
            if password_ok then
              (let u' = u\<lparr>us_attempts := 0, us_locked := None\<rparr> in
               if us_attempts u \<noteq> 0 \<or> us_locked u \<noteq> None then (Some u', put_user u' s) else (Some u, s))
            else (None, failed_login isoformat now w u s)))"

definition bump_version :: "int \<Rightarrow> int" where
  "bump_version v = (if v = 0 then 1 else v) + 1"

definition set_password :: "string \<Rightarrow> user \<Rightarrow> user" where
  "set_password h u = u\<lparr>us_hash := h, us_version := bump_version (us_version u)\<rparr>"

definition change_password :: "(string \<Rightarrow> string) \<Rightarrow> user \<Rightarrow> string \<Rightarrow> web \<Rightarrow> auth \<Rightarrow> web \<times> auth" where
  "change_password hash u new_password w s = (rotate_csrf w, put_user (set_password (hash new_password) u) s)"

definition password_alphabet :: string where
  "password_alphabet = ''abcdefghijklmnopqrstuvwxyzABCDEFGHIJKLMNOPQRSTUVWXYZ0123456789!@#$%&*''"

text \<open>\<open>draw i n\<close> is the i-th value of \<open>secrets.randbelow(n)\<close>, which \<open>secrets.choice\<close> indexes with.\<close>

definition generate_random_password :: "(nat \<Rightarrow> nat \<Rightarrow> nat) \<Rightarrow> nat \<Rightarrow> string" where
  "generate_random_password draw n = map (\<lambda>i. password_alphabet ! draw i (length password_alphabet)) [0..<n]"

section \<open>Reset tokens\<close>

definition reset_ttl_minutes :: int where "reset_ttl_minutes = 30"

definition put_token :: "reset_token \<Rightarrow> auth \<Rightarrow> auth" where
  "put_token t s = s\<lparr>tokens := dict_set (rt_id t) t (tokens s)\<rparr>"

definition drop_open_tokens :: "int \<Rightarrow> auth \<Rightarrow> auth" where
  "drop_open_tokens uid s = s\<lparr>tokens := filter (\<lambda>(k, t). \<not> (rt_user t = uid \<and> rt_used t = None)) (tokens s)\<rparr>"

text \<open>\<open>tid\<close> is the key the database assigns, \<open>raw\<close> the random token.\<close>

definition create_reset_token ::
    "(string \<Rightarrow> string) \<Rightarrow> int \<Rightarrow> string \<Rightarrow> int \<Rightarrow> web \<Rightarrow> user \<Rightarrow> string option \<Rightarrow> auth \<Rightarrow> string \<times> auth" where
  "create_reset_token digest tid raw now w u ip s =
     (let t = \<lparr>rt_id = tid, rt_user = us_id u, rt_hash = digest raw,
         rt_expires = now + minutes reset_ttl_minutes, rt_used = None, rt_ip = ip\<rparr>
      in (raw, audit w ''auth.reset_token_issued''
            ((about_user (us_name u))\<lparr>aa_actor_id := Some (us_id u), aa_actor_name := Some (us_name u), aa_ip := ip\<rparr>)
            (put_token t (drop_open_tokens (us_id u) s))))"

definition find_token :: "string \<Rightarrow> auth \<Rightarrow> reset_token option" where
  "find_token h s = find (\<lambda>t. rt_hash t = h) (map snd (tokens s))"

definition reject_args :: "reset_token option \<Rightarrow> string \<Rightarrow> audit_args" where
  "reject_args t reason = (case t of None \<Rightarrow> no_args | Some t \<Rightarrow> about_user (show_int (rt_user t)))
     \<lparr>aa_status := ''failure'', aa_detail := Some (PDict [(''reason'', PStr reason)])\<rparr>"

definition validate_reset_token :: "(string \<Rightarrow> string) \<Rightarrow> int \<Rightarrow> web \<Rightarrow> string \<Rightarrow> auth \<Rightarrow> reset_token option \<times> auth" where
  "validate_reset_token digest now w raw s =
     (case find_token (digest raw) s of
       None \<Rightarrow> (None, audit w ''auth.reset_token_rejected'' (reject_args None ''not_found'') s)
     | Some t \<Rightarrow>
         if rt_used t \<noteq> None then (None, audit w ''auth.reset_token_rejected'' (reject_args (Some t) ''already_used'') s)
         else if now > rt_expires t then (None, audit w ''auth.reset_token_rejected'' (reject_args (Some t) ''expired'') s)
         else (Some t, s))"

text \<open>The row is read again under its lock. A token whose user is gone raises on the missing row.\<close>

definition use_reset_token ::
    "(string \<Rightarrow> string) \<Rightarrow> int \<Rightarrow> int \<Rightarrow> string \<Rightarrow> web \<Rightarrow> auth \<Rightarrow> (py_exc + user option) \<times> web \<times> auth" where
  "use_reset_token hash tid now new_password w s =
     (case dict_get (tokens s) tid of
       None \<Rightarrow> (Inr None, w, s)
     | Some locked \<Rightarrow>
         if rt_used locked \<noteq> None then (Inr None, w, s)
         else (case dict_get (users s) (rt_user locked) of
             None \<Rightarrow> (Inl AttributeError, w, s)
           | Some u \<Rightarrow>
               let u' = set_password (hash new_password) u
               in (Inr (Some u'), rotate_csrf w,
                   audit (rotate_csrf w) ''auth.reset_token_used''
                     ((about_user (us_name u'))\<lparr>aa_actor_id := Some (us_id u'), aa_actor_name := Some (us_name u')\<rparr>)
                     (put_token (locked\<lparr>rt_used := Some now\<rparr>) (put_user u' s)))))"

definition cleanup_expired_tokens :: "int \<Rightarrow> auth \<Rightarrow> nat \<times> auth" where
  "cleanup_expired_tokens now s =
     (let cutoff = now - minutes (24 * 60);
          old = (\<lambda>t. rt_expires t < cutoff \<or> (case rt_used t of None \<Rightarrow> False | Some used \<Rightarrow> used < cutoff))
      in (length (filter (\<lambda>(k, t). old t) (tokens s)),
          s\<lparr>tokens := filter (\<lambda>(k, t). \<not> old t) (tokens s)\<rparr>))"

text \<open>
  Delivery: the registered hook is called in place of everything else; \<open>file\<close> creates one
  file under the token directory, exclusively; \<open>log\<close> writes the server log.
\<close>

datatype delivery_effect =
    HookCalled
  | FileCreated string string
  | Logged string

definition safe_char :: "char \<Rightarrow> bool" where
  "safe_char c = (let n = ord_of c in
     (65 \<le> n \<and> n \<le> 90) \<or> (97 \<le> n \<and> n \<le> 122) \<or> (48 \<le> n \<and> n \<le> 57) \<or> n = 46 \<or> n = 95 \<or> n = 45)"

definition safe_user :: "string \<Rightarrow> string" where
  "safe_user name = (let t = map (\<lambda>c. if safe_char c then c else CHR ''_'') name in if t = [] then ''user'' else t)"

definition token_file_name :: "string \<Rightarrow> string \<Rightarrow> string" where
  "token_file_name name stamp = safe_user name @ ''-'' @ stamp @ ''.txt''"

definition deliver_reset_token ::
    "bool \<Rightarrow> string \<Rightarrow> string list \<Rightarrow> string \<Rightarrow> user \<Rightarrow> string \<Rightarrow> string \<Rightarrow> py_exc + delivery_effect" where
  "deliver_reset_token hooked token_dir existing stamp u tok delivery =
     (if hooked then Inr HookCalled
      else if delivery = ''file'' then
        (let path = token_dir @ ''/'' @ token_file_name (us_name u) stamp in
         if path \<in> set existing then Inl OSError else Inr (FileCreated path (tok @ ''\<newline>'')))
      else if delivery = ''log'' then Inr (Logged tok)
      else Inl ValueError)"

section \<open>Removal of an account\<close>

text \<open>
  The foreign key of the token table cascades in the database; SQLite honours that only with
  its pragma set, which is the flag.
\<close>

definition delete_user :: "bool \<Rightarrow> user \<Rightarrow> auth \<Rightarrow> auth" where
  "delete_user cascade u s = s\<lparr>users := dict_pop (us_id u) (users s),
     tokens := (if cascade then filter (\<lambda>(k, t). rt_user t \<noteq> us_id u) (tokens s) else tokens s)\<rparr>"

section \<open>First run\<close>

definition bootstrap_admin ::
    "(string \<Rightarrow> string) \<Rightarrow> int \<Rightarrow> int \<Rightarrow> string \<Rightarrow> string \<Rightarrow> auth \<Rightarrow> (py_exc + user) option \<times> auth" where
  "bootstrap_admin hash default_limit uid admin_password generated s =
     (if length (users s) > 0 then (None, s)
      else let password = (if admin_password \<noteq> [] then admin_password else generated) in
           case create_user hash default_limit uid ''admin'' password ''admin'' None s of
             (r, s') \<Rightarrow> (Some r, s'))"


section \<open>Well-formed databases\<close>

text \<open>Rows sit under their own keys, and the two unique columns are unique.\<close>

definition auth_ok :: "auth \<Rightarrow> bool" where
  "auth_ok s \<longleftrightarrow> dict_ok (users s) \<and> dict_ok (tokens s)
     \<and> (\<forall>(k, u) \<in> set (users s). us_id u = k \<and> us_version u \<ge> 1)
     \<and> (\<forall>(k, t) \<in> set (tokens s). rt_id t = k)"

lemma auth_ok_user: "auth_ok s \<Longrightarrow> dict_get (users s) k = Some u \<Longrightarrow> us_id u = k \<and> us_version u \<ge> 1"
  by (auto simp: auth_ok_def dict_get_mem)

lemma auth_ok_token: "auth_ok s \<Longrightarrow> dict_get (tokens s) k = Some t \<Longrightarrow> rt_id t = k"
  by (auto simp: auth_ok_def dict_get_mem)

lemma find_user_mem:
  assumes "auth_ok s" "find_user name s = Some u"
  shows "dict_get (users s) (us_id u) = Some u" "us_name u = name"
proof -
  obtain k where "(k, u) \<in> set (users s)" and "us_name u = name"
    using assms(2) by (auto simp: find_user_def find_Some_iff) (metis nth_mem prod.collapse)
  with assms(1) show "dict_get (users s) (us_id u) = Some u" "us_name u = name"
    by (auto simp: auth_ok_def dict_get_mem)
qed

lemma find_token_mem:
  assumes "auth_ok s" "find_token h s = Some t"
  shows "dict_get (tokens s) (rt_id t) = Some t" "rt_hash t = h"
proof -
  obtain k where "(k, t) \<in> set (tokens s)" and "rt_hash t = h"
    using assms(2) by (auto simp: find_token_def find_Some_iff) (metis nth_mem prod.collapse)
  with assms(1) show "dict_get (tokens s) (rt_id t) = Some t" "rt_hash t = h"
    by (auto simp: auth_ok_def dict_get_mem)
qed

lemma audit_ok [simp]: "auth_ok (audit w e a s) = auth_ok s"
  "users (audit w e a s) = users s" "tokens (audit w e a s) = tokens s"
  by (simp_all add: audit_def auth_ok_def)

lemma put_user_ok: "auth_ok s \<Longrightarrow> us_version u \<ge> 1 \<Longrightarrow> auth_ok (put_user u s)"
  unfolding auth_ok_def put_user_def by (auto simp: set_dict_set)

lemma put_token_ok: "auth_ok s \<Longrightarrow> auth_ok (put_token t s)"
  unfolding auth_ok_def put_token_def by (auto simp: set_dict_set)

lemma put_user_tables [simp]: "users (put_user u s) = dict_set (us_id u) u (users s)" "tokens (put_user u s) = tokens s"
  by (simp_all add: put_user_def)

lemma put_token_tables [simp]: "tokens (put_token t s) = dict_set (rt_id t) t (tokens s)" "users (put_token t s) = users s"
  by (simp_all add: put_token_def)

lemma filter_tokens_ok: "auth_ok s \<Longrightarrow> auth_ok (s\<lparr>tokens := filter P (tokens s)\<rparr>)"
  by (auto simp: auth_ok_def)

lemma verify_user_cases:
  "verify_user check dummy isoformat now w name pw s =
     (case find_user name s of
        None \<Rightarrow> (None, s)
      | Some u \<Rightarrow>
          if is_locked now u then (None, s)
          else if check (us_hash u) pw then
            (if us_attempts u \<noteq> 0 \<or> us_locked u \<noteq> None
             then (Some (u\<lparr>us_attempts := 0, us_locked := None\<rparr>), put_user (u\<lparr>us_attempts := 0, us_locked := None\<rparr>) s)
             else (Some u, s))
          else (None, failed_login isoformat now w u s))"
  by (simp add: verify_user_def Let_def split: option.split)

definition after_failure :: "int \<Rightarrow> user \<Rightarrow> user" where
  "after_failure now u = u\<lparr>us_attempts := us_attempts u + 1,
     us_locked := (if us_attempts u + 1 \<ge> max_failed_attempts then Some (now + minutes lockout_minutes) else us_locked u)\<rparr>"

lemma failed_login_tables [simp]:
  "users (failed_login isoformat now w u s) = dict_set (us_id u) (after_failure now u) (users s)"
  "tokens (failed_login isoformat now w u s) = tokens s"
  by (simp_all add: failed_login_def after_failure_def Let_def)

end
