(* ===== verification/AuthSafety.thy ===== *)
theory AuthSafety
  imports Auth
begin

text \<open>
  What the account operations promise together: the lockout bounds guessing, a password
  change ends every older session for good, a reset token is redeemed at most once whatever
  runs in between, and the bookkeeping of reset tokens neither revives nor loses one. The
  operations are the steps of a transition relation on the database.
\<close>

section \<open>Password guessing\<close>

text \<open>
  \<open>verify_user\<close> run on a sequence of attempts (time, name, password); \<open>guesses\<close> counts those
  whose password was compared with the account's hash, that is, was neither sent to an
  unknown name nor refused by the lock.
\<close>

type_synonym attempt = "int \<times> web \<times> string \<times> string"

definition compared :: "string \<Rightarrow> attempt \<Rightarrow> auth \<Rightarrow> bool" where
  "compared name a s = (case a of (now, w, n, pw) \<Rightarrow>
     n = name \<and> (case find_user name s of None \<Rightarrow> False | Some u \<Rightarrow> \<not> is_locked now u))"

fun guesses ::
    "(string \<Rightarrow> string \<Rightarrow> bool) \<Rightarrow> string \<Rightarrow> (int \<Rightarrow> string) \<Rightarrow> string \<Rightarrow> attempt list \<Rightarrow> auth \<Rightarrow> nat" where
  "guesses check dummy isoformat name [] s = 0"
| "guesses check dummy isoformat name (a # as) s =
     (case a of (now, w, n, pw) \<Rightarrow>
       (if compared name a s then 1 else 0)
       + guesses check dummy isoformat name as (snd (verify_user check dummy isoformat now w n pw s)))"

text \<open>All attempts on \<open>name\<close> fail: none carries the right password.\<close>

definition all_wrong :: "(string \<Rightarrow> string \<Rightarrow> bool) \<Rightarrow> string \<Rightarrow> string \<Rightarrow> attempt list \<Rightarrow> bool" where
  "all_wrong check h name as = list_all (\<lambda>(_, _, n, pw). n = name \<longrightarrow> \<not> check h pw) as"

text \<open>How many more wrong guesses an account can take until \<open>T\<close>, seen at \<open>now\<close>.\<close>

definition guess_budget :: "int \<Rightarrow> int \<Rightarrow> user \<Rightarrow> int" where
  "guess_budget T now u =
     (let start = (case us_locked u of None \<Rightarrow> now | Some l \<Rightarrow> max now l)
      in if T < start then 0
         else max 1 (5 - int (us_attempts u)) + (T - start) div minutes lockout_minutes)"

lemma lockout_value [simp]: "minutes lockout_minutes = 900000000" "max_failed_attempts = 5"
  by (simp_all add: minutes_def lockout_minutes_def max_failed_attempts_def)

lemma guess_budget_nonneg: "0 \<le> guess_budget T now u"
  by (auto simp: guess_budget_def Let_def pos_imp_zdiv_nonneg_iff split: option.split)

lemma guess_budget_mono: "now \<le> now' \<Longrightarrow> guess_budget T now' u \<le> guess_budget T now u"
proof -
  assume le: "now \<le> now'"
  define st where "st n = (case us_locked u of None \<Rightarrow> n | Some l \<Rightarrow> max n l)" for n :: int
  have "st now \<le> st now'" using le by (auto simp: st_def split: option.split)
  then have "(T - st now') div 900000000 \<le> (T - st now) div 900000000"
    by (intro zdiv_mono1) auto
  with \<open>st now \<le> st now'\<close> show ?thesis
    using guess_budget_nonneg [of T now u]
    by (auto simp: guess_budget_def Let_def st_def [symmetric])
qed

lemma guess_budget_failure:
  assumes "\<not> is_locked now u" "now \<le> T"
  shows "1 + guess_budget T now (after_failure now u) \<le> guess_budget T now u"
proof -
  have start: "(case us_locked u of None \<Rightarrow> now | Some l \<Rightarrow> max now l) = now"
    using assms(1) by (auto simp: is_locked_def split: option.splits)
  have before: "guess_budget T now u = max 1 (5 - int (us_attempts u)) + (T - now) div 900000000"
    unfolding guess_budget_def start using assms(2) by simp
  show ?thesis
  proof (cases "us_attempts u + 1 \<ge> 5")
    case True
    have "(T - (now + 900000000)) div 900000000 = (T - now) div 900000000 - 1"
      using div_add_self2 [of "900000000::int" "T - now - 900000000"] by (simp add: algebra_simps)
    moreover have "0 \<le> (T - now) div 900000000"
      using assms(2) by (simp add: pos_imp_zdiv_nonneg_iff)
    ultimately show ?thesis
      using True unfolding before by (simp add: guess_budget_def Let_def after_failure_def)
  next
    case False
    have start': "(case us_locked (after_failure now u) of None \<Rightarrow> now | Some l \<Rightarrow> max now l) = now"
      using False start by (simp add: after_failure_def)
    have "guess_budget T now (after_failure now u) = max 1 (5 - int (us_attempts (after_failure now u))) + (T - now) div 900000000"
      unfolding guess_budget_def start' using assms(2) by simp
    with False show ?thesis by (simp add: before after_failure_def)
  qed
qed

text \<open>Only the named account changes, and its hash never does.\<close>

lemma find_user_put:
  assumes "auth_ok s" "find_user name s = Some u" "us_name u' = us_name u" "us_id u' = us_id u"
  shows "find_user n (put_user u' s) = (if n = name then Some u' else find_user n s)"
proof -
  have name: "us_name u = name" and get: "dict_get (users s) (us_id u) = Some u"
    using find_user_mem [OF assms(1,2)] by auto
  show ?thesis
  proof (cases "n = name")
    case True
    have "find (\<lambda>x. us_name x = name) (map snd (dict_set (us_id u) u' (users s))) = Some u'"
      using assms name by (intro find_set_hit) (auto simp: auth_ok_def find_user_def)
    with True assms(4) show ?thesis by (simp add: find_user_def)
  next
    case False
    with get name assms show ?thesis
      by (simp add: find_user_def find_set_miss)
  qed
qed

lemma failed_login_find:
  assumes "auth_ok s" "find_user name s = Some u"
  shows "find_user n (failed_login isoformat now w u s) = (if n = name then Some (after_failure now u) else find_user n s)"
proof -
  have "find_user n (failed_login isoformat now w u s) = find_user n (put_user (after_failure now u) s)"
    by (simp add: find_user_def after_failure_def)
  with find_user_put [OF assms, of "after_failure now u" n] show ?thesis
    by (simp add: after_failure_def)
qed

lemma after_failure_version [simp]: "us_version (after_failure now u) = us_version u" "us_id (after_failure now u) = us_id u"
  "us_hash (after_failure now u) = us_hash u" "us_name (after_failure now u) = us_name u"
  by (simp_all add: after_failure_def)

lemma failed_login_ok: "auth_ok s \<Longrightarrow> us_version u \<ge> 1 \<Longrightarrow> auth_ok (failed_login isoformat now w u s)"
  using put_user_ok [of s "after_failure now u"]
  by (simp add: auth_ok_def after_failure_def)

lemma verify_user_ok:
  assumes "auth_ok s"
  shows "auth_ok (snd (verify_user check dummy isoformat now w name pw s))"
proof (cases "find_user name s")
  case (Some u)
  have "us_version u \<ge> 1"
    using find_user_mem [OF assms Some] auth_ok_user [OF assms] by blast
  with assms Some show ?thesis
    by (auto simp: verify_user_cases intro!: put_user_ok failed_login_ok)
qed (use assms in \<open>simp add: verify_user_cases\<close>)

lemma verify_user_other:
  assumes "auth_ok s" "find_user name s = Some u" "n \<noteq> name"
  shows "find_user name (snd (verify_user check dummy isoformat now w n pw s)) = Some u"
proof (cases "find_user n s")
  case (Some v)
  show ?thesis
    using assms Some find_user_put [OF assms(1) Some, of "v\<lparr>us_attempts := 0, us_locked := None\<rparr>" name]
      failed_login_find [OF assms(1) Some, of name]
    by (simp add: verify_user_cases)
qed (use assms in \<open>simp add: verify_user_cases\<close>)

lemma guesses_within_budget:
  assumes "auth_ok s" "find_user name s = Some u" "all_wrong check (us_hash u) name as"
    and "sorted (now # map fst as)" "list_all (\<lambda>a. fst a \<le> T) as"
  shows "int (guesses check dummy isoformat name as s) \<le> guess_budget T now u"
  using assms
proof (induction as arbitrary: s u now)
  case Nil
  then show ?case by (simp add: guess_budget_nonneg)
next
  case (Cons a as)
  obtain tm w n pw where a: "a = (tm, w, n, pw)" by (cases a)
  let ?s' = "snd (verify_user check dummy isoformat tm w n pw s)"
  have le: "now \<le> tm" "tm \<le> T" using Cons.prems by (auto simp: a)
  have rest: "sorted (tm # map fst as)" "list_all (\<lambda>a. fst a \<le> T) as"
    using Cons.prems by (auto simp: a)
  have ok: "auth_ok ?s'" by (rule verify_user_ok [OF Cons.prems(1)])
  have wrong: "all_wrong check (us_hash u) name as"
    using Cons.prems(3) by (simp add: all_wrong_def)
  show ?case
  proof (cases "n = name \<and> \<not> is_locked tm u")
    case True
    then have bad: "\<not> check (us_hash u) pw"
      using Cons.prems(3) by (simp add: all_wrong_def a)
    have s': "?s' = failed_login isoformat tm w u s"
      using True bad Cons.prems(2) by (simp add: verify_user_cases)
    have find': "find_user name ?s' = Some (after_failure tm u)"
      unfolding s' by (simp add: failed_login_find [OF Cons.prems(1,2)])
    have "int (guesses check dummy isoformat name as ?s') \<le> guess_budget T tm (after_failure tm u)"
      by (rule Cons.IH [OF ok find' _ rest]) (use wrong in simp)
    moreover have "1 + guess_budget T tm (after_failure tm u) \<le> guess_budget T tm u"
      using True le by (intro guess_budget_failure) auto
    moreover have "guess_budget T tm u \<le> guess_budget T now u"
      by (rule guess_budget_mono [OF le(1)])
    ultimately show ?thesis
      using True Cons.prems(2) by (simp add: a compared_def)
  next
    case False
    have find': "find_user name ?s' = Some u"
    proof (cases "n = name")
      case True
      then show ?thesis using False Cons.prems(2) by (simp add: verify_user_cases)
    next
      case False
      then show ?thesis by (intro verify_user_other Cons.prems)
    qed
    have "int (guesses check dummy isoformat name as ?s') \<le> guess_budget T tm u"
      by (rule Cons.IH [OF ok find' wrong rest])
    moreover have "guess_budget T tm u \<le> guess_budget T now u"
      by (rule guess_budget_mono [OF le(1)])
    moreover have "\<not> compared name a s"
      using False Cons.prems(2) by (auto simp: a compared_def)
    ultimately show ?thesis by (simp add: a)
  qed
qed

text \<open>
  C11. Per-account lockout. Whatever the interleaving of login attempts for any names, at
  most \<open>5 + D div 15 min\<close> wrong passwords are compared with one account's hash in a window of
  length D without a successful login; every other attempt is refused by the lock.
\<close>

theorem brute_force_bound:
  assumes "auth_ok s" and "find_user name s = Some u" and "all_wrong check (us_hash u) name as"
    and "sorted (t0 # map fst as)" and "list_all (\<lambda>a. fst a \<le> t0 + D) as"
    and "0 \<le> D"
  shows "int (guesses check dummy isoformat name as s) \<le> 5 + D div minutes 15"
proof -
  have "int (guesses check dummy isoformat name as s) \<le> guess_budget (t0 + D) t0 u"
    by (rule guesses_within_budget [OF assms(1-5)])
  also have "\<dots> \<le> 5 + D div 900000000"
  proof -
    have "(t0 + D - max t0 l) div 900000000 \<le> D div 900000000" for l :: int
      by (rule zdiv_mono1) auto
    moreover have "0 \<le> D div 900000000"
      using assms(6) by (simp add: pos_imp_zdiv_nonneg_iff)
    ultimately show ?thesis
      by (auto simp: guess_budget_def Let_def split: option.split intro!: add_mono)
  qed
  finally show ?thesis by (simp add: minutes_def)
qed

definition demo_user :: user where
  "demo_user = \<lparr>us_id = 1, us_name = ''ann'', us_hash = ''h'', us_role = ''admin'', us_version = 1, us_attempts = 4,
     us_locked = None, us_limit = 200\<rparr>"

definition demo_web :: web where
  "demo_web = \<lparr>w_user = Some ''ann'', w_uid = Some 1, w_role = Some ''admin'', w_version = Some 1, w_csrf = None, w_ip = None\<rparr>"

definition demo_auth :: auth where
  "demo_auth = \<lparr>users = [(1, demo_user)], tokens = [], audit_rows = []\<rparr>"

lemma demo_ok: "auth_ok demo_auth" "find_user ''ann'' demo_auth = Some demo_user"
  by (simp_all add: auth_ok_def demo_auth_def demo_user_def dict_ok_def find_user_def)

theorem brute_force_bound_witness:
  "int (guesses (=) ''d'' (\<lambda>_. []) ''ann'' [(10, demo_web, ''ann'', ''x''), (20, demo_web, ''ann'', ''y'')] demo_auth)
     \<le> 5 + 10 div minutes 15"
  by (rule brute_force_bound [where ?t0.0 = 10, OF demo_ok])
     (simp_all add: all_wrong_def demo_user_def)

text \<open>
  A login succeeds exactly for an existing account that is not locked and whose hash the
  password fits. An unknown name, a locked account and a wrong password give the same answer,
  and a locked account is left as it is even by its right password.
\<close>

theorem verify_user_exact:
  "(fst (verify_user check dummy isoformat now w name pw s) \<noteq> None
     \<longleftrightarrow> (case find_user name s of None \<Rightarrow> False | Some u \<Rightarrow> \<not> is_locked now u \<and> check (us_hash u) pw))
   \<and> (if (case find_user name s of None \<Rightarrow> True | Some u \<Rightarrow> is_locked now u)
      then verify_user check dummy isoformat now w name pw s = (None, s) else True)"
  by (auto simp: verify_user_cases split: option.split)

section \<open>The database as a transition system\<close>

text \<open>
  Every operation that writes the tables, for any caller and any argument. \<open>k\<close> and \<open>t\<close> are a
  user key and a token key that are not handed out again, as a sequence guarantees.
\<close>

inductive auth_step :: "int \<Rightarrow> int \<Rightarrow> auth \<Rightarrow> auth \<Rightarrow> bool" for k :: int and t :: int where
  verify: "auth_step k t s (snd (verify_user check dummy isoformat now w name pw s))"
| create: "uid \<noteq> k \<Longrightarrow> dict_get (users s) uid = None \<Longrightarrow>
    auth_step k t s (snd (create_user hash dl uid name pw role limit s))"
| change: "find_user name s = Some u \<Longrightarrow> auth_step k t s (snd (change_password hash u pw w s))"
| remove: "find_user name s = Some u \<Longrightarrow> auth_step k t s (delete_user cascade u s)"
| request: "tid \<noteq> t \<Longrightarrow> dict_get (tokens s) tid = None \<Longrightarrow> find_user name s = Some u \<Longrightarrow>
    auth_step k t s (snd (create_reset_token digest tid raw now w u ip s))"
| validate: "auth_step k t s (snd (validate_reset_token digest now w raw s))"
| redeem: "auth_step k t s (snd (snd (use_reset_token hash tid now pw w s)))"
| cleanup: "auth_step k t s (snd (cleanup_expired_tokens now s))"
| audited: "auth_step k t s (audit w event args s)"

text \<open>
  \<open>above k v\<close>: the account with key \<open>k\<close> is gone or has a later session version than \<open>v\<close>.
  \<open>spent t\<close>: the reset token with key \<open>t\<close> is gone or redeemed.
\<close>

definition above :: "int \<Rightarrow> int \<Rightarrow> auth \<Rightarrow> bool" where
  "above k v s = (case dict_get (users s) k of None \<Rightarrow> True | Some u \<Rightarrow> us_version u > v)"

definition spent :: "int \<Rightarrow> auth \<Rightarrow> bool" where
  "spent t s = (case dict_get (tokens s) t of None \<Rightarrow> True | Some x \<Rightarrow> rt_used x \<noteq> None)"

lemma bump_version_greater: "v \<ge> 1 \<Longrightarrow> bump_version v > v"
  by (simp add: bump_version_def)

lemma bump_ok: "v \<ge> 1 \<Longrightarrow> bump_version v \<ge> 1"
  by (simp add: bump_version_def)

lemma set_password_fields [simp]: "us_id (set_password h u) = us_id u" "us_name (set_password h u) = us_name u"
  "us_hash (set_password h u) = h" "us_version (set_password h u) = bump_version (us_version u)"
  by (simp_all add: set_password_def)

lemma validate_tables [simp]:
  "users (snd (validate_reset_token digest now w raw s)) = users s"
  "tokens (snd (validate_reset_token digest now w raw s)) = tokens s"
  "auth_ok (snd (validate_reset_token digest now w raw s)) = auth_ok s"
  by (simp_all add: validate_reset_token_def split: option.split)

lemma create_user_tables:
  "tokens (snd (create_user hash dl uid name pw role limit s)) = tokens s"
  "users (snd (create_user hash dl uid name pw role limit s)) = users s
   \<or> (\<exists>u. users (snd (create_user hash dl uid name pw role limit s)) = dict_set uid u (users s) \<and> us_id u = uid \<and> us_version u = 1)"
  by (auto simp: create_user_def Let_def intro!: exI)

lemma use_reset_token_cases:
  "use_reset_token hash tid now pw w s =
     (if spent tid s then (Inr None, w, s)
      else case dict_get (tokens s) tid of None \<Rightarrow> (Inr None, w, s) | Some x \<Rightarrow>
        (case dict_get (users s) (rt_user x) of
          None \<Rightarrow> (Inl AttributeError, w, s)
        | Some u \<Rightarrow> (Inr (Some (set_password (hash pw) u)), rotate_csrf w,
             audit (rotate_csrf w) ''auth.reset_token_used''
               ((about_user (us_name u))\<lparr>aa_actor_id := Some (us_id u), aa_actor_name := Some (us_name u)\<rparr>)
               (put_token (x\<lparr>rt_used := Some now\<rparr>) (put_user (set_password (hash pw) u) s)))))"
  by (simp add: use_reset_token_def spent_def Let_def split: option.split)

lemma auth_ok_tables:
  "auth_ok s \<Longrightarrow> users s' = users s \<Longrightarrow> tokens s' = tokens s \<Longrightarrow> auth_ok s'"
  by (simp add: auth_ok_def)

lemma use_reset_token_ok: "auth_ok s \<Longrightarrow> auth_ok (snd (snd (use_reset_token hash tid now pw w s)))"
  by (auto simp: use_reset_token_cases split: option.split
      intro!: put_token_ok put_user_ok bump_ok dest: auth_ok_user)

lemma auth_step_ok: "auth_step k t s s' \<Longrightarrow> auth_ok s \<Longrightarrow> auth_ok s'"
proof (induction rule: auth_step.induct)
  case (verify s check dummy isoformat now w name pw)
  then show ?case by (intro verify_user_ok)
next
  case (create uid s hash dl name pw role limit)
  then show ?case by (auto simp: create_user_def Let_def intro!: put_user_ok)
next
  case (change name s u hash pw w)
  then have "us_version u \<ge> 1"
    using find_user_mem auth_ok_user by blast
  with change show ?case by (auto simp: change_password_def bump_version_def intro!: put_user_ok)
next
  case (remove name s u cascade)
  then show ?case by (auto simp: delete_user_def auth_ok_def set_dict_pop)
next
  case (request tid s name u digest raw now w ip)
  then show ?case
    by (auto simp: create_reset_token_def Let_def drop_open_tokens_def intro!: put_token_ok filter_tokens_ok)
next
  case (cleanup s now)
  then show ?case by (auto simp: cleanup_expired_tokens_def Let_def intro!: filter_tokens_ok)
qed (auto intro: use_reset_token_ok)


lemma above_set: "above k v (put_user u s) = (if us_id u = k then us_version u > v else above k v s)"
  by (simp add: above_def)

lemma above_tables: "users s' = users s \<Longrightarrow> above k v s' = above k v s"
  by (simp add: above_def)

lemma above_old:
  "auth_ok s \<Longrightarrow> dict_get (users s) (us_id u) = Some u \<Longrightarrow> us_id u = k \<Longrightarrow> above k v s \<Longrightarrow> us_version u > v"
  by (auto simp: above_def)

lemma above_verify:
  assumes "auth_ok s" "above k v s"
  shows "above k v (snd (verify_user check dummy isoformat now w name pw s))"
proof (cases "find_user name s")
  case (Some u)
  have old: "us_id u = k \<Longrightarrow> us_version u > v"
    using find_user_mem(1) [OF assms(1) Some] assms by (intro above_old)
  have "above k v (failed_login isoformat now w u s) = above k v (put_user (after_failure now u) s)"
    by (rule above_tables) simp
  with Some old assms(2) show ?thesis
    by (auto simp: verify_user_cases above_set)
qed (use assms in \<open>simp add: verify_user_cases\<close>)

lemma above_set_password:
  assumes "auth_ok s" "dict_get (users s) (us_id u) = Some u" "above k v s"
  shows "above k v (put_user (set_password h u) s)"
proof -
  have "us_version u \<ge> 1" using assms auth_ok_user by blast
  then have "bump_version (us_version u) > us_version u" by (rule bump_version_greater)
  with above_old [OF assms(1,2) _ assms(3)] assms(3) show ?thesis
    by (force simp: above_set)
qed

lemma auth_step_above: "auth_step k t s s' \<Longrightarrow> auth_ok s \<Longrightarrow> above k v s \<Longrightarrow> above k v s'"
proof (induction rule: auth_step.induct)
  case (verify s check dummy isoformat now w name pw)
  then show ?case by (intro above_verify)
next
  case (create uid s hash dl name pw role limit)
  then show ?case by (auto simp: create_user_def Let_def above_set)
next
  case (change name s u hash pw w)
  then show ?case
    using find_user_mem(1) [of s name u] by (simp add: change_password_def above_set_password)
next
  case (remove name s u cascade)
  then show ?case by (cases "k = us_id u") (simp_all add: delete_user_def above_def)
next
  case (request tid s name u digest raw now w ip)
  then show ?case by (simp add: create_reset_token_def Let_def drop_open_tokens_def above_def)
next
  case (redeem s hash tid now pw w)
  show ?case
  proof (cases "spent tid s")
    case False
    then obtain x where x: "dict_get (tokens s) tid = Some x" by (auto simp: spent_def split: option.splits)
    show ?thesis
    proof (cases "dict_get (users s) (rt_user x)")
      case (Some u)
      then have "us_id u = rt_user x" using redeem auth_ok_user by blast
      then have "above k v (put_user (set_password (hash pw) u) s)"
        using Some redeem by (intro above_set_password) auto
      then show ?thesis using False x Some by (simp add: use_reset_token_cases above_def)
    qed (use redeem False x in \<open>simp add: use_reset_token_cases\<close>)
  qed (use redeem in \<open>simp add: use_reset_token_cases\<close>)
next
  case (cleanup s now)
  then show ?case by (simp add: cleanup_expired_tokens_def Let_def above_def)
qed (simp_all add: above_def)

lemma spent_same: "spent t s \<Longrightarrow> tokens s' = tokens s \<Longrightarrow> spent t s'"
  by (simp add: spent_def)

lemma spent_filter: "auth_ok s \<Longrightarrow> spent t s \<Longrightarrow> spent t (s\<lparr>tokens := filter P (tokens s)\<rparr>)"
  by (auto simp: spent_def auth_ok_def dict_get_filter split: option.splits)

lemma spent_put: "spent t (put_token x s) = (if rt_id x = t then rt_used x \<noteq> None else spent t s)"
  by (simp add: spent_def)

lemma verify_tokens: "tokens (snd (verify_user check dummy isoformat now w name pw s)) = tokens s"
  by (simp add: verify_user_cases split: option.split)

lemma auth_step_spent: "auth_step k t s s' \<Longrightarrow> auth_ok s \<Longrightarrow> spent t s \<Longrightarrow> spent t s'"
proof (induction rule: auth_step.induct)
  case (verify s check dummy isoformat now w name pw)
  then show ?case by (auto intro: spent_same verify_tokens)
next
  case (create uid s hash dl name pw role limit)
  then show ?case by (auto intro: spent_same create_user_tables(1))
next
  case (change name s u hash pw w)
  then show ?case by (simp add: change_password_def spent_def)
next
  case (remove name s u cascade)
  then have "spent t (s\<lparr>tokens := filter (\<lambda>(k, t). rt_user t \<noteq> us_id u) (tokens s)\<rparr>)"
    by (intro spent_filter)
  with remove show ?case by (simp add: delete_user_def spent_def)
next
  case (request tid s name u digest raw now w ip)
  then have "spent t (drop_open_tokens (us_id u) s)"
    by (simp add: drop_open_tokens_def spent_filter)
  with request show ?case by (simp add: create_reset_token_def Let_def spent_def)
next
  case (validate s digest now w raw)
  then show ?case by (auto intro: spent_same)
next
  case (redeem s hash tid now pw w)
  show ?case
  proof (cases "spent tid s")
    case False
    then obtain x where x: "dict_get (tokens s) tid = Some x" by (auto simp: spent_def split: option.splits)
    then have "rt_id x = tid" using redeem auth_ok_token by blast
    then have keep: "spent t (put_token (x\<lparr>rt_used := Some now\<rparr>) (put_user u s))" for u
      using redeem by (cases "t = tid") (simp_all add: spent_def)
    show ?thesis
    proof (cases "dict_get (users s) (rt_user x)")
      case (Some u)
      have "tokens (snd (snd (use_reset_token hash tid now pw w s)))
          = tokens (put_token (x\<lparr>rt_used := Some now\<rparr>) (put_user (set_password (hash pw) u) s))"
        using False x Some by (simp add: use_reset_token_cases)
      then show ?thesis using keep by (blast intro: spent_same)
    qed (use redeem False x in \<open>simp add: use_reset_token_cases\<close>)
  qed (use redeem in \<open>simp add: use_reset_token_cases\<close>)
next
  case (cleanup s now)
  then show ?case by (simp add: cleanup_expired_tokens_def Let_def spent_filter)
qed (simp add: spent_def)

lemma auth_steps_keep:
  assumes "(auth_step k t)\<^sup>*\<^sup>* s s'" "auth_ok s"
  shows "auth_ok s' \<and> (above k v s \<longrightarrow> above k v s') \<and> (spent t s \<longrightarrow> spent t s')"
  using assms by (induction) (auto dest: auth_step_ok auth_step_above auth_step_spent)

lemma above_invalidates:
  assumes "above k v s" "w_uid w = Some k" "w_version w = Some x" "x \<le> v"
  shows "session_invalidated w s"
  using assms by (auto simp: session_invalidated_def above_def split: option.split)

text \<open>
  C2. A password change ends every session issued before it, for good. Whatever operations
  follow, as long as the account's key is not given to a new account, both decorators refuse
  the old cookie without running the view and clear it, on API and page routes alike.
\<close>

theorem stale_session_stays_out:
  assumes "auth_ok s" and "dict_get (users s) k = Some u"
    and "w_uid w = Some k" and "w_version w = Some v" and "v \<le> us_version u"
    and "(auth_step k t)\<^sup>*\<^sup>* (snd (change_password hash u pw w0 s)) s'"
  shows "fst (login_required f w s') = Redirect ''login_page'' \<and> snd (snd (login_required f w s')) = s'
    \<and> fst (admin_required path g w s') \<in> {api_error ''Not authenticated'' 401, api_error ''Session expired'' 401, Redirect ''login_page''}
    \<and> snd (snd (admin_required path g w s')) = s'
    \<and> (w_user w = None \<or> fst (snd (login_required f w s')) = session_clear w)"
proof -
  have "us_id u = k" "us_version u \<ge> 1" using auth_ok_user [OF assms(1,2)] by auto
  then have fresh: "above k (us_version u) (snd (change_password hash u pw w0 s))"
    by (simp add: change_password_def above_set bump_version_greater)
  have "auth_ok (snd (change_password hash u pw w0 s))"
    using assms(1) \<open>us_version u \<ge> 1\<close> by (simp add: change_password_def put_user_ok bump_ok)
  then have "above k (us_version u) s'"
    using auth_steps_keep [OF assms(6)] fresh by blast
  then have "session_invalidated w s'"
    using assms(3-5) above_invalidates by blast
  then show ?thesis
    by (auto simp: login_required_def admin_required_def Let_def)
qed

theorem stale_session_stays_out_witness:
  "let s' = snd (change_password (\<lambda>p. p) demo_user ''new'' demo_web demo_auth) in
   fst (login_required (\<lambda>w s. (Plain ''in'' 200, w, demo_auth)) demo_web s') = Redirect ''login_page''"
  using stale_session_stays_out [OF demo_ok(1), where k = 1 and v = 1 and ?u = demo_user and w = demo_web
      and hash = "\<lambda>p. p" and pw = "''new''" and ?w0.0 = demo_web
      and s' = "snd (change_password (\<lambda>p. p) demo_user ''new'' demo_web demo_auth)"]
  by (simp add: Let_def demo_auth_def demo_user_def demo_web_def)


definition demo_token :: reset_token where
  "demo_token = \<lparr>rt_id = 7, rt_user = 1, rt_hash = ''dt'', rt_expires = 100, rt_used = None, rt_ip = None\<rparr>"

definition demo_reset :: auth where
  "demo_reset = demo_auth\<lparr>tokens := [(7, demo_token)]\<rparr>"

lemma demo_reset_ok: "auth_ok demo_reset"
  by (simp add: auth_ok_def demo_reset_def demo_auth_def demo_user_def demo_token_def dict_ok_def)


section \<open>Reset tokens\<close>

lemma validate_fst:
  "fst (validate_reset_token digest now w raw s) = (case find_token (digest raw) s of
     None \<Rightarrow> None | Some t \<Rightarrow> if rt_used t = None \<and> now \<le> rt_expires t then Some t else None)"
  by (auto simp: validate_reset_token_def split: option.split)

lemma find_token_filter:
  assumes "distinct (map (rt_hash \<circ> snd) d)"
  shows "find (\<lambda>t. rt_hash t = h) (map snd (filter P d))
    = (case find (\<lambda>t. rt_hash t = h) (map snd d) of None \<Rightarrow> None
       | Some t \<Rightarrow> if \<exists>k. (k, t) \<in> set (filter P d) then Some t else None)"
  using assms
proof (induction d)
  case (Cons p d)
  have notin: "find (\<lambda>t. rt_hash t = h) (map snd (filter P d)) = None" if "rt_hash (snd p) = h"
  proof -
    have "rt_hash x \<noteq> h" if "x \<in> set (map snd (filter P d))" for x
      using Cons.prems \<open>rt_hash (snd p) = h\<close> that by (force simp: image_iff)
    then show ?thesis by (simp add: find_None_iff)
  qed
  show ?case
  proof (cases "rt_hash (snd p) = h")
    case True
    have other: "(k, snd p) \<notin> set d" for k
      using Cons.prems imageI [of "(k, snd p)" "set d" "rt_hash \<circ> snd"] by auto
    show ?thesis using True notin other by (cases p) auto
  next
    case False
    have "find (\<lambda>t. rt_hash t = h) (map snd d) = Some t \<Longrightarrow> t \<noteq> snd p" for t
      using False by (auto simp: find_Some_iff)
    then show ?thesis using False Cons by (cases p) (auto split: option.splits)
  qed
qed simp

definition hashes_unique :: "auth \<Rightarrow> bool" where
  "hashes_unique s \<longleftrightarrow> distinct (map (rt_hash \<circ> snd) (tokens s))"

text \<open>
  Life of a reset token. The token just issued validates for thirty minutes and not
  after; issuing it revokes every open token the user had: none of them validates any more.
\<close>

theorem reset_token_life:
  assumes "auth_ok s" and "dict_get (tokens s) tid = None"
    and "list_all (\<lambda>(_, x). rt_hash x \<noteq> digest raw) (tokens s)"
  shows "let s' = snd (create_reset_token digest tid raw now w u ip s) in
    map_option rt_id (fst (validate_reset_token digest now' w' raw s')) = (if now' \<le> now + minutes 30 then Some tid else None)
    \<and> (digest raw' \<noteq> digest raw \<longrightarrow> (case fst (validate_reset_token digest now' w' raw' s') of None \<Rightarrow> True | Some x \<Rightarrow> rt_user x \<noteq> us_id u))"
proof -
  define s' where "s' = snd (create_reset_token digest tid raw now w u ip s)"
  define d where "d = filter (\<lambda>(k, t). \<not> (rt_user t = us_id u \<and> rt_used t = None)) (tokens s)"
  define x where "x = \<lparr>rt_id = tid, rt_user = us_id u, rt_hash = digest raw, rt_expires = now + minutes 30, rt_used = None, rt_ip = ip\<rparr>"
  have fresh: "dict_get d tid = None"
    using assms(1,2) by (simp add: d_def auth_ok_def dict_get_filter)
  have toks: "tokens s' = d @ [(tid, x)]"
    unfolding s'_def create_reset_token_def drop_open_tokens_def Let_def d_def [symmetric]
    using dict_set_fresh [OF fresh] by (simp add: d_def x_def reset_ttl_minutes_def)
  have miss: "find (\<lambda>t. rt_hash t = digest raw) (map snd d) = None"
    using assms(3) by (auto simp: find_None_iff d_def list_all_iff)
  have found: "find_token (digest raw) s' = Some x"
    by (simp add: find_token_def toks find_append miss) (simp add: x_def)
  have other: "rt_user y \<noteq> us_id u"
    if "find_token (digest raw') s' = Some y" "digest raw' \<noteq> digest raw" "rt_used y = None" for y
  proof -
    have "find (\<lambda>t. rt_hash t = digest raw') (map snd d) = Some y"
      using that by (auto simp: find_token_def toks find_append x_def split: option.splits if_splits)
    then have "y \<in> snd ` set d" by (auto simp: find_Some_iff)
    with that(3) show ?thesis by (auto simp: d_def)
  qed
  show ?thesis
    unfolding s'_def [symmetric] Let_def validate_fst found
    using other by (auto simp: x_def split: option.split)
qed

theorem reset_token_life_witness:
  "map_option rt_id (fst (validate_reset_token (\<lambda>r. CHR ''#'' # r) 30 demo_web ''abc''
      (snd (create_reset_token (\<lambda>r. CHR ''#'' # r) 8 ''abc'' 20 demo_web demo_user None demo_reset)))) = Some 8"
  using reset_token_life [OF demo_reset_ok, of 8 "\<lambda>r. CHR ''#'' # r" "''abc''" 20 demo_web demo_user None 30 demo_web]
  by (simp add: Let_def demo_reset_def demo_token_def demo_auth_def minutes_def)

text \<open>
  The cleanup loses nothing: at any later time a token validates after it exactly when
  it would have validated without it.
\<close>

theorem cleanup_keeps_usable:
  assumes "auth_ok s" and "hashes_unique s" and "now \<le> now'"
  shows "fst (validate_reset_token digest now' w raw (snd (cleanup_expired_tokens now s)))
    = fst (validate_reset_token digest now' w raw s)"
proof -
  define P where "P = (\<lambda>p :: int \<times> reset_token. \<not> (rt_expires (snd p) < now - minutes (24 * 60)
      \<or> (case rt_used (snd p) of None \<Rightarrow> False | Some used \<Rightarrow> used < now - minutes (24 * 60))))"
  have toks: "tokens (snd (cleanup_expired_tokens now s)) = filter P (tokens s)"
    unfolding cleanup_expired_tokens_def Let_def P_def split_def by simp
  show ?thesis
  proof (cases "find_token (digest raw) s")
    case None
    then show ?thesis
      using find_token_filter [of "tokens s" "digest raw" P] assms(2)
      by (simp add: validate_fst find_token_def toks hashes_unique_def)
  next
    case (Some t)
    have gone: "\<exists>k. (k, t) \<in> set (filter P (tokens s))" if "rt_used t = None" "now' \<le> rt_expires t"
      using find_token_mem(1) [OF assms(1) Some] assms(1,3) that
      by (auto simp: P_def auth_ok_def dict_get_mem minutes_def)
    have "find_token (digest raw) (snd (cleanup_expired_tokens now s))
        = (if \<exists>k. (k, t) \<in> set (filter P (tokens s)) then Some t else None)"
      using find_token_filter [of "tokens s" "digest raw" P] assms(2) Some
      by (simp add: find_token_def toks hashes_unique_def)
    then show ?thesis using Some gone by (auto simp: validate_fst split: if_splits)
  qed
qed

theorem cleanup_keeps_usable_witness:
  "fst (validate_reset_token (\<lambda>r. ''d'' @ r) 60 demo_web ''t'' (snd (cleanup_expired_tokens 50 demo_reset)))
    = fst (validate_reset_token (\<lambda>r. ''d'' @ r) 60 demo_web ''t'' demo_reset)"
  by (rule cleanup_keeps_usable [OF demo_reset_ok])
     (simp_all add: hashes_unique_def demo_reset_def)

lemma safe_user_chars: "c \<in> set (safe_user name) \<Longrightarrow> safe_char c"
  by (auto simp: safe_user_def Let_def safe_char_def ord_of_def split: if_splits)

text \<open>
  A delivered reset token stays in its directory. Whatever the username, the file lies
  directly in the token directory (its name has no slash), is never an existing file, and
  holds the token.
\<close>

theorem delivery_contained:
  assumes "deliver_reset_token hooked token_dir existing stamp u tok mode = Inr (FileCreated path content)"
    and "CHR ''/'' \<notin> set stamp"
  shows "\<exists>n. path = token_dir @ ''/'' @ n \<and> CHR ''/'' \<notin> set n \<and> length n > 5
    \<and> path \<notin> set existing \<and> content = tok @ ''\<newline>''"
proof -
  have "\<not> safe_char (CHR ''/'')" by (simp add: safe_char_def ord_of_def)
  then have "CHR ''/'' \<notin> set (safe_user (us_name u))" using safe_user_chars by blast
  moreover have "safe_user (us_name u) \<noteq> []" by (simp add: safe_user_def Let_def)
  ultimately show ?thesis
    using assms by (auto simp: deliver_reset_token_def Let_def token_file_name_def split: if_splits)
qed

theorem delivery_contained_witness:
  "\<exists>n. ''/t/___etc_p-1.txt'' = ''/t'' @ ''/'' @ n \<and> CHR ''/'' \<notin> set n \<and> length n > 5
    \<and> ''/t/___etc_p-1.txt'' \<notin> set [] \<and> ''tok'' @ ''\<newline>'' = ''tok'' @ ''\<newline>''"
  by (rule delivery_contained [where hooked = False and mode = "''file''" and stamp = "''1''"
        and u = "demo_user\<lparr>us_name := '',/,etc/p''\<rparr>"])
     (simp_all add: deliver_reset_token_def token_file_name_def safe_user_def safe_char_def ord_of_def Let_def)

text \<open>
  Session versions do not survive key reuse. When the database gives the key of a deleted
  administrator to a new account (SQLite does, for the highest key), the deleted
  administrator's cookie is accepted again, with the administrator role.
\<close>

theorem deleted_admin_session_revives:
  assumes "auth_ok s" and "find_user name s = Some u" and "us_version u = 1"
    and "w_user w = Some name" and "w_uid w = Some (us_id u)" and "w_version w = Some 1" and "w_role w = Some ''admin''"
    and "find_user new_name (delete_user cascade u s) = None"
  shows "session_invalidated w (delete_user cascade u s)
    \<and> admin_required path f w (snd (create_user hash dl (us_id u) new_name pw ''user'' limit (delete_user cascade u s)))
       = f w (snd (create_user hash dl (us_id u) new_name pw ''user'' limit (delete_user cascade u s)))"
  using assms
  by (auto simp: admin_required_def Let_def session_invalidated_def create_user_def delete_user_def)

theorem deleted_admin_session_revives_witness:
  "admin_required ''/api/users'' (\<lambda>w s. (Plain ''in'' 200, w, s)) demo_web
     (snd (create_user (\<lambda>p. p) 200 1 ''bob'' ''pw'' ''user'' None (delete_user True demo_user demo_auth)))
   = (Plain ''in'' 200, demo_web,
      snd (create_user (\<lambda>p. p) 200 1 ''bob'' ''pw'' ''user'' None (delete_user True demo_user demo_auth)))"
  using deleted_admin_session_revives [OF demo_ok, of demo_web "''bob''" True "''/api/users''"
      "\<lambda>w s. (Plain ''in'' 200, w, s)" "\<lambda>p. p" 200 "''pw''" None]
  by (simp add: demo_user_def demo_web_def demo_auth_def delete_user_def find_user_def)

end
