(* ===== verification/AuthRoutes.thy ===== *)
theory AuthRoutes
  imports AuthSafety
begin

text \<open>
  The account routes of \<open>marlinspike/app.py\<close>: login and logout, the reset confirmation, the
  password and user management of the administrators, the password policy, and the check
  that guards every state-changing request against cross-site forgery. A route is a function
  of the request and the database; rate limits and page rendering are left out.
\<close>

section \<open>Password policy\<close>

definition py_isupper :: "char \<Rightarrow> bool" where
  "py_isupper c = (let n = ord_of c in (65 \<le> n \<and> n \<le> 90) \<or> (192 \<le> n \<and> n \<le> 222 \<and> n \<noteq> 215))"

definition py_islower :: "char \<Rightarrow> bool" where
  "py_islower c = (let n = ord_of c in
     (97 \<le> n \<and> n \<le> 122) \<or> n = 170 \<or> n = 181 \<or> n = 186 \<or> (223 \<le> n \<and> n \<le> 255 \<and> n \<noteq> 247))"

text \<open>\<open>str.isdigit\<close> also accepts the three superscript digits.\<close>

definition py_isdigit_any :: "char \<Rightarrow> bool" where
  "py_isdigit_any c = (let n = ord_of c in (48 \<le> n \<and> n \<le> 57) \<or> n = 178 \<or> n = 179 \<or> n = 185)"

definition password_reject :: "string list" where
  "password_reject = [''password'', ''password1'', ''password123'', ''passw0rd'', ''marlinspike'', ''marlinspike1'',
     ''admin'', ''admin123'', ''letmein'', ''qwerty'', ''12345678'', ''123456789'', ''changeme'', ''change-me'',
     ''secret'', ''default'']"

definition count_true :: "bool list \<Rightarrow> nat" where
  "count_true bs = length (filter id bs)"

definition password_meets_policy :: "string \<Rightarrow> bool" where
  "password_meets_policy pw =
     (if pw = [] \<or> length pw < 12 then False
      else if py_lower pw \<in> set password_reject then False
      else count_true [list_ex py_isupper pw, list_ex py_islower pw, list_ex py_isdigit_any pw,
             list_ex (\<lambda>c. \<not> py_isalnum c) pw] \<ge> 2)"

definition policy_message :: string where
  "policy_message = ''Password must be at least 12 characters and include at least two of: uppercase, lowercase, digits, symbols. Common predictable passwords are rejected.''"

section \<open>Cross-site request forgery\<close>

record http_request =
  rq_method :: string
  rq_exempt :: bool
  rq_csrf_header :: "string option"
  rq_csrf_form :: "string option"
  rq_origin :: "string option"
  rq_referer :: "string option"
  rq_url_root :: string

definition rstrip_slash :: "string \<Rightarrow> string" where
  "rstrip_slash s = rev (dropWhile (\<lambda>c. c = CHR ''/'') (rev s))"

text \<open>
  Scheme and authority of \<open>urlparse\<close>. Leading control characters and spaces, and every
  tab and line break, are dropped. \<open>netloc_bad\<close> is the library's test of a bracketed host
  and of a host that is not ASCII.
\<close>

definition scheme_char :: "char \<Rightarrow> bool" where
  "scheme_char c = (let n = ord_of c in
     (65 \<le> n \<and> n \<le> 90) \<or> (97 \<le> n \<and> n \<le> 122) \<or> (48 \<le> n \<and> n \<le> 57) \<or> n = 43 \<or> n = 45 \<or> n = 46)"

definition ascii_alpha :: "char \<Rightarrow> bool" where
  "ascii_alpha c = (let n = ord_of c in (65 \<le> n \<and> n \<le> 90) \<or> (97 \<le> n \<and> n \<le> 122))"

definition url_clean :: "string \<Rightarrow> string" where
  "url_clean u = filter (\<lambda>c. ord_of c \<noteq> 9 \<and> ord_of c \<noteq> 10 \<and> ord_of c \<noteq> 13) (dropWhile (\<lambda>c. ord_of c \<le> 32) u)"

definition url_scheme :: "string \<Rightarrow> string \<times> string" where
  "url_scheme u = (let s = takeWhile (\<lambda>c. c \<noteq> CHR '':'') u in
     if s \<noteq> [] \<and> length s < length u \<and> ascii_alpha (hd s) \<and> list_all scheme_char s
     then (py_lower s, drop (length s + 1) u) else ([], u))"

definition url_netloc :: "string \<Rightarrow> string" where
  "url_netloc u = (if take 2 u = ''//''
     then takeWhile (\<lambda>c. c \<noteq> CHR ''/'' \<and> c \<noteq> CHR ''?'' \<and> c \<noteq> CHR ''#'') (drop 2 u) else [])"

definition urlparse :: "(string \<Rightarrow> bool) \<Rightarrow> string \<Rightarrow> (string \<times> string) option" where
  "urlparse netloc_bad u = (case url_scheme (url_clean u) of (scheme, rest) \<Rightarrow>
     let netloc = url_netloc rest in
     if (CHR ''['' \<in> set netloc) \<noteq> (CHR '']'' \<in> set netloc) \<or> netloc_bad netloc then None
     else Some (scheme, netloc))"

definition given :: "string option \<Rightarrow> string" where
  "given x = (case x of None \<Rightarrow> [] | Some s \<Rightarrow> s)"

definition csrf_candidate :: "http_request \<Rightarrow> string option" where
  "csrf_candidate r = (if given (rq_csrf_header r) \<noteq> [] then rq_csrf_header r else rq_csrf_form r)"

definition referer_origin :: "(string \<Rightarrow> bool) \<Rightarrow> string \<Rightarrow> py_exc + string option" where
  "referer_origin netloc_bad referer =
     (if referer = [] then Inr None
      else case urlparse netloc_bad referer of
        None \<Rightarrow> Inl ValueError
      | Some (scheme, netloc) \<Rightarrow>
          Inr (if scheme \<noteq> [] \<and> netloc \<noteq> [] then Some (scheme @ ''://'' @ netloc) else None))"

text \<open>
  The hook before every request: \<open>Inr None\<close> lets it through, \<open>Inr (Some r)\<close> answers with \<open>r\<close>,
  \<open>Inl\<close> is the exception that \<open>urlparse\<close> raises on a malformed authority.
\<close>

definition csrf_check :: "(string \<Rightarrow> bool) \<Rightarrow> string list \<Rightarrow> http_request \<Rightarrow> web \<Rightarrow> py_exc + http option" where
  "csrf_check netloc_bad extra r w =
     (if rq_method r \<notin> {''POST'', ''PUT'', ''DELETE'', ''PATCH''} then Inr None
      else if rq_exempt r then Inr None
      else if validate_csrf (csrf_candidate r) w then Inr None
      else
        let origin = given (rq_origin r);
            allowed = rstrip_slash (rq_url_root r) # extra;
            origin_full = (if origin \<noteq> [] then Some (rstrip_slash origin) else None)
        in case referer_origin netloc_bad (given (rq_referer r)) of
          Inl e \<Rightarrow> Inl e
        | Inr ref \<Rightarrow>
            if origin_full = None \<and> ref = None then Inr (Some (api_error ''CSRF token missing or invalid'' 403))
            else if given origin_full \<noteq> [] \<and> given origin_full \<notin> set allowed then
              Inr (Some (api_error ''Origin check failed'' 403))
            else if ref \<noteq> None \<and> given ref \<notin> set allowed then
              Inr (Some (api_error ''Referer check failed'' 403))
            else Inr None)"

section \<open>Login, logout, password reset\<close>

definition json_ok :: http where "json_ok = Json [(''ok'', PBool True)] 200"

definition json_fail :: "string \<Rightarrow> nat \<Rightarrow> http" where
  "json_fail msg c = Json [(''ok'', PBool False), (''error'', PStr msg)] c"

definition login_submit ::
    "(string \<Rightarrow> string \<Rightarrow> bool) \<Rightarrow> string \<Rightarrow> (int \<Rightarrow> string) \<Rightarrow> (string \<Rightarrow> string) \<Rightarrow> int \<Rightarrow> string \<Rightarrow> string \<Rightarrow> view" where
  "login_submit check dummy isoformat tr now form_username password w s =
     (let username = py_strip form_username in
      case verify_user check dummy isoformat now w username password s of
        (None, s1) \<Rightarrow>
          (Page ''login.html'' [(''error'', tr ''login.invalid_credentials''), (''username'', username)], w,
           audit w ''auth.login_failed'' ((about_user username)\<lparr>aa_status := ''failure'', aa_ip := w_ip w\<rparr>) s1)
      | (Some u, s1) \<Rightarrow>
          let w1 = rotate_csrf (w\<lparr>w_user := Some (us_name u), w_uid := Some (us_id u), w_role := Some (us_role u),
                w_version := Some (if us_version u = 0 then 1 else us_version u)\<rparr>)
          in (Redirect ''dashboard'', w1, audit w1 ''auth.login'' (about_user username) s1))"

definition logout :: view where
  "logout w s = (Redirect ''login_page'', session_clear w, audit w ''auth.logout'' no_args s)"

definition api_reset_confirm ::
    "(string \<Rightarrow> string) \<Rightarrow> (string \<Rightarrow> string) \<Rightarrow> int \<Rightarrow> int \<Rightarrow> string \<Rightarrow> string \<Rightarrow> web \<Rightarrow> auth \<Rightarrow> (py_exc + http) \<times> web \<times> auth" where
  "api_reset_confirm digest hash now now' body_token new_password w s =
     (let raw = py_strip body_token in
      if raw = [] \<or> new_password = [] then (Inr (json_fail ''Token and new_password required'' 400), w, s)
      else if \<not> password_meets_policy new_password then (Inr (json_fail policy_message 400), w, s)
      else case validate_reset_token digest now w raw s of
        (None, s1) \<Rightarrow> (Inr (json_fail ''Invalid or expired token'' 400), w, s1)
      | (Some t, s1) \<Rightarrow>
          (case use_reset_token hash (rt_id t) now' new_password w s1 of
            (Inl e, w2, s2) \<Rightarrow> (Inl e, w2, s2)
          | (Inr None, w2, s2) \<Rightarrow> (Inr (json_fail ''Invalid or expired token'' 400), w2, s2)
          | (Inr (Some u), w2, s2) \<Rightarrow>
              (Inr (Json [(''ok'', PBool True), (''message'', PStr (''Password reset for '' @ us_name u))] 200), w2, s2)))"

section \<open>User management\<close>

text \<open>\<open>limit\<close> is the body's \<open>upload_limit_mb\<close>, when the key is there.\<close>

definition upload_limit :: "pyval option \<Rightarrow> int option" where
  "upload_limit limit = (case limit of
       None \<Rightarrow> Some 200
     | Some v \<Rightarrow> (case py_int v of None \<Rightarrow> None | Some n \<Rightarrow> if n < 1 \<or> n > 10000 then None else Some n))"

definition api_users_create ::
    "(string \<Rightarrow> string) \<Rightarrow> int \<Rightarrow> int \<Rightarrow> string \<Rightarrow> string \<Rightarrow> string \<Rightarrow> pyval option \<Rightarrow> view" where
  "api_users_create hash dl uid body_username password role limit w s =
     (let username = py_strip body_username in
      if username = [] \<or> password = [] then (json_fail ''Username and password required'' 400, w, s)
      else if \<not> password_meets_policy password then (json_fail policy_message 400, w, s)
      else if role \<noteq> ''admin'' \<and> role \<noteq> ''user'' then (json_fail ''Invalid role'' 400, w, s)
      else if find_user username s \<noteq> None then (json_fail ''Username already exists'' 409, w, s)
      else case upload_limit limit of
        None \<Rightarrow> (json_fail ''upload_limit_mb must be 1-10000'' 400, w, s)
      | Some l \<Rightarrow> (json_ok, w, snd (create_user hash dl uid username password role (Some l) s)))"

definition api_users_delete :: "bool \<Rightarrow> string \<Rightarrow> view" where
  "api_users_delete cascade username w s = (case find_user username s of
       None \<Rightarrow> (json_fail ''User not found'' 404, w, s)
     | Some u \<Rightarrow>
         if w_user w = Some (us_name u) then (json_fail ''Cannot delete yourself'' 400, w, s)
         else (json_ok, w, delete_user cascade u s))"

definition api_users_change_password :: "(string \<Rightarrow> string) \<Rightarrow> string \<Rightarrow> string \<Rightarrow> view" where
  "api_users_change_password hash username new_pass w s =
     (if new_pass = [] then (json_fail ''Password required'' 400, w, s)
      else if \<not> password_meets_policy new_pass then (json_fail policy_message 400, w, s)
      else case find_user username s of
        None \<Rightarrow> (json_fail ''User not found'' 404, w,
          audit w ''auth.password_change_failed'' ((about_user username)\<lparr>aa_status := ''not_found''\<rparr>) s)
      | Some u \<Rightarrow> (case change_password hash u new_pass w s of (w1, s1) \<Rightarrow>
          (json_ok, w1, audit w1 ''auth.password_change_admin'' (about_user username) s1)))"

text \<open>
  The self-service change. A session whose user row is gone raises on the missing row; a
  wrong current password counts against the account's lockout.
\<close>

definition api_account_change_password ::
    "(string \<Rightarrow> string \<Rightarrow> bool) \<Rightarrow> string \<Rightarrow> (int \<Rightarrow> string) \<Rightarrow> (string \<Rightarrow> string) \<Rightarrow> int \<Rightarrow> string \<Rightarrow> string
      \<Rightarrow> web \<Rightarrow> auth \<Rightarrow> (py_exc + http) \<times> web \<times> auth" where
  "api_account_change_password check dummy isoformat hash now current new_pass w s =
     (if current = [] \<or> new_pass = [] then (Inr (json_fail ''Current and new password required'' 400), w, s)
      else if \<not> password_meets_policy new_pass then (Inr (json_fail policy_message 400), w, s)
      else case w_user w of None \<Rightarrow> (Inl KeyError, w, s) | Some name \<Rightarrow>
        (case find_user name s of
          None \<Rightarrow> (Inl AttributeError, w, s)
        | Some u \<Rightarrow> (case verify_user check dummy isoformat now w (us_name u) current s of
            (None, s1) \<Rightarrow> (Inr (json_fail ''Current password is incorrect'' 403), w,
               audit w ''auth.password_change_failed'' ((about_user (us_name u))\<lparr>aa_status := ''wrong_current_password''\<rparr>) s1)
          | (Some u1, s1) \<Rightarrow> (case change_password hash u1 new_pass w s1 of (w2, s2) \<Rightarrow>
               (Inr json_ok, w2, audit w2 ''auth.password_change'' (about_user (us_name u)) s2)))))"

section \<open>What the routes promise\<close>

lemma verify_user_row:
  assumes "auth_ok s" "verify_user check dummy isoformat now w name pw s = (Some u, s')"
  shows "dict_get (users s') (us_id u) = Some u" "us_name u = name" "us_version u \<ge> 1"
    "tokens s' = tokens s" "auth_ok s'"
proof -
  have ok: "auth_ok s'"
    using verify_user_ok [OF assms(1), of check dummy isoformat now w name pw] assms(2) by simp
  obtain v where v: "find_user name s = Some v" "check (us_hash v) pw" "\<not> is_locked now v"
    using assms(2) by (auto simp: verify_user_cases split: option.splits if_splits)
  have get: "dict_get (users s) (us_id v) = Some v" "us_name v = name"
    using find_user_mem [OF assms(1) v(1)] by auto
  then have ver: "us_version v \<ge> 1" using auth_ok_user [OF assms(1)] by blast
  show "dict_get (users s') (us_id u) = Some u" "us_name u = name" "us_version u \<ge> 1"
    "tokens s' = tokens s" "auth_ok s'"
    using assms(2) v get ver ok by (auto simp: verify_user_cases split: if_splits)
qed

text \<open>
  A login opens a session that is valid. After a successful login both decorators run
  the view for it (the administrators' one when the row says so), the CSRF token that was in
  the cookie is dropped, and no further token compares equal until one is minted.
\<close>

theorem login_opens_session:
  assumes "auth_ok s" and "check (us_hash u) pw" and "find_user (py_strip form) s = Some u" and "\<not> is_locked now u"
    and "login_submit check dummy isoformat tr now form pw w s = (r, w', s')"
  shows "r = Redirect ''dashboard'' \<and> login_required f w' s' = f w' s'
    \<and> (us_role u = ''admin'' \<longrightarrow> admin_required path f w' s' = f w' s') \<and> \<not> validate_csrf c w'"
proof -
  let ?v = "verify_user check dummy isoformat now w (py_strip form) pw s"
  have "\<exists>u'. fst ?v = Some u' \<and> us_role u' = us_role u"
    using assms(2-4) by (auto simp: verify_user_cases)
  then obtain u' where u': "fst ?v = Some u'" "us_role u' = us_role u" by blast
  then obtain s1 where v: "?v = (Some u', s1)" by (cases ?v) auto
  note row = verify_user_row [OF assms(1) v]
  have w': "w' = rotate_csrf (w\<lparr>w_user := Some (us_name u'), w_uid := Some (us_id u'), w_role := Some (us_role u'),
        w_version := Some (us_version u')\<rparr>)" "r = Redirect ''dashboard''" "users s' = users s1"
    using assms(5) v row(3) by (auto simp: login_submit_def Let_def)
  have "\<not> session_invalidated w' s'"
    using row(1) by (simp add: w' session_invalidated_def rotate_csrf_def)
  then show ?thesis
    using u' by (auto simp: w' login_required_def admin_required_def Let_def rotate_csrf_def validate_csrf_def
        split: option.split)
qed

theorem login_opens_session_witness:
  "fst (login_submit (=) ''d'' (\<lambda>_. []) (\<lambda>k. k) 5 '' ann '' ''h'' demo_web demo_auth) = Redirect ''dashboard''"
proof -
  have strip: "py_strip '' ann '' = ''ann''"
    by (simp add: py_strip_def py_lstrip_def py_rstrip_def py_isspace_def ord_of_def)
  obtain r w' s' where run: "login_submit (=) ''d'' (\<lambda>_. []) (\<lambda>k. k) 5 '' ann '' ''h'' demo_web demo_auth = (r, w', s')"
    by (rule prod_cases3)
  have "r = Redirect ''dashboard''"
    using login_opens_session [OF demo_ok(1) _ _ _ run, of demo_user] strip demo_ok(2)
    by (simp add: demo_user_def is_locked_def)
  with run show ?thesis by simp
qed

text \<open>
  A forged request is refused. A state-changing request to a route that is not exempt,
  from a page of another site (an Origin that is neither the application's nor listed), does
  not reach its view unless it carries the session's token; without token, Origin and Referer
  it is refused as well. A request from the application's own origin passes.
\<close>

theorem forged_request_refused:
  assumes "rq_method r \<in> {''POST'', ''PUT'', ''DELETE'', ''PATCH''}" and "\<not> rq_exempt r"
    and "\<not> validate_csrf (csrf_candidate r) w"
  shows "(case rq_origin r of
      None \<Rightarrow> rq_referer r = None \<longrightarrow> csrf_check netloc_bad extra r w = Inr (Some (api_error ''CSRF token missing or invalid'' 403))
    | Some site \<Rightarrow>
        (rstrip_slash site \<noteq> [] \<and> rstrip_slash site \<notin> set (rstrip_slash (rq_url_root r) # extra)
          \<longrightarrow> csrf_check netloc_bad extra r w \<noteq> Inr None)
        \<and> (rstrip_slash site = rstrip_slash (rq_url_root r) \<and> site \<noteq> [] \<and> rq_referer r = None
          \<longrightarrow> csrf_check netloc_bad extra r w = Inr None))"
proof -
  have nonempty: "rstrip_slash site \<noteq> [] \<Longrightarrow> site \<noteq> []" for site
    by (auto simp: rstrip_slash_def)
  show ?thesis
    using assms nonempty
    by (auto simp: csrf_check_def Let_def given_def referer_origin_def split: option.split sum.split)
qed

definition forged :: http_request where
  "forged = \<lparr>rq_method = ''POST'', rq_exempt = False, rq_csrf_header = None, rq_csrf_form = Some ''guess'',
     rq_origin = Some ''https://evil.example'', rq_referer = None, rq_url_root = ''https://ms.example/''\<rparr>"

theorem forged_request_refused_witness: "csrf_check (\<lambda>_. False) [] forged demo_web \<noteq> Inr None"
  using forged_request_refused [of forged demo_web "\<lambda>_. False" "[]"]
  by (simp add: forged_def demo_web_def validate_csrf_def csrf_candidate_def given_def rstrip_slash_def)

text \<open>
  A password change takes effect. After the self-service change succeeds, the new
  password logs in at once and the old one does not, and the session that made the change
  is over like every other one. The hypothesis on the hash is the contract of the password
  library: a hash fits exactly the password it was made from.
\<close>

theorem password_change_takes_effect:
  assumes "auth_ok s" and "\<forall>p q. check (hash p) q \<longleftrightarrow> p = q"
    and "w_user w = Some name" and "find_user name s = Some u" and "w_uid w = Some (us_id u)" and "w_version w = Some (us_version u)"
    and "api_account_change_password check dummy isoformat hash now current new_pass w s = (Inr json_ok, w', s')"
    and "\<not> is_locked now' u"
  shows "fst (verify_user check dummy isoformat now' w0 name new_pass s') \<noteq> None
    \<and> (p \<noteq> new_pass \<longrightarrow> fst (verify_user check dummy isoformat now' w0 name p s') = None)
    \<and> session_invalidated w s'"
proof -
  have name: "us_name u = name" using find_user_mem [OF assms(1,4)] by auto
  let ?v = "verify_user check dummy isoformat now w name current s"
  have "fst ?v \<noteq> None"
    using assms(3,4,7) name
    by (auto simp: api_account_change_password_def json_ok_def json_fail_def split: if_splits option.splits prod.splits)
  then have good: "\<not> is_locked now u" "check (us_hash u) current"
    using assms(4) by (auto simp: verify_user_cases split: if_splits)
  define u1 where "u1 = (if us_attempts u \<noteq> 0 \<or> us_locked u \<noteq> None then u\<lparr>us_attempts := 0, us_locked := None\<rparr> else u)"
  define s1 where "s1 = (if us_attempts u \<noteq> 0 \<or> us_locked u \<noteq> None then put_user u1 s else s)"
  have v: "?v = (Some u1, s1)"
    using good assms(4) by (simp add: verify_user_cases u1_def s1_def)
  have ok1: "auth_ok s1" and id1: "us_id u1 = us_id u" and find1: "find_user name s1 = Some u1"
    and ver1: "us_version u1 = us_version u" and free: "\<not> is_locked now' u1"
    using verify_user_row [OF assms(1) v] find_user_put [OF assms(1,4), of u1 name] assms(4,8)
    by (auto simp: u1_def s1_def is_locked_def split: if_splits)
  let ?u2 = "set_password (hash new_pass) u1"
  have s': "users s' = users (put_user ?u2 s1)"
    using assms(3,4,7) name v
    by (auto simp: api_account_change_password_def change_password_def json_ok_def json_fail_def split: if_splits)
  have "find_user name (put_user ?u2 s1) = Some ?u2"
    using find_user_put [OF ok1 find1, of ?u2 name] by simp
  then have find2: "find_user name s' = Some ?u2" by (simp add: find_user_def s')
  have "us_version u \<ge> 1" using verify_user_row(3) [OF assms(1) v] ver1 by simp
  then have "session_invalidated w s'"
    using assms(5,6) id1 ver1 bump_version_greater [of "us_version u"]
    by (simp add: session_invalidated_def s')
  moreover have "\<not> is_locked now' ?u2" using free by (simp add: is_locked_def set_password_def)
  ultimately show ?thesis
    using assms(2) by (auto simp: verify_user_cases find2)
qed

definition demo_hashed :: auth where
  "demo_hashed = \<lparr>users = [(1, demo_user\<lparr>us_hash := ''#Old-password1''\<rparr>)], tokens = [], audit_rows = []\<rparr>"

theorem password_change_takes_effect_witness:
  "let h = (\<lambda>p. CHR ''#'' # p); s' = snd (snd (api_account_change_password (\<lambda>x p. x = h p) ''d'' (\<lambda>_. []) h 5
      ''Old-password1'' ''New-password1'' demo_web demo_hashed))
   in fst (verify_user (\<lambda>x p. x = h p) ''d'' (\<lambda>_. []) 6 demo_web ''ann'' ''New-password1'' s') \<noteq> None"
proof -
  let ?h = "\<lambda>p. CHR ''#'' # p"
  let ?r = "api_account_change_password (\<lambda>x p. x = ?h p) ''d'' (\<lambda>_. []) ?h 5 ''Old-password1'' ''New-password1'' demo_web demo_hashed"
  have pol: "password_meets_policy ''New-password1''"
    by (simp add: password_meets_policy_def py_lower_def py_lower_char_def password_reject_def count_true_def
        py_isupper_def py_islower_def ord_of_def Let_def)
  have run: "?r = (Inr json_ok, fst (snd ?r), snd (snd ?r))"
    by (simp add: api_account_change_password_def pol demo_web_def demo_hashed_def demo_user_def find_user_def
        verify_user_cases is_locked_def change_password_def)
  have ok: "auth_ok demo_hashed"
    by (simp add: auth_ok_def demo_hashed_def demo_user_def dict_ok_def)
  show ?thesis
    using password_change_takes_effect [OF ok _ _ _ _ _ run, of "''ann''" "demo_user\<lparr>us_hash := ''#Old-password1''\<rparr>" 6 demo_web]
    by (simp add: Let_def demo_web_def demo_hashed_def demo_user_def find_user_def is_locked_def)
qed

end
