(* ===== verification/Scheduler.thy ===== *)
theory Scheduler
  imports CaptureApi
begin

text \<open>
  Automated captures: \<open>marlinspike/scheduler.py\<close> and the schedule routes of
  \<open>marlinspike/fleet/api.py\<close>. A tick serves every project that has a schedule; a due slot
  starts a capture on each online agent through the same gated start as the route. Times
  are microseconds in UTC. The replies of the agents, the fresh session ids and the clock
  readings are an argument indexed by project and agent.
\<close>

section \<open>The stored schedule\<close>

type_synonym schedule = "(string, pyval) dict"

definition schedule_allowed_keys :: "string list" where
  "schedule_allowed_keys = [''enabled'', ''times_utc'', ''duration_s'', ''interface'', ''bpf_filter'']"

text \<open>\<open>^([01]\d|2[0-3]):[0-5]\d$\<close>: the dollar also matches before a final line break.\<close>

definition in_range :: "nat \<Rightarrow> nat \<Rightarrow> char \<Rightarrow> bool" where
  "in_range lo hi c = (lo \<le> ord_of c \<and> ord_of c \<le> hi)"

fun time_utc_chars :: "string \<Rightarrow> bool" where
  "time_utc_chars [a, b, c, d, e] =
     (((in_range 48 49 a \<and> py_isdigit b) \<or> (a = CHR ''2'' \<and> in_range 48 51 b))
      \<and> c = CHR '':'' \<and> in_range 48 53 d \<and> py_isdigit e)"
| "time_utc_chars _ = False"

definition time_utc_matches :: "string \<Rightarrow> bool" where
  "time_utc_matches s = (time_utc_chars s \<or> (s \<noteq> [] \<and> ord_of (last s) = 10 \<and> time_utc_chars (butlast s)))"

definition bad_times :: "(rat \<Rightarrow> string) \<Rightarrow> pyval \<Rightarrow> string option" where
  "bad_times fr v = (case v of
       PList (t # ts) \<Rightarrow>
         (case find (\<lambda>t. \<not> (case t of PStr s \<Rightarrow> time_utc_matches s | _ \<Rightarrow> False)) (t # ts) of
           None \<Rightarrow> None
         | Some bad \<Rightarrow> Some (''times_utc entry '' @ py_repr fr bad @ '' is not a valid HH:MM (24h) time''))
     | _ \<Rightarrow> Some ''times_utc must be a non-empty list of HH:MM strings'')"

definition bad_duration :: "pyval \<Rightarrow> bool" where
  "bad_duration v = (case v of PInt n \<Rightarrow> n \<le> 0 | _ \<Rightarrow> True)"

definition validate_schedule_body :: "(rat \<Rightarrow> string) \<Rightarrow> schedule \<Rightarrow> string option" where
  "validate_schedule_body fr b =
     (let unknown = filter (\<lambda>k. k \<notin> set schedule_allowed_keys) (map fst b);
          has = has_key b; val = obj_get b
      in if unknown \<noteq> [] then Some (''unknown key(s): '' @ py_join '', '' (sort (remdups unknown)))
      else if has ''enabled'' \<and> \<not> is_bool (val ''enabled'') then Some ''enabled must be a boolean''
      else if has ''times_utc'' \<and> bad_times fr (val ''times_utc'') \<noteq> None then bad_times fr (val ''times_utc'')
      else if has ''duration_s'' \<and> bad_duration (val ''duration_s'') then Some ''duration_s must be a positive integer''
      else if has ''interface'' \<and> \<not> is_str (val ''interface'') then Some ''interface must be a string''
      else if has ''bpf_filter'' \<and> \<not> is_str (val ''bpf_filter'') then Some ''bpf_filter must be a string''
      else if truthy (val ''enabled'') \<and> \<not> truthy (val ''interface'') then Some ''enabled schedules require interface''
      else if truthy (val ''enabled'') \<and> \<not> truthy (val ''times_utc'') then Some ''enabled schedules require times_utc''
      else None)"

definition parse_schedule :: "(string \<Rightarrow> pyval option) \<Rightarrow> string option \<Rightarrow> schedule option" where
  "parse_schedule loads raw = (case raw of
       None \<Rightarrow> None
     | Some s \<Rightarrow> if s = [] then None else (case loads s of Some (PDict d) \<Rightarrow> Some d | _ \<Rightarrow> None))"

section \<open>Due slots\<close>

definition usec :: "int \<Rightarrow> int" where "usec s = s * 1000000"
definition slot_grace_s :: int where "slot_grace_s = 180"

definition day_start :: "int \<Rightarrow> int" where
  "day_start now = now - now mod usec 86400"

text \<open>\<open>now.replace(hour=hh, minute=mm, second=0, microsecond=0)\<close>; \<open>None\<close> is its \<open>ValueError\<close>.\<close>

definition replace_time :: "int \<Rightarrow> int \<Rightarrow> int \<Rightarrow> int option" where
  "replace_time now hh mm =
     (if 0 \<le> hh \<and> hh \<le> 23 \<and> 0 \<le> mm \<and> mm \<le> 59 then Some (day_start now + usec (hh * 3600 + mm * 60)) else None)"

text \<open>Hour and minute of an entry; \<open>None\<close> for a malformed one, which is skipped.\<close>

definition slot_time :: "(rat \<Rightarrow> string) \<Rightarrow> pyval \<Rightarrow> (int \<times> int) option" where
  "slot_time fr raw_time = (case py_split (CHR '':'') (py_str fr raw_time) of
       [a, b] \<Rightarrow> (case (py_int_str a, py_int_str b) of (Some hh, Some mm) \<Rightarrow> Some (hh, mm) | _ \<Rightarrow> None)
     | _ \<Rightarrow> None)"

definition slot_due :: "int \<Rightarrow> int option \<Rightarrow> int \<Rightarrow> bool" where
  "slot_due now fired slot =
     (if slot > now then False
      else if now - slot > usec slot_grace_s then False
      else (case fired of None \<Rightarrow> True | Some lt \<Rightarrow> \<not> lt \<ge> slot))"

fun due_slots :: "(rat \<Rightarrow> string) \<Rightarrow> int \<Rightarrow> int option \<Rightarrow> pyval list \<Rightarrow> py_exc + bool" where
  "due_slots fr now fired [] = Inr False"
| "due_slots fr now fired (raw_time # rest) = (case slot_time fr raw_time of
       None \<Rightarrow> due_slots fr now fired rest
     | Some (hh, mm) \<Rightarrow> (case replace_time now hh mm of
         None \<Rightarrow> Inl ValueError
       | Some slot \<Rightarrow> if slot_due now fired slot then Inr True else due_slots fr now fired rest))"

definition due_slot_today :: "(rat \<Rightarrow> string) \<Rightarrow> schedule \<Rightarrow> int \<Rightarrow> int option \<Rightarrow> py_exc + bool" where
  "due_slot_today fr sch now fired =
     (case py_iter (py_or (obj_get sch ''times_utc'') (PList [])) of
       None \<Rightarrow> Inl TypeError
     | Some xs \<Rightarrow> due_slots fr now fired xs)"

section \<open>One tick\<close>

record sched_project =
  sp_project :: project
  sp_schedule :: "string option"
  sp_fired :: "int option"

text \<open>What the world gives a start on a project's agent: the session id, the time, the reply.\<close>

type_synonym env = "int \<Rightarrow> int \<Rightarrow> string \<times> int \<times> rpc"

definition schedule_request :: "sched_project \<Rightarrow> agent \<Rightarrow> string \<Rightarrow> string \<Rightarrow> int \<Rightarrow> start_request" where
  "schedule_request p ag interface bpf duration = \<lparr>rq_user = p_user (sp_project p), rq_project = Some (sp_project p),
     rq_agent = Some ag, rq_interface = interface, rq_bpf = bpf, rq_filesize_kb = 200000, rq_files = 10,
     rq_max_duration = duration, rq_actor = Some ''scheduler''\<rparr>"

fun start_on_agents ::
    "(string \<Rightarrow> pyval option) \<Rightarrow> capture_config \<Rightarrow> env \<Rightarrow> (agent \<Rightarrow> start_request) \<Rightarrow> int \<Rightarrow> agent list \<Rightarrow> api
      \<Rightarrow> py_exc option \<times> api" where
  "start_on_agents loads cfg env rq pid [] s = (None, s)"
| "start_on_agents loads cfg env rq pid (ag # ags) s = (case env pid (ag_id ag) of (uuid, now, reply) \<Rightarrow>
     (case start_capture_session loads cfg uuid now reply (rq ag) s of
       (Inl e, s') \<Rightarrow> (Some e, s')
     | (Inr _, s') \<Rightarrow> start_on_agents loads cfg env rq pid ags s'))"

definition int_exc :: "pyval \<Rightarrow> py_exc" where
  "int_exc v = (case v of PStr _ \<Rightarrow> ValueError | _ \<Rightarrow> TypeError)"

definition online_agents :: "agent list \<Rightarrow> int \<Rightarrow> agent list" where
  "online_agents agents pid = filter (\<lambda>ag. ag_project ag = pid \<and> ag_status ag = ''online'') agents"

definition serve_project ::
    "(rat \<Rightarrow> string) \<Rightarrow> (string \<Rightarrow> pyval option) \<Rightarrow> capture_config \<Rightarrow> agent list \<Rightarrow> env \<Rightarrow> int \<Rightarrow> sched_project \<Rightarrow> api
      \<Rightarrow> py_exc option \<times> sched_project \<times> api" where
  "serve_project fr loads cfg agents env now p s = (case parse_schedule loads (sp_schedule p) of
       None \<Rightarrow> (None, p, s)
     | Some sch \<Rightarrow>
         if sch = [] \<or> \<not> truthy (obj_get sch ''enabled'') then (None, p, s)
         else (case due_slot_today fr sch now (sp_fired p) of
           Inl e \<Rightarrow> (Some e, p, s)
         | Inr False \<Rightarrow> (None, p, s)
         | Inr True \<Rightarrow>
             let interface = py_strip (py_str fr (py_or (obj_get sch ''interface'') (PStr [])));
                 d = py_or (obj_get sch ''duration_s'') (PInt 300);
                 bpf = py_str fr (py_or (obj_get sch ''bpf_filter'') (PStr []))
             in (case py_int d of
                 None \<Rightarrow> (Some (int_exc d), p, s)
               | Some duration_s \<Rightarrow>
                   (case start_on_agents loads cfg env (\<lambda>ag. schedule_request p ag interface bpf duration_s)
                          (p_id (sp_project p)) (online_agents agents (p_id (sp_project p))) s of
                     (Some e, s') \<Rightarrow> (Some e, p, s')
                   | (None, s') \<Rightarrow> (None, p\<lparr>sp_fired := Some now\<rparr>, s')))))"

text \<open>An exception leaves the remaining projects unserved; the loop logs it and sleeps.\<close>

fun run_due_schedules ::
    "(rat \<Rightarrow> string) \<Rightarrow> (string \<Rightarrow> pyval option) \<Rightarrow> capture_config \<Rightarrow> agent list \<Rightarrow> env \<Rightarrow> int \<Rightarrow> sched_project list \<Rightarrow> api
      \<Rightarrow> py_exc option \<times> sched_project list \<times> api" where
  "run_due_schedules fr loads cfg agents env now [] s = (None, [], s)"
| "run_due_schedules fr loads cfg agents env now (p # ps) s =
     (case serve_project fr loads cfg agents env now p s of
       (Some e, p', s') \<Rightarrow> (Some e, p' # ps, s')
     | (None, p', s') \<Rightarrow>
         (case run_due_schedules fr loads cfg agents env now ps s' of (e, ps', s'') \<Rightarrow> (e, p' # ps', s'')))"

definition scheduler_tick ::
    "(rat \<Rightarrow> string) \<Rightarrow> (string \<Rightarrow> pyval option) \<Rightarrow> capture_config \<Rightarrow> agent list \<Rightarrow> env \<Rightarrow> int \<Rightarrow> sched_project list \<Rightarrow> api
      \<Rightarrow> sched_project list \<times> api" where
  "scheduler_tick fr loads cfg agents env now ps s = snd (run_due_schedules fr loads cfg agents env now ps s)"

section \<open>The schedule routes\<close>

definition get_project_for_user ::
    "(int, sched_project) dict \<Rightarrow> member list \<Rightarrow> int option \<Rightarrow> int \<Rightarrow> string \<Rightarrow> sched_project option" where
  "get_project_for_user projects ms uid pid min_role = (case uid of
       None \<Rightarrow> None
     | Some u \<Rightarrow> if u = 0 then None else (case dict_get projects pid of
         None \<Rightarrow> None
       | Some p \<Rightarrow>
           if p_user (sp_project p) = u then Some p
           else if member_allows ms pid u min_role then Some p else None))"

text \<open>The reply, and the project table after it; \<open>dumps\<close> is the JSON writer.\<close>

definition set_capture_schedule ::
    "(rat \<Rightarrow> string) \<Rightarrow> (schedule \<Rightarrow> string) \<Rightarrow> member list \<Rightarrow> int option \<Rightarrow> int \<Rightarrow> pyval option
      \<Rightarrow> (int, sched_project) dict \<Rightarrow> reply \<times> (int, sched_project) dict" where
  "set_capture_schedule fr dumps ms uid pid json projects =
     (case get_project_for_user projects ms uid pid ''owner'' of
       None \<Rightarrow> (failure ''Project not found'' 404, projects)
     | Some p \<Rightarrow> (case json of
         Some (PDict b) \<Rightarrow>
           (case validate_schedule_body fr b of
             Some err \<Rightarrow> (failure (''invalid schedule: '' @ err) 400, projects)
           | None \<Rightarrow> (\<lparr>body = [(''ok'', PBool True), (''schedule'', PDict b)], session_row = None, code = 200\<rparr>,
               dict_set pid (p\<lparr>sp_schedule := (if b \<noteq> [] then Some (dumps b) else None)\<rparr>) projects))
       | _ \<Rightarrow> (failure ''JSON body required'' 400, projects)))"

section \<open>Accepted entries\<close>

lemma usec_mono [simp]: "usec a \<le> usec b \<longleftrightarrow> a \<le> b" "usec a < usec b \<longleftrightarrow> a < b"
  by (auto simp: usec_def)

lemma in_range_digit: "in_range lo hi c \<Longrightarrow> 48 \<le> lo \<Longrightarrow> hi \<le> 57 \<Longrightarrow> py_isdigit c"
  by (auto simp: in_range_def py_isdigit_def Let_def)

lemma colon_not_digit: "\<not> py_isdigit (CHR '':'')"
  by (simp add: py_isdigit_def ord_of_def)

lemma sign_not_digit: "\<not> py_isdigit (CHR ''-'')" "\<not> py_isdigit (CHR ''+'')"
  by (simp_all add: py_isdigit_def ord_of_def)

lemma two_digits:
  assumes "py_isdigit a" "py_isdigit b" "\<forall>c \<in> set t. py_isspace c"
  shows "py_int_str (a # b # t) = Some (int (10 * digit_val a + digit_val b))"
proof -
  have "dropWhile py_isspace (rev t @ [b, a]) = [b, a]"
    using assms digit_not_space by (simp add: dropWhile_append3)
  then have "py_strip (a # b # t) = [a, b]"
    using digit_not_space [OF assms(1)] by (simp add: py_strip_def py_lstrip_def py_rstrip_def)
  moreover have "a \<noteq> CHR ''-''" "a \<noteq> CHR ''+''"
    using assms(1) sign_not_digit by auto
  ultimately show ?thesis using assms(1,2) by (simp add: py_int_str_def)
qed

lemma time_chars_split:
  assumes "time_utc_chars t" "\<forall>c \<in> set ws. py_isspace c"
  shows "\<exists>hh mm. slot_time fr (PStr (t @ ws)) = Some (hh, mm) \<and> 0 \<le> hh \<and> hh \<le> 23 \<and> 0 \<le> mm \<and> mm \<le> 59"
proof -
  obtain a b d e where t: "t = [a, b, CHR '':'', d, e]"
    using assms(1) by (cases t rule: time_utc_chars.cases) auto
  have dig: "py_isdigit a" "py_isdigit b" "py_isdigit d" "py_isdigit e"
    using assms(1) in_range_digit [of 48 49 a] in_range_digit [of 48 51 b] in_range_digit [of 48 53 d]
    by (auto simp: t py_isdigit_def ord_of_def)
  then have ne: "a \<noteq> CHR '':''" "b \<noteq> CHR '':''" "d \<noteq> CHR '':''" "e \<noteq> CHR '':''"
    using colon_not_digit by auto
  have "CHR '':'' \<notin> set ws"
    using assms(2) by (auto simp: py_isspace_def ord_of_def)
  then have tail: "py_split (CHR '':'') ws = [ws]"
    by (induction ws) auto
  have split: "py_split (CHR '':'') (t @ ws) = [[a, b], d # e # ws]"
    using ne by (simp add: t tail)
  have hh: "py_int_str [a, b] = Some (int (10 * digit_val a + digit_val b))"
    using two_digits [of a b "[]"] dig by simp
  have mm: "py_int_str (d # e # ws) = Some (int (10 * digit_val d + digit_val e))"
    by (rule two_digits [OF dig(3,4) assms(2)])
  have val: "digit_val x \<le> 9" if "py_isdigit x" for x
    using that by (auto simp: py_isdigit_def digit_val_def Let_def)
  have "10 * digit_val a + digit_val b \<le> 23"
  proof (cases "a = CHR ''2''")
    case True
    then have "ord_of b \<le> 51" using assms(1) by (auto simp: t in_range_def ord_of_def)
    then show ?thesis using True by (simp add: digit_val_def ord_of_def)
  next
    case False
    then have "ord_of a \<le> 49" using assms(1) by (auto simp: t in_range_def)
    then show ?thesis using val [OF dig(2)] by (simp add: digit_val_def)
  qed
  moreover have "10 * digit_val d + digit_val e \<le> 59"
  proof -
    have "ord_of d \<le> 53" using assms(1) by (auto simp: t in_range_def)
    then show ?thesis using val [OF dig(4)] by (simp add: digit_val_def)
  qed
  ultimately show ?thesis
    by (simp add: slot_time_def split hh mm)
qed

lemma matches_slot:
  assumes "time_utc_matches t"
  shows "\<exists>hh mm. slot_time fr (PStr t) = Some (hh, mm) \<and> replace_time now hh mm \<noteq> None"
proof -
  have "\<exists>u ws. t = u @ ws \<and> time_utc_chars u \<and> (\<forall>c \<in> set ws. py_isspace c)"
  proof (cases "time_utc_chars t")
    case True
    then show ?thesis by (intro exI [of _ t] exI [of _ "[]"]) simp
  next
    case False
    then have "t \<noteq> []" "ord_of (last t) = 10" "time_utc_chars (butlast t)"
      using assms by (auto simp: time_utc_matches_def)
    then show ?thesis
      by (intro exI [of _ "butlast t"] exI [of _ "[last t]"]) (simp add: py_isspace_def)
  qed
  then obtain u ws where "t = u @ ws" "time_utc_chars u" "\<forall>c \<in> set ws. py_isspace c" by blast
  then show ?thesis using time_chars_split [of u ws fr] by (force simp: replace_time_def)
qed

lemma due_slots_accepted:
  "\<forall>v \<in> set xs. \<exists>t. v = PStr t \<and> time_utc_matches t \<Longrightarrow> \<exists>b. due_slots fr now fired xs = Inr b"
proof (induction xs)
  case (Cons v xs)
  then obtain t where "v = PStr t" "time_utc_matches t" by auto
  then obtain hh mm where "slot_time fr v = Some (hh, mm)" "replace_time now hh mm \<noteq> None"
    using matches_slot by blast
  with Cons show ?case by (auto split: option.splits)
qed auto

lemma ok_time: "(case x of PStr s \<Rightarrow> time_utc_matches s | _ \<Rightarrow> False) \<longleftrightarrow> (\<exists>s. x = PStr s \<and> time_utc_matches s)"
  by (cases x) auto

lemma good_times:
  assumes "bad_times fr v = None"
  obtains xs where "v = PList xs" "\<forall>v \<in> set xs. \<exists>t. v = PStr t \<and> time_utc_matches t"
proof -
  obtain t ts where v: "v = PList (t # ts)"
    using assms by (auto simp: bad_times_def split: pyval.splits list.splits)
  have "find (\<lambda>t. \<not> (case t of PStr s \<Rightarrow> time_utc_matches s | _ \<Rightarrow> False)) (t # ts) = None"
  proof (rule ccontr)
    assume "\<not> ?thesis"
    then obtain bad where "find (\<lambda>t. \<not> (case t of PStr s \<Rightarrow> time_utc_matches s | _ \<Rightarrow> False)) (t # ts) = Some bad"
      by blast
    with assms show False unfolding bad_times_def v by simp
  qed
  then have "\<forall>x \<in> set (t # ts). case x of PStr s \<Rightarrow> time_utc_matches s | _ \<Rightarrow> False"
    unfolding find_None_iff by blast
  then have "\<forall>x \<in> set (t # ts). \<exists>s. x = PStr s \<and> time_utc_matches s"
    by (simp only: ok_time)
  with v that show thesis by blast
qed

text \<open>
  A schedule the route accepts cannot break the scheduler. For every schedule that
  passes validation, deciding whether a slot is due does not raise at any time of day, and
  its duration converts to an integer; so neither can abort a tick, which would leave the
  other projects unserved.
\<close>

theorem accepted_schedule_never_raises:
  assumes "validate_schedule_body fr b = None"
  shows "(\<exists>d. due_slot_today fr b now fired = Inr d)
    \<and> (\<exists>n. py_int (py_or (obj_get b ''duration_s'') (PInt 300)) = Some n \<and> n > 0)"
proof
  show "\<exists>d. due_slot_today fr b now fired = Inr d"
  proof (cases "has_key b ''times_utc''")
    case True
    then have "bad_times fr (obj_get b ''times_utc'') = None"
      using assms by (auto simp: validate_schedule_body_def Let_def split: if_splits)
    then obtain xs where xs: "obj_get b ''times_utc'' = PList xs" "\<forall>v \<in> set xs. \<exists>t. v = PStr t \<and> time_utc_matches t"
      by (rule good_times)
    then show ?thesis
      using due_slots_accepted [of xs fr now fired] by (cases xs) (auto simp: due_slot_today_def py_or_def)
  next
    case False
    then have "obj_get b ''times_utc'' = PNone" by (simp add: has_key_def obj_get_def)
    then show ?thesis by (auto simp: due_slot_today_def py_or_def)
  qed
  show "\<exists>n. py_int (py_or (obj_get b ''duration_s'') (PInt 300)) = Some n \<and> n > 0"
  proof (cases "has_key b ''duration_s''")
    case True
    then have "\<not> bad_duration (obj_get b ''duration_s'')"
      using assms by (auto simp: validate_schedule_body_def Let_def split: if_splits)
    then show ?thesis by (auto simp: bad_duration_def py_or_def split: pyval.splits)
  next
    case False
    then have "obj_get b ''duration_s'' = PNone" by (simp add: has_key_def obj_get_def)
    then show ?thesis by (simp add: py_or_def)
  qed
qed

definition demo_schedule :: schedule where
  "demo_schedule = [(''enabled'', PBool True), (''times_utc'', PList [PStr ''23:59'']), (''interface'', PStr ''eth0'')]"

lemma demo_schedule_accepted: "validate_schedule_body fr demo_schedule = None"
  by (simp add: validate_schedule_body_def demo_schedule_def Let_def schedule_allowed_keys_def has_key_def obj_get_def
      bad_times_def time_utc_matches_def in_range_def ord_of_def py_isdigit_def)

theorem accepted_schedule_never_raises_witness: "\<exists>d. due_slot_today (\<lambda>_. []) demo_schedule 1000 None = Inr d"
  using accepted_schedule_never_raises [OF demo_schedule_accepted] by blast

section \<open>Firing\<close>

text \<open>The configured times of a schedule, as offsets from midnight.\<close>

definition slot_offsets :: "(rat \<Rightarrow> string) \<Rightarrow> schedule \<Rightarrow> int list" where
  "slot_offsets fr sch = (case py_iter (py_or (obj_get sch ''times_utc'') (PList [])) of
       None \<Rightarrow> []
     | Some xs \<Rightarrow> List.map_filter (\<lambda>v. map_option (\<lambda>(hh, mm). usec (hh * 3600 + mm * 60)) (slot_time fr v)) xs)"

lemma map_filter_Cons: "List.map_filter f (x # xs) = (case f x of None \<Rightarrow> List.map_filter f xs | Some y \<Rightarrow> y # List.map_filter f xs)"
  by (simp add: List.map_filter_def split: option.split)

lemma due_slots_hit:
  "due_slots fr now fired xs = Inr True \<Longrightarrow>
   \<exists>off \<in> set (List.map_filter (\<lambda>v. map_option (\<lambda>(hh, mm). usec (hh * 3600 + mm * 60)) (slot_time fr v)) xs).
     slot_due now fired (day_start now + off)"
  by (induction xs) (auto simp: map_filter_Cons replace_time_def split: option.splits if_splits)

lemma due_hit:
  "due_slot_today fr sch now fired = Inr True \<Longrightarrow> \<exists>off \<in> set (slot_offsets fr sch). slot_due now fired (day_start now + off)"
  unfolding due_slot_today_def slot_offsets_def by (auto split: option.splits dest: due_slots_hit)

text \<open>
  When a start raises, as long as the client only raises its own two errors: an interface gate
  that raises. It depends on the request's project and interface, not on the agent, so in a tick
  either all starts raise or none. What a start asks of a daemon is at most one order.
\<close>

definition gate_raises :: "(string \<Rightarrow> pyval option) \<Rightarrow> capture_config \<Rightarrow> start_request \<Rightarrow> bool" where
  "gate_raises loads cfg rq \<longleftrightarrow> rq_interface rq \<noteq> [] \<and> \<not> (rq_filesize_kb rq < 1 \<or> rq_files rq < 1 \<or> rq_max_duration rq < 0)
     \<and> (\<exists>p e. rq_project rq = Some p \<and> obj_get (parse_policy loads (p_policy p)) ''enabled'' \<noteq> PBool False
          \<and> interface_gate cfg (parse_policy loads (p_policy p)) (rq_interface rq) = Some (Inl e))"

lemma finish_start_replies:
  assumes "\<And>e. reply \<noteq> RpcRaised e"
  shows "\<exists>r. fst (finish_start rq w p row now reply s) = Inr r"
proof (cases reply)
  case (RpcRaised e)
  with assms show ?thesis by blast
qed (simp_all add: finish_start_def Let_def)

lemma start_raises_iff:
  assumes "\<And>e. reply \<noteq> RpcRaised e"
  shows "(\<exists>e. fst (start_capture_session loads cfg uuid now reply rq s) = Inl e) \<longleftrightarrow> gate_raises loads cfg rq"
proof (cases "rq_interface rq = [] \<or> (rq_filesize_kb rq < 1 \<or> rq_files rq < 1 \<or> rq_max_duration rq < 0) \<or> rq_project rq = None")
  case True
  then show ?thesis by (auto simp: start_capture_session_def gate_raises_def)
next
  case False
  then obtain p where p: "rq_project rq = Some p" by auto
  have fin: "fst (finish_start rq w p row now reply s') \<noteq> Inl e" for w row s' e
    using finish_start_replies [OF assms] by (metis Inl_Inr_False)
  show ?thesis
    using False fin
    by (auto simp: start_capture_session_def gate_raises_def p Let_def split: option.splits prod.splits)
qed

lemma start_orders:
  assumes "start_capture_session loads cfg uuid now reply rq s = (res, s')"
  shows "length (orders s') \<le> Suc (length (orders s))" "gate_raises loads cfg rq \<Longrightarrow> orders s' = orders s"
proof -
  from assms have "orders s' = orders s \<or> (\<not> gate_raises loads cfg rq \<and> (\<exists>x. orders s' = orders s @ [x]))"
  proof (cases rule: start_cases)
    case (reaches p policy kb n s2 s3 row)
    then have "\<not> gate_raises loads cfg rq" by (auto simp: gate_raises_def)
    moreover have "orders s' = orders s @ [start_order row]"
      using arg_cong [OF reaches(14), of "\<lambda>x. orders (snd x)"] reaches(15) by (simp add: finish_start_orders)
    ultimately show ?thesis by blast
  qed simp
  then show "length (orders s') \<le> Suc (length (orders s))" "gate_raises loads cfg rq \<Longrightarrow> orders s' = orders s" by auto
qed

definition never_raises :: "env \<Rightarrow> bool" where
  "never_raises env \<longleftrightarrow> (\<forall>pid aid e. snd (snd (env pid aid)) \<noteq> RpcRaised e)"

lemma start_on_agents_runs:
  assumes "never_raises env" "\<And>ag. gate_raises loads cfg (rq ag) \<longleftrightarrow> g"
    and "start_on_agents loads cfg env rq pid ags s = (x, s')"
  shows "(x = None \<or> orders s' = orders s) \<and> length (orders s') \<le> length (orders s) + length ags"
  using assms(3)
proof (induction ags arbitrary: s)
  case (Cons ag ags)
  obtain uuid now reply where env: "env pid (ag_id ag) = (uuid, now, reply)" by (rule prod_cases3)
  then have reply: "\<And>e. reply \<noteq> RpcRaised e" using assms(1) by (metis never_raises_def snd_conv)
  obtain res s1 where run: "start_capture_session loads cfg uuid now reply (rq ag) s = (res, s1)" by (rule prod.exhaust)
  note iff = start_raises_iff [OF reply, of loads cfg uuid now "rq ag" s, unfolded run fst_conv assms(2)]
  show ?case
  proof (cases g)
    case True
    then obtain e where "res = Inl e" using iff by blast
    then show ?thesis using Cons.prems start_orders(2) [OF run] assms(2) True by (auto simp: env run)
  next
    case False
    have "x = None"
      using Cons.prems False
    proof (induction "ag # ags" arbitrary: ag ags s)
      case (Cons b bs)
      obtain u n r where env: "env pid (ag_id b) = (u, n, r)" by (rule prod_cases3)
      then have reply: "\<And>e. r \<noteq> RpcRaised e" using assms(1) by (metis never_raises_def snd_conv)
      obtain res s1 where run: "start_capture_session loads cfg u n r (rq b) s = (res, s1)" by (rule prod.exhaust)
      then have "\<not> (\<exists>e. res = Inl e)"
        using start_raises_iff [OF reply, of loads cfg u n "rq b" s, unfolded run fst_conv assms(2)] Cons.prems by simp
      then obtain y where "res = Inr y" by (cases res) auto
      with Cons show ?case by (cases bs) (auto simp: env run)
    qed
    obtain y where "res = Inr y" using iff False by (cases res) auto
    then have "start_on_agents loads cfg env rq pid ags s1 = (x, s')" using Cons.prems by (simp add: env run)
    from Cons.IH [OF this] \<open>x = None\<close> start_orders(1) [OF run] show ?thesis by simp
  qed
qed simp

text \<open>A tick leaves a project as it was and orders nothing, or a slot is due and the tick is stored.\<close>

lemma serve_fires:
  assumes "serve_project fr loads cfg agents env now p s = (e, p', s')" "never_raises env"
    and "parse_schedule loads (sp_schedule p) = Some sch"
  shows "(p' = p \<and> orders s' = orders s)
    \<or> (due_slot_today fr sch now (sp_fired p) = Inr True \<and> p' = p\<lparr>sp_fired := Some now\<rparr>
       \<and> length (orders s') \<le> length (orders s) + length (online_agents agents (p_id (sp_project p))))"
proof (cases "(sch = [] \<or> \<not> truthy (obj_get sch ''enabled'')) \<or> due_slot_today fr sch now (sp_fired p) \<noteq> Inr True
    \<or> py_int (py_or (obj_get sch ''duration_s'') (PInt 300)) = None")
  case True
  then show ?thesis
    using assms(1,3) by (auto simp: serve_project_def Let_def split: sum.splits bool.splits option.splits if_splits)
next
  case False
  then obtain dur where dur: "py_int (py_or (obj_get sch ''duration_s'') (PInt 300)) = Some dur" by auto
  let ?i = "py_strip (py_str fr (py_or (obj_get sch ''interface'') (PStr [])))"
  let ?b = "py_str fr (py_or (obj_get sch ''bpf_filter'') (PStr []))"
  let ?ags = "online_agents agents (p_id (sp_project p))"
  obtain x s1 where run: "start_on_agents loads cfg env (\<lambda>ag. schedule_request p ag ?i ?b dur) (p_id (sp_project p)) ?ags s = (x, s1)"
    by (rule prod.exhaust)
  have "gate_raises loads cfg (schedule_request p ag ?i ?b dur) \<longleftrightarrow> gate_raises loads cfg (schedule_request p undefined ?i ?b dur)" for ag
    by (simp add: gate_raises_def schedule_request_def)
  note runs = start_on_agents_runs [OF assms(2) this run]
  show ?thesis
    using assms(1,3) False dur runs by (cases x) (auto simp: serve_project_def Let_def run)
qed

text \<open>The ticks of a scheduler for one project, each with its time, the agents and what their daemons reply.\<close>

fun serve_ticks ::
    "(rat \<Rightarrow> string) \<Rightarrow> (string \<Rightarrow> pyval option) \<Rightarrow> capture_config \<Rightarrow> (int \<times> agent list \<times> env) list \<Rightarrow> sched_project \<Rightarrow> api
      \<Rightarrow> sched_project \<times> api" where
  "serve_ticks fr loads cfg [] p s = (p, s)"
| "serve_ticks fr loads cfg ((now, agents, env) # ticks) p s =
     (case serve_project fr loads cfg agents env now p s of (e, p', s') \<Rightarrow> serve_ticks fr loads cfg ticks p' s')"

definition pending_slots :: "(rat \<Rightarrow> string) \<Rightarrow> schedule \<Rightarrow> int \<Rightarrow> int option \<Rightarrow> int list \<Rightarrow> int set" where
  "pending_slots fr sch day fired nows = {off \<in> set (slot_offsets fr sch).
     (case fired of None \<Rightarrow> True | Some f \<Rightarrow> f < day + off)
     \<and> (\<exists>now \<in> set nows. day + off \<le> now \<and> now \<le> day + off + usec 180)}"

lemma pending_finite [simp]: "finite (pending_slots fr sch day fired nows)"
  by (simp add: pending_slots_def)

lemma pending_used:
  assumes "due_slot_today fr sch now fired = Inr True" "day_start now = day"
  shows "card (pending_slots fr sch day (Some now) nows) < card (pending_slots fr sch day fired (now # nows))"
proof (rule psubset_card_mono)
  obtain off where off: "off \<in> set (slot_offsets fr sch)" "slot_due now fired (day + off)"
    using due_hit [OF assms(1)] assms(2) by auto
  then have hit: "(case fired of None \<Rightarrow> True | Some f \<Rightarrow> f < day + off)" "day + off \<le> now" "now \<le> day + off + usec 180"
    by (auto simp: slot_due_def slot_grace_s_def split: if_splits option.splits)
  then have "(case fired of None \<Rightarrow> True | Some f \<Rightarrow> f < now)" by (auto split: option.splits)
  then have "pending_slots fr sch day (Some now) nows \<subseteq> pending_slots fr sch day fired (now # nows)"
    by (auto simp: pending_slots_def split: option.splits)
  moreover have "off \<in> pending_slots fr sch day fired (now # nows)" "off \<notin> pending_slots fr sch day (Some now) nows"
    using off(1) hit by (auto simp: pending_slots_def)
  ultimately show "pending_slots fr sch day (Some now) nows \<subset> pending_slots fr sch day fired (now # nows)" by blast
qed simp

lemma pending_more: "card (pending_slots fr sch day fired nows) \<le> card (pending_slots fr sch day fired (now # nows))"
  by (rule card_mono) (auto simp: pending_slots_def)

definition tick_ok :: "int \<Rightarrow> nat \<Rightarrow> int \<Rightarrow> int \<times> agent list \<times> env \<Rightarrow> bool" where
  "tick_ok day n pid t = (case t of (now, agents, env) \<Rightarrow> day_start now = day \<and> length (online_agents agents pid) \<le> n \<and> never_raises env)"

lemma serve_ticks_pending:
  assumes "parse_schedule loads (sp_schedule p) = Some sch" "list_all (tick_ok day n (p_id (sp_project p))) ticks"
  shows "length (orders (snd (serve_ticks fr loads cfg ticks p s)))
    \<le> length (orders s) + n * card (pending_slots fr sch day (sp_fired p) (map fst ticks))"
  using assms
proof (induction ticks arbitrary: p s)
  case (Cons t ticks)
  obtain now agents env where t: "t = (now, agents, env)" by (rule prod_cases3)
  obtain e p' s' where serve: "serve_project fr loads cfg agents env now p s = (e, p', s')"
    by (rule prod_cases3)
  have ok: "day_start now = day" "length (online_agents agents (p_id (sp_project p))) \<le> n" "never_raises env"
    "list_all (tick_ok day n (p_id (sp_project p))) ticks"
    using Cons.prems(2) by (auto simp: t tick_ok_def [of _ _ _ "(now, agents, env)"])
  let ?old = "pending_slots fr sch day (sp_fired p) (map fst (t # ticks))"
  consider "p' = p" "orders s' = orders s"
    | "due_slot_today fr sch now (sp_fired p) = Inr True" "p' = p\<lparr>sp_fired := Some now\<rparr>"
      "length (orders s') \<le> length (orders s) + n"
    using serve_fires [OF serve ok(3) Cons.prems(1)] ok(2) by force
  then show ?case
  proof cases
    case 1
    have "n * card (pending_slots fr sch day (sp_fired p) (map fst ticks)) \<le> n * card ?old"
      by (rule mult_le_mono2) (simp add: t pending_more)
    moreover have run: "serve_ticks fr loads cfg (t # ticks) p s = serve_ticks fr loads cfg ticks p s'" using serve 1 by (simp add: t)
    ultimately show ?thesis using Cons.IH [OF Cons.prems(1) ok(4), of s'] unfolding 1(2) run by linarith
  next
    case 2
    have "Suc (card (pending_slots fr sch day (Some now) (map fst ticks))) \<le> card ?old"
      using pending_used [OF 2(1) ok(1)] by (simp add: t Suc_leI)
    then have "n + n * card (pending_slots fr sch day (Some now) (map fst ticks)) \<le> n * card ?old"
      using mult_le_mono2 [of "Suc _" _ n] by simp
    with Cons.IH [of p' s'] Cons.prems(1) ok(4) 2 serve show ?thesis by (simp add: t)
  qed
qed simp

text \<open>
  C37. A slot starts captures at most once. Over any ticks of one day (in whatever order, restarts
  included, for the last firing is stored) a project's schedule asks daemons for at most one
  capture per online agent for each of its configured times that some tick saw within three
  minutes, as long as the clients raise only their own two errors.
\<close>

theorem slot_starts_once:
  assumes "parse_schedule loads (sp_schedule p) = Some sch" and "list_all (tick_ok day n (p_id (sp_project p))) ticks"
  shows "length (orders (snd (serve_ticks fr loads cfg ticks p s))) \<le> length (orders s)
    + n * card {off \<in> set (slot_offsets fr sch). \<exists>(now, _) \<in> set ticks. day + off \<le> now \<and> now \<le> day + off + usec slot_grace_s}"
proof -
  have "card (pending_slots fr sch day (sp_fired p) (map fst ticks))
      \<le> card {off \<in> set (slot_offsets fr sch). \<exists>(now, _) \<in> set ticks. day + off \<le> now \<and> now \<le> day + off + usec slot_grace_s}"
    by (rule card_mono) (auto simp: pending_slots_def slot_grace_s_def)
  from mult_le_mono2 [OF this, of n] serve_ticks_pending [OF assms, of fr cfg s] show ?thesis by linarith
qed

lemma demo_slot: "slot_time fr (PStr ''23:59'') = Some (23, 59)"
  using two_digits [of "CHR ''2''" "CHR ''3''" "[]"] two_digits [of "CHR ''5''" "CHR ''9''" "[]"]
  by (simp add: slot_time_def py_isdigit_def digit_val_def ord_of_def)

lemma demo_offsets: "slot_offsets fr demo_schedule = [usec 86340]"
  by (simp add: slot_offsets_def demo_schedule_def obj_get_def py_or_def map_filter_Cons demo_slot)

definition demo_sched :: sched_project where
  "demo_sched = \<lparr>sp_project = \<lparr>p_id = 1, p_user = 1, p_policy = None\<rparr>, sp_schedule = Some ''s'', sp_fired = None\<rparr>"

definition demo_agents :: "agent list" where
  "demo_agents = [\<lparr>ag_id = 1, ag_project = 1, ag_status = ''online''\<rparr>, \<lparr>ag_id = 2, ag_project = 1, ag_status = ''online''\<rparr>]"

text \<open>Two ticks after the slot, twenty seconds apart.\<close>

definition demo_ticks :: "env \<Rightarrow> (int \<times> agent list \<times> env) list" where
  "demo_ticks env = [(usec 86341, demo_agents, env), (usec 86361, demo_agents, env)]"

definition demo_open :: capture_config where
  "demo_open = \<lparr>interface_allowlist = [''eth0''], max_concurrent = 1, live_enabled = True\<rparr>"

theorem slot_starts_once_witness:
  "length (orders (snd (serve_ticks (\<lambda>_. []) (\<lambda>_. Some (PDict demo_schedule)) demo_open (demo_ticks (\<lambda>_ _. (''u'', 0, RpcOk [])))
     demo_sched empty_api))) \<le> 2"
proof -
  have ok: "list_all (tick_ok 0 2 (p_id (sp_project demo_sched))) (demo_ticks (\<lambda>_ _. (''u'', 0, RpcOk [])))"
    by (simp add: demo_ticks_def tick_ok_def online_agents_def demo_agents_def demo_sched_def never_raises_def day_start_def usec_def)
  have "card {off \<in> set (slot_offsets (\<lambda>_. []) demo_schedule). \<exists>(now, _) \<in> set (demo_ticks (\<lambda>_ _. (''u'', 0, RpcOk []))).
      0 + off \<le> now \<and> now \<le> 0 + off + usec slot_grace_s} \<le> card {usec 86340}"
    by (rule card_mono) (auto simp: demo_offsets)
  with slot_starts_once [OF _ ok, of "\<lambda>_. Some (PDict demo_schedule)" demo_schedule "\<lambda>_. []" demo_open empty_api] show ?thesis
    by (simp add: demo_sched_def parse_schedule_def empty_api_def)
qed

text \<open>
  The last firing is stored after all agents were asked. When the start on a later agent raises,
  the tick ends before that, and each further tick of the grace window starts the captures of
  the agents before it again.
\<close>

definition failing_second :: env where
  "failing_second = (\<lambda>_ aid. (''u'', 0, if aid = 1 then RpcOk [] else RpcRaised OSError))"

lemma demo_gate: "interface_gate demo_open [] ''eth0'' = None"
  by (simp add: interface_gate_def resolve_interface_allowlist_def obj_get_def demo_open_def)

lemma demo_start:
  "orders (snd (start_capture_session (\<lambda>_. Some (PDict demo_schedule)) demo_open ''u'' 0 reply (schedule_request demo_sched ag ''eth0'' [] 300) s))
     = orders s @ [start_order (new_row (next_id s) ''u'' (schedule_request demo_sched ag ''eth0'' [] 300) (sp_project demo_sched) 200000 10 300)]"
  "fst (start_capture_session (\<lambda>_. Some (PDict demo_schedule)) demo_open ''u'' 0 (RpcRaised e) (schedule_request demo_sched ag ''eth0'' [] 300) s) = Inl e"
  "\<exists>r. fst (start_capture_session (\<lambda>_. Some (PDict demo_schedule)) demo_open ''u'' 0 (RpcOk d) (schedule_request demo_sched ag ''eth0'' [] 300) s) = Inr r"
  by (simp_all add: start_capture_session_def schedule_request_def demo_sched_def parse_policy_def demo_gate applied_ring_def policy_bytes_def
      local_slot_def finish_start_orders Let_def applied_duration_def duration_capped_def obj_get_def put_row_def)
     (simp_all add: finish_start_def Let_def)

lemma raised_serve:
  assumes "t = 86341 \<or> t = 86361"
  obtains s' where "serve_project (\<lambda>_. []) (\<lambda>_. Some (PDict demo_schedule)) demo_open demo_agents failing_second (usec t) demo_sched s
      = (Some OSError, demo_sched, s')"
    "map so_agent (orders s') = map so_agent (orders s) @ [Some 1, Some 2]"
proof -
  have due: "due_slot_today (\<lambda>_. []) demo_schedule (usec t) None = Inr True"
    using assms by (auto simp: due_slot_today_def demo_schedule_def obj_get_def py_or_def demo_slot replace_time_def slot_due_def
        slot_grace_s_def day_start_def usec_def)
  have sch: "parse_schedule (\<lambda>_. Some (PDict demo_schedule)) (sp_schedule demo_sched) = Some demo_schedule"
    "\<not> (demo_schedule = [] \<or> \<not> truthy (obj_get demo_schedule ''enabled''))" "sp_fired demo_sched = None"
    "py_strip (py_str (\<lambda>_. []) (py_or (obj_get demo_schedule ''interface'') (PStr []))) = ''eth0''"
    "py_str (\<lambda>_. []) (py_or (obj_get demo_schedule ''bpf_filter'') (PStr [])) = []"
    "py_int (py_or (obj_get demo_schedule ''duration_s'') (PInt 300)) = Some 300"
    by (simp_all add: parse_schedule_def demo_sched_def demo_schedule_def obj_get_def py_or_def py_strip_def py_lstrip_def
        py_rstrip_def py_isspace_def ord_of_def)
  let ?start = "\<lambda>r ag. start_capture_session (\<lambda>_. Some (PDict demo_schedule)) demo_open ''u'' 0 r (schedule_request demo_sched ag ''eth0'' [] 300)"
  let ?a1 = "demo_agents ! 0" and ?a2 = "demo_agents ! 1"
  obtain r s1 where 1: "?start (RpcOk []) ?a1 s = (Inr r, s1)" using demo_start(3) by (metis prod.collapse)
  obtain s2 where 2: "?start (RpcRaised OSError) ?a2 s1 = (Inl OSError, s2)" using demo_start(2) by (metis prod.collapse)
  have "map so_agent (orders s2) = map so_agent (orders s) @ [Some 1, Some 2]"
    using demo_start(1) [of "RpcOk []" ?a1 s, unfolded 1 snd_conv] demo_start(1) [of "RpcRaised OSError" ?a2 s1, unfolded 2 snd_conv]
    by (simp add: start_order_def new_row_def schedule_request_def demo_agents_def)
  moreover have "online_agents demo_agents (p_id (sp_project demo_sched)) = [?a1, ?a2]" "ag_id ?a1 = 1" "ag_id ?a2 = 2"
    by (simp_all add: online_agents_def demo_agents_def demo_sched_def)
  ultimately show thesis
    using that [of s2] due by (simp add: serve_project_def sch Let_def failing_second_def 1 2 del: One_nat_def)
qed

lemma raised_start_repeats:
  "map so_agent (orders (snd (serve_ticks (\<lambda>_. []) (\<lambda>_. Some (PDict demo_schedule)) demo_open (demo_ticks failing_second)
     demo_sched empty_api))) = [Some 1, Some 2, Some 1, Some 2]"
proof -
  obtain s1 where 1: "serve_project (\<lambda>_. []) (\<lambda>_. Some (PDict demo_schedule)) demo_open demo_agents failing_second (usec 86341) demo_sched empty_api
      = (Some OSError, demo_sched, s1)" "map so_agent (orders s1) = [Some 1, Some 2]"
    by (rule raised_serve [of 86341 empty_api]) (simp_all add: empty_api_def)
  obtain s2 where 2: "serve_project (\<lambda>_. []) (\<lambda>_. Some (PDict demo_schedule)) demo_open demo_agents failing_second (usec 86361) demo_sched s1
      = (Some OSError, demo_sched, s2)" "map so_agent (orders s2) = [Some 1, Some 2, Some 1, Some 2]"
    by (rule raised_serve [of 86361 s1]) (simp_all add: 1(2))
  show ?thesis using 2(2) by (simp add: demo_ticks_def 1(1) 2(1))
qed

text \<open>
  The grace window ends at midnight. A slot at 23:59 is not due at any tick after
  midnight, though two of the three minutes in which a late tick should still serve it lie
  there: a tick delayed past midnight loses the capture of that day.
\<close>

theorem midnight_slot_lost:
  assumes "day mod usec 86400 = 0" and "0 \<le> x" and "x \<le> usec 120"
  shows "due_slot_today fr demo_schedule (day + x) fired = Inr False \<and> (day + x) - (day - usec 60) \<le> usec slot_grace_s"
proof -
  have "day_start (day + x) = day"
  proof -
    have "(day + x) mod usec 86400 = x mod usec 86400"
      using assms(1) by (metis add.left_neutral mod_add_left_eq)
    also have "\<dots> = x" using assms(2,3) by (intro mod_pos_pos_trivial) (auto simp: usec_def)
    finally show ?thesis by (simp add: day_start_def)
  qed
  then show ?thesis
    using assms(2,3)
    by (auto simp: due_slot_today_def demo_schedule_def obj_get_def py_or_def demo_slot replace_time_def slot_due_def
        slot_grace_s_def usec_def)
qed

theorem midnight_slot_lost_witness: "due_slot_today (\<lambda>_. []) demo_schedule (usec 86400 + 5) None = Inr False"
  using midnight_slot_lost [of "usec 86400" 5 "\<lambda>_. []" None] by (simp add: usec_def)

end
