(* ===== verification/Iocs.thy ===== *)
theory Iocs
  imports PyVal
begin

text \<open>
  Threat hunting: \<open>marlinspike/iocs.py\<close>. The paste parser, the normalisation of indicators,
  and the scan of one report and of many, with their caps. A report is a JSON value; parsing
  an address is the argument \<open>ipaddr\<close> (the canonical text of an address, \<open>None\<close> for the
  library's \<open>ValueError\<close>), and \<open>fr\<close> is the text of a float.
\<close>

section \<open>Type detection\<close>

definition valid_ioc_types :: "string list" where
  "valid_ioc_types = [''ip'', ''mac'', ''oui'', ''domain'', ''sha256'', ''md5'']"

definition is_hex :: "char \<Rightarrow> bool" where
  "is_hex c = (let n = ord_of c in (48 \<le> n \<and> n \<le> 57) \<or> (65 \<le> n \<and> n \<le> 70) \<or> (97 \<le> n \<and> n \<le> 102))"

definition is_alpha :: "char \<Rightarrow> bool" where
  "is_alpha c = (let n = ord_of c in (65 \<le> n \<and> n \<le> 90) \<or> (97 \<le> n \<and> n \<le> 122))"

definition is_alnum :: "char \<Rightarrow> bool" where
  "is_alnum c = (is_alpha c \<or> py_isdigit c)"

text \<open>The dollar of a pattern also matches before a final line break.\<close>

definition dollar :: "(string \<Rightarrow> bool) \<Rightarrow> string \<Rightarrow> bool" where
  "dollar pat s = (pat s \<or> (s \<noteq> [] \<and> ord_of (last s) = 10 \<and> pat (butlast s)))"

text \<open>Pairs of hexadecimal digits, \<open>n\<close> of them, with a colon or a dash between two.\<close>

fun hex_pairs :: "nat \<Rightarrow> string \<Rightarrow> bool" where
  "hex_pairs 0 s = False"
| "hex_pairs (Suc 0) s = (case s of [a, b] \<Rightarrow> is_hex a \<and> is_hex b | _ \<Rightarrow> False)"
| "hex_pairs (Suc (Suc n)) s = (case s of
     a # b # c # t \<Rightarrow> is_hex a \<and> is_hex b \<and> (c = CHR '':'' \<or> c = CHR ''-'') \<and> hex_pairs (Suc n) t
   | _ \<Rightarrow> False)"

definition hex_string :: "nat \<Rightarrow> string \<Rightarrow> bool" where
  "hex_string n s = (length s = n \<and> list_all is_hex s)"

definition domain_label :: "string \<Rightarrow> bool" where
  "domain_label l = (l \<noteq> [] \<and> length l \<le> 63 \<and> is_alnum (hd l) \<and> is_alnum (last l)
     \<and> list_all (\<lambda>c. is_alnum c \<or> c = CHR ''-'') l)"

definition domain_pattern :: "string \<Rightarrow> bool" where
  "domain_pattern s =
     (let labels = py_split (CHR ''.'') (if py_startswith s ''*.'' then drop 2 s else s)
      in length labels \<ge> 2 \<and> list_all domain_label (butlast labels)
         \<and> length (last labels) \<ge> 2 \<and> list_all is_alpha (last labels))"

definition detect_type :: "(string \<Rightarrow> string option) \<Rightarrow> string \<Rightarrow> string option" where
  "detect_type ipaddr v =
     (if ipaddr v \<noteq> None then Some ''ip''
      else if dollar (hex_pairs 6) v then Some ''mac''
      else if dollar (hex_pairs 3) v then Some ''oui''
      else if dollar (hex_string 64) v then Some ''sha256''
      else if dollar (hex_string 32) v then Some ''md5''
      else if dollar domain_pattern v then Some ''domain''
      else None)"

section \<open>The paste parser\<close>

record ioc_error =
  er_line :: nat
  er_reason :: string

definition paste_line :: "(string \<Rightarrow> string option) \<Rightarrow> string \<Rightarrow> nat \<Rightarrow> string \<Rightarrow> (ioc_error + string \<times> string) option" where
  "paste_line ipaddr default_type lineno raw =
     (let line = py_strip (hd (py_split (CHR ''#'') raw)) in
      if line = [] then None
      else let token = (case py_split_ws line of [] \<Rightarrow> line | t # _ \<Rightarrow> t);
               ioc_type = (case detect_type ipaddr token of Some t \<Rightarrow> t | None \<Rightarrow> default_type)
           in if ioc_type \<notin> set valid_ioc_types
              then Some (Inl \<lparr>er_line = lineno,
                er_reason = ''Unknown IOC type '' @ [quote1] @ ioc_type @ [quote1] @ '' for value '' @ [quote1] @ token @ [quote1]\<rparr>)
              else Some (Inr (ioc_type, token)))"

fun paste_lines :: "(string \<Rightarrow> string option) \<Rightarrow> string \<Rightarrow> nat \<Rightarrow> string list \<Rightarrow> (string \<times> string) list \<times> ioc_error list" where
  "paste_lines ipaddr default_type lineno [] = ([], [])"
| "paste_lines ipaddr default_type lineno (raw # rest) =
     (case paste_lines ipaddr default_type (lineno + 1) rest of (entries, errors) \<Rightarrow>
       (case paste_line ipaddr default_type lineno raw of
         None \<Rightarrow> (entries, errors)
       | Some (Inl e) \<Rightarrow> (entries, e # errors)
       | Some (Inr x) \<Rightarrow> (x # entries, errors)))"

definition parse_ioc_paste :: "(string \<Rightarrow> string option) \<Rightarrow> string \<Rightarrow> string \<Rightarrow> (string \<times> string) list \<times> ioc_error list" where
  "parse_ioc_paste ipaddr text default_type = paste_lines ipaddr default_type 1 (py_splitlines text)"

section \<open>Normalisation\<close>

definition norm_mac :: "string \<Rightarrow> string" where
  "norm_mac v = py_lower (map (\<lambda>c. if c = CHR ''-'' then CHR '':'' else c) v)"

definition norm_ip :: "(string \<Rightarrow> string option) \<Rightarrow> string \<Rightarrow> string" where
  "norm_ip ipaddr v = (case ipaddr v of Some t \<Rightarrow> t | None \<Rightarrow> py_lower v)"

definition norm_value :: "(string \<Rightarrow> string option) \<Rightarrow> string \<Rightarrow> string \<Rightarrow> string" where
  "norm_value ipaddr ioc_type v =
     (if ioc_type = ''ip'' then norm_ip ipaddr v
      else if ioc_type = ''mac'' \<or> ioc_type = ''oui'' then norm_mac v
      else py_lower v)"

section \<open>Scanning one report\<close>

fun iter_strings :: "pyval \<Rightarrow> string list" where
  "iter_strings (PStr s) = [s]"
| "iter_strings (PList xs) = concat (map iter_strings xs)"
| "iter_strings (PDict d) = concat (map (\<lambda>(k, v). iter_strings v) d)"
| "iter_strings _ = []"

type_synonym hits = "(string \<times> string) list"

fun collect :: "('a \<Rightarrow> py_exc + 'b list) \<Rightarrow> 'a list \<Rightarrow> py_exc + 'b list" where
  "collect f [] = Inr []"
| "collect f (x # xs) = (case f x of
       Inl e \<Rightarrow> Inl e
     | Inr ys \<Rightarrow> (case collect f xs of Inl e \<Rightarrow> Inl e | Inr zs \<Rightarrow> Inr (ys @ zs)))"

text \<open>Iterating over \<open>report.get(key) or []\<close>, and calling \<open>get\<close> on each item.\<close>

definition each_item :: "pyval \<Rightarrow> (pyval \<Rightarrow> py_exc + hits) \<Rightarrow> py_exc + hits" where
  "each_item v f = (case py_iter (py_or v (PList [])) of None \<Rightarrow> Inl TypeError | Some xs \<Rightarrow> collect f xs)"

definition each_obj :: "pyval \<Rightarrow> ((string, pyval) dict \<Rightarrow> py_exc + hits) \<Rightarrow> py_exc + hits" where
  "each_obj v f = each_item v (\<lambda>x. case x of PDict d \<Rightarrow> f d | _ \<Rightarrow> Inl AttributeError)"

definition field_text :: "(rat \<Rightarrow> string) \<Rightarrow> (string, pyval) dict \<Rightarrow> string \<Rightarrow> string" where
  "field_text fr d k = py_str fr (py_or (obj_get d k) (PStr []))"

text \<open>The fields of an object whose normalised text passes the test, each with its location.\<close>

definition field_hits ::
    "(rat \<Rightarrow> string) \<Rightarrow> (string \<Rightarrow> string) \<Rightarrow> (string \<Rightarrow> bool) \<Rightarrow> (string \<times> string) list \<Rightarrow> (string, pyval) dict \<Rightarrow> py_exc + hits" where
  "field_hits fr nrm test fs d =
     Inr (concat (map (\<lambda>(k, loc). let v = nrm (field_text fr d k) in if test v then [(loc, v)] else []) fs))"

definition sum_app :: "py_exc + hits \<Rightarrow> py_exc + hits \<Rightarrow> py_exc + hits" where
  "sum_app x y = (case x of Inl e \<Rightarrow> Inl e | Inr xs \<Rightarrow> (case y of Inl e \<Rightarrow> Inl e | Inr ys \<Rightarrow> Inr (xs @ ys)))"

definition rstrip_dots :: "string \<Rightarrow> string" where
  "rstrip_dots s = rev (dropWhile (\<lambda>c. c = CHR ''.'') (rev s))"

definition domain_matches :: "string \<Rightarrow> string \<Rightarrow> bool" where
  "domain_matches base candidate = (let c = rstrip_dots (py_strip (py_lower candidate)) in
     base \<noteq> [] \<and> (c = base \<or> py_endswith c (CHR ''.'' # base)))"

definition query_hits :: "string \<Rightarrow> pyval \<Rightarrow> py_exc + hits" where
  "query_hits base q = Inr (case q of
       PStr s \<Rightarrow> (if domain_matches base s then [(''conversation.dns_queries'', s)] else [])
     | PDict d \<Rightarrow> (case find (domain_matches base) (iter_strings q) of
           None \<Rightarrow> [] | Some s \<Rightarrow> [(''conversation.dns_queries'', s)])
     | _ \<Rightarrow> [])"

definition entry_hits ::
    "(rat \<Rightarrow> string) \<Rightarrow> (string \<Rightarrow> string option) \<Rightarrow> (string, pyval) dict \<Rightarrow> string \<Rightarrow> string \<Rightarrow> py_exc + hits" where
  "entry_hits fr ipaddr report ioc_type nrm =
     (let nodes = obj_get report ''nodes''; conversations = obj_get report ''conversations'';
          c2_indicators = obj_get report ''c2_indicators''; risk_findings = obj_get report ''risk_findings'';
          malware_findings = obj_get report ''malware_findings'';
          same = (\<lambda>v. v = nrm);
          same_oui = (\<lambda>v. take 8 v = nrm)
      in if ioc_type = ''ip'' then
           sum_app (each_obj nodes (field_hits fr (norm_ip ipaddr) same [(''ip'', ''node.ip'')]))
           (sum_app (each_obj conversations (field_hits fr (norm_ip ipaddr) same
               [(''src_ip'', ''conversation.src_ip''), (''dst_ip'', ''conversation.dst_ip'')]))
           (sum_app (each_obj c2_indicators (field_hits fr (norm_ip ipaddr) same
               [(''dst'', ''c2_indicator.dst''), (''src'', ''c2_indicator.src'')]))
             (each_obj risk_findings (\<lambda>rf. Inr (map (Pair ''risk_finding.affected_nodes'')
               (filter (\<lambda>s. norm_ip ipaddr s = nrm) (iter_strings (py_or (obj_get rf ''affected_nodes'') (PList [])))))))))
         else if ioc_type = ''mac'' then
           sum_app (each_obj nodes (field_hits fr norm_mac same [(''mac'', ''node.mac'')]))
           (sum_app (each_obj conversations (field_hits fr norm_mac same
               [(''src_mac'', ''conversation.src_mac''), (''dst_mac'', ''conversation.dst_mac'')]))
             (each_obj c2_indicators (field_hits fr norm_mac same
               [(''dst_mac'', ''c2_indicator.dst_mac''), (''src_mac'', ''c2_indicator.src_mac'')])))
         else if ioc_type = ''oui'' then
           sum_app (each_obj nodes (field_hits fr norm_mac same_oui [(''mac'', ''node.mac (oui)'')]))
             (each_obj conversations (field_hits fr norm_mac same_oui
               [(''src_mac'', ''conversation.src_mac (oui)''), (''dst_mac'', ''conversation.dst_mac (oui)'')]))
         else if ioc_type = ''domain'' then
           (let base = (if py_startswith nrm ''*.'' then drop 2 nrm else nrm)
            in each_obj conversations (\<lambda>conv. each_item (obj_get conv ''dns_queries'') (query_hits base)))
         else if ioc_type = ''sha256'' then
           each_obj malware_findings (field_hits fr py_lower same [(''sha256'', ''malware_finding.sha256'')])
         else if ioc_type = ''md5'' then
           each_obj malware_findings (field_hits fr py_lower same [(''md5'', ''malware_finding.md5'')])
         else Inr [])"

record ioc =
  en_id :: "int option"
  en_type :: string
  en_value :: string
  en_label :: "string option"
  en_severity :: "string option"

definition max_hits_per_report :: nat where "max_hits_per_report = 50"
definition max_hits_total :: nat where "max_hits_total = 1000"

definition matches_of :: "(rat \<Rightarrow> string) \<Rightarrow> (string \<Rightarrow> string option) \<Rightarrow> (string, pyval) dict \<Rightarrow> ioc \<Rightarrow> py_exc + hits" where
  "matches_of fr ipaddr report e = entry_hits fr ipaddr report (en_type e) (norm_value ipaddr (en_type e) (en_value e))"

text \<open>Recording stops at the cap, the walk over the report does not.\<close>

fun scan_entries ::
    "(rat \<Rightarrow> string) \<Rightarrow> (string \<Rightarrow> string option) \<Rightarrow> (string, pyval) dict \<Rightarrow> nat \<Rightarrow> ioc list \<Rightarrow> py_exc + (ioc \<times> hits) list" where
  "scan_entries fr ipaddr report hit_count [] = Inr []"
| "scan_entries fr ipaddr report hit_count (e # es) =
     (if hit_count \<ge> max_hits_per_report then Inr []
      else case matches_of fr ipaddr report e of
        Inl x \<Rightarrow> Inl x
      | Inr ms \<Rightarrow>
          let kept = take (max_hits_per_report - hit_count) ms
          in (case scan_entries fr ipaddr report (hit_count + length kept) es of
              Inl x \<Rightarrow> Inl x
            | Inr rest \<Rightarrow> Inr (if kept = [] then rest else (e, kept) # rest)))"

definition scan_report ::
    "(rat \<Rightarrow> string) \<Rightarrow> (string \<Rightarrow> string option) \<Rightarrow> (string, pyval) dict \<Rightarrow> ioc list \<Rightarrow> py_exc + (ioc \<times> hits) list" where
  "scan_report fr ipaddr report es = scan_entries fr ipaddr report 0 es"

text \<open>The entry point for a report that the caller already holds.\<close>

definition scan_single_report ::
    "(rat \<Rightarrow> string) \<Rightarrow> (string \<Rightarrow> string option) \<Rightarrow> (string, pyval) dict \<Rightarrow> ioc list \<Rightarrow> py_exc + (ioc \<times> hits) list" where
  "scan_single_report fr ipaddr report es = scan_report fr ipaddr report es"

section \<open>Scanning many reports\<close>

record report_hit =
  rh_report :: string
  rh_ioc :: ioc
  rh_matches :: hits

record scan_result =
  sr_scanned :: nat
  sr_hits :: "report_hit list"
  sr_total :: nat
  sr_by_severity :: "(string, nat) dict"
  sr_by_type :: "(string, nat) dict"
  sr_truncated :: bool

definition basename :: "string \<Rightarrow> string" where
  "basename p = rev (takeWhile (\<lambda>c. c \<noteq> CHR ''/'') (rev p))"

text \<open>\<open>loader\<close> gives the report, or \<open>None\<close> when it raises.\<close>

fun scan_paths ::
    "(rat \<Rightarrow> string) \<Rightarrow> (string \<Rightarrow> string option) \<Rightarrow> (string \<Rightarrow> pyval option) \<Rightarrow> ioc list \<Rightarrow> string list
      \<Rightarrow> report_hit list \<times> bool \<times> nat \<Rightarrow> py_exc + report_hit list \<times> bool \<times> nat" where
  "scan_paths fr ipaddr loader es [] acc = Inr acc"
| "scan_paths fr ipaddr loader es (path # paths) (all_hits, truncated, scanned) =
     (if length all_hits \<ge> max_hits_total then Inr (all_hits, True, scanned)
      else case loader path of
        Some (PDict report) \<Rightarrow> (case scan_report fr ipaddr report es of
            Inl e \<Rightarrow> Inl e
          | Inr hs \<Rightarrow>
              let room = max_hits_total - length all_hits;
                  new = map (\<lambda>(e, ms). \<lparr>rh_report = basename path, rh_ioc = e, rh_matches = ms\<rparr>) (take room hs)
              in scan_paths fr ipaddr loader es paths (all_hits @ new, truncated \<or> length hs > room, scanned + 1))
      | _ \<Rightarrow> scan_paths fr ipaddr loader es paths (all_hits, truncated, scanned))"

definition severity_key :: "report_hit \<Rightarrow> string" where
  "severity_key h = py_lower (case en_severity (rh_ioc h) of None \<Rightarrow> ''unknown'' | Some s \<Rightarrow> if s = [] then ''unknown'' else s)"

definition add_count :: "string \<Rightarrow> nat \<Rightarrow> (string, nat) dict \<Rightarrow> (string, nat) dict" where
  "add_count k n d = dict_set k ((case dict_get d k of None \<Rightarrow> 0 | Some m \<Rightarrow> m) + n) d"

definition tally :: "(report_hit \<Rightarrow> string) \<Rightarrow> report_hit list \<Rightarrow> (string, nat) dict" where
  "tally key hs = foldl (\<lambda>d h. add_count (key h) (length (rh_matches h)) d) [] hs"

definition scan_ioc_list_against_reports ::
    "(rat \<Rightarrow> string) \<Rightarrow> (string \<Rightarrow> string option) \<Rightarrow> (string \<Rightarrow> pyval option) \<Rightarrow> ioc list \<Rightarrow> string list \<Rightarrow> py_exc + scan_result" where
  "scan_ioc_list_against_reports fr ipaddr loader es paths =
     (case scan_paths fr ipaddr loader es paths ([], False, 0) of
       Inl e \<Rightarrow> Inl e
     | Inr (hs, truncated, scanned) \<Rightarrow>
         Inr \<lparr>sr_scanned = scanned, sr_hits = hs, sr_total = sum_list (map (length \<circ> rh_matches) hs),
           sr_by_severity = tally severity_key hs, sr_by_type = tally (en_type \<circ> rh_ioc) hs, sr_truncated = truncated\<rparr>)"

section \<open>Domains\<close>

lemma py_split_append: "py_split sep (x @ sep # y) = py_split sep x @ py_split sep y"
proof (induction x)
  case (Cons c x)
  obtain p ps where "py_split sep x = p # ps"
    using py_split_nonempty by (metis list.exhaust)
  with Cons show ?case by simp
qed simp

lemma py_join_append: "xs \<noteq> [] \<Longrightarrow> ys \<noteq> [] \<Longrightarrow> py_join sep (xs @ ys) = py_join sep xs @ sep @ py_join sep ys"
proof (induction xs)
  case (Cons x xs)
  show ?case
  proof (cases xs)
    case Nil
    obtain y ys' where "ys = y # ys'" using Cons.prems(2) by (cases ys) auto
    then show ?thesis by (simp add: Nil)
  next
    case (Cons x' xs')
    then show ?thesis using Cons.IH Cons.prems by simp
  qed
qed simp

lemma subdomain_labels:
  "(c = base \<or> py_endswith c (sep # base)) \<longleftrightarrow> suffix (py_split sep base) (py_split sep c)"
proof
  assume "c = base \<or> py_endswith c (sep # base)"
  then show "suffix (py_split sep base) (py_split sep c)"
    by (auto simp: py_endswith_iff suffix_def py_split_append)
next
  assume "suffix (py_split sep base) (py_split sep c)"
  then obtain zs where zs: "py_split sep c = zs @ py_split sep base" by (auto simp: suffix_def)
  have c: "c = py_join [sep] (zs @ py_split sep base)"
    using py_join_split [of sep c] by (simp add: zs)
  show "c = base \<or> py_endswith c (sep # base)"
  proof (cases "zs = []")
    case True
    then show ?thesis using c by (simp add: py_join_split)
  next
    case False
    then have "c = py_join [sep] zs @ sep # base"
      using c by (simp add: py_join_append py_join_split)
    then show ?thesis by (simp add: py_endswith_iff suffix_def)
  qed
qed

text \<open>
  Domain matching is by labels. A name in a report matches a domain indicator exactly
  when the indicator's labels are the last labels of the name (lower case, surrounding space
  and trailing dots dropped): the domain itself and its subdomains, never a name that only
  ends in the same characters.
\<close>

theorem domain_match_labels:
  "domain_matches base candidate \<longleftrightarrow>
     base \<noteq> [] \<and> suffix (py_split (CHR ''.'') base) (py_split (CHR ''.'') (rstrip_dots (py_strip (py_lower candidate))))"
  unfolding domain_matches_def Let_def by (simp only: subdomain_labels)

section \<open>Caps\<close>

definition flat_hits :: "(ioc \<times> hits) list \<Rightarrow> (ioc \<times> string \<times> string) list" where
  "flat_hits hs = concat (map (\<lambda>(e, ms). map (Pair e) ms) hs)"

lemma scan_entries_flat:
  assumes "\<forall>e \<in> set es. matches_of fr ipaddr report e = Inr (f e)" "n \<le> 50"
  shows "\<exists>hs. scan_entries fr ipaddr report n es = Inr hs
    \<and> flat_hits hs = take (50 - n) (flat_hits (map (\<lambda>e. (e, f e)) es)) \<and> list_all (\<lambda>(e, ms). ms \<noteq> []) hs"
  using assms
proof (induction es arbitrary: n)
  case (Cons e es)
  show ?case
  proof (cases "n \<ge> 50")
    case False
    let ?kept = "take (50 - n) (f e)"
    have bound: "n + length ?kept \<le> 50" using False by auto
    obtain hs where hs: "scan_entries fr ipaddr report (n + length ?kept) es = Inr hs"
      "flat_hits hs = take (50 - (n + length ?kept)) (flat_hits (map (\<lambda>e. (e, f e)) es))" "list_all (\<lambda>(e, ms). ms \<noteq> []) hs"
      using Cons.IH [OF _ bound] Cons.prems(1) by auto
    have rest: "50 - (n + length ?kept) = 50 - n - length (f e)" using False by auto
    have "scan_entries fr ipaddr report n (e # es) = Inr (if ?kept = [] then hs else (e, ?kept) # hs)"
      using False Cons.prems(1) hs(1) by (simp add: max_hits_per_report_def Let_def del: length_take)
    moreover have "flat_hits (if ?kept = [] then hs else (e, ?kept) # hs)
        = take (50 - n) (flat_hits (map (\<lambda>e. (e, f e)) (e # es)))"
      using hs(2) unfolding rest by (cases "?kept = []") (auto simp: flat_hits_def take_map)
    ultimately show ?thesis using hs(3) by auto
  qed (use Cons.prems in \<open>simp add: max_hits_per_report_def flat_hits_def\<close>)
qed (simp add: flat_hits_def)

text \<open>
  A report's scan is the first fifty hits. When no entry's walk raises, the hits kept,
  read in order, are exactly the first fifty of all hits of all entries in order; an entry is
  listed only with a hit.
\<close>

theorem report_scan_first_fifty:
  assumes "\<forall>e \<in> set es. matches_of fr ipaddr report e = Inr (f e)"
  shows "\<exists>hs. scan_report fr ipaddr report es = Inr hs
    \<and> flat_hits hs = take 50 (flat_hits (map (\<lambda>e. (e, f e)) es)) \<and> list_all (\<lambda>(e, ms). ms \<noteq> []) hs"
  using scan_entries_flat [OF assms, of 0] by (simp add: scan_report_def)

definition demo_ioc :: ioc where
  "demo_ioc = \<lparr>en_id = Some 1, en_type = ''domain'', en_value = ''*.evil.com'', en_label = None, en_severity = Some ''High''\<rparr>"

definition demo_report :: "(string, pyval) dict" where
  "demo_report = [(''conversations'', PList [PDict [(''dns_queries'', PList [PStr ''a.evil.com'', PStr ''notevil.com''])]])]"

lemma demo_matches: "matches_of (\<lambda>_. []) (\<lambda>_. None) demo_report demo_ioc = Inr [(''conversation.dns_queries'', ''a.evil.com'')]"
  by (simp add: matches_of_def demo_ioc_def demo_report_def entry_hits_def norm_value_def py_lower_def py_lower_char_def
      ord_of_def py_startswith_def obj_get_def each_obj_def each_item_def py_or_def query_hits_def domain_matches_def Let_def
      rstrip_dots_def py_strip_def py_lstrip_def py_rstrip_def py_isspace_def py_endswith_def)

theorem report_scan_first_fifty_witness:
  "\<exists>hs. scan_report (\<lambda>_. []) (\<lambda>_. None) demo_report [demo_ioc] = Inr hs
    \<and> flat_hits hs = [(demo_ioc, ''conversation.dns_queries'', ''a.evil.com'')]"
  using report_scan_first_fifty [of "[demo_ioc]" "\<lambda>_. []" "\<lambda>_. None" demo_report "\<lambda>_. [(''conversation.dns_queries'', ''a.evil.com'')]"]
  by (auto simp: demo_matches flat_hits_def)

definition path_hits ::
    "(rat \<Rightarrow> string) \<Rightarrow> (string \<Rightarrow> string option) \<Rightarrow> (string \<Rightarrow> pyval option) \<Rightarrow> ioc list \<Rightarrow> string \<Rightarrow> report_hit list" where
  "path_hits fr ipaddr loader es path = (case loader path of
       Some (PDict report) \<Rightarrow> (case scan_report fr ipaddr report es of
           Inl e \<Rightarrow> []
         | Inr hs \<Rightarrow> map (\<lambda>(e, ms). \<lparr>rh_report = basename path, rh_ioc = e, rh_matches = ms\<rparr>) hs)
     | _ \<Rightarrow> [])"

lemma scan_paths_hits:
  "scan_paths fr ipaddr loader es paths (hs, t, n) = Inr (hs', t', n') \<Longrightarrow> length hs \<le> 1000 \<Longrightarrow>
   hs' = take 1000 (hs @ concat (map (path_hits fr ipaddr loader es) paths))
   \<and> (\<not> t' \<longrightarrow> \<not> t \<and> hs' = hs @ concat (map (path_hits fr ipaddr loader es) paths))"
proof (induction paths arbitrary: hs t n)
  case (Cons path paths)
  show ?case
  proof (cases "length hs \<ge> 1000")
    case True
    then show ?thesis using Cons.prems by (auto simp: max_hits_total_def)
  next
    case False
    show ?thesis
    proof (cases "\<exists>report. loader path = Some (PDict report)")
      case True
      then obtain report where load: "loader path = Some (PDict report)" by blast
      show ?thesis
      proof (cases "scan_report fr ipaddr report es")
        case (Inl e)
        then show ?thesis using Cons.prems False load by (simp add: max_hits_total_def)
      next
        case (Inr found)
        define ph where "ph = path_hits fr ipaddr loader es path"
        have ph: "map (\<lambda>(e, ms). \<lparr>rh_report = basename path, rh_ioc = e, rh_matches = ms\<rparr>) (take k found) = take k ph" for k
          by (simp add: ph_def path_hits_def load Inr take_map)
        have len: "length ph = length found" by (simp add: ph_def path_hits_def load Inr)
        let ?room = "1000 - length hs"
        have "scan_paths fr ipaddr loader es paths (hs @ take ?room ph, t \<or> length ph > ?room, n + 1) = Inr (hs', t', n')"
          using Cons.prems(1) False load Inr by (simp add: max_hits_total_def Let_def ph len)
        then have IH: "hs' = take 1000 ((hs @ take ?room ph) @ concat (map (path_hits fr ipaddr loader es) paths))
            \<and> (\<not> t' \<longrightarrow> \<not> (t \<or> length ph > ?room)
                \<and> hs' = (hs @ take ?room ph) @ concat (map (path_hits fr ipaddr loader es) paths))"
          using False by (intro Cons.IH) auto
        show ?thesis
        proof (cases "length ph > ?room")
          case True
          then show ?thesis using IH False by (auto simp: ph_def [symmetric])
        next
          case False
          then have tk: "take ?room ph = ph" by simp
          show ?thesis using IH unfolding tk
            by (simp only: list.map(2) concat.simps(2) append_assoc ph_def [symmetric]) blast
        qed
      qed
    next
      case False
      then have e: "path_hits fr ipaddr loader es path = []"
        by (auto simp: path_hits_def split: option.splits pyval.splits)
      have run: "scan_paths fr ipaddr loader es paths (hs, t, n) = Inr (hs', t', n')"
        using Cons.prems(1) \<open>\<not> 1000 \<le> length hs\<close> False
        by (auto simp: max_hits_total_def split: option.splits pyval.splits)
      show ?thesis
        unfolding list.map(2) concat.simps(2) e append_Nil by (rule Cons.IH [OF run Cons.prems(2)])
    qed
  qed
qed auto

definition count_total :: "(string, nat) dict \<Rightarrow> nat" where
  "count_total d = sum_list (map snd d)"

lemma count_total_add: "count_total (add_count k n d) = count_total d + n"
  by (induction d) (auto simp: add_count_def count_total_def)

lemma tally_total: "count_total (tally key hs) = sum_list (map (length \<circ> rh_matches) hs)"
proof -
  have "count_total (foldl (\<lambda>d h. add_count (key h) (length (rh_matches h)) d) d0 hs)
      = count_total d0 + sum_list (map (length \<circ> rh_matches) hs)" for d0
    by (induction hs arbitrary: d0) (simp_all add: count_total_add)
  then show ?thesis by (simp add: tally_def count_total_def)
qed

text \<open>
  The scan of a list of reports adds up. The hits are the first thousand of the readable
  reports' hits in order; when the result is not marked truncated none is missing; and the
  counts by severity and by type both add up to the total.
\<close>

theorem report_list_scan:
  assumes "scan_ioc_list_against_reports fr ipaddr loader es paths = Inr r"
  shows "sr_hits r = take 1000 (concat (map (path_hits fr ipaddr loader es) paths))
    \<and> (\<not> sr_truncated r \<longrightarrow> sr_hits r = concat (map (path_hits fr ipaddr loader es) paths))
    \<and> count_total (sr_by_severity r) = sr_total r \<and> count_total (sr_by_type r) = sr_total r"
proof -
  obtain hs t n where run: "scan_paths fr ipaddr loader es paths ([], False, 0) = Inr (hs, t, n)"
    and r: "r = \<lparr>sr_scanned = n, sr_hits = hs, sr_total = sum_list (map (length \<circ> rh_matches) hs),
           sr_by_severity = tally severity_key hs, sr_by_type = tally (en_type \<circ> rh_ioc) hs, sr_truncated = t\<rparr>"
    using assms by (auto simp: scan_ioc_list_against_reports_def split: sum.splits)
  have fields: "sr_hits r = hs" "sr_truncated r = t" "count_total (sr_by_severity r) = sr_total r"
    "count_total (sr_by_type r) = sr_total r"
    by (simp_all add: r tally_total)
  show ?thesis
    unfolding fields using scan_paths_hits [OF run] by (simp only: append_Nil list.size(3)) blast
qed

theorem report_list_scan_witness:
  "\<exists>r. scan_ioc_list_against_reports (\<lambda>_. []) (\<lambda>_. None) (\<lambda>_. Some (PDict demo_report)) [demo_ioc] [''/r/a.json''] = Inr r
    \<and> sr_total r = 1 \<and> count_total (sr_by_severity r) = sr_total r"
proof -
  have scan: "scan_report (\<lambda>_. []) (\<lambda>_. None) demo_report [demo_ioc] = Inr [(demo_ioc, [(''conversation.dns_queries'', ''a.evil.com'')])]"
    by (simp add: scan_report_def demo_matches max_hits_per_report_def Let_def)
  obtain r where r: "scan_ioc_list_against_reports (\<lambda>_. []) (\<lambda>_. None) (\<lambda>_. Some (PDict demo_report)) [demo_ioc] [''/r/a.json''] = Inr r"
    "sr_total r = 1"
    by (simp add: scan_ioc_list_against_reports_def scan max_hits_total_def Let_def)
  with report_list_scan [OF r(1)] show ?thesis by blast
qed

section \<open>Pasted lists\<close>

lemma split_ws_tokens: "t \<in> set (py_split_ws s) \<Longrightarrow> t \<noteq> [] \<and> (\<forall>c \<in> set t. \<not> py_isspace c \<and> c \<in> set s)"
proof (induction s arbitrary: t)
  case (Cons c s)
  show ?case
  proof (cases "py_isspace c")
    case True
    then show ?thesis using Cons by auto
  next
    case ns: False
    show ?thesis
    proof (cases s)
      case Nil
      then show ?thesis using Cons.prems ns by simp
    next
      case s: (Cons d s')
      show ?thesis
      proof (cases "py_isspace d")
        case True
        then have "t = [c] \<or> t \<in> set (py_split_ws s)" using Cons.prems ns by (simp add: s)
        then show ?thesis using Cons.IH ns by auto
      next
        case False
        obtain p ps where ps: "py_split_ws s = p # ps \<or> (py_split_ws s = [] \<and> p = [] \<and> ps = [])"
          by (cases "py_split_ws s") auto
        have "py_split_ws (c # s) = (case py_split_ws s of [] \<Rightarrow> [[c]] | p # ps \<Rightarrow> (c # p) # ps)"
          using ns False s by (subst py_split_ws.simps(2)) simp
        then have "t = c # p \<or> t \<in> set ps" using Cons.prems ps by auto
        moreover have "\<forall>u \<in> set (py_split_ws s). u \<noteq> [] \<and> (\<forall>c \<in> set u. \<not> py_isspace c \<and> c \<in> set s)"
          using Cons.IH by blast
        then have "\<forall>c \<in> set p. \<not> py_isspace c \<and> c \<in> set s"
          "\<forall>u \<in> set ps. u \<noteq> [] \<and> (\<forall>c \<in> set u. \<not> py_isspace c \<and> c \<in> set s)"
          using ps by auto
        ultimately show ?thesis using ns by auto
      qed
    qed
  qed
qed simp

lemma split_ws_last: "u \<noteq> [] \<Longrightarrow> \<not> py_isspace (last u) \<Longrightarrow> py_split_ws u \<noteq> []"
proof (induction u)
  case (Cons c u)
  show ?case
  proof (cases u)
    case Nil
    then show ?thesis using Cons.prems by simp
  next
    case u: (Cons d u')
    then have "py_split_ws u \<noteq> []" using Cons by simp
    then obtain p ps where "py_split_ws u = p # ps" by (cases "py_split_ws u") auto
    then show ?thesis
      using u by (subst py_split_ws.simps(2)) (simp del: py_split_ws.simps(2))
  qed
qed simp

lemma split_ws_strip: "py_strip s \<noteq> [] \<Longrightarrow> py_split_ws (py_strip s) \<noteq> []"
proof -
  assume ne: "py_strip s \<noteq> []"
  have fin: "\<not> py_isspace (last (py_strip s))"
    using ne hd_dropWhile [of py_isspace "rev (py_lstrip s)"]
    by (simp add: py_strip_def py_rstrip_def last_rev)
  with ne split_ws_last show ?thesis by blast
qed

lemma split_no_hash: "c \<in> set (hd (py_split (CHR ''#'') raw)) \<Longrightarrow> c \<noteq> CHR ''#''"
  using py_split_no_sep [of "hd (py_split (CHR ''#'') raw)" "CHR ''#''" raw] by fastforce

lemma strip_subset: "c \<in> set (py_strip s) \<Longrightarrow> c \<in> set s"
  by (auto simp: py_strip_def py_rstrip_def py_lstrip_def dest!: set_dropWhileD)

definition has_indicator :: "string \<Rightarrow> bool" where
  "has_indicator raw = (py_strip (hd (py_split (CHR ''#'') raw)) \<noteq> [])"

definition clean_token :: "string \<Rightarrow> bool" where
  "clean_token v = (v \<noteq> [] \<and> list_all (\<lambda>c. \<not> py_isspace c \<and> c \<noteq> CHR ''#'') v)"

lemma detect_valid: "detect_type ipaddr v = Some t \<Longrightarrow> t \<in> set valid_ioc_types"
  by (auto simp: detect_type_def valid_ioc_types_def split: if_splits)

lemma paste_line_entry:
  assumes "paste_line ipaddr dt n raw = Some (Inr (t, v))"
  shows "t \<in> set valid_ioc_types \<and> clean_token v"
proof -
  let ?line = "py_strip (hd (py_split (CHR ''#'') raw))"
  have ne: "?line \<noteq> []" and t: "t \<in> set valid_ioc_types"
    and v: "v = (case py_split_ws ?line of [] \<Rightarrow> ?line | w # _ \<Rightarrow> w)"
    using assms by (auto simp: paste_line_def Let_def split: if_splits)
  obtain w ws where ws: "py_split_ws ?line = w # ws"
    using split_ws_strip [OF ne] by (cases "py_split_ws ?line") auto
  then have "v \<noteq> [] \<and> (\<forall>c \<in> set v. \<not> py_isspace c \<and> c \<in> set ?line)"
    using split_ws_tokens [of w ?line] v by simp
  then show ?thesis
    using t split_no_hash strip_subset by (fastforce simp: clean_token_def list_all_iff)
qed

lemma paste_line_cases:
  "paste_line ipaddr dt n raw = None \<longleftrightarrow> \<not> has_indicator raw"
  "dt \<in> set valid_ioc_types \<Longrightarrow> paste_line ipaddr dt n raw \<noteq> Some (Inl e)"
  using detect_valid
  by (auto simp: paste_line_def has_indicator_def Let_def split: option.splits if_splits)

text \<open>
  A pasted list is accounted for line by line. Every line with text before its comment
  yields exactly one entry or one error, an entry has a known type and a value that is one
  clean token, and with a known default type nothing is rejected.
\<close>

theorem paste_accounts_for_lines:
  "(case parse_ioc_paste ipaddr txt dt of (entries, errors) \<Rightarrow>
      length entries + length errors = length (filter has_indicator (py_splitlines txt))
      \<and> list_all (\<lambda>(t, v). t \<in> set valid_ioc_types \<and> clean_token v) entries
      \<and> (if dt \<in> set valid_ioc_types then errors = [] else True))"
proof -
  have "(case paste_lines ipaddr dt n ls of (entries, errors) \<Rightarrow>
      length entries + length errors = length (filter has_indicator ls)
      \<and> list_all (\<lambda>(t, v). t \<in> set valid_ioc_types \<and> clean_token v) entries
      \<and> (if dt \<in> set valid_ioc_types then errors = [] else True))" for n ls
  proof (induction ls arbitrary: n)
    case (Cons raw ls)
    obtain entries errors where rest: "paste_lines ipaddr dt (n + 1) ls = (entries, errors)" by (cases "paste_lines ipaddr dt (n + 1) ls")
    note IH = Cons.IH [of "n + 1", unfolded rest, simplified]
    show ?case
    proof (cases "paste_line ipaddr dt n raw")
      case None
      then show ?thesis using IH rest paste_line_cases(1) [of ipaddr dt n raw] by simp
    next
      case (Some r)
      then have has: "has_indicator raw" using paste_line_cases(1) [of ipaddr dt n raw] by auto
      show ?thesis
      proof (cases r)
        case (Inl e)
        then have "dt \<notin> set valid_ioc_types" using paste_line_cases(2) [of dt ipaddr n raw e] Some by blast
        then show ?thesis using IH rest has Some Inl by simp
      next
        case (Inr x)
        obtain t v where "x = (t, v)" by (cases x)
        then show ?thesis using IH rest has Some Inr paste_line_entry [of ipaddr dt n raw t v] by simp
      qed
    qed
  qed simp
  then show ?thesis unfolding parse_ioc_paste_def .
qed

end
