(* ===== verification/FleetDb.thy ===== *)
theory FleetDb
  imports Auth CaptureApi Bytes
begin

text \<open>
  The tables of the agent fleet: \<open>marlinspike/fleet/gateway/db.py\<close>, which the gateway calls for
  enrolment, authentication, heartbeats, statistics and uploads, and the agent routes of
  \<open>marlinspike/fleet/api.py\<close>, which mint tokens, revoke, rotate and delete. The token digest
  and the certificate authority are arguments; so are the fresh keys and secrets.
\<close>

section \<open>Tables\<close>

record health =
  h_cpu :: "rat option"
  h_memory :: "rat option"
  h_disk :: "rat option"
  h_uptime :: "int option"
  h_capd :: "bool option"
  h_active :: "bool option"
  h_error :: "string option"

definition no_health :: health where
  "no_health = \<lparr>h_cpu = None, h_memory = None, h_disk = None, h_uptime = None, h_capd = None, h_active = None, h_error = None\<rparr>"

record agent_row =
  ga_id :: int
  ga_uuid :: string
  ga_project :: int
  ga_name :: string
  ga_status :: string
  ga_version :: "string option"
  ga_os :: "string option"
  ga_seen :: "int option"
  ga_revoked :: "int option"
  ga_health :: health

record enroll_token =
  et_id :: int
  et_project :: int
  et_agent :: "int option"
  et_hash :: string
  et_expires :: "int option"
  et_used :: "int option"
  et_standing :: bool
  et_revoked :: "int option"
  et_by :: "int option"

record credential =
  cr_id :: int
  cr_agent :: int
  cr_hash :: string
  cr_fingerprint :: "string option"
  cr_revoked :: "int option"

text \<open>\<open>published\<close>: the status messages sent to the pages (uuid, project, status).\<close>

record fleet =
  fl_agents :: "(int, agent_row) dict"
  fl_tokens :: "(int, enroll_token) dict"
  fl_creds :: "(int, credential) dict"
  fl_rows :: "(int, capture_session) dict"
  fl_projects :: "(int, project) dict"
  fl_audit :: "audit_row list"
  published :: "(string \<times> int \<times> string) list"

definition first_row :: "('v \<Rightarrow> bool) \<Rightarrow> (int, 'v) dict \<Rightarrow> 'v option" where
  "first_row P d = find P (map snd d)"

definition map_rows :: "('v \<Rightarrow> 'v) \<Rightarrow> (int, 'v) dict \<Rightarrow> (int, 'v) dict" where
  "map_rows f d = map (\<lambda>(k, v). (k, f v)) d"

definition put_agent :: "agent_row \<Rightarrow> fleet \<Rightarrow> fleet" where
  "put_agent a s = s\<lparr>fl_agents := dict_set (ga_id a) a (fl_agents s)\<rparr>"

definition put_etoken :: "enroll_token \<Rightarrow> fleet \<Rightarrow> fleet" where
  "put_etoken t s = s\<lparr>fl_tokens := dict_set (et_id t) t (fl_tokens s)\<rparr>"

definition put_cred :: "credential \<Rightarrow> fleet \<Rightarrow> fleet" where
  "put_cred c s = s\<lparr>fl_creds := dict_set (cr_id c) c (fl_creds s)\<rparr>"

definition publish_status :: "agent_row \<Rightarrow> fleet \<Rightarrow> fleet" where
  "publish_status a s = s\<lparr>published := published s @ [(ga_uuid a, ga_project a, ga_status a)]\<rparr>"

text \<open>The gateway has no request, so the audit row names no actor.\<close>

definition no_web :: web where
  "no_web = \<lparr>w_user = None, w_uid = None, w_role = None, w_version = None, w_csrf = None, w_ip = None\<rparr>"

definition fleet_audit :: "web \<Rightarrow> string \<Rightarrow> string \<Rightarrow> string \<Rightarrow> string option \<Rightarrow> fleet \<Rightarrow> fleet" where
  "fleet_audit w event target_type target_id detail s = s\<lparr>fl_audit := fl_audit s @ [audit_row_of w event
     (no_args\<lparr>aa_target_type := Some target_type, aa_target_id := Some target_id, aa_detail := map_option PStr detail\<rparr>)]\<rparr>"

section \<open>Enrolment\<close>

record fresh =
  fv_uuid :: string
  fv_agent :: int
  fv_cred :: int
  fv_secret :: string
  fv_suffix :: string

record enrolled =
  en_uuid :: string
  en_credential :: string
  en_cert :: "string option"

text \<open>Whether a token may be redeemed, as the message of the \<open>GatewayAuthError\<close>.\<close>

definition token_refused :: "int \<Rightarrow> enroll_token \<Rightarrow> string option" where
  "token_refused now t =
     (if et_standing t then
        (if et_revoked t \<noteq> None then Some ''enrollment token revoked'' else None)
      else if et_used t \<noteq> None then Some ''enrollment token already used''
      else (case et_expires t of
          Some e \<Rightarrow> if e < now then Some ''enrollment token expired'' else None
        | None \<Rightarrow> None))"

definition non_empty :: "string option \<Rightarrow> string option" where
  "non_empty x = (case x of Some s \<Rightarrow> if s = [] then None else Some s | None \<Rightarrow> None)"

definition returning_agent :: "int \<Rightarrow> string option \<Rightarrow> string option \<Rightarrow> string option \<Rightarrow> agent_row \<Rightarrow> agent_row" where
  "returning_agent now name version os a = a\<lparr>
     ga_name := (case non_empty name of Some n \<Rightarrow> take 200 n | None \<Rightarrow> ga_name a),
     ga_version := version, ga_os := os, ga_seen := Some now,
     ga_status := (if ga_status a = ''revoked'' then ''enrolled'' else ga_status a)\<rparr>"

definition new_agent :: "fresh \<Rightarrow> int \<Rightarrow> int \<Rightarrow> string option \<Rightarrow> string option \<Rightarrow> string option \<Rightarrow> agent_row" where
  "new_agent fv now pid name version os = \<lparr>ga_id = fv_agent fv, ga_uuid = fv_uuid fv, ga_project = pid,
     ga_name = take 200 (case non_empty name of Some n \<Rightarrow> n | None \<Rightarrow> ''agent-'' @ fv_suffix fv),
     ga_status = ''enrolled'', ga_version = version, ga_os = os, ga_seen = Some now, ga_revoked = None,
     ga_health = no_health\<rparr>"

text \<open>
  \<open>sign csr cn\<close> is the authority's certificate and its fingerprint. A refusal leaves the
  tables as they were: the transaction is rolled back.
\<close>

definition enroll_agent ::
    "(string \<Rightarrow> string) \<Rightarrow> (string \<Rightarrow> string \<Rightarrow> (string \<times> string) option) \<Rightarrow> fresh \<Rightarrow> int \<Rightarrow> string
      \<Rightarrow> string option \<Rightarrow> string option \<Rightarrow> string option \<Rightarrow> string option \<Rightarrow> fleet \<Rightarrow> (string + enrolled) \<times> fleet" where
  "enroll_agent digest sign fv now raw_token name version os csr s =
     (case first_row (\<lambda>t. et_hash t = digest raw_token) (fl_tokens s) of
       None \<Rightarrow> (Inl ''invalid enrollment token'', s)
     | Some t \<Rightarrow> (case token_refused now t of
         Some e \<Rightarrow> (Inl e, s)
       | None \<Rightarrow>
           let s1 = (if et_standing t then s else put_etoken (t\<lparr>et_used := Some now\<rparr>) s);
               found = (case et_agent t of
                   None \<Rightarrow> Some (new_agent fv now (et_project t) name version os)
                 | Some aid \<Rightarrow> map_option (returning_agent now name version os) (dict_get (fl_agents s) aid))
           in (case found of
             None \<Rightarrow> (Inl ''agent no longer exists'', s)
           | Some a \<Rightarrow>
               let signed = (case non_empty csr of None \<Rightarrow> None | Some c \<Rightarrow> sign c (ga_uuid a));
                   cred = \<lparr>cr_id = fv_cred fv, cr_agent = ga_id a, cr_hash = digest (fv_secret fv),
                     cr_fingerprint = map_option snd signed, cr_revoked = None\<rparr>
               in (Inr \<lparr>en_uuid = ga_uuid a, en_credential = fv_secret fv, en_cert = map_option fst signed\<rparr>,
                   publish_status a (fleet_audit no_web ''fleet.agent_enrolled'' ''agent'' (show_int (ga_id a))
                     (Some (''project_id='' @ show_int (et_project t) @ '' name='' @ py_repr_str (ga_name a)))
                     (put_cred cred (put_agent a s1)))))))"

section \<open>Authentication and heartbeats\<close>

definition agent_by_uuid :: "string \<Rightarrow> fleet \<Rightarrow> agent_row option" where
  "agent_by_uuid u s = first_row (\<lambda>a. ga_uuid a = u) (fl_agents s)"

definition live_cred :: "int \<Rightarrow> string \<Rightarrow> fleet \<Rightarrow> credential option" where
  "live_cred aid h s = first_row (\<lambda>c. cr_agent c = aid \<and> cr_hash c = h \<and> cr_revoked c = None) (fl_creds s)"

definition authenticate_agent ::
    "(string \<Rightarrow> string) \<Rightarrow> int \<Rightarrow> string \<Rightarrow> string \<Rightarrow> string option \<Rightarrow> fleet \<Rightarrow> (string + int) \<times> fleet" where
  "authenticate_agent digest now agent_uuid raw_credential peer s =
     (case agent_by_uuid agent_uuid s of
       None \<Rightarrow> (Inl ''unauthorized'', s)
     | Some a \<Rightarrow>
         if ga_status a = ''revoked'' then (Inl ''unauthorized'', s)
         else (case live_cred (ga_id a) (digest raw_credential) s of
           None \<Rightarrow> (Inl ''unauthorized'', s)
         | Some c \<Rightarrow>
             if non_empty (cr_fingerprint c) \<noteq> None \<and> cr_fingerprint c \<noteq> peer then (Inl ''unauthorized'', s)
             else let a' = a\<lparr>ga_status := ''online'', ga_seen := Some now\<rparr>
                  in (Inr (ga_id a), publish_status a' (put_agent a' s))))"

definition safe_int :: "pyval \<Rightarrow> int option" where
  "safe_int v = (if v = PNone then None else py_int v)"

text \<open>\<open>to_float\<close> is \<open>float\<close>, \<open>None\<close> for its exceptions.\<close>

definition safe_float :: "(pyval \<Rightarrow> rat option) \<Rightarrow> pyval \<Rightarrow> rat option" where
  "safe_float to_float v = (if v = PNone then None else to_float v)"

definition safe_bool :: "pyval \<Rightarrow> bool option" where
  "safe_bool v = (if v = PNone then None else Some (truthy v))"

definition health_of :: "(rat \<Rightarrow> string) \<Rightarrow> (pyval \<Rightarrow> rat option) \<Rightarrow> (string, pyval) dict \<Rightarrow> health" where
  "health_of fr to_float params = \<lparr>h_cpu = safe_float to_float (obj_get params ''cpu_percent''),
     h_memory = safe_float to_float (obj_get params ''memory_percent''),
     h_disk = safe_float to_float (obj_get params ''disk_percent''), h_uptime = safe_int (obj_get params ''uptime_s''),
     h_capd = safe_bool (obj_get params ''capd_reachable''), h_active = safe_bool (obj_get params ''capture_active''),
     h_error = (let e = obj_get params ''last_error'' in if truthy e then Some (take 2000 (py_str fr e)) else None)\<rparr>"

definition record_heartbeat ::
    "(rat \<Rightarrow> string) \<Rightarrow> (pyval \<Rightarrow> rat option) \<Rightarrow> int \<Rightarrow> string \<Rightarrow> (string, pyval) dict \<Rightarrow> fleet \<Rightarrow> fleet" where
  "record_heartbeat fr to_float now agent_uuid params s = (case agent_by_uuid agent_uuid s of
       None \<Rightarrow> s
     | Some a \<Rightarrow>
         if ga_status a = ''revoked'' then s
         else let a' = a\<lparr>ga_seen := Some now, ga_status := ''online'', ga_health := health_of fr to_float params\<rparr>;
                  s' = put_agent a' s
              in if ga_status a \<noteq> ''online'' then publish_status a' s' else s')"

definition mark_offline :: "string \<Rightarrow> fleet \<Rightarrow> fleet" where
  "mark_offline agent_uuid s = (case agent_by_uuid agent_uuid s of
       None \<Rightarrow> s
     | Some a \<Rightarrow>
         if ga_status a = ''revoked'' then s
         else let a' = a\<lparr>ga_status := ''offline''\<rparr> in publish_status a' (put_agent a' s))"

definition is_agent_revoked :: "string \<Rightarrow> fleet \<Rightarrow> bool" where
  "is_agent_revoked agent_uuid s = (case agent_by_uuid agent_uuid s of
       None \<Rightarrow> True
     | Some a \<Rightarrow> ga_status a = ''revoked'')"

section \<open>Sessions and uploads\<close>

definition session_owned_by_agent :: "capture_session \<Rightarrow> string \<Rightarrow> fleet \<Rightarrow> bool" where
  "session_owned_by_agent cs agent_uuid s = (case cs_agent cs of
       None \<Rightarrow> False
     | Some aid \<Rightarrow> (case agent_by_uuid agent_uuid s of None \<Rightarrow> False | Some a \<Rightarrow> ga_id a = aid))"

definition session_by_uuid :: "string \<Rightarrow> fleet \<Rightarrow> capture_session option" where
  "session_by_uuid u s = first_row (\<lambda>c. cs_uuid c = u) (fl_rows s)"

record stats_event =
  se_session :: string
  se_bytes :: int
  se_rotations :: int
  se_running :: bool
  se_packets :: "int option"
  se_drops :: "int option"

definition apply_stats :: "int \<Rightarrow> stats_event \<Rightarrow> capture_session \<Rightarrow> capture_session" where
  "apply_stats now e cs = cs\<lparr>cs_bytes := se_bytes e, cs_rotations := max (cs_rotations cs) (se_rotations e),
     cs_packets := (case se_packets e of Some n \<Rightarrow> n | None \<Rightarrow> cs_packets cs),
     cs_drops := (case se_drops e of Some n \<Rightarrow> n | None \<Rightarrow> cs_drops cs),
     cs_status := (if se_running e then cs_status cs else Stopped),
     cs_stopped_at := (if se_running e then cs_stopped_at cs else Some now)\<rparr>"

definition record_session_stats :: "int \<Rightarrow> string \<Rightarrow> stats_event \<Rightarrow> fleet \<Rightarrow> fleet" where
  "record_session_stats now agent_uuid e s = (case session_by_uuid (se_session e) s of
       None \<Rightarrow> s
     | Some cs \<Rightarrow>
         if cs_status cs \<noteq> Pending \<and> cs_status cs \<noteq> Running then s
         else if \<not> session_owned_by_agent cs agent_uuid s then s
         else s\<lparr>fl_rows := dict_set (cs_id cs) (apply_stats now e cs) (fl_rows s)\<rparr>)"

definition path_join :: "string \<Rightarrow> string \<Rightarrow> string" where
  "path_join a b = (if py_startswith b ''/'' then b
     else if a = [] \<or> py_endswith a ''/'' then a @ b else a @ ''/'' @ b)"

definition upload_name :: "string \<Rightarrow> string option" where
  "upload_name filename = (let n = py_basename filename in
     if n = [] \<or> n = ''.'' \<or> n = ''..'' \<or> \<not> (py_endswith (py_lower n) ''.pcap'' \<or> py_endswith (py_lower n) ''.pcapng'')
     then None else Some n)"

text \<open>\<open>inside out_dir path\<close>: the file system resolves the path to a place under the directory.\<close>

definition begin_pcap_upload ::
    "string \<Rightarrow> (string \<Rightarrow> string \<Rightarrow> bool) \<Rightarrow> string \<Rightarrow> string \<Rightarrow> string \<Rightarrow> fleet \<Rightarrow> (string \<times> string) option" where
  "begin_pcap_upload uploads_dir inside suuid filename agent_uuid s = (case upload_name filename of
       None \<Rightarrow> None
     | Some n \<Rightarrow> (case session_by_uuid suuid s of
         None \<Rightarrow> None
       | Some cs \<Rightarrow>
           if \<not> session_owned_by_agent cs agent_uuid s then None
           else (case dict_get (fl_projects s) (cs_project cs) of
             None \<Rightarrow> None
           | Some p \<Rightarrow>
               let out_dir = path_join (path_join uploads_dir (show_int (p_user p))) (show_int (p_id p));
                   final_path = path_join out_dir n
               in if inside out_dir final_path then Some (final_path @ ''.partial'', final_path) else None)))"

type_synonym disk = "(string, bytes) dict"

text \<open>The rename comes first; its failure is a partial file that is not there.\<close>

definition finish_pcap_upload ::
    "string \<Rightarrow> string \<Rightarrow> string \<Rightarrow> string \<Rightarrow> fleet \<Rightarrow> disk \<Rightarrow> (int \<times> int \<times> int option) option \<times> disk" where
  "finish_pcap_upload partial_path final_path suuid agent_uuid s disk = (case dict_get disk partial_path of
       None \<Rightarrow> (None, disk)
     | Some content \<Rightarrow>
         (case session_by_uuid suuid s of
            None \<Rightarrow> None
          | Some cs \<Rightarrow>
              if \<not> session_owned_by_agent cs agent_uuid s then None
              else (case dict_get (fl_projects s) (cs_project cs) of
                  None \<Rightarrow> None
                | Some p \<Rightarrow> Some (p_user p, p_id p, cs_agent cs)),
          dict_set final_path content (dict_pop partial_path disk)))"

section \<open>The operators' routes\<close>

text \<open>The project check of each route is an argument: whether the caller is an editor.\<close>

definition revoke_standing :: "int \<Rightarrow> int \<Rightarrow> enroll_token \<Rightarrow> enroll_token" where
  "revoke_standing now pid t =
     (if et_project t = pid \<and> et_standing t \<and> et_revoked t = None then t\<lparr>et_revoked := Some now\<rparr> else t)"

definition mint_standing_token ::
    "(string \<Rightarrow> string) \<Rightarrow> int \<Rightarrow> string \<Rightarrow> int \<Rightarrow> int \<Rightarrow> int \<Rightarrow> fleet \<Rightarrow> string \<times> fleet" where
  "mint_standing_token digest tid raw now pid created_by s =
     (raw, put_etoken \<lparr>et_id = tid, et_project = pid, et_agent = None, et_hash = digest raw, et_expires = None,
         et_used = None, et_standing = True, et_revoked = None, et_by = Some created_by\<rparr>
       (s\<lparr>fl_tokens := map_rows (revoke_standing now pid) (fl_tokens s)\<rparr>))"

definition issue_enrollment_token ::
    "(string \<Rightarrow> string) \<Rightarrow> int \<Rightarrow> string \<Rightarrow> int \<Rightarrow> bool \<Rightarrow> web \<Rightarrow> int \<Rightarrow> int \<Rightarrow> fleet \<Rightarrow> reply \<times> fleet" where
  "issue_enrollment_token digest tid raw now editor w uid pid s =
     (if \<not> editor then (failure ''Project not found'' 404, s)
      else case mint_standing_token digest tid raw now pid uid s of (tok, s1) \<Rightarrow>
        (\<lparr>body = [(''ok'', PBool True), (''token'', PStr tok)], session_row = None, code = 201\<rparr>,
         fleet_audit w ''fleet.enrollment_token_issued'' ''project'' (show_int pid) None s1))"

definition revoke_creds :: "int \<Rightarrow> int \<Rightarrow> credential \<Rightarrow> credential" where
  "revoke_creds now aid c = (if cr_agent c = aid \<and> cr_revoked c = None then c\<lparr>cr_revoked := Some now\<rparr> else c)"

definition revoke_agent :: "int \<Rightarrow> bool \<Rightarrow> web \<Rightarrow> int \<Rightarrow> fleet \<Rightarrow> nat \<times> fleet" where
  "revoke_agent now editor w aid s = (case dict_get (fl_agents s) aid of
       None \<Rightarrow> (404, s)
     | Some a \<Rightarrow>
         if \<not> editor then (404, s)
         else (200, fleet_audit w ''fleet.agent_revoked'' ''agent'' (show_int aid)
                (Some (''project_id='' @ show_int (ga_project a)))
                ((put_agent (a\<lparr>ga_status := ''revoked'', ga_revoked := Some now\<rparr>) s)
                  \<lparr>fl_creds := map_rows (revoke_creds now (ga_id a)) (fl_creds s)\<rparr>)))"

text \<open>The agent's credentials and tokens go with it; its sessions stay, without an agent.\<close>

definition delete_agent :: "bool \<Rightarrow> web \<Rightarrow> int \<Rightarrow> fleet \<Rightarrow> nat \<times> fleet" where
  "delete_agent editor w aid s = (case dict_get (fl_agents s) aid of
       None \<Rightarrow> (404, s)
     | Some a \<Rightarrow>
         if \<not> editor then (404, s)
         else if ga_status a \<noteq> ''revoked'' then (409, s)
         else (200, fleet_audit w ''fleet.agent_deleted'' ''agent'' (show_int aid)
                (Some (''project_id='' @ show_int (ga_project a)))
                (s\<lparr>fl_agents := dict_pop aid (fl_agents s),
                   fl_creds := filter (\<lambda>(k, c). cr_agent c \<noteq> aid) (fl_creds s),
                   fl_tokens := filter (\<lambda>(k, t). et_agent t \<noteq> Some aid) (fl_tokens s),
                   fl_rows := map_rows (\<lambda>c. if cs_agent c = Some aid then c\<lparr>cs_agent := None\<rparr> else c) (fl_rows s)\<rparr>)))"

definition rotate_agent_credential ::
    "(string \<Rightarrow> string) \<Rightarrow> int \<Rightarrow> string \<Rightarrow> int \<Rightarrow> bool \<Rightarrow> web \<Rightarrow> int \<Rightarrow> int \<Rightarrow> fleet \<Rightarrow> nat \<times> fleet" where
  "rotate_agent_credential digest tid raw now editor w uid aid s = (case dict_get (fl_agents s) aid of
       None \<Rightarrow> (404, s)
     | Some a \<Rightarrow>
         if \<not> editor then (404, s)
         else if ga_status a = ''revoked'' then (409, s)
         else (201, fleet_audit w ''fleet.agent_credential_rotated'' ''agent'' (show_int aid)
                (Some (''project_id='' @ show_int (ga_project a)))
                (put_etoken \<lparr>et_id = tid, et_project = ga_project a, et_agent = Some (ga_id a), et_hash = digest raw,
                    et_expires = Some (now + minutes 60), et_used = None, et_standing = False, et_revoked = None,
                    et_by = Some uid\<rparr>
                  (s\<lparr>fl_creds := map_rows (revoke_creds now (ga_id a)) (fl_creds s)\<rparr>))))"

definition compute_health :: "agent_row \<Rightarrow> string option" where
  "compute_health a =
     (let h = ga_health a; values = List.map_filter id [h_cpu h, h_memory h, h_disk h] in
      if ga_status a = ''revoked'' \<or> ga_status a = ''pending'' then None
      else if ga_status a \<noteq> ''online'' then Some ''offline''
      else if non_empty (h_error h) \<noteq> None \<or> h_capd h = Some False then Some ''critical''
      else if list_ex (\<lambda>v. v \<ge> 90) values then Some ''critical''
      else if list_ex (\<lambda>v. v \<ge> 75) values then Some ''warning''
      else Some ''healthy'')"

text \<open>
  The sensor upload: \<open>token\<close> is the header the route reads, \<open>gunzip\<close> the decompression
  (\<open>None\<close> when it raises), \<open>stamp\<close> the time in the file's name.
\<close>

definition sensor_char :: "char \<Rightarrow> char" where
  "sensor_char c = (let n = ord_of c in
     if (97 \<le> n \<and> n \<le> 122) \<or> (65 \<le> n \<and> n \<le> 90) \<or> (48 \<le> n \<and> n \<le> 57) \<or> n = 95 \<or> n = 45 then c else CHR ''_'')"

definition sensor_ingest ::
    "(bytes \<Rightarrow> bytes option) \<Rightarrow> string \<Rightarrow> int \<Rightarrow> string option \<Rightarrow> string \<Rightarrow> bool \<Rightarrow> bytes \<Rightarrow> disk \<Rightarrow> nat \<times> disk" where
  "sensor_ingest gunzip target_dir stamp token sensor_name gzipped raw_data disk =
     (if raw_data = [] then (400, disk)
      else case (if gzipped \<or> take 2 raw_data = [0x1f, 0x8b] then gunzip raw_data else Some raw_data) of
        None \<Rightarrow> (400, disk)
      | Some pcap_bytes \<Rightarrow>
          (200, dict_set (path_join target_dir (''sensor_'' @ map sensor_char sensor_name @ ''_'' @ show_int stamp @ ''.pcap''))
             pcap_bytes disk))"

end
