(* ===== verification/Base64.thy ===== *)
theory Base64
  imports Bytes
begin

text \<open>
  Base 64 as the agents and the gateway use it: \<open>base64.b64encode\<close>, and \<open>base64.b64decode\<close> with
  \<open>validate=True\<close>, which accepts the alphabet and the final padding only. Decoding undoes
  encoding on every byte string.
\<close>

definition b64_char :: "nat \<Rightarrow> char" where
  "b64_char n = (if n < 26 then char_of (65 + n) else if n < 52 then char_of (71 + n)
     else if n < 62 then char_of (n - 4) else if n = 62 then CHR ''+'' else CHR ''/'')"

definition b64_val :: "char \<Rightarrow> nat option" where
  "b64_val c = (let n = ord_of c in
     if 65 \<le> n \<and> n \<le> 90 then Some (n - 65) else if 97 \<le> n \<and> n \<le> 122 then Some (n - 71)
     else if 48 \<le> n \<and> n \<le> 57 then Some (n + 4) else if c = CHR ''+'' then Some 62 else if c = CHR ''/'' then Some 63 else None)"

definition byte_of :: "nat \<Rightarrow> 8 word" where
  "byte_of n = word_of_nat n"

fun b64encode :: "bytes \<Rightarrow> string" where
  "b64encode [] = []"
| "b64encode [a] = [b64_char (unat a div 4), b64_char (unat a mod 4 * 16), CHR ''='', CHR ''='']"
| "b64encode [a, b] = [b64_char (unat a div 4), b64_char (unat a mod 4 * 16 + unat b div 16),
     b64_char (unat b mod 16 * 4), CHR ''='']"
| "b64encode (a # b # c # r) = b64_char (unat a div 4) # b64_char (unat a mod 4 * 16 + unat b div 16)
     # b64_char (unat b mod 16 * 4 + unat c div 64) # b64_char (unat c mod 64) # b64encode r"

text \<open>A quantum of four characters; padding ends the text. \<open>None\<close> is \<open>binascii.Error\<close>.\<close>

fun b64decode :: "string \<Rightarrow> bytes option" where
  "b64decode [] = Some []"
| "b64decode (w # x # y # z # r) = (case (b64_val w, b64_val x) of
       (Some i, Some j) \<Rightarrow>
         if y = CHR ''='' then
           (if z = CHR ''='' \<and> r = [] then Some [byte_of (i * 4 + j div 16)] else None)
         else (case b64_val y of
             None \<Rightarrow> None
           | Some k \<Rightarrow>
               if z = CHR ''='' then
                 (if r = [] then Some [byte_of (i * 4 + j div 16), byte_of (j mod 16 * 16 + k div 4)] else None)
               else (case (b64_val z, b64decode r) of
                   (Some l, Some bs) \<Rightarrow> Some (byte_of (i * 4 + j div 16) # byte_of (j mod 16 * 16 + k div 4)
                     # byte_of (k mod 4 * 64 + l) # bs)
                 | _ \<Rightarrow> None))
     | _ \<Rightarrow> None)"
| "b64decode _ = None"

section \<open>Round trip\<close>

lemma b64_val_char: "n < 64 \<Longrightarrow> b64_val (b64_char n) = Some n"
  by (auto simp: b64_val_def b64_char_def ord_of_def Let_def not_less)

lemma b64_char_pad: "n < 64 \<Longrightarrow> b64_char n \<noteq> CHR ''=''"
  using b64_val_char [of n] by (auto simp: b64_val_def ord_of_def)

lemma byte_of_unat [simp]: "byte_of (unat b) = b"
  by (simp add: byte_of_def)

lemma byte_lt: "unat (a :: 8 word) < 256"
  using unsigned_less [of a] by simp

lemma byte_div: "unat (a :: 8 word) div 4 < 64" "unat a div 16 < 16" "unat a div 64 < 4"
  "unat a div 16 div 16 = 0" "unat a div 64 div 4 = 0"
  "unat a div 16 mod 16 = unat a div 16" "unat a div 64 mod 4 = unat a div 64"
  using byte_lt [of a] by (simp_all add: less_mult_imp_div_less)

lemma quantum_lt: "unat (a :: 8 word) mod 4 * 16 + unat (b :: 8 word) div 16 < 64"
  "unat b mod 16 * 4 + unat a div 64 < 64" "unat a mod 4 * 16 < 64" "unat a mod 16 * 4 < 64"
  using byte_div(2) [of b] byte_div(3) [of a] mod_less_divisor [of 4 "unat a"] mod_less_divisor [of 16 "unat b"]
    mod_less_divisor [of 16 "unat a"]
  by linarith+

lemmas quanta = byte_div quantum_lt

lemma b64decode_encode [simp]: "b64decode (b64encode bs) = Some bs"
  by (induction bs rule: b64encode.induct) (simp_all add: b64_val_char b64_char_pad quanta)

lemma b64decode_length: "b64decode s = Some bs \<Longrightarrow> 4 * length bs \<le> 3 * length s"
  by (induction s arbitrary: bs rule: b64decode.induct) (force split: option.splits if_splits)+

end
