(* ===== verification/Gateway.thy ===== *)
theory Gateway
  imports FleetDb Base64
begin

text \<open>
  The gateway of the agent fleet, \<open>marlinspike/fleet/gateway/server.py\<close>: the limit on
  authentication attempts, the handshake, the loop that serves one authenticated agent, the
  reassembly of uploads from positional chunks, commands pushed to an agent, and the table of
  connections. Messages are the objects that \<open>json.loads\<close> returns. The event handlers of a
  connection run one after the other in the order of arrival, which the lock around the creation
  and the completion of transfers gives them. Log lines and the shared instance registry are
  left out.
\<close>

section \<open>Attempts per address\<close>

type_synonym attempts = "(string, rat list) dict"

definition auth_attempts_per_window :: nat where
  "auth_attempts_per_window = 20"

definition auth_window_s :: rat where
  "auth_window_s = 60"

definition auth_rate_limited :: "string \<Rightarrow> rat \<Rightarrow> attempts \<Rightarrow> bool \<times> attempts" where
  "auth_rate_limited peer_ip now tbl =
     (let recent = filter (\<lambda>t. now - t < auth_window_s) (case dict_get tbl peer_ip of None \<Rightarrow> [] | Some ts \<Rightarrow> ts) @ [now];
          tbl1 = dict_set peer_ip recent tbl;
          tbl2 = (if length tbl1 > 10000
            then filter (\<lambda>(ip, ts). list_ex (\<lambda>t. now - t < auth_window_s) ts) tbl1 else tbl1)
      in (length recent > auth_attempts_per_window, tbl2))"

section \<open>Messages\<close>

definition res_ok :: "pyval \<Rightarrow> (string, pyval) dict \<Rightarrow> pyval" where
  "res_ok req_id result = PDict [(''type'', PStr ''res''), (''id'', req_id), (''ok'', PBool True), (''result'', PDict result)]"

definition res_err :: "pyval \<Rightarrow> string \<Rightarrow> pyval" where
  "res_err req_id e = PDict [(''type'', PStr ''res''), (''id'', req_id), (''ok'', PBool False),
     (''error'', PStr (if e = [] then ''unknown error'' else e))]"

text \<open>\<open>msg.get("params") or {}\<close>; \<open>None\<close> when its \<open>get\<close> would raise.\<close>

definition params_of :: "(string, pyval) dict \<Rightarrow> (string, pyval) dict option" where
  "params_of msg = (case py_or (obj_get msg ''params'') (PDict []) of PDict d \<Rightarrow> Some d | _ \<Rightarrow> None)"

section \<open>Uploads\<close>

definition pcap_chunk_raw :: nat where
  "pcap_chunk_raw = 524288"

definition max_pcap_chunks :: "int \<Rightarrow> int" where
  "max_pcap_chunks pcap_max_size = - ((- pcap_max_size) div int pcap_chunk_raw) + 1"

record transfer =
  tf_partial :: string
  tf_final :: string
  tf_chunks :: "int option"
  tf_received :: "int set"
  tf_session :: string

record agent_conn =
  ac_transfers :: "(string, transfer) dict"
  ac_warned :: bool
  ac_last_write :: "rat option"
  ac_last_check :: "rat option"
  ac_next :: int
  ac_pending :: "(int, pyval option) dict"

definition new_conn :: agent_conn where
  "new_conn = \<lparr>ac_transfers = [], ac_warned = False, ac_last_write = None, ac_last_check = None, ac_next = 1, ac_pending = []\<rparr>"

record scan_request =
  sq_path :: string
  sq_user :: int
  sq_project :: int
  sq_session :: string
  sq_agent :: "int option"

text \<open>What the handlers of all connections share.\<close>

record gateway =
  gw_fleet :: fleet
  gw_disk :: disk
  gw_scans :: "scan_request list"

text \<open>Configuration and the library functions the handlers call.\<close>

record gw_env =
  ge_uploads :: string
  ge_inside :: "string \<Rightarrow> string \<Rightarrow> bool"
  ge_max_size :: int
  ge_float_str :: "rat \<Rightarrow> string"
  ge_to_float :: "pyval \<Rightarrow> rat option"

text \<open>A write at an offset: a gap before it is filled with zero bytes, an empty write does nothing.\<close>

definition pwrite :: "nat \<Rightarrow> bytes \<Rightarrow> bytes \<Rightarrow> bytes" where
  "pwrite off new old = (if new = [] then old
     else take off (old @ replicate (off - length old) 0) @ new @ drop (off + length new) old)"

definition open_partial :: "string \<Rightarrow> disk \<Rightarrow> disk" where
  "open_partial path disk = (if dict_get disk path = None then dict_set path [] disk else disk)"

definition discard_partial :: "string \<Rightarrow> disk \<Rightarrow> disk" where
  "discard_partial path disk = dict_pop path disk"

definition abort_pcap_transfer :: "string \<Rightarrow> agent_conn \<times> gateway \<Rightarrow> agent_conn \<times> gateway" where
  "abort_pcap_transfer filename cg = (case cg of (c, g) \<Rightarrow>
     (case dict_get (ac_transfers c) filename of
        None \<Rightarrow> (c, g)
      | Some x \<Rightarrow> (c\<lparr>ac_transfers := dict_pop filename (ac_transfers c)\<rparr>,
                   g\<lparr>gw_disk := discard_partial (tf_partial x) (gw_disk g)\<rparr>)))"

record chunk =
  ch_file :: string
  ch_session :: string
  ch_index :: int
  ch_total :: int
  ch_data :: string

definition chunk_of :: "gw_env \<Rightarrow> (string, pyval) dict \<Rightarrow> chunk option" where
  "chunk_of ev params =
     (case (py_int (obj_get_or params ''chunk_index'' (PInt 0)), py_int (obj_get_or params ''total_chunks'' (PInt 0))) of
        (Some i, Some n) \<Rightarrow> Some \<lparr>ch_file = py_str (ge_float_str ev) (obj_get_or params ''filename'' (PStr [])),
          ch_session = py_str (ge_float_str ev) (obj_get_or params ''session_id'' (PStr [])), ch_index = i, ch_total = n,
          ch_data = py_str (ge_float_str ev) (obj_get_or params ''data'' (PStr []))\<rparr>
      | _ \<Rightarrow> None)"

text \<open>The transfer a chunk belongs to; the first chunk of a file creates it.\<close>

definition transfer_for :: "gw_env \<Rightarrow> string \<Rightarrow> chunk \<Rightarrow> agent_conn \<times> gateway \<Rightarrow> (transfer \<times> gateway) option" where
  "transfer_for ev agent ch cg = (case cg of (c, g) \<Rightarrow>
     (case dict_get (ac_transfers c) (ch_file ch) of
        Some x \<Rightarrow> Some (x, g)
      | None \<Rightarrow> (case begin_pcap_upload (ge_uploads ev) (ge_inside ev) (ch_session ch) (ch_file ch) agent (gw_fleet g) of
          None \<Rightarrow> None
        | Some (partial, final) \<Rightarrow>
            Some (\<lparr>tf_partial = partial, tf_final = final, tf_chunks = None, tf_received = {}, tf_session = ch_session ch\<rparr>,
                  g\<lparr>gw_disk := open_partial partial (gw_disk g)\<rparr>))))"

definition write_chunk :: "nat \<Rightarrow> bytes \<Rightarrow> string \<Rightarrow> disk \<Rightarrow> disk" where
  "write_chunk i data path disk = (case dict_get disk path of
       None \<Rightarrow> disk
     | Some old \<Rightarrow> dict_set path (pwrite (i * pcap_chunk_raw) data old) disk)"

definition on_pcap_chunk :: "gw_env \<Rightarrow> string \<Rightarrow> chunk \<Rightarrow> agent_conn \<times> gateway \<Rightarrow> agent_conn \<times> gateway" where
  "on_pcap_chunk ev agent ch cg =
     (let mx = max_pcap_chunks (ge_max_size ev) in
      if \<not> (0 \<le> ch_index ch \<and> ch_index ch < mx) \<or> \<not> (0 < ch_total ch \<and> ch_total ch \<le> mx)
      then abort_pcap_transfer (ch_file ch) cg
      else (case transfer_for ev agent ch cg of
          None \<Rightarrow> cg
        | Some (x, g) \<Rightarrow>
            let c1 = (fst cg)\<lparr>ac_transfers := dict_set (ch_file ch) x (ac_transfers (fst cg))\<rparr> in
            if tf_session x \<noteq> ch_session ch then (c1, g)
            else (case b64decode (ch_data ch) of
                None \<Rightarrow> abort_pcap_transfer (ch_file ch) (c1, g)
              | Some data \<Rightarrow>
                  (c1\<lparr>ac_transfers := dict_set (ch_file ch)
                       (x\<lparr>tf_chunks := Some (ch_total ch), tf_received := insert (ch_index ch) (tf_received x)\<rparr>) (ac_transfers c1)\<rparr>,
                   g\<lparr>gw_disk := write_chunk (nat (ch_index ch)) data (tf_partial x) (gw_disk g)\<rparr>))))"

definition all_received :: "int \<Rightarrow> int \<Rightarrow> transfer \<Rightarrow> bool" where
  "all_received mx n x \<longleftrightarrow> 0 < n \<and> n \<le> mx \<and> int (card (tf_received x)) = n \<and> list_all (\<lambda>i. i \<in> tf_received x) [0..n - 1]"

definition on_pcap_complete :: "gw_env \<Rightarrow> string \<Rightarrow> string \<Rightarrow> int \<Rightarrow> agent_conn \<times> gateway \<Rightarrow> agent_conn \<times> gateway" where
  "on_pcap_complete ev agent filename n cg = (case cg of (c, g) \<Rightarrow>
     (case dict_get (ac_transfers c) filename of
        None \<Rightarrow> (c, g)
      | Some x \<Rightarrow>
          let c1 = c\<lparr>ac_transfers := dict_pop filename (ac_transfers c)\<rparr> in
          if \<not> all_received (max_pcap_chunks (ge_max_size ev)) n x
          then (c1, g\<lparr>gw_disk := discard_partial (tf_partial x) (gw_disk g)\<rparr>)
          else (case finish_pcap_upload (tf_partial x) (tf_final x) (tf_session x) agent (gw_fleet g) (gw_disk g) of
              (None, disk) \<Rightarrow> (c1, g\<lparr>gw_disk := disk\<rparr>)
            | (Some (user, pid, aid), disk) \<Rightarrow>
                (c1, g\<lparr>gw_disk := disk, gw_scans := gw_scans g @ [\<lparr>sq_path = tf_final x, sq_user = user, sq_project = pid,
                    sq_session = tf_session x, sq_agent = aid\<rparr>]\<rparr>))))"

section \<open>Events\<close>

definition opt_int :: "pyval \<Rightarrow> int option option" where
  "opt_int v = (if v = PNone then Some None else map_option Some (py_int v))"

definition stats_of :: "gw_env \<Rightarrow> (string, pyval) dict \<Rightarrow> stats_event option" where
  "stats_of ev params =
     (case (py_int (py_or (obj_get params ''bytes_captured'') (PInt 0)), py_int (py_or (obj_get params ''rotation_count'') (PInt 0)),
            opt_int (obj_get params ''packets_captured''), opt_int (obj_get params ''drop_count'')) of
        (Some b, Some r, Some p, Some d) \<Rightarrow>
          Some \<lparr>se_session = py_str (ge_float_str ev) (obj_get_or params ''session_id'' (PStr [])), se_bytes = b, se_rotations = r,
            se_running = truthy (obj_get_or params ''running'' (PBool True)), se_packets = p, se_drops = d\<rparr>
      | _ \<Rightarrow> None)"

definition handle_event :: "gw_env \<Rightarrow> int \<Rightarrow> string \<Rightarrow> (string, pyval) dict \<Rightarrow> agent_conn \<times> gateway \<Rightarrow> agent_conn \<times> gateway" where
  "handle_event ev now agent msg cg =
     (let meth = obj_get msg ''method'' in
      case params_of msg of
        None \<Rightarrow> if meth = PStr ''report_chunk'' \<or> meth = PStr ''report_complete'' then ((fst cg)\<lparr>ac_warned := True\<rparr>, snd cg) else cg
      | Some params \<Rightarrow>
          if meth = PStr ''session_stats'' then
            (case stats_of ev params of
               None \<Rightarrow> cg
             | Some e \<Rightarrow> (fst cg, (snd cg)\<lparr>gw_fleet := record_session_stats now agent e (gw_fleet (snd cg))\<rparr>))
          else if meth = PStr ''pcap_chunk'' then
            (case chunk_of ev params of None \<Rightarrow> cg | Some ch \<Rightarrow> on_pcap_chunk ev agent ch cg)
          else if meth = PStr ''pcap_complete'' then
            (case py_int (py_or (obj_get params ''total_chunks'') (PInt 0)) of
               None \<Rightarrow> cg
             | Some n \<Rightarrow> on_pcap_complete ev agent (py_str (ge_float_str ev) (obj_get_or params ''filename'' (PStr []))) n cg)
          else if meth = PStr ''report_chunk'' \<or> meth = PStr ''report_complete'' then ((fst cg)\<lparr>ac_warned := True\<rparr>, snd cg)
          else cg)"

section \<open>Serving an authenticated agent\<close>

definition min_write_interval_s :: rat where
  "min_write_interval_s = 1"

definition due :: "rat \<Rightarrow> rat option \<Rightarrow> bool" where
  "due clock before = (case before of None \<Rightarrow> True | Some t \<Rightarrow> clock - t \<ge> min_write_interval_s)"

text \<open>The key of \<open>conn.pending\<close> that a message's id finds; Python's numbers compare by value.\<close>

definition id_key :: "pyval \<Rightarrow> int option" where
  "id_key v = (case v of PInt i \<Rightarrow> Some i | PBool b \<Rightarrow> Some (if b then 1 else 0)
     | PFloat q \<Rightarrow> if of_int \<lfloor>q\<rfloor> = q then Some \<lfloor>q\<rfloor> else None | _ \<Rightarrow> None)"

definition answer :: "pyval \<Rightarrow> pyval \<Rightarrow> agent_conn \<Rightarrow> agent_conn" where
  "answer req_id msg c = (case id_key req_id of
       None \<Rightarrow> c
     | Some k \<Rightarrow> (case dict_get (ac_pending c) k of
         Some None \<Rightarrow> c\<lparr>ac_pending := dict_set k (Some msg) (ac_pending c)\<rparr>
       | _ \<Rightarrow> c))"

text \<open>What the read loop gets, and what it does next.\<close>

datatype arrival = Arrived pyval | Silence | Peer_closed
datatype verdict = Goes_on | Ends

type_synonym served = "verdict \<times> pyval list \<times> agent_conn \<times> gateway"

definition serve_heartbeat :: "gw_env \<Rightarrow> rat \<Rightarrow> int \<Rightarrow> string \<Rightarrow> (string, pyval) dict \<Rightarrow> agent_conn \<Rightarrow> gateway \<Rightarrow> served" where
  "serve_heartbeat ev clock now agent msg c g =
     (if due clock (ac_last_write c) then
        (case params_of msg of
           None \<Rightarrow> (Ends, [], c\<lparr>ac_last_write := Some clock\<rparr>, g)
         | Some params \<Rightarrow> (Goes_on, [res_ok (obj_get msg ''id'') []], c\<lparr>ac_last_write := Some clock\<rparr>,
             g\<lparr>gw_fleet := record_heartbeat (ge_float_str ev) (ge_to_float ev) now agent params (gw_fleet g)\<rparr>))
      else (Goes_on, [res_ok (obj_get msg ''id'') []], c, g))"

definition serve_message :: "gw_env \<Rightarrow> rat \<Rightarrow> int \<Rightarrow> string \<Rightarrow> (string, pyval) dict \<Rightarrow> agent_conn \<Rightarrow> gateway \<Rightarrow> served" where
  "serve_message ev clock now agent msg c g =
     (let kind = obj_get msg ''type'' in
      if kind = PStr ''res'' then
        (if hashable (obj_get msg ''id'') then (Goes_on, [], answer (obj_get msg ''id'') (PDict msg) c, g) else (Ends, [], c, g))
      else if kind = PStr ''event'' then
        (case handle_event ev now agent msg (c, g) of (c', g') \<Rightarrow> (Goes_on, [], c', g'))
      else if kind \<noteq> PStr ''req'' then (Goes_on, [], c, g)
      else if obj_get msg ''method'' = PStr ''heartbeat'' then serve_heartbeat ev clock now agent msg c g
      else (Goes_on, [res_err (obj_get msg ''id'') (''unknown method: '' @ py_str (ge_float_str ev) (obj_get msg ''method''))], c, g))"

definition serve_frame :: "gw_env \<Rightarrow> rat \<Rightarrow> int \<Rightarrow> string \<Rightarrow> arrival \<Rightarrow> agent_conn \<Rightarrow> gateway \<Rightarrow> served" where
  "serve_frame ev clock now agent a c g = (case a of
       Silence \<Rightarrow> (Ends, [], c, g)
     | Peer_closed \<Rightarrow> (Ends, [], c, g)
     | Arrived (PDict msg) \<Rightarrow>
         if due clock (ac_last_check c) then
           let c1 = c\<lparr>ac_last_check := Some clock\<rparr> in
           if is_agent_revoked agent (gw_fleet g)
           then (Ends, if obj_get msg ''type'' = PStr ''req'' then [res_err (obj_get msg ''id'') ''revoked''] else [], c1, g)
           else serve_message ev clock now agent msg c1 g
         else serve_message ev clock now agent msg c g
     | Arrived _ \<Rightarrow> (Ends, [], c, g))"

text \<open>The loop, on the arrivals with the clock's readings.\<close>

fun serve_authenticated :: "gw_env \<Rightarrow> string \<Rightarrow> (rat \<times> int \<times> arrival) list \<Rightarrow> agent_conn \<Rightarrow> gateway \<Rightarrow> pyval list \<times> agent_conn \<times> gateway" where
  "serve_authenticated ev agent [] c g = ([], c, g)"
| "serve_authenticated ev agent ((clock, now, a) # rest) c g =
     (case serve_frame ev clock now agent a c g of
        (Ends, out, c', g') \<Rightarrow> (out, c', g')
      | (Goes_on, out, c', g') \<Rightarrow>
          (case serve_authenticated ev agent rest c' g' of (out', c'', g'') \<Rightarrow> (out @ out', c'', g'')))"

section \<open>The handshake\<close>

definition opt_text :: "pyval \<Rightarrow> string option option" where
  "opt_text v = (case v of PNone \<Rightarrow> Some None | PStr s \<Rightarrow> Some (Some s) | _ \<Rightarrow> None)"

definition enroll_result :: "enrolled \<Rightarrow> (string, pyval) dict" where
  "enroll_result r = [(''agent_uuid'', PStr (en_uuid r)), (''credential'', PStr (en_credential r))]
     @ (case en_cert r of None \<Rightarrow> [] | Some c \<Rightarrow> [(''client_cert_pem'', PStr c)])"

text \<open>
  The first frame of a connection: the agent that is authenticated, if any, and the reply. A
  parameter that is neither text nor null makes the enrolment raise.
\<close>

definition authenticate ::
    "gw_env \<Rightarrow> (string \<Rightarrow> string) \<Rightarrow> (string \<Rightarrow> string \<Rightarrow> (string \<times> string) option) \<Rightarrow> fresh \<Rightarrow> int \<Rightarrow> string option
      \<Rightarrow> (string, pyval) dict \<Rightarrow> fleet \<Rightarrow> string option \<times> pyval list \<times> fleet" where
  "authenticate ev digest sign fv now peer_cert msg s = (case params_of msg of
       None \<Rightarrow> (None, [], s)
     | Some params \<Rightarrow>
         let text = (\<lambda>k. py_str (ge_float_str ev) (obj_get_or params k (PStr []))); req_id = obj_get msg ''id'' in
         if obj_get msg ''method'' = PStr ''enroll'' then
           (case (opt_text (obj_get params ''name''), opt_text (obj_get params ''agent_version''),
                  opt_text (obj_get params ''os_info''), opt_text (obj_get params ''csr_pem'')) of
              (Some name, Some version, Some os, Some csr) \<Rightarrow>
                (case enroll_agent digest sign fv now (text ''token'') name version os csr s of
                   (Inl e, s') \<Rightarrow> (None, [res_err req_id e], s')
                 | (Inr r, s') \<Rightarrow> (Some (en_uuid r), [res_ok req_id (enroll_result r)], s'))
            | _ \<Rightarrow> (None, [], s))
         else
           (case authenticate_agent digest now (text ''agent_uuid'') (text ''credential'') peer_cert s of
              (Inl e, s') \<Rightarrow> (None, [res_err req_id e], s')
            | (Inr _, s') \<Rightarrow> (Some (text ''agent_uuid''), [res_ok req_id [(''agent_uuid'', PStr (text ''agent_uuid''))]], s')))"

definition first_frame ::
    "gw_env \<Rightarrow> (string \<Rightarrow> string) \<Rightarrow> (string \<Rightarrow> string \<Rightarrow> (string \<times> string) option) \<Rightarrow> fresh \<Rightarrow> rat \<Rightarrow> int \<Rightarrow> string \<Rightarrow> string option
      \<Rightarrow> arrival \<Rightarrow> attempts \<Rightarrow> fleet \<Rightarrow> string option \<times> pyval list \<times> attempts \<times> fleet" where
  "first_frame ev digest sign fv clock now peer_ip peer_cert a tbl s = (case a of
       Arrived (PDict msg) \<Rightarrow>
         if obj_get msg ''type'' \<noteq> PStr ''req'' \<or> obj_get msg ''method'' \<notin> {PStr ''enroll'', PStr ''auth''}
         then (None, [res_err (obj_get msg ''id'') ''first frame must be enroll or auth''], tbl, s)
         else (case auth_rate_limited peer_ip clock tbl of (limited, tbl') \<Rightarrow>
           if limited then (None, [res_err (obj_get msg ''id'') ''rate limited''], tbl', s)
           else (case authenticate ev digest sign fv now peer_cert msg s of (who, out, s') \<Rightarrow> (who, out, tbl', s')))
     | _ \<Rightarrow> (None, [], tbl, s))"

section \<open>Commands pushed to an agent\<close>

definition push_send :: "string \<Rightarrow> pyval \<Rightarrow> agent_conn \<Rightarrow> int \<times> pyval \<times> agent_conn" where
  "push_send meth params c = (let k = ac_next c + 1 in
     (k, PDict [(''type'', PStr ''req''), (''id'', PInt k), (''method'', PStr meth), (''params'', params)],
      c\<lparr>ac_next := k, ac_pending := dict_set k None (ac_pending c)\<rparr>))"

text \<open>How the wait ends; every way out removes the entry.\<close>

datatype push_end = Send_failed string | Replied | Timed_out string | Cancelled

definition push_result :: "string \<Rightarrow> string \<Rightarrow> push_end \<Rightarrow> int \<Rightarrow> agent_conn \<Rightarrow> (pyval + pyval) \<times> agent_conn" where
  "push_result agent meth e k c =
     ((case e of
         Send_failed x \<Rightarrow> Inl (PStr (''agent '' @ agent @ '' disconnected before receiving '' @ py_repr_str meth @ '': '' @ x))
       | Timed_out t \<Rightarrow> Inl (PStr (''agent '' @ agent @ '' did not respond to '' @ py_repr_str meth @ '' within '' @ t @ ''s''))
       | Cancelled \<Rightarrow> Inl (PStr (''agent '' @ agent @ '' disconnected before responding to '' @ py_repr_str meth))
       | Replied \<Rightarrow> (case dict_get (ac_pending c) k of
             Some (Some (PDict resp)) \<Rightarrow>
               if \<not> truthy (obj_get resp ''ok'') then Inl (py_or (obj_get resp ''error'') (PStr (meth @ '' failed'')))
               else Inr (py_or (obj_get resp ''result'') (PDict []))
           | _ \<Rightarrow> Inl PNone)),
      c\<lparr>ac_pending := dict_pop k (ac_pending c)\<rparr>)"

section \<open>The admin listeners\<close>

definition peer_allowed :: "int set option \<Rightarrow> int option \<Rightarrow> bool" where
  "peer_allowed allowed_uids peer_uid = (case allowed_uids of None \<Rightarrow> True
     | Some uids \<Rightarrow> (case peer_uid of None \<Rightarrow> False | Some u \<Rightarrow> u \<in> uids))"

datatype admin_action = Refuse pyval | Disconnect string pyval | Push string string pyval rat pyval | Crash

text \<open>One request on an admin connection; \<open>compare_digest\<close> raises for text outside ASCII.\<close>

definition admin_request :: "gw_env \<Rightarrow> string option \<Rightarrow> pyval \<Rightarrow> admin_action" where
  "admin_request ev admin_token v = (case v of
       PDict msg \<Rightarrow>
         let req_id = obj_get msg ''id'' in
         (case params_of msg of
            None \<Rightarrow>
              if admin_token \<noteq> None \<or> obj_get msg ''method'' \<in> {PStr ''disconnect_agent'', PStr ''push_command''} then Crash
              else Refuse (res_err req_id (''unknown method: '' @ py_str (ge_float_str ev) (obj_get msg ''method'')))
          | Some params \<Rightarrow>
              let text = (\<lambda>k. py_str (ge_float_str ev) (obj_get_or params k (PStr []))); given = text ''admin_token'' in
              if admin_token \<noteq> None \<and> list_ex (\<lambda>c. ord_of c \<ge> 128) (given @ the admin_token) then Crash
              else if admin_token \<noteq> None \<and> admin_token \<noteq> Some given then Refuse (res_err req_id ''unauthorized'')
              else if obj_get msg ''method'' = PStr ''disconnect_agent'' then Disconnect (text ''agent_uuid'') req_id
              else if obj_get msg ''method'' \<noteq> PStr ''push_command''
              then Refuse (res_err req_id (''unknown method: '' @ py_str (ge_float_str ev) (obj_get msg ''method'')))
              else (case ge_to_float ev (py_or (obj_get params ''timeout_s'') (PFloat 15)) of
                  None \<Rightarrow> Crash
                | Some t \<Rightarrow> Push (text ''agent_uuid'') (text ''command_method'') (py_or (obj_get params ''command_params'') (PDict [])) t req_id))
     | _ \<Rightarrow> Crash)"

section \<open>The table of connections\<close>

text \<open>
  Where a connection's handler is between two of its \<open>await\<close>s: waiting for the first frame,
  past the commit of the authentication (the reply is being sent), in the read loop, past the
  removal of its own entry (the agent is to be marked offline), or over.
\<close>

datatype phase = Waiting | Authed string | Live string | Leaving string | Over

record link =
  lk_phase :: phase
  lk_open :: bool

record hub =
  hb_links :: "link list"
  hb_table :: "(string, nat) dict"
  hb_fleet :: fleet

definition set_phase :: "nat \<Rightarrow> phase \<Rightarrow> hub \<Rightarrow> hub" where
  "set_phase n p h = h\<lparr>hb_links := (hb_links h)[n := (hb_links h ! n)\<lparr>lk_phase := p\<rparr>]\<rparr>"

definition close_link :: "nat \<Rightarrow> hub \<Rightarrow> hub" where
  "close_link n h = h\<lparr>hb_links := (hb_links h)[n := (hb_links h ! n)\<lparr>lk_open := False\<rparr>]\<rparr>"

definition hub_accept :: "hub \<Rightarrow> hub" where
  "hub_accept h = h\<lparr>hb_links := hb_links h @ [\<lparr>lk_phase = Waiting, lk_open = True\<rparr>]\<rparr>"

definition hub_auth :: "nat \<Rightarrow> string option \<Rightarrow> fleet \<Rightarrow> hub \<Rightarrow> hub" where
  "hub_auth n who s' h = (case who of
       None \<Rightarrow> close_link n (set_phase n Over (h\<lparr>hb_fleet := s'\<rparr>))
     | Some u \<Rightarrow> set_phase n (Authed u) (h\<lparr>hb_fleet := s'\<rparr>))"

text \<open>An error while the reply is sent leaves before the agent's uuid is known to the handler.\<close>

definition hub_reply_failed :: "nat \<Rightarrow> hub \<Rightarrow> hub" where
  "hub_reply_failed n h = close_link n (set_phase n Over h)"

definition hub_register :: "nat \<Rightarrow> string \<Rightarrow> hub \<Rightarrow> hub" where
  "hub_register n u h =
     (let h' = set_phase n (Live u) (h\<lparr>hb_table := dict_set u n (hb_table h)\<rparr>) in
      case dict_get (hb_table h) u of None \<Rightarrow> h' | Some old \<Rightarrow> close_link old h')"

definition hub_end :: "nat \<Rightarrow> string \<Rightarrow> hub \<Rightarrow> hub" where
  "hub_end n u h =
     (if dict_get (hb_table h) u = Some n then set_phase n (Leaving u) (h\<lparr>hb_table := dict_pop u (hb_table h)\<rparr>)
      else close_link n (set_phase n Over h))"

definition hub_offline :: "nat \<Rightarrow> string \<Rightarrow> hub \<Rightarrow> hub" where
  "hub_offline n u h = close_link n (set_phase n Over (h\<lparr>hb_fleet := mark_offline u (hb_fleet h)\<rparr>))"

definition disconnect_agent :: "string \<Rightarrow> hub \<Rightarrow> bool \<times> hub" where
  "disconnect_agent u h = (case dict_get (hb_table h) u of None \<Rightarrow> (False, h) | Some n \<Rightarrow> (True, close_link n h))"

end
