(* ===== verification/AgentClient.thy ===== *)
theory AgentClient
  imports Gateway Wire
begin

text \<open>
  The capture agent, \<open>marlinspike-agent/agent/client.py\<close>: cutting a capture file into chunks and
  shipping it, the spool of references to files that could not be shipped, the commands of the
  gateway, and what a lost connection does to the tasks. A shipment that loses the link after
  some frames is given the number of frames that went out.
\<close>

section \<open>Chunks\<close>

definition chunk_count :: "nat \<Rightarrow> int" where
  "chunk_count file_size = max 1 (- ((- int file_size) div int pcap_chunk_raw))"

definition event_msg :: "string \<Rightarrow> (string, pyval) dict \<Rightarrow> (string, pyval) dict" where
  "event_msg meth params = [(''type'', PStr ''event''), (''method'', PStr meth), (''params'', PDict params)]"

definition chunk_msg :: "string \<Rightarrow> string \<Rightarrow> bytes \<Rightarrow> nat \<Rightarrow> (string, pyval) dict" where
  "chunk_msg session_id filename pcap i = event_msg ''pcap_chunk''
     [(''session_id'', PStr session_id), (''filename'', PStr filename), (''chunk_index'', PInt (int i)),
      (''total_chunks'', PInt (chunk_count (length pcap))),
      (''data'', PStr (b64encode (take pcap_chunk_raw (drop (i * pcap_chunk_raw) pcap))))]"

definition complete_msg :: "string \<Rightarrow> string \<Rightarrow> bytes \<Rightarrow> (string, pyval) dict" where
  "complete_msg session_id filename pcap = event_msg ''pcap_complete''
     [(''session_id'', PStr session_id), (''filename'', PStr filename),
      (''total_chunks'', PInt (chunk_count (length pcap))), (''total_bytes'', PInt (int (length pcap)))]"

definition pcap_frames :: "string \<Rightarrow> string \<Rightarrow> bytes \<Rightarrow> (string, pyval) dict list" where
  "pcap_frames session_id filename pcap =
     map (chunk_msg session_id filename pcap) [0..<nat (chunk_count (length pcap))] @ [complete_msg session_id filename pcap]"

section \<open>State\<close>

record spool_ref =
  sp_session :: string
  sp_filename :: string
  sp_path :: string

text \<open>
  \<open>ag_sessions\<close> maps the sessions with a reporter task to whether that task is still running;
  \<open>ag_tasks\<close> are the shipments that were spawned and have not begun.
\<close>

record agent =
  ag_linked :: bool
  ag_files :: disk
  ag_spool :: "(string, spool_ref) dict"
  ag_sent :: "(string, pyval) dict list"
  ag_sessions :: "(string, bool) dict"
  ag_tasks :: "(string \<times> string) list"
  ag_error :: "string option"
  ag_backoff :: rat

section \<open>Shipping and the spool\<close>

definition spool_name :: "string \<Rightarrow> string" where
  "spool_name filename = filename @ ''.spool.json''"

definition spool_pcap_ref :: "string \<Rightarrow> string \<Rightarrow> string \<Rightarrow> agent \<Rightarrow> agent" where
  "spool_pcap_ref session_id filename pcap_path a = a\<lparr>ag_spool := dict_set (spool_name filename)
     \<lparr>sp_session = session_id, sp_filename = filename, sp_path = pcap_path\<rparr> (ag_spool a)\<rparr>"

definition send_pcap :: "string \<Rightarrow> string \<Rightarrow> string \<Rightarrow> nat option \<Rightarrow> agent \<Rightarrow> bool \<times> agent" where
  "send_pcap session_id filename pcap_path breaks a =
     (if \<not> ag_linked a then (False, spool_pcap_ref session_id filename pcap_path a)
      else (case dict_get (ag_files a) pcap_path of
          None \<Rightarrow> (True, a)
        | Some pcap \<Rightarrow>
            let frames = pcap_frames session_id filename pcap in
            (case breaks of
               Some k \<Rightarrow>
                 if k < length frames
                 then (False, spool_pcap_ref session_id filename pcap_path (a\<lparr>ag_sent := ag_sent a @ take k frames\<rparr>))
                 else (True, a\<lparr>ag_sent := ag_sent a @ frames\<rparr>)
             | None \<Rightarrow> (True, a\<lparr>ag_sent := ag_sent a @ frames\<rparr>))))"

definition ship_pcap :: "string \<Rightarrow> string \<Rightarrow> nat option \<Rightarrow> agent \<Rightarrow> agent" where
  "ship_pcap pcap_path session_id breaks a =
     (case send_pcap session_id (py_basename pcap_path) pcap_path breaks a of
        (True, a') \<Rightarrow> a'\<lparr>ag_files := dict_pop pcap_path (ag_files a')\<rparr>
      | (False, a') \<Rightarrow> a')"

definition flush_entry :: "string \<Rightarrow> nat option \<Rightarrow> agent \<Rightarrow> agent" where
  "flush_entry entry breaks a = (case dict_get (ag_spool a) entry of
       None \<Rightarrow> a
     | Some r \<Rightarrow>
         let a1 = a\<lparr>ag_spool := dict_pop entry (ag_spool a)\<rparr> in
         if dict_get (ag_files a) (sp_path r) = None then a1 else ship_pcap (sp_path r) (sp_session r) breaks a1)"

text \<open>\<open>order\<close> sorts the directory's entries; \<open>breaks\<close> tells for each where the link is lost.\<close>

definition flush_spool :: "(string list \<Rightarrow> string list) \<Rightarrow> (string \<Rightarrow> nat option) \<Rightarrow> agent \<Rightarrow> agent" where
  "flush_spool order breaks a = fold (\<lambda>e. flush_entry e (breaks e))
     (filter (\<lambda>e. py_endswith e ''.spool.json'') (order (map fst (ag_spool a)))) a"

text \<open>A shipment task begins.\<close>

definition run_task :: "nat \<Rightarrow> nat option \<Rightarrow> agent \<Rightarrow> agent" where
  "run_task i breaks a = (case ag_tasks a ! i of (path, sid) \<Rightarrow>
     ship_pcap path sid breaks (a\<lparr>ag_tasks := take i (ag_tasks a) @ drop (Suc i) (ag_tasks a)\<rparr>))"

definition spawn_ships :: "pyval \<Rightarrow> string \<Rightarrow> agent \<Rightarrow> agent" where
  "spawn_ships files_closed session_id a = (case py_or files_closed (PList []) of
       PList xs \<Rightarrow> a\<lparr>ag_tasks := ag_tasks a @ map (\<lambda>x. (str_of x, session_id)) xs\<rparr>
     | _ \<Rightarrow> a)"

section \<open>Connection\<close>

definition max_backoff_s :: rat where
  "max_backoff_s = 60"

definition next_backoff :: "rat \<Rightarrow> rat" where
  "next_backoff b = min (b * 2) max_backoff_s"

text \<open>A connection starts with fresh tables; when it ends its tasks are cancelled.\<close>

definition link_up :: "agent \<Rightarrow> agent" where
  "link_up a = a\<lparr>ag_linked := True, ag_sessions := []\<rparr>"

definition link_down :: "bool \<Rightarrow> agent \<Rightarrow> agent" where
  "link_down clean a = a\<lparr>ag_linked := False, ag_sessions := [], ag_tasks := [],
     ag_backoff := next_backoff (if clean then 1 else ag_backoff a)\<rparr>"

section \<open>Commands and the reporter\<close>

definition stats_msg :: "string \<Rightarrow> (string, pyval) dict \<Rightarrow> (string, pyval) dict" where
  "stats_msg session_id status = event_msg ''session_stats''
     [(''session_id'', PStr session_id), (''bytes_captured'', obj_get_or status ''bytes_total'' (PInt 0)),
      (''rotation_count'', obj_get_or status ''file_index'' (PInt 0)), (''running'', obj_get_or status ''running'' (PBool True)),
      (''packets_captured'', obj_get status ''packets''), (''drop_count'', obj_get status ''drops'')]"

definition reporter_ends :: "string \<Rightarrow> agent \<Rightarrow> agent" where
  "reporter_ends session_id a = a\<lparr>ag_sessions := dict_set session_id False (ag_sessions a)\<rparr>"

text \<open>One turn of the reporter; \<open>status\<close> is the daemon's answer, \<open>None\<close> when it has no such session.\<close>

definition reporter_tick :: "string \<Rightarrow> (string, pyval) dict option \<Rightarrow> agent \<Rightarrow> agent" where
  "reporter_tick session_id status a =
     (if dict_get (ag_sessions a) session_id \<noteq> Some True then a
      else (case status of
          None \<Rightarrow> reporter_ends session_id a
        | Some st \<Rightarrow>
            if \<not> ag_linked a then reporter_ends session_id a
            else let a1 = spawn_ships (obj_get st ''files_closed'') session_id a;
                     a2 = a1\<lparr>ag_sent := ag_sent a1 @ [stats_msg session_id st]\<rparr>
                 in if truthy (obj_get_or st ''running'' (PBool True)) then a2 else reporter_ends session_id a2))"

text \<open>The arguments that a start command hands to the local daemon; \<open>None\<close> when a conversion raises.\<close>

record start_args =
  sa_session :: string
  sa_interface :: string
  sa_bpf :: string
  sa_filesize :: int
  sa_files :: int
  sa_duration :: int

definition start_args_of :: "(rat \<Rightarrow> string) \<Rightarrow> (string, pyval) dict \<Rightarrow> start_args option" where
  "start_args_of fr params =
     (case (py_int (py_or (obj_get params ''ring_filesize_kb'') (PInt 200000)), py_int (py_or (obj_get params ''ring_files'') (PInt 10)),
            py_int (py_or (obj_get params ''max_duration_s'') (PInt 0))) of
        (Some k, Some n, Some d) \<Rightarrow>
          (let bpf = py_str fr (obj_get_or params ''bpf'' (PStr [])) in
           Some \<lparr>sa_session = py_str fr (obj_get_or params ''session_id'' (PStr [])), sa_interface = py_str fr (obj_get_or params ''interface'' (PStr [])),
             sa_bpf = (if bpf \<noteq> [] then bpf else py_str fr (obj_get_or params ''bpf_filter'' (PStr []))), sa_filesize = k, sa_files = n, sa_duration = d\<rparr>)
      | _ \<Rightarrow> None)"

definition cmd_start :: "string \<Rightarrow> agent \<Rightarrow> agent" where
  "cmd_start session_id a = a\<lparr>ag_sessions := dict_set session_id True (ag_sessions a)\<rparr>"

definition cmd_stop :: "string \<Rightarrow> (string, pyval) dict \<Rightarrow> agent \<Rightarrow> agent" where
  "cmd_stop session_id resp a =
     spawn_ships (obj_get resp ''files_closed'') session_id (a\<lparr>ag_sessions := dict_pop session_id (ag_sessions a)\<rparr>)"

text \<open>\<open>capd\<close> stands for the local daemon and its client.\<close>

datatype capd_call = Call_interfaces bool | Call_start start_args | Call_stop string

definition command_call :: "(rat \<Rightarrow> string) \<Rightarrow> string \<Rightarrow> (string, pyval) dict \<Rightarrow> capd_call option" where
  "command_call fr meth params =
     (if meth = ''list_interfaces'' then Some (Call_interfaces (truthy (obj_get_or params ''include_virtual'' (PBool False))))
      else if meth = ''start'' then map_option Call_start (start_args_of fr params)
      else Some (Call_stop (py_str fr (obj_get_or params ''session_id'' (PStr [])))))"

definition command_error :: "pyval \<Rightarrow> string \<Rightarrow> agent \<Rightarrow> agent \<times> pyval" where
  "command_error req_id e a = (a\<lparr>ag_error := Some e\<rparr>,
     PDict [(''type'', PStr ''res''), (''id'', req_id), (''ok'', PBool False), (''error'', PStr e)])"

definition command_done :: "capd_call \<Rightarrow> (string, pyval) dict \<Rightarrow> agent \<Rightarrow> agent" where
  "command_done call resp a = (case call of
       Call_interfaces _ \<Rightarrow> a
     | Call_start args \<Rightarrow> cmd_start (sa_session args) a
     | Call_stop sid \<Rightarrow> cmd_stop sid resp a)"

definition handle_command ::
    "(rat \<Rightarrow> string) \<Rightarrow> (capd_call \<Rightarrow> capd_exc + (string, pyval) dict) \<Rightarrow> (string, pyval) dict \<Rightarrow> agent \<Rightarrow> agent \<times> pyval" where
  "handle_command fr capd msg a =
     (let req_id = obj_get msg ''id''; meth = obj_get msg ''method'' in
      if meth \<notin> {PStr ''list_interfaces'', PStr ''start'', PStr ''stop''}
      then (a, PDict [(''type'', PStr ''res''), (''id'', req_id), (''ok'', PBool False),
                      (''error'', PStr (''unknown method: '' @ py_str fr meth))])
      else (case Option.bind (params_of msg) (command_call fr (str_of meth)) of
          None \<Rightarrow> command_error req_id (str_of meth @ '': internal agent error'') a
        | Some call \<Rightarrow> (case capd call of
            Inl (CapdError e) \<Rightarrow> command_error req_id (py_str fr e) a
          | Inl (CapdUnavailable e) \<Rightarrow> command_error req_id e a
          | Inl (Other _) \<Rightarrow> command_error req_id (str_of meth @ '': internal agent error'') a
          | Inr resp \<Rightarrow> ((command_done call resp a)\<lparr>ag_error := None\<rparr>,
              PDict [(''type'', PStr ''res''), (''id'', req_id), (''ok'', PBool True), (''result'', PDict resp)]))))"

end
