(* ===== verification/FleetSafety.thy ===== *)
theory FleetSafety
  imports FleetDb
begin

text \<open>
  What the fleet tables promise: a revoked agent stays out, a one-time token enrols once,
  authentication accepts exactly the live credentials, an agent reports on its own sessions
  only, and an upload lands in its project's directory. The operations are the steps of a
  relation, so that the promises hold across any sequence of them.
\<close>

section \<open>Well-formed tables\<close>

text \<open>Rows sit under their keys; agent uuids and token hashes are unique columns.\<close>

definition fleet_ok :: "fleet \<Rightarrow> bool" where
  "fleet_ok s \<longleftrightarrow> dict_ok (fl_agents s) \<and> dict_ok (fl_tokens s) \<and> dict_ok (fl_creds s) \<and> dict_ok (fl_rows s)
     \<and> (\<forall>(k, a) \<in> set (fl_agents s). ga_id a = k) \<and> (\<forall>(k, t) \<in> set (fl_tokens s). et_id t = k)
     \<and> (\<forall>(k, c) \<in> set (fl_creds s). cr_id c = k)
     \<and> (\<forall>(k, a) \<in> set (fl_agents s). \<forall>(j, b) \<in> set (fl_agents s). ga_uuid a = ga_uuid b \<longrightarrow> k = j)"

lemma first_row_mem:
  "first_row P d = Some v \<Longrightarrow> P v \<and> (\<exists>k. (k, v) \<in> set d)"
  by (auto simp: first_row_def find_Some_iff) (metis nth_mem prod.collapse)

lemma first_row_None: "first_row P d = None \<longleftrightarrow> (\<forall>(k, v) \<in> set d. \<not> P v)"
  by (auto simp: first_row_def find_None_iff)

lemma agent_by_uuid_get:
  assumes "fleet_ok s" "agent_by_uuid u s = Some a"
  shows "dict_get (fl_agents s) (ga_id a) = Some a" "ga_uuid a = u"
  using first_row_mem [of "\<lambda>a. ga_uuid a = u" "fl_agents s" a] assms
  by (auto simp: agent_by_uuid_def fleet_ok_def dict_get_mem)

lemma agent_get_by_uuid:
  assumes "fleet_ok s" "dict_get (fl_agents s) k = Some a"
  shows "agent_by_uuid (ga_uuid a) s = Some a" "ga_id a = k"
proof -
  have mem: "(k, a) \<in> set (fl_agents s)" and ok: "dict_ok (fl_agents s)"
    using assms by (auto simp: fleet_ok_def dict_get_mem)
  then show "ga_id a = k" using assms(1) by (auto simp: fleet_ok_def)
  obtain b where b: "agent_by_uuid (ga_uuid a) s = Some b"
    using mem first_row_None [of "\<lambda>x. ga_uuid x = ga_uuid a" "fl_agents s"]
    by (cases "agent_by_uuid (ga_uuid a) s") (auto simp: agent_by_uuid_def)
  then obtain j where "(j, b) \<in> set (fl_agents s)" "ga_uuid b = ga_uuid a"
    using first_row_mem [of "\<lambda>x. ga_uuid x = ga_uuid a"] by (auto simp: agent_by_uuid_def)
  moreover from this have "j = k" using mem assms(1) by (fastforce simp: fleet_ok_def)
  ultimately show "agent_by_uuid (ga_uuid a) s = Some a"
    using b mem dict_unique [OF ok] by blast
qed

lemma put_agent_ok:
  assumes "fleet_ok s"
    and "case dict_get (fl_agents s) (ga_id a) of Some b \<Rightarrow> ga_uuid b = ga_uuid a | None \<Rightarrow> agent_by_uuid (ga_uuid a) s = None"
  shows "fleet_ok (put_agent a s)"
proof -
  have ok: "dict_ok (fl_agents s)" using assms(1) by (simp add: fleet_ok_def)
  have other: "k = ga_id a" if "(k, b) \<in> set (fl_agents s)" "ga_uuid b = ga_uuid a" for k b
  proof -
    have get: "dict_get (fl_agents s) k = Some b" using that ok by (simp add: dict_get_mem)
    show ?thesis
    proof (cases "dict_get (fl_agents s) (ga_id a)")
      case None
      then show ?thesis using agent_get_by_uuid [OF assms(1) get] assms(2) that by simp
    next
      case (Some c)
      then have "ga_uuid c = ga_uuid b" using assms(2) that by simp
      moreover have "(ga_id a, c) \<in> set (fl_agents s)" using Some ok by (simp add: dict_get_mem)
      ultimately show ?thesis using that(1) assms(1) by (fastforce simp: fleet_ok_def)
    qed
  qed
  show ?thesis
    using assms(1) other
    by (auto simp: fleet_ok_def put_agent_def set_dict_set [OF ok])
qed

lemma put_etoken_ok: "fleet_ok s \<Longrightarrow> fleet_ok (put_etoken t s)"
  by (auto simp: fleet_ok_def put_etoken_def set_dict_set)

lemma put_cred_ok: "fleet_ok s \<Longrightarrow> fleet_ok (put_cred c s)"
  by (auto simp: fleet_ok_def put_cred_def set_dict_set)

lemma dict_ok_map_rows [simp]: "dict_ok (map_rows f d) = dict_ok d"
  by (simp add: dict_ok_def map_rows_def comp_def split_def)

lemma set_map_rows: "set (map_rows f d) = (\<lambda>(k, v). (k, f v)) ` set d"
  by (simp add: map_rows_def)

lemma dict_get_map_rows: "dict_get (map_rows f d) k = map_option f (dict_get d k)"
  by (induction d) (auto simp: map_rows_def)

lemma neutral_ok [simp]:
  "fleet_ok (publish_status a s) = fleet_ok s" "fleet_ok (fleet_audit w e tt ti d s) = fleet_ok s"
  by (simp_all add: fleet_ok_def publish_status_def fleet_audit_def)

lemma neutral_tables [simp]:
  "fl_agents (publish_status a s) = fl_agents s" "fl_agents (fleet_audit w e tt ti d s) = fl_agents s"
  "fl_tokens (publish_status a s) = fl_tokens s" "fl_tokens (fleet_audit w e tt ti d s) = fl_tokens s"
  "fl_creds (publish_status a s) = fl_creds s" "fl_creds (fleet_audit w e tt ti d s) = fl_creds s"
  "fl_rows (publish_status a s) = fl_rows s" "fl_rows (fleet_audit w e tt ti d s) = fl_rows s"
  "fl_rows (put_agent a s) = fl_rows s" "fl_rows (put_etoken t s) = fl_rows s" "fl_rows (put_cred c s) = fl_rows s"
  "fl_agents (put_etoken t s) = fl_agents s" "fl_agents (put_cred c s) = fl_agents s"
  "fl_tokens (put_agent a s) = fl_tokens s" "fl_tokens (put_cred c s) = fl_tokens s"
  "fl_creds (put_agent a s) = fl_creds s" "fl_creds (put_etoken t s) = fl_creds s"
  "fl_agents (put_agent a s) = dict_set (ga_id a) a (fl_agents s)"
  "fl_tokens (put_etoken t s) = dict_set (et_id t) t (fl_tokens s)"
  "fl_creds (put_cred c s) = dict_set (cr_id c) c (fl_creds s)"
  by (simp_all add: publish_status_def fleet_audit_def put_agent_def put_etoken_def put_cred_def)

lemma agent_by_uuid_put:
  assumes "fleet_ok s" "fleet_ok (put_agent a s)"
  shows "agent_by_uuid u (put_agent a s) = (if u = ga_uuid a then Some a
     else case agent_by_uuid u s of Some b \<Rightarrow> if ga_id b = ga_id a then None else Some b | None \<Rightarrow> None)"
proof (cases "u = ga_uuid a")
  case True
  then show ?thesis
    using agent_get_by_uuid [OF assms(2), of "ga_id a" a] by simp
next
  case False
  show ?thesis
  proof (cases "agent_by_uuid u (put_agent a s)")
    case None
    have "ga_id b = ga_id a" if b: "agent_by_uuid u s = Some b" for b
    proof (rule ccontr)
      assume "ga_id b \<noteq> ga_id a"
      then have g: "dict_get (fl_agents (put_agent a s)) (ga_id b) = Some b"
        using agent_by_uuid_get(1) [OF assms(1) b] by simp
      have "agent_by_uuid (ga_uuid b) (put_agent a s) = Some b" by (rule agent_get_by_uuid(1) [OF assms(2) g])
      then show False using agent_by_uuid_get(2) [OF assms(1) b] None by simp
    qed
    note same = this
    show ?thesis
    proof (cases "agent_by_uuid u s")
      case None
      then show ?thesis using False \<open>agent_by_uuid u (put_agent a s) = None\<close> by simp
    next
      case (Some b)
      with same [OF Some] show ?thesis using False \<open>agent_by_uuid u (put_agent a s) = None\<close> by simp
    qed
  next
    case (Some b)
    note get = agent_by_uuid_get [OF assms(2) Some]
    then have "ga_id b \<noteq> ga_id a" using False by auto
    then have "dict_get (fl_agents s) (ga_id b) = Some b" using get by simp
    then have "agent_by_uuid (ga_uuid b) s = Some b" by (rule agent_get_by_uuid(1) [OF assms(1)])
    then have "agent_by_uuid u s = Some b" using get(2) by simp
    then show ?thesis using False Some \<open>ga_id b \<noteq> ga_id a\<close> by simp
  qed
qed

section \<open>The fleet as a transition system\<close>

text \<open>
  \<open>U\<close> are uuids whose agents are not re-enrolled through a rotation token, \<open>H\<close> are token hashes
  that no new token gets. Fresh keys and uuids are fresh.
\<close>

definition rotation_target :: "string \<Rightarrow> fleet \<Rightarrow> agent_row option" where
  "rotation_target h s = (case first_row (\<lambda>t. et_hash t = h) (fl_tokens s) of
       None \<Rightarrow> None
     | Some t \<Rightarrow> (case et_agent t of None \<Rightarrow> None | Some aid \<Rightarrow> dict_get (fl_agents s) aid))"

inductive fleet_step :: "string set \<Rightarrow> string set \<Rightarrow> fleet \<Rightarrow> fleet \<Rightarrow> bool" for U H where
  enroll: "dict_get (fl_agents s) (fv_agent fv) = None \<Longrightarrow> agent_by_uuid (fv_uuid fv) s = None \<Longrightarrow> fv_uuid fv \<notin> U \<Longrightarrow>
    (case rotation_target (digest raw) s of None \<Rightarrow> True | Some x \<Rightarrow> ga_uuid x \<notin> U) \<Longrightarrow>
    fleet_step U H s (snd (enroll_agent digest sign fv now raw name version os csr s))"
| authenticate: "fleet_step U H s (snd (authenticate_agent digest now v secret peer s))"
| heartbeat: "fleet_step U H s (record_heartbeat fr to_float now v params s)"
| offline: "fleet_step U H s (mark_offline v s)"
| stats: "fleet_step U H s (record_session_stats now v e s)"
| mint: "digest raw \<notin> H \<Longrightarrow> fleet_step U H s (snd (mint_standing_token digest tid raw now pid by_user s))"
| revoke: "fleet_step U H s (snd (revoke_agent now editor w aid s))"
| delete: "fleet_step U H s (snd (delete_agent editor w aid s))"
| rotate: "digest raw \<notin> H \<Longrightarrow> fleet_step U H s (snd (rotate_agent_credential digest tid raw now editor w uid aid s))"
| sessions: "dict_ok rows' \<Longrightarrow> fleet_step U H s (s\<lparr>fl_rows := rows'\<rparr>)"

lemma put_agent_same_ok:
  assumes "fleet_ok s" "dict_get (fl_agents s) (ga_id a) = Some b" "ga_uuid a = ga_uuid b"
  shows "fleet_ok (put_agent a s)"
  using assms by (intro put_agent_ok) simp_all

lemma put_found_ok:
  assumes "fleet_ok s" "agent_by_uuid v s = Some b" "ga_uuid a = ga_uuid b" "ga_id a = ga_id b"
  shows "fleet_ok (put_agent a s)"
  using agent_by_uuid_get(1) [OF assms(1,2)] assms by (intro put_agent_same_ok) simp_all

lemma fleet_ok_creds: "fleet_ok s \<Longrightarrow> fleet_ok (s\<lparr>fl_creds := map_rows (revoke_creds now aid) (fl_creds s)\<rparr>)"
  by (auto simp: fleet_ok_def set_map_rows revoke_creds_def)

lemma fleet_ok_tokens: "fleet_ok s \<Longrightarrow> fleet_ok (s\<lparr>fl_tokens := map_rows (revoke_standing now pid) (fl_tokens s)\<rparr>)"
  by (auto simp: fleet_ok_def set_map_rows revoke_standing_def)

text \<open>What an enrolment that succeeds does to the tables.\<close>

lemma enroll_cases:
  assumes "enroll_agent digest sign fv now raw name version os csr s = (r, s')"
  obtains (refused) e where "r = Inl e" "s' = s"
  | (enrolled) t a sg where "first_row (\<lambda>t. et_hash t = digest raw) (fl_tokens s) = Some t" "token_refused now t = None"
      "(et_agent t = None \<and> a = new_agent fv now (et_project t) name version os)
       \<or> (\<exists>aid b. et_agent t = Some aid \<and> dict_get (fl_agents s) aid = Some b \<and> a = returning_agent now name version os b)"
      "r = Inr \<lparr>en_uuid = ga_uuid a, en_credential = fv_secret fv, en_cert = map_option fst sg\<rparr>"
      "fl_agents s' = dict_set (ga_id a) a (fl_agents s)"
      "fl_tokens s' = (if et_standing t then fl_tokens s else dict_set (et_id t) (t\<lparr>et_used := Some now\<rparr>) (fl_tokens s))"
      "fl_creds s' = dict_set (fv_cred fv) \<lparr>cr_id = fv_cred fv, cr_agent = ga_id a, cr_hash = digest (fv_secret fv),
         cr_fingerprint = map_option snd sg, cr_revoked = None\<rparr> (fl_creds s)"
      "fl_rows s' = fl_rows s"
      "sg = None \<or> (\<exists>c. sg = sign c (ga_uuid a))"
proof (cases "first_row (\<lambda>t. et_hash t = digest raw) (fl_tokens s)")
  case None
  then show thesis using assms by (intro refused) (auto simp: enroll_agent_def)
next
  case tok: (Some t)
  show thesis
  proof (cases "token_refused now t")
    case (Some e)
    then show thesis using assms tok by (intro refused) (auto simp: enroll_agent_def)
  next
    case ok: None
    define found where "found = (case et_agent t of
                   None \<Rightarrow> Some (new_agent fv now (et_project t) name version os)
                 | Some aid \<Rightarrow> map_option (returning_agent now name version os) (dict_get (fl_agents s) aid))"
    show thesis
    proof (cases found)
      case None
      then show thesis
        using assms tok ok by (intro refused) (auto simp: enroll_agent_def found_def [symmetric] Let_def)
    next
      case (Some a)
      define sg where "sg = (case non_empty csr of None \<Rightarrow> None | Some c \<Rightarrow> sign c (ga_uuid a))"
      define s1 where "s1 = (if et_standing t then s else put_etoken (t\<lparr>et_used := Some now\<rparr>) s)"
      define cred where "cred = \<lparr>cr_id = fv_cred fv, cr_agent = ga_id a, cr_hash = digest (fv_secret fv),
                     cr_fingerprint = map_option snd sg, cr_revoked = None\<rparr>"
      have run: "r = Inr \<lparr>en_uuid = ga_uuid a, en_credential = fv_secret fv, en_cert = map_option fst sg\<rparr>"
        "s' = publish_status a (fleet_audit no_web ''fleet.agent_enrolled'' ''agent'' (show_int (ga_id a))
                     (Some (''project_id='' @ show_int (et_project t) @ '' name='' @ py_repr_str (ga_name a)))
                     (put_cred cred (put_agent a s1)))"
        using assms tok ok Some
        by (auto simp: enroll_agent_def found_def [symmetric] Let_def sg_def [symmetric] s1_def [symmetric] cred_def [symmetric])
      have which: "(et_agent t = None \<and> a = new_agent fv now (et_project t) name version os)
       \<or> (\<exists>aid b. et_agent t = Some aid \<and> dict_get (fl_agents s) aid = Some b \<and> a = returning_agent now name version os b)"
        using Some by (auto simp: found_def split: option.splits)
      show thesis
        by (rule enrolled [OF tok ok which run(1)])
           (auto simp: run(2) s1_def cred_def put_etoken_def put_agent_def put_cred_def publish_status_def fleet_audit_def sg_def split: option.splits)
    qed
  qed
qed

lemma returning_fields [simp]: "ga_id (returning_agent now name version os b) = ga_id b"
  "ga_uuid (returning_agent now name version os b) = ga_uuid b"
  "ga_status (returning_agent now name version os b) \<noteq> ''revoked''"
  by (simp_all add: returning_agent_def)

lemma new_agent_fields [simp]: "ga_id (new_agent fv now pid name version os) = fv_agent fv"
  "ga_uuid (new_agent fv now pid name version os) = fv_uuid fv"
  "ga_status (new_agent fv now pid name version os) = ''enrolled''"
  by (simp_all add: new_agent_def)

lemma fleet_ok_parts:
  assumes "fleet_ok s0" "fl_agents s' = fl_agents s0"
    and "dict_ok (fl_tokens s')" "\<forall>(k, t) \<in> set (fl_tokens s'). et_id t = k"
    and "dict_ok (fl_creds s')" "\<forall>(k, c) \<in> set (fl_creds s'). cr_id c = k" "dict_ok (fl_rows s')"
  shows "fleet_ok s'"
  using assms by (simp add: fleet_ok_def)

text \<open>The agent an enrolment writes is new, or the row of a known agent with the same uuid.\<close>

lemma enroll_agent_row:
  assumes "fleet_ok s" "dict_get (fl_agents s) (fv_agent fv) = None" "agent_by_uuid (fv_uuid fv) s = None"
    and "(et_agent t = None \<and> a = new_agent fv now (et_project t) name version os)
       \<or> (\<exists>aid b. et_agent t = Some aid \<and> dict_get (fl_agents s) aid = Some b \<and> a = returning_agent now name version os b)"
  shows "fleet_ok (put_agent a s)"
  using assms(4)
proof
  assume "et_agent t = None \<and> a = new_agent fv now (et_project t) name version os"
  then show ?thesis using assms(1-3) by (intro put_agent_ok) simp_all
next
  assume "\<exists>aid b. et_agent t = Some aid \<and> dict_get (fl_agents s) aid = Some b \<and> a = returning_agent now name version os b"
  then obtain aid b where b: "dict_get (fl_agents s) aid = Some b" "a = returning_agent now name version os b" by blast
  then have "ga_id b = aid" using agent_get_by_uuid(2) [OF assms(1)] by blast
  then show ?thesis using b assms(1) by (intro put_agent_same_ok [of s a b]) simp_all
qed

lemma enroll_ok:
  assumes "fleet_ok s" "dict_get (fl_agents s) (fv_agent fv) = None" "agent_by_uuid (fv_uuid fv) s = None"
  shows "fleet_ok (snd (enroll_agent digest sign fv now raw name version os csr s))"
proof -
  obtain r s' where run: "enroll_agent digest sign fv now raw name version os csr s = (r, s')"
    by (rule prod.exhaust)
  from run have "fleet_ok s'"
  proof (cases rule: enroll_cases)
    case refused
    then show ?thesis using assms by simp
  next
    case (enrolled t a sg)
    have tables: "dict_ok (fl_tokens s)" "dict_ok (fl_creds s)" "\<forall>(k, t) \<in> set (fl_tokens s). et_id t = k"
      "\<forall>(k, c) \<in> set (fl_creds s). cr_id c = k" "dict_ok (fl_rows s)"
      using assms(1) by (auto simp: fleet_ok_def)
    show ?thesis
      by (rule fleet_ok_parts [OF enroll_agent_row [OF assms enrolled(3)]])
         (use tables enrolled in \<open>auto simp: set_dict_set put_agent_def split: if_splits\<close>)
  qed
  then show ?thesis by (simp add: run)
qed

lemma authenticate_cases:
  "authenticate_agent digest now v secret peer s =
     (case agent_by_uuid v s of
        None \<Rightarrow> (Inl ''unauthorized'', s)
      | Some a \<Rightarrow>
          if ga_status a \<noteq> ''revoked''
             \<and> (case live_cred (ga_id a) (digest secret) s of None \<Rightarrow> False
                | Some c \<Rightarrow> non_empty (cr_fingerprint c) = None \<or> cr_fingerprint c = peer)
          then (Inr (ga_id a), publish_status (a\<lparr>ga_status := ''online'', ga_seen := Some now\<rparr>)
                  (put_agent (a\<lparr>ga_status := ''online'', ga_seen := Some now\<rparr>) s))
          else (Inl ''unauthorized'', s))"
  by (simp add: authenticate_agent_def Let_def split: option.split)

lemma stats_tables [simp]:
  "fl_agents (record_session_stats now v e s) = fl_agents s"
  "fl_tokens (record_session_stats now v e s) = fl_tokens s"
  "fl_creds (record_session_stats now v e s) = fl_creds s"
  by (simp_all add: record_session_stats_def split: option.split)

lemma stats_ok: "fleet_ok s \<Longrightarrow> fleet_ok (record_session_stats now v e s)"
  by (simp add: record_session_stats_def fleet_ok_def split: option.split)

lemma authenticate_ok: "fleet_ok s \<Longrightarrow> fleet_ok (snd (authenticate_agent digest now v secret peer s))"
  by (auto simp: authenticate_cases intro: put_found_ok split: option.split)

lemma heartbeat_ok: "fleet_ok s \<Longrightarrow> fleet_ok (record_heartbeat fr to_float now v params s)"
  by (auto simp: record_heartbeat_def Let_def intro: put_found_ok split: option.split)

lemma offline_ok: "fleet_ok s \<Longrightarrow> fleet_ok (mark_offline v s)"
  by (auto simp: mark_offline_def Let_def intro: put_found_ok split: option.split)

lemma revoke_ok:
  assumes "fleet_ok s"
  shows "fleet_ok (snd (revoke_agent now editor w aid s))"
proof (cases "dict_get (fl_agents s) aid")
  case (Some a)
  let ?s = "put_agent (a\<lparr>ga_status := ''revoked'', ga_revoked := Some now\<rparr>) s"
  have "fleet_ok ?s"
    using assms Some agent_get_by_uuid(2) [OF assms Some] by (intro put_agent_same_ok) simp_all
  from fleet_ok_creds [OF this] show ?thesis
    using assms Some by (simp add: revoke_agent_def)
qed (use assms in \<open>simp add: revoke_agent_def\<close>)

lemma delete_ok: "fleet_ok s \<Longrightarrow> fleet_ok (snd (delete_agent editor w aid s))"
  by (auto simp: delete_agent_def fleet_ok_def set_dict_pop split: option.split)

lemma mint_ok: "fleet_ok s \<Longrightarrow> fleet_ok (snd (mint_standing_token digest tid raw now pid by_user s))"
  by (simp add: mint_standing_token_def put_etoken_ok fleet_ok_tokens)

lemma rotate_ok: "fleet_ok s \<Longrightarrow> fleet_ok (snd (rotate_agent_credential digest tid raw now editor w uid aid s))"
  by (auto simp: rotate_agent_credential_def intro!: put_etoken_ok fleet_ok_creds split: option.split)

lemma fleet_step_ok: "fleet_step U H s s' \<Longrightarrow> fleet_ok s \<Longrightarrow> fleet_ok s'"
proof (induction rule: fleet_step.induct)
  case (sessions rows' s)
  then show ?case by (simp add: fleet_ok_def)
qed (auto intro: enroll_ok authenticate_ok heartbeat_ok offline_ok stats_ok mint_ok revoke_ok delete_ok rotate_ok)

section \<open>Revocation\<close>

lemma revoked_same: "is_agent_revoked u s \<Longrightarrow> fl_agents s' = fl_agents s \<Longrightarrow> is_agent_revoked u s'"
  by (simp add: is_agent_revoked_def agent_by_uuid_def)

lemma revoked_put:
  assumes "fleet_ok s" "fleet_ok (put_agent a s)" "is_agent_revoked u s" "ga_uuid a = u \<Longrightarrow> ga_status a = ''revoked''"
  shows "is_agent_revoked u (put_agent a s)"
  using assms by (auto simp: is_agent_revoked_def agent_by_uuid_put split: option.splits if_splits)

lemma revoked_found:
  assumes "fleet_ok s" "is_agent_revoked u s" "agent_by_uuid v s = Some b" "ga_status b \<noteq> ''revoked''"
    and "ga_uuid a = ga_uuid b" "ga_id a = ga_id b"
  shows "is_agent_revoked u (put_agent a s)"
proof (rule revoked_put [OF assms(1) put_found_ok [OF assms(1,3,5,6)] assms(2)])
  assume "ga_uuid a = u"
  then have "u = v" using agent_by_uuid_get(2) [OF assms(1,3)] assms(5) by simp
  then show "ga_status a = ''revoked''" using assms(2-4) by (simp add: is_agent_revoked_def)
qed

lemma revoked_enroll:
  assumes "fleet_ok s" "is_agent_revoked u s" "u \<in> U"
    and "dict_get (fl_agents s) (fv_agent fv) = None" "agent_by_uuid (fv_uuid fv) s = None" "fv_uuid fv \<notin> U"
    and "case rotation_target (digest raw) s of None \<Rightarrow> True | Some x \<Rightarrow> ga_uuid x \<notin> U"
  shows "is_agent_revoked u (snd (enroll_agent digest sign fv now raw name version os csr s))"
proof -
  obtain r s' where run: "enroll_agent digest sign fv now raw name version os csr s = (r, s')"
    by (rule prod.exhaust)
  from run have "is_agent_revoked u s'"
  proof (cases rule: enroll_cases)
    case refused
    then show ?thesis using assms(2) by simp
  next
    case (enrolled t a sg)
    have "is_agent_revoked u (put_agent a s)"
    proof (rule revoked_put [OF assms(1) enroll_agent_row [OF assms(1,4,5) enrolled(3)] assms(2)])
      assume "ga_uuid a = u"
      then show "ga_status a = ''revoked''"
        using enrolled(1,3) assms(3,6,7) by (auto simp: rotation_target_def)
    qed
    then show ?thesis by (rule revoked_same) (simp add: enrolled(5))
  qed
  then show ?thesis by (simp add: run)
qed

lemma fleet_step_revoked:
  "fleet_step U H s s' \<Longrightarrow> fleet_ok s \<Longrightarrow> is_agent_revoked u s \<Longrightarrow> u \<in> U \<Longrightarrow> is_agent_revoked u s'"
proof (induction rule: fleet_step.induct)
  case (enroll s fv digest raw sign now name version os csr)
  then show ?case by (intro revoked_enroll) auto
next
  case (authenticate s digest now v secret peer)
  show ?case
  proof (cases "agent_by_uuid v s")
    case (Some b)
    have "is_agent_revoked u (put_agent (b\<lparr>ga_status := ''online'', ga_seen := Some now\<rparr>) s)" if "ga_status b \<noteq> ''revoked''"
      using authenticate Some that by (intro revoked_found) auto
    then show ?thesis
      using authenticate Some by (auto simp: authenticate_cases intro: revoked_same)
  qed (use authenticate in \<open>simp add: authenticate_cases\<close>)
next
  case (heartbeat s fr to_float now v params)
  show ?case
  proof (cases "agent_by_uuid v s")
    case (Some b)
    have "is_agent_revoked u (put_agent (b\<lparr>ga_seen := Some now, ga_status := ''online'', ga_health := health_of fr to_float params\<rparr>) s)"
      if "ga_status b \<noteq> ''revoked''"
      using heartbeat Some that by (intro revoked_found) auto
    then show ?thesis
      using heartbeat Some by (auto simp: record_heartbeat_def Let_def intro: revoked_same)
  qed (use heartbeat in \<open>simp add: record_heartbeat_def\<close>)
next
  case (offline s v)
  show ?case
  proof (cases "agent_by_uuid v s")
    case (Some b)
    have "is_agent_revoked u (put_agent (b\<lparr>ga_status := ''offline''\<rparr>) s)" if "ga_status b \<noteq> ''revoked''"
      using offline Some that by (intro revoked_found) auto
    then show ?thesis
      using offline Some by (auto simp: mark_offline_def Let_def intro: revoked_same)
  qed (use offline in \<open>simp add: mark_offline_def\<close>)
next
  case (stats s now v e)
  then show ?case by (auto intro: revoked_same)
next
  case (mint digest raw s tid now pid by_user)
  then show ?case by (auto simp: mint_standing_token_def intro: revoked_same)
next
  case (revoke s now editor w aid)
  show ?case
  proof (cases "dict_get (fl_agents s) aid")
    case (Some b)
    let ?a = "b\<lparr>ga_status := ''revoked'', ga_revoked := Some now\<rparr>"
    have "fleet_ok (put_agent ?a s)"
      using revoke Some agent_get_by_uuid(2) [OF _ Some] by (intro put_agent_same_ok) auto
    then have "is_agent_revoked u (put_agent ?a s)"
      using revoke by (intro revoked_put) auto
    then show ?thesis using revoke Some by (auto simp: revoke_agent_def intro: revoked_same)
  qed (use revoke in \<open>simp add: revoke_agent_def\<close>)
next
  case (delete s editor w aid)
  have keep: "fleet_ok s'" "\<forall>p \<in> set (fl_agents s'). p \<in> set (fl_agents s)" if "s' = snd (delete_agent editor w aid s)" for s'
    using delete_ok [OF delete(1)] that by (auto simp: delete_agent_def set_dict_pop split: option.splits)
  show ?case
  proof (cases "agent_by_uuid u (snd (delete_agent editor w aid s))")
    case (Some b)
    note g = agent_by_uuid_get [OF keep(1) [OF refl] Some]
    then have "dict_get (fl_agents s) (ga_id b) = Some b"
      using keep [OF refl] delete(1) by (auto simp: fleet_ok_def dict_get_mem)
    then have "agent_by_uuid u s = Some b" using agent_get_by_uuid(1) [OF delete(1)] g(2) by blast
    then show ?thesis using Some delete(2) by (simp add: is_agent_revoked_def)
  qed (simp add: is_agent_revoked_def)
next
  case (rotate digest raw s tid now editor w uid aid)
  then show ?case by (auto simp: rotate_agent_credential_def intro: revoked_same split: option.split)
next
  case (sessions rows' s)
  then show ?case by (auto intro: revoked_same)
qed

lemma fleet_steps_revoked:
  assumes "(fleet_step U H)\<^sup>*\<^sup>* s s'" "fleet_ok s" "is_agent_revoked u s" "u \<in> U"
  shows "fleet_ok s' \<and> is_agent_revoked u s'"
  using assms by (induction) (auto dest: fleet_step_ok fleet_step_revoked)

text \<open>
  C3. A revoked agent stays out. After a revocation no credential authenticates the agent,
  with or without a certificate, and the gateway's check drops its connections, whatever
  operations follow, unless a rotation token for that agent is redeemed.
\<close>

theorem revoked_agent_stays_out:
  assumes "fleet_ok s" and "dict_get (fl_agents s) aid = Some a"
    and "(fleet_step {ga_uuid a} H)\<^sup>*\<^sup>* (snd (revoke_agent now True w aid s)) s'"
  shows "fst (authenticate_agent digest now' (ga_uuid a) secret peer s') = Inl ''unauthorized''
    \<and> is_agent_revoked (ga_uuid a) s'"
proof -
  let ?a = "a\<lparr>ga_status := ''revoked'', ga_revoked := Some now\<rparr>"
  have ok: "fleet_ok (put_agent ?a s)"
    using assms agent_get_by_uuid(2) [OF assms(1,2)] by (intro put_agent_same_ok) auto
  have "is_agent_revoked (ga_uuid a) (put_agent ?a s)"
    using agent_by_uuid_put [OF assms(1) ok] by (simp add: is_agent_revoked_def)
  then have "is_agent_revoked (ga_uuid a) (snd (revoke_agent now True w aid s))"
    using assms(2) by (auto simp: revoke_agent_def intro: revoked_same)
  with fleet_steps_revoked [OF assms(3) revoke_ok [OF assms(1)]]
  have "is_agent_revoked (ga_uuid a) s'" by blast
  then show ?thesis
    by (auto simp: is_agent_revoked_def authenticate_cases split: option.splits)
qed

definition demo_agent :: agent_row where
  "demo_agent = \<lparr>ga_id = 1, ga_uuid = ''u1'', ga_project = 3, ga_name = ''a'', ga_status = ''online'', ga_version = None,
     ga_os = None, ga_seen = None, ga_revoked = None, ga_health = no_health\<rparr>"

definition demo_cred :: credential where
  "demo_cred = \<lparr>cr_id = 1, cr_agent = 1, cr_hash = ''#s'', cr_fingerprint = None, cr_revoked = None\<rparr>"

definition demo_etoken :: enroll_token where
  "demo_etoken = \<lparr>et_id = 1, et_project = 3, et_agent = None, et_hash = ''#t'', et_expires = Some 100, et_used = None,
     et_standing = False, et_revoked = None, et_by = None\<rparr>"

definition demo_fleet :: fleet where
  "demo_fleet = \<lparr>fl_agents = [(1, demo_agent)], fl_tokens = [(1, demo_etoken)], fl_creds = [(1, demo_cred)],
     fl_rows = [(1, demo_row)], fl_projects = [(3, demo_project)], fl_audit = [], published = []\<rparr>"

definition demo_digest :: "string \<Rightarrow> string" where "demo_digest x = CHR ''#'' # x"

definition demo_fresh :: fresh where
  "demo_fresh = \<lparr>fv_uuid = ''u2'', fv_agent = 2, fv_cred = 2, fv_secret = ''s2'', fv_suffix = ''00''\<rparr>"

named_theorems fleet_demo \<open>the concrete fleet of the witnesses\<close>
declare demo_agent_def [fleet_demo] demo_cred_def [fleet_demo] demo_etoken_def [fleet_demo]
  demo_digest_def [fleet_demo] demo_fresh_def [fleet_demo]

lemma demo_fleet_ok: "fleet_ok demo_fleet"
  by (simp add: fleet_ok_def demo_fleet_def fleet_demo dict_ok_def)

theorem revoked_agent_stays_out_witness:
  "fst (authenticate_agent demo_digest 9 ''u1'' ''s'' None (snd (revoke_agent 5 True no_web 1 demo_fleet))) = Inl ''unauthorized''"
  using revoked_agent_stays_out [OF demo_fleet_ok, of 1 demo_agent "{}" 5 no_web
      "snd (revoke_agent 5 True no_web 1 demo_fleet)" demo_digest 9 "''s''" None]
  by (simp add: demo_fleet_def demo_agent_def)

section \<open>One-time tokens\<close>

definition tokens_unique :: "fleet \<Rightarrow> bool" where
  "tokens_unique s \<longleftrightarrow> (\<forall>(k, t) \<in> set (fl_tokens s). \<forall>(j, t') \<in> set (fl_tokens s). et_hash t = et_hash t' \<longrightarrow> k = j)"

definition spent_hash :: "string \<Rightarrow> fleet \<Rightarrow> bool" where
  "spent_hash h s \<longleftrightarrow> (\<forall>(k, t) \<in> set (fl_tokens s). et_hash t = h \<longrightarrow> \<not> et_standing t \<and> et_used t \<noteq> None)"

lemma spent_hash_same: "spent_hash h s \<Longrightarrow> set (fl_tokens s') \<subseteq> set (fl_tokens s) \<Longrightarrow> spent_hash h s'"
  by (auto simp: spent_hash_def)

lemma spent_hash_put:
  "dict_ok (fl_tokens s) \<Longrightarrow> spent_hash h s \<Longrightarrow> et_hash t = h \<longrightarrow> \<not> et_standing t \<and> et_used t \<noteq> None \<Longrightarrow>
   fl_tokens s' = dict_set (et_id t) t (fl_tokens s) \<Longrightarrow> spent_hash h s'"
  by (auto simp: spent_hash_def set_dict_set)

lemma revoke_standing_fields [simp]:
  "et_hash (revoke_standing now pid t) = et_hash t" "et_standing (revoke_standing now pid t) = et_standing t"
  "et_used (revoke_standing now pid t) = et_used t" "et_id (revoke_standing now pid t) = et_id t"
  by (simp_all add: revoke_standing_def)

lemma spent_enroll:
  assumes "fleet_ok s" "spent_hash h s"
  shows "spent_hash h (snd (enroll_agent digest sign fv now raw name version os csr s))"
proof -
  obtain r s' where run: "enroll_agent digest sign fv now raw name version os csr s = (r, s')"
    by (rule prod.exhaust)
  from run have "spent_hash h s'"
  proof (cases rule: enroll_cases)
    case refused
    then show ?thesis using assms(2) by simp
  next
    case (enrolled t a sg)
    obtain k where "(k, t) \<in> set (fl_tokens s)" using first_row_mem [OF enrolled(1)] by blast
    then have old: "et_hash t = h \<longrightarrow> \<not> et_standing t \<and> et_used t \<noteq> None" using assms(2) by (auto simp: spent_hash_def)
    have ok: "dict_ok (fl_tokens s)" using assms(1) by (simp add: fleet_ok_def)
    show ?thesis
    proof (cases "et_standing t")
      case True
      then show ?thesis using enrolled(6) assms(2) by (auto intro: spent_hash_same)
    next
      case False
      then show ?thesis
        using enrolled(6) old by (intro spent_hash_put [OF ok assms(2), of "t\<lparr>et_used := Some now\<rparr>"]) auto
    qed
  qed
  then show ?thesis by (simp add: run)
qed

lemma fleet_step_spent:
  "fleet_step U H s s' \<Longrightarrow> fleet_ok s \<Longrightarrow> spent_hash h s \<Longrightarrow> h \<in> H \<Longrightarrow> spent_hash h s'"
proof (induction rule: fleet_step.induct)
  case (enroll s fv digest raw sign now name version os csr)
  then show ?case by (intro spent_enroll)
next
  case (authenticate s digest now v secret peer)
  then show ?case by (auto simp: authenticate_cases intro: spent_hash_same split: option.split)
next
  case (heartbeat s fr to_float now v params)
  then show ?case by (auto simp: record_heartbeat_def Let_def intro: spent_hash_same split: option.split)
next
  case (offline s v)
  then show ?case by (auto simp: mark_offline_def Let_def intro: spent_hash_same split: option.split)
next
  case (stats s now v e)
  then show ?case by (auto intro: spent_hash_same)
next
  case (mint digest raw s tid now pid by_user)
  let ?s = "s\<lparr>fl_tokens := map_rows (revoke_standing now pid) (fl_tokens s)\<rparr>"
  let ?t = "\<lparr>et_id = tid, et_project = pid, et_agent = None, et_hash = digest raw, et_expires = None,
         et_used = None, et_standing = True, et_revoked = None, et_by = Some by_user\<rparr>"
  have spent: "spent_hash h ?s"
    using mint(3) unfolding spent_hash_def by (fastforce simp: set_map_rows)
  have ok: "dict_ok (fl_tokens ?s)" using mint(2) by (simp add: fleet_ok_def)
  have "spent_hash h s'" if "fl_tokens s' = dict_set tid ?t (fl_tokens ?s)" for s'
    using mint(1,4) that by (intro spent_hash_put [OF ok spent, of ?t]) auto
  then show ?case by (simp add: mint_standing_token_def)
next
  case (revoke s now editor w aid)
  then show ?case by (auto simp: revoke_agent_def intro: spent_hash_same split: option.split)
next
  case (delete s editor w aid)
  then show ?case by (auto simp: delete_agent_def intro: spent_hash_same split: option.split)
next
  case (rotate digest raw s tid now editor w uid aid)
  have ok: "dict_ok (fl_tokens s)" using rotate(2) by (simp add: fleet_ok_def)
  show ?case
  proof (cases "dict_get (fl_agents s) aid")
    case (Some a)
    let ?t = "\<lparr>et_id = tid, et_project = ga_project a, et_agent = Some (ga_id a), et_hash = digest raw,
                    et_expires = Some (now + minutes 60), et_used = None, et_standing = False, et_revoked = None,
                    et_by = Some uid\<rparr>"
    have "spent_hash h s' " if "fl_tokens s' = dict_set tid ?t (fl_tokens s)" for s'
      using rotate that by (intro spent_hash_put [OF ok rotate(3), of ?t]) auto
    then show ?thesis using rotate(3) Some by (simp add: rotate_agent_credential_def)
  qed (use rotate in \<open>simp add: rotate_agent_credential_def\<close>)
next
  case (sessions rows' s)
  then show ?case by (auto intro: spent_hash_same)
qed

text \<open>
  C27. A one-time token enrols once. After a rotation token has been redeemed, no later
  enrolment with it succeeds or changes a table, whatever operations run in between.
\<close>

theorem one_time_token_once:
  assumes "fleet_ok s" and "tokens_unique s"
    and "first_row (\<lambda>t. et_hash t = digest raw) (fl_tokens s) = Some t" and "\<not> et_standing t"
    and "enroll_agent digest sign fv now raw name version os csr s = (Inr r, s1)"
    and "(fleet_step U {digest raw})\<^sup>*\<^sup>* s1 s'" and "fleet_ok s1"
  shows "\<exists>e. enroll_agent digest sign fv' now' raw name' version' os' csr' s' = (Inl e, s')"
proof -
  have ok: "dict_ok (fl_tokens s)" using assms(1) by (simp add: fleet_ok_def)
  have "spent_hash (digest raw) s1"
    using assms(5)
  proof (cases rule: enroll_cases)
    case (enrolled t2 a sg)
    then have "t2 = t" using assms(3) by simp
    obtain k where k: "(k, t) \<in> set (fl_tokens s)" "et_hash t = digest raw" using first_row_mem [OF assms(3)] by blast
    then have "et_id t = k" using assms(1) by (auto simp: fleet_ok_def)
    then have "fl_tokens s1 = dict_set k (t\<lparr>et_used := Some now\<rparr>) (fl_tokens s)"
      using enrolled(6) assms(4) \<open>t2 = t\<close> by simp
    then show ?thesis
      using assms(2,4) k by (fastforce simp: spent_hash_def set_dict_set [OF ok] tokens_unique_def)
  qed simp
  with assms(6,7) have "fleet_ok s' \<and> spent_hash (digest raw) s'"
    by (induction) (auto dest: fleet_step_ok fleet_step_spent)
  then have spent: "spent_hash (digest raw) s'" by blast
  show ?thesis
  proof (cases "first_row (\<lambda>t. et_hash t = digest raw) (fl_tokens s')")
    case None
    then show ?thesis by (simp add: enroll_agent_def)
  next
    case (Some x)
    then have "\<not> et_standing x \<and> et_used x \<noteq> None"
      using first_row_mem [OF Some] spent by (auto simp: spent_hash_def)
    then show ?thesis using Some by (auto simp: enroll_agent_def token_refused_def)
  qed
qed

theorem one_time_token_once_witness:
  "\<exists>e. enroll_agent demo_digest (\<lambda>_ _. None) demo_fresh 20 ''t'' None None None None
      (snd (enroll_agent demo_digest (\<lambda>_ _. None) demo_fresh 10 ''t'' None None None None demo_fleet))
    = (Inl e, snd (enroll_agent demo_digest (\<lambda>_ _. None) demo_fresh 10 ''t'' None None None None demo_fleet))"
proof -
  let ?r = "enroll_agent demo_digest (\<lambda>_ _. None) demo_fresh 10 ''t'' None None None None demo_fleet"
  have tok: "first_row (\<lambda>t. et_hash t = demo_digest ''t'') (fl_tokens demo_fleet) = Some demo_etoken" "\<not> et_standing demo_etoken"
    by (simp_all add: first_row_def demo_fleet_def fleet_demo)
  have uniq: "tokens_unique demo_fleet" by (simp add: tokens_unique_def demo_fleet_def)
  have run: "?r = (Inr \<lparr>en_uuid = ''u2'', en_credential = ''s2'', en_cert = None\<rparr>, snd ?r)"
    using tok(1) by (simp add: enroll_agent_def Let_def token_refused_def new_agent_def non_empty_def fleet_demo)
  have ok: "fleet_ok (snd ?r)"
    by (rule enroll_ok [OF demo_fleet_ok]) (simp_all add: demo_fleet_def fleet_demo agent_by_uuid_def first_row_def)
  show ?thesis
    by (rule one_time_token_once [OF demo_fleet_ok uniq tok run rtranclp.rtrancl_refl ok])
qed

section \<open>Credentials\<close>

lemma live_cred_fresh:
  assumes "dict_ok (fl_creds s)" "dict_get (fl_creds s) k = None" "list_all (\<lambda>(_, c). cr_hash c \<noteq> h) (fl_creds s)"
    and "fl_creds s' = dict_set k c (fl_creds s)" "cr_hash c = h" "cr_revoked c = None"
  shows "live_cred (cr_agent c) h s' = Some c"
proof -
  have "find (\<lambda>x. cr_agent x = cr_agent c \<and> cr_hash x = h \<and> cr_revoked x = None) (map snd (fl_creds s)) = None"
    using assms(3) by (auto simp: find_None_iff list_all_iff)
  then show ?thesis
    using assms by (simp add: live_cred_def first_row_def dict_set_fresh find_append)
qed

text \<open>
  Enrolment and authentication fit. The credential an enrolment returns authenticates
  its agent; when a certificate was issued with it, only together with that certificate: the
  secret alone, or with any other certificate, is refused.
\<close>

theorem enroll_then_authenticate:
  assumes "fleet_ok s" and "dict_get (fl_agents s) (fv_agent fv) = None" and "agent_by_uuid (fv_uuid fv) s = None"
    and "dict_get (fl_creds s) (fv_cred fv) = None"
    and "list_all (\<lambda>(_, c). cr_hash c \<noteq> digest (fv_secret fv)) (fl_creds s)"
    and "\<forall>c n. case sign c n of None \<Rightarrow> True | Some (_, fp) \<Rightarrow> fp \<noteq> []"
    and "enroll_agent digest sign fv now raw name version os csr s = (Inr r, s')"
  shows "\<exists>peer. (\<exists>i. fst (authenticate_agent digest now' (en_uuid r) (en_credential r) peer s') = Inr i)
    \<and> (en_cert r \<noteq> None \<longrightarrow> (\<forall>p. p \<noteq> peer \<longrightarrow>
        fst (authenticate_agent digest now' (en_uuid r) (en_credential r) p s') = Inl ''unauthorized''))"
  using assms(7)
proof (cases rule: enroll_cases)
  case (enrolled t a sg)
  let ?c = "\<lparr>cr_id = fv_cred fv, cr_agent = ga_id a, cr_hash = digest (fv_secret fv),
         cr_fingerprint = map_option snd sg, cr_revoked = None\<rparr>"
  have ok: "fleet_ok (put_agent a s)" by (rule enroll_agent_row [OF assms(1-3) enrolled(3)])
  have "agent_by_uuid (ga_uuid a) s' = agent_by_uuid (ga_uuid a) (put_agent a s)"
    by (simp add: agent_by_uuid_def enrolled(5))
  then have found: "agent_by_uuid (ga_uuid a) s' = Some a"
    by (simp add: agent_by_uuid_put [OF assms(1) ok])
  have "dict_ok (fl_creds s)" using assms(1) by (simp add: fleet_ok_def)
  then have cred: "live_cred (ga_id a) (digest (fv_secret fv)) s' = Some ?c"
    using live_cred_fresh [OF _ assms(4,5) enrolled(7)] by simp
  have status: "ga_status a \<noteq> ''revoked''"
    using enrolled(3) by auto
  have r: "en_uuid r = ga_uuid a" "en_credential r = fv_secret fv" "en_cert r = map_option fst sg"
    using enrolled(4) by auto
  have auth: "fst (authenticate_agent digest now' (en_uuid r) (en_credential r) p s')
      = (if non_empty (map_option snd sg) = None \<or> map_option snd sg = p then Inr (ga_id a) else Inl ''unauthorized'')" for p
    by (simp add: r authenticate_cases found cred status)
  have issued: "non_empty (map_option snd sg) \<noteq> None" if sg: "sg \<noteq> None"
  proof -
    obtain c where c: "sg = sign c (ga_uuid a)" using enrolled(9) sg by blast
    obtain x fp where fp: "sg = Some (x, fp)" using sg by (cases sg) auto
    have "fp \<noteq> []" using spec [OF spec [OF assms(6)], of c "ga_uuid a"] trans [OF c [symmetric] fp] by simp
    then show ?thesis by (simp add: fp non_empty_def)
  qed
  show ?thesis
    by (intro exI [of _ "map_option snd sg"]) (use issued in \<open>auto simp: auth r(3)\<close>)
qed simp

theorem enroll_then_authenticate_witness:
  "\<exists>peer i. fst (authenticate_agent demo_digest 11 ''u2'' ''s2'' peer
      (snd (enroll_agent demo_digest (\<lambda>c n. Some (''cert'', ''fp'')) demo_fresh 10 ''t'' None None None (Some ''csr'') demo_fleet))) = Inr i"
proof -
  let ?sign = "\<lambda>c n :: string. Some (''cert'', ''fp'')"
  let ?e = "enroll_agent demo_digest ?sign demo_fresh 10 ''t'' None None None (Some ''csr'') demo_fleet"
  have run: "?e = (Inr \<lparr>en_uuid = ''u2'', en_credential = ''s2'', en_cert = Some ''cert''\<rparr>, snd ?e)"
    by (simp add: enroll_agent_def Let_def token_refused_def new_agent_def non_empty_def first_row_def demo_fleet_def fleet_demo)
  show ?thesis
    using enroll_then_authenticate [OF demo_fleet_ok _ _ _ _ _ run, where now' = 11]
    by (simp add: demo_fleet_def fleet_demo agent_by_uuid_def first_row_def) blast
qed

text \<open>
  Revocation does not cover an outstanding rotation token. A rotation token minted before
  its agent was revoked still enrols: the agent is no longer revoked and its new credential
  authenticates.
\<close>

theorem revoked_agent_returns:
  "let s1 = snd (rotate_agent_credential demo_digest 7 ''rot'' 10 True no_web 1 1 demo_fleet);
       s2 = snd (revoke_agent 20 True no_web 1 s1);
       s3 = snd (enroll_agent demo_digest (\<lambda>_ _. None) demo_fresh 30 ''rot'' None None None None s2)
   in is_agent_revoked ''u1'' s2 \<and> \<not> is_agent_revoked ''u1'' s3
      \<and> fst (authenticate_agent demo_digest 40 ''u1'' ''s2'' None s3) = Inr 1"
  by (simp add: Let_def rotate_agent_credential_def revoke_agent_def enroll_agent_def authenticate_agent_def
      demo_fleet_def fleet_demo is_agent_revoked_def agent_by_uuid_def live_cred_def first_row_def token_refused_def
      returning_agent_def non_empty_def minutes_def map_rows_def revoke_creds_def)

section \<open>Isolation between agents\<close>

text \<open>
  An agent reports on its own sessions only. Whatever it sends, a statistics event
  changes at most one session row, one that is pending or running and belongs to that agent.
\<close>

theorem stats_touch_own_session:
  assumes "list_all (\<lambda>(k, c). cs_id c = k) (fl_rows s)" and "dict_ok (fl_rows s)"
    and "dict_get (fl_rows (record_session_stats now v e s)) k \<noteq> dict_get (fl_rows s) k"
  shows "\<exists>c a. dict_get (fl_rows s) k = Some c \<and> agent_by_uuid v s = Some a \<and> cs_agent c = Some (ga_id a)
    \<and> cs_uuid c = se_session e \<and> cs_status c \<in> {Pending, Running}"
proof -
  obtain c where c: "session_by_uuid (se_session e) s = Some c" "cs_status c \<in> {Pending, Running}"
    "session_owned_by_agent c v s" "k = cs_id c"
    using assms(3) by (auto simp: record_session_stats_def dict_get_set split: option.splits if_splits)
  obtain j where "(j, c) \<in> set (fl_rows s)" "cs_uuid c = se_session e"
    using first_row_mem [of "\<lambda>x. cs_uuid x = se_session e"] c(1) by (auto simp: session_by_uuid_def)
  moreover from this have "cs_id c = j" using assms(1) by (auto simp: list_all_iff)
  ultimately show ?thesis
    using c assms(2) by (auto simp: session_owned_by_agent_def dict_get_mem split: option.splits)
qed

definition demo_remote :: fleet where
  "demo_remote = demo_fleet\<lparr>fl_rows := [(1, demo_row\<lparr>cs_agent := Some 1\<rparr>)]\<rparr>"

definition demo_event :: stats_event where
  "demo_event = \<lparr>se_session = ''u1'', se_bytes = 10, se_rotations = 1, se_running = False, se_packets = None, se_drops = None\<rparr>"

theorem stats_touch_own_session_witness:
  "\<exists>c a. dict_get (fl_rows demo_remote) 1 = Some c \<and> agent_by_uuid ''u1'' demo_remote = Some a \<and> cs_agent c = Some (ga_id a)"
proof -
  have "dict_get (fl_rows (record_session_stats 5 ''u1'' demo_event demo_remote)) 1 \<noteq> dict_get (fl_rows demo_remote) 1"
    by (auto simp: record_session_stats_def session_by_uuid_def session_owned_by_agent_def agent_by_uuid_def first_row_def
        demo_remote_def demo_fleet_def demo_event_def demo_agent_def apply_stats_def dest!: arg_cong [of _ _ cs_status])
  from stats_touch_own_session [OF _ _ this] show ?thesis
    by (auto simp: demo_remote_def dict_ok_def)
qed

lemma path_join_plain:
  assumes "CHR ''/'' \<notin> set n" "n \<noteq> []"
  shows "\<exists>sep. path_join d n = d @ sep @ n \<and> set sep \<subseteq> {CHR ''/''}"
proof -
  have "\<not> py_startswith n ''/''" using assms by (cases n) (auto simp: py_startswith_def)
  then show ?thesis
    by (auto simp: path_join_def intro: exI [of _ "[]"] exI [of _ "''/''"])
qed

text \<open>
  An upload lands in its project's directory. The file an agent's upload is written to
  exists only for a known session of that agent, and its path is the directory of the
  session's project followed by a plain file name with a capture suffix: no slash, not a dot
  name, whatever name the agent sent.
\<close>

theorem upload_contained:
  assumes "begin_pcap_upload dir inside suuid filename v s = Some (partial, final)"
  shows "\<exists>c p n sep. session_by_uuid suuid s = Some c \<and> session_owned_by_agent c v s
    \<and> dict_get (fl_projects s) (cs_project c) = Some p
    \<and> final = path_join (path_join dir (show_int (p_user p))) (show_int (p_id p)) @ sep @ n \<and> set sep \<subseteq> {CHR ''/''}
    \<and> CHR ''/'' \<notin> set n \<and> n \<noteq> ''..'' \<and> (py_endswith (py_lower n) ''.pcap'' \<or> py_endswith (py_lower n) ''.pcapng'')
    \<and> partial = final @ ''.partial''"
proof -
  obtain n where n: "upload_name filename = Some n"
    using assms by (auto simp: begin_pcap_upload_def split: option.splits)
  then have name: "CHR ''/'' \<notin> set n" "n \<noteq> []" "n \<noteq> ''..''" "py_endswith (py_lower n) ''.pcap'' \<or> py_endswith (py_lower n) ''.pcapng''"
    using py_basename_no_slash [of filename] by (auto simp: upload_name_def Let_def split: if_splits)
  obtain c p where cp: "session_by_uuid suuid s = Some c" "session_owned_by_agent c v s"
    "dict_get (fl_projects s) (cs_project c) = Some p"
    "final = path_join (path_join (path_join dir (show_int (p_user p))) (show_int (p_id p))) n" "partial = final @ ''.partial''"
    using assms n by (auto simp: begin_pcap_upload_def Let_def split: option.splits if_splits)
  obtain sep where "final = path_join (path_join dir (show_int (p_user p))) (show_int (p_id p)) @ sep @ n" "set sep \<subseteq> {CHR ''/''}"
    using path_join_plain [OF name(1,2)] cp(4) by blast
  with name cp show ?thesis by blast
qed

lemma show_digits: "show_int 1 = ''1''" "show_int 3 = ''3''"
  by code_simp+

lemma demo_row_project: "cs_project demo_row = 3"
  by (simp add: demo_row_def new_row_def demo_project_def)

lemma demo_begin: "begin_pcap_upload ''/up'' (\<lambda>_ _. True) ''u1'' ''../../etc/x.pcap'' ''u1'' demo_remote
    = Some (''/up/1/3/x.pcap.partial'', ''/up/1/3/x.pcap'')"
  by (simp add: begin_pcap_upload_def upload_name_def py_basename_def Let_def py_endswith_def py_lower_def py_lower_char_def ord_of_def
      session_by_uuid_def session_owned_by_agent_def agent_by_uuid_def first_row_def demo_remote_def demo_fleet_def demo_agent_def
      demo_project_def demo_row_project path_join_def py_startswith_def show_digits)

theorem upload_contained_witness:
  "\<exists>n. ''/up/1/3/x.pcap'' = path_join (path_join ''/up'' (show_int 1)) (show_int 3) @ ''/'' @ n \<and> CHR ''/'' \<notin> set n"
  using upload_contained [OF demo_begin] by (auto simp: path_join_def py_startswith_def py_endswith_def show_digits)

text \<open>
  The sensor upload does not authenticate. Any request with a body that is not gzip
  stores a file and answers 200, whatever token it carries, also with none.
\<close>

theorem sensor_ingest_unauthenticated:
  "sensor_ingest gunzip dir stamp token name False (b # b' # bs) disk
     = sensor_ingest gunzip dir stamp None name False (b # b' # bs) disk
   \<and> ([b, b'] = [0x1f, 0x8b] \<or> fst (sensor_ingest gunzip dir stamp token name False (b # b' # bs) disk) = 200)"
  by (auto simp: sensor_ingest_def)

end
