(* ===== verification/FleetUpload.thy ===== *)
theory FleetUpload
  imports AgentClient FleetSafety
begin

text \<open>
  Uploads from end to end: what the agent cuts into chunks the gateway puts together again,
  in whatever order the chunks are handled, and an agent's events touch the files of its own
  uploads only.
\<close>

section \<open>Positional writes\<close>

lemma raw_pos [simp]: "0 < pcap_chunk_raw"
  by (simp add: pcap_chunk_raw_def)

lemma raw_ne [simp]: "pcap_chunk_raw \<noteq> 0"
  by (simp add: pcap_chunk_raw_def)

lemma pad_length [simp]: "min (a :: nat) b + (b - a) = b" "min a b + (b - a + k) = b + k"
  by simp_all

lemma length_pwrite: "length (pwrite off new old) = (if new = [] then length old else max (length old) (off + length new))"
  by (auto simp: pwrite_def)

lemma nth_pwrite:
  assumes "j < length (pwrite off new old)"
  shows "pwrite off new old ! j = (if off \<le> j \<and> j < off + length new then new ! (j - off)
    else if j < length old then old ! j else 0)"
  using assms by (auto simp: pwrite_def nth_append)

definition chunk_at :: "bytes \<Rightarrow> nat \<Rightarrow> bytes" where
  "chunk_at pcap i = take pcap_chunk_raw (drop (i * pcap_chunk_raw) pcap)"

text \<open>What the partial file holds when the chunks of \<open>I\<close> have been written.\<close>

definition partly :: "bytes \<Rightarrow> nat set \<Rightarrow> bytes \<Rightarrow> bool" where
  "partly pcap I c \<longleftrightarrow> length c \<le> length pcap \<and> (\<forall>i \<in> I. min (length pcap) (Suc i * pcap_chunk_raw) \<le> length c \<or> chunk_at pcap i = [])
     \<and> (\<forall>j < length c. j div pcap_chunk_raw \<in> I \<longrightarrow> c ! j = pcap ! j)"

lemma length_chunk_at: "length (chunk_at pcap i) = min (length pcap - i * pcap_chunk_raw) pcap_chunk_raw"
  by (simp add: chunk_at_def)

lemma nth_chunk_at: "k < length (chunk_at pcap i) \<Longrightarrow> chunk_at pcap i ! k = pcap ! (i * pcap_chunk_raw + k)"
  by (cases "i * pcap_chunk_raw \<le> length pcap") (auto simp: chunk_at_def)

lemma partly_empty: "partly pcap {} []"
  by (simp add: partly_def)

lemma partly_write:
  assumes "partly pcap I c"
  shows "partly pcap (insert i I) (pwrite (i * pcap_chunk_raw) (chunk_at pcap i) c)"
proof (cases "chunk_at pcap i = []")
  case True
  have "j div pcap_chunk_raw \<noteq> i" if "j < length c" for j
  proof -
    have "length pcap \<le> i * pcap_chunk_raw" using True length_chunk_at [of pcap i] by (simp add: min_def split: if_splits)
    then have "j < i * pcap_chunk_raw" using that assms by (simp add: partly_def)
    then show ?thesis using less_mult_imp_div_less by blast
  qed
  with True assms show ?thesis by (auto simp: partly_def pwrite_def)
next
  case False
  let ?R = pcap_chunk_raw and ?d = "chunk_at pcap i"
  let ?c = "pwrite (i * ?R) ?d c"
  have len: "length ?c = max (length c) (i * ?R + length ?d)" using False by (simp add: length_pwrite)
  have fit: "i * ?R + length ?d = min (length pcap) (Suc i * ?R)"
    using False by (auto simp: length_chunk_at chunk_at_def min_def)
  have old: "length c \<le> length pcap" using assms by (simp add: partly_def)
  have val: "?c ! j = pcap ! j" if j: "j < length ?c" "j div ?R \<in> insert i I" for j
  proof (cases "i * ?R \<le> j \<and> j < i * ?R + length ?d")
    case True
    then have "j - i * ?R < length ?d" by linarith
    from nth_chunk_at [OF this] True show ?thesis using nth_pwrite [OF j(1)] by simp
  next
    case out: False
    show ?thesis
    proof (cases "j div ?R = i")
      case True
      then have "i * ?R \<le> j" by auto
      moreover have "j < Suc i * ?R" using True dividend_less_div_times [of ?R j] by simp
      moreover have "j < length pcap" using j(1) len fit old by linarith
      ultimately have "j < i * ?R + length ?d" using fit by simp
      with out \<open>i * ?R \<le> j\<close> show ?thesis by simp
    next
      case False
      then have I: "j div ?R \<in> I" using j(2) by simp
      have jp: "j < length pcap" using j(1) len fit old by linarith
      have "(j div ?R) * ?R \<le> j" "j < Suc (j div ?R) * ?R" using dividend_less_div_times [of ?R j] by simp_all
      moreover have "(j div ?R) * ?R < length pcap" using calculation(1) jp by (rule le_less_trans)
      then have "chunk_at pcap (j div ?R) \<noteq> []" by (simp add: chunk_at_def)
      ultimately have jc: "j < length c" using I assms jp unfolding partly_def by fastforce
      then show ?thesis using out nth_pwrite [OF j(1)] I assms by (auto simp: partly_def)
    qed
  qed
  show ?thesis using assms val len fit old by (auto simp: partly_def)
qed

lemma partly_full:
  assumes "partly pcap {..<n} c" "length pcap \<le> n * pcap_chunk_raw"
  shows "c = pcap"
proof (rule nth_equalityI)
  show len: "length c = length pcap"
  proof (rule ccontr)
    assume "length c \<noteq> length pcap"
    then have less: "length c < length pcap" using assms(1) by (simp add: partly_def)
    let ?i = "length c div pcap_chunk_raw"
    have i: "?i * pcap_chunk_raw \<le> length c" "length c < Suc ?i * pcap_chunk_raw"
      using dividend_less_div_times [of pcap_chunk_raw "length c"] by simp_all
    have "?i * pcap_chunk_raw < length pcap" using i(1) less by (rule le_less_trans)
    then have ne: "chunk_at pcap ?i \<noteq> []" by (simp add: chunk_at_def)
    have "?i < n" using less assms(2) less_mult_imp_div_less by (metis order_less_le_trans)
    then have "min (length pcap) (Suc ?i * pcap_chunk_raw) \<le> length c"
      using ne assms(1) unfolding partly_def by blast
    then show False using less i(2) by linarith
  qed
  fix j assume j: "j < length c"
  then have "j div pcap_chunk_raw < n" using len assms(2) less_mult_imp_div_less by (metis order_less_le_trans)
  then show "c ! j = pcap ! j" using j assms(1) by (simp add: partly_def)
qed

lemma chunk_count_covers: "length pcap \<le> nat (chunk_count (length pcap)) * pcap_chunk_raw"
proof -
  let ?R = "int pcap_chunk_raw" and ?n = "int (length pcap)"
  have "?R * ((- ?n) div ?R) + (- ?n) mod ?R = - ?n" "0 \<le> (- ?n) mod ?R" by simp_all
  then have "?n \<le> - (?R * ((- ?n) div ?R))" by linarith
  then have "?n \<le> - ((- ?n) div ?R) * ?R" by (simp add: mult.commute)
  also have "\<dots> \<le> chunk_count (length pcap) * ?R"
    by (intro mult_right_mono) (simp_all add: chunk_count_def)
  finally have "?n \<le> int (nat (chunk_count (length pcap)) * pcap_chunk_raw)" by (simp add: chunk_count_def)
  then show ?thesis by linarith
qed

lemma chunk_count_pos: "0 < chunk_count k"
  by (simp add: chunk_count_def)

lemma chunk_count_fits:
  assumes "int (length pcap) \<le> ge_max_size ev"
  shows "chunk_count (length pcap) \<le> max_pcap_chunks (ge_max_size ev)"
proof -
  have "(- ge_max_size ev) div int pcap_chunk_raw \<le> (- int (length pcap)) div int pcap_chunk_raw"
    using assms by (intro zdiv_mono1) simp_all
  moreover have "(- ge_max_size ev) div int pcap_chunk_raw \<le> 0"
    using zdiv_mono1 [of "- ge_max_size ev" 0 "int pcap_chunk_raw"] assms by simp
  ultimately show ?thesis by (simp add: chunk_count_def max_pcap_chunks_def)
qed

section \<open>Handling the agent's messages\<close>

lemma event_fields [simp]: "obj_get (event_msg m ps) ''method'' = PStr m" "ps \<noteq> [] \<Longrightarrow> params_of (event_msg m ps) = Some ps"
  by (simp_all add: event_msg_def obj_get_def params_of_def py_or_def)

lemma handle_chunk: "handle_event ev now v (chunk_msg sid file pcap i) cg = on_pcap_chunk ev v
    \<lparr>ch_file = file, ch_session = sid, ch_index = int i, ch_total = chunk_count (length pcap), ch_data = b64encode (chunk_at pcap i)\<rparr> cg"
  by (simp add: handle_event_def chunk_msg_def chunk_of_def obj_get_or_def chunk_at_def Let_def)

lemma handle_complete: "handle_event ev now v (complete_msg sid file pcap) cg = on_pcap_complete ev v file (chunk_count (length pcap)) cg"
  using chunk_count_pos [of "length pcap"]
  by (simp add: handle_event_def complete_msg_def obj_get_or_def obj_get_def py_or_def Let_def del: event_fields)
     (simp add: event_msg_def params_of_def obj_get_def obj_get_or_def py_or_def)

text \<open>The state of an upload when the chunks of \<open>I\<close> have been handled.\<close>

definition uploading :: "string \<Rightarrow> string \<Rightarrow> string \<Rightarrow> string \<Rightarrow> bytes \<Rightarrow> agent_conn \<times> gateway \<Rightarrow> nat set \<Rightarrow> agent_conn \<times> gateway \<Rightarrow> bool" where
  "uploading sid file partial final pcap cg0 I cg \<longleftrightarrow>
     gw_fleet (snd cg) = gw_fleet (snd cg0) \<and> gw_scans (snd cg) = gw_scans (snd cg0)
     \<and> (\<forall>p. p \<noteq> partial \<longrightarrow> dict_get (gw_disk (snd cg)) p = dict_get (gw_disk (snd cg0)) p)
     \<and> (if I = {} then dict_get (ac_transfers (fst cg)) file = None \<and> dict_get (gw_disk (snd cg)) partial = None
        else (\<exists>x k. dict_get (ac_transfers (fst cg)) file = Some x \<and> tf_partial x = partial \<and> tf_final x = final \<and> tf_session x = sid
          \<and> tf_received x = int ` I \<and> dict_get (gw_disk (snd cg)) partial = Some k \<and> partly pcap I k))"

lemma uploading_step:
  assumes "uploading sid file partial final pcap cg0 I cg"
    and "begin_pcap_upload (ge_uploads ev) (ge_inside ev) sid file v (gw_fleet (snd cg0)) = Some (partial, final)"
    and "int (length pcap) \<le> ge_max_size ev" and "i < nat (chunk_count (length pcap))"
  shows "uploading sid file partial final pcap cg0 (insert i I) (handle_event ev now v (chunk_msg sid file pcap i) cg)"
proof -
  obtain c g where cg: "cg = (c, g)" by (cases cg)
  have range: "int i < max_pcap_chunks (ge_max_size ev)" "0 < chunk_count (length pcap)"
    "chunk_count (length pcap) \<le> max_pcap_chunks (ge_max_size ev)"
    using assms(4) chunk_count_fits [OF assms(3)] chunk_count_pos [of "length pcap"] by simp_all
  show ?thesis
  proof (cases "I = {}")
    case True
    then show ?thesis
      using assms(1,2) range partly_write [OF partly_empty, of pcap i]
      by (simp add: handle_chunk on_pcap_chunk_def transfer_for_def uploading_def cg write_chunk_def open_partial_def Let_def)
  next
    case False
    then obtain x k where x: "dict_get (ac_transfers c) file = Some x" "tf_partial x = partial" "tf_final x = final" "tf_session x = sid"
      "tf_received x = int ` I" "dict_get (gw_disk g) partial = Some k" "partly pcap I k"
      using assms(1) by (auto simp: uploading_def cg)
    show ?thesis
      using assms(1) False range x partly_write [OF x(7), of i]
      by (simp add: handle_chunk on_pcap_chunk_def transfer_for_def uploading_def cg write_chunk_def Let_def)
  qed
qed

lemma uploading_chunks:
  assumes "begin_pcap_upload (ge_uploads ev) (ge_inside ev) sid file v (gw_fleet (snd cg0)) = Some (partial, final)"
    and "int (length pcap) \<le> ge_max_size ev"
  shows "uploading sid file partial final pcap cg0 I cg \<Longrightarrow> set ks \<subseteq> {..<nat (chunk_count (length pcap))} \<Longrightarrow>
    uploading sid file partial final pcap cg0 (I \<union> set ks) (fold (handle_event ev now v) (map (chunk_msg sid file pcap) ks) cg)"
proof (induction ks arbitrary: I cg)
  case (Cons i ks)
  from uploading_step [OF Cons.prems(1) assms] Cons.prems(2) Cons.IH [of "insert i I"]
  show ?case by simp
qed simp

lemma all_received_upto:
  assumes "0 < n" "n \<le> mx" "tf_received x = int ` {..<nat n}"
  shows "all_received mx n x"
proof -
  have "card (int ` {..<nat n}) = nat n" by (simp add: card_image)
  moreover have "i \<in> int ` {..<nat n}" if "0 \<le> i" "i < n" for i
    using that by (intro image_eqI [of _ _ "nat i"]) auto
  ultimately show ?thesis using assms by (simp add: all_received_def list_all_iff)
qed

lemma begin_gives_names:
  assumes "begin_pcap_upload dir inside sid file v s = Some (partial, final)"
  shows "partial = final @ ''.partial''"
  using assms by (auto simp: begin_pcap_upload_def Let_def split: option.splits if_splits)

lemma begin_gives_owner:
  assumes "begin_pcap_upload dir inside sid file v s = Some (partial, final)"
  shows "\<exists>cs p. session_by_uuid sid s = Some cs \<and> session_owned_by_agent cs v s
    \<and> dict_get (fl_projects s) (cs_project cs) = Some p"
  using assms by (auto simp: begin_pcap_upload_def Let_def split: option.splits if_splits)

text \<open>
  C9. An upload arrives. Let an agent ship a file of its own session, within the size limit,
  on a connection with no transfer of that name and with no partial file left over. In
  whatever order the gateway handles the chunks, also with repetitions, once each has been
  handled and the completion message comes, the final file is the agent's file byte for byte,
  no partial file or transfer remains, no other file has changed, and one scan of the final
  file is launched for the session.
\<close>

theorem upload_arrives:
  assumes "begin_pcap_upload (ge_uploads ev) (ge_inside ev) sid file v (gw_fleet g) = Some (partial, final)"
    and "dict_get (ac_transfers c) file = None" and "dict_get (gw_disk g) partial = None"
    and "int (length pcap) \<le> ge_max_size ev" and "set order = {..<nat (chunk_count (length pcap))}"
    and "fold (handle_event ev now v) (map (chunk_msg sid file pcap) order @ [complete_msg sid file pcap]) (c, g) = (c', g')"
  shows "dict_get (gw_disk g') = (dict_get (gw_disk g))(final \<mapsto> pcap) \<and> dict_get (ac_transfers c') file = None
    \<and> (\<exists>q. gw_scans g' = gw_scans g @ [q] \<and> sq_path q = final \<and> sq_session q = sid)"
proof -
  let ?n = "chunk_count (length pcap)"
  obtain c1 g1 where mid: "fold (handle_event ev now v) (map (chunk_msg sid file pcap) order) (c, g) = (c1, g1)"
    by (rule prod.exhaust)
  have "uploading sid file partial final pcap (c, g) {} (c, g)"
    using assms(2,3) by (simp add: uploading_def)
  from uploading_chunks [of ev sid "file" v "(c, g)", OF _ assms(4) this, where now = now and ks = order] assms(1,5)
  have up: "uploading sid file partial final pcap (c, g) {..<nat ?n} (c1, g1)" by (simp add: mid)
  have "0 \<in> {..<nat ?n}" using chunk_count_pos [of "length pcap"] by simp
  then have ne: "{..<nat ?n} \<noteq> {}" by blast
  obtain x k where x: "dict_get (ac_transfers c1) file = Some x" "tf_partial x = partial" "tf_final x = final" "tf_session x = sid"
      "tf_received x = int ` {..<nat ?n}" "dict_get (gw_disk g1) partial = Some k" "partly pcap {..<nat ?n} k"
    using up ne unfolding uploading_def by auto
  have k: "k = pcap" by (rule partly_full [OF x(7) chunk_count_covers])
  have all: "all_received (max_pcap_chunks (ge_max_size ev)) ?n x"
    by (rule all_received_upto [OF chunk_count_pos chunk_count_fits [OF assms(4)] x(5)])
  have same: "gw_fleet g1 = gw_fleet g" "gw_scans g1 = gw_scans g" "\<forall>p. p \<noteq> partial \<longrightarrow> dict_get (gw_disk g1) p = dict_get (gw_disk g) p"
    using up by (auto simp: uploading_def)
  obtain cs p where own: "session_by_uuid sid (gw_fleet g) = Some cs" "session_owned_by_agent cs v (gw_fleet g)"
    "dict_get (fl_projects (gw_fleet g)) (cs_project cs) = Some p"
    using begin_gives_owner [OF assms(1)] by blast
  have fin: "finish_pcap_upload partial final sid v (gw_fleet g1) (gw_disk g1)
      = (Some (p_user p, p_id p, cs_agent cs), dict_set final pcap (dict_pop partial (gw_disk g1)))"
    using own x(6) k same(1) by (simp add: finish_pcap_upload_def)
  have "on_pcap_complete ev v file ?n (c1, g1) = (c', g')"
    using assms(6) mid by (simp add: handle_complete)
  then have g': "c' = c1\<lparr>ac_transfers := dict_pop file (ac_transfers c1)\<rparr>"
    "g' = g1\<lparr>gw_disk := dict_set final pcap (dict_pop partial (gw_disk g1)), gw_scans := gw_scans g1 @
       [\<lparr>sq_path = final, sq_user = p_user p, sq_project = p_id p, sq_session = sid, sq_agent = cs_agent cs\<rparr>]\<rparr>"
    using x all fin by (simp_all add: on_pcap_complete_def Let_def split_def)
  have "partial \<noteq> final" using begin_gives_names [OF assms(1)] by simp
  then have "dict_get (gw_disk g') = (dict_get (gw_disk g))(final \<mapsto> pcap)"
    using same(3) assms(3) by (auto simp: g'(2) dict_get_set fun_eq_iff delete_conv')
  then show ?thesis by (simp add: g' same(2))
qed

definition demo_env :: gw_env where
  "demo_env = \<lparr>ge_uploads = ''/up'', ge_inside = \<lambda>_ _. True, ge_max_size = 1000, ge_float_str = \<lambda>_. [], ge_to_float = \<lambda>_. None\<rparr>"

definition demo_gateway :: gateway where
  "demo_gateway = \<lparr>gw_fleet = demo_remote, gw_disk = [], gw_scans = []\<rparr>"

theorem upload_arrives_witness:
  "dict_get (gw_disk (snd (fold (handle_event demo_env 5 ''u1'') (map (chunk_msg ''u1'' ''../../etc/x.pcap'' [7, 8]) [0, 0]
     @ [complete_msg ''u1'' ''../../etc/x.pcap'' [7, 8]]) (new_conn, demo_gateway)))) ''/up/1/3/x.pcap'' = Some [7, 8]"
proof -
  have n: "chunk_count (Suc (Suc 0)) = 1" by (simp add: chunk_count_def pcap_chunk_raw_def)
  show ?thesis
    using upload_arrives [of demo_env "''u1''" "''../../etc/x.pcap''" "''u1''" demo_gateway "''/up/1/3/x.pcap.partial''" "''/up/1/3/x.pcap''"
        new_conn "[7, 8]" "[0, 0]" 5 _ _, OF _ _ _ _ _ prod.collapse [symmetric]]
    by (simp add: n demo_env_def demo_gateway_def new_conn_def demo_begin lessThan_Suc fun_upd_def)
qed

section \<open>An agent's events stay with its uploads\<close>

definition rows_keyed :: "fleet \<Rightarrow> bool" where
  "rows_keyed s \<longleftrightarrow> dict_ok (fl_rows s) \<and> list_all (\<lambda>(k, c). cs_id c = k) (fl_rows s)"

lemma stats_keep_session:
  assumes "rows_keyed s"
  shows "session_by_uuid u (record_session_stats now v e s) = (case session_by_uuid u s of None \<Rightarrow> None
      | Some c \<Rightarrow> Some (if record_session_stats now v e s \<noteq> s \<and> u = se_session e then apply_stats now e c else c))"
proof (cases "record_session_stats now v e s = s")
  case True
  then show ?thesis by (simp split: option.split)
next
  case False
  then obtain cs where cs: "session_by_uuid (se_session e) s = Some cs"
    "record_session_stats now v e s = s\<lparr>fl_rows := dict_set (cs_id cs) (apply_stats now e cs) (fl_rows s)\<rparr>"
    by (auto simp: record_session_stats_def split: option.splits if_splits)
  have keyed: "dict_ok (fl_rows s)" "\<forall>(j, x) \<in> set (fl_rows s). cs_id x = j"
    using assms by (auto simp: rows_keyed_def list_all_iff)
  obtain j where j: "(j, cs) \<in> set (fl_rows s)" "cs_uuid cs = se_session e"
    using first_row_mem [of "\<lambda>x. cs_uuid x = se_session e"] cs(1) by (auto simp: session_by_uuid_def)
  have uuid: "cs_uuid (apply_stats now e cs) = cs_uuid cs" by (simp add: apply_stats_def)
  show ?thesis
  proof (cases "u = se_session e")
    case True
    then have "session_by_uuid u (record_session_stats now v e s) = Some (apply_stats now e cs)"
      using find_set_hit [OF keyed, of "\<lambda>x. cs_uuid x = u" cs "apply_stats now e cs"] cs j uuid
      by (simp add: session_by_uuid_def first_row_def)
    then show ?thesis using True False cs(1) by simp
  next
    case u: False
    have "dict_get (fl_rows s) (cs_id cs) = Some cs" using keyed j by (auto simp: dict_get_mem)
    then have "session_by_uuid u (record_session_stats now v e s) = session_by_uuid u s"
      using find_set_miss [of "fl_rows s" "cs_id cs" cs "\<lambda>x. cs_uuid x = u"] cs j uuid u
      by (simp add: session_by_uuid_def first_row_def)
    then show ?thesis using u by (simp split: option.split)
  qed
qed

lemma stats_keep_projects [simp]: "fl_projects (record_session_stats now v e s) = fl_projects s"
  by (simp add: record_session_stats_def split: option.split)

lemma owned_cong: "fl_agents s' = fl_agents s \<Longrightarrow> cs_agent c' = cs_agent c \<Longrightarrow> session_owned_by_agent c' u s' = session_owned_by_agent c u s"
  by (simp add: session_owned_by_agent_def agent_by_uuid_def split: option.split)

lemma stats_keep_begin:
  assumes "rows_keyed s"
  shows "begin_pcap_upload dir inside sid f u (record_session_stats now v e s) = begin_pcap_upload dir inside sid f u s"
proof (cases "upload_name f")
  case (Some n)
  show ?thesis
  proof (cases "session_by_uuid sid s")
    case (Some c)
    define c' where "c' = (if record_session_stats now v e s \<noteq> s \<and> sid = se_session e then apply_stats now e c else c)"
    have found: "session_by_uuid sid (record_session_stats now v e s) = Some c'"
      using stats_keep_session [OF assms] Some by (simp add: c'_def)
    have same: "cs_agent c' = cs_agent c" "cs_project c' = cs_project c" by (simp_all add: c'_def apply_stats_def)
    have "session_owned_by_agent c' u (record_session_stats now v e s) = session_owned_by_agent c u s"
      using same(1) by (intro owned_cong) simp_all
    then show ?thesis using \<open>upload_name f = Some n\<close> Some found same by (simp add: begin_pcap_upload_def)
  qed (simp add: begin_pcap_upload_def stats_keep_session [OF assms] split: option.split)
qed (simp add: begin_pcap_upload_def)

lemma stats_keep_keyed: "rows_keyed s \<Longrightarrow> rows_keyed (record_session_stats now v e s)"
proof (cases "record_session_stats now v e s = s")
  case False
  assume s: "rows_keyed s"
  obtain cs where "record_session_stats now v e s = s\<lparr>fl_rows := dict_set (cs_id cs) (apply_stats now e cs) (fl_rows s)\<rparr>"
    using False by (auto simp: record_session_stats_def split: option.splits if_splits)
  then show ?thesis using s by (auto simp: rows_keyed_def list_all_iff set_dict_set apply_stats_def)
qed simp

definition upload_path :: "gw_env \<Rightarrow> string \<Rightarrow> fleet \<Rightarrow> string \<Rightarrow> bool" where
  "upload_path ev v s p \<longleftrightarrow> (\<exists>sid f partial final. begin_pcap_upload (ge_uploads ev) (ge_inside ev) sid f v s = Some (partial, final)
     \<and> (p = partial \<or> p = final))"

lemma begin_paths:
  assumes "begin_pcap_upload (ge_uploads ev) (ge_inside ev) sid f v s = Some (partial, final)"
  shows "upload_path ev v s partial" "upload_path ev v s final"
  using assms by (auto simp: upload_path_def)

definition contained :: "gw_env \<Rightarrow> string \<Rightarrow> gateway \<Rightarrow> agent_conn \<times> gateway \<Rightarrow> bool" where
  "contained ev v g0 cg \<longleftrightarrow> rows_keyed (gw_fleet (snd cg))
     \<and> (\<forall>sid f. begin_pcap_upload (ge_uploads ev) (ge_inside ev) sid f v (gw_fleet (snd cg))
          = begin_pcap_upload (ge_uploads ev) (ge_inside ev) sid f v (gw_fleet g0))
     \<and> (\<forall>f x. dict_get (ac_transfers (fst cg)) f = Some x \<longrightarrow>
          upload_path ev v (gw_fleet g0) (tf_partial x) \<and> upload_path ev v (gw_fleet g0) (tf_final x))
     \<and> (\<forall>p. dict_get (gw_disk (snd cg)) p \<noteq> dict_get (gw_disk g0) p \<longrightarrow> upload_path ev v (gw_fleet g0) p)"

lemma contained_disk:
  assumes "contained ev v g0 (c, g)" "gw_fleet g' = gw_fleet g"
    and "\<And>f x. dict_get (ac_transfers c') f = Some x \<Longrightarrow> upload_path ev v (gw_fleet g0) (tf_partial x) \<and> upload_path ev v (gw_fleet g0) (tf_final x)"
    and "\<And>p. dict_get (gw_disk g') p \<noteq> dict_get (gw_disk g) p \<Longrightarrow> upload_path ev v (gw_fleet g0) p"
  shows "contained ev v g0 (c', g')"
proof -
  have "upload_path ev v (gw_fleet g0) p" if "dict_get (gw_disk g') p \<noteq> dict_get (gw_disk g0) p" for p
    using that assms(1) assms(4) [of p] by (cases "dict_get (gw_disk g') p = dict_get (gw_disk g) p") (auto simp: contained_def)
  then show ?thesis using assms(1-3) by (auto simp: contained_def)
qed

lemma contained_abort: "contained ev v g0 cg \<Longrightarrow> contained ev v g0 (abort_pcap_transfer f cg)"
proof (cases cg)
  case (Pair c g)
  assume a: "contained ev v g0 cg"
  then show ?thesis
  proof (cases "dict_get (ac_transfers c) f")
    case None
    with a show ?thesis by (simp add: abort_pcap_transfer_def Pair)
  next
    case (Some x)
    have "contained ev v g0 (c\<lparr>ac_transfers := dict_pop f (ac_transfers c)\<rparr>, g\<lparr>gw_disk := discard_partial (tf_partial x) (gw_disk g)\<rparr>)"
      by (rule contained_disk [OF a [unfolded Pair]])
         (use a Some in \<open>auto simp: Pair contained_def discard_partial_def delete_conv' split: if_splits\<close>)
    then show ?thesis by (simp add: abort_pcap_transfer_def Pair Some)
  qed
qed

lemma contained_transfer:
  assumes "contained ev v g0 (c, g)" "transfer_for ev v ch (c, g) = Some (x, g1)"
  shows "contained ev v g0 (c\<lparr>ac_transfers := dict_set (ch_file ch) x (ac_transfers c)\<rparr>, g1)"
    "upload_path ev v (gw_fleet g0) (tf_partial x)" "upload_path ev v (gw_fleet g0) (tf_final x)"
proof -
  have paths: "upload_path ev v (gw_fleet g0) (tf_partial x) \<and> upload_path ev v (gw_fleet g0) (tf_final x)"
    and disk: "gw_fleet g1 = gw_fleet g" "\<And>p. dict_get (gw_disk g1) p \<noteq> dict_get (gw_disk g) p \<Longrightarrow> p = tf_partial x"
    using assms begin_paths
    by (auto simp: transfer_for_def contained_def open_partial_def dict_get_set split: option.splits if_splits)
  then show "upload_path ev v (gw_fleet g0) (tf_partial x)" "upload_path ev v (gw_fleet g0) (tf_final x)" by auto
  show "contained ev v g0 (c\<lparr>ac_transfers := dict_set (ch_file ch) x (ac_transfers c)\<rparr>, g1)"
    by (rule contained_disk [OF assms(1) disk(1)])
       (use paths disk(2) assms(1) in \<open>auto simp: dict_get_set contained_def split: if_splits\<close>)
qed

lemma contained_write:
  assumes "contained ev v g0 (c, g)" "upload_path ev v (gw_fleet g0) p"
  shows "contained ev v g0 (c, g\<lparr>gw_disk := write_chunk i bs p (gw_disk g)\<rparr>)"
  by (rule contained_disk [OF assms(1)])
     (use assms in \<open>auto simp: contained_def write_chunk_def dict_get_set split: option.splits if_splits\<close>)

lemma contained_chunk: "contained ev v g0 cg \<Longrightarrow> contained ev v g0 (on_pcap_chunk ev v ch cg)"
proof (cases cg)
  case (Pair c g)
  assume a: "contained ev v g0 cg"
  show ?thesis
  proof (cases "transfer_for ev v ch cg")
    case None
    then show ?thesis using a contained_abort [OF a] by (simp add: on_pcap_chunk_def Let_def)
  next
    case (Some xg)
    obtain x g1 where xg: "xg = (x, g1)" by (cases xg)
    note tr = contained_transfer [OF a [unfolded Pair] Some [unfolded Pair xg]]
    have "contained ev v g0 (c\<lparr>ac_transfers := dict_set (ch_file ch) y (ac_transfers c)\<rparr>, g1)"
      if "tf_partial y = tf_partial x" "tf_final y = tf_final x" for y
      by (rule contained_disk [OF tr(1)]) (use tr a that in \<open>auto simp: Pair contained_def dict_get_set split: if_splits\<close>)
    from contained_write [OF this tr(2)] show ?thesis
      using a contained_abort [OF a] contained_abort [OF tr(1)] tr(1) Some xg
      by (auto simp: on_pcap_chunk_def Let_def Pair split: option.split)
  qed
qed

lemma contained_complete: "contained ev v g0 cg \<Longrightarrow> contained ev v g0 (on_pcap_complete ev v f n cg)"
proof (cases cg)
  case (Pair c g)
  assume a: "contained ev v g0 cg"
  show ?thesis
  proof (cases "dict_get (ac_transfers c) f")
    case None
    then show ?thesis using a by (simp add: on_pcap_complete_def Pair)
  next
    case (Some x)
    have paths: "upload_path ev v (gw_fleet g0) (tf_partial x)" "upload_path ev v (gw_fleet g0) (tf_final x)"
      using a Some by (auto simp: Pair contained_def)
    have step: "contained ev v g0 (c\<lparr>ac_transfers := dict_pop f (ac_transfers c)\<rparr>, g')"
      if "gw_fleet g' = gw_fleet g" "\<And>p. dict_get (gw_disk g') p \<noteq> dict_get (gw_disk g) p \<Longrightarrow> p = tf_partial x \<or> p = tf_final x" for g'
      by (rule contained_disk [OF a [unfolded Pair] that(1)])
         (use a paths that(2) in \<open>auto simp: Pair contained_def delete_conv' split: if_splits\<close>)
    obtain r d where fin: "finish_pcap_upload (tf_partial x) (tf_final x) (tf_session x) v (gw_fleet g) (gw_disk g) = (r, d)"
      by (rule prod.exhaust)
    have d: "dict_get d p \<noteq> dict_get (gw_disk g) p \<Longrightarrow> p = tf_partial x \<or> p = tf_final x" for p
      using fin by (auto simp: finish_pcap_upload_def dict_get_set delete_conv' split: option.splits if_splits)
    show ?thesis
      using Some fin
      by (auto simp: on_pcap_complete_def Pair Let_def discard_partial_def delete_conv' intro!: step dest!: d split: option.splits if_splits)
  qed
qed

lemma contained_event: "contained ev v g0 cg \<Longrightarrow> contained ev v g0 (handle_event ev now v msg cg)"
proof (cases cg)
  case (Pair c g)
  assume a: "contained ev v g0 cg"
  have warned: "contained ev v g0 (c\<lparr>ac_warned := True\<rparr>, g)"
    by (rule contained_disk [OF a [unfolded Pair]]) (use a in \<open>auto simp: Pair contained_def\<close>)
  have stats: "contained ev v g0 (c, g\<lparr>gw_fleet := record_session_stats now v e (gw_fleet g)\<rparr>)" for e
    using a by (simp add: Pair contained_def stats_keep_begin stats_keep_keyed)
  show ?thesis
    using a warned stats contained_chunk [OF a] contained_complete [OF a]
    by (simp add: handle_event_def Let_def Pair split: option.split)
qed

lemma contained_events: "contained ev v g0 cg \<Longrightarrow> contained ev v g0 (fold (handle_event ev now v) msgs cg)"
  by (induction msgs arbitrary: cg) (simp_all add: contained_event)

text \<open>Joining a directory and a number or a plain file name puts one slash between them.\<close>

lemma path_join_slash: "d \<noteq> [] \<Longrightarrow> last d \<noteq> CHR ''/'' \<Longrightarrow> CHR ''/'' \<notin> set n \<Longrightarrow> n \<noteq> [] \<Longrightarrow> path_join d n = d @ ''/'' @ n"
  by (cases n) (auto simp: path_join_def py_startswith_def py_endswith_def take_Suc_conv_app_nth
      dest!: arg_cong [of _ _ last] simp: last_drop)

lemma show_int_no_slash: "CHR ''/'' \<notin> set (show_int i)" "show_int i \<noteq> []"
proof -
  have "CHR ''/'' \<notin> set (show_nat n)" for n
  proof
    assume "CHR ''/'' \<in> set (show_nat n)"
    then have "py_isdigit (CHR ''/'')" using show_nat_digits by blast
    then show False by (simp add: py_isdigit_def ord_of_def)
  qed
  then show "CHR ''/'' \<notin> set (show_int i)" "show_int i \<noteq> []" by (auto simp: show_int_def)
qed

lemma show_int_last: "last (show_int i) \<noteq> CHR ''/''"
  using show_int_no_slash [of i] last_in_set by metis

lemma find_in: "find P xs = Some x \<Longrightarrow> x \<in> set xs \<and> P x"
  by (induction xs) (auto split: if_splits)

text \<open>What the path of an upload is made of: all of the checks of \<open>begin_pcap_upload\<close>.\<close>

lemma begin_gives_path:
  assumes "begin_pcap_upload dir inside sid f v s = Some (partial, final)" "dir \<noteq> []" "last dir \<noteq> CHR ''/''"
  shows "\<exists>c a pr n out. c \<in> snd ` set (fl_rows s) \<and> a \<in> snd ` set (fl_agents s) \<and> ga_uuid a = v \<and> cs_agent c = Some (ga_id a)
    \<and> dict_get (fl_projects s) (cs_project c) = Some pr
    \<and> out = dir @ ''/'' @ show_int (p_user pr) @ ''/'' @ show_int (p_id pr)
    \<and> final = out @ ''/'' @ n \<and> inside out final \<and> partial = final @ ''.partial''
    \<and> CHR ''/'' \<notin> set n \<and> n \<notin> {[], ''.'', ''..''} \<and> (py_endswith (py_lower n) ''.pcap'' \<or> py_endswith (py_lower n) ''.pcapng'')"
proof -
  obtain n where n: "upload_name f = Some n" using assms(1) by (auto simp: begin_pcap_upload_def split: option.splits)
  then have name: "CHR ''/'' \<notin> set n" "n \<notin> {[], ''.'', ''..''}" "py_endswith (py_lower n) ''.pcap'' \<or> py_endswith (py_lower n) ''.pcapng''"
    using py_basename_no_slash [of f] by (auto simp: upload_name_def Let_def split: if_splits)
  obtain c pr where c: "session_by_uuid sid s = Some c" "session_owned_by_agent c v s" "dict_get (fl_projects s) (cs_project c) = Some pr"
    "final = path_join (path_join (path_join dir (show_int (p_user pr))) (show_int (p_id pr))) n"
    "inside (path_join (path_join dir (show_int (p_user pr))) (show_int (p_id pr))) final" "partial = final @ ''.partial''"
    using assms(1) n by (auto simp: begin_pcap_upload_def Let_def split: option.splits if_splits)
  have out: "path_join (path_join dir (show_int (p_user pr))) (show_int (p_id pr)) = dir @ ''/'' @ show_int (p_user pr) @ ''/'' @ show_int (p_id pr)"
    using assms(2,3) by (simp add: path_join_slash show_int_no_slash show_int_last)
  have final: "final = (dir @ ''/'' @ show_int (p_user pr) @ ''/'' @ show_int (p_id pr)) @ ''/'' @ n"
    unfolding c(4) out by (rule path_join_slash) (use name show_int_no_slash show_int_last in auto)
  obtain a where a: "agent_by_uuid v s = Some a" "cs_agent c = Some (ga_id a)"
    using c(2) by (auto simp: session_owned_by_agent_def split: option.splits)
  have "c \<in> snd ` set (fl_rows s)" "a \<in> snd ` set (fl_agents s)" "ga_uuid a = v"
    using c(1) a(1) by (auto simp: session_by_uuid_def agent_by_uuid_def first_row_def dest!: find_in)
  note row = this
  let ?out = "dir @ ''/'' @ show_int (p_user pr) @ ''/'' @ show_int (p_id pr)"
  have "inside ?out final" using c(5) unfolding out .
  with name c(3,6) a(2) final row show ?thesis
    by (intro exI [of _ c] exI [of _ a] exI [of _ pr] exI [of _ n] exI [of _ ?out] conjI) (assumption | rule refl)+
qed

text \<open>
  C25. An agent's events change capture files of its own projects only. Whatever messages an
  authenticated agent sends, a file of the gateway that differs afterwards is named
  \<open>uploads/user/project/name\<close>, with or without \<open>.partial\<close>, for the project of a session that belongs
  to that agent; the name has no slash, is not a dot name and ends in a capture suffix, and the
  file system resolves the path to a place inside the project's directory. (The uploads directory
  is written without a slash at its end.)
\<close>

theorem events_contained:
  assumes "rows_keyed (gw_fleet g)" "ge_uploads ev \<noteq> []" "last (ge_uploads ev) \<noteq> CHR ''/''"
    and "dict_get (gw_disk (snd (fold (handle_event ev now v) msgs (new_conn, g)))) p \<noteq> dict_get (gw_disk g) p"
  shows "\<exists>c a pr n out. c \<in> snd ` set (fl_rows (gw_fleet g)) \<and> a \<in> snd ` set (fl_agents (gw_fleet g))
    \<and> ga_uuid a = v \<and> cs_agent c = Some (ga_id a) \<and> dict_get (fl_projects (gw_fleet g)) (cs_project c) = Some pr
    \<and> out = ge_uploads ev @ ''/'' @ show_int (p_user pr) @ ''/'' @ show_int (p_id pr)
    \<and> p \<in> {out @ ''/'' @ n, out @ ''/'' @ n @ ''.partial''} \<and> ge_inside ev out (out @ ''/'' @ n)
    \<and> CHR ''/'' \<notin> set n \<and> n \<notin> {''.'', ''..''} \<and> (py_endswith (py_lower n) ''.pcap'' \<or> py_endswith (py_lower n) ''.pcapng'')"
proof -
  have "contained ev v g (new_conn, g)" using assms(1) by (simp add: contained_def new_conn_def)
  from contained_events [OF this, of now msgs] assms(4) obtain sid f partial final where
    "begin_pcap_upload (ge_uploads ev) (ge_inside ev) sid f v (gw_fleet g) = Some (partial, final)" "p = partial \<or> p = final"
    by (auto simp: contained_def upload_path_def)
  with begin_gives_path [OF this(1) assms(2,3)] show ?thesis by force
qed

theorem events_contained_witness:
  "\<exists>c a pr n out. c \<in> snd ` set (fl_rows demo_remote) \<and> a \<in> snd ` set (fl_agents demo_remote)
    \<and> ga_uuid a = ''u1'' \<and> cs_agent c = Some (ga_id a) \<and> dict_get (fl_projects demo_remote) (cs_project c) = Some pr
    \<and> out = ''/up'' @ ''/'' @ show_int (p_user pr) @ ''/'' @ show_int (p_id pr)
    \<and> ''/up/1/3/x.pcap.partial'' \<in> {out @ ''/'' @ n, out @ ''/'' @ n @ ''.partial''} \<and> CHR ''/'' \<notin> set n"
proof -
  have keyed: "rows_keyed (gw_fleet demo_gateway)"
    by (simp add: rows_keyed_def demo_gateway_def demo_remote_def dict_ok_def)
  have up: "ge_uploads demo_env \<noteq> []" "last (ge_uploads demo_env) \<noteq> CHR ''/''" by (simp_all add: demo_env_def)
  have "dict_get (gw_disk (snd (fold (handle_event demo_env 5 ''u1'') [chunk_msg ''u1'' ''../../etc/x.pcap'' [7, 8] 0] (new_conn, demo_gateway))))
      ''/up/1/3/x.pcap.partial'' \<noteq> dict_get (gw_disk demo_gateway) ''/up/1/3/x.pcap.partial''"
    by (simp add: handle_chunk on_pcap_chunk_def transfer_for_def demo_begin demo_env_def demo_gateway_def new_conn_def Let_def
        open_partial_def write_chunk_def max_pcap_chunks_def pcap_chunk_raw_def chunk_count_def)
  from events_contained [OF keyed up this] show ?thesis
    unfolding demo_env_def demo_gateway_def gw_env.simps gateway.simps by blast
qed

section \<open>Two agents, one file name\<close>

definition two_agents :: gateway where
  "two_agents = demo_gateway\<lparr>gw_fleet := demo_remote\<lparr>fl_agents := [(1, demo_agent), (2, demo_agent\<lparr>ga_id := 2, ga_uuid := ''u2''\<rparr>)],
     fl_rows := [(1, demo_row\<lparr>cs_agent := Some 1\<rparr>), (2, demo_row\<lparr>cs_id := 2, cs_uuid := ''v2'', cs_agent := Some 2\<rparr>)]\<rparr>\<rparr>"

lemma two_begin:
  "begin_pcap_upload ''/up'' (\<lambda>_ _. True) ''u1'' ''x.pcap'' ''u1'' (gw_fleet two_agents) = Some (''/up/1/3/x.pcap.partial'', ''/up/1/3/x.pcap'')"
  "begin_pcap_upload ''/up'' (\<lambda>_ _. True) ''v2'' ''x.pcap'' ''u2'' (gw_fleet two_agents) = Some (''/up/1/3/x.pcap.partial'', ''/up/1/3/x.pcap'')"
  by (simp_all add: begin_pcap_upload_def upload_name_def py_basename_def Let_def py_endswith_def py_lower_def py_lower_char_def ord_of_def
      session_by_uuid_def session_owned_by_agent_def agent_by_uuid_def first_row_def demo_remote_def demo_fleet_def demo_agent_def
      demo_project_def demo_row_project path_join_def py_startswith_def show_digits two_agents_def demo_gateway_def)

text \<open>
  The upload path has the project but not the session, and a partial file is not
  truncated. When one agent loses its link after a chunk and another agent of the project
  ships a shorter file of the same name, the second agent's file arrives with the tail of the
  first agent's bytes.
\<close>

theorem interrupted_upload_leaks:
  "let g1 = snd (handle_event demo_env 5 ''u1'' (chunk_msg ''u1'' ''x.pcap'' [1, 2, 3] 0) (new_conn, two_agents));
       g2 = snd (fold (handle_event demo_env 6 ''u2'') (pcap_frames ''v2'' ''x.pcap'' [9]) (new_conn, g1))
   in dict_get (gw_disk g2) ''/up/1/3/x.pcap'' = Some [9, 2, 3]"
proof -
  have n: "chunk_count (Suc 0) = 1" "chunk_count (Suc (Suc (Suc 0))) = 1" by (simp_all add: chunk_count_def pcap_chunk_raw_def)
  have mx: "max_pcap_chunks 1000 = 2" by (simp add: max_pcap_chunks_def pcap_chunk_raw_def)
  have d: "gw_disk two_agents = []" by (simp add: two_agents_def demo_gateway_def)
  have ch: "chunk_at [1, 2, 3] 0 = [1, 2, 3]" "chunk_at [9] 0 = [9]" by (simp_all add: chunk_at_def pcap_chunk_raw_def)
  have own: "\<exists>cs p. session_by_uuid ''v2'' (gw_fleet two_agents) = Some cs \<and> session_owned_by_agent cs ''u2'' (gw_fleet two_agents)
    \<and> dict_get (fl_projects (gw_fleet two_agents)) (cs_project cs) = Some p" by (rule begin_gives_owner [OF two_begin(2)])
  show ?thesis
    using own
    by (auto simp: Let_def pcap_frames_def n mx d handle_chunk handle_complete on_pcap_chunk_def transfer_for_def two_begin demo_env_def
        new_conn_def open_partial_def write_chunk_def ch pwrite_def on_pcap_complete_def all_received_def finish_pcap_upload_def
        simp del: b64encode.simps)
qed

end
