(* ===== verification/GatewaySafety.thy ===== *)
theory GatewaySafety
  imports FleetUpload
begin

text \<open>
  The gateway over time: the limit on authentication attempts, that a revoked agent is cut off,
  that replies reach the command they answer, and the table of connections under interleaving.
\<close>

section \<open>Attempts per address\<close>

definition recent :: "string \<Rightarrow> rat \<Rightarrow> (string \<times> rat) list \<Rightarrow> rat list" where
  "recent ip now hist = filter (\<lambda>t. now - t < auth_window_s) (map snd (filter (\<lambda>(i, _). i = ip) hist))"

text \<open>The table forgets only attempts that have left the window.\<close>

definition window_table :: "rat \<Rightarrow> (string \<times> rat) list \<Rightarrow> attempts \<Rightarrow> bool" where
  "window_table now hist tbl \<longleftrightarrow> dict_ok tbl \<and> (\<forall>ip t. now \<le> t \<longrightarrow>
     filter (\<lambda>x. t - x < auth_window_s) (case dict_get tbl ip of None \<Rightarrow> [] | Some ts \<Rightarrow> ts) = recent ip t hist)"

lemma recent_snoc: "recent ip t (hist @ [(j, x)]) = recent ip t hist @ (if j = ip \<and> t - x < auth_window_s then [x] else [])"
  by (simp add: recent_def)

lemma filter_narrow: "now \<le> t \<Longrightarrow> filter (\<lambda>x. t - x < auth_window_s) (filter (\<lambda>x. now - x < auth_window_s) ts)
    = filter (\<lambda>x. t - x < auth_window_s) (ts :: rat list)"
  by (induction ts) auto

lemma attempt_step:
  assumes "window_table t0 hist tbl" "t0 \<le> now"
  shows "fst (auth_rate_limited ip now tbl) \<longleftrightarrow> auth_attempts_per_window \<le> length (recent ip now hist)"
    and "window_table now (hist @ [(ip, now)]) (snd (auth_rate_limited ip now tbl))"
proof -
  let ?get = "\<lambda>d j. case dict_get d j of None \<Rightarrow> [] | Some ts \<Rightarrow> (ts :: rat list)"
  let ?tbl1 = "dict_set ip (filter (\<lambda>t. now - t < auth_window_s) (?get tbl ip) @ [now]) tbl"
  have old: "filter (\<lambda>x. t - x < auth_window_s) (?get tbl j) = recent j t hist" if "now \<le> t" for j t
    using assms that unfolding window_table_def by auto
  show "fst (auth_rate_limited ip now tbl) \<longleftrightarrow> auth_attempts_per_window \<le> length (recent ip now hist)"
    by (simp add: auth_rate_limited_def Let_def old less_Suc_eq_le)
  have ok: "dict_ok tbl" using assms(1) by (simp add: window_table_def)
  have new: "filter (\<lambda>x. t - x < auth_window_s) (?get ?tbl1 j) = recent j t (hist @ [(ip, now)])" if "now \<le> t" for j t
    using old [OF that] filter_narrow [OF that] by (cases "j = ip") (auto simp: recent_snoc)
  have evict: "filter (\<lambda>x. t - x < auth_window_s) (?get (filter (\<lambda>(i, ts). list_ex (\<lambda>t. now - t < auth_window_s) ts) ?tbl1) j)
      = filter (\<lambda>x. t - x < auth_window_s) (?get ?tbl1 j)" if "now \<le> t" for j t
  proof (cases "dict_get ?tbl1 j")
    case (Some ts)
    show ?thesis
    proof (cases "list_ex (\<lambda>t. now - t < auth_window_s) ts")
      case False
      then have "filter (\<lambda>x. t - x < auth_window_s) ts = []"
        using that by (fastforce simp: filter_empty_conv list_ex_iff)
      with False Some ok show ?thesis by (simp add: dict_get_filter)
    qed (use Some ok in \<open>simp add: dict_get_filter\<close>)
  qed (use ok in \<open>simp add: dict_get_filter\<close>)
  show "window_table now (hist @ [(ip, now)]) (snd (auth_rate_limited ip now tbl))"
    using ok new evict by (simp add: window_table_def auth_rate_limited_def Let_def)
qed

text \<open>The attempts that are let through, of a sequence of attempts.\<close>

fun let_through :: "(string \<times> rat) list \<Rightarrow> attempts \<Rightarrow> (string \<times> rat) list" where
  "let_through [] tbl = []"
| "let_through ((ip, now) # rest) tbl = (case auth_rate_limited ip now tbl of
     (limited, tbl') \<Rightarrow> if limited then let_through rest tbl' else (ip, now) # let_through rest tbl')"

definition in_window :: "string \<Rightarrow> rat \<Rightarrow> string \<times> rat \<Rightarrow> bool" where
  "in_window ip t0 a \<longleftrightarrow> fst a = ip \<and> t0 \<le> snd a \<and> snd a - t0 < auth_window_s"

lemma let_through_bound:
  assumes "window_table now hist tbl" "sorted (now # map snd atts)" "\<forall>a \<in> set hist. snd a \<le> now"
  shows "length (filter (in_window ip t0) (let_through atts tbl))
    \<le> auth_attempts_per_window - min auth_attempts_per_window (length (filter (in_window ip t0) hist))"
  using assms
proof (induction atts arbitrary: now hist tbl)
  case (Cons att atts)
  obtain j t where att: "att = (j, t)" by (cases att)
  obtain limited tbl' where step: "auth_rate_limited j t tbl = (limited, tbl')" by (rule prod.exhaust)
  note st = attempt_step [OF Cons.prems(1), of t j] 
  have le: "now \<le> t" using Cons.prems(2) by (simp add: att)
  have IH: "length (filter (in_window ip t0) (let_through atts tbl'))
    \<le> auth_attempts_per_window - min auth_attempts_per_window (length (filter (in_window ip t0) (hist @ [(j, t)])))"
    using Cons.IH [of t "hist @ [(j, t)]" tbl'] st(2) [OF le] Cons.prems(2,3) le step by (force simp: att)
  show ?case
  proof (cases "limited \<or> \<not> in_window ip t0 (j, t)")
    case True
    then show ?thesis using IH step by (auto simp: att)
  next
    case False
    then have "length (recent j t hist) < auth_attempts_per_window"
      using st(1) [OF le] step by simp
    moreover have "length (filter (in_window ip t0) hist) \<le> length (recent j t hist)"
    proof -
      have "length (filter (in_window ip t0) hist) = length (map snd (filter (in_window ip t0) hist))" by simp
      also have "\<dots> \<le> length (recent j t hist)"
      proof -
        have "filter (in_window ip t0) hist = filter (in_window ip t0) (filter (\<lambda>(i, x). i = j \<and> t - x < auth_window_s) hist)"
        proof -
          have "i = j \<and> t - x < auth_window_s" if "in_window ip t0 (i, x)" for i x
            using that False by (auto simp: in_window_def)
          then show ?thesis by (auto simp: filter_filter intro!: filter_cong)
        qed
        then have "length (map snd (filter (in_window ip t0) hist)) \<le> length (filter (\<lambda>(i, x). i = j \<and> t - x < auth_window_s) hist)"
          by (metis length_filter_le length_map)
        also have "\<dots> = length (recent j t hist)"
          by (simp add: recent_def filter_map comp_def split_def filter_filter conj_commute)
        finally show ?thesis .
      qed
      finally show ?thesis .
    qed
    ultimately show ?thesis using IH False step by (simp add: att)
  qed
qed simp

text \<open>
  Guessing is slowed down. Whatever the peers send, with a clock that does not run
  backwards the gateway lets at most 20 enrolment or authentication attempts of one address
  through in any 60 seconds, also when it has thrown out the entries of other addresses.
\<close>

theorem attempts_bounded:
  assumes "sorted (map snd atts)"
  shows "length (filter (\<lambda>(i, t). i = ip \<and> t0 \<le> t \<and> t < t0 + 60) (let_through atts [])) \<le> 20"
proof (cases atts)
  case (Cons att rest)
  have "window_table (snd att) [] []" by (simp add: window_table_def recent_def)
  from let_through_bound [OF this, of atts ip t0] assms Cons
  have "length (filter (in_window ip t0) (let_through atts [])) \<le> 20"
    by (simp add: auth_attempts_per_window_def)
  moreover have "in_window ip t0 = (\<lambda>(i, t). i = ip \<and> t0 \<le> t \<and> t < t0 + 60)"
    by (auto simp: in_window_def auth_window_s_def fun_eq_iff)
  ultimately show ?thesis by simp
qed simp

theorem attempts_bounded_witness:
  "length (filter (\<lambda>(i, t). i = ''10.0.0.1'' \<and> 0 \<le> t \<and> t < 0 + 60) (let_through (replicate 30 (''10.0.0.1'', 5)) [])) \<le> 20"
  by (rule attempts_bounded) simp

section \<open>A revoked agent is cut off\<close>

lemma revoked_stats: "is_agent_revoked v (record_session_stats now u e s) = is_agent_revoked v s"
  by (simp add: is_agent_revoked_def agent_by_uuid_def)

lemma revoked_heartbeat: "is_agent_revoked v s \<Longrightarrow> record_heartbeat fr tf now v params s = s"
  by (simp add: is_agent_revoked_def record_heartbeat_def split: option.splits)

lemma same_fleet [simp]:
  "gw_fleet (snd (abort_pcap_transfer f cg)) = gw_fleet (snd cg)"
  "gw_fleet (snd (on_pcap_chunk ev v ch cg)) = gw_fleet (snd cg)"
  "gw_fleet (snd (on_pcap_complete ev v f n cg)) = gw_fleet (snd cg)"
proof -
  show abort: "gw_fleet (snd (abort_pcap_transfer f cg)) = gw_fleet (snd cg)" for f cg
    by (simp add: abort_pcap_transfer_def split: prod.split option.split)
  show "gw_fleet (snd (on_pcap_chunk ev v ch cg)) = gw_fleet (snd cg)"
  proof (cases "transfer_for ev v ch cg")
    case (Some xg)
    then have "gw_fleet (snd xg) = gw_fleet (snd cg)"
      by (auto simp: transfer_for_def split: prod.splits option.splits)
    with Some show ?thesis by (cases xg) (simp add: on_pcap_chunk_def Let_def abort split: option.split)
  qed (simp add: on_pcap_chunk_def Let_def abort)
  show "gw_fleet (snd (on_pcap_complete ev v f n cg)) = gw_fleet (snd cg)"
    by (auto simp: on_pcap_complete_def Let_def split: prod.split option.split)
qed

lemma same_timers [simp]:
  "ac_last_check (fst (abort_pcap_transfer f cg)) = ac_last_check (fst cg)"
  "ac_last_check (fst (on_pcap_chunk ev v ch cg)) = ac_last_check (fst cg)"
  "ac_last_check (fst (on_pcap_complete ev v f n cg)) = ac_last_check (fst cg)"
proof -
  show abort: "ac_last_check (fst (abort_pcap_transfer f cg)) = ac_last_check (fst cg)" for f cg
    by (simp add: abort_pcap_transfer_def split: prod.split option.split)
  show "ac_last_check (fst (on_pcap_chunk ev v ch cg)) = ac_last_check (fst cg)"
    by (simp add: on_pcap_chunk_def Let_def abort split: prod.split option.split)
  show "ac_last_check (fst (on_pcap_complete ev v f n cg)) = ac_last_check (fst cg)"
    by (auto simp: on_pcap_complete_def Let_def split: prod.split option.split)
qed

lemma event_keeps:
  "ac_last_check (fst (handle_event ev now v msg cg)) = ac_last_check (fst cg)"
  "is_agent_revoked u (gw_fleet (snd (handle_event ev now v msg cg))) = is_agent_revoked u (gw_fleet (snd cg))"
  by (auto simp: handle_event_def Let_def revoked_stats split: option.split)

lemma serve_message_keeps:
  assumes "serve_message ev clock now v msg c g = (d, out, c', g')" "is_agent_revoked v (gw_fleet g)"
  shows "is_agent_revoked v (gw_fleet g')" "ac_last_check c' = ac_last_check c"
proof -
  have ev: "is_agent_revoked v (gw_fleet g1)" "ac_last_check c1 = ac_last_check c" if "handle_event ev now v msg (c, g) = (c1, g1)" for c1 g1
    using event_keeps(1) [of ev now v msg "(c, g)"] event_keeps(2) [of v ev now v msg "(c, g)"] that assms(2) by simp_all
  have ans: "ac_last_check (answer i m c) = ac_last_check c" for i m
    by (simp add: answer_def split: option.split)
  show "is_agent_revoked v (gw_fleet g')" "ac_last_check c' = ac_last_check c"
    using assms ev ans
    by (auto simp: serve_message_def serve_heartbeat_def Let_def revoked_heartbeat split: prod.splits if_splits option.splits)
qed

text \<open>
  A revoked agent is cut off. Once an agent is revoked, its open connection serves at
  most the frames that arrive within one second of the last check: what the agent sends from
  the first later frame on has no effect on the gateway and gets no reply but the refusal.
\<close>

theorem revoked_connection_cut_off:
  assumes "is_agent_revoked v (gw_fleet g)" and "ac_last_check c = Some t0"
    and "clock - t0 \<ge> 1" and "list_all (\<lambda>(t, _, _). t - t0 < 1) before"
  shows "snd (snd (serve_authenticated ev v (before @ (clock, now, a) # after) c g))
      = snd (snd (serve_authenticated ev v before c g))
    \<and> (\<exists>n. fst (serve_authenticated ev v (before @ (clock, now, a) # after) c g)
      = fst (serve_authenticated ev v before c g) @ take n [res_err (case a of Arrived (PDict m) \<Rightarrow> obj_get m ''id'' | _ \<Rightarrow> PNone) ''revoked''])"
  using assms(1,2,4)
proof (induction before arbitrary: c g)
  case Nil
  have due: "due clock (ac_last_check c)" using Nil(2) assms(3) by (simp add: due_def min_write_interval_s_def)
  show ?case
  proof (cases "\<exists>m. a = Arrived (PDict m) \<and> obj_get m ''type'' = PStr ''req''")
    case True
    then show ?thesis using Nil due
      by (auto simp: serve_frame_def Let_def split: arrival.split pyval.split intro: exI [of _ 1])
  next
    case False
    then show ?thesis using Nil due
      by (auto simp: serve_frame_def Let_def split: arrival.split pyval.split intro: exI [of _ 0])
  qed
next
  case (Cons x before)
  obtain t n b where x: "x = (t, n, b)" by (cases x)
  obtain d out c1 g1 where step: "serve_frame ev t n v b c g = (d, out, c1, g1)" by (metis prod_cases4)
  show ?case
  proof (cases d)
    case Ends
    then show ?thesis using step by (auto simp: x intro: exI [of _ 0])
  next
    case Goes_on
    have "\<not> due t (ac_last_check c)" using Cons.prems by (simp add: x due_def min_write_interval_s_def)
    then obtain m where "serve_message ev t n v m c g = (d, out, c1, g1)"
      using step Goes_on by (auto simp: serve_frame_def split: arrival.splits pyval.splits)
    from serve_message_keeps [OF this Cons.prems(1)]
    have "is_agent_revoked v (gw_fleet g1)" "ac_last_check c1 = Some t0" using Cons.prems(2) by simp_all
    from Cons.IH [OF this] Cons.prems(3) show ?thesis
      using step Goes_on by (auto simp: x split_def)
  qed
qed

theorem revoked_connection_cut_off_witness:
  "snd (snd (serve_authenticated demo_env ''u0'' ([] @ (7, 7, Arrived (PDict (chunk_msg ''u1'' ''x.pcap'' [1] 0))) # []) (new_conn\<lparr>ac_last_check := Some 5\<rparr>) demo_gateway))
    = demo_gateway"
proof -
  have "is_agent_revoked ''u0'' (gw_fleet demo_gateway)"
    by (simp add: is_agent_revoked_def agent_by_uuid_def first_row_def demo_gateway_def demo_remote_def demo_fleet_def demo_agent_def)
  from revoked_connection_cut_off [OF this, of "new_conn\<lparr>ac_last_check := Some 5\<rparr>" 5 7 "[]"]
  show ?thesis by simp
qed

section \<open>Replies to pushed commands\<close>

datatype conn_op = Op_push string pyval | Op_answer "(string, pyval) dict" | Op_done int

fun conn_apply :: "conn_op \<Rightarrow> agent_conn \<Rightarrow> agent_conn" where
  "conn_apply (Op_push meth params) c = snd (snd (push_send meth params c))"
| "conn_apply (Op_answer msg) c = answer (obj_get msg ''id'') (PDict msg) c"
| "conn_apply (Op_done k) c = c\<lparr>ac_pending := dict_pop k (ac_pending c)\<rparr>"

definition answers :: "conn_op list \<Rightarrow> (string, pyval) dict list" where
  "answers ops = List.map_filter (\<lambda>p. case p of Op_answer m \<Rightarrow> Some m | _ \<Rightarrow> None) ops"

lemma answers_simps [simp]: "answers [] = []" "answers (Op_answer m # ops) = m # answers ops"
  "answers (Op_push x y # ops) = answers ops" "answers (Op_done k # ops) = answers ops"
  by (simp_all add: answers_def List.map_filter_simps)

text \<open>No identifier that is pending or was given out lies ahead of the counter.\<close>

definition ids_used :: "agent_conn \<Rightarrow> bool" where
  "ids_used c \<longleftrightarrow> (\<forall>k. dict_get (ac_pending c) k \<noteq> None \<longrightarrow> k \<le> ac_next c)"

lemma ids_used_apply: "ids_used c \<Longrightarrow> ids_used (conn_apply p c)"
  by (cases p) (auto simp: ids_used_def push_send_def answer_def Let_def dict_get_set delete_conv' split: option.splits if_splits)

lemma ids_used_run: "ids_used c \<Longrightarrow> ids_used (fold conn_apply ops c)"
  by (induction ops arbitrary: c) (simp_all add: ids_used_apply)

lemma next_grows: "ac_next c \<le> ac_next (conn_apply p c)"
  by (cases p) (auto simp: push_send_def answer_def Let_def split: option.split)

lemma reply_kept:
  assumes "k \<le> ac_next c" "Op_done k \<notin> set ops" "dict_get (ac_pending c) k = Some r"
  shows "dict_get (ac_pending (fold conn_apply ops c)) k = Some (case r of Some m \<Rightarrow> Some m
    | None \<Rightarrow> map_option PDict (find (\<lambda>m. id_key (obj_get m ''id'') = Some k) (answers ops)))"
  using assms
proof (induction ops arbitrary: c r)
  case (Cons p ops)
  have le: "k \<le> ac_next (conn_apply p c)" using Cons.prems(1) next_grows [of c p] by linarith
  show ?case
  proof (cases p)
    case (Op_push meth params)
    have "dict_get (ac_pending (conn_apply p c)) k = Some r"
      using Cons.prems by (simp add: Op_push push_send_def Let_def)
    from Cons.IH [OF le _ this] Cons.prems(2) show ?thesis by (simp add: Op_push split: option.split)
  next
    case (Op_answer m)
    define r' where "r' = (if r = None \<and> id_key (obj_get m ''id'') = Some k then Some (PDict m) else r)"
    have "dict_get (ac_pending (conn_apply p c)) k = Some r'"
      using Cons.prems(3) by (auto simp: Op_answer answer_def r'_def dict_get_set split: option.split)
    from Cons.IH [OF le _ this] Cons.prems(2) show ?thesis by (auto simp: Op_answer r'_def split: option.split)
  next
    case (Op_done j)
    then have "dict_get (ac_pending (conn_apply p c)) k = Some r" using Cons.prems by auto
    from Cons.IH [OF le _ this] Cons.prems(2) show ?thesis by (simp add: Op_done split: option.split)
  qed
qed (simp split: option.split)

text \<open>
  A pushed command gets its own reply. On one connection, with any number of other
  commands, replies and completions in between and before, what a command finds under its
  identifier is the first message sent after it that carries that identifier, and nothing
  when there is none: replies to other commands, earlier or concurrent, never answer it.
\<close>

theorem push_gets_own_reply:
  assumes "push_send meth params (fold conn_apply before new_conn) = (k, frame, c)" and "Op_done k \<notin> set ops"
  shows "dict_get (ac_pending (fold conn_apply ops c)) k
    = Some (map_option PDict (find (\<lambda>m. id_key (obj_get m ''id'') = Some k) (answers ops)))
    \<and> dict_get (ac_pending (fold conn_apply before new_conn)) k = None"
proof -
  let ?c0 = "fold conn_apply before new_conn"
  have used: "ids_used ?c0" by (rule ids_used_run) (simp add: ids_used_def new_conn_def)
  have k: "k = ac_next ?c0 + 1" "dict_get (ac_pending c) k = Some None" "k \<le> ac_next c"
    using assms(1) by (auto simp: push_send_def Let_def)
  have "dict_get (ac_pending ?c0) k = None"
    using used k(1) unfolding ids_used_def by fastforce
  with reply_kept [OF k(3) assms(2) k(2)] show ?thesis by simp
qed

theorem push_gets_own_reply_witness:
  "dict_get (ac_pending (fold conn_apply [Op_push ''stop'' PNone, Op_answer [(''id'', PInt 3)], Op_answer [(''id'', PInt 2)]]
     (snd (snd (push_send ''start'' PNone new_conn))))) 2 = Some (Some (PDict [(''id'', PInt 2)]))"
proof -
  have "push_send ''start'' PNone (fold conn_apply [] new_conn) = (2, fst (snd (push_send ''start'' PNone new_conn)), snd (snd (push_send ''start'' PNone new_conn)))"
    by (simp add: push_send_def new_conn_def Let_def)
  from push_gets_own_reply [OF this, of "[Op_push ''stop'' PNone, Op_answer [(''id'', PInt 3)], Op_answer [(''id'', PInt 2)]]"]
  show ?thesis by (simp add: obj_get_def id_key_def)
qed

section \<open>The table of connections\<close>

definition link_at :: "hub \<Rightarrow> nat \<Rightarrow> phase \<Rightarrow> bool" where
  "link_at h n p \<longleftrightarrow> n < length (hb_links h) \<and> lk_phase (hb_links h ! n) = p"

inductive hub_step :: "hub \<Rightarrow> hub \<Rightarrow> bool" where
  accept: "hub_step h (hub_accept h)"
| auth: "link_at h n Waiting \<Longrightarrow> hub_step h (hub_auth n who s' h)"
| reply_failed: "link_at h n (Authed u) \<Longrightarrow> hub_step h (hub_reply_failed n h)"
| register: "link_at h n (Authed u) \<Longrightarrow> hub_step h (hub_register n u h)"
| ends: "link_at h n (Live u) \<Longrightarrow> hub_step h (hub_end n u h)"
| offline: "link_at h n (Leaving u) \<Longrightarrow> hub_step h (hub_offline n u h)"
| disconnect: "hub_step h (snd (disconnect_agent u h))"
| serving: "hub_step h (h\<lparr>hb_fleet := s'\<rparr>)"

definition hub_ok :: "hub \<Rightarrow> bool" where
  "hub_ok h \<longleftrightarrow> (\<forall>u n. dict_get (hb_table h) u = Some n \<longrightarrow> link_at h n (Live u))
     \<and> (\<forall>u n. link_at h n (Live u) \<and> lk_open (hb_links h ! n) \<longrightarrow> dict_get (hb_table h) u = Some n)"

lemma link_set_phase: "n < length (hb_links h) \<Longrightarrow> link_at (set_phase n p h) m q \<longleftrightarrow> (if m = n then p = q else link_at h m q)"
  by (auto simp: link_at_def set_phase_def nth_list_update)

lemma link_close: "link_at (close_link n h) m q \<longleftrightarrow> link_at h m q"
  by (cases "n < length (hb_links h)") (auto simp: link_at_def close_link_def nth_list_update)

lemma open_set_phase: "lk_open (hb_links (set_phase n p h) ! m) = lk_open (hb_links h ! m)"
  by (cases "n < length (hb_links h)") (simp_all add: set_phase_def nth_list_update list_update_beyond)

lemma open_close: "m < length (hb_links h) \<Longrightarrow> lk_open (hb_links (close_link n h) ! m) = (m \<noteq> n \<and> lk_open (hb_links h ! m))"
  by (cases "n < length (hb_links h)") (auto simp: close_link_def nth_list_update list_update_beyond)

lemma hub_fields [simp]: "hb_table (set_phase n p h) = hb_table h" "hb_table (close_link n h) = hb_table h"
  "length (hb_links (set_phase n p h)) = length (hb_links h)" "length (hb_links (close_link n h)) = length (hb_links h)"
  "hb_links (h\<lparr>hb_table := t\<rparr>) = hb_links h" "hb_links (h\<lparr>hb_fleet := s\<rparr>) = hb_links h"
  by (simp_all add: set_phase_def close_link_def)

lemma link_other [simp]: "link_at (h\<lparr>hb_table := t\<rparr>) n p = link_at h n p" "link_at (h\<lparr>hb_fleet := s\<rparr>) n p = link_at h n p"
  by (simp_all add: link_at_def)

lemmas hub_facts = link_set_phase link_close open_set_phase open_close

lemma link_length: "link_at h n p \<Longrightarrow> n < length (hb_links h)"
  by (simp add: link_at_def)

lemma hub_okI:
  assumes "\<And>u n. dict_get (hb_table h) u = Some n \<Longrightarrow> link_at h n (Live u)"
    and "\<And>u n. link_at h n (Live u) \<Longrightarrow> lk_open (hb_links h ! n) \<Longrightarrow> dict_get (hb_table h) u = Some n"
  shows "hub_ok h"
  using assms unfolding hub_ok_def by blast

lemma hub_ok_entry: "hub_ok h \<Longrightarrow> dict_get (hb_table h) u = Some n \<Longrightarrow> link_at h n (Live u)"
  unfolding hub_ok_def by blast

lemma hub_ok_open: "hub_ok h \<Longrightarrow> link_at h n (Live u) \<Longrightarrow> lk_open (hb_links h ! n) \<Longrightarrow> dict_get (hb_table h) u = Some n"
  unfolding hub_ok_def by blast

lemma link_fun: "link_at h n p \<Longrightarrow> link_at h n q \<Longrightarrow> p = q"
  by (simp add: link_at_def)

lemma hub_ok_phase:
  assumes "hub_ok h" "n < length (hb_links h)" "\<forall>u. dict_get (hb_table h) u \<noteq> Some n" "\<forall>u. p \<noteq> Live u"
  shows "hub_ok (set_phase n p h)"
  using assms(2-4)
  by (intro hub_okI) (auto simp: hub_facts split: if_splits dest: hub_ok_entry [OF assms(1)] hub_ok_open [OF assms(1)])

lemma hub_ok_close:
  assumes "hub_ok h"
  shows "hub_ok (close_link n h)"
proof (rule hub_okI)
  fix u m assume "dict_get (hb_table (close_link n h)) u = Some m"
  then show "link_at (close_link n h) m (Live u)" using hub_ok_entry [OF assms] by (simp add: link_close)
next
  fix u m assume m: "link_at (close_link n h) m (Live u)" "lk_open (hb_links (close_link n h) ! m)"
  then have l: "link_at h m (Live u)" by (simp add: link_close)
  then have "lk_open (hb_links h ! m)" using m(2) link_length [OF l] by (simp add: open_close)
  from hub_ok_open [OF assms l this] show "dict_get (hb_table (close_link n h)) u = Some m" by simp
qed

lemma hub_ok_fleet [simp]: "hub_ok (h\<lparr>hb_fleet := s\<rparr>) = hub_ok h"
  by (simp add: hub_ok_def)

lemma not_entry:
  assumes "hub_ok h" "link_at h n p" "\<forall>u. p \<noteq> Live u"
  shows "\<forall>u. dict_get (hb_table h) u \<noteq> Some n"
  using hub_ok_entry [OF assms(1)] link_fun [OF assms(2)] assms(3) by blast

lemma hub_ok_register:
  assumes "hub_ok h" "link_at h n (Authed u)"
  shows "hub_ok (hub_register n u h)"
proof -
  have n: "n < length (hb_links h)" using assms(2) by (rule link_length)
  have free: "\<forall>v. dict_get (hb_table h) v \<noteq> Some n" by (rule not_entry [OF assms]) simp
  have dead: "\<not> link_at h n (Live v)" for v using link_fun [OF assms(2)] by blast
  let ?h = "set_phase n (Live u) (h\<lparr>hb_table := dict_set u n (hb_table h)\<rparr>)"
  have entry: "link_at ?h m (Live v)" if "dict_get (hb_table ?h) v = Some m" for v m
    using that n free hub_ok_entry [OF assms(1), of v m] by (auto simp: hub_facts dict_get_set split: if_splits)
  have opens: "dict_get (hb_table ?h) v = Some m \<or> (v = u \<and> dict_get (hb_table h) u = Some m)"
    if "link_at ?h m (Live v)" "lk_open (hb_links ?h ! m)" for v m
    using that n hub_ok_open [OF assms(1), of m v] by (auto simp: hub_facts dict_get_set split: if_splits)
  show ?thesis
  proof (cases "dict_get (hb_table h) u")
    case None
    have "hub_ok ?h"
    proof (rule hub_okI)
      fix v m assume "dict_get (hb_table ?h) v = Some m"
      then show "link_at ?h m (Live v)" by (rule entry)
    next
      fix v m assume "link_at ?h m (Live v)" "lk_open (hb_links ?h ! m)"
      from opens [OF this] None show "dict_get (hb_table ?h) v = Some m" by simp
    qed
    then show ?thesis using None by (simp add: hub_register_def Let_def)
  next
    case (Some old)
    have "hub_ok (close_link old ?h)"
    proof (rule hub_okI)
      fix v m assume "dict_get (hb_table (close_link old ?h)) v = Some m"
      then show "link_at (close_link old ?h) m (Live v)" using entry by (simp add: link_close)
    next
      fix v m assume m: "link_at (close_link old ?h) m (Live v)" "lk_open (hb_links (close_link old ?h) ! m)"
      then have "link_at ?h m (Live v)" by (simp add: link_close)
      moreover from link_length [OF this] have "m \<noteq> old" "lk_open (hb_links ?h ! m)" using m(2) by (simp_all add: open_close)
      ultimately show "dict_get (hb_table (close_link old ?h)) v = Some m" using opens Some by fastforce
    qed
    then show ?thesis using Some by (simp add: hub_register_def Let_def)
  qed
qed

lemma hub_ok_end:
  assumes "hub_ok h" "link_at h n (Live u)"
  shows "hub_ok (hub_end n u h)"
proof -
  have n: "n < length (hb_links h)" using assms(2) by (rule link_length)
  have only: "v = u" if "dict_get (hb_table h) v = Some n" for v
    using link_fun [OF assms(2) hub_ok_entry [OF assms(1) that]] by simp
  show ?thesis
  proof (cases "dict_get (hb_table h) u = Some n")
    case True
    have "hub_ok (set_phase n (Leaving u) (h\<lparr>hb_table := dict_pop u (hb_table h)\<rparr>))"
    proof (rule hub_okI)
      fix v m assume a: "dict_get (hb_table (set_phase n (Leaving u) (h\<lparr>hb_table := dict_pop u (hb_table h)\<rparr>))) v = Some m"
      then have "v \<noteq> u" "dict_get (hb_table h) v = Some m" by (auto simp: delete_conv' split: if_splits)
      then show "link_at (set_phase n (Leaving u) (h\<lparr>hb_table := dict_pop u (hb_table h)\<rparr>)) m (Live v)"
        using n only hub_ok_entry [OF assms(1)] by (auto simp: hub_facts)
    next
      fix v m assume "link_at (set_phase n (Leaving u) (h\<lparr>hb_table := dict_pop u (hb_table h)\<rparr>)) m (Live v)"
        "lk_open (hb_links (set_phase n (Leaving u) (h\<lparr>hb_table := dict_pop u (hb_table h)\<rparr>)) ! m)"
      then have "m \<noteq> n" "dict_get (hb_table h) v = Some m"
        using n hub_ok_open [OF assms(1)] by (auto simp: hub_facts split: if_splits)
      then show "dict_get (hb_table (set_phase n (Leaving u) (h\<lparr>hb_table := dict_pop u (hb_table h)\<rparr>))) v = Some m"
        using True by (auto simp: delete_conv')
    qed
    then show ?thesis using True by (simp add: hub_end_def)
  next
    case False
    then have "\<forall>v. dict_get (hb_table h) v \<noteq> Some n" using only by auto
    then have "hub_ok (set_phase n Over h)" using assms(1) n by (intro hub_ok_phase) auto
    with False show ?thesis by (simp add: hub_end_def hub_ok_close)
  qed
qed

lemma hub_ok_over:
  assumes "hub_ok h" "link_at h n q" "\<forall>u. q \<noteq> Live u" "\<forall>u. p \<noteq> Live u"
  shows "hub_ok (set_phase n p (h\<lparr>hb_fleet := s\<rparr>))" "hub_ok (set_phase n p h)"
  using hub_ok_phase [of "h\<lparr>hb_fleet := s\<rparr>" n p] hub_ok_phase [of h n p] not_entry [OF assms(1-3)] assms link_length
  by auto

lemma hub_step_ok: "hub_step h h' \<Longrightarrow> hub_ok h \<Longrightarrow> hub_ok h'"
proof (induction rule: hub_step.induct)
  case (accept h)
  have same: "link_at (hub_accept h) m (Live v) = link_at h m (Live v)" "hb_table (hub_accept h) = hb_table h" for m v
    by (auto simp: hub_accept_def link_at_def nth_append less_Suc_eq)
  have old: "m < length (hb_links h) \<Longrightarrow> hb_links (hub_accept h) ! m = hb_links h ! m" for m
    by (simp add: hub_accept_def nth_append)
  show ?case
  proof (rule hub_okI)
    fix u m assume "dict_get (hb_table (hub_accept h)) u = Some m"
    then show "link_at (hub_accept h) m (Live u)" unfolding same by (rule hub_ok_entry [OF accept])
  next
    fix u m assume m: "link_at (hub_accept h) m (Live u)" "lk_open (hb_links (hub_accept h) ! m)"
    then have l: "link_at h m (Live u)" unfolding same by simp
    from hub_ok_open [OF accept l] m(2) old [OF link_length [OF l]] show "dict_get (hb_table (hub_accept h)) u = Some m"
      unfolding same by simp
  qed
next
  case (auth h n who s')
  then show ?case by (auto simp: hub_auth_def intro: hub_ok_close hub_ok_over(1) split: option.split)
next
  case (reply_failed h n u)
  then show ?case by (auto simp: hub_reply_failed_def intro: hub_ok_close hub_ok_over(2))
next
  case (offline h n u)
  then show ?case by (auto simp: hub_offline_def intro: hub_ok_close hub_ok_over(1))
next
  case (disconnect h u)
  then show ?case by (simp add: disconnect_agent_def hub_ok_close split: option.split)
qed (auto intro: hub_ok_register hub_ok_end)

lemma hub_steps_ok: "hub_step\<^sup>*\<^sup>* h h' \<Longrightarrow> hub_ok h \<Longrightarrow> hub_ok h'"
  by (induction rule: rtranclp.induct) (auto intro: hub_step_ok)

definition hub_start :: "fleet \<Rightarrow> hub" where
  "hub_start s = \<lparr>hb_links = [], hb_table = [], hb_fleet = s\<rparr>"

text \<open>
  C38. One connection per agent. However the handlers of all connections interleave, in every
  reachable state every entry of the table is a connection in the read loop of that agent
  (possibly one whose writer \<open>disconnect_agent\<close> or a newer connection has closed), and every
  open connection in a read loop is the entry of its agent: two open connections that are served
  never belong to the same agent.
\<close>

theorem one_connection_per_agent:
  assumes "hub_step\<^sup>*\<^sup>* (hub_start s) h"
  shows "(dict_get (hb_table h) u = Some m \<longrightarrow> link_at h m (Live u))
    \<and> (link_at h n (Live u) \<and> lk_open (hb_links h ! n) \<longrightarrow> dict_get (hb_table h) u = Some n)"
proof -
  have "hub_ok (hub_start s)" by (simp add: hub_ok_def hub_start_def link_at_def)
  note ok = hub_steps_ok [OF assms this]
  show ?thesis using hub_ok_entry [OF ok] hub_ok_open [OF ok] by blast
qed

theorem one_connection_per_agent_witness:
  "\<exists>h. hub_step\<^sup>*\<^sup>* (hub_start demo_fleet) h \<and> link_at h 0 (Live ''u1'')
     \<and> dict_get (hb_table h) ''u1'' = Some 0"
proof -
  let ?h1 = "hub_accept (hub_start demo_fleet)" and ?s = "snd (authenticate_agent demo_digest 5 ''u1'' ''s'' None demo_fleet)"
  let ?h2 = "hub_auth 0 (Some ''u1'') ?s ?h1"
  let ?h3 = "hub_register 0 ''u1'' ?h2"
  have "hub_step (hub_start demo_fleet) ?h1" by (rule accept)
  moreover have "hub_step ?h1 ?h2" by (rule auth) (simp add: link_at_def hub_accept_def hub_start_def)
  moreover have "hub_step ?h2 ?h3"
    by (rule register) (simp add: link_at_def hub_accept_def hub_start_def hub_auth_def set_phase_def)
  ultimately have run: "hub_step\<^sup>*\<^sup>* (hub_start demo_fleet) ?h3" by (meson converse_rtranclp_into_rtranclp rtranclp.rtrancl_refl)
  have "link_at ?h3 0 (Live ''u1'') \<and> lk_open (hb_links ?h3 ! 0)"
    by (simp add: link_at_def hub_accept_def hub_start_def hub_auth_def set_phase_def hub_register_def Let_def)
  with one_connection_per_agent [OF run, of "''u1''" 0 0] run show ?thesis by blast
qed

lemma demo_auth_run:
  assumes "ga_uuid ag = ''u1''" "ga_id ag = 1" "ga_status ag \<noteq> ''revoked''"
  shows "authenticate_agent demo_digest 5 ''u1'' ''s'' None (demo_fleet\<lparr>fl_agents := [(1, ag)], published := ps\<rparr>) = (Inr 1,
    demo_fleet\<lparr>fl_agents := [(1, ag\<lparr>ga_status := ''online'', ga_seen := Some 5\<rparr>)],
      published := ps @ [(''u1'', ga_project ag, ''online'')]\<rparr>)"
  using assms
  by (simp add: authenticate_agent_def Let_def demo_fleet_def demo_cred_def demo_digest_def agent_by_uuid_def first_row_def
      live_cred_def non_empty_def publish_status_def put_agent_def)

lemma hub_run:
  assumes "old = hub_register 0 u (hub_auth 0 (Some u) f1 (hub_accept (hub_start f0)))"
    and "both = hub_auth 1 (Some u) f2 (hub_accept old)"
    and "h = hub_offline 0 u (hub_register 1 u (hub_end 0 u both))"
  shows "hb_fleet old = f1" "link_at h 1 (Live u)" "lk_open (hb_links h ! 1)" "dict_get (hb_table h) u = Some 1"
    "hb_fleet h = mark_offline u f2"
  using assms
  by (simp_all add: hub_accept_def hub_start_def hub_auth_def set_phase_def hub_register_def hub_end_def hub_offline_def
      close_link_def link_at_def)

text \<open>
  A reconnect can leave a live agent offline. An old connection whose cleanup runs
  after the new one has authenticated, but before the new one is in the table, still finds
  itself current: its mark comes last and the agent is shown offline while its new connection
  is registered, open and served.
\<close>

theorem reconnect_marked_offline:
  "let auth = (\<lambda>n h. hub_auth n (Some ''u1'') (snd (authenticate_agent demo_digest 5 ''u1'' ''s'' None (hb_fleet h))) h);
       old = hub_register 0 ''u1'' (auth 0 (hub_accept (hub_start demo_fleet)));
       both = auth 1 (hub_accept old);
       h = hub_offline 0 ''u1'' (hub_register 1 ''u1'' (hub_end 0 ''u1'' both))
   in fst (authenticate_agent demo_digest 5 ''u1'' ''s'' None (hb_fleet old)) = Inr 1
      \<and> link_at h 1 (Live ''u1'') \<and> lk_open (hb_links h ! 1) \<and> dict_get (hb_table h) ''u1'' = Some 1
      \<and> map_option ga_status (agent_by_uuid ''u1'' (hb_fleet h)) = Some ''offline''"
proof -
  let ?a1 = "demo_agent\<lparr>ga_status := ''online'', ga_seen := Some 5\<rparr>"
  let ?f1 = "demo_fleet\<lparr>fl_agents := [(1, ?a1)], published := [(''u1'', 3, ''online'')]\<rparr>"
  let ?f2 = "demo_fleet\<lparr>fl_agents := [(1, ?a1)], published := [(''u1'', 3, ''online''), (''u1'', 3, ''online'')]\<rparr>"
  have start: "demo_fleet = demo_fleet\<lparr>fl_agents := [(1, demo_agent)], published := []\<rparr>" by (simp add: demo_fleet_def)
  have f1: "authenticate_agent demo_digest 5 ''u1'' ''s'' None demo_fleet = (Inr 1, ?f1)"
    by (subst start, subst demo_auth_run) (simp_all add: demo_agent_def)
  have f2: "authenticate_agent demo_digest 5 ''u1'' ''s'' None ?f1 = (Inr 1, ?f2)"
    by (subst demo_auth_run) (simp_all add: demo_agent_def)
  have off: "map_option ga_status (agent_by_uuid ''u1'' (mark_offline ''u1'' ?f2)) = Some ''offline''"
    by (simp add: mark_offline_def agent_by_uuid_def first_row_def demo_agent_def publish_status_def put_agent_def Let_def)
  have fleet0: "hb_fleet (hub_start demo_fleet) = demo_fleet" by (simp add: hub_start_def)
  have acc: "hb_fleet (hub_accept h) = hb_fleet h" for h by (simp add: hub_accept_def)
  show ?thesis
    using off by (simp add: Let_def acc f1 f2 hub_run [OF refl refl refl, unfolded One_nat_def] fleet0)
qed

end
