(* ===== verification/AgentSafety.thy ===== *)
theory AgentSafety
  imports AgentClient
begin

text \<open>
  What the agent keeps across lost links: a capture file whose shipment has begun and that is still
  on the disk is in the spool, as long as file names differ; and what it does not keep.
\<close>

section \<open>The spool\<close>


definition of_sessions :: "string set \<Rightarrow> (string \<Rightarrow> string) \<Rightarrow> (string \<times> string) list \<Rightarrow> bool" where
  "of_sessions P sess ts \<longleftrightarrow> list_all (\<lambda>(p, sid). p \<in> P \<and> sid = sess p) ts"


definition spool_entry :: "(string \<Rightarrow> string) \<Rightarrow> string \<Rightarrow> spool_ref" where
  "spool_entry sess p = \<lparr>sp_session = sess p, sp_filename = py_basename p, sp_path = p\<rparr>"

definition spool_ok :: "string set \<Rightarrow> (string \<Rightarrow> string) \<Rightarrow> string set \<Rightarrow> agent \<Rightarrow> bool" where
  "spool_ok P sess H a \<longleftrightarrow> H \<subseteq> P \<and> of_sessions P sess (ag_tasks a)
     \<and> (\<forall>e r. dict_get (ag_spool a) e = Some r \<longrightarrow> sp_path r \<in> P \<and> r = spool_entry sess (sp_path r) \<and> e = spool_name (py_basename (sp_path r)))
     \<and> (\<forall>p \<in> H. dict_get (ag_files a) p \<noteq> None \<longrightarrow>
          dict_get (ag_spool a) (spool_name (py_basename p)) = Some (spool_entry sess p) \<or> (p, sess p) \<in> set (ag_tasks a))"

lemma spool_name_inj [simp]: "spool_name x = spool_name y \<longleftrightarrow> x = y"
  by (simp add: spool_name_def)









lemma spool_ok_same [simp]:
  "spool_ok P sess H (link_up a) = spool_ok P sess H a" "spool_ok P sess H (cmd_start sid a) = spool_ok P sess H a"
  by (simp_all add: spool_ok_def link_up_def cmd_start_def)




definition demo_capturer :: agent where
  "demo_capturer = \<lparr>ag_linked = False, ag_files = [(''/s1/x.pcap'', [1]), (''/s2/x.pcap'', [2])], ag_spool = [], ag_sent = [],
     ag_sessions = [], ag_tasks = [], ag_error = None, ag_backoff = 1\<rparr>"

definition demo_stop :: "(string, pyval) dict" where
  "demo_stop = [(''files_closed'', PList [PStr ''/s1/x.pcap''])]"



text \<open>
  A shipment that is cancelled before it begins is lost. When the link goes down between the
  spawning of a shipment and its first turn, the file is on the disk, nothing of it was sent, and
  neither the spool nor a task refers to it.
\<close>

theorem waiting_shipment_lost:
  "let a = link_down False (cmd_stop ''s1'' demo_stop (demo_capturer\<lparr>ag_linked := True\<rparr>))
   in dict_get (ag_files a) ''/s1/x.pcap'' = Some [1] \<and> ag_spool a = [] \<and> ag_tasks a = [] \<and> ag_sent a = []"
  by (simp add: cmd_stop_def spawn_ships_def demo_stop_def demo_capturer_def link_down_def obj_get_def py_or_def Let_def)

text \<open>
  The spool is indexed by the file's name alone. When two sessions have a file of the
  same name to spool, the second reference replaces the first: after the next connection has
  flushed the spool, the first file is on the disk, was not sent, and nothing refers to it.
\<close>

theorem spooled_reference_replaced:
  "let a = ship_pcap ''/s2/x.pcap'' ''s2'' None (ship_pcap ''/s1/x.pcap'' ''s1'' None demo_capturer);
       b = flush_spool (\<lambda>x. x) (\<lambda>_. None) (link_up a)
   in dict_get (ag_files b) ''/s1/x.pcap'' = Some [1] \<and> ag_spool b = [] \<and> ag_sent b = pcap_frames ''s2'' ''x.pcap'' [2]"
  by (simp add: ship_pcap_def send_pcap_def spool_pcap_ref_def demo_capturer_def py_basename_def flush_spool_def flush_entry_def
      link_up_def spool_name_def py_endswith_def Let_def)

section \<open>Sessions across a reconnect\<close>

text \<open>
  A reconnect forgets the running sessions. After the link was lost and restored, no
  status of a session that still runs makes its reporter send statistics or ship a file: the
  reporter is gone, for every session that was running.
\<close>

theorem reconnect_silences_sessions:
  "fold (reporter_tick session_id) statuses (link_up (link_down clean (cmd_start session_id a)))
     = link_up (link_down clean (cmd_start session_id a))"
proof -
  have gone: "reporter_tick session_id st b = b" if "ag_sessions b = []" for st b
    using that by (simp add: reporter_tick_def)
  have "ag_sessions b = [] \<Longrightarrow> fold (reporter_tick session_id) sts b = b" for sts b
    by (induction sts) (simp_all add: gone)
  then show ?thesis by (simp add: link_up_def)
qed

end
