(* ===== verification/Aggregate.thy ===== *)
theory Aggregate
  imports PyVal "HOL-Library.List_Lexorder" "HOL-Library.Char_ord" "HOL-Library.Product_Lexorder"
begin

text \<open>
  The roll-up of a project's reports, \<open>marlinspike/aggregate.py\<close>: assets and findings are
  identified across reports and counted. A report is first read into the fields the loops use;
  \<open>None\<close> means that an exception leaves the function. Time stamps are taken to be text.
  \<open>fr\<close> and \<open>to_float\<close> are \<open>str\<close> and \<open>float\<close> on numbers.
\<close>

section \<open>Reading a report\<close>

definition severities :: "string list" where
  "severities = [''CRITICAL'', ''HIGH'', ''MEDIUM'', ''LOW'', ''INFO'']"

definition norm_severity :: "(rat \<Rightarrow> string) \<Rightarrow> pyval \<Rightarrow> string" where
  "norm_severity fr value = (let s = py_strip (py_upper (py_str fr (py_or value (PStr [])))) in
     if s \<in> set severities then s else ''MEDIUM'')"

definition coerce_int :: "pyval \<Rightarrow> int" where
  "coerce_int value = (case py_int value of None \<Rightarrow> 0 | Some i \<Rightarrow> i)"

text \<open>\<open>x or ""\<close> where a string method is called on the result.\<close>

definition str_or_empty :: "pyval \<Rightarrow> string option" where
  "str_or_empty v = (case py_or v (PStr []) of PStr s \<Rightarrow> Some s | _ \<Rightarrow> None)"

definition iter_or_empty :: "pyval \<Rightarrow> pyval list option" where
  "iter_or_empty v = py_iter (py_or v (PList []))"

text \<open>A node: its address keys, and what it adds to the sets of its asset.\<close>

record node =
  nd_mac :: string
  nd_ip :: string
  nd_macs :: "string set"
  nd_ips :: "string set"
  nd_roles :: "string set"
  nd_vendors :: "string set"
  nd_types :: "string set"
  nd_purdue :: "int set"
  nd_protocols :: "string set"

definition str_if :: "(rat \<Rightarrow> string) \<Rightarrow> pyval \<Rightarrow> string set" where
  "str_if fr v = (if truthy v then {py_str fr v} else {})"

definition node_of :: "(rat \<Rightarrow> string) \<Rightarrow> pyval \<Rightarrow> node option" where
  "node_of fr v = (case v of
       PDict d \<Rightarrow>
         (case (str_or_empty (obj_get d ''mac''), str_or_empty (obj_get d ''ip''), iter_or_empty (obj_get d ''protocols'')) of
            (Some mac, Some ip, Some protos) \<Rightarrow>
              Some \<lparr>nd_mac = py_lower (py_strip mac), nd_ip = py_strip ip,
                nd_macs = (if mac \<noteq> [] then {py_lower mac} else {}), nd_ips = (if ip \<noteq> [] then {ip} else {}),
                nd_roles = str_if fr (obj_get d ''role''), nd_vendors = str_if fr (obj_get d ''vendor''),
                nd_types = str_if fr (obj_get d ''device_type''),
                nd_purdue = (if obj_get d ''purdue_level'' \<noteq> PNone then {coerce_int (obj_get d ''purdue_level'')} else {}),
                nd_protocols = set (map (py_str fr) protos)\<rparr>
          | _ \<Rightarrow> None)
     | _ \<Rightarrow> None)"

type_synonym finding_id = "string \<times> string list \<times> string list"

record finding =
  fd_key :: finding_id
  fd_severity :: string
  fd_description :: string
  fd_remediation :: string
  fd_source :: string
  fd_cvss :: rat
  fd_attacks :: "string list"

definition text_or :: "(rat \<Rightarrow> string) \<Rightarrow> pyval \<Rightarrow> string \<Rightarrow> string" where
  "text_or fr v dflt = py_str fr (py_or v (PStr dflt))"

definition finding_key :: "(rat \<Rightarrow> string) \<Rightarrow> (string, pyval) dict \<Rightarrow> finding_id option" where
  "finding_key fr d =
     (case (iter_or_empty (obj_get d ''affected_nodes''), iter_or_empty (obj_get d ''affected_edges'')) of
        (Some ns, Some es) \<Rightarrow> Some (py_upper (py_strip (text_or fr (obj_get d ''category'') [])),
          sort (map (py_str fr) ns), sort (map (py_str fr) es))
      | _ \<Rightarrow> None)"

text \<open>An entry of \<open>risk_findings\<close> that is not an object is skipped, as the empty list.\<close>

definition finding_of :: "(rat \<Rightarrow> string) \<Rightarrow> (pyval \<Rightarrow> rat option) \<Rightarrow> pyval \<Rightarrow> finding list option" where
  "finding_of fr to_float v = (case v of
       PDict d \<Rightarrow>
         (case (finding_key fr d, to_float (py_or (obj_get d ''cvss_impact'') (PFloat 0)),
                iter_or_empty (py_or (obj_get d ''attack_ids'') (obj_get d ''attack_techniques''))) of
            (Some k, Some cvss, Some tids) \<Rightarrow>
              Some [\<lparr>fd_key = k, fd_severity = norm_severity fr (obj_get d ''severity''),
                fd_description = text_or fr (obj_get d ''description'') [], fd_remediation = text_or fr (obj_get d ''remediation'') [],
                fd_source = text_or fr (obj_get d ''source'') ''engine'', fd_cvss = cvss,
                fd_attacks = filter (\<lambda>s. s \<noteq> []) (map (\<lambda>t. py_upper (py_strip (py_str fr t))) tids)\<rparr>]
          | _ \<Rightarrow> None)
     | _ \<Rightarrow> Some [])"

record report =
  rp_name :: string
  rp_modified :: string
  rp_profile :: string
  rp_stamp :: string
  rp_start :: string
  rp_end :: string
  rp_protocols :: "(string \<times> int) list"
  rp_nodes :: "node list"
  rp_findings :: "finding list"

text \<open>What the caller says of a path; an empty text is a missing entry.\<close>

record meta =
  mt_filename :: string
  mt_modified :: string
  mt_profile :: string

definition protocols_of :: "(rat \<Rightarrow> string) \<Rightarrow> pyval \<Rightarrow> (string \<times> int) list option" where
  "protocols_of fr v = (case py_or v (PDict []) of
       PDict ps \<Rightarrow> Some (filter (\<lambda>(n, _). n \<noteq> []) (map (\<lambda>(k, c). (py_strip k, coerce_int c)) ps))
     | _ \<Rightarrow> None)"

definition report_of ::
    "(rat \<Rightarrow> string) \<Rightarrow> (pyval \<Rightarrow> rat option) \<Rightarrow> string \<Rightarrow> meta \<Rightarrow> (string, pyval) dict \<Rightarrow> report option" where
  "report_of fr to_float path m d =
     (case py_or (obj_get d ''capture_info'') (PDict []) of
        PDict cap \<Rightarrow>
          (case (str_or_empty (obj_get d ''timestamp_end''), str_or_empty (obj_get d ''timestamp_start''),
                 str_or_empty (obj_get cap ''start_ts''), str_or_empty (obj_get cap ''end_ts'')) of
             (Some te, Some ts, Some cs, Some ce) \<Rightarrow>
               (case (protocols_of fr (obj_get cap ''protocols_seen''),
                      Option.bind (iter_or_empty (obj_get d ''nodes'')) (map_opt (node_of fr)),
                      Option.bind (iter_or_empty (obj_get d ''risk_findings'')) (map_opt (finding_of fr to_float))) of
                  (Some ps, Some ns, Some fs) \<Rightarrow>
                    Some \<lparr>rp_name = (if mt_filename m \<noteq> [] then mt_filename m else py_basename path),
                      rp_modified = (if mt_modified m \<noteq> [] then mt_modified m else te),
                      rp_profile = py_lower (py_strip (mt_profile m)), rp_stamp = ts, rp_start = cs, rp_end = ce,
                      rp_protocols = ps, rp_nodes = ns, rp_findings = concat fs\<rparr>
                | _ \<Rightarrow> None)
           | _ \<Rightarrow> None)
      | _ \<Rightarrow> None)"

section \<open>Assets\<close>

definition ip_map_node :: "node \<Rightarrow> (string, string) dict \<Rightarrow> (string, string) dict" where
  "ip_map_node n m = (if nd_mac n \<noteq> [] \<and> nd_ip n \<noteq> [] \<and> dict_get m (nd_ip n) = None
     then dict_set (nd_ip n) (nd_mac n) m else m)"

definition ip_to_mac :: "report list \<Rightarrow> (string, string) dict" where
  "ip_to_mac rs = fold (\<lambda>r. fold ip_map_node (rp_nodes r)) rs []"

definition resolve_asset_key :: "(string, string) dict \<Rightarrow> node \<Rightarrow> (string \<times> string) option" where
  "resolve_asset_key m n =
     (if nd_mac n \<noteq> [] then Some (nd_mac n, ''mac'')
      else if nd_ip n \<noteq> [] then
        (case dict_get m (nd_ip n) of
           Some mac \<Rightarrow> if mac \<noteq> [] then Some (mac, ''mac'') else Some (nd_ip n, ''ip'')
         | None \<Rightarrow> Some (nd_ip n, ''ip''))
      else None)"

text \<open>The attribution to reports that assets and findings share.\<close>

record seen =
  sn_first_name :: string
  sn_first :: string
  sn_last_name :: string
  sn_last :: string

definition first_sight :: "report \<Rightarrow> seen" where
  "first_sight r = \<lparr>sn_first_name = rp_name r, sn_first = rp_modified r, sn_last_name = rp_name r, sn_last = rp_modified r\<rparr>"

definition later :: "report \<Rightarrow> seen \<Rightarrow> bool" where
  "later r s \<longleftrightarrow> rp_modified r > sn_last s"

definition sight :: "report \<Rightarrow> seen \<Rightarrow> seen" where
  "sight r s =
     (let s1 = (if later r s then s\<lparr>sn_last := rp_modified r, sn_last_name := rp_name r\<rparr> else s) in
      if rp_modified r \<noteq> [] \<and> (sn_first s1 = [] \<or> rp_modified r < sn_first s1)
      then s1\<lparr>sn_first := rp_modified r, sn_first_name := rp_name r\<rparr> else s1)"

record asset =
  as_key :: string
  as_type :: string
  as_attrs :: node
  as_reports :: int
  as_seen :: seen

definition merge_attrs :: "node \<Rightarrow> node \<Rightarrow> node" where
  "merge_attrs a n = a\<lparr>nd_macs := nd_macs a \<union> nd_macs n, nd_ips := nd_ips a \<union> nd_ips n, nd_roles := nd_roles a \<union> nd_roles n,
     nd_vendors := nd_vendors a \<union> nd_vendors n, nd_types := nd_types a \<union> nd_types n,
     nd_purdue := nd_purdue a \<union> nd_purdue n, nd_protocols := nd_protocols a \<union> nd_protocols n\<rparr>"

definition no_attrs :: node where
  "no_attrs = \<lparr>nd_mac = [], nd_ip = [], nd_macs = {}, nd_ips = {}, nd_roles = {}, nd_vendors = {}, nd_types = {},
     nd_purdue = {}, nd_protocols = {}\<rparr>"

type_synonym assets = "(string, asset) dict"

definition add_node :: "(string, string) dict \<Rightarrow> report \<Rightarrow> node \<Rightarrow> assets \<times> string set \<Rightarrow> assets \<times> string set" where
  "add_node m r n st = (case st of (assets, seen) \<Rightarrow>
     (case resolve_asset_key m n of
        None \<Rightarrow> (assets, seen)
      | Some (key, type) \<Rightarrow>
          let a = (case dict_get assets key of
                None \<Rightarrow> \<lparr>as_key = key, as_type = type, as_attrs = no_attrs, as_reports = 0, as_seen = first_sight r\<rparr>
              | Some a \<Rightarrow> a\<lparr>as_seen := sight r (as_seen a)\<rparr>);
              a' = a\<lparr>as_reports := (if key \<in> seen then as_reports a else as_reports a + 1), as_attrs := merge_attrs (as_attrs a) n\<rparr>
          in (dict_set key a' assets, insert key seen)))"

section \<open>Findings\<close>

record found =
  fn_severity :: string
  fn_description :: string
  fn_remediation :: string
  fn_attacks :: "string list"
  fn_source :: string
  fn_occurrences :: int
  fn_seen :: seen
  fn_cvss :: rat

definition sev_rank :: "string \<Rightarrow> int" where
  "sev_rank sev = (if sev = ''CRITICAL'' then 0 else if sev = ''HIGH'' then 1 else if sev = ''MEDIUM'' then 2
     else if sev = ''LOW'' then 3 else if sev = ''INFO'' then 4 else 5)"

definition first_found :: "report \<Rightarrow> finding \<Rightarrow> found" where
  "first_found r f = \<lparr>fn_severity = fd_severity f, fn_description = fd_description f, fn_remediation = fd_remediation f,
     fn_attacks = [], fn_source = fd_source f, fn_occurrences = 0, fn_seen = first_sight r, fn_cvss = fd_cvss f\<rparr>"

definition again_found :: "report \<Rightarrow> finding \<Rightarrow> found \<Rightarrow> found" where
  "again_found r f e = e\<lparr>
     fn_description := (if later r (fn_seen e) \<and> fd_description f \<noteq> [] then fd_description f else fn_description e),
     fn_remediation := (if later r (fn_seen e) \<and> fd_remediation f \<noteq> [] then fd_remediation f else fn_remediation e),
     fn_seen := sight r (fn_seen e),
     fn_severity := (if sev_rank (fd_severity f) < sev_rank (fn_severity e) then fd_severity f else fn_severity e),
     fn_cvss := max (fn_cvss e) (fd_cvss f)\<rparr>"

definition add_attacks :: "string list \<Rightarrow> string list \<Rightarrow> string list" where
  "add_attacks new old = fold (\<lambda>t acc. if t \<in> set acc then acc else acc @ [t]) new old"

type_synonym findings = "(finding_id, found) dict"
type_synonym tallies = "(string, int) dict"

definition bump :: "string \<Rightarrow> tallies \<Rightarrow> tallies" where
  "bump k t = dict_set k ((case dict_get t k of None \<Rightarrow> 0 | Some n \<Rightarrow> n) + 1) t"

definition add_finding :: "report \<Rightarrow> finding \<Rightarrow> findings \<times> tallies \<times> finding_id set \<Rightarrow> findings \<times> tallies \<times> finding_id set" where
  "add_finding r f st = (case st of (fs, sev, seen) \<Rightarrow>
     let e = (case dict_get fs (fd_key f) of None \<Rightarrow> first_found r f | Some e \<Rightarrow> again_found r f e);
         new = fd_key f \<notin> seen;
         e' = e\<lparr>fn_occurrences := (if new then fn_occurrences e + 1 else fn_occurrences e),
                fn_attacks := add_attacks (fd_attacks f) (fn_attacks e)\<rparr>
     in (dict_set (fd_key f) e' fs, if new then bump (fd_severity f) sev else sev, insert (fd_key f) seen))"

section \<open>The roll-up\<close>

record roll =
  rl_assets :: assets
  rl_findings :: findings
  rl_protocols :: "(string, int \<times> int) dict"
  rl_severity :: tallies
  rl_profiles :: tallies
  rl_starts :: "string list"
  rl_ends :: "string list"
  rl_stamps :: "string list"
  rl_count :: int

definition empty_roll :: roll where
  "empty_roll = \<lparr>rl_assets = [], rl_findings = [], rl_protocols = [], rl_severity = map (\<lambda>s. (s, 0)) severities,
     rl_profiles = [], rl_starts = [], rl_ends = [], rl_stamps = [], rl_count = 0\<rparr>"

definition add_protocol :: "string \<times> int \<Rightarrow> (string, int \<times> int) dict \<times> string set \<Rightarrow> (string, int \<times> int) dict \<times> string set" where
  "add_protocol p st = (case p of (name, count) \<Rightarrow> case st of (protos, seen) \<Rightarrow>
     let (reports, packets) = (case dict_get protos name of None \<Rightarrow> (0, 0) | Some e \<Rightarrow> e) in
     (dict_set name (if name \<in> seen then reports else reports + 1, packets + count) protos, insert name seen))"

definition append_if :: "string \<Rightarrow> string list \<Rightarrow> string list" where
  "append_if s xs = (if s \<noteq> [] then xs @ [s] else xs)"

definition add_report :: "(string, string) dict \<Rightarrow> report \<Rightarrow> roll \<Rightarrow> roll" where
  "add_report m r w =
     (let assets = fst (fold (add_node m r) (rp_nodes r) (rl_assets w, {}));
          (fs, sev, _) = fold (add_finding r) (rp_findings r) (rl_findings w, rl_severity w, {})
      in \<lparr>rl_assets = assets, rl_findings = fs, rl_protocols = fst (fold add_protocol (rp_protocols r) (rl_protocols w, {})),
          rl_severity = sev, rl_profiles = (if rp_profile r \<noteq> [] then bump (rp_profile r) (rl_profiles w) else rl_profiles w),
          rl_starts = append_if (rp_start r) (rl_starts w), rl_ends = append_if (rp_end r) (rl_ends w),
          rl_stamps = append_if (rp_stamp r) (rl_stamps w), rl_count = rl_count w + 1\<rparr>)"

definition roll_up :: "report list \<Rightarrow> roll" where
  "roll_up rs = fold (add_report (ip_to_mac rs)) rs empty_roll"

text \<open>The loader may raise (\<open>None\<close>) or return something that is not an object: such a path is skipped.\<close>

definition read_reports ::
    "(rat \<Rightarrow> string) \<Rightarrow> (pyval \<Rightarrow> rat option) \<Rightarrow> (string \<Rightarrow> pyval option) \<Rightarrow> (string \<Rightarrow> meta) \<Rightarrow> string list \<Rightarrow> report list option" where
  "read_reports fr to_float loader report_meta paths = map_option concat (map_opt (\<lambda>p. case loader p of
       Some (PDict d) \<Rightarrow> map_option (\<lambda>r. [r]) (report_of fr to_float p (report_meta p) d)
     | _ \<Rightarrow> Some []) paths)"

section \<open>The result\<close>

record asset_row =
  ar_asset :: asset
  ar_macs :: "string list"
  ar_ips :: "string list"
  ar_roles :: "string list"
  ar_vendors :: "string list"
  ar_types :: "string list"
  ar_purdue :: "int option"
  ar_purdues :: "int list"
  ar_protocols :: "string list"

definition asset_to_dict :: "asset \<Rightarrow> asset_row" where
  "asset_to_dict a = (let n = as_attrs a; purdue = sorted_list_of_set (nd_purdue n) in
     \<lparr>ar_asset = a, ar_macs = sorted_list_of_set (nd_macs n), ar_ips = sorted_list_of_set (nd_ips n),
      ar_roles = sorted_list_of_set (nd_roles n), ar_vendors = sorted_list_of_set (nd_vendors n),
      ar_types = sorted_list_of_set (nd_types n), ar_purdue = (case purdue of [] \<Rightarrow> None | x # _ \<Rightarrow> Some x),
      ar_purdues = purdue, ar_protocols = sorted_list_of_set (nd_protocols n)\<rparr>)"

definition asset_order :: "asset_row \<Rightarrow> int \<times> int \<times> string" where
  "asset_order a = (case ar_purdue a of None \<Rightarrow> 99 | Some l \<Rightarrow> l, - as_reports (ar_asset a), as_key (ar_asset a))"

definition finding_order :: "finding_id \<times> found \<Rightarrow> int \<times> int \<times> string" where
  "finding_order kf = (sev_rank (fn_severity (snd kf)), - fn_occurrences (snd kf), fst (fst kf))"

definition protocol_order :: "string \<times> int \<times> int \<Rightarrow> int \<times> int \<times> string" where
  "protocol_order p = (- fst (snd p), - snd (snd p), fst p)"

type_synonym attack_index = "(string, int \<times> string list) dict"

definition add_attack :: "finding_id \<times> found \<Rightarrow> string \<Rightarrow> attack_index \<Rightarrow> attack_index" where
  "add_attack kf tid ix = (case (case dict_get ix tid of None \<Rightarrow> (0, []) | Some e \<Rightarrow> e) of (n, cats) \<Rightarrow>
     dict_set tid (n + fn_occurrences (snd kf), if fst (fst kf) \<in> set cats then cats else cats @ [fst (fst kf)]) ix)"

record summary =
  sm_count :: int
  sm_assets :: "asset_row list"
  sm_findings :: "(finding_id \<times> found) list"
  sm_protocols :: "(string \<times> int \<times> int) list"
  sm_attacks :: "(string \<times> int \<times> string list) list"
  sm_occurrences :: int
  sm_severity :: tallies
  sm_profiles :: tallies
  sm_earliest_report :: "string option"
  sm_latest_report :: "string option"
  sm_earliest_capture :: "string option"
  sm_latest_capture :: "string option"

definition min_or_none :: "string list \<Rightarrow> string option" where
  "min_or_none xs = (if xs = [] then None else Some (Min (set xs)))"

definition max_or_none :: "string list \<Rightarrow> string option" where
  "max_or_none xs = (if xs = [] then None else Some (Max (set xs)))"

definition summarise :: "roll \<Rightarrow> summary" where
  "summarise w =
     (let fs = sort_key finding_order (rl_findings w);
          attacks = fold (\<lambda>kf. fold (add_attack kf) (fn_attacks (snd kf))) fs []
      in \<lparr>sm_count = rl_count w, sm_assets = sort_key asset_order (map (asset_to_dict \<circ> snd) (rl_assets w)), sm_findings = fs,
          sm_protocols = sort_key protocol_order (rl_protocols w), sm_attacks = sort_key (\<lambda>(t, n, _). (- n, t)) attacks,
          sm_occurrences = sum_list (map (fn_occurrences \<circ> snd) fs), sm_severity = rl_severity w, sm_profiles = rl_profiles w,
          sm_earliest_report = min_or_none (rl_stamps w), sm_latest_report = max_or_none (rl_stamps w),
          sm_earliest_capture = min_or_none (rl_starts w), sm_latest_capture = max_or_none (rl_ends w)\<rparr>)"

definition aggregate_reports ::
    "(rat \<Rightarrow> string) \<Rightarrow> (pyval \<Rightarrow> rat option) \<Rightarrow> (string \<Rightarrow> pyval option) \<Rightarrow> (string \<Rightarrow> meta) \<Rightarrow> string list \<Rightarrow> summary option" where
  "aggregate_reports fr to_float loader report_meta paths =
     map_option (summarise \<circ> roll_up) (read_reports fr to_float loader report_meta paths)"

end
