(* ===== verification/AggregateSafety.thy ===== *)
theory AggregateSafety
  imports Aggregate "HOL-Library.Multiset"
begin

text \<open>
  What the roll-up of a project promises: an asset or a finding is counted once for every report
  that has it, the severity counters add up to the occurrences, the first and last sightings are
  the extremes of the reports' time stamps, and an address that some report ties to a MAC never
  becomes an asset of its own.
\<close>

section \<open>Counting once in a report\<close>

definition keys_of :: "(string, string) dict \<Rightarrow> report \<Rightarrow> string set" where
  "keys_of m r = {key. \<exists>n \<in> set (rp_nodes r). \<exists>type. resolve_asset_key m n = Some (key, type)}"

definition sees :: "(string, string) dict \<Rightarrow> string \<Rightarrow> report \<Rightarrow> bool" where
  "sees m k r \<longleftrightarrow> list_ex (\<lambda>n. map_option fst (resolve_asset_key m n) = Some k) (rp_nodes r)"

definition reports_it :: "finding_id \<Rightarrow> report \<Rightarrow> bool" where
  "reports_it k r \<longleftrightarrow> list_ex (\<lambda>f. fd_key f = k) (rp_findings r)"

definition asset_at :: "assets \<Rightarrow> string \<Rightarrow> asset option" where
  "asset_at as k = dict_get as k"

text \<open>What one report makes of an asset it sees, the attributes aside.\<close>

definition step_asset :: "report \<Rightarrow> bool \<Rightarrow> (int \<times> seen) option \<Rightarrow> (int \<times> seen) option" where
  "step_asset r counted x = (case x of
       None \<Rightarrow> Some (if counted then 0 else 1, first_sight r)
     | Some (n, s) \<Rightarrow> Some (if counted then n else n + 1, sight r s))"

definition counted :: "asset \<Rightarrow> int \<times> seen" where
  "counted a = (as_reports a, as_seen a)"

definition count_of :: "found \<Rightarrow> int \<times> seen" where
  "count_of e = (fn_occurrences e, fn_seen e)"

lemma sight_first [simp]: "sight r (first_sight r) = first_sight r"
  by (auto simp: sight_def first_sight_def later_def Let_def)

lemma sight_twice [simp]: "sight r (sight r s) = sight r s"
  by (auto simp: sight_def later_def Let_def)

lemma step_again [simp]: "step_asset r True (step_asset r b x) = step_asset r b x"
  by (auto simp: step_asset_def split: option.split prod.split)

lemma add_node_get:
  "map_option counted (dict_get (fst (add_node m r n (as, seen))) k) =
     (if map_option fst (resolve_asset_key m n) = Some k then step_asset r (k \<in> seen) (map_option counted (dict_get as k))
      else map_option counted (dict_get as k))"
  by (auto simp: add_node_def step_asset_def counted_def Let_def dict_get_set split: option.splits prod.splits)

lemma add_node_seen:
  "snd (add_node m r n (as, seen)) = (case resolve_asset_key m n of None \<Rightarrow> seen | Some (key, _) \<Rightarrow> insert key seen)"
  by (auto simp: add_node_def Let_def split: option.splits prod.splits)

lemma fold_nodes:
  "map_option counted (dict_get (fst (fold (add_node m r) ns (as, seen))) k) =
     (if list_ex (\<lambda>n. map_option fst (resolve_asset_key m n) = Some k) ns
      then step_asset r (k \<in> seen) (map_option counted (dict_get as k)) else map_option counted (dict_get as k))"
proof (induction ns arbitrary: as seen)
  case (Cons n ns)
  obtain as' seen' where st: "add_node m r n (as, seen) = (as', seen')" by (cases "add_node m r n (as, seen)")
  have seen': "seen' = (case resolve_asset_key m n of None \<Rightarrow> seen | Some (key, _) \<Rightarrow> insert key seen)"
    using add_node_seen [of m r n as seen] st by simp
  have got: "map_option counted (dict_get as' k) =
     (if map_option fst (resolve_asset_key m n) = Some k then step_asset r (k \<in> seen) (map_option counted (dict_get as k))
      else map_option counted (dict_get as k))"
    using add_node_get [of m r n as seen k] st by simp
  show ?case
    using Cons.IH [of as' seen'] got seen' by (auto simp: st split: option.splits if_splits)
qed simp

lemma add_finding_get:
  "map_option count_of (dict_get (fst (add_finding r f (fs, sev, seen))) k) =
     (if fd_key f = k then step_asset r (k \<in> seen) (map_option count_of (dict_get fs k))
      else map_option count_of (dict_get fs k))"
  by (auto simp: add_finding_def step_asset_def count_of_def first_found_def again_found_def Let_def dict_get_set
      split: option.splits)

lemma fold_findings:
  "map_option count_of (dict_get (fst (fold (add_finding r) fl (fs, sev, seen))) k) =
     (if list_ex (\<lambda>f. fd_key f = k) fl
      then step_asset r (k \<in> seen) (map_option count_of (dict_get fs k)) else map_option count_of (dict_get fs k))"
proof (induction fl arbitrary: fs sev seen)
  case (Cons f fl)
  obtain fs' sev' where st: "add_finding r f (fs, sev, seen) = (fs', sev', insert (fd_key f) seen)"
    by (simp add: add_finding_def Let_def)
  have got: "map_option count_of (dict_get fs' k) =
     (if fd_key f = k then step_asset r (k \<in> seen) (map_option count_of (dict_get fs k))
      else map_option count_of (dict_get fs k))"
    using add_finding_get [of r f fs sev seen k] st by simp
  show ?case
    using Cons.IH [of fs' sev' "insert (fd_key f) seen"] got by (auto simp: st)
qed simp

lemma add_report_asset:
  "map_option counted (dict_get (rl_assets (add_report m r w)) k) =
     (if sees m k r then step_asset r False (map_option counted (dict_get (rl_assets w) k))
      else map_option counted (dict_get (rl_assets w) k))"
  using fold_nodes [of m r "rp_nodes r" "rl_assets w" "{}" k]
  by (simp add: add_report_def sees_def Let_def split: prod.split)

lemma add_report_finding:
  "map_option count_of (dict_get (rl_findings (add_report m r w)) k) =
     (if reports_it k r then step_asset r False (map_option count_of (dict_get (rl_findings w) k))
      else map_option count_of (dict_get (rl_findings w) k))"
  using fold_findings [of r "rp_findings r" "rl_findings w" "rl_severity w" "{}" k]
  by (cases "fold (add_finding r) (rp_findings r) (rl_findings w, rl_severity w, {})")
    (simp add: add_report_def reports_it_def Let_def)

section \<open>Counting over the reports\<close>

text \<open>The specification: the reports that have the key, the first of them and the rest.\<close>

definition tally :: "report list \<Rightarrow> (int \<times> seen) option" where
  "tally rs = (case rs of [] \<Rightarrow> None | r # rs' \<Rightarrow> Some (int (length rs), fold sight rs' (first_sight r)))"

lemma tally_snoc: "tally (rs @ [r]) = step_asset r False (tally rs)"
  by (cases rs) (simp_all add: tally_def step_asset_def)

lemma fold_tally:
  assumes step: "\<And>r w. g (add r w) = (if P r then step_asset r False (g w) else g w)"
    and start: "g w0 = None"
  shows "g (fold add rs w0) = tally (filter P rs)"
proof (induction rs rule: rev_induct)
  case Nil
  then show ?case by (simp add: start tally_def)
next
  case (snoc r rs)
  then show ?case by (simp add: step tally_snoc)
qed

lemma asset_tally:
  "map_option counted (dict_get (rl_assets (roll_up rs)) k) = tally (filter (sees (ip_to_mac rs) k) rs)"
  unfolding roll_up_def
  by (rule fold_tally [where g = "\<lambda>w. map_option counted (dict_get (rl_assets w) k)"])
    (simp_all add: add_report_asset empty_roll_def)

lemma finding_tally:
  "map_option count_of (dict_get (rl_findings (roll_up rs)) k) = tally (filter (reports_it k) rs)"
  unfolding roll_up_def
  by (rule fold_tally [where g = "\<lambda>w. map_option count_of (dict_get (rl_findings w) k)"])
    (simp_all add: add_report_finding empty_roll_def)

definition counted_in :: "nat \<Rightarrow> int option" where
  "counted_in n = (if n = 0 then None else Some (int n))"

lemma tally_count: "map_option fst (tally rs) = counted_in (length rs)"
  by (cases rs) (simp_all add: tally_def counted_in_def)

text \<open>
  C33. An asset exists for a key exactly when some report sees it, and its \<open>report_count\<close> is the
  number of reports that do.\<close>

theorem asset_report_count:
  "map_option as_reports (dict_get (rl_assets (roll_up rs)) k) = counted_in (length (filter (sees (ip_to_mac rs) k) rs))"
proof -
  have "map_option as_reports (dict_get (rl_assets (roll_up rs)) k) =
      map_option fst (map_option counted (dict_get (rl_assets (roll_up rs)) k))"
    by (simp add: option.map_comp counted_def comp_def)
  then show ?thesis by (simp add: asset_tally tally_count)
qed

text \<open>A finding exists for a key exactly when some report has it; its occurrences are those reports.\<close>

theorem finding_occurrences:
  "map_option fn_occurrences (dict_get (rl_findings (roll_up rs)) k) = counted_in (length (filter (reports_it k) rs))"
proof -
  have "map_option fn_occurrences (dict_get (rl_findings (roll_up rs)) k) =
      map_option fst (map_option count_of (dict_get (rl_findings (roll_up rs)) k))"
    by (simp add: option.map_comp count_of_def comp_def)
  then show ?thesis by (simp add: finding_tally tally_count)
qed

section \<open>First and last sighting\<close>

definition newest :: "string list \<Rightarrow> string" where
  "newest ts = fold max ts []"

definition oldest :: "string list \<Rightarrow> string" where
  "oldest ts = (case filter (\<lambda>t. t \<noteq> []) ts of [] \<Rightarrow> [] | t # us \<Rightarrow> fold min us t)"

lemma nil_least [simp]: "max [] (t :: string) = t" "max t [] = t" "\<not> t < []"
  by (simp_all add: max_def)

lemma oldest_snoc: "oldest (ts @ [t]) = (if t \<noteq> [] \<and> (oldest ts = [] \<or> t < oldest ts) then t else oldest ts)"
proof -
  have "x \<noteq> [] \<Longrightarrow> \<forall>y \<in> set us. y \<noteq> [] \<Longrightarrow> fold min us x \<noteq> []" for us and x :: string
    by (induction us arbitrary: x) (auto simp: min_def)
  from this [of "hd (filter (\<lambda>t. t \<noteq> []) ts)" "tl (filter (\<lambda>t. t \<noteq> []) ts)"]
  show ?thesis
    by (cases "filter (\<lambda>t. t \<noteq> []) ts") (auto simp: oldest_def min_def dest: filter_eq_ConsD)
qed

lemma sightings_extremes:
  "rs \<noteq> [] \<Longrightarrow> let s = fold sight (tl rs) (first_sight (hd rs)); ts = map rp_modified rs in
     sn_last s = newest ts \<and> sn_first s = oldest ts"
proof (induction rs rule: rev_induct)
  case (snoc r rs)
  show ?case
  proof (cases "rs = []")
    case True
    then show ?thesis by (simp add: first_sight_def newest_def oldest_def)
  next
    case False
    then show ?thesis
      using snoc.IH by (auto simp: Let_def sight_def later_def newest_def oldest_snoc max_def)
  qed
qed simp

text \<open>
  What an asset says of when it was seen: the newest and the oldest time stamp of the reports
  that see it, an empty stamp counting as unknown for the oldest.
\<close>

definition sighting :: "report list \<Rightarrow> (string \<times> string) option" where
  "sighting rs = (if rs = [] then None else Some (newest (map rp_modified rs), oldest (map rp_modified rs)))"

lemma tally_sighting: "map_option (\<lambda>x. (sn_last (snd x), sn_first (snd x))) (tally rs) = sighting rs"
  using sightings_extremes [of rs] by (cases rs) (simp_all add: tally_def sighting_def Let_def)

theorem asset_sightings:
  "map_option (\<lambda>a. (sn_last (as_seen a), sn_first (as_seen a))) (dict_get (rl_assets (roll_up rs)) k) =
     sighting (filter (sees (ip_to_mac rs) k) rs)"
proof -
  have "map_option (\<lambda>a. (sn_last (as_seen a), sn_first (as_seen a))) (dict_get (rl_assets (roll_up rs)) k) =
      map_option (\<lambda>x. (sn_last (snd x), sn_first (snd x))) (map_option counted (dict_get (rl_assets (roll_up rs)) k))"
    by (simp add: option.map_comp counted_def comp_def)
  then show ?thesis by (simp add: asset_tally tally_sighting)
qed

section \<open>The severity counters\<close>

definition occurrences :: "findings \<Rightarrow> int" where
  "occurrences fs = sum_list (map (fn_occurrences \<circ> snd) fs)"

definition counters :: "tallies \<Rightarrow> int" where
  "counters t = sum_list (map snd t)"

lemma sum_dict_set:
  "dict_ok d \<Longrightarrow> sum_list (map (g \<circ> snd) (dict_set k v d)) =
     sum_list (map (g \<circ> snd) d) - (case dict_get d k of None \<Rightarrow> 0 | Some w \<Rightarrow> g w) + (g v :: int)"
  by (induction d) (auto simp: dict_ok_def dest: map_of_SomeD split: option.splits)

lemma bump_counters: "dict_ok t \<Longrightarrow> dict_ok (bump k t) \<and> counters (bump k t) = counters t + 1"
  using sum_dict_set [of t "\<lambda>x. x" k] by (auto simp: bump_def counters_def comp_def split: option.split)

definition balanced :: "findings \<times> tallies \<times> finding_id set \<Rightarrow> bool" where
  "balanced st = (case st of (fs, sev, seen) \<Rightarrow> dict_ok fs \<and> dict_ok sev \<and> counters sev = occurrences fs)"

lemma add_finding_balanced: "balanced st \<Longrightarrow> balanced (add_finding r f st)"
proof (cases st)
  case (fields fs sev seen)
  assume "balanced st"
  then show ?thesis
    using bump_counters [of sev "fd_severity f"] sum_dict_set [of fs fn_occurrences "fd_key f"]
    by (auto simp: fields balanced_def add_finding_def occurrences_def Let_def first_found_def again_found_def
        split: option.split)
qed

lemma fold_balanced: "balanced st \<Longrightarrow> balanced (fold (add_finding r) fl st)"
  by (induction fl arbitrary: st) (simp_all add: add_finding_balanced)

lemma add_report_balanced:
  "balanced (rl_findings w, rl_severity w, {}) \<Longrightarrow>
   balanced (rl_findings (add_report m r w), rl_severity (add_report m r w), {})"
  using fold_balanced [of "(rl_findings w, rl_severity w, {})" r "rp_findings r"]
  by (cases "fold (add_finding r) (rp_findings r) (rl_findings w, rl_severity w, {})")
    (simp add: add_report_def balanced_def Let_def)

lemma roll_up_balanced: "balanced (rl_findings (roll_up rs), rl_severity (roll_up rs), {})"
proof -
  have "balanced (rl_findings (fold (add_report m) rs w), rl_severity (fold (add_report m) rs w), {})"
    if "balanced (rl_findings w, rl_severity w, {})" for m w
    using that by (induction rs arbitrary: w) (simp_all add: add_report_balanced)
  moreover have "balanced (rl_findings empty_roll, rl_severity empty_roll, {})"
    by (simp add: balanced_def empty_roll_def severities_def counters_def occurrences_def dict_ok_def)
  ultimately show ?thesis by (simp add: roll_up_def)
qed

lemma sum_list_sort_key: "sum_list (map g (sort_key key xs)) = sum_list (map (g :: 'a \<Rightarrow> int) xs)"
proof -
  have "mset (map g (sort_key key xs)) = mset (map g xs)" by simp
  then show ?thesis by (metis sum_mset_sum_list)
qed

text \<open>
  The severity breakdown of the summary adds up to the occurrences it reports.\<close>

theorem severity_breakdown_adds_up:
  "counters (sm_severity (summarise (roll_up rs))) = sm_occurrences (summarise (roll_up rs))"
  using roll_up_balanced [of rs]
  by (simp add: summarise_def Let_def balanced_def occurrences_def sum_list_sort_key)

section \<open>The severity of a finding\<close>

text \<open>The most severe rank, and the largest score, of a finding over everything the reports say of it.\<close>

definition said_of :: "finding_id \<Rightarrow> report list \<Rightarrow> finding list" where
  "said_of k rs = filter (\<lambda>f. fd_key f = k) (concat (map rp_findings rs))"

definition worst :: "finding list \<Rightarrow> (int \<times> rat) option" where
  "worst fl = (case fl of [] \<Rightarrow> None
     | f # fs \<Rightarrow> Some (fold min (map (sev_rank \<circ> fd_severity) fs) (sev_rank (fd_severity f)), fold max (map fd_cvss fs) (fd_cvss f)))"

definition graded :: "found \<Rightarrow> int \<times> rat" where
  "graded e = (sev_rank (fn_severity e), fn_cvss e)"

definition grade_step :: "finding \<Rightarrow> (int \<times> rat) option \<Rightarrow> (int \<times> rat) option" where
  "grade_step f x = (case x of None \<Rightarrow> Some (sev_rank (fd_severity f), fd_cvss f)
     | Some (s, c) \<Rightarrow> Some (min (sev_rank (fd_severity f)) s, max (fd_cvss f) c))"

lemma worst_snoc: "worst (fl @ [f]) = grade_step f (worst fl)"
  by (cases fl) (simp_all add: worst_def grade_step_def)

lemma add_finding_graded:
  "map_option graded (dict_get (fst (add_finding r f (fs, sev, seen))) k) =
     (if fd_key f = k then grade_step f (map_option graded (dict_get fs k)) else map_option graded (dict_get fs k))"
  by (auto simp: add_finding_def grade_step_def graded_def first_found_def again_found_def Let_def dict_get_set
      min_def max_def split: option.splits)

lemma fold_graded:
  "map_option graded (dict_get (fst (fold (add_finding r) fl (fs, sev, seen))) k) =
     fold grade_step (filter (\<lambda>f. fd_key f = k) fl) (map_option graded (dict_get fs k))"
proof (induction fl arbitrary: fs sev seen)
  case (Cons f fl)
  obtain fs' sev' where st: "add_finding r f (fs, sev, seen) = (fs', sev', insert (fd_key f) seen)"
    by (simp add: add_finding_def Let_def)
  show ?case
    using Cons.IH [of fs' sev' "insert (fd_key f) seen"] add_finding_graded [of r f fs sev seen k] by (simp add: st)
qed simp

lemma worst_fold: "worst fl = fold grade_step fl None"
proof (induction fl rule: rev_induct)
  case Nil
  then show ?case by (simp add: worst_def)
next
  case (snoc f fl)
  then show ?case by (simp add: worst_snoc)
qed

lemma add_report_graded:
  "map_option graded (dict_get (rl_findings (add_report m r w)) k) =
     fold grade_step (filter (\<lambda>f. fd_key f = k) (rp_findings r)) (map_option graded (dict_get (rl_findings w) k))"
  using fold_graded [of r "rp_findings r" "rl_findings w" "rl_severity w" "{}" k]
  by (cases "fold (add_finding r) (rp_findings r) (rl_findings w, rl_severity w, {})")
    (simp add: add_report_def Let_def)

text \<open>
  A finding's severity is the worst any report gives it, and its score the largest.\<close>

theorem finding_worst_severity:
  "map_option graded (dict_get (rl_findings (roll_up rs)) k) = worst (said_of k rs)"
proof -
  have "map_option graded (dict_get (rl_findings (fold (add_report m) rs w)) k) =
      fold grade_step (said_of k rs) (map_option graded (dict_get (rl_findings w) k))" for m w
    by (induction rs arbitrary: w) (simp_all add: said_of_def add_report_graded)
  then show ?thesis by (simp add: roll_up_def worst_fold empty_roll_def)
qed

section \<open>Addresses and hardware addresses\<close>

definition ip_seen_with_mac :: "string \<Rightarrow> report list \<Rightarrow> bool" where
  "ip_seen_with_mac ip rs \<longleftrightarrow> (\<exists>r \<in> set rs. \<exists>n \<in> set (rp_nodes r). nd_ip n = ip \<and> nd_mac n \<noteq> [])"

definition macs_only :: "(string, string) dict \<Rightarrow> bool" where
  "macs_only m \<longleftrightarrow> (\<forall>ip. dict_get m ip \<noteq> Some [])"

lemma ip_map_nodes:
  "ip \<noteq> [] \<Longrightarrow> (dict_get (fold ip_map_node ns m) ip = None) \<longleftrightarrow>
     dict_get m ip = None \<and> \<not> (\<exists>n \<in> set ns. nd_ip n = ip \<and> nd_mac n \<noteq> [])"
  by (induction ns arbitrary: m) (auto simp: ip_map_node_def dict_get_set split: if_splits)

lemma macs_only_nodes: "macs_only m \<Longrightarrow> macs_only (fold ip_map_node ns m)"
  by (induction ns arbitrary: m) (simp_all add: ip_map_node_def macs_only_def dict_get_set)

lemma ip_map_reports:
  assumes "ip \<noteq> []"
  shows "(dict_get (fold (\<lambda>r. fold ip_map_node (rp_nodes r)) rs m) ip = None) \<longleftrightarrow>
     dict_get m ip = None \<and> \<not> ip_seen_with_mac ip rs"
  by (induction rs arbitrary: m) (auto simp: ip_map_nodes [OF assms] ip_seen_with_mac_def)

lemma macs_only_ip_to_mac: "macs_only (ip_to_mac rs)"
proof -
  have "macs_only m \<Longrightarrow> macs_only (fold (\<lambda>r. fold ip_map_node (rp_nodes r)) rs m)" for m
    by (induction rs arbitrary: m) (simp_all add: macs_only_nodes)
  then show ?thesis by (simp add: ip_to_mac_def macs_only_def)
qed

text \<open>Assets keyed by an address are those of addresses the map does not know.\<close>

definition ip_keys_unmapped :: "(string, string) dict \<Rightarrow> assets \<Rightarrow> bool" where
  "ip_keys_unmapped m as \<longleftrightarrow> (\<forall>k a. dict_get as k = Some a \<longrightarrow> as_type a = ''ip'' \<longrightarrow> k \<noteq> [] \<and> dict_get m k = None)"

lemma resolve_ip:
  "macs_only m \<Longrightarrow> resolve_asset_key m n = Some (key, ''ip'') \<Longrightarrow> key \<noteq> [] \<and> dict_get m key = None"
  by (auto simp: resolve_asset_key_def macs_only_def split: if_splits option.splits)

lemma add_node_unmapped:
  "macs_only m \<Longrightarrow> ip_keys_unmapped m as \<Longrightarrow> ip_keys_unmapped m (fst (add_node m r n (as, seen)))"
  using resolve_ip [of m n]
  by (auto simp: add_node_def ip_keys_unmapped_def Let_def dict_get_set split: option.splits if_splits)

lemma fold_unmapped:
  "macs_only m \<Longrightarrow> ip_keys_unmapped m (fst st) \<Longrightarrow> ip_keys_unmapped m (fst (fold (add_node m r) ns st))"
proof (induction ns arbitrary: st)
  case (Cons n ns)
  then show ?case using add_node_unmapped [of m "fst st" r n "snd st"] by simp
qed simp

lemma add_report_unmapped:
  "macs_only m \<Longrightarrow> ip_keys_unmapped m (rl_assets w) \<Longrightarrow> ip_keys_unmapped m (rl_assets (add_report m r w))"
  using fold_unmapped [of m "(rl_assets w, {})" r "rp_nodes r"]
  by (cases "fold (add_finding r) (rp_findings r) (rl_findings w, rl_severity w, {})")
    (simp add: add_report_def Let_def)

lemma roll_up_unmapped: "ip_keys_unmapped (ip_to_mac rs) (rl_assets (roll_up rs))"
proof -
  have "ip_keys_unmapped m (rl_assets (fold (add_report m) rs' w))"
    if "macs_only m" "ip_keys_unmapped m (rl_assets w)" for m w and rs' :: "report list"
    using that by (induction rs' arbitrary: w) (simp_all add: add_report_unmapped)
  from this [OF macs_only_ip_to_mac, of _ empty_roll] show ?thesis
    by (simp add: roll_up_def empty_roll_def ip_keys_unmapped_def)
qed

text \<open>
  An address that any report shows together with a MAC never becomes an address-keyed asset.\<close>

theorem no_split_device:
  assumes "ip_seen_with_mac ip rs"
  shows "map_option as_type (dict_get (rl_assets (roll_up rs)) ip) \<noteq> Some ''ip''"
proof
  assume "map_option as_type (dict_get (rl_assets (roll_up rs)) ip) = Some ''ip''"
  then obtain a where "dict_get (rl_assets (roll_up rs)) ip = Some a" "as_type a = ''ip''" by auto
  then have "ip \<noteq> []" "dict_get (ip_to_mac rs) ip = None"
    using roll_up_unmapped by (auto simp: ip_keys_unmapped_def)
  then show False using ip_map_reports [of ip rs "[]"] assms by (simp add: ip_to_mac_def)
qed

definition example_node :: "string \<Rightarrow> string \<Rightarrow> node" where
  "example_node mac ip = no_attrs\<lparr>nd_mac := mac, nd_ip := ip\<rparr>"

definition example_report :: "string \<Rightarrow> node list \<Rightarrow> report" where
  "example_report day ns = \<lparr>rp_name = day, rp_modified = day, rp_profile = [], rp_stamp = [], rp_start = [], rp_end = [],
     rp_protocols = [], rp_nodes = ns, rp_findings = []\<rparr>"

definition example_reports :: "report list" where
  "example_reports = [example_report ''d1'' [example_node [] ''10.0.0.9''],
     example_report ''d2'' [example_node ''aa'' ''10.0.0.9'', example_node [] ''10.0.0.7'']]"

theorem no_split_device_witness:
  "map_option as_type (dict_get (rl_assets (roll_up example_reports)) ''10.0.0.9'') \<noteq> Some ''ip'' \<and>
   map (\<lambda>(k, a). (k, as_type a, as_reports a)) (rl_assets (roll_up example_reports)) =
     [(''aa'', ''mac'', 2), (''10.0.0.7'', ''ip'', 1)]"
proof
  have "ip_seen_with_mac ''10.0.0.9'' example_reports"
    by (simp add: example_reports_def ip_seen_with_mac_def example_report_def example_node_def)
  then show "map_option as_type (dict_get (rl_assets (roll_up example_reports)) ''10.0.0.9'') \<noteq> Some ''ip''"
    by (rule no_split_device)
  show "map (\<lambda>(k, a). (k, as_type a, as_reports a)) (rl_assets (roll_up example_reports)) =
     [(''aa'', ''mac'', 2), (''10.0.0.7'', ''ip'', 1)]"
    by code_simp
qed

section \<open>What the attack coverage counts\<close>

text \<open>
  A technique's \<open>report_count\<close> adds the occurrences of every finding that names it: two findings
  of one report make it two.
\<close>

definition two_findings :: report where
  "two_findings = (example_report ''d1'' [])\<lparr>rp_findings := map (\<lambda>c. \<lparr>fd_key = (c, [], []), fd_severity = ''LOW'',
     fd_description = [], fd_remediation = [], fd_source = ''engine'', fd_cvss = 0, fd_attacks = [''T0846'']\<rparr>) [''A'', ''B'']\<rparr>"

lemma attack_count_exceeds_reports:
  "sm_count (summarise (roll_up [two_findings])) = 1 \<and>
   sm_attacks (summarise (roll_up [two_findings])) = [(''T0846'', 2, [''A'', ''B''])]"
  by code_simp

end
