(* ===== verification/Webhook.thy ===== *)
theory Webhook
  imports Scheduler Base64
begin

text \<open>
  Delivery of a scan's findings to an outside system, \<open>marlinspike/webhook.py\<close>, and the two
  settings routes of \<open>app.py\<close>. A world is the ledger of tickets and the calls made so far; the
  receiver answers a call from the calls before it. \<open>None\<close> in a result is an exception. Arguments:
  \<open>fr\<close> is \<open>str\<close> of a float, \<open>digest\<close> the SHA-256 hex digest of a value's JSON text, \<open>loads\<close> and
  \<open>dumps\<close> the JSON reader and writer, \<open>latin1\<close> whether a text can be encoded for a header,
  \<open>resolve\<close> the addresses of a URL's host (\<open>None\<close> without a host or an answer).
\<close>

section \<open>Settings\<close>

definition hook_allowed_keys :: "string list" where
  "hook_allowed_keys = [''enabled'', ''platform'', ''url'', ''secret'', ''min_severity'', ''zammad_group'', ''zammad_customer'',
     ''jira_email'', ''jira_project_key'', ''jira_issue_type'']"

definition platforms :: "string list" where
  "platforms = [''generic'', ''zammad'', ''jira'']"

definition severity_order :: "string list" where
  "severity_order = [''INFO'', ''LOW'', ''MEDIUM'', ''HIGH'', ''CRITICAL'']"

definition parse_hook :: "(string \<Rightarrow> pyval option) \<Rightarrow> string option \<Rightarrow> (string, pyval) dict" where
  "parse_hook loads raw = (case raw of None \<Rightarrow> []
     | Some t \<Rightarrow> if t = [] then [] else (case loads t of Some (PDict d) \<Rightarrow> d | _ \<Rightarrow> []))"

record ip_flags =
  ip_private :: bool
  ip_loopback :: bool
  ip_link_local :: bool
  ip_reserved :: bool
  ip_multicast :: bool
  ip_unspecified :: bool

definition public_ip :: "ip_flags \<Rightarrow> bool" where
  "public_ip i \<longleftrightarrow> \<not> (ip_private i \<or> ip_loopback i \<or> ip_link_local i \<or> ip_reserved i \<or> ip_multicast i \<or> ip_unspecified i)"

definition resolves_to_public :: "(string \<Rightarrow> ip_flags list option) \<Rightarrow> string \<Rightarrow> bool" where
  "resolves_to_public resolve url = (case resolve url of None \<Rightarrow> False | Some ips \<Rightarrow> list_all public_ip ips)"

definition header_bound :: "string list" where
  "header_bound = [''url'', ''secret'', ''zammad_group'', ''zammad_customer'', ''jira_email'', ''jira_project_key'', ''jira_issue_type'']"

definition strip_header_bound :: "(string, pyval) dict \<Rightarrow> (string, pyval) dict" where
  "strip_header_bound b = fold (\<lambda>k b. case dict_get b k of Some (PStr s) \<Rightarrow> dict_set k (PStr (py_strip s)) b | _ \<Rightarrow> b) header_bound b"

datatype hook_error =
    UnknownKeys "string list"
  | EnabledNotBool
  | BadPlatform
  | BadUrl
  | UnsafeUrl
  | PrivateUrl
  | BadSeverity
  | NotText string
  | UnsafeText string
  | MissingFields "string list"

text \<open>An optional text field: absent, null, or a text that a header can carry.\<close>

definition check_text :: "(string \<Rightarrow> bool) \<Rightarrow> (string, pyval) dict \<Rightarrow> string \<Rightarrow> hook_error option" where
  "check_text latin1 b key = (case obj_get b key of
       PNone \<Rightarrow> None
     | PStr s \<Rightarrow> if latin1 s then None else Some (UnsafeText key)
     | _ \<Rightarrow> Some (NotText key))"

definition check_url ::
    "(string \<Rightarrow> bool) \<Rightarrow> (string \<Rightarrow> ip_flags list option) \<Rightarrow> bool \<Rightarrow> (string, pyval) dict \<Rightarrow> hook_error option" where
  "check_url latin1 resolve allow_private b = (case obj_get b ''url'' of
       PNone \<Rightarrow> None
     | PStr url \<Rightarrow>
         if \<not> (py_startswith url ''http://'' \<or> py_startswith url ''https://'') then Some BadUrl
         else if \<not> latin1 url then Some UnsafeUrl
         else if \<not> allow_private \<and> \<not> resolves_to_public resolve url then Some PrivateUrl
         else None
     | _ \<Rightarrow> Some BadUrl)"

fun first_some :: "'a option list \<Rightarrow> 'a option" where
  "first_some [] = None"
| "first_some (x # xs) = (case x of None \<Rightarrow> first_some xs | Some e \<Rightarrow> Some e)"

text \<open>The body is stripped in place; a platform that is a list or an object cannot be looked up in a set.\<close>

definition validate_hook ::
    "(string \<Rightarrow> bool) \<Rightarrow> (string \<Rightarrow> ip_flags list option) \<Rightarrow> bool \<Rightarrow> (string, pyval) dict
      \<Rightarrow> (py_exc + hook_error option) \<times> (string, pyval) dict" where
  "validate_hook latin1 resolve allow_private b0 =
     (let b = strip_header_bound b0; unknown = filter (\<lambda>k. k \<notin> set hook_allowed_keys) (map fst b) in
      (if unknown \<noteq> [] then Inr (Some (UnknownKeys (sort (remdups unknown))))
       else if dict_get b ''enabled'' \<noteq> None \<and> \<not> is_bool (obj_get b ''enabled'') then Inr (Some EnabledNotBool)
       else if \<not> hashable (obj_get b ''platform'') then Inl TypeError
       else if obj_get b ''platform'' \<noteq> PNone \<and> obj_get b ''platform'' \<notin> set (map PStr platforms) then Inr (Some BadPlatform)
       else Inr (first_some ([check_url latin1 resolve allow_private b, check_text latin1 b ''secret'',
         if obj_get b ''min_severity'' \<noteq> PNone \<and> obj_get b ''min_severity'' \<notin> set (map PStr severity_order)
           then Some BadSeverity else None]
         @ map (check_text latin1 b) [''zammad_group'', ''zammad_customer'', ''jira_email'', ''jira_project_key'', ''jira_issue_type''])), b))"

definition required_fields :: "pyval \<Rightarrow> string list" where
  "required_fields platform =
     (if platform = PStr ''zammad'' then [''url'', ''secret'', ''zammad_group'', ''zammad_customer'']
      else if platform = PStr ''jira'' then [''url'', ''secret'', ''jira_project_key'']
      else [''url''])"

definition validate_effective :: "(string, pyval) dict \<Rightarrow> hook_error option" where
  "validate_effective cfg =
     (if \<not> truthy (obj_get cfg ''enabled'') then None
      else let missing = filter (\<lambda>k. \<not> truthy (obj_get cfg k)) (required_fields (py_or (obj_get cfg ''platform'') (PStr ''generic'')))
        in if missing \<noteq> [] then Some (MissingFields missing) else None)"

section \<open>Findings\<close>

definition finding_basis :: "int \<Rightarrow> (string, pyval) dict \<Rightarrow> pyval option" where
  "finding_basis pid f = map_option (\<lambda>ns. PDict [(''affected_nodes'', PList ns), (''category'', obj_get f ''category''),
       (''description'', obj_get f ''description''), (''project_id'', PInt pid)])
     (Option.bind (py_iter (py_or (obj_get f ''affected_nodes'') (PList []))) py_sorted)"

definition finding_dedup_key :: "(pyval \<Rightarrow> string) \<Rightarrow> int \<Rightarrow> (string, pyval) dict \<Rightarrow> string option" where
  "finding_dedup_key digest pid f = map_option digest (finding_basis pid f)"

fun index_of :: "'a \<Rightarrow> 'a list \<Rightarrow> nat option" where
  "index_of x [] = None"
| "index_of x (y # ys) = (if x = y then Some 0 else map_option Suc (index_of x ys))"

definition sev_index :: "string \<Rightarrow> nat" where
  "sev_index s = (case index_of s severity_order of None \<Rightarrow> 0 | Some i \<Rightarrow> i)"

definition finding_severity :: "(rat \<Rightarrow> string) \<Rightarrow> (string, pyval) dict \<Rightarrow> string" where
  "finding_severity fr f = py_upper (py_str fr (py_or (obj_get f ''severity'') (PStr ''INFO'')))"

definition qualifying_findings ::
    "(rat \<Rightarrow> string) \<Rightarrow> (string, pyval) dict \<Rightarrow> pyval \<Rightarrow> (string, pyval) dict list option" where
  "qualifying_findings fr report min_severity =
     (let floor = (case min_severity of PStr s \<Rightarrow> sev_index s | _ \<Rightarrow> 0) in
      map_option (filter (\<lambda>f. floor \<le> sev_index (finding_severity fr f)))
        (Option.bind (py_iter (py_or (obj_get report ''risk_findings'') (PList []))) (map_opt as_dict)))"

definition finding_payload :: "(pyval \<Rightarrow> string) \<Rightarrow> int \<Rightarrow> (string, pyval) dict \<Rightarrow> (string, pyval) dict option" where
  "finding_payload digest pid f = map_option (\<lambda>k. (''dedup_key'', PStr k) # map (\<lambda>n. (n, obj_get f n))
       [''severity'', ''category'', ''description'', ''affected_nodes'', ''affected_edges'', ''cvss_impact'', ''remediation''])
     (finding_dedup_key digest pid f)"

record hook_project =
  ho_id :: int
  ho_name :: string
  ho_config :: "string option"

definition max_findings :: nat where "max_findings = 200"
definition max_tickets :: nat where "max_tickets = 25"

definition build_payload ::
    "(pyval \<Rightarrow> string) \<Rightarrow> hook_project \<Rightarrow> string \<Rightarrow> (string, pyval) dict \<Rightarrow> (string, pyval) dict list
      \<Rightarrow> (string, pyval) dict option" where
  "build_payload digest p run_id report findings =
     (case (as_dict (py_or (obj_get report ''capture_info'') (PDict [])), map_opt (finding_payload digest (ho_id p)) (take max_findings findings)) of
        (Some cap, Some fs) \<Rightarrow> Some [(''event'', PStr ''scan.completed''), (''project_id'', PInt (ho_id p)), (''project_name'', PStr (ho_name p)),
          (''run_id'', PStr run_id),
          (''capture_info'', PDict [(''packet_count'', obj_get cap ''packet_count''), (''duration_s'', obj_get cap ''duration_s'')]),
          (''finding_count'', PInt (int (length findings))), (''findings_truncated'', PBool (length findings > max_findings)),
          (''findings'', PList (map PDict fs))]
      | _ \<Rightarrow> None)"

section \<open>The receiver and the ledger\<close>

record http_call =
  hc_method :: string
  hc_url :: string
  hc_headers :: "(string \<times> string) list"
  hc_json :: "pyval option"

text \<open>An answer: a 2xx reply with its JSON (an empty body is the empty object), one whose body is not
  JSON, an HTTP error with its body and its text, any other failure, and a header that cannot be encoded.\<close>

datatype response =
    Reply int pyval
  | Garbled int string
  | Refused int string string
  | Unreachable string
  | BadHeader

datatype call_error = Told string | HeaderHint

datatype api_result = ApiOk int pyval | ApiErr "int option" call_error

record ticket =
  tk_project :: int
  tk_key :: string
  tk_platform :: string
  tk_external :: string

record world =
  wd_tickets :: "ticket list"
  wd_calls :: "http_call list"

text \<open>What lies outside: the receiver's answers, and whether the database takes a row.\<close>

record outside =
  ou_reply :: "http_call list \<Rightarrow> http_call \<Rightarrow> response"
  ou_commit :: "ticket list \<Rightarrow> bool"

definition make_call :: "outside \<Rightarrow> http_call \<Rightarrow> world \<Rightarrow> response \<times> world" where
  "make_call ou c w = (ou_reply ou (wd_calls w) c, w\<lparr>wd_calls := wd_calls w @ [c]\<rparr>)"

definition post_hook ::
    "(string \<Rightarrow> string \<Rightarrow> string) \<Rightarrow> (pyval \<Rightarrow> string) \<Rightarrow> outside \<Rightarrow> pyval \<Rightarrow> pyval \<Rightarrow> (string, pyval) dict \<Rightarrow> world
      \<Rightarrow> api_result option \<times> world" where
  "post_hook hmac dumps ou url secret payload w =
     (case (url, if truthy secret then secret else PStr []) of
        (PStr u, PStr s) \<Rightarrow>
          (let hs = [(''Content-Type'', ''application/json''), (''X-MarlinSpike-Event'', str_of (obj_get_or payload ''event'' (PStr ''scan.completed'')))];
               c = \<lparr>hc_method = ''POST'', hc_url = u,
                  hc_headers = (if s \<noteq> [] then hs @ [(''X-MarlinSpike-Signature'', ''sha256='' @ hmac s (dumps (PDict payload)))] else hs),
                  hc_json = Some (PDict payload)\<rparr>
           in case make_call ou c w of (r, w') \<Rightarrow>
             (Some (case r of Reply st _ \<Rightarrow> ApiOk st PNone | Garbled st _ \<Rightarrow> ApiOk st PNone | Refused st _ txt \<Rightarrow> ApiErr (Some st) (Told txt)
                | Unreachable txt \<Rightarrow> ApiErr None (Told txt) | BadHeader \<Rightarrow> ApiErr None HeaderHint), w'))
      | _ \<Rightarrow> (None, w))"

definition rstrip_slash :: "string \<Rightarrow> string" where
  "rstrip_slash s = rev (dropWhile (\<lambda>c. c = CHR ''/'') (rev s))"

definition platform_request ::
    "outside \<Rightarrow> pyval \<Rightarrow> string \<Rightarrow> string \<Rightarrow> string \<Rightarrow> pyval option \<Rightarrow> world \<Rightarrow> api_result option \<times> world" where
  "platform_request ou base_url auth path method json w = (case base_url of
       PStr base \<Rightarrow>
         (case make_call ou \<lparr>hc_method = method, hc_url = rstrip_slash base @ path,
              hc_headers = [(''Authorization'', auth), (''Content-Type'', ''application/json'')], hc_json = json\<rparr> w of (r, w') \<Rightarrow>
           (Some (case r of Reply st v \<Rightarrow> ApiOk st v | Garbled st txt \<Rightarrow> ApiErr None (Told txt) | Refused st detail _ \<Rightarrow> ApiErr (Some st) (Told detail)
              | Unreachable txt \<Rightarrow> ApiErr None (Told txt) | BadHeader \<Rightarrow> ApiErr None HeaderHint), w'))
     | _ \<Rightarrow> (None, w))"

definition existing_keys :: "int \<Rightarrow> string \<Rightarrow> world \<Rightarrow> string set" where
  "existing_keys pid platform w = set (map tk_key (filter (\<lambda>t. tk_project t = pid \<and> tk_platform t = platform) (wd_tickets w)))"

text \<open>
  One row per project, key and platform: \<open>models.py\<close> declares the unique constraint
  \<open>uq_webhook_ticket_project_dedup_platform\<close>, so the commit of a second row raises and is rolled back,
  as is any other commit that the database refuses.
\<close>

definition record_ticket :: "outside \<Rightarrow> int \<Rightarrow> string \<Rightarrow> string \<Rightarrow> string \<Rightarrow> world \<Rightarrow> world" where
  "record_ticket ou pid key platform ext w =
     (if key \<in> existing_keys pid platform w \<or> \<not> ou_commit ou (wd_tickets w) then w
      else w\<lparr>wd_tickets := wd_tickets w @ [\<lparr>tk_project = pid, tk_key = key, tk_platform = platform, tk_external = ext\<rparr>]\<rparr>)"

section \<open>Tickets\<close>

text \<open>The outcome of one creation: an exception, a failure, or the outside number of the ticket.\<close>

type_synonym creation = "(call_error + string) option"

definition bucket_of :: "string \<Rightarrow> pyval \<Rightarrow> string option" where
  "bucket_of middle severity = map_option (\<lambda>s. let sev = py_upper s in
       if sev \<in> {''HIGH'', ''CRITICAL''} then ''high'' else if sev = ''MEDIUM'' then middle else ''low'')
     (case py_or severity (PStr ''INFO'') of PStr s \<Rightarrow> Some s | _ \<Rightarrow> None)"

definition zammad_priority_bucket :: "pyval \<Rightarrow> string option" where
  "zammad_priority_bucket = bucket_of ''normal''"

definition jira_priority_bucket :: "pyval \<Rightarrow> string option" where
  "jira_priority_bucket = bucket_of ''medium''"

definition joined :: "(rat \<Rightarrow> string) \<Rightarrow> pyval \<Rightarrow> string option" where
  "joined fr v = map_option (\<lambda>xs. py_join '', '' (map (py_str fr) xs)) (py_iter v)"

definition text_value :: "pyval \<Rightarrow> string option" where
  "text_value v = (case v of PStr s \<Rightarrow> Some s | _ \<Rightarrow> None)"

text \<open>The body of a ticket; both platforms build it in the same way. The optional parts are lists of lines.\<close>

definition part :: "bool \<Rightarrow> string option \<Rightarrow> (string \<Rightarrow> string list) \<Rightarrow> string list option" where
  "part present txt lines = (if present then map_option lines txt else Some [])"

definition ticket_body :: "(rat \<Rightarrow> string) \<Rightarrow> (string, pyval) dict \<Rightarrow> string option" where
  "ticket_body fr f = map_option (\<lambda>parts. py_join [char_of (10::nat)] (concat parts)) (map_opt (\<lambda>x. x)
     [map_option (\<lambda>s. [s, []]) (text_value (py_or (obj_get f ''description'') (PStr ''(no description)''))),
      part (truthy (obj_get f ''affected_nodes'')) (joined fr (obj_get f ''affected_nodes'')) (\<lambda>s. [''Affected assets: '' @ s]),
      part (truthy (obj_get f ''affected_edges'')) (joined fr (obj_get f ''affected_edges'')) (\<lambda>s. [''Affected connections: '' @ s]),
      part (obj_get f ''cvss_impact'' \<noteq> PNone) (Some (py_str fr (obj_get f ''cvss_impact''))) (\<lambda>s. [''CVSS impact: '' @ s]),
      part (truthy (obj_get f ''remediation'')) (text_value (obj_get f ''remediation'')) (\<lambda>s. [[], ''Remediation: '' @ s]),
      Some [[], ''MarlinSpike dedup key: '' @ py_str fr (obj_get_or f ''dedup_key'' (PStr []))]])"

text \<open>The title's variable parts: category, severity and project.\<close>

definition ticket_title :: "(rat \<Rightarrow> string) \<Rightarrow> (string, pyval) dict \<Rightarrow> pyval" where
  "ticket_title fr f = PList (map PStr [py_str fr (obj_get_or f ''category'' (PStr ''Finding'')),
     py_str fr (obj_get_or f ''severity'' (PStr ''INFO'')), py_str fr (obj_get_or f ''_project_name'' (PStr ''MarlinSpike''))])"

definition creation_of :: "(rat \<Rightarrow> string) \<Rightarrow> string \<Rightarrow> api_result option \<times> world \<Rightarrow> creation \<times> world" where
  "creation_of fr first_id rw = (case rw of
       (None, w) \<Rightarrow> (None, w)
     | (Some (ApiErr _ e), w) \<Rightarrow> (Some (Inl e), w)
     | (Some (ApiOk _ v), w) \<Rightarrow> (case py_or v (PDict []) of
           PDict d \<Rightarrow> (Some (Inr (py_str fr (py_or (obj_get d first_id) (py_or (obj_get d ''id'') (PStr []))))), w)
         | _ \<Rightarrow> (None, w)))"

definition zammad_auth :: "(rat \<Rightarrow> string) \<Rightarrow> pyval \<Rightarrow> string" where
  "zammad_auth fr token = ''Token token='' @ py_str fr token"

definition zammad_create_ticket ::
    "(rat \<Rightarrow> string) \<Rightarrow> outside \<Rightarrow> pyval \<Rightarrow> pyval \<Rightarrow> pyval \<Rightarrow> pyval \<Rightarrow> (string, pyval) dict \<Rightarrow> pyval \<Rightarrow> world \<Rightarrow> creation \<times> world" where
  "zammad_create_ticket fr ou base_url token grp customer f priority_id w = (case ticket_body fr f of
       None \<Rightarrow> (None, w)
     | Some txt \<Rightarrow> creation_of fr ''number'' (platform_request ou base_url (zammad_auth fr token) ''/api/v1/tickets'' ''POST''
         (Some (PDict ([(''title'', ticket_title fr f), (''group'', grp),
            (''article'', PDict [(''subject'', obj_get_or f ''category'' (PStr ''MarlinSpike finding'')), (''body'', PStr txt),
              (''type'', PStr ''note''), (''internal'', PBool False)])]
          @ (if truthy customer then [(''customer'', customer)] else [])
          @ (if priority_id \<noteq> PNone then [(''priority_id'', priority_id)] else [])))) w))"

definition zammad_defaults :: "(string, pyval) dict" where
  "zammad_defaults = [(''low'', PInt 1), (''normal'', PInt 2), (''high'', PInt 3)]"

definition has_word :: "string \<Rightarrow> string \<Rightarrow> bool" where
  "has_word word s \<longleftrightarrow> sublist word s"

definition zammad_priorities :: "(rat \<Rightarrow> string) \<Rightarrow> (string, pyval) dict list \<Rightarrow> (string, pyval) dict" where
  "zammad_priorities fr ps = fold (\<lambda>p out. fold (\<lambda>bucket out.
       if has_word bucket (py_lower (py_str fr (py_or (obj_get p ''name'') (PStr [])))) then dict_set bucket (obj_get p ''id'') out else out)
       [''low'', ''normal'', ''high''] out) ps []"

definition zammad_priority_map ::
    "(rat \<Rightarrow> string) \<Rightarrow> outside \<Rightarrow> pyval \<Rightarrow> pyval \<Rightarrow> world \<Rightarrow> (string, pyval) dict option \<times> world" where
  "zammad_priority_map fr ou base_url token w =
     (case platform_request ou base_url (zammad_auth fr token) ''/api/v1/ticket_priorities'' ''GET'' None w of
        (None, w') \<Rightarrow> (None, w')
      | (Some (ApiOk _ (PList ps)), w') \<Rightarrow> (map_option (\<lambda>ds. fold (\<lambda>(k, v) m. if v \<noteq> PNone then dict_set k v m else m)
            (zammad_priorities fr ds) zammad_defaults) (map_opt as_dict ps), w')
      | (Some _, w') \<Rightarrow> (Some zammad_defaults, w'))"

section \<open>Jira\<close>

definition utf8 :: "string \<Rightarrow> bytes" where
  "utf8 s = concat (map (\<lambda>c. let n = ord_of c in
     if n < 128 then [byte_of n] else [byte_of (192 + n div 64), byte_of (128 + n mod 64)]) s)"

definition jira_auth_header :: "(rat \<Rightarrow> string) \<Rightarrow> pyval \<Rightarrow> pyval \<Rightarrow> string" where
  "jira_auth_header fr secret email =
     (if truthy email then ''Basic '' @ b64encode (utf8 (py_str fr email @ '':'' @ py_str fr secret))
      else ''Bearer '' @ py_str fr secret)"

text \<open>The bucket of a priority's name; the first name of a bucket is kept.\<close>

definition jira_name_bucket :: "string \<Rightarrow> string option" where
  "jira_name_bucket low =
     (if list_ex (\<lambda>w. has_word w low) [''high'', ''critical'', ''highest'', ''blocker'', ''urgent''] then Some ''high''
      else if list_ex (\<lambda>w. has_word w low) [''medium'', ''major'', ''normal''] then Some ''medium''
      else if list_ex (\<lambda>w. has_word w low) [''low'', ''lowest'', ''minor'', ''trivial''] then Some ''low''
      else None)"

definition jira_names :: "(rat \<Rightarrow> string) \<Rightarrow> (string, pyval) dict list \<Rightarrow> (string, string) dict" where
  "jira_names fr ps = fold (\<lambda>p out. let name = py_str fr (py_or (obj_get p ''name'') (PStr [])) in
     (case jira_name_bucket (py_lower name) of
        None \<Rightarrow> out
      | Some bucket \<Rightarrow> if dict_get out bucket = None then dict_set bucket name out else out)) ps []"

definition jira_priority_names ::
    "(rat \<Rightarrow> string) \<Rightarrow> outside \<Rightarrow> pyval \<Rightarrow> pyval \<Rightarrow> pyval \<Rightarrow> world \<Rightarrow> (string, string) dict option \<times> world" where
  "jira_priority_names fr ou base_url secret email w =
     (case platform_request ou base_url (jira_auth_header fr secret email) ''/rest/api/2/priority'' ''GET'' None w of
        (None, w') \<Rightarrow> (None, w')
      | (Some (ApiOk _ (PList ps)), w') \<Rightarrow> (map_option (jira_names fr) (map_opt as_dict ps), w')
      | (Some _, w') \<Rightarrow> (Some [], w'))"

definition jira_create_issue ::
    "(rat \<Rightarrow> string) \<Rightarrow> outside \<Rightarrow> pyval \<Rightarrow> pyval \<Rightarrow> pyval \<Rightarrow> pyval \<Rightarrow> pyval \<Rightarrow> (string, pyval) dict \<Rightarrow> string option \<Rightarrow> world
      \<Rightarrow> creation \<times> world" where
  "jira_create_issue fr ou base_url secret email project_key issue_type f priority_name w = (case ticket_body fr f of
       None \<Rightarrow> (None, w)
     | Some txt \<Rightarrow> creation_of fr ''key'' (platform_request ou base_url (jira_auth_header fr secret email) ''/rest/api/2/issue'' ''POST''
         (Some (PDict [(''fields'', PDict ([(''project'', PDict [(''key'', project_key)]), (''summary'', ticket_title fr f),
            (''description'', PStr txt), (''issuetype'', PDict [(''name'', py_or issue_type (PStr ''Task''))])]
          @ (case priority_name of None \<Rightarrow> [] | Some n \<Rightarrow> if n \<noteq> [] then [(''priority'', PDict [(''name'', PStr n)])] else [])))])) w))"

section \<open>Deliveries\<close>

record delivery =
  dl_created :: nat
  dl_skipped :: nat
  dl_failed :: nat

text \<open>The loop over the findings to be ticketed, each with its key.\<close>

fun create_all ::
    "outside \<Rightarrow> int \<Rightarrow> string \<Rightarrow> ((string, pyval) dict \<Rightarrow> world \<Rightarrow> creation \<times> world) \<Rightarrow> ((string, pyval) dict \<times> string) list
      \<Rightarrow> nat \<times> nat \<Rightarrow> world \<Rightarrow> (nat \<times> nat) option \<times> world" where
  "create_all ou pid platform create [] counts w = (Some counts, w)"
| "create_all ou pid platform create ((f, key) # rest) (created, failed) w =
     (case create f w of
        (None, w1) \<Rightarrow> (None, w1)
      | (Some (Inr ext), w1) \<Rightarrow> create_all ou pid platform create rest (created + 1, failed) (record_ticket ou pid key platform ext w1)
      | (Some (Inl _), w1) \<Rightarrow> create_all ou pid platform create rest (created, failed + 1) w1)"

definition keyed :: "(pyval \<Rightarrow> string) \<Rightarrow> int \<Rightarrow> (string, pyval) dict list \<Rightarrow> ((string, pyval) dict \<times> string) list option" where
  "keyed digest pid = map_opt (\<lambda>f. map_option (Pair f) (finding_dedup_key digest pid f))"

definition new_findings :: "int \<Rightarrow> string \<Rightarrow> world \<Rightarrow> ((string, pyval) dict \<times> string) list \<Rightarrow> ((string, pyval) dict \<times> string) list" where
  "new_findings pid platform w = filter (\<lambda>fk. snd fk \<notin> existing_keys pid platform w)"

text \<open>What the two platforms share: the keys already in the ledger, the cap, the priorities, the loop.\<close>

definition deliver_new ::
    "(pyval \<Rightarrow> string) \<Rightarrow> outside \<Rightarrow> int \<Rightarrow> string \<Rightarrow> (world \<Rightarrow> 'p option \<times> world)
      \<Rightarrow> ('p \<Rightarrow> (string, pyval) dict \<Rightarrow> world \<Rightarrow> creation \<times> world) \<Rightarrow> (string, pyval) dict list \<Rightarrow> world
      \<Rightarrow> delivery option \<times> world" where
  "deliver_new digest ou pid platform lookup create findings w = (case keyed digest pid findings of
       None \<Rightarrow> (None, w)
     | Some fks \<Rightarrow>
         let new = new_findings pid platform w fks; skipped = length findings - length new in
         if new = [] then (Some \<lparr>dl_created = 0, dl_skipped = skipped, dl_failed = 0\<rparr>, w)
         else (case lookup w of
             (None, w1) \<Rightarrow> (None, w1)
           | (Some prio, w1) \<Rightarrow>
               (case create_all ou pid platform (create prio) (take max_tickets new) (0, 0) w1 of
                  (None, w2) \<Rightarrow> (None, w2)
                | (Some (created, failed), w2) \<Rightarrow> (Some \<lparr>dl_created = created, dl_skipped = skipped, dl_failed = failed\<rparr>, w2))))"

definition no_delivery :: delivery where
  "no_delivery = \<lparr>dl_created = 0, dl_skipped = 0, dl_failed = 0\<rparr>"

definition zammad_create ::
    "(rat \<Rightarrow> string) \<Rightarrow> (pyval \<Rightarrow> string) \<Rightarrow> outside \<Rightarrow> hook_project \<Rightarrow> (string, pyval) dict \<Rightarrow> (string, pyval) dict
      \<Rightarrow> (string, pyval) dict \<Rightarrow> world \<Rightarrow> creation \<times> world" where
  "zammad_create fr digest ou p cfg prio f w =
     (case (finding_payload digest (ho_id p) f, zammad_priority_bucket (obj_get f ''severity'')) of
        (Some pl, Some bucket) \<Rightarrow> zammad_create_ticket fr ou (obj_get cfg ''url'') (obj_get cfg ''secret'') (obj_get cfg ''zammad_group'')
          (obj_get cfg ''zammad_customer'') (pl @ [(''_project_name'', PStr (ho_name p))]) (obj_get prio bucket) w
      | _ \<Rightarrow> (None, w))"

definition deliver_to_zammad ::
    "(rat \<Rightarrow> string) \<Rightarrow> (pyval \<Rightarrow> string) \<Rightarrow> outside \<Rightarrow> hook_project \<Rightarrow> (string, pyval) dict \<Rightarrow> (string, pyval) dict list \<Rightarrow> world
      \<Rightarrow> delivery option \<times> world" where
  "deliver_to_zammad fr digest ou p cfg findings w =
     (if list_ex (\<lambda>k. \<not> truthy (obj_get cfg k)) [''url'', ''secret'', ''zammad_group'', ''zammad_customer''] then (Some no_delivery, w)
      else deliver_new digest ou (ho_id p) ''zammad'' (zammad_priority_map fr ou (obj_get cfg ''url'') (obj_get cfg ''secret''))
        (zammad_create fr digest ou p cfg) findings w)"

definition jira_create ::
    "(rat \<Rightarrow> string) \<Rightarrow> (pyval \<Rightarrow> string) \<Rightarrow> outside \<Rightarrow> hook_project \<Rightarrow> (string, pyval) dict \<Rightarrow> (string, string) dict
      \<Rightarrow> (string, pyval) dict \<Rightarrow> world \<Rightarrow> creation \<times> world" where
  "jira_create fr digest ou p cfg names f w =
     (case (finding_payload digest (ho_id p) f, jira_priority_bucket (obj_get f ''severity'')) of
        (Some pl, Some bucket) \<Rightarrow> jira_create_issue fr ou (obj_get cfg ''url'') (obj_get cfg ''secret'') (obj_get cfg ''jira_email'')
          (obj_get cfg ''jira_project_key'') (py_or (obj_get cfg ''jira_issue_type'') (PStr ''Task''))
          (pl @ [(''_project_name'', PStr (ho_name p))]) (dict_get names bucket) w
      | _ \<Rightarrow> (None, w))"

definition deliver_to_jira ::
    "(rat \<Rightarrow> string) \<Rightarrow> (pyval \<Rightarrow> string) \<Rightarrow> outside \<Rightarrow> hook_project \<Rightarrow> (string, pyval) dict \<Rightarrow> (string, pyval) dict list \<Rightarrow> world
      \<Rightarrow> delivery option \<times> world" where
  "deliver_to_jira fr digest ou p cfg findings w =
     (if list_ex (\<lambda>k. \<not> truthy (obj_get cfg k)) [''url'', ''secret'', ''jira_project_key''] then (Some no_delivery, w)
      else deliver_new digest ou (ho_id p) ''jira'' (jira_priority_names fr ou (obj_get cfg ''url'') (obj_get cfg ''secret'') (obj_get cfg ''jira_email''))
        (jira_create fr digest ou p cfg) findings w)"

text \<open>The entry point: every exception ends here, so only the world comes out.\<close>

record hook_library =
  lb_fr :: "rat \<Rightarrow> string"
  lb_digest :: "pyval \<Rightarrow> string"
  lb_loads :: "string \<Rightarrow> pyval option"
  lb_dumps :: "pyval \<Rightarrow> string"
  lb_hmac :: "string \<Rightarrow> string \<Rightarrow> string"

definition deliver_findings ::
    "hook_library \<Rightarrow> outside \<Rightarrow> hook_project \<Rightarrow> (string, pyval) dict \<Rightarrow> string \<Rightarrow> (string, pyval) dict
      \<Rightarrow> (string, pyval) dict list \<Rightarrow> world \<Rightarrow> world" where
  "deliver_findings lb ou p cfg run_id report findings w =
     (let platform = py_or (obj_get cfg ''platform'') (PStr ''generic'') in
      if platform = PStr ''zammad'' then snd (deliver_to_zammad (lb_fr lb) (lb_digest lb) ou p cfg findings w)
      else if platform = PStr ''jira'' then snd (deliver_to_jira (lb_fr lb) (lb_digest lb) ou p cfg findings w)
      else (case build_payload (lb_digest lb) p run_id report findings of
          None \<Rightarrow> w
        | Some payload \<Rightarrow> snd (post_hook (lb_hmac lb) (lb_dumps lb) ou (obj_get cfg ''url'') (obj_get cfg ''secret'') payload w)))"

definition deliver_for_scan ::
    "hook_library \<Rightarrow> outside \<Rightarrow> (int, hook_project) dict \<Rightarrow> (string \<Rightarrow> pyval option)
      \<Rightarrow> int option \<Rightarrow> string option \<Rightarrow> string \<Rightarrow> world \<Rightarrow> world" where
  "deliver_for_scan lb ou projects read project_id report_path run_id w = (case (project_id, report_path) of
       (Some pid, Some path) \<Rightarrow>
         if pid = 0 \<or> path = [] then w
         else (case dict_get projects pid of
             None \<Rightarrow> w
           | Some p \<Rightarrow>
               let cfg = parse_hook (lb_loads lb) (ho_config p) in
               if \<not> truthy (obj_get cfg ''enabled'') \<or> \<not> truthy (obj_get cfg ''url'') then w
               else (case read path of
                   Some (PDict report) \<Rightarrow> (case qualifying_findings (lb_fr lb) report (obj_get cfg ''min_severity'') of
                       None \<Rightarrow> w
                     | Some findings \<Rightarrow> if findings = [] then w else deliver_findings lb ou p cfg run_id report findings w)
                 | _ \<Rightarrow> w))
     | _ \<Rightarrow> w)"

section \<open>The test delivery\<close>

record test_result =
  ts_ok :: bool
  ts_status :: "int option"
  ts_error :: "call_error option"
  ts_detail :: "string option"

definition test_failure :: "int option \<Rightarrow> call_error \<Rightarrow> test_result" where
  "test_failure st e = \<lparr>ts_ok = False, ts_status = st, ts_error = Some e, ts_detail = None\<rparr>"

definition test_finding :: "(string, pyval) dict" where
  "test_finding = [(''dedup_key'', PStr ''test''), (''severity'', PStr ''INFO''), (''category'', PStr ''MarlinSpike test''),
     (''description'', PStr ''Test delivery from MarlinSpike to verify your receiver is reachable and configured correctly.''),
     (''affected_nodes'', PList []), (''affected_edges'', PList []), (''cvss_impact'', PNone), (''remediation'', PNone)]"

definition missing_error :: "(string \<times> pyval) list \<Rightarrow> call_error" where
  "missing_error req = Told (''missing required field(s): '' @ py_join '', '' (map fst (filter (\<lambda>(_, v). \<not> truthy v) req)))"

definition test_outcome :: "string \<Rightarrow> creation \<times> world \<Rightarrow> test_result option \<times> world" where
  "test_outcome noun cw = (case cw of
       (None, w) \<Rightarrow> (None, w)
     | (Some (Inr ext), w) \<Rightarrow>
         (Some \<lparr>ts_ok = True, ts_status = Some 201, ts_error = None, ts_detail = Some (''created '' @ noun @ '' '' @ ext)\<rparr>, w)
     | (Some (Inl e), w) \<Rightarrow> (Some (test_failure None e), w))"

definition send_test :: "hook_library \<Rightarrow> outside \<Rightarrow> hook_project \<Rightarrow> world \<Rightarrow> test_result option \<times> world" where
  "send_test lb ou p w =
     (let cfg = parse_hook (lb_loads lb) (ho_config p); url = obj_get cfg ''url''; token = obj_get cfg ''secret'';
          platform = py_or (obj_get cfg ''platform'') (PStr ''generic'');
          f = test_finding @ [(''_project_name'', PStr (ho_name p))] in
      if \<not> truthy url then (Some (test_failure None (Told ''no webhook URL configured'')), w)
      else if platform = PStr ''zammad'' then
        (let req = [(''API token'', token), (''zammad_group'', obj_get cfg ''zammad_group''), (''zammad_customer'', obj_get cfg ''zammad_customer'')] in
         if \<not> list_all (\<lambda>(_, v). truthy v) req then (Some (test_failure None (missing_error req)), w)
         else (case zammad_priority_map (lb_fr lb) ou url token w of
             (None, w1) \<Rightarrow> (None, w1)
           | (Some prio, w1) \<Rightarrow> test_outcome ''ticket'' (zammad_create_ticket (lb_fr lb) ou url token (obj_get cfg ''zammad_group'')
               (obj_get cfg ''zammad_customer'') f (obj_get prio ''low'') w1)))
      else if platform = PStr ''jira'' then
        (let req = [(''API/personal access token'', token), (''jira_project_key'', obj_get cfg ''jira_project_key'')]; email = obj_get cfg ''jira_email'' in
         if \<not> list_all (\<lambda>(_, v). truthy v) req then (Some (test_failure None (missing_error req)), w)
         else (case jira_priority_names (lb_fr lb) ou url token email w of
             (None, w1) \<Rightarrow> (None, w1)
           | (Some names, w1) \<Rightarrow> test_outcome ''issue'' (jira_create_issue (lb_fr lb) ou url token email
               (obj_get cfg ''jira_project_key'') (py_or (obj_get cfg ''jira_issue_type'') (PStr ''Task'')) f (dict_get names ''low'') w1)))
      else (case post_hook (lb_hmac lb) (lb_dumps lb) ou url token
            [(''event'', PStr ''webhook.test''), (''project_id'', PInt (ho_id p)), (''project_name'', PStr (ho_name p)), (''run_id'', PNone),
             (''capture_info'', PDict []), (''finding_count'', PInt 1), (''findings_truncated'', PBool False),
             (''findings'', PList [PDict test_finding])] w of
          (None, w1) \<Rightarrow> (None, w1)
        | (Some (ApiOk st _), w1) \<Rightarrow> (Some \<lparr>ts_ok = True, ts_status = Some st, ts_error = None, ts_detail = None\<rparr>, w1)
        | (Some (ApiErr st e), w1) \<Rightarrow> (Some (test_failure st e), w1)))"

section \<open>The settings routes\<close>

text \<open>A secret is shown by its last four characters; \<open>None\<close> is a stored secret that has no length.\<close>

definition mask_secret :: "string \<Rightarrow> string" where
  "mask_secret s = (if length s > 4 then replicate (length s - 4) (CHR ''*'') @ drop (length s - 4) s else ''****'')"

definition mask_webhook_secret :: "(string, pyval) dict \<Rightarrow> (string, pyval) dict option" where
  "mask_webhook_secret cfg = (case obj_get cfg ''secret'' of
       PStr s \<Rightarrow> Some (if s \<noteq> [] then dict_set ''secret'' (PStr (mask_secret s)) cfg else cfg)
     | v \<Rightarrow> if truthy v then None else Some cfg)"

datatype hook_reply =
    HookFailed nat "hook_error option"
  | HookShown "(string, pyval) dict" bool
  | HookSaved "(string, pyval) dict"
  | HookRaised

definition get_project_webhook ::
    "(string \<Rightarrow> pyval option) \<Rightarrow> (int, sched_project) dict \<Rightarrow> member list \<Rightarrow> int option \<Rightarrow> int \<Rightarrow> (int, hook_project) dict \<Rightarrow> hook_reply" where
  "get_project_webhook loads sps ms uid pid hooks =
     (case (get_project_for_user sps ms uid pid ''owner'', dict_get hooks pid) of
        (Some _, Some p) \<Rightarrow>
          (let cfg = parse_hook loads (ho_config p) in
           case mask_webhook_secret cfg of None \<Rightarrow> HookRaised | Some shown \<Rightarrow> HookShown shown (truthy (obj_get cfg ''url'')))
      | _ \<Rightarrow> HookFailed 404 None)"

text \<open>\<open>{**a, **b}\<close>.\<close>

definition dict_merge :: "('k, 'v) dict \<Rightarrow> ('k, 'v) dict \<Rightarrow> ('k, 'v) dict" where
  "dict_merge a b = fold (\<lambda>(k, v) d. dict_set k v d) b a"

text \<open>The merged settings are checked for completeness, stored and audited; the reply shows what is stored.\<close>

definition save_webhook ::
    "hook_library \<Rightarrow> int \<Rightarrow> hook_project \<Rightarrow> (string, pyval) dict \<Rightarrow> (int, hook_project) dict \<times> audit_entry list
      \<Rightarrow> hook_reply \<times> (int, hook_project) dict \<times> audit_entry list" where
  "save_webhook lb pid p merged st = (case validate_effective merged of
       Some e \<Rightarrow> (HookFailed 400 (Some e), st)
     | None \<Rightarrow>
         (let raw = (if merged \<noteq> [] then Some (lb_dumps lb (PDict merged)) else None);
              entry = \<lparr>au_event = ''project.webhook_set'', au_target = show_int pid, au_actor = None,
                au_detail = [(''project_id'', PInt pid), (''enabled'', obj_get_or merged ''enabled'' (PBool False)),
                  (''url_set'', PBool (truthy (obj_get merged ''url''))), (''min_severity'', obj_get merged ''min_severity'')]\<rparr>
          in (case mask_webhook_secret (parse_hook (lb_loads lb) raw) of None \<Rightarrow> HookRaised | Some shown \<Rightarrow> HookSaved shown,
              dict_set pid (p\<lparr>ho_config := raw\<rparr>) (fst st), snd st @ [entry])))"

text \<open>The reply, and the stored rows and the audit log after it; access is decided on the project's row.\<close>

definition set_project_webhook ::
    "hook_library \<Rightarrow> (string \<Rightarrow> bool) \<Rightarrow> (string \<Rightarrow> ip_flags list option) \<Rightarrow> bool \<Rightarrow> (int, sched_project) dict \<Rightarrow> member list
      \<Rightarrow> int option \<Rightarrow> int \<Rightarrow> pyval option \<Rightarrow> (int, hook_project) dict \<times> audit_entry list
      \<Rightarrow> hook_reply \<times> (int, hook_project) dict \<times> audit_entry list" where
  "set_project_webhook lb latin1 resolve allow_private sps ms uid pid json st =
     (case (get_project_for_user sps ms uid pid ''owner'', dict_get (fst st) pid) of
        (Some _, Some p) \<Rightarrow> (case json of
            Some (PDict b0) \<Rightarrow> (case validate_hook latin1 resolve allow_private b0 of
                (Inl _, _) \<Rightarrow> (HookRaised, st)
              | (Inr (Some e), _) \<Rightarrow> (HookFailed 400 (Some e), st)
              | (Inr None, b) \<Rightarrow> save_webhook lb pid p (dict_merge (parse_hook (lb_loads lb) (ho_config p)) b) st)
          | _ \<Rightarrow> (HookFailed 400 None, st))
      | _ \<Rightarrow> (HookFailed 404 None, st))"

end
