(* ===== verification/WebhookSafety.thy ===== *)
theory WebhookSafety
  imports Webhook
begin

text \<open>
  What deliveries promise. The two ticket platforms meet one contract, the locale \<open>ticketing\<close>:
  their calls leave the ledger to the delivery loop. From it follow that tickets and rows grow
  together when the keys of a report differ, and that a receiver that accepts tickets has one for
  every finding after enough scans. The locale \<open>requesting\<close> adds that a creation is one request, from
  which follows that a finding with a ticket is not sent again.
\<close>

section \<open>The ledger\<close>

definition ledger_id :: "ticket \<Rightarrow> int \<times> string \<times> string" where
  "ledger_id t = (tk_project t, tk_key t, tk_platform t)"

definition ledger_ok :: "world \<Rightarrow> bool" where
  "ledger_ok w \<longleftrightarrow> distinct (map ledger_id (wd_tickets w))"

definition keeps_ledger :: "('a \<times> world) \<Rightarrow> world \<Rightarrow> bool" where
  "keeps_ledger rw w \<longleftrightarrow> wd_tickets (snd rw) = wd_tickets w"

text \<open>What a delivery may do to the ledger: add rows of its own project and platform.\<close>

definition extends :: "int \<Rightarrow> string \<Rightarrow> world \<Rightarrow> world \<Rightarrow> bool" where
  "extends pid platform w w' \<longleftrightarrow>
     (\<exists>ts. wd_tickets w' = wd_tickets w @ ts \<and> (\<forall>t \<in> set ts. tk_project t = pid \<and> tk_platform t = platform))"

lemma extends_refl [simp]: "extends pid pl w w"
  by (simp add: extends_def)

lemma extends_trans [trans]: "extends pid pl w w1 \<Longrightarrow> extends pid pl w1 w2 \<Longrightarrow> extends pid pl w w2"
  by (auto simp: extends_def)

lemma extends_same: "wd_tickets w' = wd_tickets w \<Longrightarrow> extends pid pl w w'"
  by (simp add: extends_def)

lemma existing_same: "wd_tickets w' = wd_tickets w \<Longrightarrow> existing_keys pid pl w' = existing_keys pid pl w"
  by (simp add: existing_keys_def)

lemma record_extends: "extends pid pl w (record_ticket ou pid key pl ext w)"
  by (simp add: record_ticket_def extends_def)

text \<open>Steps that keep the ledger in order and add rows of one project and platform only.\<close>

definition grows :: "int \<Rightarrow> string \<Rightarrow> world \<Rightarrow> world \<Rightarrow> bool" where
  "grows pid platform w w' \<longleftrightarrow> extends pid platform w w' \<and> (ledger_ok w \<longrightarrow> ledger_ok w')"

lemma grows_same: "wd_tickets w' = wd_tickets w \<Longrightarrow> grows pid pl w w'"
  by (simp add: grows_def extends_def ledger_ok_def)

lemma grows_trans [trans]: "grows pid pl w w1 \<Longrightarrow> grows pid pl w1 w2 \<Longrightarrow> grows pid pl w w2"
  by (metis grows_def extends_trans)

lemma record_grows_ledger: "grows pid pl w (record_ticket ou pid key pl ext w)"
  by (auto simp: grows_def record_extends) (auto simp: record_ticket_def ledger_ok_def ledger_id_def existing_keys_def)

lemma record_keys:
  "(\<And>ts. ou_commit ou ts) \<Longrightarrow> existing_keys pid pl (record_ticket ou pid key pl ext w) = insert key (existing_keys pid pl w)"
proof (cases "key \<in> existing_keys pid pl w")
  case True
  then show ?thesis by (simp add: record_ticket_def insert_absorb)
next
  case False
  assume "\<And>ts. ou_commit ou ts"
  then show ?thesis using False by (simp add: record_ticket_def) (simp add: existing_keys_def)
qed

lemma record_grows:
  "(\<And>ts. ou_commit ou ts) \<Longrightarrow> key \<notin> existing_keys pid pl w \<Longrightarrow>
   length (wd_tickets (record_ticket ou pid key pl ext w)) = Suc (length (wd_tickets w))"
  by (simp add: record_ticket_def)

section \<open>The contract of a ticket platform\<close>

locale ticketing =
  fixes lookup :: "world \<Rightarrow> 'p option \<times> world"
    and create :: "'p \<Rightarrow> (string, pyval) dict \<Rightarrow> world \<Rightarrow> creation \<times> world"
  assumes lookup_keeps: "keeps_ledger (lookup w) w"
    and create_keeps: "keeps_ledger (create p f w) w"
begin

lemma create_cases:
  obtains (raised) w1 where "create p f w = (None, w1)" "wd_tickets w1 = wd_tickets w"
    | (refused) e w1 where "create p f w = (Some (Inl e), w1)" "wd_tickets w1 = wd_tickets w"
    | (made) ext w1 where "create p f w = (Some (Inr ext), w1)" "wd_tickets w1 = wd_tickets w"
proof -
  obtain r w1 where run: "create p f w = (r, w1)" by (cases "create p f w")
  then have same: "wd_tickets w1 = wd_tickets w" using create_keeps [of p f w] by (simp add: keeps_ledger_def)
  show thesis
  proof (cases r)
    case None
    with run same show thesis by (simp add: raised [of w1])
  next
    case (Some x)
    then show thesis using run same by (cases x) (auto intro: refused made)
  qed
qed

lemma create_all_grows: "grows pid pl w (snd (create_all ou pid pl (create p) fks counts w))"
proof (induction fks arbitrary: counts w)
  case Nil
  then show ?case by (simp add: grows_same)
next
  case (Cons fk fks)
  obtain f key where fk: "fk = (f, key)" by (cases fk)
  obtain c x where counts: "counts = (c, x)" by (cases counts)
  show ?case
  proof (cases rule: create_cases [of p f w])
    case (raised w1)
    then show ?thesis by (simp add: fk counts grows_same)
  next
    case (refused e w1)
    then show ?thesis
      using grows_trans [OF grows_same [OF refused(2)] Cons.IH] by (simp add: fk counts)
  next
    case (made ext w1)
    then show ?thesis
      using grows_trans [OF grows_trans [OF grows_same [OF made(2)] record_grows_ledger] Cons.IH] by (simp add: fk counts)
  qed
qed

lemma create_all_counts:
  assumes "create_all ou pid pl (create p) fks (c, x) w = (Some (c', x'), w')"
    and "distinct (map snd fks)" "set (map snd fks) \<inter> existing_keys pid pl w = {}" "\<And>ts. ou_commit ou ts"
  shows "c' + x' = c + x + length fks \<and> length (wd_tickets w') + c = length (wd_tickets w) + c'"
  using assms(1-3)
proof (induction fks arbitrary: c x w)
  case (Cons fk fks)
  obtain f key where fk: "fk = (f, key)" by (cases fk)
  show ?case
  proof (cases rule: create_cases [of p f w])
    case (raised w1)
    then show ?thesis using Cons.prems(1) by (simp add: fk)
  next
    case (refused e w1)
    then show ?thesis
      using Cons.IH [of c "x + 1" w1] Cons.prems existing_same [of w1 w pid pl] by (simp add: fk)
  next
    case (made ext w1)
    let ?w2 = "record_ticket ou pid key pl ext w1"
    have "existing_keys pid pl ?w2 = insert key (existing_keys pid pl w)"
      using record_keys [OF assms(4)] existing_same [OF made(2)] by simp
    moreover have "length (wd_tickets ?w2) = Suc (length (wd_tickets w))"
      using record_grows [OF assms(4), of key pid pl w1 ext] made(2) existing_same [OF made(2), of pid pl] Cons.prems(3)
      by (simp add: fk)
    ultimately show ?thesis
      using Cons.IH [of "c + 1" x ?w2] Cons.prems made(1) by (auto simp: fk)
  qed
qed simp

lemma create_all_refused:
  assumes "\<And>f w. f \<in> set (map fst fks) \<Longrightarrow> \<exists>e w'. create p f w = (Some (Inl e), w')"
  shows "wd_tickets (snd (create_all ou pid pl (create p) fks counts w)) = wd_tickets w"
  using assms
proof (induction fks arbitrary: counts w)
  case (Cons fk fks)
  obtain f key c x where fk: "fk = (f, key)" "counts = (c, x)" by (cases fk, cases counts)
  obtain e w1 where refused: "create p f w = (Some (Inl e), w1)" using Cons.prems [of f w] by (auto simp: fk)
  then have "wd_tickets w1 = wd_tickets w" using create_keeps [of p f w] by (simp add: keeps_ledger_def)
  then show ?case using Cons.IH [of "(c, x + 1)" w1] Cons.prems refused by (simp add: fk)
qed simp

lemma deliver_refused:
  assumes "keyed digest pid fs = Some fks"
    and "\<And>p f w. f \<in> set (map fst (take max_tickets (filter (\<lambda>fk. snd fk \<notin> set old) fks))) \<Longrightarrow> \<exists>e w'. create p f w = (Some (Inl e), w')"
    and "existing_keys pid pl w = set old"
  shows "wd_tickets (snd (deliver_new digest ou pid pl lookup create fs w)) = wd_tickets w"
proof -
  obtain r w1 where look: "lookup w = (r, w1)" by (cases "lookup w")
  then have same: "wd_tickets w1 = wd_tickets w" using lookup_keeps [of w] by (simp add: keeps_ledger_def)
  have new: "new_findings pid pl w fks = filter (\<lambda>fk. snd fk \<notin> set old) fks" by (simp add: new_findings_def assms(3))
  have "wd_tickets (snd (create_all ou pid pl (create prio) (take max_tickets (new_findings pid pl w fks)) (0, 0) w1)) = wd_tickets w1" for prio
    by (rule create_all_refused) (use assms(2) new in simp)
  with same show ?thesis
    using assms(1) by (simp add: deliver_new_def Let_def look split: option.split prod.split) (metis snd_conv)
qed

lemma create_all_accepted:
  assumes "\<And>ts. ou_commit ou ts" "\<And>f w. f \<in> set (map fst fks) \<Longrightarrow> \<exists>ext w'. create p f w = (Some (Inr ext), w')"
  shows "\<exists>w'. create_all ou pid pl (create p) fks (c, x) w = (Some (c + length fks, x), w')
    \<and> existing_keys pid pl w' = existing_keys pid pl w \<union> set (map snd fks)"
  using assms(2)
proof (induction fks arbitrary: c w)
  case (Cons fk fks)
  obtain f key where fk: "fk = (f, key)" by (cases fk)
  obtain ext w1 where made: "create p f w = (Some (Inr ext), w1)" using Cons.prems [of f w] by (auto simp: fk)
  then have same: "wd_tickets w1 = wd_tickets w" using create_keeps [of p f w] by (simp add: keeps_ledger_def)
  let ?w2 = "record_ticket ou pid key pl ext w1"
  have "existing_keys pid pl ?w2 = insert key (existing_keys pid pl w)"
    using record_keys [OF assms(1)] existing_same [OF same] by simp
  then show ?case
    using Cons.IH [of "c + 1" ?w2] Cons.prems made by (auto simp: fk)
qed simp

lemma deliver_grows: "grows pid pl w (snd (deliver_new digest ou pid pl lookup create fs w))"
proof -
  obtain r w1 where look: "lookup w = (r, w1)" by (cases "lookup w")
  then have same: "wd_tickets w1 = wd_tickets w" using lookup_keeps [of w] by (simp add: keeps_ledger_def)
  have made: "grows pid pl w (snd (create_all ou pid pl (create prio) fks (0, 0) w1))" for prio fks
    by (rule grows_trans [OF grows_same [OF same] create_all_grows])
  have raised: "grows pid pl w w" "grows pid pl w w1" using same by (simp_all add: grows_same)
  show ?thesis
    using made raised by (simp add: deliver_new_def Let_def look split: option.split prod.split) (metis snd_conv)
qed

lemma deliver_counts:
  assumes "deliver_new digest ou pid pl lookup create fs w = (Some d, w')"
    and "keyed digest pid fs = Some fks" "distinct (map snd fks)" "\<And>ts. ou_commit ou ts"
  shows "length (wd_tickets w') = length (wd_tickets w) + dl_created d
    \<and> dl_created d + dl_failed d = min max_tickets (length (new_findings pid pl w fks))"
proof (cases "new_findings pid pl w fks = []")
  case True
  then show ?thesis using assms(1,2) by (auto simp: deliver_new_def Let_def)
next
  case False
  let ?new = "take max_tickets (new_findings pid pl w fks)"
  obtain prio w1 c x where look: "lookup w = (Some prio, w1)"
    and run: "create_all ou pid pl (create prio) ?new (0, 0) w1 = (Some (c, x), w')"
    and d: "dl_created d = c" "dl_failed d = x"
    using assms(1,2) False by (auto simp: deliver_new_def Let_def split: option.splits prod.splits)
  have same: "wd_tickets w1 = wd_tickets w" using lookup_keeps [of w] look by (simp add: keeps_ledger_def)
  have "distinct (map snd ?new)"
    using assms(3) by (simp add: new_findings_def take_map [symmetric] distinct_map_filter)
  moreover have "set (map snd ?new) \<inter> existing_keys pid pl w1 = {}"
    using existing_same [OF same] by (auto simp: new_findings_def dest: in_set_takeD)
  ultimately show ?thesis
    using create_all_counts [OF run _ _ assms(4)] same by (simp add: d)
qed

lemma deliver_accepted:
  assumes "keyed digest pid fs = Some fks" "distinct (map snd fks)" "\<And>ts. ou_commit ou ts"
    and "\<And>w. \<exists>prio w'. lookup w = (Some prio, w')"
    and "\<And>p f w. f \<in> set (map fst fks) \<Longrightarrow> \<exists>ext w'. create p f w = (Some (Inr ext), w')"
  shows "new_findings pid pl (snd (deliver_new digest ou pid pl lookup create fs w)) fks =
    drop max_tickets (new_findings pid pl w fks)"
proof (cases "new_findings pid pl w fks = []")
  case True
  then show ?thesis using assms(1) by (simp add: deliver_new_def Let_def)
next
  case False
  let ?all = "new_findings pid pl w fks"
  let ?new = "take max_tickets ?all"
  obtain prio w1 where look: "lookup w = (Some prio, w1)" using assms(4) by blast
  have same: "wd_tickets w1 = wd_tickets w" using lookup_keeps [of w] look by (simp add: keeps_ledger_def)
  have "f \<in> set (map fst fks)" if "f \<in> set (map fst ?new)" for f
    using that by (auto simp: new_findings_def dest!: in_set_takeD)
  then obtain w' where run: "create_all ou pid pl (create prio) ?new (0, 0) w1 = (Some (length ?new, 0), w')"
    and keys: "existing_keys pid pl w' = existing_keys pid pl w \<union> set (map snd ?new)"
    using create_all_accepted [of ou ?new prio pid pl 0 0 w1] assms(3,5) existing_same [OF same]
    by (metis add_0)
  have "snd (deliver_new digest ou pid pl lookup create fs w) = w'"
    using assms(1) False look run by (simp add: deliver_new_def Let_def)
  moreover have "new_findings pid pl w' fks = filter (\<lambda>fk. snd fk \<notin> set (map snd ?new)) ?all"
    by (auto simp: new_findings_def keys intro: filter_cong)
  moreover have "filter (\<lambda>fk. snd fk \<notin> set (map snd ?new)) ?all = drop max_tickets ?all"
  proof -
    have dist: "distinct (map snd (?new @ drop max_tickets ?all))"
      using assms(2) unfolding append_take_drop_id by (simp add: new_findings_def distinct_map_filter)
    have "filter (\<lambda>fk. snd fk \<notin> set (map snd ?new)) (?new @ drop max_tickets ?all) = drop max_tickets ?all"
      using dist unfolding filter_append map_append distinct_append
      by (auto simp: filter_empty_conv filter_id_conv)
    then show ?thesis by simp
  qed
  ultimately show ?thesis by simp
qed

lemma deliveries_accepted:
  assumes "keyed digest pid fs = Some fks" "distinct (map snd fks)" "\<And>ts. ou_commit ou ts"
    and "\<And>w. \<exists>prio w'. lookup w = (Some prio, w')"
    and "\<And>p f w. f \<in> set (map fst fks) \<Longrightarrow> \<exists>ext w'. create p f w = (Some (Inr ext), w')"
  shows "new_findings pid pl (((\<lambda>w. snd (deliver_new digest ou pid pl lookup create fs w)) ^^ k) w) fks =
    drop (max_tickets * k) (new_findings pid pl w fks)"
proof (induction k)
  case (Suc k)
  have "new_findings pid pl (snd (deliver_new digest ou pid pl lookup create fs w)) fks =
      drop max_tickets (new_findings pid pl w fks)" for w
    by (rule deliver_accepted [OF assms])
  then show ?case using Suc.IH by (simp add: add.commute)
qed simp

end



section \<open>Both platforms meet it\<close>

lemma platform_request_keeps [simp]: "keeps_ledger (platform_request ou url auth path mth json w) w"
  by (auto simp: platform_request_def keeps_ledger_def make_call_def split: pyval.split)

lemma creation_keeps: "keeps_ledger rw w \<Longrightarrow> keeps_ledger (creation_of fr k rw) w"
  by (auto simp: creation_of_def keeps_ledger_def split: prod.split option.split api_result.split pyval.split)

lemma keeps_raise [simp]: "keeps_ledger (x, w) w"
  by (simp add: keeps_ledger_def)

lemma zammad_lookup_keeps: "keeps_ledger (zammad_priority_map fr ou url token w) w"
  using platform_request_keeps [of ou url "zammad_auth fr token" "''/api/v1/ticket_priorities''" "''GET''" None w]
  by (auto simp: zammad_priority_map_def keeps_ledger_def split: prod.split option.split api_result.split pyval.split)

lemma zammad_create_keeps: "keeps_ledger (zammad_create fr digest ou p cfg prio f w) w"
  by (auto simp: zammad_create_def zammad_create_ticket_def creation_keeps split: option.split)

lemma jira_lookup_keeps: "keeps_ledger (jira_priority_names fr ou url token email w) w"
  using platform_request_keeps [of ou url "jira_auth_header fr token email" "''/rest/api/2/priority''" "''GET''" None w]
  by (auto simp: jira_priority_names_def keeps_ledger_def split: prod.split option.split api_result.split pyval.split)

lemma jira_create_keeps: "keeps_ledger (jira_create fr digest ou p cfg names f w) w"
  by (auto simp: jira_create_def jira_create_issue_def creation_keeps split: option.split)

interpretation zammad: ticketing "zammad_priority_map fr ou url token" "zammad_create fr digest ou p cfg"
  for fr ou url token digest p cfg
  by unfold_locales (rule zammad_lookup_keeps zammad_create_keeps)+

interpretation jira: ticketing "jira_priority_names fr ou url token email" "jira_create fr digest ou p cfg"
  for fr ou url token email digest p cfg
  by unfold_locales (rule jira_lookup_keeps jira_create_keeps)+






section \<open>The ledger under deliveries\<close>

lemma zammad_grows: "grows (ho_id p) ''zammad'' w (snd (deliver_to_zammad fr digest ou p cfg fs w))"
  by (simp add: deliver_to_zammad_def grows_same zammad.deliver_grows)

lemma jira_grows: "grows (ho_id p) ''jira'' w (snd (deliver_to_jira fr digest ou p cfg fs w))"
  by (simp add: deliver_to_jira_def grows_same jira.deliver_grows)

lemma post_keeps: "wd_tickets (snd (post_hook hmac dumps ou url secret pl w)) = wd_tickets w"
  by (auto simp: post_hook_def make_call_def Let_def split: prod.split pyval.split)

lemma deliver_findings_ok: "ledger_ok w \<Longrightarrow> ledger_ok (deliver_findings lb ou p cfg run_id report fs w)"
  using zammad_grows [of p w "lb_fr lb" "lb_digest lb" ou cfg fs] jira_grows [of p w "lb_fr lb" "lb_digest lb" ou cfg fs]
    grows_same [OF post_keeps]
  by (auto simp: deliver_findings_def grows_def Let_def split: option.split)

subsection \<open>A receiver to try things with\<close>

definition demo_lib :: hook_library where
  "demo_lib = \<lparr>lb_fr = (\<lambda>_. ''0.0''), lb_digest = py_repr (\<lambda>_. ''0.0''), lb_loads = (\<lambda>t. if t = ''Z'' then Some (PDict
     [(''enabled'', PBool True), (''platform'', PStr ''zammad''), (''url'', PStr ''https://desk''), (''secret'', PStr ''tok''),
      (''zammad_group'', PStr ''Users''), (''zammad_customer'', PStr ''a@b'')]) else None), lb_dumps = (\<lambda>_. ''Z''), lb_hmac = (\<lambda>_ _. [])\<rparr>"

definition demo_outside :: outside where
  "demo_outside = \<lparr>ou_reply = (\<lambda>_ _. Reply 201 (PDict [(''number'', PInt 7)])), ou_commit = (\<lambda>_. True)\<rparr>"

definition demo_hook :: hook_project where
  "demo_hook = \<lparr>ho_id = 3, ho_name = ''plant'', ho_config = Some ''Z''\<rparr>"

definition demo_cfg :: "(string, pyval) dict" where
  "demo_cfg = parse_hook (lb_loads demo_lib) (ho_config demo_hook)"

definition demo_finding :: "string \<Rightarrow> string \<Rightarrow> (string, pyval) dict" where
  "demo_finding cat edge = [(''category'', PStr cat), (''description'', PStr ''d''), (''affected_nodes'', PList [PStr ''n'']),
     (''affected_edges'', PList [PStr edge]), (''severity'', PStr ''HIGH'')]"

definition demo_world :: world where
  "demo_world = \<lparr>wd_tickets = [], wd_calls = []\<rparr>"

section \<open>One request per new finding\<close>





section \<open>Tickets and rows\<close>

text \<open>
  If the keys of a report differ and the database takes rows, a delivery adds one row per ticket.\<close>

theorem tickets_match_rows:
  assumes "deliver_to_jira fr digest ou p cfg fs w = (Some d, w')" and "keyed digest (ho_id p) fs = Some fks"
    and "distinct (map snd fks)" and "\<And>ts. ou_commit ou ts"
  shows "length (wd_tickets w') = length (wd_tickets w) + dl_created d"
proof (cases "list_ex (\<lambda>k. \<not> truthy (obj_get cfg k)) [''url'', ''secret'', ''jira_project_key'']")
  case True
  then have "deliver_to_jira fr digest ou p cfg fs w = (Some no_delivery, w)" by (simp only: deliver_to_jira_def if_True)
  then show ?thesis using assms(1) by (auto simp: no_delivery_def)
next
  case False
  then have "deliver_to_jira fr digest ou p cfg fs w = deliver_new digest ou (ho_id p) ''jira''
      (jira_priority_names fr ou (obj_get cfg ''url'') (obj_get cfg ''secret'') (obj_get cfg ''jira_email''))
      (jira_create fr digest ou p cfg) fs w"
    by (simp only: deliver_to_jira_def if_False)
  then have "deliver_new digest ou (ho_id p) ''jira''
      (jira_priority_names fr ou (obj_get cfg ''url'') (obj_get cfg ''secret'') (obj_get cfg ''jira_email''))
      (jira_create fr digest ou p cfg) fs w = (Some d, w')" using assms(1) by simp
  then show ?thesis using jira.deliver_counts assms(2-4) by blast
qed

definition demo_jira :: "(string, pyval) dict" where
  "demo_jira = [(''url'', PStr ''https://jira''), (''secret'', PStr ''tok''), (''jira_project_key'', PStr ''OT'')]"

definition demo_pair :: "(string, pyval) dict list" where
  "demo_pair = [demo_finding ''A'' ''e'', demo_finding ''B'' ''e'']"

abbreviation demo_digest :: "pyval \<Rightarrow> string" where
  "demo_digest \<equiv> py_repr (\<lambda>_. ''0.0'')"

definition demo_jira_run :: "delivery option \<times> world" where
  "demo_jira_run = deliver_to_jira (\<lambda>_. ''0.0'') demo_digest demo_outside demo_hook demo_jira demo_pair demo_world"

theorem tickets_match_rows_witness:
  "length (wd_tickets (snd demo_jira_run)) = length (wd_tickets demo_world) + dl_created (the (fst demo_jira_run))
     \<and> dl_created (the (fst demo_jira_run)) = 2"
proof
  have "fst demo_jira_run \<noteq> None" by code_simp
  then obtain d where "fst demo_jira_run = Some d" by auto
  then have run: "demo_jira_run = (Some d, snd demo_jira_run)" by (metis prod.collapse)
  have "keyed demo_digest (ho_id demo_hook) demo_pair \<noteq> None" by code_simp
  then obtain fks where fks: "keyed demo_digest (ho_id demo_hook) demo_pair = Some fks" by auto
  have "distinct (map snd (the (keyed demo_digest (ho_id demo_hook) demo_pair)))" by code_simp
  then have "distinct (map snd fks)" by (simp add: fks)
  then show "length (wd_tickets (snd demo_jira_run)) = length (wd_tickets demo_world) + dl_created (the (fst demo_jira_run))"
    using tickets_match_rows [OF run [unfolded demo_jira_run_def] fks]
    \<open>fst demo_jira_run = Some d\<close> by (simp add: demo_jira_run_def demo_outside_def)
  show "dl_created (the (fst demo_jira_run)) = 2" by code_simp
qed


section \<open>Every finding gets its ticket\<close>

text \<open>A receiver that creates what it is asked to, and whose list of priorities is one.\<close>

definition accepting :: "outside \<Rightarrow> bool" where
  "accepting ou \<longleftrightarrow> (\<forall>ts. ou_commit ou ts)
     \<and> (\<forall>cs c. hc_method c = ''POST'' \<longrightarrow> (\<exists>st d. ou_reply ou cs c = Reply st (PDict d)))
     \<and> (\<forall>cs c st ps. ou_reply ou cs c = Reply st (PList ps) \<longrightarrow> map_opt as_dict ps \<noteq> None)"

text \<open>A finding whose fields have the types that a ticket needs.\<close>

definition presentable :: "(rat \<Rightarrow> string) \<Rightarrow> (pyval \<Rightarrow> string) \<Rightarrow> hook_project \<Rightarrow> (string, pyval) dict \<Rightarrow> bool" where
  "presentable fr digest p f = (case (finding_payload digest (ho_id p) f, zammad_priority_bucket (obj_get f ''severity'')) of
       (Some pl, Some _) \<Rightarrow> ticket_body fr (pl @ [(''_project_name'', PStr (ho_name p))]) \<noteq> None
     | _ \<Rightarrow> False)"

definition zammad_ready :: "(string, pyval) dict \<Rightarrow> bool" where
  "zammad_ready cfg \<longleftrightarrow> is_str (obj_get cfg ''url'')
     \<and> list_all (\<lambda>k. truthy (obj_get cfg k)) [''url'', ''secret'', ''zammad_group'', ''zammad_customer'']"

lemma accepting_lookup:
  assumes "accepting ou" "is_str url"
  shows "\<exists>prio w'. zammad_priority_map fr ou url token w = (Some prio, w')"
proof -
  obtain u where u: "url = PStr u" using assms(2) by (cases url) auto
  have "map_opt as_dict ps \<noteq> None" if "ou_reply ou cs c = Reply st (PList ps)" for cs c st ps
    using assms(1) that by (auto simp: accepting_def)
  then show ?thesis
    by (auto simp: zammad_priority_map_def platform_request_def make_call_def u split: response.split pyval.split)
qed

lemma accepted_post:
  assumes "accepting ou"
  shows "\<exists>ext w'. creation_of fr k (platform_request ou (PStr u) auth path ''POST'' json w) = (Some (Inr ext), w')"
proof -
  let ?c = "\<lparr>hc_method = ''POST'', hc_url = rstrip_slash u @ path,
    hc_headers = [(''Authorization'', auth), (''Content-Type'', ''application/json'')], hc_json = json\<rparr>"
  have "hc_method ?c = ''POST''" by simp
  then obtain st d where "ou_reply ou (wd_calls w) ?c = Reply st (PDict d)"
    using assms unfolding accepting_def by blast
  then show ?thesis by (auto simp: platform_request_def make_call_def creation_of_def py_or_def)
qed

lemma accepting_create:
  assumes "accepting ou" "is_str (obj_get cfg ''url'')" "presentable fr digest p f"
  shows "\<exists>ext w'. zammad_create fr digest ou p cfg prio f w = (Some (Inr ext), w')"
proof -
  obtain u where u: "obj_get cfg ''url'' = PStr u" using assms(2) by (cases "obj_get cfg ''url''") auto
  obtain pl b t where f: "finding_payload digest (ho_id p) f = Some pl" "zammad_priority_bucket (obj_get f ''severity'') = Some b"
      "ticket_body fr (pl @ [(''_project_name'', PStr (ho_name p))]) = Some t"
    using assms(3) by (auto simp: presentable_def split: option.splits)
  show ?thesis
    using accepted_post [OF assms(1)] by (simp add: zammad_create_def f zammad_create_ticket_def u)
qed

definition zammad_scans ::
    "(rat \<Rightarrow> string) \<Rightarrow> (pyval \<Rightarrow> string) \<Rightarrow> outside \<Rightarrow> hook_project \<Rightarrow> (string, pyval) dict \<Rightarrow> (string, pyval) dict list
      \<Rightarrow> nat \<Rightarrow> world \<Rightarrow> world" where
  "zammad_scans fr digest ou p cfg fs k w = ((\<lambda>w. snd (deliver_to_zammad fr digest ou p cfg fs w)) ^^ k) w"

lemma keyed_fst: "keyed digest pid fs = Some fks \<Longrightarrow> map fst fks = fs"
  unfolding keyed_def by (induction fs arbitrary: fks) (auto split: option.splits)

text \<open>
  C31. On Zammad, with a receiver that accepts every ticket: when each scan delivers the same findings,
  with different keys, each of them has its ticket in the ledger after one scan per 25 findings.
\<close>

theorem every_finding_ticketed:
  assumes "accepting ou" "zammad_ready cfg" "keyed digest (ho_id p) fs = Some fks" "distinct (map snd fks)"
    and "\<forall>f \<in> set fs. presentable fr digest p f" and "length fs \<le> max_tickets * k"
  shows "set (map snd fks) \<subseteq> existing_keys (ho_id p) ''zammad'' (zammad_scans fr digest ou p cfg fs k w)"
proof -
  have url: "is_str (obj_get cfg ''url'')" and full: "truthy (obj_get cfg ''url'')" "truthy (obj_get cfg ''secret'')"
      "truthy (obj_get cfg ''zammad_group'')" "truthy (obj_get cfg ''zammad_customer'')"
    using assms(2) by (simp_all add: zammad_ready_def)
  have run: "zammad_scans fr digest ou p cfg fs k w = ((\<lambda>w. snd (deliver_new digest ou (ho_id p) ''zammad''
      (zammad_priority_map fr ou (obj_get cfg ''url'') (obj_get cfg ''secret'')) (zammad_create fr digest ou p cfg) fs w)) ^^ k) w"
    by (simp add: zammad_scans_def deliver_to_zammad_def full)
  have "new_findings (ho_id p) ''zammad'' (zammad_scans fr digest ou p cfg fs k w) fks =
      drop (max_tickets * k) (new_findings (ho_id p) ''zammad'' w fks)"
    unfolding run
  proof (rule zammad.deliveries_accepted [OF assms(3,4)])
    show "ou_commit ou ts" for ts using assms(1) by (simp add: accepting_def)
    show "\<exists>prio w'. zammad_priority_map fr ou (obj_get cfg ''url'') (obj_get cfg ''secret'') w = (Some prio, w')" for w
      by (rule accepting_lookup [OF assms(1) url])
    show "\<exists>ext w'. zammad_create fr digest ou p cfg prio f w = (Some (Inr ext), w')" if "f \<in> set (map fst fks)" for prio f w
      using that assms(5) keyed_fst [OF assms(3)] by (intro accepting_create [OF assms(1) url]) auto
  qed
  moreover have "length (new_findings (ho_id p) ''zammad'' w fks) \<le> length fs"
    unfolding new_findings_def keyed_fst [OF assms(3), symmetric] length_map by (rule length_filter_le)
  ultimately show ?thesis using assms(6) by (auto simp: new_findings_def filter_empty_conv)
qed

definition demo_many :: "(string, pyval) dict list" where
  "demo_many = map (\<lambda>i. demo_finding (replicate i (CHR ''x'')) ''e'') [0..<30]"

text \<open>A digest for findings that differ in their category.\<close>

fun category_digest :: "pyval \<Rightarrow> string" where
  "category_digest (PDict d) = str_of (obj_get d ''category'')"
| "category_digest _ = []"

definition demo_two_scans :: world where
  "demo_two_scans = zammad_scans (\<lambda>_. ''0.0'') category_digest demo_outside demo_hook demo_cfg demo_many 2 demo_world"

theorem every_finding_ticketed_witness:
  "set (map snd (the (keyed category_digest (ho_id demo_hook) demo_many))) \<subseteq> existing_keys (ho_id demo_hook) ''zammad'' demo_two_scans"
proof -
  have "keyed category_digest (ho_id demo_hook) demo_many \<noteq> None" by code_simp
  then obtain fks where fks: "keyed category_digest (ho_id demo_hook) demo_many = Some fks" by auto
  have "distinct (map snd (the (keyed category_digest (ho_id demo_hook) demo_many)))" by code_simp
  then have dist: "distinct (map snd fks)" by (simp add: fks)
  have "list_all (presentable (\<lambda>_. ''0.0'') category_digest demo_hook) demo_many" by code_simp
  then have all: "\<forall>f \<in> set demo_many. presentable (\<lambda>_. ''0.0'') category_digest demo_hook f" by (simp add: list_all_iff)
  have ready: "zammad_ready demo_cfg" by code_simp
  have acc: "accepting demo_outside" by (auto simp: accepting_def demo_outside_def)
  have "length demo_many \<le> max_tickets * 2" by (simp add: demo_many_def max_tickets_def)
  from every_finding_ticketed [OF acc ready fks dist all this, of demo_world]
  show ?thesis by (simp add: fks demo_two_scans_def)
qed

section \<open>The generic payload\<close>

lemma map_opt_length: "map_opt f xs = Some ys \<Longrightarrow> length ys = length xs"
  by (induction xs arbitrary: ys) (auto split: option.splits)

text \<open>At most 200 findings are sent; the count is that of all, and says whether some were left out.\<close>

theorem payload_bounded:
  assumes "build_payload digest p run_id report findings = Some payload"
  shows "\<exists>fs. obj_get payload ''findings'' = PList fs \<and> length fs = min 200 (length findings)
    \<and> obj_get payload ''finding_count'' = PInt (int (length findings))
    \<and> obj_get payload ''findings_truncated'' = PBool (length fs < length findings)"
proof -
  obtain cap fs where "map_opt (finding_payload digest (ho_id p)) (take max_findings findings) = Some fs"
    and payload: "payload = [(''event'', PStr ''scan.completed''), (''project_id'', PInt (ho_id p)), (''project_name'', PStr (ho_name p)),
          (''run_id'', PStr run_id),
          (''capture_info'', PDict [(''packet_count'', obj_get cap ''packet_count''), (''duration_s'', obj_get cap ''duration_s'')]),
          (''finding_count'', PInt (int (length findings))), (''findings_truncated'', PBool (length findings > max_findings)),
          (''findings'', PList (map PDict fs))]"
    using assms by (auto simp: build_payload_def split: option.splits)
  then have "length fs = min 200 (length findings)" using map_opt_length by (fastforce simp: max_findings_def)
  then show ?thesis by (simp add: payload obj_get_def max_findings_def min_def)
qed

definition demo_payload :: "(string, pyval) dict option" where
  "demo_payload = build_payload demo_digest demo_hook ''run'' [] (replicate 201 [])"

theorem payload_bounded_witness:
  "\<exists>fs. obj_get (the demo_payload) ''findings'' = PList fs \<and> length fs = min 200 201
    \<and> obj_get (the demo_payload) ''finding_count'' = PInt 201
    \<and> obj_get (the demo_payload) ''findings_truncated'' = PBool (length fs < 201)"
proof -
  have "map_opt (finding_payload demo_digest (ho_id demo_hook)) (replicate n []) \<noteq> None" for n
    by (induction n) (auto simp: finding_payload_def finding_dedup_key_def finding_basis_def obj_get_def py_or_def py_sorted_def)
  then have "demo_payload \<noteq> None"
    by (auto simp: demo_payload_def build_payload_def obj_get_def py_or_def take_replicate split: option.split)
  then have "build_payload demo_digest demo_hook ''run'' [] (replicate 201 []) = Some (the demo_payload)"
    unfolding demo_payload_def by simp
  from payload_bounded [OF this] show ?thesis by simp
qed

section \<open>The stored settings\<close>

lemma validate_accepts_url:
  "validate_hook latin1 resolve allow_private b0 = (Inr None, b) \<Longrightarrow> check_url latin1 resolve allow_private b = None"
  by (auto simp: validate_hook_def Let_def split: if_splits option.splits)

text \<open>A URL that is accepted is an HTTP one that a request line can carry, and its host is public
  unless the server allows private ones.\<close>

theorem accepted_url_public:
  assumes "validate_hook latin1 resolve allow_private b0 = (Inr None, b)" and "obj_get b ''url'' = PStr url"
  shows "(py_startswith url ''http://'' \<or> py_startswith url ''https://'') \<and> latin1 url \<and> (allow_private \<or> resolves_to_public resolve url)"
  using validate_accepts_url [OF assms(1)] assms(2) by (auto simp: check_url_def split: if_splits)

definition demo_resolve :: "string \<Rightarrow> ip_flags list option" where
  "demo_resolve url = Some [\<lparr>ip_private = (url \<noteq> ''https://desk''), ip_loopback = False, ip_link_local = False, ip_reserved = False,
     ip_multicast = False, ip_unspecified = False\<rparr>]"

definition demo_body :: "(string, pyval) dict" where
  "demo_body = [(''url'', PStr '' https://desk''), (''enabled'', PBool True)]"

theorem accepted_url_public_witness:
  "(py_startswith ''https://desk'' ''http://'' \<or> py_startswith ''https://desk'' ''https://'')
     \<and> (False \<or> resolves_to_public demo_resolve ''https://desk'')"
proof -
  have "validate_hook (\<lambda>_. True) demo_resolve False demo_body = (Inr None, snd (validate_hook (\<lambda>_. True) demo_resolve False demo_body))"
    by code_simp
  moreover have "obj_get (snd (validate_hook (\<lambda>_. True) demo_resolve False demo_body)) ''url'' = PStr ''https://desk''" by code_simp
  ultimately show ?thesis using accepted_url_public by blast
qed

definition stored :: "hook_library \<Rightarrow> (string, pyval) dict \<Rightarrow> string option" where
  "stored lb merged = (if merged \<noteq> [] then Some (lb_dumps lb (PDict merged)) else None)"

lemma dict_merge_get: "k \<notin> fst ` set b \<Longrightarrow> dict_get (dict_merge a b) k = dict_get a k"
  unfolding dict_merge_def by (induction b arbitrary: a) auto

lemma strip_keys: "fst ` set (strip_header_bound b) = fst ` set b"
proof -
  have "fst ` set (fold (\<lambda>k b. case dict_get b k of Some (PStr s) \<Rightarrow> dict_set k (PStr (py_strip s)) b | _ \<Rightarrow> b) ks b) = fst ` set b" for ks
  proof (induction ks arbitrary: b)
    case (Cons k ks)
    have "fst ` set (dict_set k v b) = fst ` set b" if "dict_get b k \<noteq> None" for v :: pyval
      using that by (auto simp: dom_update dict_get_exists)
    then show ?case using Cons.IH by (auto split: option.split pyval.split)
  qed simp
  then show ?thesis by (simp add: strip_header_bound_def)
qed

text \<open>
  What the settings route stores has every field an enabled delivery needs, and keeps the old
  value of each key the request leaves out: showing the masked secret cannot overwrite the secret.
\<close>

theorem stored_hook_complete:
  assumes "set_project_webhook lb latin1 resolve allow_private sps ms uid pid (Some (PDict b0)) (hooks, aud) = (HookSaved shown, hooks', aud')"
  shows "\<exists>p merged. dict_get hooks pid = Some p \<and> dict_get hooks' pid = Some (p\<lparr>ho_config := stored lb merged\<rparr>)
    \<and> (truthy (obj_get merged ''enabled'') \<longrightarrow>
        list_all (\<lambda>k. truthy (obj_get merged k)) (required_fields (py_or (obj_get merged ''platform'') (PStr ''generic''))))
    \<and> (\<forall>k. dict_get b0 k = None \<longrightarrow> dict_get merged k = dict_get (parse_hook (lb_loads lb) (ho_config p)) k)"
proof -
  obtain sp p where acc: "get_project_for_user sps ms uid pid ''owner'' = Some sp" and p: "dict_get hooks pid = Some p"
    using assms by (cases "get_project_for_user sps ms uid pid ''owner''"; cases "dict_get hooks pid")
      (simp_all add: set_project_webhook_def)
  obtain b where v: "validate_hook latin1 resolve allow_private b0 = (Inr None, b)"
    using assms by (cases "validate_hook latin1 resolve allow_private b0")
      (simp add: set_project_webhook_def acc p split: sum.splits option.splits)
  define merged where "merged = dict_merge (parse_hook (lb_loads lb) (ho_config p)) b"
  have run: "save_webhook lb pid p merged (hooks, aud) = (HookSaved shown, hooks', aud')"
    using assms by (simp add: set_project_webhook_def acc p v merged_def)
  have m: "validate_effective merged = None"
    using run by (cases "validate_effective merged") (simp_all add: save_webhook_def)
  have h: "hooks' = dict_set pid (p\<lparr>ho_config := stored lb merged\<rparr>) hooks"
    using run by (simp add: save_webhook_def m Let_def stored_def)
  have "b = strip_header_bound b0" using v by (simp add: validate_hook_def Let_def split: if_splits)
  then have "dict_get merged k = dict_get (parse_hook (lb_loads lb) (ho_config p)) k" if "dict_get b0 k = None" for k
    using that dict_merge_get [of k b] by (simp add: merged_def dict_get_exists strip_keys)
  moreover have "list_all (\<lambda>k. truthy (obj_get merged k)) (required_fields (py_or (obj_get merged ''platform'') (PStr ''generic'')))"
    if "truthy (obj_get merged ''enabled'')"
    using m that by (auto simp: validate_effective_def Let_def filter_empty_conv list_all_iff split: if_splits)
  ultimately show ?thesis using p by (intro exI [of _ p] exI [of _ merged]) (simp add: h)
qed

definition hook_row :: sched_project where
  "hook_row = \<lparr>sp_project = \<lparr>p_id = 3, p_user = 1, p_policy = None\<rparr>, sp_schedule = None, sp_fired = None\<rparr>"

definition demo_put :: "hook_reply \<times> (int, hook_project) dict \<times> audit_entry list" where
  "demo_put = set_project_webhook demo_lib (\<lambda>_. True) demo_resolve False [(3, hook_row)] [] (Some 1) 3 (Some (PDict demo_body)) ([(3, demo_hook)], [])"

theorem stored_hook_complete_witness:
  "\<exists>p merged. dict_get [(3 :: int, demo_hook)] 3 = Some p \<and> dict_get (fst (snd demo_put)) 3 = Some (p\<lparr>ho_config := stored demo_lib merged\<rparr>)
    \<and> (truthy (obj_get merged ''enabled'') \<longrightarrow>
        list_all (\<lambda>k. truthy (obj_get merged k)) (required_fields (py_or (obj_get merged ''platform'') (PStr ''generic''))))
    \<and> (\<forall>k. dict_get demo_body k = None \<longrightarrow> dict_get merged k = dict_get (parse_hook (lb_loads demo_lib) (ho_config p)) k)"
proof -
  have "case fst demo_put of HookSaved _ \<Rightarrow> True | _ \<Rightarrow> False" by code_simp
  then obtain shown where "fst demo_put = HookSaved shown" by (cases "fst demo_put") auto
  then have "demo_put = (HookSaved shown, fst (snd demo_put), snd (snd demo_put))" by (metis prod.collapse)
  from stored_hook_complete [OF this [unfolded demo_put_def]] show ?thesis unfolding demo_put_def by blast
qed

section \<open>What the deliveries do not promise\<close>

text \<open>
  The key leaves the edges out, and the keys already ticketed are read once for a delivery: two
  findings of one scan that differ in their edges only get two tickets and one row.
\<close>

lemma same_key_two_tickets:
  "fst (deliver_to_zammad (\<lambda>_. ''0.0'') category_digest demo_outside demo_hook demo_cfg [demo_finding ''A'' ''e1'', demo_finding ''A'' ''e2''] demo_world)
     = Some \<lparr>dl_created = 2, dl_skipped = 0, dl_failed = 0\<rparr>
   \<and> length (wd_tickets (snd (deliver_to_zammad (\<lambda>_. ''0.0'') category_digest demo_outside demo_hook demo_cfg
       [demo_finding ''A'' ''e1'', demo_finding ''A'' ''e2''] demo_world))) = 1"
  by (intro conjI) code_simp+

text \<open>A receiver that refuses the first 25 new findings keeps every later one from being tried.\<close>

lemma refused_findings_starve_the_rest:
  assumes "keyed digest (ho_id p) fs = Some fks" "existing_keys (ho_id p) ''zammad'' w = set old"
    and "\<And>prio f w. f \<in> set (map fst (take max_tickets (filter (\<lambda>fk. snd fk \<notin> set old) fks))) \<Longrightarrow>
      \<exists>e w'. zammad_create fr digest ou p cfg prio f w = (Some (Inl e), w')"
  shows "wd_tickets (zammad_scans fr digest ou p cfg fs k w) = wd_tickets w"
proof (induction k)
  case (Suc k)
  let ?w = "zammad_scans fr digest ou p cfg fs k w"
  have "existing_keys (ho_id p) ''zammad'' ?w = set old" using Suc.IH assms(2) by (simp add: existing_keys_def)
  then have "wd_tickets (snd (deliver_to_zammad fr digest ou p cfg fs ?w)) = wd_tickets ?w"
    using zammad.deliver_refused [OF assms(1,3)] by (simp add: deliver_to_zammad_def)
  then show ?case using Suc.IH by (simp add: zammad_scans_def)
qed (simp add: zammad_scans_def)

text \<open>A ticket whose creation is acknowledged in a form that cannot be read is created again by the next scan.\<close>

definition garbled :: outside where
  "garbled = \<lparr>ou_reply = (\<lambda>_ _. Garbled 201 ''Expecting value''), ou_commit = (\<lambda>_. True)\<rparr>"

lemma garbled_creation_repeats:
  "length (filter (\<lambda>c. hc_method c = ''POST'') (wd_calls
     (zammad_scans (\<lambda>_. ''0.0'') category_digest garbled demo_hook demo_cfg [demo_finding ''A'' ''e''] 2 demo_world))) = 2"
  by code_simp

end
