(* ===== verification/FindingsFeed.thy ===== *)
theory FindingsFeed
  imports Webhook Aggregate
begin

text \<open>
  The findings feed of \<open>app.py\<close>: the roll-up's findings, filtered and tagged with the key that a
  delivery of the webhook would use. The key is computed on the rolled-up finding, not on the one in
  the report, so it agrees with the webhook's only when the roll-up leaves the fields it is made of as
  they were.
\<close>

section \<open>The feed\<close>

definition wanted_severities :: "string \<Rightarrow> string list" where
  "wanted_severities arg = filter (\<lambda>s. s \<noteq> []) (map (\<lambda>s. py_upper (py_strip s)) (py_split (CHR '','') arg))"

definition feed_dict :: "finding_id \<times> found \<Rightarrow> (string, pyval) dict" where
  "feed_dict kf = [(''category'', PStr (fst (fst kf))), (''description'', PStr (fn_description (snd kf))),
     (''affected_nodes'', PList (map PStr (fst (snd (fst kf)))))]"

definition project_findings ::
    "(pyval \<Rightarrow> string) \<Rightarrow> int \<Rightarrow> string \<Rightarrow> string \<Rightarrow> summary \<Rightarrow> ((finding_id \<times> found) \<times> string option) list" where
  "project_findings digest pid severity since s =
     (let wanted = wanted_severities severity; since = py_strip since;
          fs = filter (\<lambda>kf. wanted = [] \<or> fn_severity (snd kf) \<in> set wanted) (sm_findings s);
          fs = filter (\<lambda>kf. since = [] \<or> sn_last (fn_seen (snd kf)) \<ge> since) fs
      in map (\<lambda>kf. (kf, finding_dedup_key digest pid (feed_dict kf))) fs)"

section \<open>When the keys agree\<close>

definition strs :: "string list \<Rightarrow> pyval" where
  "strs ns = PList (map PStr ns)"

lemma sorted_strs: "py_sorted (map PStr ns) = Some (map PStr (sort ns))"
proof (cases "length ns \<le> 1")
  case True
  then have "sort ns = ns" by (cases ns) auto
  then show ?thesis using True by (simp add: py_sorted_def)
next
  case False
  have "list_all is_str (map PStr ns)" "map str_of (map PStr ns) = ns" by (simp_all add: list_all_iff comp_def)
  then show ?thesis using False by (simp add: py_sorted_def del: map_map)
qed

lemma iter_or_strs: "py_iter (py_or (strs ns) (PList [])) = Some (map PStr ns)"
  by (simp add: strs_def py_or_def)

lemma basis_strs:
  "obj_get f ''affected_nodes'' = strs ns \<Longrightarrow> finding_basis pid f = Some (PDict [(''affected_nodes'', PList (map PStr (sort ns))),
     (''category'', obj_get f ''category''), (''description'', obj_get f ''description''), (''project_id'', PInt pid)])"
  using iter_or_strs [of ns] by (simp add: finding_basis_def sorted_strs)

text \<open>
  The feed names a finding by the key its delivery has, if the report's category is already in
  capitals without outer blanks and the roll-up shows the description of this report.
\<close>

theorem feed_key_agrees:
  assumes "finding_of fr to_float (PDict f) = Some [fd]"
    and "obj_get f ''category'' = PStr cat" "py_upper (py_strip cat) = cat"
    and "obj_get f ''description'' = PStr (fn_description e)" and "obj_get f ''affected_nodes'' = strs ns"
  shows "finding_dedup_key digest pid (feed_dict (fd_key fd, e)) = finding_dedup_key digest pid f"
proof -
  have key: "finding_key fr f = Some (fd_key fd)"
    using assms(1) by (auto simp: finding_of_def split: option.splits)
  have cat: "py_strip (text_or fr (obj_get f ''category'') []) = py_strip cat"
    by (simp add: assms(2) text_or_def py_or_def)
  have nodes: "iter_or_empty (obj_get f ''affected_nodes'') = Some (map PStr ns)"
    by (simp add: iter_or_empty_def assms(5) iter_or_strs)
  obtain es where "iter_or_empty (obj_get f ''affected_edges'') = Some es"
    using key by (auto simp: finding_key_def split: option.splits)
  then have k: "fd_key fd = (cat, sort ns, sort (map (py_str fr) es))"
    using key assms(3) by (simp add: finding_key_def cat nodes comp_def)
  have "obj_get (feed_dict (fd_key fd, e)) ''affected_nodes'' = strs (sort ns)"
    by (simp add: feed_dict_def obj_get_def k strs_def)
  moreover have "sort (sort ns) = sort ns" by (simp add: sorted_sort_id)
  ultimately show ?thesis
    using basis_strs [of "feed_dict (fd_key fd, e)" "sort ns"] basis_strs [OF assms(5)]
    by (simp add: finding_dedup_key_def assms(2,4) feed_dict_def k) (simp add: obj_get_def)
qed

definition feed_report :: "string \<Rightarrow> (string, pyval) dict" where
  "feed_report cat = [(''category'', PStr cat), (''description'', PStr ''d''), (''affected_nodes'', strs [''n2'', ''n1''])]"

definition feed_found :: found where
  "feed_found = \<lparr>fn_severity = ''MEDIUM'', fn_description = ''d'', fn_remediation = [], fn_attacks = [], fn_source = ''engine'',
     fn_occurrences = 1, fn_seen = \<lparr>sn_first_name = [], sn_first = [], sn_last_name = [], sn_last = []\<rparr>, fn_cvss = 0\<rparr>"

definition feed_finding :: "string \<Rightarrow> finding option" where
  "feed_finding cat = map_option hd (finding_of (\<lambda>_. []) (\<lambda>_. Some 0) (PDict (feed_report cat)))"

lemma feed_of:
  "finding_of (\<lambda>_. []) (\<lambda>_. Some 0) (PDict (feed_report cat)) = Some [the (feed_finding cat)]"
  by (simp add: feed_finding_def finding_of_def finding_key_def feed_report_def obj_get_def iter_or_empty_def py_or_def strs_def)

theorem feed_key_agrees_witness:
  "finding_dedup_key (py_repr (\<lambda>_. [])) 3 (feed_dict (fd_key (the (feed_finding ''CLEAR'')), feed_found))
     = finding_dedup_key (py_repr (\<lambda>_. [])) 3 (feed_report ''CLEAR'')"
proof (rule feed_key_agrees [OF feed_of])
  show "obj_get (feed_report ''CLEAR'') ''category'' = PStr ''CLEAR''" by code_simp
  show "py_upper (py_strip ''CLEAR'') = ''CLEAR''" by code_simp
  show "obj_get (feed_report ''CLEAR'') ''description'' = PStr (fn_description feed_found)" by code_simp
  show "obj_get (feed_report ''CLEAR'') ''affected_nodes'' = strs [''n2'', ''n1'']" by code_simp
qed

text \<open>A category in small letters gives two different texts to digest.\<close>

lemma feed_key_may_differ:
  "finding_basis 3 (feed_dict (fd_key (the (feed_finding ''clear'')), feed_found)) \<noteq> finding_basis 3 (feed_report ''clear'')"
  by code_simp

end
