(* ===== verification/Compliance.thy ===== *)
theory Compliance
  imports PyVal "HOL-Library.Product_Lexorder"
begin

text \<open>
  The compliance score of \<open>marlinspike/compliance.py\<close> and the two routes of \<open>app.py\<close> that feed it.
  Of a control the prose columns (title, section, description, recommendation) are left out. What a
  control earns is a whole number, since each weight times 0.4 is one and floats are exact on them;
  the percentages are rationals, rounded to one digit: no weight leaves a tie to round.
\<close>

section \<open>The controls\<close>

record control =
  ct_id :: string
  ct_standard :: string
  ct_domain :: string
  ct_weight :: int
  ct_triggers :: "string list"
  ct_target :: string

definition control :: "string \<Rightarrow> string \<Rightarrow> string \<Rightarrow> int \<Rightarrow> string list \<Rightarrow> string \<Rightarrow> control" where
  "control cid std area weight triggers target =
     \<lparr>ct_id = cid, ct_standard = std, ct_domain = area, ct_weight = weight, ct_triggers = triggers, ct_target = target\<rparr>"

definition default_sl :: string where "default_sl = ''SL-2''"

definition compliance_controls :: "control list" where
  "compliance_controls = [
     control ''IEC-62443-SR-1.1'' ''IEC 62443'' ''Access Control & Authentication'' 15 [''CLEARTEXT_REMOTE_ACCESS'', ''NO_AUTH_OBSERVED''] ''SL-2'',
     control ''IEC-62443-SR-3.1'' ''IEC 62443'' ''System Integrity & Industrial Control'' 20 [''MODBUS_WRITE_ANON'', ''S7_PROGRAM_ACCESS'', ''MALWARE_IOC_MATCH''] ''SL-3'',
     control ''IEC-62443-SR-5.1'' ''IEC 62443'' ''Boundary Protection & Zoning'' 25 [''CROSS_PURDUE'', ''ICS_EXTERNAL_COMMS'', ''EXTERNAL_IPS_OBSERVED''] ''SL-2'',
     control ''IEC-62443-SR-7.6'' ''IEC 62443'' ''Asset Hardening & Attack Surface'' 15 [''OPC_NO_SECURITY'', ''IT_SERVICE_ON_OT_DEVICE'', ''PORT_SCAN_TARGET'', ''UNKNOWN_SERVICE_PORT''] ''SL-2'',
     control ''CISA-CPG-1.1'' ''CISA CPG'' ''Access Control & Authentication'' 10 [''CLEARTEXT_REMOTE_ACCESS'', ''NO_AUTH_OBSERVED''] default_sl,
     control ''CISA-CPG-2.1'' ''CISA CPG'' ''Boundary Protection & Zoning'' 20 [''CROSS_PURDUE'', ''ICS_EXTERNAL_COMMS'', ''EXTERNAL_IPS_OBSERVED''] default_sl,
     control ''CISA-CPG-2.8'' ''CISA CPG'' ''System Integrity & Industrial Control'' 15 [''OPC_NO_SECURITY'', ''CLEARTEXT_ENG'', ''MODBUS_WRITE_ANON''] default_sl,
     control ''CISA-CPG-3.1'' ''CISA CPG'' ''C2 & Threat Defense'' 15 [''C2_BEACONING'', ''C2_SUSPECT_CHANNEL'', ''C2_DATA_EXFIL'', ''C2_DNS_EXFIL'', ''C2_DNS_TUNNEL_SUSPECT'', ''C2_DNS_HIGH_ENTROPY''] default_sl,
     control ''NIST-800-82-AC-17'' ''NIST 800-82'' ''Access Control & Authentication'' 10 [''CLEARTEXT_REMOTE_ACCESS'', ''NO_AUTH_OBSERVED''] default_sl,
     control ''NIST-800-82-SC-7'' ''NIST 800-82'' ''Boundary Protection & Zoning'' 15 [''CROSS_PURDUE'', ''ICS_EXTERNAL_COMMS'', ''C2_DNS_EXFIL''] default_sl,
     control ''NIST-800-82-SI-4'' ''NIST 800-82'' ''C2 & Threat Defense'' 10 [''MALWARE_IOC_MATCH'', ''PORT_SCAN_TARGET'', ''HIGH_PORT_SERVICE''] default_sl]"

definition standards :: "string list" where
  "standards = [''IEC 62443'', ''CISA CPG'', ''NIST 800-82'']"

section \<open>The evaluation\<close>

text \<open>The category of a finding; \<open>None\<close> is a finding that is not an object.\<close>

definition category_of :: "(rat \<Rightarrow> string) \<Rightarrow> pyval \<Rightarrow> string option" where
  "category_of fr v = (case v of
       PDict f \<Rightarrow> Some (py_upper (py_str fr (py_or (py_or (obj_get f ''category'') (obj_get f ''type'')) (PStr []))))
     | _ \<Rightarrow> None)"

definition count_category :: "string \<Rightarrow> (string, nat) dict \<Rightarrow> (string, nat) dict" where
  "count_category cat counts = (if cat = [] then counts
     else dict_set cat (case dict_get counts cat of None \<Rightarrow> 1 | Some n \<Rightarrow> n + 1) counts)"

definition category_counts :: "string list \<Rightarrow> (string, nat) dict" where
  "category_counts cats = fold count_category cats []"

datatype status = Pass | Warning | Gap

record control_eval =
  ce_control :: control
  ce_status :: status
  ce_earned :: int
  ce_findings :: nat
  ce_matched :: "string list"

definition evaluate_control :: "(string, nat) dict \<Rightarrow> control \<Rightarrow> control_eval" where
  "evaluate_control counts c =
     (let matched = filter (\<lambda>t. dict_get counts t \<noteq> None) (ct_triggers c);
          n = sum_list (map (\<lambda>t. the (dict_get counts t)) matched);
          st = (if n = 0 then Pass else if n \<le> 2 then Warning else Gap)
      in \<lparr>ce_control = c, ce_status = st,
          ce_earned = (case st of Pass \<Rightarrow> ct_weight c | Warning \<Rightarrow> ct_weight c * 2 div 5 | Gap \<Rightarrow> 0),
          ce_findings = n, ce_matched = matched\<rparr>)"

definition round1 :: "rat \<Rightarrow> rat" where
  "round1 x = of_int \<lfloor>x * 10 + 1 / 2\<rfloor> / 10"

definition percent :: "int \<Rightarrow> int \<Rightarrow> rat" where
  "percent earned possible = (if possible > 0 then round1 (of_int earned / of_int possible * 100) else 100)"

definition security_level :: "rat \<Rightarrow> string" where
  "security_level score =
     (if score \<ge> 95 then ''SL-4 (Nation-State Grade Resilience)''
      else if score \<ge> 80 then ''SL-3 (Sophisticated Protection)''
      else if score \<ge> 65 then ''SL-2 (Moderate Adversary Protection)''
      else if score \<ge> 45 then ''SL-1 (Basic Perimeter Defense)''
      else ''SL-0 (Unprotected / High Vulnerability Risk)'')"

record breakdown =
  bd_score :: rat
  bd_earned :: int
  bd_total :: int
  bd_grade :: string

definition breakdown_of :: "control_eval list \<Rightarrow> string \<Rightarrow> breakdown" where
  "breakdown_of evals std =
     (let es = filter (\<lambda>e. ct_standard (ce_control e) = std) evals;
          earned = sum_list (map ce_earned es); possible = sum_list (map (ct_weight \<circ> ce_control) es); pct = percent earned possible
      in \<lparr>bd_score = pct, bd_earned = earned, bd_total = possible,
          bd_grade = (if pct \<ge> 80 then ''COMPLIANT'' else if pct \<ge> 60 then ''PARTIAL'' else ''NON-COMPLIANT'')\<rparr>)"

record compliance =
  cp_score :: rat
  cp_level :: string
  cp_pass :: nat
  cp_warning :: nat
  cp_gap :: nat
  cp_standards :: "(string \<times> breakdown) list"
  cp_controls :: "control_eval list"
  cp_roadmap :: "control_eval list"
  cp_findings :: nat
  cp_assets :: nat

definition count_status :: "status \<Rightarrow> control_eval list \<Rightarrow> nat" where
  "count_status s es = length (filter (\<lambda>e. ce_status e = s) es)"

definition roadmap_order :: "control_eval \<Rightarrow> nat \<times> int" where
  "roadmap_order e = (if ce_status e = Gap then 0 else 1, - int (ce_findings e))"

definition score_of :: "string list \<Rightarrow> rat" where
  "score_of cats = percent (sum_list (map (ce_earned \<circ> evaluate_control (category_counts cats)) compliance_controls))
     (sum_list (map ct_weight compliance_controls))"

definition evaluate_compliance :: "(rat \<Rightarrow> string) \<Rightarrow> pyval list \<Rightarrow> nat \<Rightarrow> compliance option" where
  "evaluate_compliance fr findings assets = map_option (\<lambda>cats.
     let es = map (evaluate_control (category_counts cats)) compliance_controls; score = score_of cats in
     \<lparr>cp_score = score, cp_level = security_level score,
      cp_pass = count_status Pass es, cp_warning = count_status Warning es, cp_gap = count_status Gap es,
      cp_standards = map (\<lambda>s. (s, breakdown_of es s)) standards, cp_controls = es,
      cp_roadmap = sort_key roadmap_order (filter (\<lambda>e. ce_status e \<noteq> Pass) es),
      cp_findings = length findings, cp_assets = assets\<rparr>) (map_opt (category_of fr) findings)"

section \<open>The routes\<close>

text \<open>What a route takes of a report file: its \<open>findings\<close>, and the ids of its nodes.\<close>

definition take_findings :: "(string, pyval) dict \<Rightarrow> pyval list option" where
  "take_findings d = py_iter (obj_get_or d ''findings'' (PList []))"

definition node_id :: "pyval \<Rightarrow> pyval list" where
  "node_id n = (case n of PDict nd \<Rightarrow> if truthy (obj_get nd ''id'') then [obj_get nd ''id''] else [] | _ \<Rightarrow> [])"

text \<open>
  One file of the project's route: an exception keeps what was added before it. The nodes are a
  dictionary by id; an id that cannot be a key raises.
\<close>

fun take_nodes :: "pyval list \<Rightarrow> pyval list \<Rightarrow> pyval list" where
  "take_nodes [] ids = ids"
| "take_nodes (n # ns) ids = (case node_id n of
       [] \<Rightarrow> take_nodes ns ids
     | i # _ \<Rightarrow> if \<not> hashable i then ids else take_nodes ns (if i \<in> set ids then ids else ids @ [i]))"

definition read_file :: "pyval option \<Rightarrow> pyval list \<times> pyval list \<Rightarrow> pyval list \<times> pyval list" where
  "read_file file_data st = (case file_data of
       Some (PDict d) \<Rightarrow> (case take_findings d of
           None \<Rightarrow> st
         | Some fs \<Rightarrow> (fst st @ fs, (case py_iter (obj_get_or d ''nodes'' (PList [])) of
               None \<Rightarrow> snd st | Some ns \<Rightarrow> take_nodes ns (snd st))))
     | _ \<Rightarrow> st)"

definition project_compliance :: "(rat \<Rightarrow> string) \<Rightarrow> pyval option list \<Rightarrow> compliance option" where
  "project_compliance fr files = (case fold read_file files ([], []) of
       (fs, ids) \<Rightarrow> evaluate_compliance fr fs (length ids))"

definition py_len :: "pyval \<Rightarrow> nat option" where
  "py_len v = map_option length (py_iter v)"

definition report_compliance :: "(rat \<Rightarrow> string) \<Rightarrow> (string, pyval) dict \<Rightarrow> compliance option" where
  "report_compliance fr d = (case (take_findings d, py_len (obj_get_or d ''nodes'' (PList []))) of
       (Some fs, Some n) \<Rightarrow> evaluate_compliance fr fs n
     | _ \<Rightarrow> None)"

text \<open>The top-level keys of a report as the engine writes it, and the keys of its nodes.\<close>

definition report_keys :: "string list" where
  "report_keys = [''module'', ''timestamp_start'', ''timestamp_end'', ''capture_info'', ''conversations'', ''protocol_summary'',
     ''topology'', ''nodes'', ''edges'', ''purdue_violations'', ''risk_findings'', ''attack_targets'', ''port_summary'',
     ''c2_indicators'', ''malware_findings'', ''mac_table'', ''arp_observations'', ''arp_observations_truncated'', ''l2_anomalies'',
     ''grassmarlin_used'', ''dpi_engine'', ''dpi_engine_version'', ''dpi_schema_version'', ''tshark_version'', ''interrupted'',
     ''completed_stages'']"

definition node_keys :: "string list" where
  "node_keys = [''ip'', ''mac'', ''vendor'', ''product_line'', ''device_type'', ''purdue_level'', ''protocols'', ''role'', ''asset_type'',
     ''auth_observed'', ''initiates'', ''responds'', ''attack_priority'', ''recommended_modules'', ''system_name'', ''system_desc'',
     ''mgmt_ip'', ''capabilities'', ''ports'', ''vlans'', ''service_ports'']"

end
