(* ===== verification/ComplianceSafety.thy ===== *)
theory ComplianceSafety
  imports Compliance
begin

text \<open>
  The score never rises when a finding is added, is full exactly when no control is touched, and
  the three counters split the controls. The last section shows what the routes make of a report
  as the engine writes it.
\<close>

section \<open>Counting categories\<close>

definition hits :: "string list \<Rightarrow> control \<Rightarrow> nat" where
  "hits cats c = sum_list (map (count_list cats) (ct_triggers c))"

lemma counts_get:
  "t \<noteq> [] \<Longrightarrow> dict_get (category_counts cats) t = (if count_list cats t = 0 then None else Some (count_list cats t))"
proof (induction cats rule: rev_induct)
  case Nil
  then show ?case by (simp add: category_counts_def)
next
  case (snoc c cats)
  then show ?case by (auto simp: category_counts_def count_category_def dict_get_set)
qed

definition named :: "control \<Rightarrow> bool" where
  "named c \<longleftrightarrow> [] \<notin> set (ct_triggers c) \<and> ct_weight c \<ge> 0"

lemma controls_named: "list_all named compliance_controls"
  by code_simp

lemma matched_sum:
  "[] \<notin> set ts \<Longrightarrow> sum_list (map (\<lambda>t. the (dict_get (category_counts cats) t)) (filter (\<lambda>t. dict_get (category_counts cats) t \<noteq> None) ts)) =
     sum_list (map (count_list cats) ts)"
  by (induction ts) (auto simp: counts_get split: if_splits)

definition earns :: "nat \<Rightarrow> int \<Rightarrow> int" where
  "earns n w = (if n = 0 then w else if n \<le> 2 then w * 2 div 5 else 0)"

definition grade :: "nat \<Rightarrow> status" where
  "grade n = (if n = 0 then Pass else if n \<le> 2 then Warning else Gap)"

lemma evaluated:
  assumes "named c"
  shows "ce_findings (evaluate_control (category_counts cats) c) = hits cats c"
    "ce_earned (evaluate_control (category_counts cats) c) = earns (hits cats c) (ct_weight c)"
    "ce_status (evaluate_control (category_counts cats) c) = grade (hits cats c)"
proof -
  have "sum_list (map (\<lambda>t. the (dict_get (category_counts cats) t))
      (filter (\<lambda>t. dict_get (category_counts cats) t \<noteq> None) (ct_triggers c))) = hits cats c"
    using matched_sum [of "ct_triggers c" cats] assms by (simp add: named_def hits_def)
  then show "ce_findings (evaluate_control (category_counts cats) c) = hits cats c"
    "ce_earned (evaluate_control (category_counts cats) c) = earns (hits cats c) (ct_weight c)"
    "ce_status (evaluate_control (category_counts cats) c) = grade (hits cats c)"
    unfolding evaluate_control_def Let_def earns_def grade_def by (simp_all only: control_eval.simps) simp_all
qed

lemma earned_sum:
  "sum_list (map (ce_earned \<circ> evaluate_control (category_counts cats)) compliance_controls) =
   sum_list (map (\<lambda>c. earns (hits cats c) (ct_weight c)) compliance_controls)"
  using controls_named by (intro arg_cong [where f = sum_list] map_cong) (auto simp: evaluated list_all_iff)

lemma weight_sum: "sum_list (map ct_weight compliance_controls) = 170"
  by code_simp

lemma score_hits: "score_of cats = percent (sum_list (map (\<lambda>c. earns (hits cats c) (ct_weight c)) compliance_controls)) 170"
  by (simp only: score_of_def earned_sum weight_sum)

section \<open>More findings, no better score\<close>

lemma earns_anti: "0 \<le> w \<Longrightarrow> m \<le> n \<Longrightarrow> earns n w \<le> earns m w"
  by (auto simp: earns_def)

lemma round1_mono: "x \<le> y \<Longrightarrow> round1 x \<le> round1 y"
  unfolding round1_def by (intro divide_right_mono) (auto intro!: floor_mono)

lemma percent_mono: "a \<le> b \<Longrightarrow> percent a 170 \<le> percent b 170"
  by (simp add: percent_def) (intro round1_mono, simp)

text \<open>
  No finding that is added raises the score.\<close>

theorem score_antitone: "score_of (cats @ added) \<le> score_of cats"
proof -
  have "sum_list (map (\<lambda>c. earns (hits (cats @ added) c) (ct_weight c)) compliance_controls)
      \<le> sum_list (map (\<lambda>c. earns (hits cats c) (ct_weight c)) compliance_controls)"
  proof (rule sum_list_mono)
    fix c assume "c \<in> set compliance_controls"
    then have "0 \<le> ct_weight c" using controls_named by (auto simp: list_all_iff named_def)
    moreover have "hits cats c \<le> hits (cats @ added) c" unfolding hits_def by (rule sum_list_mono) simp
    ultimately show "earns (hits (cats @ added) c) (ct_weight c) \<le> earns (hits cats c) (ct_weight c)" by (rule earns_anti)
  qed
  then show ?thesis by (simp only: score_hits percent_mono)
qed

section \<open>The counters\<close>

lemma status_split: "count_status Pass es + count_status Warning es + count_status Gap es = length es"
proof (induction es)
  case (Cons e es)
  then show ?case by (cases "ce_status e") (simp_all add: count_status_def)
qed (simp add: count_status_def)

lemma not_pass: "length (filter (\<lambda>e. ce_status e \<noteq> Pass) es) = count_status Warning es + count_status Gap es"
proof (induction es)
  case (Cons e es)
  then show ?case by (cases "ce_status e") (simp_all add: count_status_def)
qed (simp add: count_status_def)

lemma length_sort_key: "length (sort_key f xs) = length xs"
  by simp

text \<open>The counters split the controls, and the roadmap lists exactly those that did not pass, gaps first.\<close>

theorem counters_split_controls:
  assumes "evaluate_compliance fr findings assets = Some c"
  shows "cp_pass c + cp_warning c + cp_gap c = length compliance_controls \<and> length (cp_roadmap c) = cp_warning c + cp_gap c
    \<and> sorted (map roadmap_order (cp_roadmap c))"
proof -
  obtain cats where "c = the (evaluate_compliance fr findings assets)" "map_opt (category_of fr) findings = Some cats"
    using assms by (auto simp: evaluate_compliance_def)
  then show ?thesis
    using assms status_split [of "map (evaluate_control (category_counts cats)) compliance_controls"]
    by (simp add: evaluate_compliance_def Let_def not_pass)
qed

definition demo_risk :: "pyval list" where
  "demo_risk = [PDict [(''category'', PStr ''cross_purdue'')], PDict [(''category'', PStr ''CLEARTEXT_ENG'')], PDict [(''type'', PStr ''cleartext_eng'')],
     PDict [(''category'', PStr ''OPC_NO_SECURITY'')]]"

definition demo_eval :: compliance where
  "demo_eval = the (evaluate_compliance (\<lambda>_. []) demo_risk 1)"

definition demo_categories :: "string list" where
  "demo_categories = [''CROSS_PURDUE'', ''CLEARTEXT_ENG'', ''CLEARTEXT_ENG'', ''OPC_NO_SECURITY'']"

lemma demo_cats: "map_opt (category_of (\<lambda>_. [])) demo_risk = Some demo_categories"
  by code_simp

theorem counters_split_controls_witness:
  "cp_pass demo_eval + cp_warning demo_eval + cp_gap demo_eval = length compliance_controls
    \<and> length (cp_roadmap demo_eval) = cp_warning demo_eval + cp_gap demo_eval \<and> sorted (map roadmap_order (cp_roadmap demo_eval))"
proof (rule counters_split_controls)
  have "evaluate_compliance (\<lambda>_. []) demo_risk 1 \<noteq> None" by (simp add: evaluate_compliance_def demo_cats)
  then show "evaluate_compliance (\<lambda>_. []) demo_risk 1 = Some demo_eval" by (simp add: demo_eval_def)
qed

section \<open>A report as the engine writes it\<close>

lemma no_findings: "set (map fst d) \<subseteq> set report_keys \<Longrightarrow> take_findings d = Some []"
proof -
  assume "set (map fst d) \<subseteq> set report_keys"
  moreover have "''findings'' \<notin> set report_keys" by (simp add: report_keys_def)
  ultimately have "dict_get d ''findings'' = None" by (auto simp: dict_get_exists)
  then show ?thesis by (simp add: take_findings_def obj_get_or_def)
qed

lemma perfect: "score_of [] = 100"
  by code_simp

text \<open>
  C34. The routes read the key \<open>findings\<close>, which a report of the engine does not have: its findings
  are \<open>risk_findings\<close>. Whatever they are, the report is graded without a fault.
\<close>

theorem engine_report_always_perfect:
  assumes "set (map fst d) \<subseteq> set report_keys" and "report_compliance fr d = Some c"
  shows "cp_score c = 100 \<and> cp_warning c = 0 \<and> cp_gap c = 0 \<and> cp_findings c = 0"
proof -
  obtain n where "evaluate_compliance fr [] n = Some c"
    using assms no_findings [OF assms(1)] by (auto simp: report_compliance_def split: option.splits)
  moreover have "count_status Warning (map (evaluate_control (category_counts [])) compliance_controls) = 0"
    "count_status Gap (map (evaluate_control (category_counts [])) compliance_controls) = 0"
    by code_simp+
  ultimately show ?thesis
    by (auto simp: evaluate_compliance_def Let_def perfect)
qed

definition demo_engine_report :: "(string, pyval) dict" where
  "demo_engine_report = [(''nodes'', PList []), (''risk_findings'', PList demo_risk)]"

theorem engine_report_always_perfect_witness:
  "cp_score (the (report_compliance (\<lambda>_. []) demo_engine_report)) = 100 \<and> cp_score demo_eval < 95"
proof
  have "set (map fst demo_engine_report) \<subseteq> set report_keys" by code_simp
  moreover have "report_compliance (\<lambda>_. []) demo_engine_report \<noteq> None"
    by (simp add: report_compliance_def demo_engine_report_def take_findings_def obj_get_or_def py_len_def evaluate_compliance_def)
  then have "report_compliance (\<lambda>_. []) demo_engine_report = Some (the (report_compliance (\<lambda>_. []) demo_engine_report))" by simp
  ultimately show "cp_score (the (report_compliance (\<lambda>_. []) demo_engine_report)) = 100"
    using engine_report_always_perfect by blast
  have "sum_list (map (\<lambda>c. earns (hits demo_categories c) (ct_weight c)) compliance_controls) = 110" by code_simp
  then have "score_of demo_categories < 95" by (simp add: score_hits percent_def round1_def)
  then show "cp_score demo_eval < 95" by (simp add: demo_eval_def evaluate_compliance_def demo_cats Let_def)
qed

text \<open>Nodes of the engine have no \<open>id\<close>, so a project counts none of them as an asset.\<close>

lemma engine_nodes_uncounted:
  assumes "\<forall>n \<in> set ns. \<exists>d. n = PDict d \<and> set (map fst d) \<subseteq> set node_keys"
  shows "take_nodes ns ids = ids"
  using assms
proof (induction ns)
  case (Cons n ns)
  obtain d where d: "n = PDict d" "set (map fst d) \<subseteq> set node_keys" using Cons.prems by auto
  have "''id'' \<notin> set node_keys" by (simp add: node_keys_def)
  then have "dict_get d ''id'' = None" using d(2) by (auto simp: dict_get_exists)
  then show ?case using Cons by (simp add: d(1) node_id_def obj_get_def)
qed simp

end
