(* ===== verification/Emitters.thy ===== *)
theory Emitters
  imports PyVal
begin

text \<open>
  Four exports of reports under \<open>marlinspike/emit\<close>: Snort rules, switch configurations, the
  component inventory and the containment playbook, with the loops of \<open>app.py\<close> that gather their
  input from a project's report files. Texts that do not depend on the input are shortened to what
  the definitions name; \<open>None\<close> is an exception, \<open>fr\<close> is \<open>str\<close> of a float.
\<close>

section \<open>Input\<close>

text \<open>\<open>d.get(key, [])\<close> reduced to its objects.\<close>

definition dicts_of :: "(string, pyval) dict \<Rightarrow> string \<Rightarrow> (string, pyval) dict list option" where
  "dicts_of d key = map_option (\<lambda>vs. concat (map (\<lambda>v. case v of PDict x \<Rightarrow> [x] | _ \<Rightarrow> []) vs))
     (py_iter (obj_get_or d key (PList [])))"

text \<open>What a sequence gives to \<open>len\<close> and to an index; an object with entries has no entry 0.\<close>

definition seq_of :: "pyval \<Rightarrow> pyval list option" where
  "seq_of v = (case v of
       PList xs \<Rightarrow> Some xs
     | PStr s \<Rightarrow> Some (map (\<lambda>c. PStr [c]) s)
     | PDict [] \<Rightarrow> Some []
     | _ \<Rightarrow> None)"

section \<open>Snort rules\<close>

record snort_rule =
  sr_proto :: string
  sr_src :: string
  sr_dst :: string
  sr_msg :: string
  sr_class :: string

definition violation_rule :: "(rat \<Rightarrow> string) \<Rightarrow> (string, pyval) dict \<Rightarrow> snort_rule option" where
  "violation_rule fr v =
     (let src = py_str fr (obj_get_or v ''src'' (PStr ''any'')); dst = py_str fr (obj_get_or v ''dst'' (PStr ''any'')) in
      case py_or (obj_get v ''protocol'') (PStr ''ip'') of
        PStr p \<Rightarrow> Some \<lparr>sr_proto = py_lower p, sr_src = src, sr_dst = dst,
          sr_msg = ''MARLINSPIKE Purdue Model Zone Violation ('' @ src @ '' -> '' @ dst @ '')'', sr_class = ''bad-unknown''\<rparr>
      | _ \<Rightarrow> None)"

definition snort_conditions :: "(pyval \<times> string \<times> string \<times> string) list" where
  "snort_conditions = [
     (PStr ''PLC_MODE_SHIFT_DETECTED'', ''tcp'', ''MARLINSPIKE Critical PLC Mode Change (STOP/HALT) Detected'', ''policy-violation''),
     (PStr ''LATERAL_MOVEMENT_SUSPECT'', ''tcp'', ''MARLINSPIKE IT Management Protocol Reaching Purdue L1/0 PLC'', ''attempted-admin''),
     (PStr ''MALFORMED_INDUSTRIAL_FRAME'', ''ip'', ''MARLINSPIKE Malformed Industrial Protocol Frame / Fuzzing Attempt'', ''protocol-command-decode'')]"

definition finding_rule :: "(rat \<Rightarrow> string) \<Rightarrow> (string, pyval) dict \<Rightarrow> snort_rule list option" where
  "finding_rule fr f = map_option (\<lambda>nodes.
       let src = (case nodes of [] \<Rightarrow> ''any'' | n # _ \<Rightarrow> py_str fr n); dst = (case nodes of _ # n # _ \<Rightarrow> py_str fr n | _ \<Rightarrow> ''any'') in
       case dict_get snort_conditions (obj_get_or f ''category'' (PStr [])) of
         None \<Rightarrow> []
       | Some (proto, msg, class) \<Rightarrow> [\<lparr>sr_proto = proto, sr_src = src, sr_dst = dst, sr_msg = msg, sr_class = class\<rparr>])
     (seq_of (obj_get_or f ''affected_nodes'' (PList [])))"

definition add_rule :: "snort_rule \<Rightarrow> (nat \<times> snort_rule) list \<times> nat \<Rightarrow> (nat \<times> snort_rule) list \<times> nat" where
  "add_rule r st = (fst st @ [(snd st, r)], snd st + 1)"

definition snort_text :: "nat \<times> snort_rule \<Rightarrow> string" where
  "snort_text sr = (case sr of (sid, r) \<Rightarrow> ''alert '' @ sr_proto r @ '' '' @ sr_src r @ '' any -> '' @ sr_dst r @ '' any (msg:''
     @ [quote2] @ sr_msg r @ [quote2] @ ''; classtype:'' @ sr_class r @ ''; sid:'' @ show_nat sid @ ''; rev:1;)'')"

definition snort_header :: "string list" where
  "snort_header = [''# =========================================================='', ''# Snort 3 / Suricata Industrial IDS Rules'',
     ''# Passively Generated by MarlinSpike OT Security Engine'', ''# =========================================================='', []]"

definition snort_rules :: "(rat \<Rightarrow> string) \<Rightarrow> (string, pyval) dict \<Rightarrow> (nat \<times> snort_rule) list option" where
  "snort_rules fr d =
     (case (Option.bind (dicts_of d ''purdue_violations'') (map_opt (violation_rule fr)),
            Option.bind (dicts_of d ''findings'') (map_opt (finding_rule fr))) of
        (Some vs, Some fs) \<Rightarrow> Some (fst (fold add_rule (vs @ concat fs) ([], 9000001)))
      | _ \<Rightarrow> None)"

definition newline :: string where "newline = [char_of (10::nat)]"

definition export_snort_rules :: "(rat \<Rightarrow> string) \<Rightarrow> (string, pyval) dict \<Rightarrow> string option" where
  "export_snort_rules fr d = map_option (\<lambda>rules.
     let lines = snort_header @ map snort_text rules in
     py_join newline (if length lines \<le> 5 then lines @ [''# No critical rule conditions triggered for this capture.''] else lines) @ newline)
     (snort_rules fr d)"

section \<open>Switch configurations\<close>

text \<open>The access list of the Cisco script, entry by entry.\<close>

datatype acl_entry =
    Remark string
  | DenyHosts string string
  | PermitPort string nat
  | DenyRest

fun acl_text :: "acl_entry \<Rightarrow> string" where
  "acl_text (Remark r) = '' remark '' @ r"
| "acl_text (DenyHosts src dst) = '' deny ip host '' @ src @ '' host '' @ dst"
| "acl_text (PermitPort proto port) = '' permit '' @ proto @ '' any any eq '' @ show_nat port"
| "acl_text DenyRest = '' deny ip any any log''"

definition violation_pair :: "(rat \<Rightarrow> string) \<Rightarrow> (string, pyval) dict \<Rightarrow> string \<times> string" where
  "violation_pair fr v = (py_str fr (obj_get_or v ''src'' (PStr ''any'')), py_str fr (obj_get_or v ''dst'' (PStr ''any'')))"

definition acl_ports :: "(string \<times> nat) list" where
  "acl_ports = [(''tcp'', 502), (''tcp'', 44818), (''tcp'', 102), (''udp'', 20004)]"

definition acl_entries :: "(rat \<Rightarrow> string) \<Rightarrow> (string, pyval) dict list \<Rightarrow> acl_entry list" where
  "acl_entries fr vs = Remark ''Block unauthorized cross-Purdue traffic'' # map (\<lambda>v. case violation_pair fr v of (s, d) \<Rightarrow> DenyHosts s d) vs
     @ map (\<lambda>(proto, port). PermitPort proto port) acl_ports @ [DenyRest]"

text \<open>The level of a node, missing ones counting as 1; a level that is no number cannot be compared.\<close>

definition level_of :: "(string, pyval) dict \<Rightarrow> (pyval \<times> rat) option" where
  "level_of n = (let v = obj_get_or n ''purdue_level'' (PInt 1) in map_option (Pair v) (num_val v))"

definition or_text :: "(rat \<Rightarrow> string) \<Rightarrow> (string, pyval) dict \<Rightarrow> string \<Rightarrow> string \<Rightarrow> string" where
  "or_text fr n key dflt = py_str fr (py_or (obj_get n key) (PStr dflt))"

definition cisco_port :: "(rat \<Rightarrow> string) \<Rightarrow> nat \<times> (string, pyval) dict \<Rightarrow> string list option" where
  "cisco_port fr inode = (case inode of (idx, n) \<Rightarrow> map_option (\<lambda>(lv, level).
     let mac = or_text fr n ''mac'' [] in
     [''interface GigabitEthernet1/0/'' @ show_nat (idx + 1),
      '' description MarlinSpike L'' @ py_str fr lv @ '' '' @ or_text fr n ''ip'' [],
      '' switchport mode access'', '' switchport access vlan '' @ (if level \<le> 1 then ''10'' else ''20''),
      '' switchport port-security'', '' switchport port-security maximum 1'']
     @ (if mac \<noteq> [] then ['' switchport port-security mac-address '' @ mac] else [])
     @ ['' ip access-group OT_ZERO_TRUST_ACL in'', ''!'']) (level_of n))"

definition siemens_port :: "(rat \<Rightarrow> string) \<Rightarrow> nat \<times> (string, pyval) dict \<Rightarrow> string list option" where
  "siemens_port fr inode = (case inode of (idx, n) \<Rightarrow> map_option (\<lambda>(lv, level).
     let mac = or_text fr n ''mac'' []; ip = or_text fr n ''ip'' ''N/A''; port = ''FastEthernet0/'' @ show_nat (idx + 1) in
     if mac = [] then []
     else [''mac-address-table static '' @ mac @ '' vlan '' @ (if level \<le> 1 then ''10'' else if level = 2 then ''20'' else ''30'') @ '' interface '' @ port,
       ''interface '' @ port, ''  port-security max-mac-count 1'',
       ''  description '' @ [quote1] @ ''MarlinSpike L'' @ py_str fr lv @ '' Asset '' @ ip @ [quote1], ''!'']) (level_of n))"

definition hirschmann_port :: "(rat \<Rightarrow> string) \<Rightarrow> nat \<times> (string, pyval) dict \<Rightarrow> string list" where
  "hirschmann_port fr inode = (case inode of (idx, n) \<Rightarrow>
     let mac = or_text fr n ''mac'' []; port = '' 1/'' @ show_nat (idx + 1) in
     if mac = [] then []
     else [''port security'' @ port @ '' enable'', ''port security'' @ port @ '' static-mac '' @ mac,
       ''port comment'' @ port @ '' '' @ [quote2] @ ''MarlinSpike Asset '' @ or_text fr n ''ip'' [] @ [quote2]])"

definition banner :: "char \<Rightarrow> string \<Rightarrow> string list" where
  "banner c title = (let rule = [c] @ '' =========================================================='' in
     [rule, [c] @ '' '' @ title, [c] @ '' Passively Generated by MarlinSpike OT Security Engine'', rule])"

definition quoted :: "string \<Rightarrow> string" where
  "quoted s = [quote1] @ s @ [quote1]"

definition siemens_head :: "string list" where
  "siemens_head = banner (CHR ''!'') ''Siemens SCALANCE X-300 / X-400 Hardening Script''
     @ [''vlan 10 name '' @ quoted ''Control_Zone_L1'', ''vlan 20 name '' @ quoted ''HMI_Zone_L2'', ''vlan 30 name '' @ quoted ''Enterprise_Zone_L4'', ''!'']"

definition hirschmann_head :: "string list" where
  "hirschmann_head = banner (CHR ''#'') ''Hirschmann HiOS Industrial Switch Security Configuration''
     @ [''vlan create 10 name Control_Zone_L1'', ''vlan create 20 name HMI_Zone_L2'', ''vlan create 30 name Enterprise_Zone_L4'', []]"

definition cisco_head :: "string list" where
  "cisco_head = banner (CHR ''!'') ''Cisco Industrial Ethernet (IE 4000/5000) Micro-Segmentation ACL''
     @ [''vlan 10'', '' name Control_Zone_Level1'', ''vlan 20'', '' name Operations_Zone_Level2'', ''!'',
        ''ip access-list extended OT_ZERO_TRUST_ACL'']"

definition switch_lines :: "(rat \<Rightarrow> string) \<Rightarrow> string \<Rightarrow> (string, pyval) dict list \<Rightarrow> (string, pyval) dict list \<Rightarrow> string list option" where
  "switch_lines fr vendor nodes vs =
     (let inodes = enumerate 0 nodes in
      if vendor = ''siemens_scalance'' then map_option (\<lambda>ports. siemens_head @ concat ports) (map_opt (siemens_port fr) inodes)
      else if vendor = ''hirschmann_hios'' then Some (hirschmann_head @ concat (map (hirschmann_port fr) inodes))
      else map_option (\<lambda>ports. cisco_head @ map acl_text (acl_entries fr vs) @ [''!''] @ concat ports) (map_opt (cisco_port fr) inodes))"

definition generate_switch_acl :: "(rat \<Rightarrow> string) \<Rightarrow> (string, pyval) dict \<Rightarrow> string \<Rightarrow> string option" where
  "generate_switch_acl fr d vendor =
     (case (dicts_of d ''nodes'', dicts_of d ''edges'', dicts_of d ''purdue_violations'') of
        (Some nodes, Some _, Some vs) \<Rightarrow> map_option (\<lambda>lines. py_join newline lines @ newline)
          (switch_lines fr (py_lower (if vendor \<noteq> [] then vendor else ''cisco_ie'')) nodes vs)
      | _ \<Rightarrow> None)"

section \<open>The component inventory\<close>

record component =
  cm_type :: string
  cm_ref :: string
  cm_name :: string
  cm_version :: string
  cm_description :: string
  cm_supplier :: string
  cm_properties :: "(string \<times> string) list"

definition sub_dict :: "(string, pyval) dict \<Rightarrow> string \<Rightarrow> (string, pyval) dict option" where
  "sub_dict n key = (case py_or (obj_get n key) (PDict []) of PDict d \<Rightarrow> Some d | _ \<Rightarrow> None)"

definition joined_texts :: "pyval \<Rightarrow> string option" where
  "joined_texts v = Option.bind (py_iter v) (\<lambda>xs. if list_all is_str xs then Some (py_join '', '' (map str_of xs)) else None)"

definition first_true :: "pyval list \<Rightarrow> pyval \<Rightarrow> pyval" where
  "first_true vs dflt = foldr py_or vs dflt"

definition component_of :: "(rat \<Rightarrow> string) \<Rightarrow> string \<Rightarrow> nat \<times> (string, pyval) dict \<Rightarrow> component option" where
  "component_of fr bom inode = (case inode of (idx, n) \<Rightarrow>
     let ip = first_true [obj_get n ''ip'', obj_get n ''mac''] (PStr (''asset-'' @ show_nat idx));
         vendor = first_true [obj_get n ''vendor'', obj_get n ''oui_vendor''] (PStr ''Unknown Industrial Vendor'');
         device = first_true [obj_get n ''device_type'', obj_get n ''role''] (PStr ''Industrial Asset'');
         level = py_str fr (obj_get_or n ''purdue_level'' (PInt 0)) in
     case (sub_dict n ''cip_identity'', sub_dict n ''s7_identity'', device, joined_texts (obj_get_or n ''protocols'' (PList []))) of
       (Some cip, Some s7, PStr dev, Some protos) \<Rightarrow>
         let firmware = first_true [obj_get cip ''revision'', obj_get s7 ''firmware_version''] (PStr ''1.0.0'');
             model = first_true [obj_get cip ''product_name'', obj_get s7 ''module_name''] (PStr (py_str fr vendor @ '' '' @ dev));
             serial = first_true [obj_get cip ''serial_number'', obj_get s7 ''serial_number''] (PStr [])
         in Some \<lparr>cm_type = (if sublist ''PLC'' (py_upper dev) \<or> sublist ''RTU'' (py_upper dev) then ''firmware'' else ''device''),
              cm_ref = bom @ '':component:'' @ show_nat idx, cm_name = py_str fr model, cm_version = py_str fr firmware,
              cm_description = ''Passive PCAP Discovered '' @ dev @ '' (Purdue Level '' @ level @ '', IP: '' @ py_str fr ip @ '')'',
              cm_supplier = py_str fr vendor,
              cm_properties = [(''marlinspike:purdue_level'', level), (''marlinspike:ip_address'', py_str fr (obj_get_or n ''ip'' (PStr []))),
                 (''marlinspike:mac_address'', py_str fr (obj_get_or n ''mac'' (PStr []))), (''marlinspike:protocols'', protos)]
                @ (if truthy serial then [(''marlinspike:serial_number'', py_str fr serial)] else [])\<rparr>
     | _ \<Rightarrow> None)"

definition sbom_components :: "(rat \<Rightarrow> string) \<Rightarrow> string \<Rightarrow> (string, pyval) dict \<Rightarrow> component list option" where
  "sbom_components fr uuid d = Option.bind (dicts_of d ''nodes'') (\<lambda>ns. map_opt (component_of fr (''urn:uuid:'' @ uuid)) (enumerate 0 ns))"

section \<open>The containment playbook\<close>

definition source_of :: "(string, pyval) dict \<Rightarrow> pyval" where
  "source_of d = py_or (obj_get d ''src_ip'') (obj_get d ''source_ip'')"

definition isolate :: "(pyval \<times> bool) \<Rightarrow> pyval list \<Rightarrow> pyval list option" where
  "isolate sc ips = (case sc of (src, severe) \<Rightarrow>
     if truthy src \<and> severe then (if \<not> hashable src then None else Some (if src \<in> set ips then ips else ips @ [src])) else Some ips)"

fun isolate_all :: "(pyval \<times> bool) list \<Rightarrow> pyval list \<Rightarrow> pyval list option" where
  "isolate_all [] ips = Some ips"
| "isolate_all (x # xs) ips = Option.bind (isolate x ips) (isolate_all xs)"

definition quarantine_ips :: "(rat \<Rightarrow> string) \<Rightarrow> pyval list \<Rightarrow> pyval list \<Rightarrow> string list option" where
  "quarantine_ips fr findings violations =
     (case (map_opt as_dict findings, map_opt as_dict violations) of
        (Some fs, Some vs) \<Rightarrow> map_option (\<lambda>ips. if ips = [] then [''192.168.1.100''] else map (py_str fr) ips)
          (Option.bind (isolate_all (map (\<lambda>f. (source_of f, py_upper (py_str fr (py_or (obj_get f ''severity'') (PStr []))) \<in> {''CRITICAL'', ''HIGH''})) fs
             @ map (\<lambda>v. (source_of v, True)) vs) []) py_sorted)
      | _ \<Rightarrow> None)"

text \<open>Where the addresses stand in the playbook: its variable, and the lines of the switch task.\<close>

definition playbook_vars :: "string list \<Rightarrow> string list" where
  "playbook_vars ips = map (\<lambda>ip. ''      - '' @ ip) ips"

definition playbook_acl :: "string list \<Rightarrow> string list" where
  "playbook_acl ips = map (\<lambda>ip. ''          - access-list 150 deny ip host '' @ ip @ '' any'') ips
     @ [''          - access-list 150 permit ip any any'', ''          - interface GigabitEthernet1/0/1'', ''          - ip access-group 150 in'']"

section \<open>Gathering a project's files\<close>

definition gather_lists :: "string \<Rightarrow> string \<Rightarrow> pyval option \<Rightarrow> pyval list \<times> pyval list \<Rightarrow> pyval list \<times> pyval list" where
  "gather_lists k1 k2 contents st = (case contents of
       Some (PDict d) \<Rightarrow> (case py_iter (obj_get_or d k1 (PList [])) of
           None \<Rightarrow> st
         | Some xs \<Rightarrow> (fst st @ xs, case py_iter (obj_get_or d k2 (PList [])) of None \<Rightarrow> snd st | Some ys \<Rightarrow> snd st @ ys))
     | _ \<Rightarrow> st)"

definition project_playbook :: "(rat \<Rightarrow> string) \<Rightarrow> pyval option list \<Rightarrow> string list option" where
  "project_playbook fr files = (case fold (gather_lists ''findings'' ''purdue_violations'') files ([], []) of
       (fs, vs) \<Rightarrow> quarantine_ips fr fs vs)"

definition project_snort :: "(rat \<Rightarrow> string) \<Rightarrow> pyval option list \<Rightarrow> string option" where
  "project_snort fr files = (case fold (gather_lists ''findings'' ''purdue_violations'') files ([], []) of
       (fs, vs) \<Rightarrow> export_snort_rules fr [(''findings'', PList fs), (''purdue_violations'', PList vs)])"

end
