(* ===== verification/EmittersSafety.thy ===== *)
theory EmittersSafety
  imports Emitters Compliance
begin

text \<open>
  The access list, read entry by entry as a switch does, denies every recorded violation and
  permits the four industrial ports otherwise; rule numbers are consecutive. The last section
  shows which exports cannot see what a report of the engine says.
\<close>

section \<open>The access list\<close>

text \<open>The first entry that matches decides; \<open>True\<close> is permit.\<close>

fun acl_permits :: "acl_entry list \<Rightarrow> string \<Rightarrow> string \<Rightarrow> string \<Rightarrow> nat \<Rightarrow> bool" where
  "acl_permits [] src dst proto port = False"
| "acl_permits (Remark _ # es) src dst proto port = acl_permits es src dst proto port"
| "acl_permits (DenyHosts s d # es) src dst proto port = (if s = src \<and> d = dst then False else acl_permits es src dst proto port)"
| "acl_permits (PermitPort p n # es) src dst proto port = (if p = proto \<and> n = port then True else acl_permits es src dst proto port)"
| "acl_permits (DenyRest # es) src dst proto port = False"

lemma denied_pairs:
  "acl_permits (map (\<lambda>v. case violation_pair fr v of (s, d) \<Rightarrow> DenyHosts s d) vs @ es) src dst proto port \<longleftrightarrow>
     (src, dst) \<notin> set (map (violation_pair fr) vs) \<and> acl_permits es src dst proto port"
  by (induction vs) (auto split: prod.split)

lemma permitted_ports:
  "acl_permits (map (\<lambda>(proto, port). PermitPort proto port) ports @ [DenyRest]) src dst proto port \<longleftrightarrow> (proto, port) \<in> set ports"
  by (induction ports) (auto split: if_splits)

text \<open>
  C35. Read first match first, the access list permits a packet exactly when its port is one of the four
  and its pair of hosts is not a recorded violation.\<close>

theorem acl_blocks_violations:
  "acl_permits (acl_entries fr vs) src dst proto port \<longleftrightarrow>
     (src, dst) \<notin> set (map (violation_pair fr) vs) \<and> (proto, port) \<in> set acl_ports"
  by (simp only: acl_entries_def acl_permits.simps append_Cons denied_pairs permitted_ports)

text \<open>DNP3 over TCP uses port 20000: it is dropped.\<close>

lemma acl_drops_dnp3: "\<not> acl_permits (acl_entries fr vs) src dst ''tcp'' 20000 \<and> \<not> acl_permits (acl_entries fr vs) src dst ''udp'' 20000"
  by (simp only: acl_entries_def acl_permits.simps append_Cons denied_pairs permitted_ports) (simp add: acl_ports_def)

section \<open>Rule numbers\<close>

lemma add_rules: "fold add_rule rs (acc, n) = (acc @ enumerate n rs, n + length rs)"
  by (induction rs arbitrary: acc n) (simp_all add: add_rule_def)

text \<open>The rules of one export carry consecutive numbers from 9000001 on.\<close>

theorem snort_sids_consecutive:
  assumes "snort_rules fr d = Some rules"
  shows "map fst rules = [9000001 ..< 9000001 + length rules]"
  using assms by (auto simp: snort_rules_def add_rules simp del: fold_append split: option.splits)

definition demo_violation :: "(string, pyval) dict" where
  "demo_violation = [(''src'', PStr ''a''), (''dst'', PStr ''b''), (''src_level'', PInt 1), (''dst_level'', PInt 3), (''protocol'', PStr ''Modbus'')]"

definition demo_snort :: "(nat \<times> snort_rule) list option" where
  "demo_snort = snort_rules (\<lambda>_. []) [(''purdue_violations'', PList [PDict demo_violation, PDict demo_violation])]"

theorem snort_sids_consecutive_witness:
  "map fst (the demo_snort) = [9000001 ..< 9000001 + length (the demo_snort)] \<and> length (the demo_snort) = 2"
proof
  have some: "\<exists>r. violation_rule (\<lambda>_. []) demo_violation = Some r"
    by (simp add: violation_rule_def demo_violation_def obj_get_def py_or_def Let_def)
  then obtain r where r: "violation_rule (\<lambda>_. []) demo_violation = Some r" by blast
  have got: "demo_snort = Some (enumerate 9000001 [r, r])"
    by (simp add: demo_snort_def snort_rules_def dicts_of_def obj_get_or_def r add_rule_def)
  have "snort_rules (\<lambda>_. []) [(''purdue_violations'', PList [PDict demo_violation, PDict demo_violation])] = Some (the demo_snort)"
    using got by (metis demo_snort_def option.sel)
  then show "map fst (the demo_snort) = [9000001 ..< 9000001 + length (the demo_snort)]"
    by (rule snort_sids_consecutive)
  show "length (the demo_snort) = 2" by (simp add: got)
qed

section \<open>What the exports see of the engine's reports\<close>

text \<open>The keys of a violation as the engine records it.\<close>

definition violation_keys :: "string list" where
  "violation_keys = [''src'', ''dst'', ''src_level'', ''dst_level'', ''protocol'', ''bytes_total'', ''description'']"

definition engine_violation :: "pyval \<Rightarrow> bool" where
  "engine_violation v \<longleftrightarrow> (case v of PDict d \<Rightarrow> set (map fst d) \<subseteq> set violation_keys | _ \<Rightarrow> False)"

text \<open>A report with the engine's top-level keys, whose violations have the engine's keys.\<close>

definition engine_report :: "pyval option \<Rightarrow> bool" where
  "engine_report contents \<longleftrightarrow> (case contents of
       Some (PDict d) \<Rightarrow> set (map fst d) \<subseteq> set report_keys
         \<and> (case obj_get_or d ''purdue_violations'' (PList []) of PList vs \<Rightarrow> list_all engine_violation vs | _ \<Rightarrow> False)
     | _ \<Rightarrow> False)"

lemma missing_key: "set (map fst d) \<subseteq> set ks \<Longrightarrow> k \<notin> set ks \<Longrightarrow> dict_get d k = None"
  by (auto simp: dict_get_exists)

lemma gathered:
  "engine_report c \<Longrightarrow> list_all engine_violation vs \<Longrightarrow>
   \<exists>vs'. gather_lists ''findings'' ''purdue_violations'' c ([], vs) = ([], vs') \<and> list_all engine_violation vs'"
proof -
  assume e: "engine_report c" "list_all engine_violation vs"
  then obtain d ws where d: "c = Some (PDict d)" "set (map fst d) \<subseteq> set report_keys"
      and ws: "obj_get_or d ''purdue_violations'' (PList []) = PList ws" "list_all engine_violation ws"
    by (auto simp: engine_report_def split: option.splits pyval.splits)
  have "dict_get d ''findings'' = None" by (rule missing_key [OF d(2)]) (simp add: report_keys_def)
  then have "obj_get_or d ''findings'' (PList []) = PList []" by (simp add: obj_get_or_def)
  then show ?thesis using e(2) ws by (simp add: d(1) gather_lists_def)
qed

lemma gathered_all:
  "list_all engine_report files \<Longrightarrow> list_all engine_violation vs \<Longrightarrow>
   \<exists>vs'. fold (gather_lists ''findings'' ''purdue_violations'') files ([], vs) = ([], vs') \<and> list_all engine_violation vs'"
proof (induction files arbitrary: vs)
  case (Cons c files)
  obtain vs1 where "gather_lists ''findings'' ''purdue_violations'' c ([], vs) = ([], vs1)" "list_all engine_violation vs1"
    using gathered Cons.prems by fastforce
  then show ?case using Cons.IH [of vs1] Cons.prems by simp
qed simp

lemma no_source: "engine_violation (PDict d) \<Longrightarrow> \<not> truthy (source_of d)"
  using missing_key [of d violation_keys "''src_ip''"] missing_key [of d violation_keys "''source_ip''"]
  by (simp add: engine_violation_def source_of_def obj_get_def py_or_def violation_keys_def)

lemma isolate_none:
  "list_all engine_violation vs \<Longrightarrow>
   \<exists>ds. map_opt as_dict vs = Some ds \<and> isolate_all (map (\<lambda>v. (source_of v, True)) ds) ips = Some ips"
proof (induction vs)
  case (Cons v vs)
  then obtain d ds where "v = PDict d" "map_opt as_dict vs = Some ds" "isolate_all (map (\<lambda>v. (source_of v, True)) ds) ips = Some ips"
    by (auto simp: engine_violation_def split: pyval.splits)
  then show ?case using Cons.prems no_source [of d] by (simp add: isolate_def)
qed simp

text \<open>
  The playbook looks for the sources of findings and violations under keys the engine does not
  write: for any project of its reports it isolates the one fixed address and no other.
\<close>

theorem playbook_isolates_fixed_address:
  assumes "list_all engine_report files"
  shows "project_playbook fr files = Some [''192.168.1.100'']"
proof -
  obtain vs where vs: "fold (gather_lists ''findings'' ''purdue_violations'') files ([], []) = ([], vs)" "list_all engine_violation vs"
    using gathered_all [OF assms, of "[]"] by auto
  then obtain ds where "map_opt as_dict vs = Some ds" "isolate_all (map (\<lambda>v. (source_of v, True)) ds) [] = Some []"
    using isolate_none [of vs "[]"] by auto
  then show ?thesis by (simp add: project_playbook_def vs(1) quarantine_ips_def py_sorted_def)
qed

definition demo_files :: "pyval option list" where
  "demo_files = [Some (PDict [(''risk_findings'', PList [PDict [(''severity'', PStr ''CRITICAL'')]]),
     (''purdue_violations'', PList [PDict demo_violation])])]"

theorem playbook_isolates_fixed_address_witness:
  "project_playbook (\<lambda>_. []) demo_files = Some [''192.168.1.100'']"
proof (rule playbook_isolates_fixed_address)
  show "list_all engine_report demo_files" by code_simp
qed

text \<open>A node of the engine carries no firmware: every component of the inventory has version 1.0.0.\<close>

lemma engine_component_version:
  assumes "set (map fst n) \<subseteq> set node_keys" "component_of fr bom (idx, n) = Some c"
  shows "cm_version c = ''1.0.0''"
proof -
  have "dict_get n ''cip_identity'' = None" "dict_get n ''s7_identity'' = None"
    by (rule missing_key [OF assms(1)]; simp add: node_keys_def)+
  then have ids: "sub_dict n ''cip_identity'' = Some []" "sub_dict n ''s7_identity'' = Some []"
    by (simp_all add: sub_dict_def obj_get_def py_or_def)
  have none: "first_true [obj_get [] j, obj_get [] k] dflt = dflt" for j k dflt
    by (simp add: first_true_def obj_get_def py_or_def)
  show ?thesis
    using assms(2) by (auto simp: component_of_def ids none Let_def simp del: py_repr.simps split: option.splits pyval.splits)
qed

end
