(* ===== verification/IpAddr.thy ===== *)
theory IpAddr
  imports PyVal
begin

text \<open>
  What the program uses of Python's module \<open>ipaddress\<close> (as in Python 3.12, the version of the
  images): parsing an address or a network, membership, and the two classifications \<open>is_global\<close>
  and \<open>is_multicast\<close>. An address is its version and its value; an IPv6 address keeps its scope.
  \<open>None\<close> is the \<open>ValueError\<close> of a text that is no address.
\<close>

datatype ip = V4 int | V6 int string

section \<open>Parsing\<close>

definition dec_val :: "string \<Rightarrow> int" where
  "dec_val s = foldl (\<lambda>n c. 10 * n + int (digit_val c)) 0 s"

definition octet :: "string \<Rightarrow> int option" where
  "octet s = (if s \<noteq> [] \<and> list_all py_isdigit s \<and> length s \<le> 3 \<and> (s = ''0'' \<or> hd s \<noteq> CHR ''0'') \<and> dec_val s \<le> 255
     then Some (dec_val s) else None)"

definition v4 :: "int \<Rightarrow> int \<Rightarrow> int \<Rightarrow> int \<Rightarrow> int" where
  "v4 a b c d = ((a * 256 + b) * 256 + c) * 256 + d"

definition parse_v4 :: "string \<Rightarrow> int option" where
  "parse_v4 s = (case map_opt octet (py_split (CHR ''.'') s) of Some [a, b, c, d] \<Rightarrow> Some (v4 a b c d) | _ \<Rightarrow> None)"

definition hex_val :: "char \<Rightarrow> int option" where
  "hex_val c = (let n = ord_of c in
     if 48 \<le> n \<and> n \<le> 57 then Some (int n - 48)
     else if 97 \<le> n \<and> n \<le> 102 then Some (int n - 87)
     else if 65 \<le> n \<and> n \<le> 70 then Some (int n - 55)
     else None)"

definition hex_digits :: "string \<Rightarrow> int option" where
  "hex_digits s = (case map_opt hex_val s of None \<Rightarrow> None | Some ds \<Rightarrow> if ds = [] then None else Some (foldl (\<lambda>n d. 16 * n + d) 0 ds))"

definition hextet :: "string \<Rightarrow> int option" where
  "hextet s = (if length s \<le> 4 then hex_digits s else None)"

text \<open>The groups of an IPv6 address as numbers; a dotted suffix counts as two groups, \<open>None\<close> stands for an empty group.\<close>

definition group_of :: "string \<Rightarrow> int option option" where
  "group_of s = (if s = [] then Some None else map_option Some (hextet s))"

definition groups :: "string \<Rightarrow> int option list option" where
  "groups s = (let parts = py_split (CHR '':'') s in
     if length parts < 3 then None
     else if CHR ''.'' \<in> set (last parts)
     then (case (map_opt group_of (butlast parts), parse_v4 (last parts)) of
         (Some gs, Some n) \<Rightarrow> Some (gs @ [Some (n div 65536), Some (n mod 65536)])
       | _ \<Rightarrow> None)
     else map_opt group_of parts)"

definition hextets_val :: "int option list \<Rightarrow> int option" where
  "hextets_val gs = map_option (foldl (\<lambda>n g. 65536 * n + g) 0) (map_opt id gs)"

text \<open>Where \<open>::\<close> stands: the inner empty groups.\<close>

definition gaps :: "int option list \<Rightarrow> nat list" where
  "gaps gs = filter (\<lambda>i. gs ! i = None) [1..<length gs - 1]"

definition assemble :: "int option list \<Rightarrow> int option" where
  "assemble gs = (if length gs > 9 then None else (case gaps gs of
       [] \<Rightarrow> if length gs = 8 then hextets_val gs else None
     | [k] \<Rightarrow>
         (let hi_len = (if hd gs = None then k - 1 else k); lo_len = (if last gs = None then length gs - k - 2 else length gs - k - 1) in
          if (hd gs = None \<and> hi_len > 0) \<or> (last gs = None \<and> lo_len > 0) \<or> hi_len + lo_len > 7 then None
          else (case (hextets_val (take hi_len gs), hextets_val (drop (length gs - lo_len) gs)) of
              (Some hi, Some lo) \<Rightarrow> Some (hi * 65536 ^ (8 - hi_len) + lo)
            | _ \<Rightarrow> None))
     | _ \<Rightarrow> None))"

definition parse_v6 :: "string \<Rightarrow> ip option" where
  "parse_v6 s = (let addr = takeWhile (\<lambda>c. c \<noteq> CHR ''%'') s; rest = dropWhile (\<lambda>c. c \<noteq> CHR ''%'') s in
     if CHR ''/'' \<in> set s \<or> (rest \<noteq> [] \<and> (tl rest = [] \<or> CHR ''%'' \<in> set (tl rest))) then None
     else (case groups addr of None \<Rightarrow> None | Some gs \<Rightarrow> map_option (\<lambda>n. V6 n (tl rest)) (assemble gs)))"

definition ip_address :: "string \<Rightarrow> ip option" where
  "ip_address s = (case parse_v4 s of Some n \<Rightarrow> Some (V4 n) | None \<Rightarrow> parse_v6 s)"

section \<open>Networks\<close>

datatype network = N4 int nat | N6 int nat

fun prefixlen :: "network \<Rightarrow> nat" where
  "prefixlen (N4 _ p) = p"
| "prefixlen (N6 _ p) = p"

definition same_prefix :: "nat \<Rightarrow> nat \<Rightarrow> int \<Rightarrow> int \<Rightarrow> bool" where
  "same_prefix width p a b \<longleftrightarrow> a div 2 ^ (width - p) = b div 2 ^ (width - p)"

fun in_network :: "ip \<Rightarrow> network \<Rightarrow> bool" where
  "in_network (V4 a) (N4 b p) \<longleftrightarrow> same_prefix 32 p a b"
| "in_network (V6 a _) (N6 b p) \<longleftrightarrow> same_prefix 128 p a b"
| "in_network _ _ \<longleftrightarrow> False"

definition prefix_text :: "nat \<Rightarrow> string \<Rightarrow> nat option" where
  "prefix_text width s = (if s \<noteq> [] \<and> list_all py_isdigit s \<and> dec_val s \<le> int width then Some (nat (dec_val s)) else None)"

definition netmask :: "nat \<Rightarrow> int" where
  "netmask p = 2 ^ 32 - 2 ^ (32 - p)"

text \<open>A dotted netmask, or else a host mask.\<close>

definition prefix_mask :: "string \<Rightarrow> nat option" where
  "prefix_mask s = (case parse_v4 s of
       None \<Rightarrow> None
     | Some m \<Rightarrow> (case find (\<lambda>p. netmask p = m) [0..<33] of
           Some p \<Rightarrow> Some p
         | None \<Rightarrow> find (\<lambda>p. netmask p = 2 ^ 32 - 1 - m) [0..<33]))"

definition ip_network4 :: "string \<Rightarrow> string option \<Rightarrow> network option" where
  "ip_network4 a m = (case parse_v4 a of
       None \<Rightarrow> None
     | Some n \<Rightarrow> (case m of
           None \<Rightarrow> Some (N4 n 32)
         | Some t \<Rightarrow> map_option (N4 n) (case prefix_text 32 t of Some p \<Rightarrow> Some p | None \<Rightarrow> prefix_mask t)))"

definition ip_network6 :: "string \<Rightarrow> string option \<Rightarrow> network option" where
  "ip_network6 a m = (case parse_v6 a of
       Some (V6 n _) \<Rightarrow> (case m of None \<Rightarrow> Some (N6 n 128) | Some t \<Rightarrow> map_option (N6 n) (prefix_text 128 t))
     | _ \<Rightarrow> None)"

text \<open>\<open>ip_network(s, strict=False)\<close>.\<close>

definition ip_network :: "string \<Rightarrow> network option" where
  "ip_network s = (case py_split (CHR ''/'') s of
       [a] \<Rightarrow> (case ip_network4 a None of Some n \<Rightarrow> Some n | None \<Rightarrow> ip_network6 a None)
     | [a, m] \<Rightarrow> (case ip_network4 a (Some m) of Some n \<Rightarrow> Some n | None \<Rightarrow> ip_network6 a (Some m))
     | _ \<Rightarrow> None)"

section \<open>Classification\<close>

definition private4 :: "network list" where
  "private4 = [N4 (v4 0 0 0 0) 8, N4 (v4 10 0 0 0) 8, N4 (v4 127 0 0 0) 8, N4 (v4 169 254 0 0) 16, N4 (v4 172 16 0 0) 12,
     N4 (v4 192 0 0 0) 24, N4 (v4 192 0 0 170) 31, N4 (v4 192 0 2 0) 24, N4 (v4 192 168 0 0) 16, N4 (v4 198 18 0 0) 15,
     N4 (v4 198 51 100 0) 24, N4 (v4 203 0 113 0) 24, N4 (v4 240 0 0 0) 4, N4 (v4 255 255 255 255) 32]"

definition private4_exceptions :: "network list" where
  "private4_exceptions = [N4 (v4 192 0 0 9) 32, N4 (v4 192 0 0 10) 32]"

text \<open>An IPv6 network from its first four groups.\<close>

definition net6 :: "int \<Rightarrow> int \<Rightarrow> int \<Rightarrow> int \<Rightarrow> nat \<Rightarrow> network" where
  "net6 a b c d p = N6 ((((a * 65536 + b) * 65536 + c) * 65536 + d) * 2 ^ 64) p"

definition private6 :: "network list" where
  "private6 = [N6 1 128, N6 0 128, N6 (65535 * 2 ^ 32) 96, net6 100 65435 1 0 48, net6 256 0 0 0 64, net6 8193 0 0 0 23,
     net6 8193 3512 0 0 32, net6 8194 0 0 0 16, net6 64512 0 0 0 7, net6 65152 0 0 0 10]"

definition private6_exceptions :: "network list" where
  "private6_exceptions = [N6 (8193 * 2 ^ 112 + 2 ^ 96 + 1) 128, N6 (8193 * 2 ^ 112 + 2 ^ 96 + 2) 128, net6 8193 3 0 0 32,
     net6 8193 4 274 0 48, net6 8193 32 0 0 28, net6 8193 48 0 0 28]"

definition listed_in :: "ip \<Rightarrow> network list \<Rightarrow> bool" where
  "listed_in a ns \<longleftrightarrow> list_ex (in_network a) ns"

definition mapped_v4 :: "int \<Rightarrow> int option" where
  "mapped_v4 n = (if n div 2 ^ 32 = 65535 then Some (n mod 2 ^ 32) else None)"

fun is_private :: "ip \<Rightarrow> bool" where
  "is_private (V4 n) \<longleftrightarrow> listed_in (V4 n) private4 \<and> \<not> listed_in (V4 n) private4_exceptions"
| "is_private (V6 n s) \<longleftrightarrow> (case mapped_v4 n of
       Some m \<Rightarrow> listed_in (V4 m) private4 \<and> \<not> listed_in (V4 m) private4_exceptions
     | None \<Rightarrow> listed_in (V6 n s) private6 \<and> \<not> listed_in (V6 n s) private6_exceptions)"

fun is_global :: "ip \<Rightarrow> bool" where
  "is_global (V4 n) \<longleftrightarrow> \<not> in_network (V4 n) (N4 (v4 100 64 0 0) 10) \<and> \<not> is_private (V4 n)"
| "is_global (V6 n s) \<longleftrightarrow> \<not> is_private (V6 n s)"

fun is_multicast :: "ip \<Rightarrow> bool" where
  "is_multicast (V4 n) \<longleftrightarrow> in_network (V4 n) (N4 (v4 224 0 0 0) 4)"
| "is_multicast (V6 n s) \<longleftrightarrow> in_network (V6 n s) (net6 65280 0 0 0 8)"

text \<open>
  \<open>str(addr).endswith(".255")\<close>: an IPv4 address whose last number is 255, or an IPv6 address whose
  scope ends that way.
\<close>

fun ends_255 :: "ip \<Rightarrow> bool" where
  "ends_255 (V4 n) \<longleftrightarrow> n mod 256 = 255"
| "ends_255 (V6 _ s) \<longleftrightarrow> py_endswith s ''.255''"

section \<open>Ranges\<close>

lemma dec_val_nonneg: "0 \<le> dec_val s"
proof -
  have "0 \<le> n \<Longrightarrow> 0 \<le> foldl (\<lambda>n c. 10 * n + int (digit_val c)) n s" for n
    by (induction s arbitrary: n) simp_all
  then show ?thesis by (simp add: dec_val_def)
qed

lemma octet_range: "octet s = Some n \<Longrightarrow> 0 \<le> n \<and> n \<le> 255"
  by (auto simp: octet_def dec_val_nonneg split: if_splits)

lemma map_opt_Some: "map_opt f xs = Some ys \<longleftrightarrow> map f xs = map Some ys"
  by (induction xs arbitrary: ys) (auto split: option.splits simp: Cons_eq_map_conv)

lemma parse_v4_range: "parse_v4 s = Some n \<Longrightarrow> 0 \<le> n \<and> n < 2 ^ 32"
proof -
  assume a: "parse_v4 s = Some n"
  then obtain a b c d where m: "map_opt octet (py_split (CHR ''.'') s) = Some [a, b, c, d]" and n: "n = v4 a b c d"
    by (auto simp: parse_v4_def split: option.splits list.splits)
  then have "Some ` set [a, b, c, d] \<subseteq> octet ` set (py_split (CHR ''.'') s)"
    unfolding map_opt_Some by (metis list.set_map order_refl)
  then have "0 \<le> x \<and> x \<le> 255" if "x \<in> {a, b, c, d}" for x
    using that octet_range by (auto dest!: subsetD)
  then have "0 \<le> a" "a \<le> 255" "0 \<le> b" "b \<le> 255" "0 \<le> c" "c \<le> 255" "0 \<le> d" "d \<le> 255" by auto
  then show ?thesis by (simp add: n v4_def)
qed

text \<open>Membership in a more specific network implies membership in a wider one with the same start.\<close>

lemma same_prefix_wider:
  assumes "same_prefix width p a b" "q \<le> p" "p \<le> width"
  shows "same_prefix width q a b"
proof -
  have "(2::int) ^ (width - q) = 2 ^ (width - p) * 2 ^ (p - q)"
    using assms(2,3) by (simp add: power_add [symmetric])
  then show ?thesis using assms(1) by (simp add: same_prefix_def zdiv_zmult2_eq)
qed

lemma div_range:
  fixes k :: int
  assumes k: "0 < k"
  shows "a div k = c \<longleftrightarrow> c * k \<le> a \<and> a < c * k + k"
proof
  assume c: "a div k = c"
  have "c * k + a mod k = a" using div_mult_mod_eq [of a k] by (simp add: c)
  then show "c * k \<le> a \<and> a < c * k + k"
    using pos_mod_sign [OF k, of a] pos_mod_bound [OF k, of a] by linarith
next
  assume "c * k \<le> a \<and> a < c * k + k"
  then show "a div k = c"
    by (intro int_div_pos_eq [where r = "a - c * k"]) (simp_all add: mult.commute)
qed

text \<open>A network is a range of values.\<close>

lemma same_prefix_range:
  "same_prefix width p a b \<longleftrightarrow>
     b div 2 ^ (width - p) * 2 ^ (width - p) \<le> a \<and> a < b div 2 ^ (width - p) * 2 ^ (width - p) + 2 ^ (width - p)"
  by (simp add: same_prefix_def div_range)

lemma multicast_global: "in_network (V4 n) (N4 (v4 239 0 0 0) 8) \<Longrightarrow> is_global (V4 n) \<and> is_multicast (V4 n)"
  by (simp add: listed_in_def private4_def same_prefix_range v4_def)

end
