(* ===== verification/EngineData.thy ===== *)
theory EngineData
  imports IpAddr "HOL-Library.Product_Lexorder"
begin

text \<open>
  The static tables and the data classes of \<open>marlinspike/engine.py\<close> that the stages after the
  dissection share: conversations, the nodes and edges of the topology. JSON objects that ride along
  (identities, discovery data, attributes) are kept as \<open>pyval\<close> dictionaries.
\<close>

section \<open>Tables\<close>

definition ot_ports :: "(int \<times> string) list" where
  "ot_ports = [(502, ''Modbus TCP''), (44818, ''EtherNet/IP''), (2222, ''EtherNet/IP (UDP)''), (102, ''S7comm (ISO-TSAP)''),
     (20000, ''DNP3''), (2404, ''IEC 60870-5-104''), (47808, ''BACnet/IP''), (4840, ''OPC-UA''), (34964, ''Profinet RT''),
     (34962, ''Profinet IO''), (18245, ''GE SRTP''), (1911, ''Niagara Fox''), (9600, ''OMRON FINS''), (5007, ''Mitsubishi MELSEC''),
     (20547, ''CODESYS'')]"

definition well_known :: "(int \<times> string \<times> string) list" where
  "well_known = [(22, ''SSH'', ''IT''), (23, ''Telnet'', ''IT''), (3389, ''RDP'', ''IT''), (5900, ''VNC'', ''IT''), (5901, ''VNC'', ''IT''),
     (80, ''HTTP'', ''IT''), (443, ''HTTPS'', ''IT''), (8080, ''HTTP-Alt'', ''IT''), (8443, ''HTTPS-Alt'', ''IT''),
     (53, ''DNS'', ''IT/OT''), (5353, ''mDNS'', ''IT/OT''), (123, ''NTP'', ''IT/OT''), (67, ''DHCP Server'', ''IT/OT''),
     (68, ''DHCP Client'', ''IT/OT''), (161, ''SNMP'', ''IT/OT''), (162, ''SNMP Trap'', ''IT/OT''), (25, ''SMTP'', ''IT''),
     (110, ''POP3'', ''IT''), (143, ''IMAP'', ''IT''), (465, ''SMTPS'', ''IT''), (587, ''SMTP Submission'', ''IT''),
     (993, ''IMAPS'', ''IT''), (995, ''POP3S'', ''IT''), (20, ''FTP Data'', ''IT''), (21, ''FTP'', ''IT''),
     (69, ''TFTP'', ''IT/OT''), (445, ''SMB'', ''IT''), (139, ''NetBIOS-SSN'', ''IT''), (137, ''NetBIOS-NS'', ''IT''),
     (138, ''NetBIOS-DGM'', ''IT''), (88, ''Kerberos'', ''IT''), (389, ''LDAP'', ''IT''), (636, ''LDAPS'', ''IT''),
     (514, ''Syslog'', ''IT/OT''), (1514, ''Syslog TLS'', ''IT/OT''), (6514, ''Syslog TLS'', ''IT/OT''), (1433, ''MSSQL'', ''IT''),
     (1521, ''Oracle'', ''IT''), (3306, ''MySQL'', ''IT''), (5432, ''PostgreSQL'', ''IT''), (6379, ''Redis'', ''IT''),
     (27017, ''MongoDB'', ''IT''), (1883, ''MQTT'', ''IT/OT''), (8883, ''MQTT TLS'', ''IT/OT''), (5672, ''AMQP'', ''IT''),
     (5060, ''SIP'', ''IT''), (5061, ''SIP TLS'', ''IT''), (500, ''IKE'', ''IT''), (4500, ''IPsec NAT-T'', ''IT''),
     (1194, ''OpenVPN'', ''IT''), (1701, ''L2TP'', ''IT''), (1723, ''PPTP'', ''IT''), (51820, ''WireGuard'', ''IT''),
     (853, ''DNS-over-TLS'', ''IT''), (5985, ''WinRM HTTP'', ''IT''), (5986, ''WinRM HTTPS'', ''IT''), (2049, ''NFS'', ''IT''),
     (111, ''RPC Portmap'', ''IT''), (179, ''BGP'', ''IT''), (1080, ''SOCKS'', ''IT''), (3128, ''HTTP Proxy'', ''IT''),
     (8088, ''HTTP-Alt'', ''IT''), (9090, ''Prometheus'', ''IT''), (9100, ''Printer'', ''IT'')]"

definition tshark_protocols :: "(string \<times> string) list" where
  "tshark_protocols = [(''s7comm'', ''S7comm''), (''s7comm-plus'', ''S7comm Plus''), (''modbus'', ''Modbus TCP''),
     (''mbtcp'', ''Modbus TCP''), (''enip'', ''EtherNet/IP''), (''cip'', ''CIP''), (''cipcm'', ''CIP Connection Manager''),
     (''cipsafety'', ''CIP Safety''), (''dnp3'', ''DNP3''), (''iec60870_104'', ''IEC 60870-5-104''),
     (''iec60870_asdu'', ''IEC 60870-5 ASDU''), (''bacnet'', ''BACnet/IP''), (''opcua'', ''OPC-UA''), (''pn_rt'', ''PROFINET RT''),
     (''pn_io'', ''PROFINET IO''), (''pn_dcp'', ''PROFINET DCP''), (''synphasor'', ''IEEE C37.118 Synchrophasor''),
     (''goose'', ''IEC 61850 GOOSE''), (''sv'', ''IEC 61850 Sampled Values''), (''mms'', ''MMS (IEC 61850)''),
     (''r_goose'', ''R-GOOSE''), (''knxnetip'', ''KNXnet/IP''), (''lontalk'', ''LonTalk''), (''hartip'', ''HART-IP''),
     (''ff_hse'', ''Foundation Fieldbus HSE''), (''gryphon'', ''GE SRTP''), (''omron_fins'', ''OMRON FINS''),
     (''codesys'', ''CODESYS''), (''ethercat'', ''EtherCAT''), (''sercos'', ''SERCOS III''), (''opc_da'', ''OPC DA (Classic)''),
     (''epl'', ''POWERLINK''), (''cotp'', ''COTP (ISO 8073)''), (''tpkt'', ''TPKT''), (''lldp'', ''LLDP''), (''cdp'', ''CDP''),
     (''stp'', ''STP''), (''rstp'', ''RSTP''), (''mstp'', ''MSTP''), (''lacp'', ''LACP''), (''edp'', ''EDP'')]"

definition ics_ouis :: "(string \<times> string \<times> string list) list" where
  "ics_ouis = [(''00:00:e3'', ''Siemens AG'', [''S7-300'', ''S7-400'', ''ET 200'']),
     (''08:00:06'', ''Siemens AG'', [''Legacy Industrial Ethernet'']), (''00:0e:8c'', ''Siemens AG'', [''SIMATIC'', ''SCALANCE'']),
     (''00:1b:1b'', ''Siemens AG'', [''SIMATIC'', ''S7-1200'', ''S7-1500'']),
     (''00:00:bc'', ''Allen-Bradley'', [''ControlLogix'', ''CompactLogix'']),
     (''b4:e1:02'', ''Allen-Bradley'', [''Stratix'', ''ArmorBlock'']),
     (''00:80:f4'', ''Schneider Electric'', [''Modicon'', ''Quantum'']),
     (''00:06:29'', ''Schneider Electric'', [''Modicon M340'', ''M580'']), (''00:16:96'', ''ABB'', [''AC800M'', ''CI867'']),
     (''00:30:11'', ''ABB'', [''Industrial Control'']), (''00:50:c2'', ''Honeywell'', [''C300'', ''Safety Manager'']),
     (''00:e0:63'', ''Honeywell'', [''Process Control'']), (''00:a0:bc'', ''Emerson'', [''DeltaV'']),
     (''00:d0:bc'', ''Emerson'', [''Ovation'']), (''00:00:e2'', ''Yokogawa'', [''CENTUM'', ''ProSafe-RS'']),
     (''00:00:f8'', ''Mitsubishi Electric'', [''MELSEC'']), (''00:19:d2'', ''Mitsubishi Electric'', [''MELSEC iQ-R'', ''iQ-F'']),
     (''00:00:0e'', ''Omron'', [''CJ'', ''CS'', ''NJ'']), (''00:a0:45'', ''Phoenix Contact'', [''ILC'', ''RFC''])]"

definition vendor_names :: "(string \<times> string) list" where
  "vendor_names = [(''asustek computer inc.'', ''ASUS''), (''asustek computer inc'', ''ASUS''), (''asus'', ''ASUS''),
     (''hewlett packard'', ''HP''), (''hp inc.'', ''HP''), (''hp inc'', ''HP''), (''hewlett-packard'', ''HP''),
     (''dell inc.'', ''Dell''), (''dell inc'', ''Dell''), (''dell computer corp.'', ''Dell''),
     (''lenovo(beijing)co., ltd.'', ''Lenovo''), (''lenovo'', ''Lenovo''), (''apple, inc.'', ''Apple''), (''apple'', ''Apple''),
     (''apple inc.'', ''Apple''), (''cisco systems, inc'', ''Cisco''), (''cisco systems inc'', ''Cisco''),
     (''cisco meraki'', ''Cisco''), (''huawei technologies co.,ltd'', ''Huawei''), (''huawei device co., ltd.'', ''Huawei''),
     (''huawei'', ''Huawei''), (''tp-link technologies co.,ltd.'', ''TP-Link''), (''tp-link systems inc'', ''TP-Link''),
     (''tp-link systems inc.'', ''TP-Link''), (''tp-link'', ''TP-Link''), (''samsung electronics co.,ltd'', ''Samsung''),
     (''samsung electronics co., ltd'', ''Samsung''), (''intel corporate'', ''Intel''), (''intel corporation'', ''Intel''),
     (''hewlett packard enterprise'', ''HP''), (''hewlett-packard company'', ''HP''), (''hp company'', ''HP'')]"

definition hostname_patterns :: "(string \<times> string) list" where
  "hostname_patterns = [(''hp-'', ''HP''), (''hp_'', ''HP''), (''hpe'', ''HP''), (''hpe-'', ''HP''), (''hpe_'', ''HP''), (''aruba'', ''HP''),
     (''procurve'', ''HP''), (''desktop-hp'', ''HP''), (''laptop-hp'', ''HP''), (''hpdesk'', ''HP''), (''hp-envy'', ''HP''),
     (''hp-pavilion'', ''HP''), (''hp-elitebook'', ''HP''), (''hp-probook'', ''HP''), (''hp-zbook'', ''HP''),
     (''hp-laserjet'', ''HP''), (''hewlett'', ''HP''), (''asus'', ''ASUS''), (''zenbook'', ''ASUS''), (''rog-'', ''ASUS''),
     (''tuf-'', ''ASUS''), (''dell-'', ''Dell''), (''dell_'', ''Dell''), (''desktop-dell'', ''Dell''), (''laptop-dell'', ''Dell''),
     (''latitude'', ''Dell''), (''optiplex'', ''Dell''), (''precision-'', ''Dell''), (''inspiron'', ''Dell''),
     (''vostro'', ''Dell''), (''alienware'', ''Dell''), (''lenovo'', ''Lenovo''), (''thinkpad'', ''Lenovo''),
     (''ideapad'', ''Lenovo''), (''thinkcentre'', ''Lenovo''), (''thinkstation'', ''Lenovo''), (''yoga-'', ''Lenovo''),
     (''macbook'', ''Apple''), (''imac'', ''Apple''), (''macmini'', ''Apple''), (''macpro'', ''Apple''), (''ipad'', ''Apple''),
     (''iphone'', ''Apple'')]"

definition cip_vendors :: "(int \<times> string) list" where
  "cip_vendors = [(1, ''Allen-Bradley''), (42, ''Schneider Electric''), (283, ''Hilscher'')]"

definition cip_devices :: "(int \<times> string) list" where
  "cip_devices = [(12, ''Communications Adapter''), (14, ''Programmable Logic Controller''), (24, ''Human-Machine Interface''),
     (43, ''Generic Device'')]"

definition bacnet_vendors :: "(int \<times> string) list" where
  "bacnet_vendors = [(2, ''Trane''), (5, ''Johnson Controls''), (7, ''Siemens''), (8, ''Delta Controls''), (10, ''Schneider Electric''),
     (17, ''Honeywell''), (18, ''Alerton / Honeywell''), (24, ''Automated Logic''), (36, ''Tridium''), (42, ''Acuity Brands''),
     (61, ''Multistack'')]"

definition profinet_vendors :: "(int \<times> string) list" where
  "profinet_vendors = [(42, ''Siemens''), (160, ''Wago''), (281, ''Phoenix Contact''), (286, ''Turck''), (308, ''Beckhoff'')]"

definition switch_hints :: "string list" where
  "switch_hints = [''switch'', ''scalance'', ''x208'', ''x200'', ''swln'']"

definition omron_signatures :: "string list" where
  "omron_signatures = [''sysmac'', ''cp1'', ''cp1l'', ''cp1h'', ''cj'', ''cs1'', ''nj'', ''nx'', ''omron'']"

definition ied_hints :: "string list" where
  "ied_hints = [''ied_'', ''relay'', ''pdis'', ''protection'', ''distance'', ''line diff'', ''trip'']"

definition bay_hints :: "string list" where
  "bay_hints = [''ctrl'', ''bay'', ''control'']"

definition historian_signatures :: "string list" where
  "historian_signatures = [''historian'', ''factorytalk historian'', ''aveva historian'', ''wonderware historian'', ''proficy historian'', ''pi server'',
     ''pi-system'']"

definition hmi_signatures :: "string list" where
  "hmi_signatures = [''wincc'', ''factorytalk view'', ''panelview'', ''intouch'', ''wonderware intouch'', ''aveva intouch'', ''ifix'', ''citect'',
     ''zenon'']"

definition engineering_signatures :: "string list" where
  "engineering_signatures = [''studio 5000'', ''rslogix'', ''step 7'', ''tia portal'', ''logix designer'', ''ccw'', ''connected components workbench'']"

definition display_names :: "(string \<times> string) list" where
  "display_names = [(''arp'', ''ARP''), (''cdp'', ''CDP''), (''dhcp'', ''DHCP''), (''dns'', ''DNS''), (''dnp3'', ''DNP3''),
     (''ethernet_ip'', ''EtherNet/IP''), (''http'', ''HTTP''), (''lldp'', ''LLDP''), (''modbus'', ''Modbus TCP''),
     (''opc_ua'', ''OPC-UA''), (''profinet'', ''PROFINET''), (''s7comm'', ''S7comm''), (''snmp'', ''SNMP''), (''stp'', ''STP''),
     (''tls'', ''TLS'')]"

definition service_ports_of :: "(string \<times> int list) list" where
  "service_ports_of = [(''dhcp'', [67, 68]), (''dns'', [53, 5353]), (''dnp3'', [20000]), (''ethernet_ip'', [44818]), (''http'', [80, 8080]),
     (''modbus'', [502]), (''opc_ua'', [4840]), (''profinet'', [34964]), (''s7comm'', [102]), (''snmp'', [161, 162])]"

definition s7_program_operations :: "string list" where
  "s7_program_operations = [''download_block'', ''download_ended'', ''end_upload'', ''plc_stop'', ''request_download'', ''start_upload'', ''upload'']"

definition external_hints :: "(string \<times> string \<times> string) list" where
  "external_hints = [(''141.81.'', ''Rockwell Automation'', ''Cloud/Update Service''),
     (''141.82.'', ''Rockwell Automation'', ''Cloud/Update Service''),
     (''192.40.56.'', ''Rockwell Automation'', ''FactoryTalk Cloud''),
     (''52.186.'', ''Rockwell Automation'', ''Azure FactoryTalk''), (''23.196.'', ''Akamai CDN'', ''CDN''),
     (''23.197.'', ''Akamai CDN'', ''CDN''), (''104.16.'', ''Cloudflare'', ''CDN''), (''172.217.'', ''Google'', ''Cloud Service''),
     (''142.250.'', ''Google'', ''Cloud Service''), (''13.107.'', ''Microsoft'', ''Azure/O365''),
     (''20.190.'', ''Microsoft'', ''Azure AD''), (''40.126.'', ''Microsoft'', ''Azure AD'')]"

definition benign_periodic_ports :: "int list" where
  "benign_periodic_ports = [53, 5353, 123]"

definition ephemeral_port_min :: int where
  "ephemeral_port_min = 49152"

definition ot_names :: "string list" where
  "ot_names = map snd tshark_protocols @ map snd ot_ports"

definition is_ot_port :: "int \<Rightarrow> bool" where
  "is_ot_port p \<longleftrightarrow> p \<in> set (map fst ot_ports)"

definition is_known_port :: "int \<Rightarrow> bool" where
  "is_known_port p \<longleftrightarrow> p \<in> set (map fst well_known)"

text \<open>The name and the category of a service port, \<open>proto_name\<close> and \<open>category\<close> of the port tables.\<close>

definition port_category :: "int \<Rightarrow> string" where
  "port_category p =
     (if is_ot_port p then ''OT''
      else (case dict_get well_known p of
          Some (_, cat) \<Rightarrow> cat
        | None \<Rightarrow> if p \<ge> ephemeral_port_min then ''Ephemeral'' else ''Unknown''))"

section \<open>Texts\<close>

definition contains :: "string \<Rightarrow> string \<Rightarrow> bool" where
  "contains word s \<longleftrightarrow> sublist word s"

definition any_in :: "string list \<Rightarrow> string \<Rightarrow> bool" where
  "any_in ws s \<longleftrightarrow> list_ex (\<lambda>w. contains w s) ws"

text \<open>\<open>str.isdigit\<close>, which also accepts the three superscript digits of Latin-1.\<close>

definition text_isdigit :: "string \<Rightarrow> bool" where
  "text_isdigit s \<longleftrightarrow> s \<noteq> [] \<and> list_all (\<lambda>c. py_isdigit c \<or> ord_of c \<in> {178, 179, 185}) s"

section \<open>Conversations\<close>

type_synonym obj = "(string, pyval) dict"

record conversation =
  cv_src_ip :: string
  cv_dst_ip :: string
  cv_src_mac :: string
  cv_dst_mac :: string
  cv_protocol :: string
  cv_port :: int
  cv_packets :: int
  cv_bytes :: int
  cv_first :: string
  cv_last :: string
  cv_modbus_functions :: "pyval list"
  cv_modbus_writes :: int
  cv_cip_identity :: obj
  cv_pn_identity :: obj
  cv_s7_functions :: "string list"
  cv_s7_access :: bool
  cv_dnp3_objects :: "string list"
  cv_opc_sessions :: "pyval list"
  cv_opc_no_security :: bool
  cv_bacnet_identity :: obj
  cv_omron_identity :: obj
  cv_mms_identity :: obj
  cv_goose_identity :: obj
  cv_src_port :: int
  cv_transport :: string
  cv_src_ports :: "int list"
  cv_beacon_score :: rat
  cv_beacon_interval :: rat
  cv_beacon_jitter :: rat
  cv_dns_queries :: "string list"
  cv_dns_entropy :: rat
  cv_dns_ratio :: rat
  cv_operations :: "string list"
  cv_attributes :: obj
  cv_object_refs :: "string list"
  cv_src_asset :: obj
  cv_dst_asset :: obj
  cv_l2 :: obj
  cv_dhcp_name :: string
  cv_dhcp_class :: string
  cv_nbns_name :: string
  cv_user_agent :: string
  cv_notes :: string

text \<open>The defaults of the class; what has no default is empty here.\<close>

definition blank_conversation :: conversation where
  "blank_conversation = \<lparr>cv_src_ip = [], cv_dst_ip = [], cv_src_mac = [], cv_dst_mac = [], cv_protocol = [], cv_port = 0, cv_packets = 0,
     cv_bytes = 0, cv_first = [], cv_last = [], cv_modbus_functions = [], cv_modbus_writes = 0, cv_cip_identity = [],
     cv_pn_identity = [], cv_s7_functions = [], cv_s7_access = False, cv_dnp3_objects = [], cv_opc_sessions = [],
     cv_opc_no_security = False, cv_bacnet_identity = [], cv_omron_identity = [], cv_mms_identity = [], cv_goose_identity = [],
     cv_src_port = 0, cv_transport = [], cv_src_ports = [], cv_beacon_score = 0, cv_beacon_interval = 0, cv_beacon_jitter = 0,
     cv_dns_queries = [], cv_dns_entropy = 0, cv_dns_ratio = 0, cv_operations = [], cv_attributes = [], cv_object_refs = [],
     cv_src_asset = [], cv_dst_asset = [], cv_l2 = [], cv_dhcp_name = [], cv_dhcp_class = [], cv_nbns_name = [], cv_user_agent = [],
     cv_notes = []\<rparr>"

definition src_key :: "conversation \<Rightarrow> string" where
  "src_key c = (if cv_src_ip c \<noteq> [] then cv_src_ip c else cv_src_mac c)"

definition dst_key :: "conversation \<Rightarrow> string" where
  "dst_key c = (if cv_dst_ip c \<noteq> [] then cv_dst_ip c else cv_dst_mac c)"

section \<open>The topology\<close>

record service_port =
  sp_port :: int
  sp_transport :: string
  sp_protocol :: string
  sp_category :: string
  sp_connections :: int
  sp_peers :: "string list"

text \<open>
  A node; \<open>tn_rogue\<close> stands for the keys \<open>uncatalogged\<close> and \<open>is_rogue\<close> that a topology read from
  a file may have and that no stage sets.
\<close>

record tnode =
  tn_ip :: string
  tn_mac :: string
  tn_vendor :: string
  tn_product :: string
  tn_type :: string
  tn_level :: int
  tn_protocols :: "string list"
  tn_role :: string
  tn_asset :: string
  tn_auth :: bool
  tn_initiates :: bool
  tn_responds :: bool
  tn_priority :: int
  tn_modules :: "string list"
  tn_name :: string
  tn_desc :: string
  tn_mgmt :: string
  tn_caps :: "pyval list"
  tn_ports :: "pyval list"
  tn_vlans :: "pyval list"
  tn_services :: "service_port list"
  tn_rogue :: bool

definition unknown_text :: string where "unknown_text = ''Unknown''"

definition new_node :: "string \<Rightarrow> string \<Rightarrow> tnode" where
  "new_node ip mac = \<lparr>tn_ip = ip, tn_mac = mac, tn_vendor = unknown_text, tn_product = [], tn_type = unknown_text, tn_level = - 1,
     tn_protocols = [], tn_role = unknown_text, tn_asset = ''local'', tn_auth = False, tn_initiates = False, tn_responds = False,
     tn_priority = 0, tn_modules = [], tn_name = [], tn_desc = [], tn_mgmt = [], tn_caps = [], tn_ports = [], tn_vlans = [],
     tn_services = [], tn_rogue = False\<rparr>"

record tedge =
  te_src :: string
  te_dst :: string
  te_protocol :: string
  te_count :: int
  te_bytes :: int
  te_first :: string
  te_last :: string
  te_writes :: bool
  te_program :: bool
  te_port :: int
  te_transport :: string
  te_label :: string
  te_src_ports :: int

type_synonym nodes = "(string, tnode) dict"

end
