(* ===== verification/Topology.thy ===== *)
theory Topology
  imports EngineData
begin

text \<open>
  The topology stage of \<open>marlinspike/engine.py\<close>, the class \<open>TopologyBuilder\<close>: nodes and edges from
  conversations, the merge of nodes that are known by their MAC only, Purdue levels, vendors, roles
  and priorities. The stage's state is the dictionary of nodes, the edges and the two indexes of
  conversations by source and destination. A pass over all nodes changes each node on its own, so
  it is a map over the dictionary. Texts of discovery and identity objects are texts or absent.
\<close>

section \<open>Graph\<close>

definition text_at :: "obj \<Rightarrow> string \<Rightarrow> string" where
  "text_at d k = str_of (obj_get d k)"

text \<open>\<open>d.get(k, [])\<close> for a list.\<close>

definition list_at :: "obj \<Rightarrow> string \<Rightarrow> pyval list" where
  "list_at d k = (case obj_get d k of PList xs \<Rightarrow> xs | _ \<Rightarrow> [])"

definition append_new :: "'a \<Rightarrow> 'a list \<Rightarrow> 'a list" where
  "append_new x xs = (if x \<in> set xs then xs else xs @ [x])"

definition or_else :: "string \<Rightarrow> string \<Rightarrow> string" where
  "or_else s t = (if s \<noteq> [] then s else t)"

text \<open>A label such as \<open>TCP/49161\<close> is shown by its transport.\<close>

definition proto_display :: "string \<Rightarrow> string" where
  "proto_display p = (if CHR ''/'' \<in> set p \<and> text_isdigit (last (py_split (CHR ''/'') p)) then hd (py_split (CHR ''/'') p) else p)"

definition see_source :: "conversation \<Rightarrow> tnode \<Rightarrow> tnode" where
  "see_source c n = n\<lparr>tn_initiates := True, tn_mac := or_else (tn_mac n) (cv_src_mac c),
     tn_protocols := append_new (proto_display (cv_protocol c)) (tn_protocols n)\<rparr>"

definition see_destination :: "conversation \<Rightarrow> tnode \<Rightarrow> tnode" where
  "see_destination c n = n\<lparr>tn_responds := True, tn_mac := or_else (tn_mac n) (cv_dst_mac c),
     tn_protocols := append_new (proto_display (cv_protocol c)) (tn_protocols n)\<rparr>"

text \<open>What host and neighbour discovery tell about the sender.\<close>

definition see_host :: "conversation \<Rightarrow> tnode \<Rightarrow> tnode" where
  "see_host c n = n\<lparr>tn_name := or_else (or_else (tn_name n) (cv_dhcp_name c)) (cv_nbns_name c),
     tn_desc := or_else (tn_desc n) (cv_dhcp_class c)\<rparr>"

definition see_neighbour :: "(rat \<Rightarrow> string) \<Rightarrow> obj \<Rightarrow> tnode \<Rightarrow> tnode" where
  "see_neighbour fr ld n =
     (let source = obj_get ld ''source'' in
      if source \<in> {PStr ''lldp'', PStr ''cdp''}
      then n\<lparr>tn_name := or_else (tn_name n) (text_at ld ''system_name''), tn_desc := or_else (tn_desc n) (text_at ld ''system_desc''),
             tn_mgmt := or_else (tn_mgmt n) (text_at ld ''mgmt_ip''), tn_caps := fold append_new (list_at ld ''capabilities'') (tn_caps n),
             tn_ports := fold append_new (list_at ld ''ports'') (tn_ports n), tn_vlans := fold append_new (list_at ld ''vlans'') (tn_vlans n)\<rparr>
      else if source = PStr ''stp''
      then (if truthy (obj_get ld ''stp_bridge'')
            then n\<lparr>tn_desc := or_else (tn_desc n) (''STP Bridge (cost '' @ py_str fr (obj_get_or ld ''stp_root_cost'' (PStr ''?'')) @ '')''),
                   tn_caps := append_new (PStr ''Bridge'') (tn_caps n)\<rparr>
            else n)
      else if source = PStr ''lacp''
      then (let actor = (case obj_get ld ''lacp_actor'' of PDict d \<Rightarrow> d | _ \<Rightarrow> []) in
            if truthy (obj_get actor ''key'')
            then n\<lparr>tn_ports := append_new (PDict [(''id'', PStr (''LAG key='' @ py_str fr (obj_get actor ''key''))),
                     (''desc'', PStr (''port '' @ py_str fr (obj_get_or actor ''port'' (PStr ''?''))))]) (tn_ports n)\<rparr>
            else n)
      else n)"

definition touch_node :: "string \<Rightarrow> tnode \<Rightarrow> (tnode \<Rightarrow> tnode) \<Rightarrow> nodes \<Rightarrow> nodes" where
  "touch_node k fresh f ns = dict_set k (f (case dict_get ns k of None \<Rightarrow> fresh | Some n \<Rightarrow> n)) ns"

definition see_nodes :: "(rat \<Rightarrow> string) \<Rightarrow> conversation \<Rightarrow> nodes \<Rightarrow> nodes" where
  "see_nodes fr c ns =
     (let ns1 = touch_node (src_key c) (new_node (cv_src_ip c) (cv_src_mac c)) (see_source c) ns;
          ns2 = touch_node (dst_key c) (new_node (cv_dst_ip c) (cv_dst_mac c)) (see_destination c) ns1
      in touch_node (src_key c) (new_node (cv_src_ip c) (cv_src_mac c)) (\<lambda>n. see_neighbour fr (cv_l2 c) (see_host c n)) ns2)"

text \<open>The connections and peers of each service port of each destination.\<close>

type_synonym port_map = "(int \<times> string, int \<times> string list) dict"

definition count_port :: "conversation \<Rightarrow> port_map \<Rightarrow> port_map" where
  "count_port c m = (let k = (cv_port c, cv_transport c); (cs, peers) = (case dict_get m k of None \<Rightarrow> (0, []) | Some v \<Rightarrow> v)
     in dict_set k (cs + 1, if src_key c \<noteq> [] then append_new (src_key c) peers else peers) m)"

definition see_ports :: "conversation \<Rightarrow> (string, port_map) dict \<Rightarrow> (string, port_map) dict" where
  "see_ports c pm = (if cv_port c > 0
     then dict_set (dst_key c) (count_port c (case dict_get pm (dst_key c) of None \<Rightarrow> [] | Some m \<Rightarrow> m)) pm else pm)"

definition port_label :: "conversation \<Rightarrow> string" where
  "port_label c = (if cv_port c > 0
     then (let base = show_int (cv_port c) @ ''/'' @ or_else (cv_transport c) ''tcp'' in
       (case dict_get ot_ports (cv_port c) of
          Some name \<Rightarrow> base @ '' ('' @ name @ '')''
        | None \<Rightarrow> (case dict_get well_known (cv_port c) of Some (name, _) \<Rightarrow> base @ '' ('' @ name @ '')'' | None \<Rightarrow> base)))
     else [])"

type_synonym edge_key = "string \<times> string \<times> string \<times> int \<times> string"

definition edge_key :: "conversation \<Rightarrow> edge_key" where
  "edge_key c = (src_key c, dst_key c, cv_protocol c, cv_port c, cv_transport c)"

definition new_edge :: "conversation \<Rightarrow> tedge" where
  "new_edge c = \<lparr>te_src = src_key c, te_dst = dst_key c, te_protocol = cv_protocol c, te_count = 1, te_bytes = cv_bytes c,
     te_first = cv_first c, te_last = cv_last c, te_writes = (cv_modbus_writes c > 0), te_program = cv_s7_access c,
     te_port = cv_port c, te_transport = cv_transport c, te_label = port_label c, te_src_ports = int (length (cv_src_ports c))\<rparr>"

text \<open>The earlier (later) of two time stamps, where an empty one is not known.\<close>

definition join_times :: "(string \<Rightarrow> string \<Rightarrow> string) \<Rightarrow> string \<Rightarrow> string \<Rightarrow> string" where
  "join_times pick s t = (if s \<noteq> [] \<and> t \<noteq> [] then pick s t else or_else s t)"

definition merge_edge :: "conversation \<Rightarrow> tedge \<Rightarrow> tedge" where
  "merge_edge c e = e\<lparr>te_count := te_count e + 1, te_bytes := te_bytes e + cv_bytes c,
     te_first := join_times min (te_first e) (cv_first c), te_last := join_times max (te_last e) (cv_last c),
     te_writes := te_writes e \<or> cv_modbus_writes c > 0, te_program := te_program e \<or> cv_s7_access c,
     te_src_ports := te_src_ports e + int (length (cv_src_ports c))\<rparr>"

definition see_edge :: "bool \<Rightarrow> conversation \<Rightarrow> (edge_key, tedge) dict \<Rightarrow> (edge_key, tedge) dict" where
  "see_edge skip_ephemeral c es = (if skip_ephemeral \<and> cv_port c \<ge> ephemeral_port_min then es
     else dict_set (edge_key c) (case dict_get es (edge_key c) of None \<Rightarrow> new_edge c | Some e \<Rightarrow> merge_edge c e) es)"

definition port_name :: "int \<Rightarrow> string \<Rightarrow> string" where
  "port_name port transport = (case dict_get ot_ports port of
       Some name \<Rightarrow> name
     | None \<Rightarrow> (case dict_get well_known port of
           Some (name, _) \<Rightarrow> name
         | None \<Rightarrow> if transport \<noteq> [] then py_upper transport @ ''/'' @ show_int port else show_int port))"

definition services_of :: "port_map \<Rightarrow> service_port list" where
  "services_of m = map (\<lambda>((port, transport), (cs, peers)). \<lparr>sp_port = port, sp_transport = or_else transport ''tcp'',
       sp_protocol = port_name port transport, sp_category = port_category port, sp_connections = cs, sp_peers = take 20 peers\<rparr>)
     (filter (\<lambda>((port, _), (cs, _)). \<not> (port \<ge> ephemeral_port_min \<and> cs \<le> 1)) (sort_key fst m))"

definition add_services :: "(string, port_map) dict \<Rightarrow> nodes \<Rightarrow> nodes" where
  "add_services pm ns = map (\<lambda>(k, n). (k, case dict_get pm k of None \<Rightarrow> n | Some m \<Rightarrow> n\<lparr>tn_services := tn_services n @ services_of m\<rparr>)) ns"

definition build_graph :: "(rat \<Rightarrow> string) \<Rightarrow> bool \<Rightarrow> conversation list \<Rightarrow> nodes \<times> tedge list" where
  "build_graph fr skip_ephemeral convs =
     (add_services (fold see_ports convs []) (fold (see_nodes fr) convs []), map snd (fold (see_edge skip_ephemeral) convs []))"

section \<open>Merging\<close>

text \<open>The state of the builder after the graph: nodes, edges, conversations by source and by destination.\<close>

record topo =
  tp_nodes :: nodes
  tp_edges :: "tedge list"
  tp_by_src :: "(string, conversation list) dict"
  tp_by_dst :: "(string, conversation list) dict"

definition indexed :: "(string, conversation list) dict \<Rightarrow> string \<Rightarrow> conversation list" where
  "indexed d k = (case dict_get d k of None \<Rightarrow> [] | Some cs \<Rightarrow> cs)"

definition index_by :: "(conversation \<Rightarrow> string) \<Rightarrow> conversation list \<Rightarrow> (string, conversation list) dict" where
  "index_by key convs = fold (\<lambda>c d. dict_set (key c) (indexed d (key c) @ [c]) d) convs []"

definition note_mac :: "string \<Rightarrow> string \<Rightarrow> (string, string) dict \<Rightarrow> (string, string) dict" where
  "note_mac mac ip m = (if mac \<noteq> [] \<and> ip \<noteq> [] then dict_set (py_lower mac) ip m else m)"

definition mac_to_ip :: "conversation list \<Rightarrow> (string, string) dict" where
  "mac_to_ip convs = fold (\<lambda>c m. note_mac (cv_dst_mac c) (cv_dst_ip c) (note_mac (cv_src_mac c) (cv_src_ip c) m)) convs []"

definition absorb_node :: "tnode \<Rightarrow> tnode \<Rightarrow> tnode" where
  "absorb_node m n = n\<lparr>tn_caps := fold append_new (tn_caps m) (tn_caps n), tn_name := or_else (tn_name n) (tn_name m),
     tn_desc := or_else (tn_desc n) (tn_desc m), tn_mgmt := or_else (tn_mgmt n) (tn_mgmt m),
     tn_ports := fold append_new (tn_ports m) (tn_ports n), tn_vlans := fold append_new (tn_vlans m) (tn_vlans n),
     tn_protocols := fold append_new (tn_protocols m) (tn_protocols n), tn_initiates := tn_initiates n \<or> tn_initiates m,
     tn_responds := tn_responds n \<or> tn_responds m, tn_mac := or_else (tn_mac n) (tn_mac m)\<rparr>"

definition rekey_edge :: "string \<Rightarrow> string \<Rightarrow> tedge \<Rightarrow> tedge" where
  "rekey_edge old new e = e\<lparr>te_src := if te_src e = old then new else te_src e, te_dst := if te_dst e = old then new else te_dst e\<rparr>"

text \<open>\<open>index[new].extend(index.pop(old))\<close>; if both keys are one, the entry is gone.\<close>

definition rekey_index :: "string \<Rightarrow> string \<Rightarrow> (string, conversation list) dict \<Rightarrow> (string, conversation list) dict" where
  "rekey_index old new d = (case dict_get d old of None \<Rightarrow> d | Some cs \<Rightarrow> dict_pop old (dict_set new (indexed d new @ cs) d))"

definition merge_target :: "(string, string) dict \<Rightarrow> string \<Rightarrow> tnode \<Rightarrow> string" where
  "merge_target m2i k n = or_else (tn_mgmt n) (case dict_get m2i (py_lower k) of None \<Rightarrow> [] | Some ip \<Rightarrow> ip)"

definition merge_node :: "(string, string) dict \<Rightarrow> string \<Rightarrow> topo \<Rightarrow> topo" where
  "merge_node m2i k t = (case dict_get (tp_nodes t) k of
       None \<Rightarrow> t
     | Some m \<Rightarrow> (let ip = merge_target m2i k m in
         if ip = [] then t
         else (case dict_get (tp_nodes t) ip of
             None \<Rightarrow> t
           | Some n \<Rightarrow> \<lparr>tp_nodes = dict_pop k (dict_set ip (absorb_node m n) (tp_nodes t)), tp_edges = map (rekey_edge k ip) (tp_edges t),
               tp_by_src = rekey_index k ip (tp_by_src t), tp_by_dst = rekey_index k ip (tp_by_dst t)\<rparr>)))"

definition backfill_mac :: "string \<times> string \<Rightarrow> nodes \<Rightarrow> nodes" where
  "backfill_mac mi ns = (case mi of (mac, ip) \<Rightarrow> (case dict_get ns ip of
       None \<Rightarrow> ns
     | Some n \<Rightarrow> if tn_mac n = [] then dict_set ip (n\<lparr>tn_mac := mac\<rparr>) ns else ns))"

definition mac_keys :: "nodes \<Rightarrow> string list" where
  "mac_keys ns = filter (\<lambda>k. CHR '':'' \<in> set k) (map fst ns)"

definition merge_l2_nodes :: "conversation list \<Rightarrow> topo \<Rightarrow> topo" where
  "merge_l2_nodes convs t = (let m2i = mac_to_ip convs; t1 = fold (merge_node m2i) (mac_keys (tp_nodes t)) t
     in t1\<lparr>tp_nodes := fold backfill_mac m2i (tp_nodes t1)\<rparr>)"

section \<open>Purdue levels\<close>

definition topo_public :: "string \<Rightarrow> bool" where
  "topo_public s \<longleftrightarrow> (case ip_address s of None \<Rightarrow> False | Some a \<Rightarrow> \<not> is_multicast a \<and> is_global a)"

definition is_broadcast :: "string \<Rightarrow> bool" where
  "is_broadcast s \<longleftrightarrow> (case ip_address s of
       None \<Rightarrow> False
     | Some (V4 n) \<Rightarrow> is_multicast (V4 n) \<or> n = 2 ^ 32 - 1 \<or> ends_255 (V4 n)
     | Some a \<Rightarrow> is_multicast a)"

definition identify_external :: "string \<Rightarrow> string" where
  "identify_external ip = (case find (\<lambda>(p, _). py_startswith ip p) external_hints of
       Some (_, vendor, svc) \<Rightarrow> vendor @ '' ('' @ svc @ '')''
     | None \<Rightarrow> ''External Endpoint'')"

definition ip_in_subnet :: "string \<Rightarrow> string \<Rightarrow> bool" where
  "ip_in_subnet ip subnet \<longleftrightarrow> (case (ip_network subnet, ip_address ip) of (Some nw, Some a) \<Rightarrow> in_network a nw | _ \<Rightarrow> False)"

definition subnet_prefixlen :: "string \<Rightarrow> int" where
  "subnet_prefixlen s = (case ip_network s of None \<Rightarrow> - 1 | Some nw \<Rightarrow> int (prefixlen nw))"

text \<open>\<open>sorted(..., reverse=True)\<close> keeps the order of equal keys.\<close>

definition ordered_subnets :: "(string \<times> int) list \<Rightarrow> (string \<times> int) list" where
  "ordered_subnets sm = sort_key (\<lambda>(s, _). - subnet_prefixlen s) sm"

definition mapped_level :: "(string \<times> int) list \<Rightarrow> string \<Rightarrow> int option" where
  "mapped_level sm ip = map_option snd (find (\<lambda>(s, _). ip_in_subnet ip s) (ordered_subnets sm))"

definition level_by_subnet :: "(string \<times> int) list \<Rightarrow> string \<Rightarrow> tnode \<Rightarrow> tnode" where
  "level_by_subnet sm ip n = (case mapped_level sm ip of None \<Rightarrow> n | Some l \<Rightarrow> n\<lparr>tn_level := l\<rparr>)"

definition level_broadcast :: "string \<Rightarrow> tnode \<Rightarrow> tnode" where
  "level_broadcast ip n = (if is_broadcast ip
     then n\<lparr>tn_level := - 1, tn_role := ''Broadcast/Multicast'', tn_type := ''Network Address'', tn_asset := ''network'', tn_priority := 0\<rparr>
     else n)"

definition level_public :: "string \<Rightarrow> tnode \<Rightarrow> tnode" where
  "level_public ip n = (if tn_level n = - 1 \<and> topo_public ip
     then n\<lparr>tn_level := 5, tn_role := ''External Host'', tn_asset := ''external'', tn_type := identify_external ip\<rparr>
     else n)"

definition speaks_ot :: "tnode \<Rightarrow> bool" where
  "speaks_ot n \<longleftrightarrow> list_ex (\<lambda>p. p \<in> set ot_names) (tn_protocols n)"

definition level_ot :: "tnode \<Rightarrow> tnode" where
  "level_ot n = (if tn_level n = - 1 \<and> speaks_ot n
     then n\<lparr>tn_level := if tn_responds n \<and> \<not> tn_initiates n then 1 else if tn_initiates n then 2 else - 1\<rparr>
     else n)"

definition talks_to :: "string list \<Rightarrow> topo \<Rightarrow> string \<Rightarrow> bool" where
  "talks_to ots t ip \<longleftrightarrow> list_ex (\<lambda>c. dst_key c \<in> set ots) (indexed (tp_by_src t) ip) \<or> list_ex (\<lambda>c. src_key c \<in> set ots) (indexed (tp_by_dst t) ip)"

definition level_it :: "bool \<Rightarrow> tnode \<Rightarrow> tnode" where
  "level_it near n = (if tn_level n = - 1
     then n\<lparr>tn_level := if tn_responds n \<and> \<not> tn_initiates n then (if near then 2 else 4)
       else if tn_initiates n then (if near then 3 else 4) else - 1\<rparr>
     else n)"

definition each_node :: "(string \<Rightarrow> tnode \<Rightarrow> tnode) \<Rightarrow> topo \<Rightarrow> topo" where
  "each_node f t = t\<lparr>tp_nodes := map (\<lambda>(k, n). (k, f k n)) (tp_nodes t)\<rparr>"

definition ot_keys :: "topo \<Rightarrow> string list" where
  "ot_keys t = map fst (filter (\<lambda>(_, n). tn_level n \<in> {0, 1, 2}) (tp_nodes t))"

definition infer_purdue_levels :: "(string \<times> int) list \<Rightarrow> topo \<Rightarrow> topo" where
  "infer_purdue_levels sm t =
     (let t1 = each_node (\<lambda>ip n. level_ot (level_public ip (level_broadcast ip (level_by_subnet sm ip n)))) t; ots = ot_keys t1
      in each_node (\<lambda>ip. level_it (talks_to ots t1 ip)) t1)"

end
