(* ===== verification/Fingerprint.thy ===== *)
theory Fingerprint
  imports Topology
begin

text \<open>
  The vendor pass of \<open>TopologyBuilder\<close> (\<open>_fingerprint_vendors\<close>) and the table of MAC addresses: the
  OUI database, identities of CIP, BACnet, FINS, PROFINET and IEC 61850, host and system names.
  Identity fields that the code converts with \<open>int\<close> may hold any value; the others are texts.
\<close>

section \<open>The OUI database\<close>

type_synonym oui_db = "(string, string \<times> string list) dict"

definition normalize_vendor_name :: "string \<Rightarrow> string" where
  "normalize_vendor_name v = (if v = [] \<or> v = unknown_text then unknown_text
     else (case dict_get vendor_names (py_lower (py_strip v)) of Some name \<Rightarrow> name | None \<Rightarrow> py_strip v))"

text \<open>\<open>ieee\<close> is the content of the first database file that exists; \<open>override\<close> is the caller's.\<close>

definition load_oui_db :: "(string, string) dict \<Rightarrow> oui_db \<Rightarrow> oui_db" where
  "load_oui_db ieee override =
     (let base = fold (\<lambda>(oui, v). dict_set oui (normalize_vendor_name v, [])) ieee []
      in fold (\<lambda>(k, v). dict_set k v) override (fold (\<lambda>(k, v). dict_set k v) ics_ouis base))"

definition clean_mac :: "string \<Rightarrow> string" where
  "clean_mac s = py_lower (filter (\<lambda>c. c \<notin> {CHR '':'', CHR ''-'', CHR ''.''}) s)"

definition oui_of :: "string \<Rightarrow> string option" where
  "oui_of mac = (let c = clean_mac mac in
     if length c \<ge> 6 then Some (take 2 c @ '':'' @ take 2 (drop 2 c) @ '':'' @ take 2 (drop 4 c)) else None)"

definition oui_vendor :: "oui_db \<Rightarrow> string \<Rightarrow> (string \<times> string list) option" where
  "oui_vendor db mac = (case oui_of mac of None \<Rightarrow> None | Some oui \<Rightarrow> dict_get db oui)"

section \<open>Numbers with a base prefix\<close>

definition digit_in :: "int \<Rightarrow> char \<Rightarrow> int option" where
  "digit_in b c = (case hex_val c of Some d \<Rightarrow> if d < b then Some d else None | None \<Rightarrow> None)"

fun based_digits :: "int \<Rightarrow> bool \<Rightarrow> int \<Rightarrow> string \<Rightarrow> int option" where
  "based_digits b after_digit n [] = (if after_digit then Some n else None)"
| "based_digits b after_digit n (c # s) = (case digit_in b c of
       Some d \<Rightarrow> based_digits b True (b * n + d) s
     | None \<Rightarrow> if c = CHR ''_'' \<and> after_digit then based_digits b False n s else None)"

definition drop_underscore :: "string \<Rightarrow> string" where
  "drop_underscore s = (case s of c # t \<Rightarrow> if c = CHR ''_'' then t else s | [] \<Rightarrow> s)"

definition unsigned0 :: "string \<Rightarrow> int option" where
  "unsigned0 s = (let p = py_lower (take 2 s); rest = drop_underscore (drop 2 s) in
     if p = ''0x'' then based_digits 16 False 0 rest
     else if p = ''0o'' then based_digits 8 False 0 rest
     else if p = ''0b'' then based_digits 2 False 0 rest
     else (case based_digits 10 False 0 s of
         Some n \<Rightarrow> if hd s = CHR ''0'' \<and> n \<noteq> 0 then None else Some n
       | None \<Rightarrow> None))"

text \<open>\<open>int(s, 0)\<close>; \<open>None\<close> is the \<open>ValueError\<close>.\<close>

definition py_int0 :: "string \<Rightarrow> int option" where
  "py_int0 s = (case py_strip s of
       [] \<Rightarrow> None
     | c # t \<Rightarrow> if c = CHR ''-'' then map_option uminus (unsigned0 t) else if c = CHR ''+'' then unsigned0 t else unsigned0 (c # t))"

definition cip_number :: "pyval \<Rightarrow> int option" where
  "cip_number v = (case v of PStr s \<Rightarrow> if py_startswith s ''0x'' then py_int0 s else py_int_str s | _ \<Rightarrow> py_int v)"

definition bacnet_number :: "pyval \<Rightarrow> int option" where
  "bacnet_number v = (case v of PStr s \<Rightarrow> py_int0 s | _ \<Rightarrow> None)"

definition profinet_number :: "string \<Rightarrow> int" where
  "profinet_number s = (case (if py_startswith s ''0x'' then py_int0 s else if text_isdigit s then py_int_str s else Some 0) of
       None \<Rightarrow> 0
     | Some n \<Rightarrow> n)"

fun hex_upper :: "nat \<Rightarrow> string" where
  "hex_upper n = (let d = (if n mod 16 < 10 then char_of (48 + n mod 16) else char_of (55 + n mod 16)) in
     if n < 16 then [d] else hex_upper (n div 16) @ [d])"

declare hex_upper.simps [simp del]

text \<open>\<open>f"{n:04X}"\<close> of a number that is not negative.\<close>

definition hex4 :: "int \<Rightarrow> string" where
  "hex4 n = (let h = hex_upper (nat n) in replicate (4 - length h) (CHR ''0'') @ h)"

section \<open>One source at a time\<close>

definition type_if_unknown :: "string \<Rightarrow> tnode \<Rightarrow> tnode" where
  "type_if_unknown t n = n\<lparr>tn_type := if tn_type n = unknown_text then t else tn_type n\<rparr>"

definition vendor_by_oui :: "oui_db \<Rightarrow> tnode \<Rightarrow> tnode" where
  "vendor_by_oui db n = (if tn_mac n \<noteq> [] \<and> tn_level n \<noteq> 5 \<and> tn_asset n \<noteq> ''external''
     then (case oui_vendor db (tn_mac n) of
         None \<Rightarrow> n
       | Some (vendor, lines) \<Rightarrow> n\<lparr>tn_vendor := vendor, tn_product := py_join '', '' lines\<rparr>)
     else n)"

definition looked_up :: "(int \<times> string) list \<Rightarrow> int option \<Rightarrow> string option" where
  "looked_up table i = (case i of None \<Rightarrow> None | Some k \<Rightarrow> dict_get table k)"

definition by_cip :: "conversation \<Rightarrow> tnode \<Rightarrow> tnode" where
  "by_cip c n = (let ident = cv_cip_identity c; product = text_at ident ''product_name'';
       vendor_id = obj_get ident ''vendor_id''; device_type = obj_get ident ''device_type'';
       n1 = (if product \<noteq> [] then n\<lparr>tn_product := product\<rparr> else n);
       n2 = (case looked_up cip_vendors (cip_number vendor_id) of
           Some v \<Rightarrow> if truthy vendor_id then n1\<lparr>tn_vendor := v\<rparr> else n1 | None \<Rightarrow> n1)
     in if ident = [] then n
        else (case looked_up cip_devices (cip_number device_type) of
            Some d \<Rightarrow> if truthy device_type then type_if_unknown d n2 else n2 | None \<Rightarrow> n2))"

text \<open>The walk over the BACnet identities ends once the node has a product.\<close>

definition bacnet_vendor :: "obj \<Rightarrow> tnode \<Rightarrow> tnode" where
  "bacnet_vendor ident n = (if tn_vendor n \<noteq> unknown_text then n
     else (case find (\<lambda>v. looked_up bacnet_vendors (bacnet_number v) \<noteq> None) (list_at ident ''vendor_ids'') of
         None \<Rightarrow> n
       | Some v \<Rightarrow> n\<lparr>tn_vendor := the (looked_up bacnet_vendors (bacnet_number v))\<rparr>))"

fun by_bacnet :: "conversation list \<Rightarrow> tnode \<Rightarrow> tnode" where
  "by_bacnet [] n = n"
| "by_bacnet (c # cs) n =
     (if cv_bacnet_identity c = [] then by_bacnet cs n
      else (let n1 = bacnet_vendor (cv_bacnet_identity c) n in
        if tn_product n1 \<noteq> [] then n1
        else by_bacnet cs (case list_at (cv_bacnet_identity c) ''object_names'' of
            [] \<Rightarrow> n1
          | name # _ \<Rightarrow> n1\<lparr>tn_product := str_of name, tn_name := or_else (tn_name n1) (str_of name)\<rparr>)))"

definition service_at :: "int \<Rightarrow> string \<Rightarrow> tnode \<Rightarrow> bool" where
  "service_at port word n \<longleftrightarrow> list_ex (\<lambda>s. sp_port s = port \<or> contains word (py_lower (sp_protocol s))) (tn_services n)"

definition by_omron :: "conversation list \<Rightarrow> tnode \<Rightarrow> tnode" where
  "by_omron cs n = (if \<not> service_at 9600 ''omron'' n then n
     else (case find (\<lambda>c. text_at (cv_omron_identity c) ''model'' \<noteq> []) cs of
         None \<Rightarrow> n
       | Some c \<Rightarrow> (let model = text_at (cv_omron_identity c) ''model''; version = text_at (cv_omron_identity c) ''version'' in
           type_if_unknown ''Programmable Logic Controller''
             (n\<lparr>tn_vendor := ''Omron'', tn_product := if version = [] then model else py_strip (model @ '' '' @ version)\<rparr>))))"

definition profinet_role :: "string \<Rightarrow> string option" where
  "profinet_role r =
     (if r = [] then None
      else if contains ''controller'' (py_lower r) \<or> r = ''2'' then Some ''IO Controller''
      else if contains ''device'' (py_lower r) \<or> r = ''1'' then Some ''IO Device''
      else if contains ''supervisor'' (py_lower r) \<or> r = ''4'' then Some ''IO Supervisor''
      else None)"

definition profinet_vendor :: "string \<Rightarrow> tnode \<Rightarrow> tnode" where
  "profinet_vendor v n = (if v = [] then n
     else (let i = profinet_number v in
       (case dict_get profinet_vendors i of
          Some name \<Rightarrow> n\<lparr>tn_vendor := name\<rparr>
        | None \<Rightarrow> if i \<noteq> 0 \<and> tn_vendor n = unknown_text then n\<lparr>tn_vendor := ''PROFINET Vendor 0x'' @ hex4 i\<rparr> else n)))"

definition apply_profinet :: "obj \<Rightarrow> tnode \<Rightarrow> tnode" where
  "apply_profinet pn n = (let station = text_at pn ''station_name'';
       n1 = profinet_vendor (text_at pn ''vendor_id'') (n\<lparr>tn_name := or_else (tn_name n) station\<rparr>);
       n2 = (case profinet_role (text_at pn ''device_role'') of None \<Rightarrow> n1 | Some t \<Rightarrow> type_if_unknown t n1)
     in if station \<noteq> [] \<and> any_in switch_hints (py_lower station) then type_if_unknown ''Network Switch'' n2 else n2)"

text \<open>The first conversation with a PROFINET identity, the node's own before those it answers.\<close>

definition by_profinet :: "conversation list \<Rightarrow> conversation list \<Rightarrow> tnode \<Rightarrow> tnode" where
  "by_profinet sent received n = (case find (\<lambda>c. cv_pn_identity c \<noteq> []) (sent @ received) of
       None \<Rightarrow> n
     | Some c \<Rightarrow> apply_profinet (cv_pn_identity c) n)"

definition iec61850_names :: "conversation list \<Rightarrow> string list" where
  "iec61850_names cs = sort (remdups (concat (map (\<lambda>c. map str_of (list_at (cv_mms_identity c) ''names''
     @ list_at (cv_goose_identity c) ''gocb_refs'' @ list_at (cv_goose_identity c) ''go_ids'')) cs)))"

definition shortest :: "string list \<Rightarrow> string" where
  "shortest xs = (case sort_key length xs of [] \<Rightarrow> [] | x # _ \<Rightarrow> x)"

definition by_iec61850 :: "conversation list \<Rightarrow> tnode \<Rightarrow> tnode" where
  "by_iec61850 cs n = (let names = iec61850_names cs; name = shortest names; text = py_lower name;
       serves = list_ex (\<lambda>s. sp_port s = 102) (tn_services n) \<or> list_ex (\<lambda>p. contains ''goose'' (py_lower p)) (tn_protocols n);
       n1 = n\<lparr>tn_name := or_else (tn_name n) name, tn_product := or_else (tn_product n) name\<rparr>
     in if names = [] \<or> \<not> serves then n
        else if any_in bay_hints text \<and> tn_type n = unknown_text then n1\<lparr>tn_type := ''Bay Controller''\<rparr>
        else if any_in ied_hints text \<and> tn_type n = unknown_text then n1\<lparr>tn_type := ''Protection IED''\<rparr>
        else n1)"

section \<open>Names\<close>

definition system_vendors :: "(string list \<times> string) list" where
  "system_vendors = [([''cisco''], ''Cisco''), ([''juniper''], ''Juniper''), ([''arista''], ''Arista''), ([''hirschmann''], ''Hirschmann''),
     ([''moxa''], ''Moxa''), ([''siemens'', ''scalance''], ''Siemens''), ([''belden''], ''Belden''), ([''phoenix''], ''Phoenix Contact''),
     ([''westermo''], ''Westermo''), ([''dell'', ''powerconnect''], ''Dell''), ([''asus''], ''ASUS''), ([''lenovo'', ''thinkpad''], ''Lenovo'')]"

definition system_vendor :: "string \<Rightarrow> string option" where
  "system_vendor s =
     (if any_in [''hpe'', ''hewlett packard'', ''procurve'', ''aruba''] s \<or> py_startswith s ''hp'' \<or> contains '' hp '' s then Some ''HP''
      else map_option snd (find (\<lambda>(ws, _). any_in ws s) system_vendors))"

definition by_system_text :: "tnode \<Rightarrow> tnode" where
  "by_system_text n = (let info = py_lower (py_strip (tn_name n @ '' '' @ tn_desc n)) in
     if info = [] \<or> tn_vendor n \<noteq> unknown_text then n
     else (case system_vendor info of
         None \<Rightarrow> n
       | Some v \<Rightarrow> n\<lparr>tn_vendor := v, tn_product := or_else (tn_product n) (or_else (tn_desc n) (tn_name n))\<rparr>))"

definition by_capabilities :: "tnode \<Rightarrow> tnode" where
  "by_capabilities n =
     (if tn_type n \<noteq> unknown_text then n
      else if PStr ''Bridge'' \<in> set (tn_caps n) then n\<lparr>tn_type := ''Network Switch''\<rparr>
      else if PStr ''Router'' \<in> set (tn_caps n) then n\<lparr>tn_type := ''Router''\<rparr>
      else n)"

definition generic_chip_vendors :: "string list" where
  "generic_chip_vendors = [''Intel'', ''Intel Corporate'', ''Intel Corporation'', ''Realtek'', ''Realtek Semiconductor'', ''MediaTek'',
     ''MediaTek Inc.'', ''Qualcomm'', ''Broadcom'', ''Broadcom Limited'', ''VMware, Inc.'', ''VMware'', ''QEMU'', ''Parallels, Inc.'',
     ''Parallels'', ''ASRock Incorporation'', ''ASRock'', ''Giga-Byte Technology Co.,Ltd.'']"

definition host_text :: "conversation list \<Rightarrow> tnode \<Rightarrow> string" where
  "host_text cs n = py_lower (py_join '' '' (filter (\<lambda>s. s \<noteq> []) ([tn_name n, tn_desc n]
     @ concat (map (\<lambda>c. [cv_dhcp_name c, cv_nbns_name c, cv_dhcp_class c, cv_user_agent c]) cs))))"

definition by_host_name :: "conversation list \<Rightarrow> tnode \<Rightarrow> tnode" where
  "by_host_name cs n = (if tn_vendor n = unknown_text \<or> tn_vendor n \<in> set generic_chip_vendors
     then (case find (\<lambda>(p, _). contains p (host_text cs n)) hostname_patterns of Some (_, v) \<Rightarrow> n\<lparr>tn_vendor := v\<rparr> | None \<Rightarrow> n)
     else n)"

definition normalize_vendor :: "tnode \<Rightarrow> tnode" where
  "normalize_vendor n = (if tn_vendor n \<noteq> [] \<and> tn_vendor n \<noteq> unknown_text then n\<lparr>tn_vendor := normalize_vendor_name (tn_vendor n)\<rparr> else n)"

definition fingerprint_node :: "oui_db \<Rightarrow> conversation list \<Rightarrow> conversation list \<Rightarrow> tnode \<Rightarrow> tnode" where
  "fingerprint_node db sent received n =
     normalize_vendor (by_host_name (sent @ received) (by_capabilities (by_system_text (by_iec61850 (sent @ received)
       (by_profinet sent received (by_omron (received @ sent) (by_bacnet (sent @ received) (fold by_cip received (vendor_by_oui db n)))))))))"

definition fingerprint_vendors :: "oui_db \<Rightarrow> topo \<Rightarrow> topo" where
  "fingerprint_vendors db t = each_node (\<lambda>ip. fingerprint_node db (indexed (tp_by_src t) ip) (indexed (tp_by_dst t) ip)) t"

section \<open>The table of MAC addresses\<close>

record mac_entry =
  me_mac :: string
  me_ip :: string
  me_vendor :: string
  me_name :: string
  me_caps :: "pyval list"
  me_source :: pyval

definition entry_source :: "conversation \<Rightarrow> pyval" where
  "entry_source c = (if cv_l2 c \<noteq> [] then obj_get_or (cv_l2 c) ''source'' (PStr ''traffic'')
     else if cv_protocol c = ''ARP'' then PStr ''arp'' else PStr ''traffic'')"

definition note_entry :: "conversation \<Rightarrow> string \<Rightarrow> string \<Rightarrow> (string, mac_entry) dict \<Rightarrow> (string, mac_entry) dict" where
  "note_entry c mac ip d = (if mac = [] then d
     else (case dict_get d (py_lower mac) of
         None \<Rightarrow> dict_set (py_lower mac) \<lparr>me_mac = mac, me_ip = ip, me_vendor = unknown_text, me_name = [], me_caps = [],
             me_source = entry_source c\<rparr> d
       | Some e \<Rightarrow> dict_set (py_lower mac) (e\<lparr>me_ip := or_else (me_ip e) ip\<rparr>) d))"

definition enrich_entry :: "tnode \<Rightarrow> mac_entry \<Rightarrow> mac_entry" where
  "enrich_entry n e = e\<lparr>me_vendor := if tn_vendor n \<noteq> [] \<and> tn_vendor n \<noteq> unknown_text then normalize_vendor_name (tn_vendor n) else me_vendor e,
     me_name := or_else (tn_name n) (me_name e), me_caps := if tn_caps n \<noteq> [] then tn_caps n else me_caps e,
     me_ip := or_else (me_ip e) (tn_ip n)\<rparr>"

definition enrich_entries :: "tnode \<Rightarrow> (string, mac_entry) dict \<Rightarrow> (string, mac_entry) dict" where
  "enrich_entries n d = (if tn_mac n = [] then d
     else map (\<lambda>(k, e). (k, if clean_mac (tn_mac n) = clean_mac k then enrich_entry n e else e)) d)"

definition vendor_of_entry :: "oui_db \<Rightarrow> string \<Rightarrow> mac_entry \<Rightarrow> mac_entry" where
  "vendor_of_entry db k e = (if me_vendor e = unknown_text
     then (case oui_vendor db k of Some (v, _) \<Rightarrow> e\<lparr>me_vendor := normalize_vendor_name v\<rparr> | None \<Rightarrow> e) else e)"

definition build_mac_table :: "oui_db \<Rightarrow> conversation list \<Rightarrow> nodes \<Rightarrow> mac_entry list" where
  "build_mac_table db convs ns =
     (let seen = fold (\<lambda>c d. note_entry c (cv_dst_mac c) (cv_dst_ip c) (note_entry c (cv_src_mac c) (cv_src_ip c) d)) convs [];
          enriched = fold (\<lambda>(_, n). enrich_entries n) ns seen
      in sort_key (\<lambda>e. or_else (me_ip e) (me_mac e)) (map (\<lambda>(k, e). vendor_of_entry db k e) enriched))"

end
