(* ===== verification/Roles.thy ===== *)
theory Roles
  imports Fingerprint
begin

text \<open>
  The last passes of \<open>TopologyBuilder\<close>: the role of each node (\<open>_assign_roles\<close>), its priority
  (\<open>_rank_targets\<close>), and the whole stage (\<open>build\<close>). A chain of \<open>elif\<close>s is a list of conditions
  with their outcomes, of which the first that holds decides.
\<close>

fun elif_chain :: "(bool \<times> 'a) list \<Rightarrow> 'a \<Rightarrow> 'a" where
  "elif_chain [] d = d"
| "elif_chain ((b, x) # rest) d = (if b then x else elif_chain rest d)"

section \<open>What a node shows\<close>

definition node_service_names :: "tnode \<Rightarrow> string list" where
  "node_service_names n = map (\<lambda>p. py_lower (py_strip p)) (filter (\<lambda>p. p \<noteq> []) (tn_protocols n))
     @ filter (\<lambda>p. p \<noteq> []) (map (\<lambda>s. py_lower (py_strip (sp_protocol s))) (tn_services n))"

definition node_text :: "tnode \<Rightarrow> string" where
  "node_text n = py_lower (py_join '' '' (filter (\<lambda>s. s \<noteq> []) [tn_vendor n, tn_product n, tn_type n, tn_name n, tn_desc n,
     py_join '' '' (tn_protocols n), py_join '' '' (map sp_protocol (tn_services n))]))"

definition node_peer_count :: "topo \<Rightarrow> string \<Rightarrow> nat" where
  "node_peer_count t ip = length (remdups (filter (\<lambda>p. p \<noteq> [] \<and> p \<noteq> ip)
     (map dst_key (indexed (tp_by_src t) ip) @ map src_key (indexed (tp_by_dst t) ip))))"

definition engineering_activity :: "topo \<Rightarrow> string \<Rightarrow> bool" where
  "engineering_activity t ip \<longleftrightarrow> list_ex (\<lambda>c. cv_s7_access c \<or> cv_modbus_writes c > 5) (indexed (tp_by_src t) ip)"

definition has_any :: "string list \<Rightarrow> string list \<Rightarrow> bool" where
  "has_any ws names \<longleftrightarrow> list_ex (\<lambda>w. w \<in> set names) ws"

record hints =
  rh_names :: "string list"
  rh_peers :: nat
  rh_services :: nat
  rh_store :: bool
  rh_server :: bool
  rh_admin :: bool
  rh_historian :: bool
  rh_hmi :: bool
  rh_engineering :: bool
  rh_bacnet :: bool
  rh_iec104 :: bool
  rh_iec61850 :: bool
  rh_omron :: bool
  rh_opcua :: bool
  rh_omron_service :: bool
  rh_iec104_service :: bool
  rh_opcua_service :: bool
  rh_mms :: bool
  rh_bay :: bool
  rh_camera :: bool
  rh_workstation :: bool
  rh_appliance :: bool

definition hints_of :: "topo \<Rightarrow> string \<Rightarrow> tnode \<Rightarrow> hints" where
  "hints_of t ip n = (let names = node_service_names n; text = node_text n in
     \<lparr>rh_names = names, rh_peers = node_peer_count t ip, rh_services = length (tn_services n),
      rh_store = has_any [''mysql'', ''postgresql'', ''mssql'', ''ms-sql-s'', ''netbios-ssn'', ''microsoft-ds'', ''smb'', ''ftp'', ''tftp'', ''rpc portmap''] names,
      rh_server = has_any [''http'', ''https'', ''dns'', ''ntp'', ''smtp'', ''smtp submission'', ''imap'', ''imaps'', ''pop3'', ''pop3s'', ''snmp'', ''opc ua''] names,
      rh_admin = has_any [''ssh'', ''rdp'', ''vnc'', ''telnet''] names,
      rh_historian = any_in (historian_signatures @ [''mes'', ''ignition'', ''factorytalk'', ''proficy'']) text,
      rh_hmi = any_in hmi_signatures text,
      rh_engineering = (engineering_activity t ip \<or> any_in engineering_signatures text),
      rh_bacnet = contains ''bacnet'' text,
      rh_iec104 = any_in [''iec 60870-5-104'', ''iec 60870-5 asdu''] text,
      rh_iec61850 = any_in [''iec 61850'', ''mms (iec 61850)'', ''goose''] text,
      rh_omron = any_in (omron_signatures @ [''omron fins'']) text,
      rh_opcua = any_in [''opc-ua'', ''opc ua''] text,
      rh_omron_service = service_at 9600 ''omron'' n,
      rh_iec104_service = service_at 2404 ''iec 60870-5-104'' n,
      rh_opcua_service = service_at 4840 ''opc-ua'' n,
      rh_mms = list_ex (\<lambda>s. sp_port s = 102) (tn_services n),
      rh_bay = any_in bay_hints text,
      rh_camera = any_in [''axis'', ''hikvision'', ''dahua'', ''avigilon'', ''mobotix'', ''bosch security'', ''camera''] text,
      rh_workstation = any_in [''apple'', ''pegatron'', ''dell'', ''lenovo'', ''hewlett packard'', ''hp '', ''asus'', ''acer'', ''gigabyte'', ''microsoft''] text,
      rh_appliance = any_in [''advantech'', ''red lion'', ''digi'', ''moxa'', ''westermo'', ''phoenix contact'', ''ewon'', ''hms'', ''innominate''] text\<rparr>)"

section \<open>The decision\<close>

text \<open>A role and the device type that replaces an unknown one.\<close>

type_synonym verdict = "string \<times> string"

definition named :: "verdict \<Rightarrow> tnode \<Rightarrow> tnode" where
  "named v n = type_if_unknown (snd v) (n\<lparr>tn_role := fst v\<rparr>)"

definition ied_verdict :: "bool \<Rightarrow> verdict" where
  "ied_verdict bay = (if bay then (''Supervisory Controller'', ''Bay Controller'') else (''Protective Relay'', ''Protection IED''))"

text \<open>Identities of the capture itself, which precede the level.\<close>

definition identity_verdict :: "hints \<Rightarrow> tnode \<Rightarrow> verdict option" where
  "identity_verdict h n = elif_chain
     [(tn_type n \<in> {''Programmable Logic Controller'', ''PLC''}, Some (''PLC'', [])),
      (tn_type n = ''Human-Machine Interface'', Some (''HMI/SCADA'', [])),
      (tn_type n = ''Bay Controller'', Some (''Supervisory Controller'', [])),
      (tn_type n = ''Protection IED'', Some (''Protective Relay'', [])),
      (tn_type n = ''IO Controller'', Some (''Supervisory Controller'', [])),
      (tn_type n = ''IO Device'', Some (''Field Device'', [])),
      (rh_omron_service h, Some (''PLC'', ''Programmable Logic Controller'')),
      (rh_iec104 h \<and> rh_iec104_service h, Some (''RTU'', ''Telemetry RTU'')),
      (rh_iec61850 h \<and> rh_mms h, Some (ied_verdict (rh_bay h))),
      (rh_iec61850 h \<and> \<not> rh_mms h \<and> tn_initiates n, Some (''Supervisory Controller'', ''IEC 61850 Client'')),
      (rh_opcua_service h \<and> tn_responds n,
       Some (if tn_level n = 3 then ''Application Server'' else ''Supervisory Controller'', ''OPC UA Server''))] None"

definition field_verdict :: "hints \<Rightarrow> tnode \<Rightarrow> verdict" where
  "field_verdict h n = (let protos = py_join '' '' (tn_protocols n) in elif_chain
     [(contains ''Modbus'' protos, (''RTU/PLC'', ''RTU/PLC'')),
      (contains ''EtherNet/IP'' protos, (''PLC'', ''PLC'')),
      (contains ''S7comm'' protos, (''PLC'', ''PLC'')),
      (contains ''DNP3'' protos, (''RTU'', ''RTU'')),
      (rh_iec104 h, (''RTU'', ''Telemetry RTU'')),
      (rh_omron h \<and> rh_omron_service h, (''PLC'', ''Programmable Logic Controller'')),
      (rh_iec61850 h, ied_verdict (rh_bay h)),
      (rh_bacnet h, (''Building Controller'', ''BACnet Controller''))]
     (''Field Device'', ''Field Device''))"

definition supervisory_verdict :: "hints \<Rightarrow> tnode \<Rightarrow> verdict" where
  "supervisory_verdict h n = elif_chain
     [(rh_engineering h, (''Engineering Workstation'', ''Engineering Workstation'')),
      (rh_bacnet h \<and> tn_initiates n \<and> \<not> tn_responds n, (''HMI/SCADA'', ''BMS Workstation'')),
      (rh_bacnet h \<and> tn_responds n, (''Supervisory Controller'', ''Building Controller'')),
      (rh_iec61850 h \<and> tn_responds n \<and> rh_mms h, ied_verdict (rh_bay h)),
      (rh_iec61850 h \<and> tn_initiates n \<and> \<not> rh_mms h, (''Supervisory Controller'', ''IEC 61850 Client'')),
      (rh_omron h \<and> rh_omron_service h, (''PLC'', ''Programmable Logic Controller'')),
      (rh_opcua h \<and> tn_responds n \<and> \<not> tn_initiates n, (''Supervisory Controller'', ''OPC UA Server'')),
      (rh_hmi h, (''HMI/SCADA'', ''HMI Platform'')),
      (tn_initiates n \<and> \<not> tn_responds n, (''HMI/SCADA'', if rh_workstation h then ''Operator Workstation'' else ''HMI Terminal'')),
      (rh_workstation h, (''HMI/SCADA'', ''Operator Workstation'')),
      (tn_responds n \<and> \<not> tn_initiates n,
       (''Supervisory Controller'', if rh_services h \<ge> 2 \<or> rh_server h then ''SCADA Server'' else ''Supervisory Controller'')),
      (tn_initiates n \<and> tn_responds n,
       if rh_services h \<ge> 3 \<or> rh_store h then (''Supervisory Controller'', ''SCADA Server'') else (''HMI/SCADA'', ''Supervisory Workstation''))]
     (''Supervisory Controller'', ''Supervisory Controller'')"

definition web_names :: "string list" where "web_names = [''http'', ''https'', ''http-alt'', ''https-alt'']"

definition mail_names :: "string list" where
  "mail_names = [''smtp'', ''smtps'', ''imap'', ''imaps'', ''pop3'', ''pop3s'', ''smtp submission'']"

definition infrastructure_type :: "string list \<Rightarrow> string" where
  "infrastructure_type names = elif_chain
     [(has_any [''dns'', ''mdns'', ''dhcp server'', ''dhcp client'', ''ntp''] names, ''Network Services Host''),
      (has_any web_names names, ''Web Server''), (has_any mail_names names, ''Mail Server''),
      (has_any [''syslog'', ''syslog tls'', ''snmp'', ''snmp trap''] names, ''Monitoring Server'')] ''Infrastructure Server''"

definition operations_verdict :: "hints \<Rightarrow> tnode \<Rightarrow> verdict" where
  "operations_verdict h n = elif_chain
     [(rh_historian h \<and> (rh_store h \<or> rh_server h \<or> rh_services h \<ge> 2), (''Historian/MES'', ''Historian Server'')),
      (rh_opcua h \<and> tn_responds n, (''Application Server'', ''OPC UA Server'')),
      (rh_bacnet h \<and> (tn_responds n \<or> rh_server h), (''Application Server'', ''BMS Server'')),
      (rh_hmi h, (''HMI/SCADA'', ''HMI Platform'')),
      (rh_camera h, (''Security Appliance'', ''IP Camera'')),
      (rh_appliance h \<and> (rh_admin h \<or> rh_server h \<or> rh_services h \<ge> 2), (''Industrial Appliance'', ''Gateway/Appliance'')),
      (rh_engineering h, (''Engineering Workstation'', ''Engineering Workstation'')),
      (rh_iec104 h \<and> tn_responds n, (''Application Server'', ''Telemetry Server'')),
      (rh_workstation h \<or> (tn_initiates n \<and> \<not> tn_responds n), (''Operations Workstation'', ''Workstation'')),
      (tn_responds n \<and> rh_store h, (''Data Server'', ''Database/File Server'')),
      (tn_responds n \<and> rh_server h \<and> rh_peers h \<ge> 3, (''Infrastructure Server'', infrastructure_type (rh_names h))),
      (tn_responds n, (''Operations Host'', ''Server''))]
     (''Operations Host'', ''Endpoint'')"

definition enterprise_type :: "string list \<Rightarrow> string" where
  "enterprise_type names = elif_chain
     [(has_any [''dns'', ''dhcp server'', ''dhcp client''] names, ''Enterprise DNS/DHCP''),
      (has_any web_names names, ''Enterprise Web Server''), (has_any mail_names names, ''Mail Server''),
      (has_any [''ldap'', ''ldaps'', ''kerberos''] names, ''Directory Server'')] ''Enterprise Server''"

definition enterprise_verdict :: "hints \<Rightarrow> tnode \<Rightarrow> verdict" where
  "enterprise_verdict h n = elif_chain
     [(rh_store h \<or> (rh_server h \<and> rh_peers h \<ge> 3), (''Enterprise Server'', enterprise_type (rh_names h))),
      (rh_workstation h \<or> (tn_initiates n \<and> \<not> tn_responds n), (''Enterprise Workstation'', ''Business Workstation''))]
     (''Enterprise Host'', ''Enterprise Endpoint'')"

definition level_verdict :: "hints \<Rightarrow> tnode \<Rightarrow> verdict" where
  "level_verdict h n = elif_chain
     [(tn_level n \<in> {0, 1}, field_verdict h n), (tn_level n = 2, supervisory_verdict h n), (tn_level n = 3, operations_verdict h n),
      (tn_level n = 4, enterprise_verdict h n), (tn_level n = 5, (''External Host'', ''External Endpoint''))]
     (unknown_text, unknown_text)"

text \<open>Engineering activity overrules what is not a controller.\<close>

definition as_engineering :: "hints \<Rightarrow> tnode \<Rightarrow> tnode" where
  "as_engineering h n = (if rh_engineering h \<and> tn_role n \<notin> {''PLC'', ''RTU'', ''RTU/PLC''}
     then n\<lparr>tn_role := ''Engineering Workstation'',
       tn_type := if tn_type n \<in> {unknown_text, ''Workstation'', ''Endpoint''} then ''Engineering Workstation'' else tn_type n\<rparr>
     else n)"

definition infrastructure_vendors :: "string list" where
  "infrastructure_vendors = [''moxa'', ''westermo'', ''ruggedcom'', ''hirschmann'', ''belden'', ''cisco'', ''juniper'', ''arista'',
     ''allied telesis'', ''netgear'', ''ubiquiti'', ''mikrotik'', ''d-link'', ''tp-link'', ''zyxel'', ''extreme networks'', ''huawei'',
     ''hewlett packard enterprise'', ''hp'', ''aruba'', ''dell networking'', ''cumulus'', ''pica8'', ''edgecore'', ''phoenix contact'',
     ''innominate'']"

definition infrastructure_vendor :: "tnode \<Rightarrow> bool" where
  "infrastructure_vendor n \<longleftrightarrow> tn_vendor n \<noteq> [] \<and> tn_vendor n \<noteq> unknown_text \<and> any_in infrastructure_vendors (py_lower (tn_vendor n))"

definition bracketed :: "string \<Rightarrow> string \<Rightarrow> string" where
  "bracketed role name = (if name \<noteq> [] then role @ '' ('' @ name @ '')'' else role)"

definition switch_by_name :: "tnode \<Rightarrow> tnode" where
  "switch_by_name n = (let name = py_lower (py_strip (tn_name n)) in
     if tn_type n = unknown_text \<and> name \<noteq> [] \<and> (list_ex (py_startswith name) [''switch'', ''sw''] \<or> any_in switch_hints name)
     then n\<lparr>tn_type := ''Network Switch''\<rparr> else n)"

definition assign_role :: "topo \<Rightarrow> string \<Rightarrow> tnode \<Rightarrow> tnode" where
  "assign_role t ip n0 =
     (if is_broadcast ip then n0
      else (let n = switch_by_name n0; h = hints_of t ip n in
        if tn_type n = ''Network Switch'' \<or> PStr ''Bridge'' \<in> set (tn_caps n)
        then n\<lparr>tn_role := bracketed ''Network Switch'' (tn_name n)\<rparr>
        else if tn_type n = ''Router'' \<or> PStr ''Router'' \<in> set (tn_caps n)
        then n\<lparr>tn_role := bracketed ''Router'' (tn_name n)\<rparr>
        else if infrastructure_vendor n
        then (named (''Network Infrastructure'', ''Switch/Gateway'') n)\<lparr>tn_level := 1, tn_asset := ''network''\<rparr>
        else (case identity_verdict h n of
            Some v \<Rightarrow> named v n
          | None \<Rightarrow> as_engineering h (named (level_verdict h n) n))))"

definition assign_roles :: "topo \<Rightarrow> topo" where
  "assign_roles t = each_node (assign_role t) t"

section \<open>Priorities\<close>

definition priority_of :: "tnode \<Rightarrow> int" where
  "priority_of n = (if any_in [''PLC'', ''RTU''] (tn_role n) then 10 else 0) + (if \<not> tn_auth n then 5 else 0)
     + (if tn_vendor n \<noteq> unknown_text then 3 + (if any_in [''Siemens'', ''Allen-Bradley''] (tn_vendor n) then 2 else 0) else 0)
     + (if length (tn_protocols n) > 2 then 2 else 0)"

definition rank_node :: "string \<Rightarrow> tnode \<Rightarrow> tnode" where
  "rank_node ip n = (if is_broadcast ip then n\<lparr>tn_priority := 0, tn_modules := []\<rparr>
     else n\<lparr>tn_priority := priority_of n,
       tn_modules := if any_in [''PLC'', ''RTU''] (tn_role n) then [''VORACITY-MODULE-FACTORYKEYS'', ''VORACITY-MODULE-COILTAPPER''] else []\<rparr>)"

section \<open>The stage\<close>

definition built_graph :: "(rat \<Rightarrow> string) \<Rightarrow> bool \<Rightarrow> conversation list \<Rightarrow> topo" where
  "built_graph fr skip_ephemeral convs = (case build_graph fr skip_ephemeral convs of (ns, es) \<Rightarrow>
     merge_l2_nodes convs \<lparr>tp_nodes = ns, tp_edges = es, tp_by_src = index_by src_key convs, tp_by_dst = index_by dst_key convs\<rparr>)"

definition build_topology :: "(rat \<Rightarrow> string) \<Rightarrow> oui_db \<Rightarrow> (string \<times> int) list \<Rightarrow> bool \<Rightarrow> conversation list \<Rightarrow> topo" where
  "build_topology fr db sm skip_ephemeral convs =
     each_node rank_node (assign_roles (fingerprint_vendors db (infer_purdue_levels sm (built_graph fr skip_ephemeral convs))))"

text \<open>What the stage returns: nodes, edges and the MAC table.\<close>

definition topology_result ::
    "(rat \<Rightarrow> string) \<Rightarrow> oui_db \<Rightarrow> (string \<times> int) list \<Rightarrow> bool \<Rightarrow> conversation list \<Rightarrow> tnode list \<times> tedge list \<times> mac_entry list" where
  "topology_result fr db sm skip_ephemeral convs = (let t = build_topology fr db sm skip_ephemeral convs in
     (map snd (tp_nodes t), tp_edges t, build_mac_table db convs (tp_nodes t)))"

end
