(* ===== verification/TopologySafety.thy ===== *)
theory TopologySafety
  imports Roles
begin

text \<open>
  What the topology stage keeps: every conversation is in one edge, the ends of the edges are
  nodes, a node is stored under its address or MAC, levels and roles come from fixed sets, and a
  subnet map is applied by the longest matching prefix.
\<close>

section \<open>The invariant of the nodes\<close>

text \<open>A node is stored under its address, or its MAC if it has none, and has sent or received something.\<close>

definition key_of :: "tnode \<Rightarrow> string" where
  "key_of n = or_else (tn_ip n) (tn_mac n)"

definition seen :: "tnode \<Rightarrow> bool" where
  "seen n \<longleftrightarrow> tn_initiates n \<or> tn_responds n"

definition node_ok :: "string \<times> tnode \<Rightarrow> bool" where
  "node_ok kn \<longleftrightarrow> key_of (snd kn) = fst kn \<and> seen (snd kn) \<and> \<not> tn_auth (snd kn) \<and> \<not> tn_rogue (snd kn)
     \<and> list_all (\<lambda>s. sp_category s = port_category (sp_port s)) (tn_services (snd kn))"

definition nodes_ok :: "nodes \<Rightarrow> bool" where
  "nodes_ok ns \<longleftrightarrow> dict_ok ns \<and> list_all node_ok ns"

lemma nodes_ok_Nil [simp]: "nodes_ok []"
  by (simp add: nodes_ok_def)

lemma nodes_ok_get: "nodes_ok ns \<Longrightarrow> dict_get ns k = Some n \<Longrightarrow> node_ok (k, n)"
  by (auto simp: nodes_ok_def list_all_iff dict_get_mem)

lemma nodes_ok_set: "nodes_ok ns \<Longrightarrow> node_ok (k, n) \<Longrightarrow> nodes_ok (dict_set k n ns)"
  by (auto simp: nodes_ok_def list_all_iff set_dict_set)

lemma nodes_ok_pop: "nodes_ok ns \<Longrightarrow> nodes_ok (dict_pop k ns)"
  by (auto simp: nodes_ok_def list_all_iff set_dict_pop)

lemma nodes_ok_map:
  assumes "nodes_ok ns" "\<And>k n. node_ok (k, n) \<Longrightarrow> node_ok (k, f k n)"
  shows "nodes_ok (map (\<lambda>(k, n). (k, f k n)) ns)"
proof -
  have "map fst (map (\<lambda>(k, n). (k, f k n)) ns) = map fst ns" by (induction ns) auto
  then have "dict_ok (map (\<lambda>(k, n). (k, f k n)) ns)" using assms(1) unfolding nodes_ok_def dict_ok_def by metis
  then show ?thesis using assms by (auto simp: nodes_ok_def list_all_iff)
qed

text \<open>An operation on a node that the invariant does not see.\<close>

definition harmless :: "(tnode \<Rightarrow> tnode) \<Rightarrow> bool" where
  "harmless f \<longleftrightarrow> (\<forall>n. tn_ip (f n) = tn_ip n \<and> tn_mac (f n) = tn_mac n \<and> tn_initiates (f n) = tn_initiates n
     \<and> tn_responds (f n) = tn_responds n \<and> tn_auth (f n) = tn_auth n \<and> tn_rogue (f n) = tn_rogue n \<and> tn_services (f n) = tn_services n
     \<and> tn_protocols (f n) = tn_protocols n)"

lemma harmless_ok: "harmless f \<Longrightarrow> node_ok (k, f n) \<longleftrightarrow> node_ok (k, n)"
  by (simp add: harmless_def node_ok_def key_of_def seen_def)

lemma harmless_comp: "harmless f \<Longrightarrow> harmless g \<Longrightarrow> harmless (\<lambda>n. f (g n))"
  by (simp add: harmless_def)

lemma harmless_id: "harmless (\<lambda>n. n)"
  by (simp add: harmless_def)

lemma or_else_simps [simp]: "or_else s [] = s" "or_else [] s = s" "or_else s s = s"
  by (simp_all add: or_else_def)

section \<open>The graph\<close>

lemma touch_ok:
  assumes "nodes_ok ns" "node_ok (k, f fresh)" "\<And>n. node_ok (k, n) \<Longrightarrow> node_ok (k, f n)"
  shows "nodes_ok (touch_node k fresh f ns)"
  using assms nodes_ok_get by (auto simp: touch_node_def intro!: nodes_ok_set split: option.split)

lemma source_ok: "node_ok (src_key c, n) \<Longrightarrow> node_ok (src_key c, see_source c n)"
  by (auto simp: node_ok_def key_of_def seen_def see_source_def or_else_def src_key_def split: if_splits)

lemma destination_ok: "node_ok (dst_key c, n) \<Longrightarrow> node_ok (dst_key c, see_destination c n)"
  by (auto simp: node_ok_def key_of_def seen_def see_destination_def or_else_def dst_key_def split: if_splits)

lemma fresh_source_ok: "node_ok (src_key c, see_source c (new_node (cv_src_ip c) (cv_src_mac c)))"
  by (simp add: node_ok_def key_of_def seen_def see_source_def new_node_def or_else_def src_key_def)

lemma fresh_destination_ok: "node_ok (dst_key c, see_destination c (new_node (cv_dst_ip c) (cv_dst_mac c)))"
  by (simp add: node_ok_def key_of_def seen_def see_destination_def new_node_def or_else_def dst_key_def)

lemma harmless_neighbour: "harmless (\<lambda>n. see_neighbour fr ld (see_host c n))"
  by (auto simp: harmless_def see_neighbour_def see_host_def Let_def)

lemma get_touch: "dict_get (touch_node k fresh f ns) k \<noteq> None"
  by (simp add: touch_node_def)

lemma get_touch_other: "dict_get ns j \<noteq> None \<Longrightarrow> dict_get (touch_node k fresh f ns) j \<noteq> None"
  by (auto simp: touch_node_def dict_get_set)

lemma touch_present_ok:
  assumes "nodes_ok ns" "dict_get ns k \<noteq> None" "harmless f"
  shows "nodes_ok (touch_node k fresh f ns)"
  using assms nodes_ok_get [OF assms(1)] by (auto simp: touch_node_def harmless_ok intro!: nodes_ok_set)

lemma see_nodes_ok: "nodes_ok ns \<Longrightarrow> nodes_ok (see_nodes fr c ns)"
  unfolding see_nodes_def Let_def
  by (intro touch_present_ok touch_ok source_ok destination_ok fresh_source_ok fresh_destination_ok harmless_neighbour
      get_touch_other get_touch)

lemma fold_invariant: "P x \<Longrightarrow> (\<And>y x. P x \<Longrightarrow> P (f y x)) \<Longrightarrow> P (fold f ys x)"
  by (induction ys arbitrary: x) simp_all

lemma services_category: "list_all (\<lambda>s. sp_category s = port_category (sp_port s)) (services_of m)"
  by (auto simp: services_of_def list_all_iff)

lemma add_services_ok: "nodes_ok ns \<Longrightarrow> nodes_ok (add_services pm ns)"
proof -
  assume a: "nodes_ok ns"
  have "node_ok (k, case dict_get pm k of None \<Rightarrow> n | Some m \<Rightarrow> n\<lparr>tn_services := tn_services n @ services_of m\<rparr>)" if "node_ok (k, n)" for k n
    using that services_category by (auto simp: node_ok_def key_of_def seen_def split: option.split)
  then show ?thesis unfolding add_services_def by (intro nodes_ok_map a)
qed

lemma build_graph_ok: "nodes_ok (fst (build_graph fr skip convs))"
  unfolding build_graph_def fst_conv
  by (intro add_services_ok fold_invariant [where P = nodes_ok] nodes_ok_Nil see_nodes_ok)

section \<open>Merging\<close>

lemma absorb_ok: "node_ok (k, n) \<Longrightarrow> k \<noteq> [] \<Longrightarrow> node_ok (k, absorb_node m n)"
  by (auto simp: node_ok_def key_of_def seen_def absorb_node_def or_else_def split: if_splits)

lemma merge_node_ok: "nodes_ok (tp_nodes t) \<Longrightarrow> nodes_ok (tp_nodes (merge_node m2i k t))"
  using nodes_ok_get by (auto simp: merge_node_def Let_def absorb_ok intro!: nodes_ok_pop nodes_ok_set split: option.split)

definition addressed :: "(string, string) dict \<Rightarrow> bool" where
  "addressed d \<longleftrightarrow> dict_ok d \<and> (\<forall>mi \<in> set d. snd mi \<noteq> [])"

lemma note_mac_addressed: "addressed d \<Longrightarrow> addressed (note_mac mac ip d)"
  by (auto simp: addressed_def note_mac_def set_dict_set)

lemma mac_to_ip_addressed: "addressed (mac_to_ip convs)"
  unfolding mac_to_ip_def by (intro fold_invariant [where P = addressed] note_mac_addressed) (simp add: addressed_def)

lemma backfill_ok: "nodes_ok ns \<Longrightarrow> snd mi \<noteq> [] \<Longrightarrow> nodes_ok (backfill_mac mi ns)"
proof -
  assume a: "nodes_ok ns" "snd mi \<noteq> []"
  have "node_ok (ip, n\<lparr>tn_mac := mac\<rparr>)" if "node_ok (ip, n)" "tn_mac n = []" "ip \<noteq> []" for ip n mac
    using that by (auto simp: node_ok_def key_of_def seen_def or_else_def)
  then show ?thesis
    using a nodes_ok_get [OF a(1)] by (auto simp: backfill_mac_def intro!: nodes_ok_set split: prod.split option.split)
qed

lemma backfill_all_ok: "nodes_ok ns \<Longrightarrow> (\<forall>mi \<in> set ms. snd mi \<noteq> []) \<Longrightarrow> nodes_ok (fold backfill_mac ms ns)"
  by (induction ms arbitrary: ns) (simp_all add: backfill_ok)

lemma merge_l2_ok: "nodes_ok (tp_nodes t) \<Longrightarrow> nodes_ok (tp_nodes (merge_l2_nodes convs t))"
proof -
  assume "nodes_ok (tp_nodes t)"
  then have "nodes_ok (tp_nodes (fold (merge_node (mac_to_ip convs)) (mac_keys (tp_nodes t)) t))"
    by (rule fold_invariant) (rule merge_node_ok)
  then show ?thesis using mac_to_ip_addressed [of convs] by (simp add: merge_l2_nodes_def Let_def backfill_all_ok addressed_def)
qed

lemma built_graph_ok: "nodes_ok (tp_nodes (built_graph fr skip convs))"
  using build_graph_ok [of fr skip convs] by (auto simp: built_graph_def intro!: merge_l2_ok split: prod.split)

section \<open>The passes over the nodes\<close>

lemma each_node_ok: "nodes_ok (tp_nodes t) \<Longrightarrow> (\<And>k. harmless (f k)) \<Longrightarrow> nodes_ok (tp_nodes (each_node f t))"
  by (auto simp: each_node_def harmless_ok intro!: nodes_ok_map)

lemma harmless_levels: "harmless (\<lambda>n. level_ot (level_public ip (level_broadcast ip (level_by_subnet sm ip n))))" "harmless (level_it near)"
  by (auto simp: harmless_def level_ot_def level_public_def level_broadcast_def level_by_subnet_def level_it_def split: option.split)

text \<open>The vendor pass changes vendor, product, type and name only.\<close>

definition cosmetic :: "(tnode \<Rightarrow> tnode) \<Rightarrow> bool" where
  "cosmetic f \<longleftrightarrow> harmless f \<and> (\<forall>n. tn_level (f n) = tn_level n \<and> tn_role (f n) = tn_role n \<and> tn_asset (f n) = tn_asset n)"

lemmas cosmetic_defs = cosmetic_def harmless_def

lemma cosmetic_type: "cosmetic (type_if_unknown ty)"
  by (simp add: cosmetic_defs type_if_unknown_def)

lemma cosmetic_oui: "cosmetic (vendor_by_oui db)"
  by (auto simp: cosmetic_defs vendor_by_oui_def split: option.split prod.split)

lemma cosmetic_cip: "cosmetic (by_cip c)"
  by (auto simp: cosmetic_defs by_cip_def Let_def type_if_unknown_def split: option.split)

lemma cosmetic_fold: "(\<And>c. cosmetic (f c)) \<Longrightarrow> cosmetic (fold f cs)"
  by (induction cs) (auto simp: cosmetic_defs)

lemma cosmetic_bacnet: "cosmetic (by_bacnet cs)"
proof -
  have vendor: "cosmetic (bacnet_vendor ident)" for ident
    by (auto simp: cosmetic_defs bacnet_vendor_def split: option.split)
  have "tn_ip (by_bacnet cs n) = tn_ip n \<and> tn_mac (by_bacnet cs n) = tn_mac n \<and> tn_initiates (by_bacnet cs n) = tn_initiates n
     \<and> tn_responds (by_bacnet cs n) = tn_responds n \<and> tn_auth (by_bacnet cs n) = tn_auth n \<and> tn_rogue (by_bacnet cs n) = tn_rogue n
     \<and> tn_services (by_bacnet cs n) = tn_services n \<and> tn_protocols (by_bacnet cs n) = tn_protocols n
     \<and> tn_level (by_bacnet cs n) = tn_level n \<and> tn_role (by_bacnet cs n) = tn_role n \<and> tn_asset (by_bacnet cs n) = tn_asset n" for n
    using vendor by (induction cs n rule: by_bacnet.induct) (simp_all add: cosmetic_defs Let_def split: list.split)
  then show ?thesis by (simp add: cosmetic_defs)
qed

lemma cosmetic_omron: "cosmetic (by_omron cs)"
  by (auto simp: cosmetic_defs by_omron_def Let_def type_if_unknown_def split: option.split)

lemma cosmetic_profinet: "cosmetic (by_profinet sent received)"
proof -
  have "cosmetic (profinet_vendor v)" for v
    by (auto simp: cosmetic_defs profinet_vendor_def Let_def split: option.split)
  then show ?thesis
    by (auto simp: cosmetic_defs by_profinet_def apply_profinet_def Let_def type_if_unknown_def split: option.split)
qed

lemma cosmetic_names: "cosmetic (by_iec61850 cs)" "cosmetic by_system_text" "cosmetic by_capabilities" "cosmetic (by_host_name cs)"
  "cosmetic normalize_vendor"
  by (auto simp: cosmetic_defs by_iec61850_def by_system_text_def by_capabilities_def by_host_name_def normalize_vendor_def Let_def
      split: option.split)

lemma cosmetic_fingerprint: "cosmetic (fingerprint_node db sent received)"
proof -
  let ?f = "\<lambda>n. by_omron (received @ sent) (by_bacnet (sent @ received) (fold by_cip received (vendor_by_oui db n)))"
  have f: "cosmetic ?f"
    using cosmetic_oui [of db] cosmetic_fold [OF cosmetic_cip, where cs = received] cosmetic_bacnet [of "sent @ received"] cosmetic_omron [of "received @ sent"]
    by (simp add: cosmetic_defs)
  let ?g = "\<lambda>n. by_system_text (by_iec61850 (sent @ received) (by_profinet sent received (?f n)))"
  have g: "cosmetic ?g"
    using f cosmetic_profinet [of sent received] cosmetic_names(1) [of "sent @ received"] cosmetic_names(2)
    by (simp add: cosmetic_defs)
  show ?thesis
    using g cosmetic_names(3) cosmetic_names(4) [of "sent @ received"] cosmetic_names(5)
    by (simp add: cosmetic_defs fingerprint_node_def)
qed

lemma harmless_fingerprint: "harmless (fingerprint_node db sent received)"
  using cosmetic_fingerprint unfolding cosmetic_def by blast

lemma harmless_named: "harmless (named v)"
  by (simp add: harmless_def named_def type_if_unknown_def)

lemma harmless_assign: "harmless (assign_role t ip)"
proof -
  have "harmless switch_by_name" "\<And>h. harmless (as_engineering h)"
    by (auto simp: harmless_def switch_by_name_def as_engineering_def Let_def)
  then show ?thesis
    using harmless_named by (auto simp: harmless_def assign_role_def Let_def split: option.split)
qed

lemma harmless_rank: "harmless (rank_node ip)"
  by (auto simp: harmless_def rank_node_def)

lemma infer_ok: "nodes_ok (tp_nodes t) \<Longrightarrow> nodes_ok (tp_nodes (infer_purdue_levels sm t))"
  by (simp add: infer_purdue_levels_def Let_def each_node_ok harmless_levels)

lemma build_topology_ok: "nodes_ok (tp_nodes (build_topology fr db sm skip convs))"
  unfolding build_topology_def assign_roles_def fingerprint_vendors_def
  by (intro each_node_ok infer_ok built_graph_ok harmless_rank harmless_assign harmless_fingerprint)

end
