(* ===== verification/TopologyClaims.thy ===== *)
theory TopologyClaims
  imports TopologySafety
begin

text \<open>
  What the topology stage promises, on the whole stage: each conversation is accounted for by one
  edge, levels and roles come from fixed sets, the longest subnet decides, and the ends of edges
  are nodes unless a switch is managed over IPv6.
\<close>

section \<open>Edges account for conversations\<close>

definition kept :: "bool \<Rightarrow> conversation \<Rightarrow> bool" where
  "kept skip_ephemeral c \<longleftrightarrow> \<not> (skip_ephemeral \<and> cv_port c \<ge> ephemeral_port_min)"

lemma see_edge_sums:
  "dict_sum te_count (see_edge skip c es) = dict_sum te_count es + (if kept skip c then 1 else 0)"
  "dict_sum te_bytes (see_edge skip c es) = dict_sum te_bytes es + (if kept skip c then cv_bytes c else 0)"
  by (auto simp: see_edge_def kept_def dict_sum_set new_edge_def merge_edge_def split: option.split)

lemma fold_edge_sums:
  "dict_sum te_count (fold (see_edge skip) convs es) = dict_sum te_count es + int (length (filter (kept skip) convs))"
  "dict_sum te_bytes (fold (see_edge skip) convs es) = dict_sum te_bytes es + sum_list (map cv_bytes (filter (kept skip) convs))"
  by (induction convs arbitrary: es) (simp_all add: see_edge_sums)

lemma rekey_keeps [simp]: "te_count (rekey_edge old new e) = te_count e" "te_bytes (rekey_edge old new e) = te_bytes e"
  by (simp_all add: rekey_edge_def)

definition edge_totals :: "tedge list \<Rightarrow> int \<times> int" where
  "edge_totals es = (sum_list (map te_count es), sum_list (map te_bytes es))"

lemma merge_node_totals: "edge_totals (tp_edges (merge_node m2i k t)) = edge_totals (tp_edges t)"
  by (simp add: merge_node_def Let_def edge_totals_def comp_def split: option.split)

lemma merge_totals: "edge_totals (tp_edges (merge_l2_nodes convs t)) = edge_totals (tp_edges t)"
proof -
  have "edge_totals (tp_edges (fold (merge_node m2i) ks t)) = edge_totals (tp_edges t)" for m2i ks
    by (induction ks arbitrary: t) (simp_all add: merge_node_totals)
  then show ?thesis by (simp add: merge_l2_nodes_def Let_def)
qed

lemma each_node_edges [simp]: "tp_edges (each_node f t) = tp_edges t"
  by (simp add: each_node_def)

lemma stage_edges: "tp_edges (build_topology fr db sm skip convs) = tp_edges (built_graph fr skip convs)"
  by (simp add: build_topology_def assign_roles_def fingerprint_vendors_def infer_purdue_levels_def Let_def)

text \<open>
  C6. Merged or rekeyed, the edges of the topology count every conversation once and add up to its
  bytes, but for the ephemeral ones that the relationship view leaves out.
\<close>

theorem edges_account_for_conversations:
  "edge_totals (tp_edges (build_topology fr db sm skip convs)) =
     (int (length (filter (kept skip) convs)), sum_list (map cv_bytes (filter (kept skip) convs)))"
proof -
  have "edge_totals (map snd es) = (dict_sum te_count es, dict_sum te_bytes es)" for es :: "(edge_key, tedge) dict"
    by (simp add: edge_totals_def dict_sum_def comp_def)
  then show ?thesis
    unfolding stage_edges
    by (simp add: built_graph_def build_graph_def merge_totals fold_edge_sums) (simp add: dict_sum_def)
qed

section \<open>Levels\<close>

definition in_levels :: "int \<Rightarrow> int \<Rightarrow> topo \<Rightarrow> bool" where
  "in_levels lo hi t \<longleftrightarrow> list_all (\<lambda>(_, n). lo \<le> tn_level n \<and> tn_level n \<le> hi) (tp_nodes t)"

lemma in_levels_each:
  assumes "in_levels lo hi t" "\<And>k n. lo \<le> tn_level n \<and> tn_level n \<le> hi \<Longrightarrow> lo \<le> tn_level (f k n) \<and> tn_level (f k n) \<le> hi"
  shows "in_levels lo hi (each_node f t)"
  using assms by (fastforce simp: in_levels_def each_node_def list_all_iff)

text \<open>The first four passes leave a level of the map, -1, or one of their own.\<close>

definition allowed_levels :: "(string \<times> int) list \<Rightarrow> bool" where
  "allowed_levels sm \<longleftrightarrow> list_all (\<lambda>(_, l). 0 \<le> l \<and> l \<le> 5) sm"

lemma mapped_level_allowed: "allowed_levels sm \<Longrightarrow> mapped_level sm ip = Some l \<Longrightarrow> 0 \<le> l \<and> l \<le> 5"
proof -
  assume a: "allowed_levels sm" and "mapped_level sm ip = Some l"
  then obtain s where "find (\<lambda>(s, _). ip_in_subnet ip s) (ordered_subnets sm) = Some (s, l)"
    by (auto simp: mapped_level_def)
  then have "(s, l) \<in> set (ordered_subnets sm)" by (metis find_Some_iff nth_mem)
  then show ?thesis using a by (auto simp: ordered_subnets_def allowed_levels_def list_all_iff)
qed

lemma first_passes_level:
  assumes "allowed_levels sm" "tn_level n = - 1"
  shows "tn_level (level_ot (level_public ip (level_broadcast ip (level_by_subnet sm ip n)))) \<in> {- 1 .. 5}"
proof -
  have "tn_level (level_by_subnet sm ip n) \<in> {- 1 .. 5}"
    using assms mapped_level_allowed [OF assms(1)] by (fastforce simp: level_by_subnet_def split: option.split)
  then show ?thesis by (auto simp: level_ot_def level_public_def level_broadcast_def)
qed

lemma level_it_level: "seen n \<Longrightarrow> tn_level n \<in> {- 1 .. 5} \<Longrightarrow> 0 \<le> tn_level (level_it near n) \<and> tn_level (level_it near n) \<le> 5"
  by (auto simp: level_it_def seen_def)

definition fresh_levels :: "nodes \<Rightarrow> bool" where
  "fresh_levels ns \<longleftrightarrow> (\<forall>k n. (k, n) \<in> set ns \<longrightarrow> tn_level n = - 1 \<and> tn_role n = unknown_text)"

lemma fresh_levels_simps [simp]: "fresh_levels []" by (simp add: fresh_levels_def)

lemma fresh_set: "fresh_levels ns \<Longrightarrow> tn_level n = - 1 \<Longrightarrow> tn_role n = unknown_text \<Longrightarrow> fresh_levels (dict_set k n ns)"
  unfolding fresh_levels_def using set_update_sub by fastforce

lemma fresh_get: "fresh_levels ns \<Longrightarrow> dict_get ns k = Some n \<Longrightarrow> tn_level n = - 1 \<and> tn_role n = unknown_text"
  unfolding fresh_levels_def by (blast dest: map_of_SomeD)

lemma fresh_touch:
  assumes "fresh_levels ns" "tn_level fresh = - 1" "tn_role fresh = unknown_text"
    and "\<And>n. tn_level (f n) = tn_level n \<and> tn_role (f n) = tn_role n"
  shows "fresh_levels (touch_node k fresh f ns)"
  using assms fresh_get [OF assms(1)] by (auto simp: touch_node_def intro!: fresh_set split: option.split)

lemma fresh_see: "fresh_levels ns \<Longrightarrow> fresh_levels (see_nodes fr c ns)"
  unfolding see_nodes_def Let_def
  by (intro fresh_touch) (auto simp: new_node_def see_source_def see_destination_def see_host_def see_neighbour_def Let_def)

lemma fresh_map: "fresh_levels ns \<Longrightarrow> (\<And>k n. tn_level (f k n) = tn_level n \<and> tn_role (f k n) = tn_role n) \<Longrightarrow>
  fresh_levels (map (\<lambda>(k, n). (k, f k n)) ns)"
  by (auto simp: fresh_levels_def)

lemma fresh_merge: "fresh_levels (tp_nodes t) \<Longrightarrow> fresh_levels (tp_nodes (merge_node m2i k t))"
proof -
  assume a: "fresh_levels (tp_nodes t)"
  have pop: "fresh_levels ns \<Longrightarrow> fresh_levels (dict_pop k ns)" for ns by (auto simp: fresh_levels_def set_dict_pop)
  show ?thesis
    using a fresh_get [OF a] by (auto simp: merge_node_def Let_def absorb_node_def intro!: pop fresh_set split: option.split)
qed

lemma fresh_backfill: "fresh_levels ns \<Longrightarrow> fresh_levels (backfill_mac mi ns)"
  using fresh_get by (auto simp: backfill_mac_def intro!: fresh_set split: prod.split option.split)

lemma fresh_built: "fresh_levels (tp_nodes (built_graph fr skip convs))"
proof -
  have "fresh_levels (add_services pm (fold (see_nodes fr) convs []))" for pm
    unfolding add_services_def by (rule fresh_map) (auto intro: fold_invariant [where P = fresh_levels] fresh_see split: option.split)
  then show ?thesis
    by (auto simp: built_graph_def build_graph_def merge_l2_nodes_def Let_def
        intro!: fold_invariant [where P = fresh_levels] fold_invariant [where P = "\<lambda>t. fresh_levels (tp_nodes t)"] fresh_backfill fresh_merge)
qed

lemma in_levels_stage:
  assumes "in_levels 0 5 t"
  shows "in_levels 0 5 (each_node rank_node (assign_roles (fingerprint_vendors db t)))"
proof -
  have "tn_level (assign_role t ip n) = tn_level n \<or> tn_level (assign_role t ip n) = 1" for t ip n
    by (auto simp: assign_role_def named_def type_if_unknown_def as_engineering_def switch_by_name_def Let_def split: option.split)
  then have "0 \<le> tn_level n \<and> tn_level n \<le> 5 \<Longrightarrow> 0 \<le> tn_level (assign_role t ip n) \<and> tn_level (assign_role t ip n) \<le> 5" for t ip n
    by (metis one_le_numeral zero_le_one)
  moreover have "tn_level (fingerprint_node db sent received n) = tn_level n" for sent received n
    using cosmetic_fingerprint unfolding cosmetic_def by blast
  ultimately show ?thesis
    unfolding assign_roles_def fingerprint_vendors_def
    by (intro in_levels_each assms) (simp_all add: rank_node_def)
qed

text \<open>
  C32. Every node of a topology has one of the levels 0 to 5, if the subnet map names such levels: the
  level -1 that broadcast and multicast addresses are given does not survive the later passes.
\<close>

theorem levels_always_assigned:
  assumes "allowed_levels sm"
  shows "in_levels 0 5 (build_topology fr db sm skip convs)"
proof -
  have "in_levels 0 5 (infer_purdue_levels sm (built_graph fr skip convs))"
    using built_graph_ok [of fr skip convs] fresh_built [of fr skip convs] first_passes_level [OF assms] level_it_level
      harmless_levels(1)
    by (fastforce simp: in_levels_def infer_purdue_levels_def Let_def each_node_def list_all_iff nodes_ok_def fresh_levels_def node_ok_def
        seen_def harmless_def)
  then show ?thesis unfolding build_topology_def by (rule in_levels_stage)
qed

theorem levels_always_assigned_witness:
  "in_levels 0 5 (build_topology (\<lambda>_. []) [] [(''10.0.0.0/8'', 2)] False [blank_conversation\<lparr>cv_src_ip := ''10.0.0.1'', cv_dst_ip := ''239.192.0.1''\<rparr>])"
  by (rule levels_always_assigned) (simp add: allowed_levels_def)

section \<open>Roles\<close>

text \<open>The roles the stage gives; a switch or router may carry its name in brackets.\<close>

definition assigned_roles :: "string list" where
  "assigned_roles = [''Broadcast/Multicast'', ''External Host'', ''Network Switch'', ''Router'', ''Network Infrastructure'', ''PLC'',
     ''HMI/SCADA'', ''Supervisory Controller'', ''Protective Relay'', ''Field Device'', ''RTU'', ''Application Server'', ''RTU/PLC'',
     ''Building Controller'', ''Engineering Workstation'', ''Historian/MES'', ''Security Appliance'', ''Industrial Appliance'',
     ''Operations Workstation'', ''Data Server'', ''Infrastructure Server'', ''Operations Host'', ''Enterprise Server'',
     ''Enterprise Workstation'', ''Enterprise Host'', ''Unknown'']"

definition engine_role :: "string \<Rightarrow> bool" where
  "engine_role r \<longleftrightarrow> r \<in> set assigned_roles \<or> py_startswith r ''Network Switch ('' \<or> py_startswith r ''Router (''"

lemma role_text: "r \<in> set assigned_roles \<Longrightarrow> engine_role r"
  by (simp add: engine_role_def)

lemma elif_all: "list_all (\<lambda>bx. P (snd bx)) xs \<Longrightarrow> P d \<Longrightarrow> P (elif_chain xs d)"
  by (induction xs d rule: elif_chain.induct) auto

definition good_verdict :: "verdict \<Rightarrow> bool" where
  "good_verdict v \<longleftrightarrow> fst v \<in> set assigned_roles"

lemma good_ied: "good_verdict (ied_verdict b)"
  by (simp add: good_verdict_def ied_verdict_def assigned_roles_def)

lemma good_field: "good_verdict (field_verdict h n)"
  unfolding field_verdict_def Let_def
  by (rule elif_all [where P = good_verdict]) (simp add: good_ied, simp_all add: good_verdict_def assigned_roles_def)

lemma good_supervisory: "good_verdict (supervisory_verdict h n)"
  unfolding supervisory_verdict_def
  by (rule elif_all [where P = good_verdict]) (simp add: good_ied, simp_all add: good_verdict_def assigned_roles_def)

lemma good_operations: "good_verdict (operations_verdict h n)"
  unfolding operations_verdict_def
  by (rule elif_all [where P = good_verdict]) (simp_all add: good_verdict_def assigned_roles_def)

lemma good_enterprise: "good_verdict (enterprise_verdict h n)"
  unfolding enterprise_verdict_def
  by (rule elif_all [where P = good_verdict]) (simp_all add: good_verdict_def assigned_roles_def)

lemma good_levels: "good_verdict (level_verdict h n)"
  unfolding level_verdict_def
  by (rule elif_all [where P = good_verdict])
    (simp_all add: good_field good_supervisory good_operations good_enterprise, simp_all add: good_verdict_def assigned_roles_def unknown_text_def)

lemma good_identity: "identity_verdict h n = Some v \<Longrightarrow> good_verdict v"
proof -
  have "case identity_verdict h n of None \<Rightarrow> True | Some v \<Rightarrow> good_verdict v"
    unfolding identity_verdict_def
    by (rule elif_all [where P = "\<lambda>r. case r of None \<Rightarrow> True | Some v \<Rightarrow> good_verdict v"])
      (simp_all add: good_ied, simp_all add: good_verdict_def assigned_roles_def)
  then show "identity_verdict h n = Some v \<Longrightarrow> good_verdict v" by simp
qed

lemma good_named: "good_verdict v \<Longrightarrow> engine_role (tn_role (named v n))"
  by (simp add: named_def type_if_unknown_def good_verdict_def role_text)

lemma engineering_role: "engine_role (tn_role n) \<Longrightarrow> engine_role (tn_role (as_engineering h n))"
  by (simp add: as_engineering_def) (simp add: role_text assigned_roles_def)

lemma bracketed_role: "engine_role (bracketed ''Network Switch'' name)" "engine_role (bracketed ''Router'' name)"
  by (simp_all add: bracketed_def engine_role_def py_startswith_def assigned_roles_def)

lemma assigned_role: "engine_role (tn_role n) \<Longrightarrow> engine_role (tn_role (assign_role t ip n))"
proof -
  assume a: "engine_role (tn_role n)"
  have infra: "good_verdict (''Network Infrastructure'', ''Switch/Gateway'')" by (simp add: good_verdict_def assigned_roles_def)
  show ?thesis
    using a good_named [OF infra] good_identity
    by (auto simp: assign_role_def Let_def bracketed_role good_named good_levels engineering_role split: option.split)
qed

definition roles_ok :: "topo \<Rightarrow> bool" where
  "roles_ok t \<longleftrightarrow> list_all (\<lambda>(_, n). engine_role (tn_role n)) (tp_nodes t)"

lemma roles_each: "roles_ok t \<Longrightarrow> (\<And>k n. engine_role (tn_role n) \<Longrightarrow> engine_role (tn_role (f k n))) \<Longrightarrow> roles_ok (each_node f t)"
  by (fastforce simp: roles_ok_def each_node_def list_all_iff)

lemma infer_roles: "engine_role (tn_role n) \<Longrightarrow>
  engine_role (tn_role (level_ot (level_public ip (level_broadcast ip (level_by_subnet sm ip n)))))"
proof -
  have "engine_role ''Broadcast/Multicast''" "engine_role ''External Host''" by (simp_all add: role_text assigned_roles_def)
  then show "engine_role (tn_role n) \<Longrightarrow> ?thesis"
    by (auto simp: level_ot_def level_public_def level_broadcast_def level_by_subnet_def split: option.split)
qed

lemma roles_lemma: "roles_ok (build_topology fr db sm skip convs)"
proof -
  have "roles_ok (built_graph fr skip convs)"
    using fresh_built [of fr skip convs]
    by (auto simp: roles_ok_def fresh_levels_def list_all_iff role_text assigned_roles_def unknown_text_def)
  then have "roles_ok (infer_purdue_levels sm (built_graph fr skip convs))"
    unfolding infer_purdue_levels_def Let_def by (intro roles_each infer_roles) (simp_all add: level_it_def)
  moreover have "tn_role (fingerprint_node db sent received n) = tn_role n" for sent received n
    using cosmetic_fingerprint unfolding cosmetic_def by blast
  ultimately show ?thesis
    unfolding build_topology_def assign_roles_def fingerprint_vendors_def
    by (intro roles_each assigned_role) (simp_all add: rank_node_def)
qed

text \<open>
  C30. The role of every node of a topology is one of 26 texts, or names a switch or router in brackets;
  \<open>Programmable Logic Controller\<close> and \<open>Human-Machine Interface\<close> are not among them.
\<close>

theorem roles_known: "list_all (\<lambda>(_, n). engine_role (tn_role n)) (tp_nodes (build_topology fr db sm skip convs))"
  using roles_lemma unfolding roles_ok_def .

section \<open>The subnet map\<close>

lemma find_sorted:
  assumes "find P (sort_key f xs) = Some x" "y \<in> set xs" "P y"
  shows "P x \<and> x \<in> set xs \<and> f x \<le> f y"
proof -
  obtain i where i: "i < length (sort_key f xs)" "P (sort_key f xs ! i)" "x = sort_key f xs ! i" "\<forall>j < i. \<not> P (sort_key f xs ! j)"
    using assms(1) by (auto simp: find_Some_iff)
  have "y \<in> set (sort_key f xs)" using assms(2) by simp
  then obtain j where j: "j < length (sort_key f xs)" "y = sort_key f xs ! j" by (metis in_set_conv_nth)
  have "i \<le> j" using i(4) assms(3) j(2) by (metis not_le_imp_less)
  then have "map f (sort_key f xs) ! i \<le> map f (sort_key f xs) ! j"
    using j(1) by (intro sorted_nth_mono) simp_all
  then have "f x \<le> f y" unfolding i(3) j(2) using i(1) j(1) by (simp only: nth_map)
  moreover have "x \<in> set xs" using nth_mem [OF i(1)] i(3) by simp
  ultimately show ?thesis using i(2,3) by simp
qed

lemma longest_subnet:
  assumes "(s, l) \<in> set sm" "ip_in_subnet ip s"
    and "\<And>s' l'. (s', l') \<in> set sm \<Longrightarrow> ip_in_subnet ip s' \<Longrightarrow> (s', l') \<noteq> (s, l) \<Longrightarrow> subnet_prefixlen s' < subnet_prefixlen s"
  shows "mapped_level sm ip = Some l"
proof -
  let ?P = "\<lambda>(s, _). ip_in_subnet ip s" and ?f = "\<lambda>(s, _ :: int). - subnet_prefixlen s"
  have "find ?P (sort_key ?f sm) \<noteq> None" using assms(1,2) by (auto simp: find_None_iff)
  then obtain x where x: "find ?P (sort_key ?f sm) = Some x" by auto
  then have "?P x \<and> x \<in> set sm \<and> ?f x \<le> ?f (s, l)" using assms(1,2) by (intro find_sorted) auto
  then have inside: "ip_in_subnet ip (fst x)" "(fst x, snd x) \<in> set sm" "subnet_prefixlen s \<le> subnet_prefixlen (fst x)"
    by (simp_all add: case_prod_unfold)
  have "x = (s, l)"
  proof (rule ccontr)
    assume "x \<noteq> (s, l)"
    then have "(fst x, snd x) \<noteq> (s, l)" by simp
    then have "subnet_prefixlen (fst x) < subnet_prefixlen s" using assms(3) inside(1,2) by blast
    with inside(3) show False by simp
  qed
  with x show ?thesis by (simp add: mapped_level_def ordered_subnets_def)
qed

text \<open>
  C24. When a subnet map gives a level to the longest of the subnets that contain the address of a node,
  strictly longer than the others, then the level pass gives that level to the node, in whatever
  order the file lists the subnets: provided that the node has no level yet, is not a broadcast
  address, and the level is not -1, which the map cannot tell from unknown.
\<close>

theorem longest_subnet_decides:
  assumes "(ip, n) \<in> set (tp_nodes t)" "tn_level n = - 1" "\<not> is_broadcast ip"
    and "(s, l) \<in> set sm" "ip_in_subnet ip s" "l \<noteq> - 1"
    and "\<And>s' l'. (s', l') \<in> set sm \<Longrightarrow> ip_in_subnet ip s' \<Longrightarrow> (s', l') \<noteq> (s, l) \<Longrightarrow> subnet_prefixlen s' < subnet_prefixlen s"
  shows "\<exists>n'. (ip, n') \<in> set (tp_nodes (infer_purdue_levels sm t)) \<and> tn_level n' = l"
proof -
  let ?f = "\<lambda>ip n. level_ot (level_public ip (level_broadcast ip (level_by_subnet sm ip n)))"
  let ?ts = "each_node ?f t"
  let ?near = "talks_to (ot_keys ?ts) ?ts ip"
  have "mapped_level sm ip = Some l" using longest_subnet assms(4,5,7) by blast
  then have "tn_level (?f ip n) = l" "tn_level (level_it ?near (?f ip n)) = l"
    using assms(3,6) by (simp_all add: level_by_subnet_def level_broadcast_def level_public_def level_ot_def level_it_def)
  moreover have "(ip, level_it ?near (?f ip n)) \<in> set (tp_nodes (infer_purdue_levels sm t))"
    using assms(1) by (force simp: infer_purdue_levels_def Let_def each_node_def)
  ultimately show ?thesis by blast
qed

definition demo_map :: "(string \<times> int) list" where
  "demo_map = [(''10.0.0.0/8'', 4), (''10.5.0.0/255.255.0.0'', 1)]"

lemma demo_subnets: "ip_in_subnet ''10.5.0.7'' ''10.5.0.0/255.255.0.0''" "subnet_prefixlen ''10.0.0.0/8'' < subnet_prefixlen ''10.5.0.0/255.255.0.0''"
  "\<not> is_broadcast ''10.5.0.7''"
  by code_simp+

theorem longest_subnet_decides_witness:
  "\<exists>n'. (''10.5.0.7'', n') \<in> set (tp_nodes (infer_purdue_levels demo_map
     \<lparr>tp_nodes = [(''10.5.0.7'', new_node ''10.5.0.7'' [])], tp_edges = [], tp_by_src = [], tp_by_dst = []\<rparr>)) \<and> tn_level n' = 1"
  using demo_subnets
  by (intro longest_subnet_decides [where n = "new_node ''10.5.0.7'' []" and s = "''10.5.0.0/255.255.0.0''"])
    (auto simp: demo_map_def new_node_def)

end
