(* ===== verification/TopologyEnds.thy ===== *)
theory TopologyEnds
  imports TopologySafety
begin

text \<open>
  The ends of the edges. After the graph they are nodes; the merge of nodes known by their MAC
  keeps that for IPv4 captures. A switch that is managed over IPv6 merges with itself and is lost.
\<close>

section \<open>The graph\<close>

definition ends_in :: "string set \<Rightarrow> tedge list \<Rightarrow> bool" where
  "ends_in K es \<longleftrightarrow> list_all (\<lambda>e. te_src e \<in> K \<and> te_dst e \<in> K) es"

definition keys :: "nodes \<Rightarrow> string set" where
  "keys ns = fst ` set ns"

lemma keys_set [simp]: "keys (dict_set k n ns) = insert k (keys ns)"
  by (simp add: keys_def dom_map_of_conv_image_fst [symmetric] update_conv' )

lemma keys_pop [simp]: "keys (dict_pop k ns) = keys ns - {k}"
  by (auto simp: keys_def set_dict_pop)

lemma keys_map [simp]: "keys (map (\<lambda>(k, n). (k, f k n)) ns) = keys ns"
  by (force simp: keys_def)

lemma keys_touch [simp]: "keys (touch_node k fresh f ns) = insert k (keys ns)"
  by (simp add: touch_node_def)

lemma keys_see: "keys (see_nodes fr c ns) = insert (src_key c) (insert (dst_key c) (keys ns))"
  by (auto simp: see_nodes_def Let_def)

lemma keys_fold_see: "keys (fold (see_nodes fr) convs ns) = keys ns \<union> src_key ` set convs \<union> dst_key ` set convs"
  by (induction convs arbitrary: ns) (auto simp: keys_see)

lemma keys_get: "dict_get ns k \<noteq> None \<longleftrightarrow> k \<in> keys ns"
  by (simp add: keys_def dict_get_exists)

lemma set_update: "(k, v) \<in> set (dict_set j w d) \<Longrightarrow> v = w \<or> (k, v) \<in> set d"
  by (induction d) (auto split: if_splits)

lemma ends_update: "ends_in K (map snd es) \<Longrightarrow> te_src e \<in> K \<and> te_dst e \<in> K \<Longrightarrow> ends_in K (map snd (dict_set k e es))"
  unfolding ends_in_def list_all_iff using set_update by fastforce

lemma ends_see: "src_key c \<in> K \<Longrightarrow> dst_key c \<in> K \<Longrightarrow> ends_in K (map snd es) \<Longrightarrow> ends_in K (map snd (see_edge skip c es))"
proof -
  assume a: "src_key c \<in> K" "dst_key c \<in> K" "ends_in K (map snd es)"
  have "te_src e \<in> K \<and> te_dst e \<in> K" if "dict_get es (edge_key c) = Some e" for e
    using a(3) map_of_SomeD [OF that] by (force simp: ends_in_def list_all_iff)
  then show ?thesis
    using a by (cases "dict_get es (edge_key c)") (auto simp: see_edge_def new_edge_def merge_edge_def intro!: ends_update)
qed

lemma edge_ends:
  "src_key ` set convs \<union> dst_key ` set convs \<subseteq> K \<Longrightarrow> ends_in K (map snd es) \<Longrightarrow> ends_in K (map snd (fold (see_edge skip) convs es))"
  by (induction convs arbitrary: es) (simp_all add: ends_see)

lemma graph_ends: "ends_in (keys (fst (build_graph fr skip convs))) (snd (build_graph fr skip convs))"
  unfolding build_graph_def fst_conv snd_conv add_services_def keys_map keys_fold_see
  by (rule edge_ends) (auto simp: ends_in_def)

section \<open>Merging\<close>

definition plain :: "string \<Rightarrow> bool" where
  "plain s \<longleftrightarrow> CHR '':'' \<notin> set s"

text \<open>No address of the conversation, nor the address its sender is managed at, is an IPv6 address.\<close>

definition ipv4_only :: "conversation \<Rightarrow> bool" where
  "ipv4_only c \<longleftrightarrow> plain (cv_src_ip c) \<and> plain (cv_dst_ip c) \<and> plain (text_at (cv_l2 c) ''mgmt_ip'')"

definition managed_plain :: "nodes \<Rightarrow> bool" where
  "managed_plain ns \<longleftrightarrow> (\<forall>(k, n) \<in> set ns. plain (tn_mgmt n))"

lemma plain_Nil [simp]: "plain []" by (simp add: plain_def)

lemma managed_get: "managed_plain ns \<Longrightarrow> dict_get ns k = Some n \<Longrightarrow> plain (tn_mgmt n)"
  unfolding managed_plain_def by (blast dest: map_of_SomeD)

lemma managed_set: "managed_plain ns \<Longrightarrow> plain (tn_mgmt n) \<Longrightarrow> managed_plain (dict_set k n ns)"
  unfolding managed_plain_def by (induction ns) (auto split: if_splits)

lemma managed_touch:
  assumes "managed_plain ns" "plain (tn_mgmt fresh)" "\<And>n. plain (tn_mgmt n) \<Longrightarrow> plain (tn_mgmt (f n))"
  shows "managed_plain (touch_node k fresh f ns)"
  using assms managed_get [OF assms(1)] by (auto simp: touch_node_def intro!: managed_set split: option.split)

lemma managed_see: "ipv4_only c \<Longrightarrow> managed_plain ns \<Longrightarrow> managed_plain (see_nodes fr c ns)"
  unfolding see_nodes_def Let_def
  by (intro managed_touch)
    (auto simp: new_node_def see_source_def see_destination_def see_host_def see_neighbour_def Let_def ipv4_only_def or_else_def)

lemma managed_fold: "list_all ipv4_only convs \<Longrightarrow> managed_plain ns \<Longrightarrow> managed_plain (fold (see_nodes fr) convs ns)"
  by (induction convs arbitrary: ns) (auto intro: managed_see)

lemma managed_graph: "list_all ipv4_only convs \<Longrightarrow> managed_plain (fst (build_graph fr skip convs))"
proof -
  assume "list_all ipv4_only convs"
  then have "managed_plain (fold (see_nodes fr) convs [])" by (rule managed_fold) (simp add: managed_plain_def)
  then show ?thesis by (fastforce simp: build_graph_def add_services_def managed_plain_def split: option.split)
qed

definition plain_values :: "(string, string) dict \<Rightarrow> bool" where
  "plain_values d \<longleftrightarrow> (\<forall>(k, ip) \<in> set d. plain ip)"

lemma note_plain: "plain ip \<Longrightarrow> plain_values d \<Longrightarrow> plain_values (note_mac mac ip d)"
proof -
  have "plain ip \<Longrightarrow> plain_values d \<Longrightarrow> plain_values (dict_set k ip d)" for k
    unfolding plain_values_def by (induction d) (auto split: if_splits)
  then show "plain ip \<Longrightarrow> plain_values d \<Longrightarrow> ?thesis" by (simp add: note_mac_def)
qed

lemma mac_to_ip_plain: "list_all ipv4_only convs \<Longrightarrow> plain_values (mac_to_ip convs)"
proof -
  have "list_all ipv4_only convs \<Longrightarrow> plain_values d \<Longrightarrow>
    plain_values (fold (\<lambda>c m. note_mac (cv_dst_mac c) (cv_dst_ip c) (note_mac (cv_src_mac c) (cv_src_ip c) m)) convs d)" for d
    by (induction convs arbitrary: d) (auto simp: ipv4_only_def intro: note_plain)
  from this [of "[]"] show "list_all ipv4_only convs \<Longrightarrow> ?thesis" unfolding mac_to_ip_def by (simp add: plain_values_def)
qed

definition proper :: "topo \<Rightarrow> bool" where
  "proper t \<longleftrightarrow> managed_plain (tp_nodes t) \<and> ends_in (keys (tp_nodes t)) (tp_edges t)"

lemma target_plain: "plain_values m2i \<Longrightarrow> plain (tn_mgmt m) \<Longrightarrow> plain (merge_target m2i k m)"
proof -
  assume "plain_values m2i" "plain (tn_mgmt m)"
  moreover from this have "dict_get m2i j = Some ip \<Longrightarrow> plain ip" for j ip by (auto simp: plain_values_def dest: map_of_SomeD)
  ultimately show ?thesis by (auto simp: merge_target_def or_else_def split: option.split)
qed

lemma rekey_ends: "ends_in K es \<Longrightarrow> k \<noteq> ip \<Longrightarrow> ends_in (insert ip K - {k}) (map (rekey_edge k ip) es)"
  by (auto simp: ends_in_def list_all_iff rekey_edge_def)

lemma merge_proper:
  assumes "proper t" "plain_values m2i" "\<not> plain k"
  shows "proper (merge_node m2i k t)"
proof (cases "dict_get (tp_nodes t) k")
  case None
  then show ?thesis using assms(1) by (simp add: merge_node_def)
next
  case (Some m)
  let ?ip = "merge_target m2i k m"
  have m: "plain (tn_mgmt m)" using assms(1) Some managed_get unfolding proper_def by blast
  then have ne: "k \<noteq> ?ip" using target_plain assms(2,3) by metis
  show ?thesis
  proof (cases "?ip = [] \<or> dict_get (tp_nodes t) ?ip = None")
    case True
    then show ?thesis using assms(1) Some by (auto simp: merge_node_def Let_def)
  next
    case False
    then obtain n where n: "dict_get (tp_nodes t) ?ip = Some n" by auto
    have "plain (tn_mgmt (absorb_node m n))"
      using m managed_get [OF _ n] assms(1) by (simp add: proper_def absorb_node_def or_else_def)
    then have "managed_plain (dict_set ?ip (absorb_node m n) (tp_nodes t))" using assms(1) by (simp add: proper_def managed_set)
    moreover have "managed_plain ns \<Longrightarrow> managed_plain (dict_pop k ns)" for ns by (auto simp: managed_plain_def set_dict_pop)
    ultimately show ?thesis
      using assms(1) Some n False ne rekey_ends [OF _ ne] by (simp add: merge_node_def Let_def proper_def)
  qed
qed

lemma merge_all_proper: "proper t \<Longrightarrow> plain_values m2i \<Longrightarrow> list_all (\<lambda>k. \<not> plain k) ks \<Longrightarrow> proper (fold (merge_node m2i) ks t)"
  by (induction ks arbitrary: t) (simp_all add: merge_proper)

lemma backfill_keys: "keys (fold backfill_mac ms ns) = keys ns"
proof -
  have "keys (backfill_mac mi ns) = keys ns" for mi ns
    using keys_get [of ns] by (auto simp: backfill_mac_def split: prod.split option.split)
  then show ?thesis by (induction ms arbitrary: ns) simp_all
qed

lemma merged_ends:
  assumes "list_all ipv4_only convs" "managed_plain ns" "ends_in (keys ns) es"
  shows "let t = merge_l2_nodes convs \<lparr>tp_nodes = ns, tp_edges = es, tp_by_src = i, tp_by_dst = j\<rparr> in ends_in (keys (tp_nodes t)) (tp_edges t)"
proof -
  let ?t = "\<lparr>tp_nodes = ns, tp_edges = es, tp_by_src = i, tp_by_dst = j\<rparr>"
  have "list_all (\<lambda>k. \<not> plain k) (mac_keys ns)" by (simp add: mac_keys_def plain_def list_all_iff)
  then have "proper (fold (merge_node (mac_to_ip convs)) (mac_keys ns) ?t)"
    using assms mac_to_ip_plain by (intro merge_all_proper) (simp_all add: proper_def)
  then show ?thesis by (simp add: merge_l2_nodes_def Let_def proper_def backfill_keys)
qed

lemma each_node_graph [simp]: "keys (tp_nodes (each_node f t)) = keys (tp_nodes t)" "tp_edges (each_node f t) = tp_edges t"
  by (simp_all add: each_node_def)

lemma stage_keys: "keys (tp_nodes (build_topology fr db sm skip convs)) = keys (tp_nodes (built_graph fr skip convs))"
  "tp_edges (build_topology fr db sm skip convs) = tp_edges (built_graph fr skip convs)"
  by (simp_all add: build_topology_def assign_roles_def fingerprint_vendors_def infer_purdue_levels_def Let_def)

text \<open>
  C13. If no conversation has an IPv6 address, neither as an end nor as the management address that its
  sender announces (no such text has a colon), both ends of every edge of the topology are nodes
  of it, also after the merging of link-layer nodes.
\<close>

theorem edges_end_in_nodes:
  assumes "list_all ipv4_only convs"
  shows "let t = build_topology fr db sm skip convs in ends_in (keys (tp_nodes t)) (tp_edges t)"
proof -
  obtain ns es where g: "build_graph fr skip convs = (ns, es)" by (cases "build_graph fr skip convs")
  then have "managed_plain ns" "ends_in (keys ns) es"
    using managed_graph [OF assms, of fr skip] graph_ends [of fr skip convs] by simp_all
  then show ?thesis using merged_ends [OF assms] unfolding Let_def stage_keys by (simp add: built_graph_def g)
qed

definition lldp :: "string \<Rightarrow> conversation" where
  "lldp mgmt = blank_conversation\<lparr>cv_src_mac := ''aa:00'', cv_dst_mac := ''01:80'', cv_protocol := ''LLDP'',
     cv_l2 := [(''source'', PStr ''lldp''), (''mgmt_ip'', PStr mgmt)]\<rparr>"

definition ping :: "string \<Rightarrow> string \<Rightarrow> conversation" where
  "ping src dst = blank_conversation\<lparr>cv_src_ip := src, cv_dst_ip := dst, cv_protocol := ''ICMP''\<rparr>"

theorem edges_end_in_nodes_witness:
  "let t = build_topology (\<lambda>_. []) [] [] False [lldp ''10.0.0.2'', ping ''10.0.0.9'' ''10.0.0.2''] in ends_in (keys (tp_nodes t)) (tp_edges t)"
  by (rule edges_end_in_nodes)
    (simp add: lldp_def ping_def blank_conversation_def ipv4_only_def plain_def text_at_def obj_get_def)

text \<open>
  A switch whose LLDP frames announce an IPv6 management address that also appears as a node: the
  management node inherits the address, is taken for a MAC for its colons, merges with itself and is
  deleted; the edge to it stays.
\<close>

theorem ipv6_managed_switch_lost:
  "let t = built_graph (\<lambda>_. []) False [lldp ''fd00::2'', ping ''10.0.0.9'' ''fd00::2''] in
     map fst (tp_nodes t) = [''01:80'', ''10.0.0.9''] \<and> (''10.0.0.9'', ''fd00::2'') \<in> set (map (\<lambda>e. (te_src e, te_dst e)) (tp_edges t))"
  by code_simp

end
