(* ===== verification/Risk.thy ===== *)
theory Risk
  imports EngineData
begin

text \<open>
  The risk stage of \<open>marlinspike/engine.py\<close>, the class \<open>RiskSurface\<close>: the checks over nodes, edges
  and conversations, the command-and-control indicators, the ranking of targets and the storyboard.
  A finding keeps its severity, category, nodes and the pairs of its edges; descriptions and
  remediations are texts made of the same fields and are left out. The order in which Python
  lists a set is not specified; the model lists first occurrences.
\<close>

section \<open>Tables\<close>

definition auth_capable :: "string list" where
  "auth_capable = [''amqp'', ''cip'', ''dnp3'', ''ethernet/ip'', ''ftp'', ''http'', ''http-alt'', ''https'', ''https-alt'', ''iec 60870-5-104'',
     ''kerberos'', ''ldap'', ''ldaps'', ''modbus tcp'', ''mqtt'', ''mqtt tls'', ''mssql'', ''mysql'', ''opc-ua'', ''oracle'',
     ''postgresql'', ''rdp'', ''s7comm'', ''sip'', ''sip tls'', ''smb'', ''snmp'', ''snmp trap'', ''ssh'', ''telnet'', ''tftp'',
     ''vnc'', ''winrm http'', ''winrm https'']"

text \<open>The catalogue of findings: the severity each category is documented with.\<close>

definition catalogue :: "(string \<times> string) list" where
  "catalogue = [(''CROSS_PURDUE'', ''HIGH''), (''CLEARTEXT_ENG'', ''HIGH''), (''MODBUS_WRITE_ANON'', ''HIGH''), (''NO_AUTH_OBSERVED'',
     ''MEDIUM''), (''BROADCAST_STORM'', ''MEDIUM''), (''CIP_IDENTITY_OPEN'', ''INFO''), (''OPC_NO_SECURITY'', ''HIGH''),
     (''S7_PROGRAM_ACCESS'', ''CRITICAL''), (''BACNET_UNAUTH_WRITE'', ''HIGH''), (''PROFINET_DCP_SET'', ''HIGH''),
     (''DNP3_UNAUTH_CONTROL'', ''HIGH''), (''CIP_LADDER_LOGIC_CHANGE'', ''CRITICAL''), (''MODBUS_WRITE_PLC'', ''HIGH''),
     (''DNP3_CONFIG_CHANGE'', ''HIGH''), (''OT_CONFIG_WRITE'', ''HIGH''), (''PLC_MODE_SHIFT_DETECTED'', ''CRITICAL''),
     (''ROGUE_ASSET_DISCOVERED'', ''HIGH''), (''DUAL_HOMED_ENDPOINT_SUSPECT'', ''HIGH''), (''PURDUE_ZONE_LEAK'', ''HIGH''),
     (''LATERAL_MOVEMENT_SUSPECT'', ''CRITICAL''), (''OT_POLLING_BURST_ANOMALY'', ''MEDIUM''), (''WEAK_TLS_CIPHER_OBSERVED'',
     ''MEDIUM''), (''EXPIRED_TLS_CERTIFICATE'', ''HIGH''), (''SELF_SIGNED_TLS_CERTIFICATE'', ''MEDIUM''),
     (''MALFORMED_INDUSTRIAL_FRAME'', ''HIGH'')]"

section \<open>Findings\<close>

record risk =
  rf_severity :: string
  rf_category :: string
  rf_nodes :: "string list"
  rf_edges :: "(string \<times> string) list"

definition risk :: "string \<Rightarrow> string \<Rightarrow> string list \<Rightarrow> (string \<times> string) list \<Rightarrow> risk" where
  "risk sev cat ns es = \<lparr>rf_severity = sev, rf_category = cat, rf_nodes = ns, rf_edges = es\<rparr>"

definition ends :: "conversation \<Rightarrow> string list" where
  "ends c = [src_key c, dst_key c]"

text \<open>\<open>list(set([sources] + [destinations]))\<close>.\<close>

definition all_ends :: "conversation list \<Rightarrow> string list" where
  "all_ends cs = remdups (map src_key cs @ map dst_key cs)"

definition node_key :: "tnode \<Rightarrow> string" where
  "node_key n = (if tn_ip n \<noteq> [] then tn_ip n else tn_mac n)"

definition index_nodes :: "tnode list \<Rightarrow> nodes" where
  "index_nodes ns = fold (\<lambda>n. dict_set (node_key n) n) ns []"

text \<open>\<open>RiskSurface._is_public_ip\<close>.\<close>

definition risk_public :: "string \<Rightarrow> bool" where
  "risk_public s \<longleftrightarrow> (case ip_address s of None \<Rightarrow> False | Some a \<Rightarrow> is_global a)"

definition public_end :: "string \<Rightarrow> bool" where
  "public_end ip \<longleftrightarrow> ip \<noteq> [] \<and> risk_public ip"

section \<open>Zones\<close>

text \<open>The exposed key and the outside address of a conversation between an OT node and a public one.\<close>

definition exposure :: "string list \<Rightarrow> conversation \<Rightarrow> (string \<times> string) option" where
  "exposure ot c =
     (if src_key c \<in> set ot \<and> public_end (cv_dst_ip c) then Some (src_key c, cv_dst_ip c)
      else if dst_key c \<in> set ot \<and> public_end (cv_src_ip c) then Some (dst_key c, cv_src_ip c)
      else None)"

definition check_external_comms :: "nodes \<Rightarrow> conversation list \<Rightarrow> risk list" where
  "check_external_comms nodes convs =
     (let ot = map fst (filter (\<lambda>(_, n). list_ex (\<lambda>p. p \<in> set ot_names) (tn_protocols n)) nodes);
          hit = filter (\<lambda>c. exposure ot c \<noteq> None) convs;
          pairs = map (\<lambda>c. the (exposure ot c)) hit;
          outside = remdups (map snd pairs);
          remaining = filter (\<lambda>k. k \<notin> set outside) (map fst (filter (\<lambda>(_, n). tn_level n = 5) nodes))
      in (if hit \<noteq> [] then [risk ''CRITICAL'' ''ICS_EXTERNAL_COMMS'' (remdups (map fst pairs @ outside))
             (map (\<lambda>c. (src_key c, dst_key c)) hit)] else [])
         @ (if remaining \<noteq> [] then [risk ''INFO'' ''EXTERNAL_IPS_OBSERVED'' remaining []] else []))"

record violation =
  vi_src :: string
  vi_dst :: string
  vi_src_level :: int
  vi_dst_level :: int
  vi_protocol :: string
  vi_bytes :: int

text \<open>The edges whose ends are both known, with their levels; those that a rule rejects.\<close>

definition violations_of :: "(int \<Rightarrow> int \<Rightarrow> bool) \<Rightarrow> nodes \<Rightarrow> tedge list \<Rightarrow> violation list" where
  "violations_of bad nodes edges = concat (map (\<lambda>e. case (dict_get nodes (te_src e), dict_get nodes (te_dst e)) of
       (Some s, Some d) \<Rightarrow> if bad (tn_level s) (tn_level d)
         then [\<lparr>vi_src = te_src e, vi_dst = te_dst e, vi_src_level = tn_level s, vi_dst_level = tn_level d,
                vi_protocol = te_protocol e, vi_bytes = te_bytes e\<rparr>] else []
     | _ \<Rightarrow> []) edges)"

definition bypasses :: "int \<Rightarrow> int \<Rightarrow> bool" where
  "bypasses s d \<longleftrightarrow> (s \<in> {0, 1} \<and> d \<ge> 3) \<or> (s \<ge> 3 \<and> d \<in> {0, 1})"

definition skips_zone :: "int \<Rightarrow> int \<Rightarrow> bool" where
  "skips_zone s d \<longleftrightarrow> s \<ge> 0 \<and> d \<ge> 0 \<and> \<bar>s - d\<bar> > 1"

definition pair_of :: "violation \<Rightarrow> string \<times> string" where
  "pair_of v = (vi_src v, vi_dst v)"

definition zone_finding :: "string \<Rightarrow> violation list \<Rightarrow> risk list" where
  "zone_finding cat vs = (if vs = [] then []
     else [risk ''HIGH'' cat (remdups (concat (map (\<lambda>v. [vi_src v, vi_dst v]) vs))) (map pair_of vs)])"

definition check_cross_purdue :: "nodes \<Rightarrow> tedge list \<Rightarrow> risk list \<times> violation list" where
  "check_cross_purdue nodes edges = (let vs = violations_of bypasses nodes edges in (zone_finding ''CROSS_PURDUE'' vs, vs))"

definition check_conduit :: "nodes \<Rightarrow> tedge list \<Rightarrow> conversation list \<Rightarrow> risk list \<times> violation list" where
  "check_conduit nodes edges convs =
     (let vs = violations_of skips_zone nodes edges; writes = filter (\<lambda>c. cv_modbus_writes c > 0) convs in
      (zone_finding ''IEC62443_CONDUIT_VIOLATION'' vs
       @ (if writes \<noteq> [] then [risk ''HIGH'' ''MODBUS_WRITE_COIL'' (all_ends writes) (map (\<lambda>c. (src_key c, dst_key c)) writes)] else []), vs))"

section \<open>Commands and programs\<close>

definition over :: "string \<Rightarrow> string \<Rightarrow> conversation list \<Rightarrow> risk list" where
  "over sev cat cs = (if cs = [] then [] else [risk sev cat (all_ends cs) []])"

definition check_cleartext_engineering :: "conversation list \<Rightarrow> risk list" where
  "check_cleartext_engineering convs = over ''HIGH'' ''CLEARTEXT_ENG''
     (filter (\<lambda>c. any_in [''S7comm'', ''Modbus''] (cv_protocol c) \<and> (cv_s7_access c \<or> cv_modbus_writes c > 0)) convs)"

definition check_write_sources :: "conversation list \<Rightarrow> risk list" where
  "check_write_sources convs = (let srcs = remdups (map src_key (filter (\<lambda>c. cv_modbus_writes c > 0) convs)) in
     if length srcs > 2 then [risk ''MEDIUM'' ''MODBUS_WRITE_ANON'' srcs []] else [])"

definition check_opc_security :: "conversation list \<Rightarrow> risk list" where
  "check_opc_security convs = over ''HIGH'' ''OPC_NO_SECURITY'' (filter (\<lambda>c. contains ''OPC-UA'' (cv_protocol c) \<and> cv_opc_no_security c) convs)"

definition check_program_access :: "conversation list \<Rightarrow> risk list" where
  "check_program_access convs = over ''CRITICAL'' ''S7_PROGRAM_ACCESS'' (filter cv_s7_access convs)"

definition baseline_of :: "nodes \<Rightarrow> conversation \<Rightarrow> risk list" where
  "baseline_of nodes c = (case (dict_get nodes (src_key c), dict_get nodes (dst_key c)) of
       (Some s, Some d) \<Rightarrow>
         (if tn_role s = ''Human-Machine Interface'' \<and> (cv_s7_access c \<or> cv_modbus_writes c > 0)
          then [risk ''HIGH'' ''BASELINE_DEVIATION'' (ends c) [(src_key c, dst_key c)]] else [])
         @ (if tn_role s = ''Programmable Logic Controller'' \<and> tn_role d = ''Human-Machine Interface''
               \<and> cv_protocol c \<in> {''Modbus'', ''S7comm'', ''CIP''}
          then [risk ''MEDIUM'' ''BASELINE_DEVIATION'' (ends c) [(src_key c, dst_key c)]] else [])
     | _ \<Rightarrow> [])"

definition check_baseline_deviations :: "nodes \<Rightarrow> conversation list \<Rightarrow> risk list" where
  "check_baseline_deviations nodes convs = concat (map (baseline_of nodes) convs)"

text \<open>One finding per operation that names one of the words.\<close>

definition per_operation :: "string list \<Rightarrow> (unit \<Rightarrow> risk) \<Rightarrow> conversation \<Rightarrow> risk list" where
  "per_operation ws r c = map (\<lambda>_. r ()) (filter (\<lambda>op. any_in ws (py_lower op)) (cv_operations c))"

definition identity_findings :: "string \<Rightarrow> (string, pyval) dict \<Rightarrow> risk list" where
  "identity_findings ip ident = (if ident = [] then [] else
     (let serial = obj_get ident ''serial_number''; rev = obj_get ident ''revision'' in
      (if num_val serial = Some 0 \<or> serial \<in> {PStr ''0'', PStr ''00000000''} then [risk ''HIGH'' ''PLC_INTEGRITY'' [ip] []] else [])
      @ (case rev of PStr s \<Rightarrow> if py_startswith s ''1.'' \<or> py_startswith s ''2.'' then [risk ''HIGH'' ''PLC_INTEGRITY'' [ip] []] else [] | _ \<Rightarrow> [])))"

definition plc_conversation :: "string \<Rightarrow> conversation \<Rightarrow> risk list" where
  "plc_conversation ip c = (if cv_src_ip c \<noteq> ip \<and> cv_dst_ip c \<noteq> ip then [] else
     (let proto = py_lower (cv_protocol c) in
      identity_findings ip (cv_cip_identity c)
      @ (if any_in [''cip'', ''enip''] proto
         then per_operation [''set_attribute'', ''restore'', ''download'', ''forward_open'', ''write''] (\<lambda>_. risk ''CRITICAL'' ''CIP_LADDER_LOGIC_CHANGE'' [ip] []) c else [])
      @ (if contains ''modbus'' proto \<and> cv_modbus_writes c > 0 then [risk ''HIGH'' ''MODBUS_WRITE_PLC'' [ip] []] else [])
      @ (if contains ''dnp3'' proto
         then per_operation [''write'', ''direct_operate'', ''select'', ''cold_restart''] (\<lambda>_. risk ''HIGH'' ''DNP3_CONFIG_CHANGE'' [ip] []) c else [])
      @ (if any_in [''bacnet'', ''profinet'', ''pn_dcp''] proto
         then per_operation [''write'', ''reinitialize'', ''set'', ''reset''] (\<lambda>_. risk ''HIGH'' ''OT_CONFIG_WRITE'' [ip] []) c else [])))"

definition check_plc_integrity :: "nodes \<Rightarrow> conversation list \<Rightarrow> risk list" where
  "check_plc_integrity nodes convs = concat (map (\<lambda>(_, n). if tn_role n = ''Programmable Logic Controller'' \<and> tn_ip n \<noteq> []
     then concat (map (plc_conversation (tn_ip n)) convs) else []) nodes)"

definition advanced_of :: "conversation \<Rightarrow> risk list" where
  "advanced_of c = (let proto = py_lower (cv_protocol c) in
     (if contains ''bacnet'' proto
      then per_operation [''write'', ''reinitialize'', ''create'', ''delete''] (\<lambda>_. risk ''HIGH'' ''BACNET_UNAUTH_WRITE'' (ends c) []) c else [])
     @ (if any_in [''profinet'', ''pn_dcp''] proto
      then per_operation [''set'', ''reset'', ''flash''] (\<lambda>_. risk ''HIGH'' ''PROFINET_DCP_SET'' (ends c) []) c else [])
     @ (if contains ''dnp3'' proto
      then per_operation [''write'', ''direct_operate'', ''select'', ''restart''] (\<lambda>_. risk ''HIGH'' ''DNP3_UNAUTH_CONTROL'' (ends c) []) c else []))"

definition check_advanced_protocols :: "conversation list \<Rightarrow> risk list" where
  "check_advanced_protocols convs = concat (map advanced_of convs)"

definition signatures_of :: "conversation \<Rightarrow> risk list" where
  "signatures_of c =
     (if cv_protocol c = ''S7comm'' \<and> (''STOP'' \<in> set (cv_s7_functions c) \<or> ''CPU Control'' \<in> set (cv_s7_functions c))
      then [risk ''CRITICAL'' ''OT_THREAT_SIGNATURE'' (ends c) []] else [])
     @ (if cv_port c = 1502 \<or> contains ''TriStation'' (cv_protocol c) then [risk ''CRITICAL'' ''OT_THREAT_SIGNATURE'' (ends c) []] else [])
     @ (if contains ''Modbus'' (cv_protocol c) \<and> list_ex (\<lambda>f. num_val f = Some 8) (cv_modbus_functions c)
      then [risk ''HIGH'' ''OT_THREAT_SIGNATURE'' (ends c) []] else [])"

definition check_ot_threat_signatures :: "conversation list \<Rightarrow> risk list" where
  "check_ot_threat_signatures convs = concat (map signatures_of convs)"

definition eol_lines :: "string list" where
  "eol_lines = [''s7-300'', ''s7-400'', ''slc 500'', ''microLogix'', ''modicon quantum'', ''ac800m'']"

definition check_eol_status :: "nodes \<Rightarrow> risk list" where
  "check_eol_status nodes = concat (map (\<lambda>(k, n). map (\<lambda>_. risk ''MEDIUM'' ''ASSET_EOL'' [k] [])
     (filter (\<lambda>l. tn_product n \<noteq> [] \<and> contains (py_lower l) (py_lower (tn_product n))) eol_lines)) nodes)"

section \<open>Authentication and ports\<close>

definition auth_protocols :: "tnode \<Rightarrow> string list" where
  "auth_protocols n = map (\<lambda>p. py_lower (py_strip p)) (filter (\<lambda>p. p \<noteq> []) (tn_protocols n))
     @ filter (\<lambda>p. p \<noteq> []) (map (\<lambda>s. py_lower (py_strip (sp_protocol s))) (tn_services n))"

definition unauthenticated :: "tnode \<Rightarrow> bool" where
  "unauthenticated n \<longleftrightarrow> \<not> tn_auth n \<and> \<not> (tn_asset n = ''network'' \<or> tn_level n = - 1) \<and> \<not> (tn_asset n = ''external'' \<or> tn_level n = 5)
     \<and> list_ex (\<lambda>p. p \<in> set auth_capable) (auth_protocols n)"

definition check_no_auth :: "nodes \<Rightarrow> risk list" where
  "check_no_auth nodes = (let ks = map fst (filter (\<lambda>(_, n). unauthenticated n) nodes) in
     if ks \<noteq> [] then [risk ''MEDIUM'' ''NO_AUTH_OBSERVED'' (take 20 ks) []] else [])"

definition scan_threshold :: nat where "scan_threshold = 20"

definition allowed_it :: "int list" where
  "allowed_it = [53, 67, 68, 123, 161, 162, 514, 5353]"

definition cleartext_port :: "service_port \<Rightarrow> bool" where
  "cleartext_port s \<longleftrightarrow> sp_port s \<in> {23, 21, 5900, 5901}"

definition unknown_port :: "int \<Rightarrow> service_port \<Rightarrow> bool" where
  "unknown_port level s \<longleftrightarrow> sp_category s = ''Unknown'' \<and> level \<in> {0, 1, 2, 3}"

definition it_on_ot_port :: "int \<Rightarrow> service_port \<Rightarrow> bool" where
  "it_on_ot_port level s \<longleftrightarrow> sp_category s = ''IT'' \<and> level \<in> {0, 1} \<and> sp_port s \<notin> set allowed_it"

definition high_port :: "service_port \<Rightarrow> bool" where
  "high_port s \<longleftrightarrow> sp_port s > 10000 \<and> sp_category s = ''Unknown'' \<and> (sp_port s < ephemeral_port_min \<or> sp_connections s \<ge> 3)"

definition each_port :: "string \<Rightarrow> string \<Rightarrow> string \<Rightarrow> service_port list \<Rightarrow> risk list" where
  "each_port sev cat key ps = map (\<lambda>_. risk sev cat [key] []) ps"

definition node_ports :: "string \<times> tnode \<Rightarrow> risk list" where
  "node_ports kn = (case kn of (key, n) \<Rightarrow>
     let unknown = filter (unknown_port (tn_level n)) (tn_services n); high = filter high_port (tn_services n) in
     each_port ''HIGH'' ''CLEARTEXT_REMOTE_ACCESS'' key (filter cleartext_port (tn_services n))
     @ (if length unknown > scan_threshold then [risk ''HIGH'' ''PORT_SCAN_TARGET'' [key] []]
        else each_port ''MEDIUM'' ''UNKNOWN_SERVICE_PORT'' key unknown)
     @ each_port ''MEDIUM'' ''IT_SERVICE_ON_OT_DEVICE'' key (filter (it_on_ot_port (tn_level n)) (tn_services n))
     @ (if length high > scan_threshold
        then (if length unknown \<le> scan_threshold then [risk ''HIGH'' ''PORT_SCAN_TARGET'' [key] []] else [])
        else each_port ''MEDIUM'' ''HIGH_PORT_SERVICE'' key high))"

definition check_port_analysis :: "nodes \<Rightarrow> risk list" where
  "check_port_analysis nodes = concat (map node_ports nodes)"

section \<open>States, endpoints, traffic\<close>

definition stop_keywords :: "string list" where
  "stop_keywords = [''STOP'', ''PROGRAM'', ''CPU_HALT'', ''FC8_DIAG'', ''FORCE_OUTPUTS'', ''RESET'']"

definition mode_shift :: "conversation \<Rightarrow> bool" where
  "mode_shift c \<longleftrightarrow> (let notes = py_upper (cv_notes c); ops = map py_upper (cv_operations c); funcs = map py_upper (cv_s7_functions c) in
     any_in stop_keywords notes \<or> list_ex (\<lambda>k. k \<in> set funcs) [''STOP'', ''PLC_STOP''] \<or> list_ex (\<lambda>k. k \<in> set ops) [''STOP'', ''HALT'', ''PROGRAM'']
     \<or> (py_upper (cv_protocol c) \<in> {''S7COMM'', ''CIP'', ''MODBUS'', ''DNP3''} \<and> contains ''STOP'' notes))"

text \<open>The checks that look at one conversation at a time.\<close>

definition per_conversation :: "(conversation \<Rightarrow> bool) \<Rightarrow> (conversation \<Rightarrow> risk) \<Rightarrow> conversation list \<Rightarrow> risk list" where
  "per_conversation P r convs = map r (filter P convs)"

definition check_plc_state_shifts :: "conversation list \<Rightarrow> risk list" where
  "check_plc_state_shifts = per_conversation mode_shift (\<lambda>c. risk ''CRITICAL'' ''PLC_MODE_SHIFT_DETECTED'' (ends c) [])"

definition subnet_of :: "string \<Rightarrow> string option" where
  "subnet_of ip = (case py_split (CHR ''.'') ip of [a, b, c, d] \<Rightarrow> Some (a @ ''.'' @ b @ ''.'' @ c @ ''.0/24'') | _ \<Rightarrow> None)"

definition add_subnet :: "conversation \<Rightarrow> (string, string list) dict \<Rightarrow> (string, string list) dict" where
  "add_subnet c m = (if cv_src_mac c = [] \<or> cv_src_ip c = [] then m else (case subnet_of (cv_src_ip c) of
       None \<Rightarrow> m
     | Some s \<Rightarrow> let old = (case dict_get m (cv_src_mac c) of None \<Rightarrow> [] | Some ss \<Rightarrow> ss)
         in dict_set (cv_src_mac c) (if s \<in> set old then old else old @ [s]) m))"

definition check_rogue_and_dual_homed :: "nodes \<Rightarrow> conversation list \<Rightarrow> risk list" where
  "check_rogue_and_dual_homed nodes convs =
     map (\<lambda>(mac, _). risk ''HIGH'' ''DUAL_HOMED_ENDPOINT_SUSPECT''
         [case dict_get nodes mac of None \<Rightarrow> mac | Some n \<Rightarrow> if tn_ip n \<noteq> [] then tn_ip n else mac] [])
       (filter (\<lambda>(_, ss). length ss > 1) (fold add_subnet convs []))
     @ map (\<lambda>(k, _). risk ''HIGH'' ''ROGUE_ASSET_DISCOVERED'' [k] []) (filter (\<lambda>(_, n). tn_rogue n) nodes)"

definition it_mgmt_ports :: "int list" where
  "it_mgmt_ports = [22, 3389, 445, 5985, 5986, 23]"

definition level_at :: "nodes \<Rightarrow> string \<Rightarrow> int" where
  "level_at nodes k = (case dict_get nodes k of None \<Rightarrow> - 1 | Some n \<Rightarrow> tn_level n)"

definition check_lateral_movement :: "nodes \<Rightarrow> conversation list \<Rightarrow> risk list" where
  "check_lateral_movement nodes = per_conversation (\<lambda>c. cv_port c \<in> set it_mgmt_ports \<and> level_at nodes (dst_key c) \<in> {0, 1})
     (\<lambda>c. risk ''CRITICAL'' ''LATERAL_MOVEMENT_SUSPECT'' (ends c) [])"

definition burst_protocols :: "string list" where
  "burst_protocols = [''MODBUS'', ''DNP3'', ''BACNET'', ''PROFINET'', ''S7COMM'', ''CIP'', ''OPCUA'']"

definition check_polling_bursts :: "conversation list \<Rightarrow> risk list" where
  "check_polling_bursts = per_conversation
     (\<lambda>c. py_upper (cv_protocol c) \<in> set burst_protocols \<and> cv_packets c > 1000 \<and> cv_bytes c > 500000)
     (\<lambda>c. risk ''MEDIUM'' ''OT_POLLING_BURST_ANOMALY'' (ends c) [])"

definition tls_of :: "conversation \<Rightarrow> risk list" where
  "tls_of c = (if cv_port c \<notin> {443, 4840, 8443, 8080} then [] else
     (let notes = py_upper (cv_notes c) in
      (if any_in [''SSLV3'', ''TLS1.0'', ''TLS1.1'', ''RC4'', ''3DES''] notes then [risk ''MEDIUM'' ''WEAK_TLS_CIPHER_OBSERVED'' (ends c) []] else [])
      @ (if any_in [''EXPIRED_CERT'', ''CERT_EXPIRED''] notes then [risk ''HIGH'' ''EXPIRED_TLS_CERTIFICATE'' [dst_key c] []] else [])
      @ (if contains ''SELF_SIGNED'' notes then [risk ''MEDIUM'' ''SELF_SIGNED_TLS_CERTIFICATE'' [dst_key c] []] else [])))"

definition check_passive_tls :: "conversation list \<Rightarrow> risk list" where
  "check_passive_tls convs = concat (map tls_of convs)"

definition check_conformance :: "conversation list \<Rightarrow> risk list" where
  "check_conformance = per_conversation (\<lambda>c. any_in [''MALFORMED'', ''BAD_CRC'', ''INVALID_LENGTH'', ''FUZZING''] (py_upper (cv_notes c)))
     (\<lambda>c. risk ''HIGH'' ''MALFORMED_INDUSTRIAL_FRAME'' (ends c) [])"

section \<open>Command and control\<close>

text \<open>An indicator keeps what later checks look at; each one comes with a finding.\<close>

record indicator =
  in_type :: string
  in_severity :: string
  in_src :: string
  in_dst :: string

definition indicator :: "string \<Rightarrow> string \<Rightarrow> conversation \<Rightarrow> indicator" where
  "indicator ty sev c = \<lparr>in_type = ty, in_severity = sev, in_src = src_key c, in_dst = dst_key c\<rparr>"

definition known_port :: "conversation \<Rightarrow> bool" where
  "known_port c \<longleftrightarrow> is_ot_port (cv_port c) \<or> is_known_port (cv_port c)"

definition beaconing :: "conversation \<Rightarrow> indicator list" where
  "beaconing c =
     (if cv_beacon_score c > 1/2 \<and> cv_port c \<notin> set benign_periodic_ports
      then (if public_end (cv_dst_ip c) then [indicator ''C2_BEACONING'' (if cv_beacon_score c > 7/10 then ''CRITICAL'' else ''HIGH'') c]
            else if cv_beacon_score c > 7/10 \<and> \<not> known_port c then [indicator ''C2_BEACONING'' ''HIGH'' c] else [])
      else [])"

text \<open>The last two labels of a query and the distinct rests per such domain.\<close>

definition rstrip_dot :: "string \<Rightarrow> string" where
  "rstrip_dot s = rev (dropWhile (\<lambda>c. c = CHR ''.'') (rev s))"

definition add_query :: "string \<Rightarrow> (string, string list) dict \<Rightarrow> (string, string list) dict" where
  "add_query q m = (let parts = py_split (CHR ''.'') (rstrip_dot q); n = length parts in
     if n \<ge> 3 then (let base = py_join ''.'' (drop (n - 2) parts); sub = py_join ''.'' (take (n - 2) parts);
          old = (case dict_get m base of None \<Rightarrow> [] | Some ss \<Rightarrow> ss)
        in dict_set base (if sub \<in> set old then old else old @ [sub]) m)
     else m)"

definition tunnel :: "conversation \<Rightarrow> nat \<Rightarrow> indicator list" where
  "tunnel c unique =
     (if (cv_dns_entropy c > 4 \<or> cv_dns_ratio c > 85/100) \<and> unique > 50 then [indicator ''C2_DNS_EXFIL'' ''CRITICAL'' c]
      else if (cv_dns_entropy c > 35/10 \<or> cv_dns_ratio c > 80/100) \<and> (cv_packets c > 500 \<or> cv_bytes c > 102400)
        then [indicator ''C2_DNS_TUNNEL_SUSPECT'' ''HIGH'' c]
      else [])"

definition dns_indicators :: "conversation \<Rightarrow> indicator list \<Rightarrow> indicator list" where
  "dns_indicators c before = (if cv_dns_queries c = [] then [] else
     (let tunnels = concat (map (\<lambda>(_, subs). tunnel c (length subs)) (fold add_query (cv_dns_queries c) [])) in
      tunnels @ (if cv_dns_entropy c > 4 \<and> \<not> list_ex (\<lambda>i. in_type i = ''C2_DNS_EXFIL'' \<and> in_src i = src_key c) (before @ tunnels)
        then [indicator ''C2_DNS_HIGH_ENTROPY'' ''MEDIUM'' c] else [])))"

definition suspect_channel :: "nodes \<Rightarrow> conversation \<Rightarrow> indicator list" where
  "suspect_channel nodes c =
     (if level_at nodes (src_key c) \<in> {0, 1, 2} \<and> public_end (cv_dst_ip c) \<and> \<not> known_port c \<and> cv_port c > 1024
      then [indicator ''C2_SUSPECT_CHANNEL'' ''HIGH'' c] else [])"

definition conversation_indicators :: "nodes \<Rightarrow> conversation \<Rightarrow> indicator list \<Rightarrow> indicator list" where
  "conversation_indicators nodes c acc =
     (let acc1 = acc @ beaconing c; acc2 = acc1 @ dns_indicators c acc1 in acc2 @ suspect_channel nodes c)"

text \<open>The bytes between two ends in both directions; the smaller key stands first.\<close>

definition add_flow :: "conversation \<Rightarrow> (string \<times> string, int \<times> int) dict \<Rightarrow> (string \<times> string, int \<times> int) dict" where
  "add_flow c m = (let s = src_key c; d = dst_key c; k = (if s < d then (s, d) else (d, s));
       (up, down) = (case dict_get m k of None \<Rightarrow> (0, 0) | Some v \<Rightarrow> v)
     in dict_set k (if s < d then (up + cv_bytes c, down) else (up, down + cv_bytes c)) m)"

definition exfil :: "nodes \<Rightarrow> string \<Rightarrow> string \<Rightarrow> int \<Rightarrow> int \<Rightarrow> indicator list" where
  "exfil nodes src dst out_bytes in_bytes =
     (if out_bytes \<le> 0 \<or> in_bytes \<le> 0 then []
      else if public_end dst \<and> level_at nodes src \<in> {0, 1, 2} \<and> out_bytes > 10 * in_bytes \<and> out_bytes > 10240
      then [\<lparr>in_type = ''C2_DATA_EXFIL'', in_severity = ''HIGH'', in_src = src, in_dst = dst\<rparr>] else [])"

definition exfil_indicators :: "nodes \<Rightarrow> conversation list \<Rightarrow> indicator list" where
  "exfil_indicators nodes convs = concat (map (\<lambda>((a, b), (up, down)).
     exfil nodes a b up down @ exfil nodes b a down up) (fold add_flow convs []))"

text \<open>\<open>duration\<close> is the capture's length in seconds, 0 when it is not known.\<close>

definition persistent :: "rat \<Rightarrow> conversation \<Rightarrow> bool" where
  "persistent duration c \<longleftrightarrow> duration > 0 \<and> public_end (cv_dst_ip c) \<and> \<not> known_port c
     \<and> cv_beacon_interval c > 0 \<and> cv_packets c > 2 \<and> cv_beacon_interval c * of_int (cv_packets c) > 8/10 * duration"

definition check_c2_indicators :: "rat \<Rightarrow> nodes \<Rightarrow> conversation list \<Rightarrow> indicator list" where
  "check_c2_indicators duration nodes convs = fold (conversation_indicators nodes) convs []
     @ exfil_indicators nodes convs @ map (indicator ''C2_PERSISTENCE'' ''MEDIUM'') (filter (persistent duration) convs)"

definition indicator_finding :: "indicator \<Rightarrow> risk" where
  "indicator_finding i = risk (in_severity i) (in_type i) (if in_type i = ''C2_DNS_HIGH_ENTROPY'' then [in_src i] else [in_src i, in_dst i]) []"

section \<open>The stage\<close>

record target =
  tg_key :: string
  tg_role :: string
  tg_vendor :: string
  tg_priority :: int
  tg_modules :: "string list"

definition broadcast_like :: "string \<Rightarrow> bool" where
  "broadcast_like k \<longleftrightarrow> (case ip_address k of
       None \<Rightarrow> False
     | Some a \<Rightarrow> is_multicast a \<or> a = V4 (2 ^ 32 - 1) \<or> ends_255 a)"

definition rank_targets :: "nodes \<Rightarrow> target list" where
  "rank_targets nodes = take 20 (sort_key (\<lambda>t. - tg_priority t)
     (map (\<lambda>(k, n). \<lparr>tg_key = k, tg_role = tn_role n, tg_vendor = tn_vendor n, tg_priority = tn_priority n, tg_modules = tn_modules n\<rparr>)
       (filter (\<lambda>(k, n). \<not> broadcast_like k \<and> tn_priority n > 0) nodes)))"

record risk_report =
  rr_findings :: "risk list"
  rr_targets :: "target list"
  rr_indicators :: "indicator list"
  rr_violations :: "violation list"
  rr_timeline :: "(nat \<times> risk) list"

definition score_topology ::
    "bool \<Rightarrow> rat \<Rightarrow> tnode list \<Rightarrow> tedge list \<Rightarrow> conversation list \<Rightarrow> risk_report" where
  "score_topology skip_c2 duration tnodes edges convs =
     (let nodes = index_nodes tnodes;
          (cross, vs1) = check_cross_purdue nodes edges;
          (conduit, vs2) = check_conduit nodes edges convs;
          c2 = (if skip_c2 then [] else check_c2_indicators duration nodes convs);
          findings = check_external_comms nodes convs @ cross @ check_cleartext_engineering convs @ check_write_sources convs
            @ check_no_auth nodes @ check_opc_security convs @ check_program_access convs @ check_port_analysis nodes
            @ conduit @ check_baseline_deviations nodes convs @ check_plc_integrity nodes convs @ check_ot_threat_signatures convs
            @ check_eol_status nodes @ check_advanced_protocols convs @ check_plc_state_shifts convs
            @ check_rogue_and_dual_homed nodes convs @ check_lateral_movement nodes convs @ check_polling_bursts convs
            @ check_passive_tls convs @ check_conformance convs @ map indicator_finding c2
      in \<lparr>rr_findings = findings, rr_targets = rank_targets nodes, rr_indicators = c2, rr_violations = vs1 @ vs2,
          rr_timeline = enumerate 1 findings\<rparr>)"

end
