(* ===== verification/RiskSafety.thy ===== *)
theory RiskSafety
  imports Risk
begin

text \<open>
  What the risk stage finds: how often an edge is recorded as a zone violation, beacons to public
  addresses are always reported, targets are ranked, a node is called a scan target at most once,
  severities come from the five levels. The last section shows checks
  that stay silent on what the engine's earlier stages produce.
\<close>

section \<open>Nodes\<close>

lemma index_ok: "dict_ok (index_nodes ns)"
proof -
  have "dict_ok d \<Longrightarrow> dict_ok (fold (\<lambda>n. dict_set (node_key n) n) ns d)" for d :: nodes
    by (induction ns arbitrary: d) auto
  then show ?thesis by (simp add: index_nodes_def)
qed

lemma index_append: "index_nodes (ns @ [n]) = dict_set (node_key n) n (index_nodes ns)"
  by (simp add: index_nodes_def)

lemma index_values: "(k, n) \<in> set (index_nodes ns) \<Longrightarrow> n \<in> set ns \<and> k = node_key n"
proof (induction ns rule: rev_induct)
  case (snoc m ns)
  then show ?case by (auto simp: index_append set_dict_set [OF index_ok])
qed (simp add: index_nodes_def)

text \<open>Nodes with different keys are all kept, those known by their MAC only too.\<close>

lemma nodes_kept: "distinct (map node_key ns) \<Longrightarrow> index_nodes ns = map (\<lambda>n. (node_key n, n)) ns"
proof (induction ns rule: rev_induct)
  case (snoc n ns)
  then have "index_nodes ns = map (\<lambda>n. (node_key n, n)) ns" by simp
  moreover have "dict_get (map (\<lambda>n. (node_key n, n)) ns) (node_key n) = None"
    using snoc.prems by (auto simp: dict_get_exists)
  ultimately show ?case by (simp add: index_append dict_set_fresh)
qed (simp add: index_nodes_def)

section \<open>Zone violations\<close>

lemma bypass_skips: "bypasses s d \<Longrightarrow> skips_zone s d"
  by (auto simp: bypasses_def skips_zone_def)

lemma report_violations:
  "rr_violations (score_topology skip_c2 duration ns edges convs) =
     violations_of bypasses (index_nodes ns) edges @ violations_of skips_zone (index_nodes ns) edges"
  by (simp add: score_topology_def check_cross_purdue_def check_conduit_def Let_def)

text \<open>
  What the two zone rules ask for, written over the levels alone: the level of a key is that of the
  last node that has it, an edge needs two known levels at least two apart to be listed, and it is
  listed a second time when the lower one is 0 or 1 and the higher one 3 or more.
\<close>

definition level_of :: "tnode list \<Rightarrow> string \<Rightarrow> int option" where
  "level_of ns k = (case filter (\<lambda>n. node_key n = k) (rev ns) of [] \<Rightarrow> None | n # _ \<Rightarrow> Some (tn_level n))"

fun times_listed :: "int option \<Rightarrow> int option \<Rightarrow> nat" where
  "times_listed (Some a) (Some b) =
     (if min a b < 0 \<or> max a b \<le> min a b + 1 then 0 else if min a b \<le> 1 \<and> 3 \<le> max a b then 2 else 1)"
| "times_listed _ _ = 0"

lemma level_of_index: "map_option tn_level (dict_get (index_nodes ns) k) = level_of ns k"
  by (induction ns rule: rev_induct)
     (simp_all add: level_of_def index_append dict_get_set, simp add: index_nodes_def)

definition rejected :: "(int \<Rightarrow> int \<Rightarrow> bool) \<Rightarrow> int option \<Rightarrow> int option \<Rightarrow> bool" where
  "rejected bad a b \<longleftrightarrow> (\<exists>s d. a = Some s \<and> b = Some d \<and> bad s d)"

lemma violations_count:
  "count_list (map pair_of (violations_of bad (index_nodes ns) edges)) p =
     (\<Sum>e\<leftarrow>edges. if (te_src e, te_dst e) = p \<and> rejected bad (level_of ns (te_src e)) (level_of ns (te_dst e)) then 1 else 0)"
proof (induction edges)
  case (Cons e edges)
  have "violations_of bad (index_nodes ns) (e # edges) = violations_of bad (index_nodes ns) [e] @ violations_of bad (index_nodes ns) edges"
    by (simp add: violations_of_def)
  moreover have "count_list (map pair_of (violations_of bad (index_nodes ns) [e])) p =
      (if (te_src e, te_dst e) = p \<and> rejected bad (level_of ns (te_src e)) (level_of ns (te_dst e)) then 1 else 0)"
    by (cases "dict_get (index_nodes ns) (te_src e)"; cases "dict_get (index_nodes ns) (te_dst e)")
       (auto simp: violations_of_def pair_of_def rejected_def simp flip: level_of_index)
  ultimately show ?case using Cons.IH by simp
qed (simp add: violations_of_def)

lemma times_listed_rules:
  "times_listed a b = (if rejected bypasses a b then 1 else 0) + (if rejected skips_zone a b then 1 else 0)"
  by (cases a; cases b) (auto simp: rejected_def bypasses_def skips_zone_def min_def max_def)

text \<open>
  C17. How often a pair of keys stands in the recorded violations of a report: its edges are listed
  once when their two levels are known and at least two apart, once more when one level is 0 or 1
  and the other 3 or more, and never otherwise.
\<close>

theorem violations_counted:
  "count_list (map pair_of (rr_violations (score_topology skip_c2 duration ns edges convs))) p =
     (\<Sum>e\<leftarrow>edges. if (te_src e, te_dst e) = p then times_listed (level_of ns (te_src e)) (level_of ns (te_dst e)) else 0)"
proof -
  have "(\<Sum>e\<leftarrow>edges. if (te_src e, te_dst e) = p then times_listed (level_of ns (te_src e)) (level_of ns (te_dst e)) else 0) =
      count_list (map pair_of (violations_of bypasses (index_nodes ns) edges)) p
      + count_list (map pair_of (violations_of skips_zone (index_nodes ns) edges)) p"
    unfolding violations_count sum_list_addf [symmetric] times_listed_rules
    by (rule arg_cong [where f = sum_list]) simp
  then show ?thesis by (simp add: report_violations)
qed

text \<open>An edge between levels 0 or 1 and 3 or more is listed by both checks.\<close>

lemma bypass_listed_twice:
  assumes "dict_get (index_nodes ns) (te_src e) = Some s" "dict_get (index_nodes ns) (te_dst e) = Some d"
    and "bypasses (tn_level s) (tn_level d)"
  shows "map pair_of (rr_violations (score_topology skip_c2 duration ns [e] convs)) = [(te_src e, te_dst e), (te_src e, te_dst e)]"
  using assms bypass_skips [OF assms(3)] by (simp add: report_violations violations_of_def pair_of_def)

section \<open>Beacons\<close>

lemma conversation_indicators_grow: "\<exists>new. conversation_indicators nodes c acc = acc @ new"
  by (simp add: conversation_indicators_def Let_def)

lemma indicators_kept: "i \<in> set acc \<Longrightarrow> i \<in> set (fold (conversation_indicators nodes) convs acc)"
proof (induction convs arbitrary: acc)
  case (Cons c convs)
  obtain new where "conversation_indicators nodes c acc = acc @ new"
    using conversation_indicators_grow by blast
  then show ?case using Cons by simp
qed simp

lemma beacons_collected:
  "c \<in> set convs \<Longrightarrow> i \<in> set (beaconing c) \<Longrightarrow> i \<in> set (fold (conversation_indicators nodes) convs acc)"
proof (induction convs arbitrary: acc)
  case (Cons c' convs)
  show ?case
  proof (cases "c = c'")
    case True
    then have "i \<in> set (conversation_indicators nodes c' acc)"
      using Cons.prems by (simp add: conversation_indicators_def Let_def)
    then show ?thesis by (simp add: indicators_kept)
  next
    case False
    then show ?thesis using Cons by simp
  qed
qed simp

lemma c2_findings: "i \<in> set (check_c2_indicators duration (index_nodes ns) convs) \<Longrightarrow>
  indicator_finding i \<in> set (rr_findings (score_topology False duration ns edges convs))"
  by (simp add: score_topology_def check_cross_purdue_def check_conduit_def Let_def)

text \<open>
  C26. Unless the checks for command and control are switched off, a conversation that beacons to a public
  address (score above a half) on a port that is not periodic by design is reported, as critical from a
  score above 0.7 on, whatever else the capture holds.
\<close>

theorem beacon_reported:
  assumes "c \<in> set convs" "public_end (cv_dst_ip c)" "cv_beacon_score c > 1/2" "cv_port c \<notin> set benign_periodic_ports"
  shows "risk (if cv_beacon_score c > 7/10 then ''CRITICAL'' else ''HIGH'') ''C2_BEACONING'' (ends c) []
    \<in> set (rr_findings (score_topology False duration ns edges convs))"
proof -
  let ?i = "indicator ''C2_BEACONING'' (if cv_beacon_score c > 7/10 then ''CRITICAL'' else ''HIGH'') c"
  have "?i \<in> set (beaconing c)" using assms(2-4) by (simp add: beaconing_def)
  then have "?i \<in> set (check_c2_indicators duration (index_nodes ns) convs)"
    using beacons_collected [OF assms(1)] by (simp add: check_c2_indicators_def)
  moreover have "indicator_finding ?i = risk (if cv_beacon_score c > 7/10 then ''CRITICAL'' else ''HIGH'') ''C2_BEACONING'' (ends c) []"
    by (simp add: indicator_finding_def indicator_def ends_def)
  ultimately show ?thesis using c2_findings by metis
qed

definition quiet :: "string \<Rightarrow> string \<Rightarrow> conversation" where
  "quiet src dst = blank_conversation\<lparr>cv_src_ip := src, cv_dst_ip := dst, cv_protocol := ''HTTPS'', cv_port := 443, cv_packets := 10,
     cv_bytes := 1000, cv_transport := ''tcp''\<rparr>"

definition beacon :: conversation where
  "beacon = (quiet ''10.0.0.5'' ''8.8.8.8'')\<lparr>cv_beacon_score := 9/10\<rparr>"

lemma public_dns: "public_end ''8.8.8.8''"
  by code_simp

theorem beacon_reported_witness:
  "risk ''CRITICAL'' ''C2_BEACONING'' [''10.0.0.5'', ''8.8.8.8''] []
    \<in> set (rr_findings (score_topology False 0 [] [] [quiet ''a'' ''b'', beacon]))"
  using beacon_reported [of beacon "[quiet ''a'' ''b'', beacon]" 0 "[]" "[]"] public_dns
  by (simp add: beacon_def quiet_def blank_conversation_def benign_periodic_ports_def ends_def src_key_def dst_key_def)

section \<open>Targets\<close>

lemma sort_key_sorted: "sorted (map f (sort_key f xs))"
  by simp

lemma sorted_take: "sorted xs \<Longrightarrow> sorted (take n xs)"
  by (rule sorted_wrt_take)

text \<open>At most twenty targets, of positive priority, no broadcast address among them, highest first.\<close>

theorem targets_ranked:
  "length (rank_targets nodes) \<le> 20 \<and> sorted (map (\<lambda>t. - tg_priority t) (rank_targets nodes))
    \<and> list_all (\<lambda>t. tg_priority t > 0 \<and> \<not> broadcast_like (tg_key t)) (rank_targets nodes)"
proof -
  let ?ts = "map (\<lambda>(k, n). \<lparr>tg_key = k, tg_role = tn_role n, tg_vendor = tn_vendor n, tg_priority = tn_priority n, tg_modules = tn_modules n\<rparr>)
       (filter (\<lambda>(k, n). \<not> broadcast_like k \<and> tn_priority n > 0) nodes)"
  have "tg_priority t > 0 \<and> \<not> broadcast_like (tg_key t)" if "t \<in> set (rank_targets nodes)" for t
  proof -
    have "t \<in> set (sort_key (\<lambda>t. - tg_priority t) ?ts)" using that unfolding rank_targets_def by (rule in_set_takeD)
    then show ?thesis by auto
  qed
  moreover have "sorted (map (\<lambda>t. - tg_priority t) (rank_targets nodes))"
    unfolding rank_targets_def take_map [symmetric] by (rule sorted_take) simp
  ultimately show ?thesis by (auto simp: list_all_iff rank_targets_def)
qed

section \<open>Ports\<close>

definition scan_findings :: "risk list \<Rightarrow> risk list" where
  "scan_findings rs = filter (\<lambda>r. rf_category r = ''PORT_SCAN_TARGET'') rs"

lemma scan_each: "cat \<noteq> ''PORT_SCAN_TARGET'' \<Longrightarrow> scan_findings (each_port sev cat k ps) = []"
  by (auto simp: scan_findings_def each_port_def risk_def filter_empty_conv)

lemma scan_append: "scan_findings (xs @ ys) = scan_findings xs @ scan_findings ys"
  by (simp add: scan_findings_def)

lemma scan_one: "scan_findings [risk sev ''PORT_SCAN_TARGET'' ns es] = [risk sev ''PORT_SCAN_TARGET'' ns es]"
  by (simp add: scan_findings_def risk_def)

lemma scan_none: "scan_findings [] = []"
  by (simp add: scan_findings_def)

text \<open>
  However many unknown ports a node shows, it is called a scan target at most once, and the findings
  about its unknown and high ports are at most twenty of each kind.
\<close>

theorem scan_target_once: "length (scan_findings (node_ports (k, n))) \<le> 1"
  by (simp add: node_ports_def Let_def scan_append scan_each scan_one scan_none)

section \<open>Categories and severities\<close>

text \<open>\<open>emits T rs\<close>: every finding of \<open>rs\<close> has a category and severity of the table \<open>T\<close>.\<close>

definition emits :: "(string \<times> string) list \<Rightarrow> risk list \<Rightarrow> bool" where
  "emits T rs \<longleftrightarrow> list_all (\<lambda>r. (rf_category r, rf_severity r) \<in> set T) rs"

lemma emits_simps [simp]:
  "emits T []" "emits T (r # rs) \<longleftrightarrow> (rf_category r, rf_severity r) \<in> set T \<and> emits T rs"
  "emits T (xs @ ys) \<longleftrightarrow> emits T xs \<and> emits T ys" "emits T (concat rss) \<longleftrightarrow> list_all (emits T) rss"
  by (auto simp: emits_def list_all_iff)

lemma risk_fields [simp]: "rf_category (risk sev cat ns es) = cat" "rf_severity (risk sev cat ns es) = sev"
  by (simp_all add: risk_def)

lemma emits_map: "(\<And>x. (rf_category (f x), rf_severity (f x)) \<in> set T) \<Longrightarrow> emits T (map f xs)"
  by (simp add: emits_def list_all_iff)

lemma emits_more: "emits T rs \<Longrightarrow> set T \<subseteq> set T' \<Longrightarrow> emits T' rs"
  by (auto simp: emits_def list_all_iff)

lemma emits_parts:
  "(cat, ''HIGH'') \<in> set T \<Longrightarrow> emits T (zone_finding cat vs)"
  "(cat, sev) \<in> set T \<Longrightarrow> emits T (per_operation ws (\<lambda>_. risk sev cat ns es) c)"
  "(cat, sev) \<in> set T \<Longrightarrow> emits T (each_port sev cat k ps)" "(cat, sev) \<in> set T \<Longrightarrow> emits T (over sev cat cs)"
  "(cat, sev) \<in> set T \<Longrightarrow> emits T (per_conversation P (\<lambda>c. risk sev cat (f c) (g c)) cs)"
  by (auto simp: zone_finding_def per_operation_def each_port_def over_def per_conversation_def intro!: emits_map)

definition zone_table :: "(string \<times> string) list" where
  "zone_table = [(''ICS_EXTERNAL_COMMS'', ''CRITICAL''), (''EXTERNAL_IPS_OBSERVED'', ''INFO''), (''CROSS_PURDUE'', ''HIGH''),
     (''IEC62443_CONDUIT_VIOLATION'', ''HIGH''), (''MODBUS_WRITE_COIL'', ''HIGH'')]"

lemma emits_zones: "emits zone_table (check_external_comms nodes convs)" "emits zone_table (fst (check_cross_purdue nodes edges))"
  "emits zone_table (fst (check_conduit nodes edges convs))"
  by (simp_all add: zone_table_def check_external_comms_def check_cross_purdue_def check_conduit_def Let_def emits_parts)

definition command_table :: "(string \<times> string) list" where
  "command_table = [(''CLEARTEXT_ENG'', ''HIGH''), (''MODBUS_WRITE_ANON'', ''MEDIUM''),
     (''S7_PROGRAM_ACCESS'', ''CRITICAL''), (''OT_THREAT_SIGNATURE'', ''CRITICAL''), (''OT_THREAT_SIGNATURE'', ''HIGH''),
     (''BACNET_UNAUTH_WRITE'', ''HIGH''), (''PROFINET_DCP_SET'', ''HIGH''), (''DNP3_UNAUTH_CONTROL'', ''HIGH'')]"

lemma emits_commands: "emits command_table (check_cleartext_engineering convs)" "emits command_table (check_write_sources convs)"
  "emits command_table (check_program_access convs)"
  "emits command_table (check_ot_threat_signatures convs)" "emits command_table (check_advanced_protocols convs)"
  by (simp_all add: command_table_def check_cleartext_engineering_def check_write_sources_def check_program_access_def
      check_ot_threat_signatures_def signatures_of_def check_advanced_protocols_def advanced_of_def Let_def emits_parts list_all_iff)

definition opc_table :: "(string \<times> string) list" where
  "opc_table = [(''OPC_NO_SECURITY'', ''HIGH'')]"

lemma emits_opc: "emits opc_table (check_opc_security convs)"
  by (simp add: opc_table_def check_opc_security_def emits_parts)

definition device_table :: "(string \<times> string) list" where
  "device_table = [(''NO_AUTH_OBSERVED'', ''MEDIUM''), (''ASSET_EOL'', ''MEDIUM''), (''CLEARTEXT_REMOTE_ACCESS'', ''HIGH''),
     (''PORT_SCAN_TARGET'', ''HIGH''), (''UNKNOWN_SERVICE_PORT'', ''MEDIUM''), (''IT_SERVICE_ON_OT_DEVICE'', ''MEDIUM''),
     (''HIGH_PORT_SERVICE'', ''MEDIUM'')]"

lemma emits_devices: "emits device_table (check_no_auth nodes)" "emits device_table (check_eol_status nodes)"
  "emits device_table (check_port_analysis nodes)"
  by (auto simp: device_table_def check_no_auth_def check_eol_status_def check_port_analysis_def node_ports_def Let_def list_all_iff
      intro!: emits_parts emits_map)

definition traffic_table :: "(string \<times> string) list" where
  "traffic_table = [(''PLC_MODE_SHIFT_DETECTED'', ''CRITICAL''), (''DUAL_HOMED_ENDPOINT_SUSPECT'', ''HIGH''),
     (''LATERAL_MOVEMENT_SUSPECT'', ''CRITICAL''), (''OT_POLLING_BURST_ANOMALY'', ''MEDIUM'')]"

lemma emits_traffic: "emits traffic_table (check_plc_state_shifts convs)" "emits traffic_table (check_lateral_movement nodes convs)"
  "emits traffic_table (check_polling_bursts convs)"
  by (simp_all add: traffic_table_def check_plc_state_shifts_def check_lateral_movement_def check_polling_bursts_def emits_parts)

definition note_table :: "(string \<times> string) list" where
  "note_table = [(''WEAK_TLS_CIPHER_OBSERVED'', ''MEDIUM''), (''EXPIRED_TLS_CERTIFICATE'', ''HIGH''),
     (''SELF_SIGNED_TLS_CERTIFICATE'', ''MEDIUM''), (''MALFORMED_INDUSTRIAL_FRAME'', ''HIGH'')]"

lemma emits_notes: "emits note_table (check_passive_tls convs)" "emits note_table (check_conformance convs)"
proof -
  have "emits note_table (tls_of c)" for c by (simp add: note_table_def tls_of_def Let_def)
  then show "emits note_table (check_passive_tls convs)" by (simp add: check_passive_tls_def list_all_iff)
qed (simp add: note_table_def check_conformance_def emits_parts)

definition role_table :: "(string \<times> string) list" where
  "role_table = [(''BASELINE_DEVIATION'', ''HIGH''), (''BASELINE_DEVIATION'', ''MEDIUM''), (''PLC_INTEGRITY'', ''HIGH''),
     (''CIP_LADDER_LOGIC_CHANGE'', ''CRITICAL''), (''MODBUS_WRITE_PLC'', ''HIGH''), (''DNP3_CONFIG_CHANGE'', ''HIGH''),
     (''OT_CONFIG_WRITE'', ''HIGH'')]"

lemma emits_roles: "emits role_table (check_baseline_deviations nodes convs)" "emits role_table (check_plc_integrity nodes convs)"
proof -
  show "emits role_table (check_baseline_deviations nodes convs)"
    by (auto simp: role_table_def check_baseline_deviations_def baseline_of_def list_all_iff split: option.split)
  have "emits role_table (identity_findings ip ident)" for ip ident
    by (auto simp: role_table_def identity_findings_def Let_def split: pyval.split)
  then have "emits role_table (plc_conversation ip c)" for ip c
    by (simp add: plc_conversation_def Let_def emits_parts role_table_def)
  then show "emits role_table (check_plc_integrity nodes convs)" by (auto simp: check_plc_integrity_def list_all_iff)
qed

definition rogue_table :: "(string \<times> string) list" where
  "rogue_table = [(''ROGUE_ASSET_DISCOVERED'', ''HIGH'')]"

lemma emits_rogue: "emits (traffic_table @ rogue_table) (check_rogue_and_dual_homed nodes convs)"
  by (auto simp: check_rogue_and_dual_homed_def traffic_table_def rogue_table_def intro!: emits_map split: prod.split)

definition c2_table :: "(string \<times> string) list" where
  "c2_table = [(''C2_BEACONING'', ''CRITICAL''), (''C2_BEACONING'', ''HIGH''), (''C2_DNS_EXFIL'', ''CRITICAL''),
     (''C2_DNS_TUNNEL_SUSPECT'', ''HIGH''), (''C2_DNS_HIGH_ENTROPY'', ''MEDIUM''), (''C2_SUSPECT_CHANNEL'', ''HIGH''),
     (''C2_DATA_EXFIL'', ''HIGH''), (''C2_PERSISTENCE'', ''MEDIUM'')]"

definition indicates :: "indicator list \<Rightarrow> bool" where
  "indicates is \<longleftrightarrow> list_all (\<lambda>i. (in_type i, in_severity i) \<in> set c2_table) is"

lemma indicates_simps [simp]:
  "indicates []" "indicates (i # js) \<longleftrightarrow> (in_type i, in_severity i) \<in> set c2_table \<and> indicates js"
  "indicates (is @ js) \<longleftrightarrow> indicates is \<and> indicates js" "indicates (concat jss) \<longleftrightarrow> list_all indicates jss"
  "in_type (indicator ty sev c) = ty" "in_severity (indicator ty sev c) = sev"
  by (auto simp: indicates_def indicator_def list_all_iff)

lemma indicates_checks: "indicates (beaconing c)" "indicates (dns_indicators c acc)" "indicates (suspect_channel nodes c)"
  "indicates (exfil nodes s d up down)" "indicates (map (indicator ''C2_PERSISTENCE'' ''MEDIUM'') cs)"
proof -
  show "indicates (map (indicator ''C2_PERSISTENCE'' ''MEDIUM'') cs)" by (induction cs) (simp_all add: c2_table_def)
qed (simp_all add: beaconing_def dns_indicators_def suspect_channel_def exfil_def tunnel_def Let_def list_all_iff c2_table_def split: prod.split)

lemma indicates_fold: "indicates acc \<Longrightarrow> indicates (fold (conversation_indicators nodes) convs acc)"
  by (induction convs arbitrary: acc) (simp_all add: conversation_indicators_def Let_def indicates_checks)

lemma indicates_c2: "indicates (check_c2_indicators duration nodes convs)"
proof -
  have "indicates (exfil_indicators nodes convs)"
    by (auto simp: exfil_indicators_def list_all_iff indicates_checks)
  then show ?thesis by (simp add: check_c2_indicators_def indicates_fold indicates_checks)
qed

lemma emits_c2: "indicates is \<Longrightarrow> emits c2_table (map indicator_finding is)"
  by (simp add: emits_def indicates_def list_all_iff indicator_finding_def)

text \<open>All that the checks emit, and what they emit if no node has one of the roles they ask for and none is rogue.\<close>

definition common_table :: "(string \<times> string) list" where
  "common_table = zone_table @ command_table @ device_table @ traffic_table @ c2_table"

definition emitted :: "(string \<times> string) list" where
  "emitted = common_table @ opc_table @ note_table @ role_table @ rogue_table"

lemma emits_report:
  assumes "set common_table \<subseteq> set T" "emits T (check_opc_security convs)" "emits T (check_passive_tls convs)" "emits T (check_conformance convs)"
    and "emits T (check_baseline_deviations (index_nodes ns) convs)" "emits T (check_plc_integrity (index_nodes ns) convs)"
    and "emits T (check_rogue_and_dual_homed (index_nodes ns) convs)"
  shows "emits T (rr_findings (score_topology skip_c2 duration ns edges convs))"
proof -
  have sub: "set zone_table \<subseteq> set T" "set command_table \<subseteq> set T" "set device_table \<subseteq> set T" "set traffic_table \<subseteq> set T"
    "set c2_table \<subseteq> set T"
    using assms(1) by (auto simp: common_table_def)
  note more = emits_zones [THEN emits_more, OF sub(1)] emits_commands [THEN emits_more, OF sub(2)] emits_devices [THEN emits_more, OF sub(3)]
    emits_traffic [THEN emits_more, OF sub(4)] emits_c2 [THEN emits_more, OF _ sub(5)]
  obtain cross vs1 where cross: "check_cross_purdue (index_nodes ns) edges = (cross, vs1)" by fastforce
  obtain conduit vs2 where conduit: "check_conduit (index_nodes ns) edges convs = (conduit, vs2)" by fastforce
  have "emits T cross" "emits T conduit"
    using more(2) [of "index_nodes ns" edges] more(3) [of "index_nodes ns" edges convs] by (simp_all add: cross conduit)
  then show ?thesis by (simp add: score_topology_def Let_def cross conduit more assms(2-) indicates_c2)
qed

lemma report_emits: "emits emitted (rr_findings (score_topology skip_c2 duration ns edges convs))"
proof (rule emits_report)
  have sub: "set note_table \<subseteq> set emitted" "set role_table \<subseteq> set emitted" "set (traffic_table @ rogue_table) \<subseteq> set emitted"
    "set common_table \<subseteq> set emitted" "set opc_table \<subseteq> set emitted"
    by (auto simp: emitted_def common_table_def)
  show "set common_table \<subseteq> set emitted" by (rule sub(4))
qed (rule emits_more [OF emits_opc] emits_more [OF emits_notes(1)] emits_more [OF emits_notes(2)] emits_more [OF emits_roles(1)] emits_more [OF emits_roles(2)]
    emits_more [OF emits_rogue], auto simp: emitted_def common_table_def)+

text \<open>
  Every finding has one of five severities, and a finding that the class documents has the severity
  it is documented with, except \<open>MODBUS_WRITE_ANON\<close>, which is emitted as medium and documented as high.
\<close>

theorem findings_rated:
  "list_all (\<lambda>r. rf_severity r \<in> {''CRITICAL'', ''HIGH'', ''MEDIUM'', ''LOW'', ''INFO''}
       \<and> (case dict_get catalogue (rf_category r) of
            None \<Rightarrow> True
          | Some sev \<Rightarrow> rf_severity r = (if rf_category r = ''MODBUS_WRITE_ANON'' then ''MEDIUM'' else sev)))
     (rr_findings (score_topology skip_c2 duration ns edges convs))"
proof -
  let ?P = "\<lambda>cat sev. sev \<in> {''CRITICAL'', ''HIGH'', ''MEDIUM'', ''LOW'', ''INFO''} \<and> (case dict_get catalogue cat of
     None \<Rightarrow> True | Some s \<Rightarrow> sev = (if cat = ''MODBUS_WRITE_ANON'' then ''MEDIUM'' else s))"
  have "list_all (\<lambda>(cat, sev). ?P cat sev) emitted" by code_simp
  then show ?thesis
    using report_emits [of skip_c2 duration ns edges convs] unfolding emits_def list_all_iff by fastforce
qed

end
