(* ===== verification/EngineSafety.thy ===== *)
theory EngineSafety
  imports TopologyClaims TopologyEnds RiskSafety
begin

text \<open>
  The topology and the risk stage together: the dictionary of nodes that the second stage builds is
  the first stage's, and some checks of the second can never fire on what the first produces.
\<close>

section \<open>The nodes survive the hand-over\<close>

text \<open>The report of a capture: the topology of its conversations, scored with them.\<close>

definition capture_report ::
    "(rat \<Rightarrow> string) \<Rightarrow> oui_db \<Rightarrow> (string \<times> int) list \<Rightarrow> bool \<Rightarrow> bool \<Rightarrow> rat \<Rightarrow> conversation list \<Rightarrow> risk_report" where
  "capture_report fr db sm skip_ephemeral skip_c2 duration convs =
     (case topology_result fr db sm skip_ephemeral convs of (ns, es, _) \<Rightarrow> score_topology skip_c2 duration ns es convs)"

lemma stored_under_key:
  assumes "nodes_ok d" shows "index_nodes (map snd d) = d"
proof -
  have k: "node_key (snd kn) = fst kn" if "kn \<in> set d" for kn
    using assms that by (auto simp: nodes_ok_def list_all_iff node_ok_def key_of_def node_key_def or_else_def)
  have keys: "map node_key (map snd d) = map fst d" using k by simp
  then have "distinct (map node_key (map snd d))" using assms unfolding nodes_ok_def dict_ok_def by metis
  then have "index_nodes (map snd d) = map (\<lambda>n. (node_key n, n)) (map snd d)" by (rule nodes_kept)
  also have "\<dots> = d" using k by (simp add: map_idI)
  finally show ?thesis .
qed

text \<open>
  The dictionary of nodes that the risk stage builds from the list of nodes is the one of the
  topology stage: no node is lost, those without an address included, and edges find their ends.
\<close>

theorem nodes_survive_handover:
  "index_nodes (fst (topology_result fr db sm skip convs)) = tp_nodes (build_topology fr db sm skip convs)"
  unfolding topology_result_def Let_def fst_conv by (rule stored_under_key [OF build_topology_ok])

lemma report_nodes: "capture_report fr db sm skip skip_c2 duration convs =
  score_topology skip_c2 duration (map snd (tp_nodes (build_topology fr db sm skip convs))) (tp_edges (build_topology fr db sm skip convs)) convs"
  by (simp add: capture_report_def topology_result_def Let_def)

section \<open>Checks that ask for roles the topology does not have\<close>

lemma missing_roles: "\<not> engine_role ''Programmable Logic Controller''" "\<not> engine_role ''Human-Machine Interface''"
  by code_simp+

definition role_silent :: "nodes \<Rightarrow> bool" where
  "role_silent ns \<longleftrightarrow> list_all (\<lambda>(_, n). tn_role n \<notin> {''Programmable Logic Controller'', ''Human-Machine Interface''} \<and> \<not> tn_rogue n) ns"

lemma silent_topology: "role_silent (tp_nodes (build_topology fr db sm skip convs))"
  using roles_lemma [of fr db sm skip convs] build_topology_ok [of fr db sm skip convs] missing_roles
  by (fastforce simp: role_silent_def roles_ok_def nodes_ok_def node_ok_def list_all_iff)

lemma silent_get: "role_silent ns \<Longrightarrow> dict_get ns k = Some n \<Longrightarrow>
  tn_role n \<notin> {''Programmable Logic Controller'', ''Human-Machine Interface''}"
  by (auto simp: role_silent_def list_all_iff dest: map_of_SomeD)

lemma silent_checks:
  assumes "role_silent ns"
  shows "check_baseline_deviations ns convs = []" "check_plc_integrity ns convs = []"
    and "emits traffic_table (check_rogue_and_dual_homed ns convs)"
proof -
  show "check_baseline_deviations ns convs = []"
    using silent_get [OF assms] by (auto simp: check_baseline_deviations_def baseline_of_def split: option.split)
  show "check_plc_integrity ns convs = []"
    using assms by (auto simp: check_plc_integrity_def role_silent_def list_all_iff)
  have "filter (\<lambda>(_, n). tn_rogue n) ns = []" using assms by (auto simp: role_silent_def list_all_iff filter_empty_conv)
  then show "emits traffic_table (check_rogue_and_dual_homed ns convs)"
    by (auto simp: check_rogue_and_dual_homed_def traffic_table_def intro!: emits_map split: prod.split)
qed

text \<open>
  C4. No report of the engine has a finding about PLC integrity, logic or configuration changes on a
  PLC, role baselines or rogue assets: the checks look for roles the topology stage does not give.
\<close>

theorem integrity_checks_silent:
  "list_all (\<lambda>r. rf_category r \<notin> {''PLC_INTEGRITY'', ''CIP_LADDER_LOGIC_CHANGE'', ''MODBUS_WRITE_PLC'', ''DNP3_CONFIG_CHANGE'',
       ''OT_CONFIG_WRITE'', ''BASELINE_DEVIATION'', ''ROGUE_ASSET_DISCOVERED''})
     (rr_findings (capture_report fr db sm skip skip_c2 duration convs))"
proof -
  let ?t = "build_topology fr db sm skip convs" and ?T = "common_table @ opc_table @ note_table"
  have index: "index_nodes (map snd (tp_nodes ?t)) = tp_nodes ?t" by (rule stored_under_key [OF build_topology_ok])
  note silent = silent_checks [OF silent_topology [of fr db sm skip convs], of convs]
  have "emits ?T (rr_findings (capture_report fr db sm skip skip_c2 duration convs))"
    unfolding report_nodes
    by (rule emits_report)
      (auto simp: index silent common_table_def intro: emits_more [OF emits_opc] emits_more [OF emits_notes(1)] emits_more [OF emits_notes(2)] emits_more [OF silent(3)])
  moreover have "list_all (\<lambda>(cat, _). cat \<notin> {''PLC_INTEGRITY'', ''CIP_LADDER_LOGIC_CHANGE'', ''MODBUS_WRITE_PLC'', ''DNP3_CONFIG_CHANGE'',
       ''OT_CONFIG_WRITE'', ''BASELINE_DEVIATION'', ''ROGUE_ASSET_DISCOVERED''}) ?T"
    by code_simp
  ultimately show ?thesis unfolding emits_def list_all_iff by fastforce
qed

section \<open>Multicast\<close>

lemma address_not_empty: "ip_address s = Some a \<Longrightarrow> s \<noteq> []"
  by (auto simp: ip_address_def parse_v4_def parse_v6_def groups_def octet_def Let_def)

text \<open>
  C29. An OT node that sends to a multicast group in 239.0.0.0/8, where EtherNet/IP multicasts its cyclic
  data, is reported as exposed to the internet with that group as its public peer, although the
  topology stage does not take the group for a public address.
\<close>

theorem multicast_reported_external:
  assumes "c \<in> set convs" "ip_address (cv_dst_ip c) = Some (V4 n)" "in_network (V4 n) (N4 (v4 239 0 0 0) 8)"
    and "dict_get (index_nodes ns) (src_key c) = Some s" "speaks_ot s"
  shows "\<not> topo_public (cv_dst_ip c) \<and> (\<exists>r \<in> set (rr_findings (score_topology skip_c2 duration ns edges convs)).
     rf_category r = ''ICS_EXTERNAL_COMMS'' \<and> rf_severity r = ''CRITICAL'' \<and> {src_key c, cv_dst_ip c} \<subseteq> set (rf_nodes r))"
proof -
  have g: "is_global (V4 n)" "is_multicast (V4 n)" using multicast_global [OF assms(3)] by auto
  then have public: "public_end (cv_dst_ip c)" "\<not> topo_public (cv_dst_ip c)"
    using address_not_empty [OF assms(2)] assms(2) by (simp_all add: public_end_def risk_public_def topo_public_def)
  let ?ot = "map fst (filter (\<lambda>(_, n). list_ex (\<lambda>p. p \<in> set ot_names) (tn_protocols n)) (index_nodes ns))"
  have "src_key c \<in> set ?ot"
    using map_of_SomeD [OF assms(4)] assms(5) by (force simp: speaks_ot_def)
  then have e: "exposure ?ot c = Some (src_key c, cv_dst_ip c)" using public(1) by (simp add: exposure_def)
  let ?hit = "filter (\<lambda>c. exposure ?ot c \<noteq> None) convs"
  have hit: "c \<in> set ?hit" using assms(1) e by simp
  let ?pairs = "map (\<lambda>c. the (exposure ?ot c)) ?hit"
  have pair: "(src_key c, cv_dst_ip c) \<in> set ?pairs" using hit e by force
  let ?r = "risk ''CRITICAL'' ''ICS_EXTERNAL_COMMS'' (remdups (map fst ?pairs @ remdups (map snd ?pairs))) (map (\<lambda>c. (src_key c, dst_key c)) ?hit)"
  have "?hit \<noteq> []" using hit by (metis empty_iff empty_set)
  then have "?r \<in> set (check_external_comms (index_nodes ns) convs)" by (simp add: check_external_comms_def Let_def)
  then have "?r \<in> set (rr_findings (score_topology skip_c2 duration ns edges convs))"
    by (simp add: score_topology_def Let_def split: prod.split)
  moreover have "src_key c \<in> set (map fst ?pairs)" "cv_dst_ip c \<in> set (map snd ?pairs)"
    using imageI [OF pair, of fst] imageI [OF pair, of snd] by (simp_all only: list.set_map fst_conv snd_conv)
  then have "{src_key c, cv_dst_ip c} \<subseteq> set (rf_nodes ?r)"
    by (simp only: risk_def risk.select_convs set_remdups set_append) simp
  moreover have "rf_category ?r = ''ICS_EXTERNAL_COMMS''" "rf_severity ?r = ''CRITICAL''" by (rule risk_fields)+
  ultimately show ?thesis using public(2) by blast
qed

definition cyclic :: conversation where
  "cyclic = blank_conversation\<lparr>cv_src_ip := ''10.0.0.5'', cv_dst_ip := ''239.192.1.1'', cv_protocol := ''EtherNet/IP'', cv_port := 2222\<rparr>"

lemma cyclic_address: "ip_address ''239.192.1.1'' = Some (V4 4022337793)" "in_network (V4 4022337793) (N4 (v4 239 0 0 0) 8)"
  by code_simp+

theorem multicast_reported_external_witness:
  "\<exists>r \<in> set (rr_findings (score_topology False 0 [(new_node ''10.0.0.5'' [])\<lparr>tn_protocols := [''EtherNet/IP'']\<rparr>] [] [cyclic])).
     rf_category r = ''ICS_EXTERNAL_COMMS'' \<and> ''239.192.1.1'' \<in> set (rf_nodes r)"
  using multicast_reported_external [of cyclic "[cyclic]" 4022337793 "[(new_node ''10.0.0.5'' [])\<lparr>tn_protocols := [''EtherNet/IP'']\<rparr>]"
      "(new_node ''10.0.0.5'' [])\<lparr>tn_protocols := [''EtherNet/IP'']\<rparr>" False 0 "[]"] cyclic_address
  by (auto simp: cyclic_def blank_conversation_def src_key_def index_nodes_def node_key_def new_node_def speaks_ot_def ot_names_def tshark_protocols_def)

section \<open>Ports\<close>

lemma unknown_category: "port_category p = ''Unknown'' \<Longrightarrow> p < ephemeral_port_min"
proof -
  have "list_all (\<lambda>(_, _, cat). cat \<noteq> ''Unknown'') well_known" by code_simp
  then have "dict_get well_known p = Some (nm, cat) \<Longrightarrow> cat \<noteq> ''Unknown''" for nm cat
    by (fastforce simp: list_all_iff dest: map_of_SomeD)
  then show "port_category p = ''Unknown'' \<Longrightarrow> ?thesis"
    by (auto simp: port_category_def split: if_splits option.splits prod.splits)
qed

text \<open>
  On the nodes of a topology the check for high ports sees none in the ephemeral range, however many
  connections one has: such ports are not of the category it asks for.
\<close>

theorem ephemeral_services_unseen:
  "list_all (\<lambda>(_, n). list_all (\<lambda>s. high_port s \<longrightarrow> sp_port s < ephemeral_port_min) (tn_services n))
     (tp_nodes (build_topology fr db sm skip convs))"
  using build_topology_ok [of fr db sm skip convs] unknown_category
  by (fastforce simp: nodes_ok_def node_ok_def list_all_iff high_port_def)

end
