(* ===== verification/Bronze.thy ===== *)
theory Bronze
  imports Topology "HOL-Library.Product_Lexorder"
begin

text \<open>
  The adapter in \<open>marlinspike/engine.py\<close> from the events of the external packet engine (the Bronze
  events of \<open>marlinspike-dpi\<close>) to conversations: initiator and responder of a flow, the aggregation by
  conversation, asset and neighbour observations, beacon and name statistics, the port summary and
  the link-layer anomalies. An event is a JSON object; reading it into \<open>event\<close> keeps what the code asks
  for, with the code's defaults, and takes texts and numbers to be of their types. Arguments stand
  for code outside: \<open>fr\<close> shows a float, \<open>rd\<close> reads a time text, \<open>log2\<close> is the logarithm. Floats
  are rationals.
\<close>

section \<open>Events\<close>

record envelope =
  en_protocol :: string
  en_transport :: string
  en_src_ip :: string
  en_dst_ip :: string
  en_src_mac :: string
  en_dst_mac :: string
  en_src_port :: int
  en_dst_port :: int
  en_packets :: int
  en_bytes :: int
  en_time :: string

record transaction =
  tx_operation :: string
  tx_status :: string
  tx_attributes :: obj
  tx_refs :: "pyval list"

record asset =
  at_key :: string
  at_vendor :: string
  at_model :: string
  at_firmware :: string
  at_identifiers :: obj
  at_protocols :: "pyval list"
  at_roles :: "pyval list"
  at_hostnames :: "pyval list"

record observation =
  ob_type :: string
  ob_local :: string
  ob_remote :: string
  ob_description :: string
  ob_capabilities :: "pyval list"
  ob_metadata :: obj

datatype event = AssetSeen envelope asset | LinkSeen envelope observation | Transaction envelope transaction | Other

definition object_at :: "obj \<Rightarrow> string \<Rightarrow> obj" where
  "object_at d k = (case obj_get d k of PDict o' \<Rightarrow> o' | _ \<Rightarrow> [])"

text \<open>\<open>int(d.get(k) or 0)\<close>.\<close>

definition int_at :: "obj \<Rightarrow> string \<Rightarrow> int" where
  "int_at d k = (case py_int (py_or (obj_get d k) (PInt 0)) of None \<Rightarrow> 0 | Some i \<Rightarrow> i)"

definition extract_bronze_family :: "obj \<Rightarrow> string \<times> obj" where
  "extract_bronze_family e = (case obj_get e ''family'' of
       PDict [(name, payload)] \<Rightarrow> (name, case payload of PDict p \<Rightarrow> p | _ \<Rightarrow> [])
     | _ \<Rightarrow> ([], []))"

definition envelope_of :: "obj \<Rightarrow> envelope" where
  "envelope_of d = \<lparr>en_protocol = text_at d ''protocol'', en_transport = text_at d ''transport'', en_src_ip = text_at d ''src_ip'',
     en_dst_ip = text_at d ''dst_ip'', en_src_mac = text_at d ''src_mac'', en_dst_mac = text_at d ''dst_mac'',
     en_src_port = int_at d ''src_port'', en_dst_port = int_at d ''dst_port'', en_packets = int_at d ''packet_count'',
     en_bytes = int_at d ''bytes_count'', en_time = text_at d ''timestamp''\<rparr>"

definition transaction_of :: "obj \<Rightarrow> transaction" where
  "transaction_of d = \<lparr>tx_operation = text_at d ''operation'', tx_status = text_at d ''status'',
     tx_attributes = object_at d ''attributes'', tx_refs = list_at d ''object_refs''\<rparr>"

definition asset_of :: "obj \<Rightarrow> asset" where
  "asset_of d = \<lparr>at_key = text_at d ''asset_key'', at_vendor = text_at d ''vendor'', at_model = text_at d ''model'',
     at_firmware = text_at d ''firmware'', at_identifiers = object_at d ''identifiers'', at_protocols = list_at d ''protocols'',
     at_roles = list_at d ''roles'', at_hostnames = list_at d ''hostnames''\<rparr>"

definition observation_of :: "obj \<Rightarrow> observation" where
  "observation_of d = \<lparr>ob_type = text_at d ''observation_type'', ob_local = text_at d ''local_id'', ob_remote = text_at d ''remote_id'',
     ob_description = text_at d ''description'', ob_capabilities = list_at d ''capabilities'', ob_metadata = object_at d ''metadata''\<rparr>"

definition event_of :: "obj \<Rightarrow> event" where
  "event_of e = (let env = envelope_of (object_at e ''envelope'') in
     case extract_bronze_family e of (family, payload) \<Rightarrow>
       if family = ''asset_observation'' then AssetSeen env (asset_of payload)
       else if family = ''topology_observation'' then LinkSeen env (observation_of payload)
       else if family = ''protocol_transaction'' then Transaction env (transaction_of payload)
       else Other)"

section \<open>Names and ports\<close>

text \<open>\<open>str.title\<close> on ASCII text: a letter after a letter is small, another is a capital.\<close>

fun title_from :: "bool \<Rightarrow> string \<Rightarrow> string" where
  "title_from inside [] = []"
| "title_from inside (c # cs) =
     (let letter = (97 \<le> ord_of (py_lower_char c) \<and> ord_of (py_lower_char c) \<le> 122)
      in (if inside then [py_lower_char c] else py_upper_char c) @ title_from letter cs)"

definition py_title :: "string \<Rightarrow> string" where
  "py_title s = title_from False s"

definition protocol_display_name :: "string \<Rightarrow> string" where
  "protocol_display_name key =
     (if key = [] then ''Unknown''
      else case dict_get display_names key of
        Some name \<Rightarrow> name
      | None \<Rightarrow> py_title (map (\<lambda>c. if c = CHR ''_'' then CHR '' '' else c) key))"

definition stable_ports :: "string \<Rightarrow> int list" where
  "stable_ports key = (case dict_get service_ports_of key of None \<Rightarrow> [] | Some ps \<Rightarrow> ps)"

definition protocol_service_port :: "string \<Rightarrow> int \<Rightarrow> int \<Rightarrow> int" where
  "protocol_service_port key src dst =
     (if dst \<in> set (stable_ports key) then dst
      else if src \<in> set (stable_ports key) then src
      else if dst \<noteq> 0 \<and> dst < ephemeral_port_min then dst
      else if src \<noteq> 0 \<and> src < ephemeral_port_min then src
      else if dst \<noteq> 0 then dst else src)"

record flow =
  fl_src_ip :: string
  fl_dst_ip :: string
  fl_src_mac :: string
  fl_dst_mac :: string
  fl_src_port :: int
  fl_dst_port :: int
  fl_service :: int
  fl_transport :: string
  fl_protocol :: string

text \<open>\<open>_normalize_bronze_flow\<close>: the sender is the responder if the service port is on its side only.\<close>

definition reversed :: "string \<Rightarrow> int \<Rightarrow> int \<Rightarrow> int \<Rightarrow> bool" where
  "reversed status service src dst =
     (let back = (service \<noteq> 0 \<and> src = service \<and> dst \<noteq> service) in
      if status = ''response'' then back
      else if status = ''request'' then back
      else if back then True else False)"

definition normalize_bronze_flow :: "envelope \<Rightarrow> transaction \<Rightarrow> flow" where
  "normalize_bronze_flow env tx =
     (let key = py_lower (en_protocol env);
          service = protocol_service_port key (en_src_port env) (en_dst_port env) in
      if reversed (py_lower (tx_status tx)) service (en_src_port env) (en_dst_port env)
      then \<lparr>fl_src_ip = en_dst_ip env, fl_dst_ip = en_src_ip env, fl_src_mac = en_dst_mac env, fl_dst_mac = en_src_mac env,
        fl_src_port = en_dst_port env, fl_dst_port = en_src_port env, fl_service = service,
        fl_transport = py_lower (en_transport env), fl_protocol = key\<rparr>
      else \<lparr>fl_src_ip = en_src_ip env, fl_dst_ip = en_dst_ip env, fl_src_mac = en_src_mac env, fl_dst_mac = en_dst_mac env,
        fl_src_port = en_src_port env, fl_dst_port = en_dst_port env, fl_service = service,
        fl_transport = py_lower (en_transport env), fl_protocol = key\<rparr>)"

section \<open>Statistics\<close>

text \<open>\<open>round\<close> to the nearest integer, halves to the even one.\<close>

definition round_even :: "rat \<Rightarrow> int" where
  "round_even q = (let f = \<lfloor>q\<rfloor>; d = q - of_int f in
     if d < 1/2 then f else if d > 1/2 then f + 1 else if even f then f else f + 1)"

definition arrival_gaps :: "rat list \<Rightarrow> rat list" where
  "arrival_gaps ts = filter (\<lambda>d. d > 1/100) (map (\<lambda>(a, b). b - a) (zip ts (tl ts)))"

definition count_bin :: "rat \<Rightarrow> rat \<Rightarrow> (rat, int) dict \<Rightarrow> (rat, int) dict" where
  "count_bin width d bins = (let k = of_int (round_even (d / width)) * width in
     dict_set k ((case dict_get bins k of None \<Rightarrow> 0 | Some n \<Rightarrow> n) + 1) bins)"

text \<open>\<open>max(bins, key=bins.get)\<close>: the first of the fullest.\<close>

definition fuller :: "(rat \<times> int) \<Rightarrow> (rat \<times> int) \<Rightarrow> rat \<times> int" where
  "fuller x y = (if snd x > snd y then x else y)"

definition peak_bin :: "(rat, int) dict \<Rightarrow> rat" where
  "peak_bin bins = fst (fold fuller (tl bins) (hd bins))"

definition span :: "rat list \<Rightarrow> rat" where
  "span ds = fold max (tl ds) (hd ds) - fold min (tl ds) (hd ds)"

definition compute_beacon_score :: "rat list \<Rightarrow> rat \<times> rat \<times> rat" where
  "compute_beacon_score timestamps =
     (if length timestamps < 10 then (0, 0, 0)
      else let ds = arrival_gaps (sort timestamps) in
        if length ds < 5 then (0, 0, 0)
        else let median = sort ds ! (length ds div 2) in
          if median < 1/10 then (0, 0, 0)
          else let width = max (median * (1/10)) (1/2);
                 bins = fold (count_bin width) ds [];
                 peak = peak_bin bins;
                 clustered = sum_list (map snd (filter (\<lambda>(k, _). \<bar>k - peak\<bar> \<le> width) bins));
                 fraction = of_int clustered / of_nat (length ds);
                 near = filter (\<lambda>d. \<bar>d - peak\<bar> \<le> width) ds;
                 jitter = (if peak > 0 \<and> near \<noteq> [] then span near / peak else 1);
                 score = max 0 (min 1 (fraction * (1 - min jitter 1)))
             in (score, peak, jitter))"

definition letter_counts :: "string \<Rightarrow> (char, int) dict" where
  "letter_counts s = fold (\<lambda>c d. dict_set c ((case dict_get d c of None \<Rightarrow> 0 | Some n \<Rightarrow> n) + 1) d) (py_lower s) []"

definition entropy_of :: "(rat \<Rightarrow> rat) \<Rightarrow> string \<Rightarrow> rat" where
  "entropy_of log2 s = - sum_list (map (\<lambda>(_, n). (let p = of_int n / of_nat (length s) in p * log2 p)) (letter_counts s))"

text \<open>The labels below the registered domain, if they have four characters.\<close>

definition strip_dots :: "string \<Rightarrow> string" where
  "strip_dots s = rev (dropWhile (\<lambda>c. c = CHR ''.'') (rev s))"

definition subdomain_of :: "string \<Rightarrow> string option" where
  "subdomain_of q = (let ps = py_split (CHR ''.'') (strip_dots q); sub = py_join ''.'' (take (length ps - 2) ps) in
     if length ps \<le> 2 \<or> length sub < 4 then None else Some sub)"

definition compute_dns_entropy :: "(rat \<Rightarrow> rat) \<Rightarrow> string list \<Rightarrow> rat \<times> rat" where
  "compute_dns_entropy log2 queries =
     (let subs = List.map_filter subdomain_of queries; n = of_nat (length subs) in
      if subs = [] then (0, 0)
      else (sum_list (map (entropy_of log2) subs) / n,
            sum_list (map (\<lambda>s. (let most = (if length s > 1 then log2 (of_nat (length s)) else 0) in
              if most > 0 then entropy_of log2 s / most else 0)) subs) / n))"

section \<open>Aggregates\<close>

definition append_unique :: "(rat \<Rightarrow> string) \<Rightarrow> nat \<Rightarrow> pyval \<Rightarrow> string list \<Rightarrow> string list" where
  "append_unique fr limit v bucket =
     (if v = PNone then bucket
      else let text = py_strip (py_str fr v) in
        if text = [] \<or> text \<in> set bucket then bucket
        else if length bucket < limit then bucket @ [text] else bucket)"

definition merge_attributes :: "(rat \<Rightarrow> string) \<Rightarrow> obj \<Rightarrow> (string, string list) dict \<Rightarrow> (string, string list) dict" where
  "merge_attributes fr attributes bucket = fold (\<lambda>(k, v) b.
     if py_strip k = [] \<or> v = PNone then b
     else dict_set (py_strip k) (append_unique fr 12 v (case dict_get b (py_strip k) of None \<Rightarrow> [] | Some xs \<Rightarrow> xs)) b) attributes bucket"

definition finalize_attributes :: "(string, string list) dict \<Rightarrow> obj" where
  "finalize_attributes bucket = List.map_filter (\<lambda>(k, vs). case vs of
       [] \<Rightarrow> None
     | [v] \<Rightarrow> Some (k, PStr v)
     | _ \<Rightarrow> Some (k, PList (map PStr vs))) (sort_key fst bucket)"

text \<open>The compact summary of an asset, a JSON object with the keys that have something to say.\<close>

definition listed :: "string \<Rightarrow> string list \<Rightarrow> obj" where
  "listed k xs = (if xs = [] then [] else [(k, PList (map PStr xs))])"

definition summarize_asset :: "(rat \<Rightarrow> string) \<Rightarrow> asset \<Rightarrow> obj" where
  "summarize_asset fr a =
     (let ids = List.map_filter (\<lambda>(k, v). let text = (if v = PNone then [] else py_strip (py_str fr v)) in
            if text = [] then None else Some (k, PStr text)) (sort_key fst (at_identifiers a)) in
      listed ''protocols'' (fold (append_unique fr 16) (at_protocols a) [])
      @ listed ''roles'' (fold (append_unique fr 12) (at_roles a) [])
      @ listed ''hostnames'' (fold (append_unique fr 8) (at_hostnames a) [])
      @ (if ids = [] then [] else [(''identifiers'', PDict ids)])
      @ List.map_filter (\<lambda>(k, v). if py_strip v = [] then None else Some (k, PStr (py_strip v)))
          [(''asset_key'', at_key a), (''vendor'', at_vendor a), (''model'', at_model a), (''firmware'', at_firmware a)])"

definition merge_list :: "(rat \<Rightarrow> string) \<Rightarrow> obj \<Rightarrow> string \<times> nat \<Rightarrow> obj \<Rightarrow> obj" where
  "merge_list fr incoming kl existing = (case kl of (k, limit) \<Rightarrow>
     if truthy (obj_get incoming k)
     then dict_set k (PList (map PStr (fold (append_unique fr limit) (list_at incoming k) (map str_of (list_at existing k))))) existing
     else existing)"

definition merge_identifiers :: "(rat \<Rightarrow> string) \<Rightarrow> obj \<Rightarrow> obj \<Rightarrow> obj" where
  "merge_identifiers fr incoming existing =
     (if truthy (obj_get incoming ''identifiers'')
      then dict_set ''identifiers'' (PDict (fold (\<lambda>(k, v) ids. let text = py_strip (py_str fr v) in
          if text \<noteq> [] \<and> \<not> truthy (obj_get ids k) then dict_set k (PStr text) ids else ids)
        (object_at incoming ''identifiers'') (object_at existing ''identifiers''))) existing
      else existing)"

definition merge_scalar :: "obj \<Rightarrow> string \<Rightarrow> obj \<Rightarrow> obj" where
  "merge_scalar incoming k existing = (let text = py_strip (text_at incoming k) in
     if text \<noteq> [] \<and> \<not> truthy (obj_get existing k) then dict_set k (PStr text) existing else existing)"

definition merge_summary :: "(rat \<Rightarrow> string) \<Rightarrow> obj \<Rightarrow> obj \<Rightarrow> obj" where
  "merge_summary fr incoming existing =
     (if incoming = [] then existing
      else fold (merge_scalar incoming) [''asset_key'', ''vendor'', ''model'', ''firmware'']
        (merge_identifiers fr incoming
          (fold (merge_list fr incoming) [(''protocols'', 16), (''roles'', 12), (''hostnames'', 8)] existing)))"

text \<open>What the asset observations say of an address, and the neighbour data of a MAC.\<close>

record seen_asset =
  sa_bronze :: obj
  sa_cip :: obj
  sa_modbus :: obj

definition blank_asset :: seen_asset where
  "blank_asset = \<lparr>sa_bronze = [], sa_cip = [], sa_modbus = []\<rparr>"

definition asset_at :: "(string, seen_asset) dict \<Rightarrow> string \<Rightarrow> seen_asset" where
  "asset_at assets ip = (case dict_get assets ip of None \<Rightarrow> blank_asset | Some a \<Rightarrow> a)"

definition looks_like_ip :: "string \<Rightarrow> bool" where
  "looks_like_ip s \<longleftrightarrow> s \<noteq> [] \<and> ip_address s \<noteq> None"

definition cip_identity_of :: "asset \<Rightarrow> obj" where
  "cip_identity_of a = (let ids = at_identifiers a in
     [(''vendor_id'', obj_get_or ids ''cip_vendor_id'' (PStr [])), (''device_type'', obj_get_or ids ''cip_device_type'' (PStr [])),
      (''product_code'', obj_get_or ids ''cip_product_code'' (PStr [])), (''serial_number'', obj_get_or ids ''cip_serial_number'' (PStr [])),
      (''revision'', obj_get_or ids ''cip_revision'' (PStr [])), (''product_name'', PStr (at_model a)), (''vendor_name'', PStr (at_vendor a))])"

definition update_obj :: "obj \<Rightarrow> obj \<Rightarrow> obj" where
  "update_obj new d = fold (\<lambda>(k, v). dict_set k v) new d"

definition neighbour_of :: "asset \<Rightarrow> obj" where
  "neighbour_of a =
     (if PStr ''lldp'' \<in> set (at_protocols a)
      then [(''source'', PStr ''lldp''), (''system_name'', PStr (at_vendor a)), (''system_desc'', PStr (at_model a))]
      else if PStr ''cdp'' \<in> set (at_protocols a)
      then [(''source'', PStr ''cdp''), (''system_name'', if at_hostnames a \<noteq> [] then hd (at_hostnames a) else PStr (at_key a)),
        (''system_desc'', PStr (at_model a)), (''software_version'', PStr (at_firmware a))]
      else [(''source'', PStr ''stp'')])"

definition speaks :: "asset \<Rightarrow> string list \<Rightarrow> bool" where
  "speaks a names \<longleftrightarrow> list_ex (\<lambda>n. PStr n \<in> set (at_protocols a)) names"

definition asset_ip :: "asset \<Rightarrow> string" where
  "asset_ip a = or_else (text_at (at_identifiers a) ''ip'') (if looks_like_ip (at_key a) then at_key a else [])"

text \<open>\<open>_register_asset_observation\<close>.\<close>

definition register_asset :: "(rat \<Rightarrow> string) \<Rightarrow> asset \<Rightarrow> (string, seen_asset) dict \<Rightarrow> (string, seen_asset) dict" where
  "register_asset fr a assets =
     (let ip = asset_ip a; summary = summarize_asset fr a; old = asset_at assets ip;
          a1 = (if summary \<noteq> [] then old\<lparr>sa_bronze := merge_summary fr summary (sa_bronze old)\<rparr> else old);
          a2 = (if speaks a [''ethernet_ip'', ''cip''] then a1\<lparr>sa_cip := cip_identity_of a\<rparr> else a1);
          a3 = (if speaks a [''modbus''] then a2\<lparr>sa_modbus := at_identifiers a\<rparr> else a2) in
      if ip = [] then assets else dict_set ip a3 assets)"

definition register_neighbour :: "envelope \<Rightarrow> asset \<Rightarrow> (string, obj) dict \<Rightarrow> (string, obj) dict" where
  "register_neighbour env a l2 =
     (let mac = or_else (text_at (at_identifiers a) ''mac'') (en_src_mac env) in
      if speaks a [''lldp'', ''cdp'', ''stp''] \<and> mac \<noteq> []
      then dict_set mac (update_obj (neighbour_of a) (case dict_get l2 mac of None \<Rightarrow> [] | Some d \<Rightarrow> d)) l2
      else l2)"

section \<open>Conversations\<close>

record aggregate = conversation +
  ag_times :: "rat list"
  ag_attributes :: "(string, string list) dict"

datatype conv_key = LinkKey string string string
  | FlowKey string string string string string int string

record adapter =
  ad_convs :: "(conv_key, aggregate) dict"
  ad_assets :: "(string, seen_asset) dict"
  ad_l2 :: "(string, obj) dict"

text \<open>\<open>_parse_iso_timestamp\<close>: a final \<open>Z\<close> is an offset of zero for \<open>fromisoformat\<close>.\<close>

definition parse_iso_timestamp :: "(string \<Rightarrow> rat option) \<Rightarrow> string \<Rightarrow> rat option" where
  "parse_iso_timestamp rd s =
     (if s = [] then None else rd (concat (map (\<lambda>c. if c = CHR ''Z'' then ''+00:00'' else [c]) s)))"

definition count_event :: "(string \<Rightarrow> rat option) \<Rightarrow> envelope \<Rightarrow> aggregate \<Rightarrow> aggregate" where
  "count_event rd env g = g\<lparr>cv_packets := cv_packets g + (if en_packets env \<noteq> 0 then en_packets env else 1),
     cv_bytes := cv_bytes g + en_bytes env,
     cv_first := min (cv_first g) (or_else (en_time env) (cv_first g)),
     cv_last := max (cv_last g) (or_else (en_time env) (cv_last g)),
     ag_times := ag_times g @ (case parse_iso_timestamp rd (en_time env) of None \<Rightarrow> [] | Some t \<Rightarrow> [t])\<rparr>"

definition aggregate_of :: "conversation \<Rightarrow> aggregate" where
  "aggregate_of c = conversation.extend c \<lparr>ag_times = [], ag_attributes = []\<rparr>"

definition new_link :: "envelope \<Rightarrow> string \<Rightarrow> string \<Rightarrow> aggregate" where
  "new_link env src dst = aggregate_of (blank_conversation\<lparr>cv_src_mac := src, cv_dst_mac := dst,
     cv_protocol := protocol_display_name (py_lower (en_protocol env)), cv_first := en_time env, cv_last := en_time env,
     cv_transport := py_lower (en_transport env)\<rparr>)"

definition set_default :: "string \<Rightarrow> pyval \<Rightarrow> obj \<Rightarrow> obj" where
  "set_default k v d = (case dict_get d k of None \<Rightarrow> dict_set k v d | Some _ \<Rightarrow> d)"

definition add_port :: "string \<Rightarrow> obj \<Rightarrow> obj" where
  "add_port description d = (if description = [] then d
     else dict_set ''ports'' (PList (append_new (PDict [(''id'', PStr description), (''desc'', PStr [])]) (list_at d ''ports''))) d)"

definition set_text :: "string \<Rightarrow> string \<Rightarrow> obj \<Rightarrow> obj" where
  "set_text k s d = (if s = [] then d else dict_set k (PStr s) d)"

definition set_truthy :: "string \<Rightarrow> pyval \<Rightarrow> obj \<Rightarrow> obj" where
  "set_truthy k v d = (if truthy v then dict_set k v d else d)"

definition neighbour_data :: "observation \<Rightarrow> obj \<Rightarrow> obj" where
  "neighbour_data ob d =
     (if ob_type ob = ''lldp_neighbor''
      then set_truthy ''capabilities'' (PList (ob_capabilities ob))
        (add_port (ob_description ob) (set_text ''chassis_id'' (ob_remote ob) (set_default ''source'' (PStr ''lldp'') d)))
      else if ob_type ob = ''cdp_neighbor''
      then (let d1 = set_default ''source'' (PStr ''cdp'') d;
                d2 = (if truthy (obj_get d1 ''system_name'') then d1 else set_text ''system_name'' (ob_remote ob) d1);
                d3 = add_port (ob_description ob) d2;
                vlan = obj_get (ob_metadata ob) ''native_vlan'' in
            if truthy vlan then dict_set ''vlans'' (PList (append_new vlan (list_at d3 ''vlans''))) d3 else d3)
      else if ob_type ob = ''stp_topology''
      then set_text ''stp_type'' (ob_description ob)
        (set_truthy ''stp_port'' (obj_get (ob_metadata ob) ''port_id'')
          (set_truthy ''stp_root_cost'' (obj_get (ob_metadata ob) ''root_path_cost'')
            (set_text ''stp_bridge'' (ob_local ob) (set_text ''stp_root'' (ob_remote ob) (set_default ''source'' (PStr ''stp'') d)))))
      else d)"

text \<open>\<open>_apply_topology_observation\<close>.\<close>

definition apply_topology_observation :: "(string \<Rightarrow> rat option) \<Rightarrow> envelope \<Rightarrow> observation \<Rightarrow> adapter \<Rightarrow> adapter" where
  "apply_topology_observation rd env ob st =
     (let src = or_else (en_src_mac env) (ob_local ob); dst = or_else (en_dst_mac env) (ob_remote ob);
          key = LinkKey (py_lower (en_protocol env)) src dst;
          g = count_event rd env (case dict_get (ad_convs st) key of None \<Rightarrow> new_link env src dst | Some g \<Rightarrow> g);
          known = (case dict_get (ad_l2 st) src of None \<Rightarrow> [] | Some d \<Rightarrow> d) in
      st\<lparr>ad_convs := dict_set key (g\<lparr>cv_l2 := neighbour_data ob (update_obj known (cv_l2 g))\<rparr>) (ad_convs st)\<rparr>)"

text \<open>\<open>_apply_protocol_transaction\<close>; sets are lists without repetition.\<close>

definition typed_fields :: "transaction \<Rightarrow> flow \<Rightarrow> aggregate \<Rightarrow> aggregate" where
  "typed_fields tx fl g =
     (let operation = tx_operation tx in
      if cv_protocol g = ''Modbus TCP''
      then g\<lparr>cv_modbus_functions := (if operation \<noteq> [] then append_new (PStr operation) (cv_modbus_functions g) else cv_modbus_functions g),
             cv_modbus_writes := cv_modbus_writes g + (if py_startswith operation ''write_'' then 1 else 0)\<rparr>
      else if cv_protocol g = ''S7comm''
      then g\<lparr>cv_s7_functions := (if operation \<noteq> [] then append_new operation (cv_s7_functions g) else cv_s7_functions g),
             cv_s7_access := (cv_s7_access g \<or> operation \<in> set s7_program_operations)\<rparr>
      else if cv_protocol g = ''DNP3''
      then g\<lparr>cv_dnp3_objects := (if operation \<noteq> [] then append_new operation (cv_dnp3_objects g) else cv_dnp3_objects g)\<rparr>
      else if cv_protocol g = ''OPC-UA''
      then (let service = py_or (obj_get (tx_attributes tx) ''service_type'') (PStr operation) in
        g\<lparr>cv_opc_sessions := cv_opc_sessions g @ (if truthy service then [service] else [])\<rparr>)
      else if cv_protocol g = ''DNS''
      then g\<lparr>cv_dns_queries := fold (append_new \<circ> str_of) (filter truthy (tx_refs tx)) (cv_dns_queries g)\<rparr>
      else if fl_protocol fl = ''profinet'' \<and> tx_attributes tx \<noteq> []
      then g\<lparr>cv_pn_identity := update_obj [(''service_type'', obj_get_or (tx_attributes tx) ''service_type'' (PStr [])),
             (''frame_id'', obj_get_or (tx_attributes tx) ''frame_id'' (PStr []))] (cv_pn_identity g)\<rparr>
      else g)"

definition apply_protocol_transaction :: "(rat \<Rightarrow> string) \<Rightarrow> transaction \<Rightarrow> flow \<Rightarrow> aggregate \<Rightarrow> aggregate" where
  "apply_protocol_transaction fr tx fl g = typed_fields tx fl
     (g\<lparr>cv_src_ports := append_new (fl_src_port fl) (cv_src_ports g),
        cv_src_port := (if cv_src_port g = 0 then fl_src_port fl else cv_src_port g),
        cv_operations := (if tx_operation tx \<noteq> [] then append_unique fr 32 (PStr (tx_operation tx)) (cv_operations g) else cv_operations g),
        ag_attributes := merge_attributes fr (tx_attributes tx) (ag_attributes g),
        cv_object_refs := fold (append_unique fr 32) (tx_refs tx) (cv_object_refs g)\<rparr>)"

definition flow_key :: "flow \<Rightarrow> conv_key" where
  "flow_key fl = FlowKey (fl_src_ip fl) (fl_dst_ip fl) (fl_src_mac fl) (fl_dst_mac fl) (fl_protocol fl) (fl_service fl) (fl_transport fl)"

definition new_flow :: "envelope \<Rightarrow> flow \<Rightarrow> aggregate" where
  "new_flow env fl = aggregate_of (blank_conversation\<lparr>cv_src_ip := fl_src_ip fl, cv_dst_ip := fl_dst_ip fl, cv_src_mac := fl_src_mac fl,
     cv_dst_mac := fl_dst_mac fl, cv_protocol := protocol_display_name (fl_protocol fl), cv_port := fl_service fl,
     cv_first := en_time env, cv_last := en_time env, cv_src_port := fl_src_port fl, cv_transport := fl_transport fl\<rparr>)"

definition apply_transaction :: "(rat \<Rightarrow> string) \<Rightarrow> (string \<Rightarrow> rat option) \<Rightarrow> envelope \<Rightarrow> transaction \<Rightarrow> adapter \<Rightarrow> adapter" where
  "apply_transaction fr rd env tx st =
     (let fl = normalize_bronze_flow env tx;
          g = count_event rd env (case dict_get (ad_convs st) (flow_key fl) of None \<Rightarrow> new_flow env fl | Some g \<Rightarrow> g) in
      st\<lparr>ad_convs := dict_set (flow_key fl) (apply_protocol_transaction fr tx fl g) (ad_convs st)\<rparr>)"

fun apply_event :: "(rat \<Rightarrow> string) \<Rightarrow> (string \<Rightarrow> rat option) \<Rightarrow> event \<Rightarrow> adapter \<Rightarrow> adapter" where
  "apply_event fr rd (AssetSeen env a) st = st\<lparr>ad_assets := register_asset fr a (ad_assets st), ad_l2 := register_neighbour env a (ad_l2 st)\<rparr>"
| "apply_event fr rd (LinkSeen env ob) st = apply_topology_observation rd env ob st"
| "apply_event fr rd (Transaction env tx) st = apply_transaction fr rd env tx st"
| "apply_event fr rd Other st = st"

definition adapt :: "(rat \<Rightarrow> string) \<Rightarrow> (string \<Rightarrow> rat option) \<Rightarrow> event list \<Rightarrow> adapter" where
  "adapt fr rd es = fold (apply_event fr rd) es \<lparr>ad_convs = [], ad_assets = [], ad_l2 = []\<rparr>"

section \<open>Completion\<close>

text \<open>Identities of the responder first, then of the initiator.\<close>

definition enrich :: "seen_asset \<Rightarrow> aggregate \<Rightarrow> aggregate" where
  "enrich a g = g\<lparr>cv_cip_identity := (if cv_cip_identity g = [] then sa_cip a else cv_cip_identity g),
     cv_modbus_functions := (if sa_modbus a \<noteq> [] \<and> cv_protocol g = ''Modbus TCP'' \<and> cv_modbus_functions g = []
       then [PStr ''read_device_identification''] else cv_modbus_functions g)\<rparr>"

definition finish_conversation :: "(rat \<Rightarrow> string) \<Rightarrow> (rat \<Rightarrow> rat) \<Rightarrow> (string, seen_asset) dict \<Rightarrow> aggregate \<Rightarrow> conversation" where
  "finish_conversation fr log2 assets g0 =
     (let g = enrich (asset_at assets (cv_src_ip g0)) (enrich (asset_at assets (cv_dst_ip g0)) g0);
          queries = sort (cv_dns_queries g) in
      case (compute_beacon_score (ag_times g), compute_dns_entropy log2 queries) of
        ((score, interval, jitter), (entropy, ratio)) \<Rightarrow>
          (conversation.truncate g)\<lparr>
            cv_src_asset := merge_summary fr (sa_bronze (asset_at assets (cv_src_ip g))) (cv_src_asset g),
            cv_dst_asset := merge_summary fr (sa_bronze (asset_at assets (cv_dst_ip g))) (cv_dst_asset g),
            cv_modbus_functions := map PStr (sort (map str_of (cv_modbus_functions g))), cv_s7_functions := sort (cv_s7_functions g),
            cv_dnp3_objects := sort (cv_dnp3_objects g), cv_src_ports := sort (filter (\<lambda>p. p \<noteq> 0) (cv_src_ports g)),
            cv_beacon_score := score, cv_beacon_interval := interval, cv_beacon_jitter := jitter,
            cv_dns_queries := take 200 queries, cv_dns_entropy := entropy, cv_dns_ratio := ratio,
            cv_attributes := finalize_attributes (ag_attributes g)\<rparr>)"

definition conversations_of :: "(rat \<Rightarrow> string) \<Rightarrow> (string \<Rightarrow> rat option) \<Rightarrow> (rat \<Rightarrow> rat) \<Rightarrow> event list \<Rightarrow> conversation list" where
  "conversations_of fr rd log2 es = (let st = adapt fr rd es in map (finish_conversation fr log2 (ad_assets st) \<circ> snd) (ad_convs st))"

definition build_conversations :: "(rat \<Rightarrow> string) \<Rightarrow> (string \<Rightarrow> rat option) \<Rightarrow> (rat \<Rightarrow> rat) \<Rightarrow> obj \<Rightarrow> conversation list" where
  "build_conversations fr rd log2 output =
     conversations_of fr rd log2 (List.map_filter (\<lambda>e. map_option event_of (as_dict e)) (list_at (object_at output ''output'') ''events''))"

section \<open>The port summary\<close>

record port_item =
  pi_protocol :: string
  pi_category :: string
  pi_connections :: int
  pi_bytes :: int
  pi_peers :: "string list"

definition count_item :: "conversation \<Rightarrow> port_item \<Rightarrow> port_item" where
  "count_item c i = i\<lparr>pi_protocol := cv_protocol c, pi_category := port_category (cv_port c), pi_connections := pi_connections i + 1,
     pi_bytes := pi_bytes i + cv_bytes c, pi_peers := (if cv_dst_ip c \<noteq> [] then append_new (cv_dst_ip c) (pi_peers i) else pi_peers i)\<rparr>"

definition blank_item :: port_item where
  "blank_item = \<lparr>pi_protocol = [], pi_category = [], pi_connections = 0, pi_bytes = 0, pi_peers = []\<rparr>"

definition count_conversation :: "conversation \<Rightarrow> (int \<times> string, port_item) dict \<Rightarrow> (int \<times> string, port_item) dict" where
  "count_conversation c bucket =
     (if cv_port c \<le> 0 then bucket
      else let key = (cv_port c, cv_transport c) in
        dict_set key (count_item c (case dict_get bucket key of None \<Rightarrow> blank_item | Some i \<Rightarrow> i)) bucket)"

definition port_bucket :: "conversation list \<Rightarrow> (int \<times> string, port_item) dict" where
  "port_bucket convs = fold count_conversation convs []"

definition summary_key :: "int \<times> string \<Rightarrow> string" where
  "summary_key k = (case k of (port, transport) \<Rightarrow> if transport \<noteq> [] then show_int port @ ''/'' @ transport else show_int port)"

record port_row =
  pr_port :: int
  pr_transport :: string
  pr_item :: port_item
  pr_unique_peers :: nat

definition build_port_summary :: "conversation list \<Rightarrow> (string, port_row) dict" where
  "build_port_summary convs = fold (\<lambda>(k, i).
     dict_set (summary_key k) \<lparr>pr_port = fst k, pr_transport = snd k, pr_item = i, pr_unique_peers = length (pi_peers i)\<rparr>)
     (port_bucket convs) []"

section \<open>Link-layer anomalies\<close>

record anomaly =
  an_time :: pyval
  an_type :: string
  an_decoder :: string
  an_src_mac :: pyval
  an_dst_mac :: pyval
  an_src_ip :: pyval
  an_dst_ip :: pyval
  an_details :: obj

definition link_subsystems :: "string list" where
  "link_subsystems = [''l2'', ''arp'', ''mac'', ''ethernet'']"

text \<open>\<open>decoder.split(":", 1)\<close>, with an empty tag when there is no colon.\<close>

definition split_decoder :: "string \<Rightarrow> string \<times> string" where
  "split_decoder d = (takeWhile (\<lambda>c. c \<noteq> CHR '':'') d, drop 1 (dropWhile (\<lambda>c. c \<noteq> CHR '':'') d))"

definition anomaly_name :: "(rat \<Rightarrow> string) \<Rightarrow> obj \<Rightarrow> string" where
  "anomaly_name fr p = py_str fr (py_or (fold (\<lambda>k v. py_or v (obj_get p k)) [''anomaly_type'', ''anomaly'', ''kind'']
     (PStr (snd (split_decoder (text_at p ''decoder''))))) (PStr ''unknown''))"

definition is_link_anomaly :: "(rat \<Rightarrow> string) \<Rightarrow> obj \<Rightarrow> bool" where
  "is_link_anomaly fr p =
     (let subsystem = py_lower (fst (split_decoder (text_at p ''decoder''))); legacy = py_lower (text_at p ''subsystem'');
          name = py_lower (anomaly_name fr p) in
      subsystem = ''bilgepump'' \<or> legacy = ''bilgepump'' \<or> contains ''bilgepump'' name
      \<or> subsystem \<in> set link_subsystems \<or> legacy \<in> set link_subsystems \<or> contains ''l2'' name)"

definition anomaly_of :: "(rat \<Rightarrow> string) \<Rightarrow> obj \<Rightarrow> obj \<Rightarrow> anomaly" where
  "anomaly_of fr env p =
     (let get = (\<lambda>k. py_or (obj_get env k) (obj_get p k)); field = (\<lambda>k. py_or (get k) PNone) in
      \<lparr>an_time = get ''timestamp'', an_type = anomaly_name fr p, an_decoder = text_at p ''decoder'', an_src_mac = field ''src_mac'',
       an_dst_mac = field ''dst_mac'', an_src_ip = field ''src_ip'', an_dst_ip = field ''dst_ip'', an_details = p\<rparr>)"

definition time_key :: "(rat \<Rightarrow> string) \<Rightarrow> anomaly \<Rightarrow> string" where
  "time_key fr a = (if an_time a = PNone then [] else py_str fr (an_time a))"

definition build_l2_anomalies :: "(rat \<Rightarrow> string) \<Rightarrow> obj list \<Rightarrow> anomaly list" where
  "build_l2_anomalies fr events = sort_key (time_key fr) (List.map_filter (\<lambda>e. case extract_bronze_family e of (family, p) \<Rightarrow>
     if family = ''parse_anomaly'' \<and> is_link_anomaly fr p then Some (anomaly_of fr (object_at e ''envelope'') p) else None) events)"

end
