(* ===== verification/BronzeSafety.thy ===== *)
theory BronzeSafety
  imports EngineSafety Bronze "HOL-Library.Multiset"
begin

text \<open>
  What the adapter of \<open>Bronze\<close> keeps of the events it is given: counts, flows and operations; when a
  periodic flow is scored as a beacon; and which checks of the risk stage a capture that came this
  way can never set off.
\<close>

section \<open>Counts\<close>

text \<open>Packets and bytes of an event that becomes part of a conversation.\<close>

fun event_counts :: "event \<Rightarrow> int \<times> int" where
  "event_counts (Transaction env tx) = (if en_packets env \<noteq> 0 then en_packets env else 1, en_bytes env)"
| "event_counts (LinkSeen env ob) = (if en_packets env \<noteq> 0 then en_packets env else 1, en_bytes env)"
| "event_counts _ = (0, 0)"

lemma count_event_counts:
  "cv_packets (count_event rd env g) = cv_packets g + (if en_packets env \<noteq> 0 then en_packets env else 1)"
  "cv_bytes (count_event rd env g) = cv_bytes g + en_bytes env"
  by (simp_all add: count_event_def)

lemma new_counts:
  "cv_packets (new_link env src dst) = 0" "cv_bytes (new_link env src dst) = 0"
  "cv_packets (new_flow env fl) = 0" "cv_bytes (new_flow env fl) = 0"
  by (simp_all add: new_link_def new_flow_def aggregate_of_def blank_conversation_def conversation.defs)

lemma transaction_counts:
  "cv_packets (apply_protocol_transaction fr tx fl g) = cv_packets g" "cv_bytes (apply_protocol_transaction fr tx fl g) = cv_bytes g"
  by (simp_all add: apply_protocol_transaction_def typed_fields_def Let_def)

lemma apply_event_counts:
  "dict_sum cv_packets (ad_convs (apply_event fr rd e st)) = dict_sum cv_packets (ad_convs st) + fst (event_counts e)"
  "dict_sum cv_bytes (ad_convs (apply_event fr rd e st)) = dict_sum cv_bytes (ad_convs st) + snd (event_counts e)"
  by (cases e; simp add: apply_topology_observation_def apply_transaction_def Let_def dict_sum_set count_event_counts new_counts
      transaction_counts split: option.split)+

lemma adapt_counts:
  "dict_sum cv_packets (ad_convs (fold (apply_event fr rd) es st)) = dict_sum cv_packets (ad_convs st) + sum_list (map (fst \<circ> event_counts) es)"
  "dict_sum cv_bytes (ad_convs (fold (apply_event fr rd) es st)) = dict_sum cv_bytes (ad_convs st) + sum_list (map (snd \<circ> event_counts) es)"
  by (induction es arbitrary: st) (simp_all add: apply_event_counts)

lemma finish_counts:
  "cv_packets (finish_conversation fr log2 assets g) = cv_packets g" "cv_bytes (finish_conversation fr log2 assets g) = cv_bytes g"
  by (simp_all add: finish_conversation_def enrich_def Let_def conversation.defs split: prod.split)

text \<open>
  C7. The conversations of a capture account for its events: their packets and bytes add up to those
  of the transactions and neighbour observations.
\<close>

theorem bronze_counts_events:
  "sum_list (map cv_packets (conversations_of fr rd log2 es)) = sum_list (map (fst \<circ> event_counts) es)
    \<and> sum_list (map cv_bytes (conversations_of fr rd log2 es)) = sum_list (map (snd \<circ> event_counts) es)"
  using adapt_counts [of fr rd es "\<lparr>ad_convs = [], ad_assets = [], ad_l2 = []\<rparr>"]
  by (simp add: conversations_of_def adapt_def Let_def comp_def finish_counts dict_sum_def)

section \<open>Flows\<close>

text \<open>The envelope of a packet the other way.\<close>

definition answered :: "envelope \<Rightarrow> envelope" where
  "answered env = env\<lparr>en_src_ip := en_dst_ip env, en_dst_ip := en_src_ip env, en_src_mac := en_dst_mac env, en_dst_mac := en_src_mac env,
     en_src_port := en_dst_port env, en_dst_port := en_src_port env\<rparr>"

text \<open>One side of the flow has the service port: a port of the protocol's table, or the only low port.\<close>

definition one_server :: "string \<Rightarrow> int \<Rightarrow> int \<Rightarrow> bool" where
  "one_server key client server \<longleftrightarrow> client \<notin> set (stable_ports key) \<and> client \<noteq> server \<and> server \<noteq> 0
     \<and> (server \<in> set (stable_ports key) \<or> server < ephemeral_port_min \<and> (client = 0 \<or> client \<ge> ephemeral_port_min))"

lemma service_found:
  assumes "one_server key client server"
  shows "protocol_service_port key client server = server" "protocol_service_port key server client = server"
  using assms by (auto simp: one_server_def protocol_service_port_def)

lemma reversed_iff: "reversed status service src dst \<longleftrightarrow> service \<noteq> 0 \<and> src = service \<and> dst \<noteq> service"
  by (simp add: reversed_def Let_def)

text \<open>
  C12. A request and its response belong to one conversation, from the client to the server, if one
  side only has a service port; the status of the transactions plays no part in it.
\<close>

theorem answer_joins_request:
  assumes "one_server (py_lower (en_protocol env)) (en_src_port env) (en_dst_port env)"
  shows "flow_key (normalize_bronze_flow (answered env) tx') = flow_key (normalize_bronze_flow env tx)
    \<and> fl_src_ip (normalize_bronze_flow (answered env) tx') = en_src_ip env
    \<and> fl_service (normalize_bronze_flow (answered env) tx') = en_dst_port env"
  using service_found [OF assms] assms
  by (auto simp: normalize_bronze_flow_def reversed_iff answered_def Let_def flow_key_def one_server_def)

definition modbus_request :: envelope where
  "modbus_request = \<lparr>en_protocol = ''modbus'', en_transport = ''tcp'', en_src_ip = ''10.0.0.5'', en_dst_ip = ''10.0.0.9'', en_src_mac = ''aa'',
     en_dst_mac = ''bb'', en_src_port = 50123, en_dst_port = 502, en_packets = 1, en_bytes = 66, en_time = ''2026-01-01T00:00:00Z''\<rparr>"

definition read_coils :: "string \<Rightarrow> transaction" where
  "read_coils status = \<lparr>tx_operation = ''read_coils'', tx_status = status, tx_attributes = [], tx_refs = []\<rparr>"

lemma demo_server: "one_server (py_lower ''modbus'') 50123 502"
  by code_simp

theorem answer_joins_request_witness:
  "flow_key (normalize_bronze_flow (answered modbus_request) (read_coils ''response'')) = flow_key (normalize_bronze_flow modbus_request (read_coils ''request''))"
  using answer_joins_request [of modbus_request "read_coils ''response''" "read_coils ''request''"] demo_server
  by (simp add: modbus_request_def)

text \<open>Of two low ports of no table each direction takes its destination: one exchange makes two conversations.\<close>

lemma low_ports_split:
  assumes "{en_src_port env, en_dst_port env} \<inter> set (stable_ports (py_lower (en_protocol env))) = {}"
    and "en_src_port env \<noteq> en_dst_port env" "0 < en_src_port env" "en_src_port env < ephemeral_port_min" "0 < en_dst_port env"
    "en_dst_port env < ephemeral_port_min"
  shows "flow_key (normalize_bronze_flow (answered env) tx') \<noteq> flow_key (normalize_bronze_flow env tx)"
  using assms by (auto simp: normalize_bronze_flow_def reversed_iff answered_def Let_def flow_key_def protocol_service_port_def)

section \<open>Operations\<close>

definition noted :: "string \<Rightarrow> string list \<Rightarrow> bool" where
  "noted op' ops \<longleftrightarrow> op' \<in> set ops \<or> length ops \<ge> 32"

lemma append_unique_notes: "noted op' ops \<Longrightarrow> noted op' (append_unique fr 32 v ops)" "py_strip op' \<noteq> [] \<Longrightarrow> noted (py_strip op') (append_unique fr 32 (PStr op') ops)"
  by (auto simp: noted_def append_unique_def Let_def)

text \<open>A conversation of a flow has its ends, and the operation \<open>op'\<close> or thirty-two others.\<close>

definition carries :: "flow \<Rightarrow> string \<Rightarrow> 'a conversation_scheme \<Rightarrow> bool" where
  "carries fl op' c \<longleftrightarrow> cv_src_ip c = fl_src_ip fl \<and> cv_dst_ip c = fl_dst_ip fl \<and> cv_port c = fl_service fl \<and> noted op' (cv_operations c)"

lemma flow_not_link: "flow_key fl \<noteq> LinkKey p s d"
  by (simp add: flow_key_def)

lemma flow_key_ends: "flow_key fl = flow_key fl' \<Longrightarrow> fl_src_ip fl = fl_src_ip fl' \<and> fl_dst_ip fl = fl_dst_ip fl' \<and> fl_service fl = fl_service fl'"
  by (simp add: flow_key_def)

lemma transaction_fields:
  "cv_src_ip (apply_protocol_transaction fr tx fl g) = cv_src_ip g" "cv_dst_ip (apply_protocol_transaction fr tx fl g) = cv_dst_ip g"
  "cv_port (apply_protocol_transaction fr tx fl g) = cv_port g"
  "cv_operations (apply_protocol_transaction fr tx fl g) =
     (if tx_operation tx \<noteq> [] then append_unique fr 32 (PStr (tx_operation tx)) (cv_operations g) else cv_operations g)"
  by (simp_all add: apply_protocol_transaction_def typed_fields_def Let_def)

lemma count_event_fields:
  "cv_src_ip (count_event rd env g) = cv_src_ip g" "cv_dst_ip (count_event rd env g) = cv_dst_ip g"
  "cv_port (count_event rd env g) = cv_port g" "cv_operations (count_event rd env g) = cv_operations g"
  by (simp_all add: count_event_def)

lemma new_flow_fields:
  "cv_src_ip (new_flow env fl) = fl_src_ip fl" "cv_dst_ip (new_flow env fl) = fl_dst_ip fl" "cv_port (new_flow env fl) = fl_service fl"
  by (simp_all add: new_flow_def aggregate_of_def conversation.defs)

definition keyed :: "adapter \<Rightarrow> bool" where
  "keyed st \<longleftrightarrow> (\<forall>fl g. dict_get (ad_convs st) (flow_key fl) = Some g \<longrightarrow>
     cv_src_ip g = fl_src_ip fl \<and> cv_dst_ip g = fl_dst_ip fl \<and> cv_port g = fl_service fl)"

lemma keyed_ends:
  "keyed st \<Longrightarrow> dict_get (ad_convs st) (flow_key fl) = Some g \<Longrightarrow>
    cv_src_ip g = fl_src_ip fl \<and> cv_dst_ip g = fl_dst_ip fl \<and> cv_port g = fl_service fl"
  by (simp add: keyed_def)

lemma transaction_ends:
  assumes "keyed st" and "fl = normalize_bronze_flow env tx" and "dict_get (ad_convs (apply_transaction fr rd env tx st)) (flow_key fl) = Some g"
  shows "cv_src_ip g = fl_src_ip fl \<and> cv_dst_ip g = fl_dst_ip fl \<and> cv_port g = fl_service fl"
  using assms(2,3) keyed_ends [OF assms(1), of fl] by (cases "dict_get (ad_convs st) (flow_key fl)")
    (auto simp: apply_transaction_def Let_def transaction_fields count_event_fields new_flow_fields)

lemma transaction_others:
  "k \<noteq> flow_key (normalize_bronze_flow env tx) \<Longrightarrow> dict_get (ad_convs (apply_transaction fr rd env tx st)) k = dict_get (ad_convs st) k"
  by (simp add: apply_transaction_def Let_def)

lemma apply_event_keyed:
  assumes "keyed st"
  shows "keyed (apply_event fr rd e st)"
proof (cases e)
  case (LinkSeen env ob)
  then show ?thesis
    using assms by (simp add: keyed_def apply_topology_observation_def Let_def dict_get_set flow_not_link)
next
  case (Transaction env tx)
  let ?fl = "normalize_bronze_flow env tx"
  show ?thesis unfolding keyed_def Transaction apply_event.simps
  proof (intro allI impI)
    fix fl g
    assume get: "dict_get (ad_convs (apply_transaction fr rd env tx st)) (flow_key fl) = Some g"
    show "cv_src_ip g = fl_src_ip fl \<and> cv_dst_ip g = fl_dst_ip fl \<and> cv_port g = fl_service fl"
    proof (cases "flow_key fl = flow_key ?fl")
      case True
      from transaction_ends [OF assms refl get [unfolded True]] flow_key_ends [OF True] show ?thesis by simp
    next
      case False
      with get show ?thesis by (simp add: transaction_others keyed_ends [OF assms])
    qed
  qed
qed (use assms in \<open>simp_all add: keyed_def\<close>)

definition holds :: "flow \<Rightarrow> string \<Rightarrow> adapter \<Rightarrow> bool" where
  "holds fl op' st \<longleftrightarrow> (\<exists>g. dict_get (ad_convs st) (flow_key fl) = Some g \<and> carries fl op' g)"

lemma apply_event_holds:
  assumes "holds fl op' st"
  shows "holds fl op' (apply_event fr rd e st)"
proof (cases e)
  case (LinkSeen env ob)
  then show ?thesis
    using assms by (auto simp: holds_def apply_topology_observation_def Let_def dict_get_set flow_not_link)
next
  case (Transaction env tx)
  then show ?thesis
    using assms by (cases "flow_key fl = flow_key (normalize_bronze_flow env tx)")
      (auto simp: holds_def carries_def apply_transaction_def Let_def dict_get_set transaction_fields count_event_fields append_unique_notes(1))
qed (use assms in \<open>simp_all add: holds_def\<close>)

lemma transaction_holds:
  assumes "keyed st" "py_strip (tx_operation tx) \<noteq> []"
  shows "holds (normalize_bronze_flow env tx) (py_strip (tx_operation tx)) (apply_event fr rd (Transaction env tx) st)"
proof -
  let ?fl = "normalize_bronze_flow env tx"
  have "tx_operation tx \<noteq> []" using assms(2) by (auto simp: py_strip_def py_lstrip_def py_rstrip_def)
  then show ?thesis
    using assms keyed_ends [OF assms(1), of ?fl] by (cases "dict_get (ad_convs st) (flow_key ?fl)")
      (auto simp: holds_def carries_def apply_transaction_def Let_def transaction_fields count_event_fields new_flow_fields
        append_unique_notes(2) dict_get_set)
qed

lemma fold_holds:
  assumes "keyed st" "Transaction env tx \<in> set es" "py_strip (tx_operation tx) \<noteq> []"
  shows "holds (normalize_bronze_flow env tx) (py_strip (tx_operation tx)) (fold (apply_event fr rd) es st)"
  using assms
proof (induction es arbitrary: st)
  case (Cons e es)
  have keep: "holds fl op' st' \<Longrightarrow> holds fl op' (fold (apply_event fr rd) es st')" for fl op' st'
    by (induction es arbitrary: st') (simp_all add: apply_event_holds)
  show ?case
  proof (cases "e = Transaction env tx")
    case True
    then show ?thesis using keep [OF transaction_holds [OF Cons.prems(1,3)]] by simp
  next
    case False
    then show ?thesis using Cons apply_event_keyed [OF Cons.prems(1)] by simp
  qed
qed simp

lemma finish_fields:
  "cv_src_ip (finish_conversation fr log2 assets g) = cv_src_ip g" "cv_dst_ip (finish_conversation fr log2 assets g) = cv_dst_ip g"
  "cv_port (finish_conversation fr log2 assets g) = cv_port g" "cv_operations (finish_conversation fr log2 assets g) = cv_operations g"
  by (simp_all add: finish_conversation_def enrich_def Let_def conversation.defs split: prod.split)

text \<open>
  C23. Every operation that a transaction names is found on a conversation of its flow, unless that
  conversation has thirty-two other operations already.
\<close>

theorem operations_preserved:
  assumes "Transaction env tx \<in> set es" "py_strip (tx_operation tx) \<noteq> []"
  shows "list_ex (carries (normalize_bronze_flow env tx) (py_strip (tx_operation tx))) (conversations_of fr rd log2 es)"
proof -
  have "keyed \<lparr>ad_convs = [], ad_assets = [], ad_l2 = []\<rparr>" by (simp add: keyed_def)
  from fold_holds [OF this assms, of fr rd]
  obtain g where "dict_get (ad_convs (adapt fr rd es)) (flow_key (normalize_bronze_flow env tx)) = Some g"
    "carries (normalize_bronze_flow env tx) (py_strip (tx_operation tx)) g"
    by (auto simp: holds_def adapt_def)
  then show ?thesis
    by (force simp: conversations_of_def Let_def list_ex_iff carries_def finish_fields dest: map_of_SomeD)
qed

theorem operations_preserved_witness:
  "list_ex (carries (normalize_bronze_flow modbus_request (read_coils ''request'')) ''read_coils'')
     (conversations_of (\<lambda>_. []) (\<lambda>_. None) (\<lambda>_. 0) [Other, Transaction modbus_request (read_coils ''request'')])"
  using operations_preserved [of modbus_request "read_coils ''request''" "[Other, Transaction modbus_request (read_coils ''request'')]"]
  by (simp add: read_coils_def py_strip_def py_lstrip_def py_rstrip_def py_isspace_def ord_of_def)

section \<open>Beacons\<close>

lemma round_even_near: "\<bar>of_int (round_even q) - q\<bar> \<le> 1/2"
proof -
  have "of_int \<lfloor>q\<rfloor> \<le> q" "q < of_int \<lfloor>q\<rfloor> + 1" by linarith+
  then show ?thesis by (auto simp: round_even_def Let_def)
qed

lemma round_even_pos: "0 \<le> q \<Longrightarrow> 0 < round_even q \<longleftrightarrow> 1/2 < q"
proof -
  assume q: "0 \<le> q"
  consider "q < 1" | "1 \<le> q" by linarith
  then show ?thesis
  proof cases
    case 1
    then have "\<lfloor>q\<rfloor> = 0" using q by linarith
    then show ?thesis by (auto simp: round_even_def)
  next
    case 2
    then have "1 \<le> \<lfloor>q\<rfloor>" by linarith
    then show ?thesis using 2 by (auto simp: round_even_def Let_def)
  qed
qed

lemma round_even_nonneg: "0 \<le> q \<Longrightarrow> 0 \<le> round_even q"
  by (auto simp: round_even_def Let_def)

text \<open>The times of \<open>n\<close> packets, one every \<open>p\<close> seconds.\<close>

definition every :: "rat \<Rightarrow> rat \<Rightarrow> nat \<Rightarrow> rat list" where
  "every start p n = map (\<lambda>i. start + of_nat i * p) [0..<n]"

lemma sorted_every: "0 \<le> p \<Longrightarrow> sorted (every start p n)"
  by (auto simp: every_def sorted_iff_nth_mono mult_right_mono)

lemma gaps_every: "1/100 < p \<Longrightarrow> arrival_gaps (every start p (Suc n)) = replicate n p"
proof -
  assume p: "1/100 < p"
  have "map (\<lambda>(a, b). b - a) (zip (every start p (Suc n)) (tl (every start p (Suc n)))) = replicate n p"
    by (rule nth_equalityI) (auto simp: every_def nth_tl algebra_simps simp del: upt_Suc)
  then show ?thesis using p by (simp add: arrival_gaps_def)
qed

lemma count_bins: "fold (count_bin w) (replicate n p) [(of_int (round_even (p / w)) * w, k)] = [(of_int (round_even (p / w)) * w, k + int n)]"
  by (induction n arbitrary: k) (simp_all add: count_bin_def Let_def)

lemma bins_every: "fold (count_bin w) (replicate (Suc n) p) [] = [(of_int (round_even (p / w)) * w, int (Suc n))]"
proof -
  have "count_bin w p [] = [(of_int (round_even (p / w)) * w, 1)]" by (simp add: count_bin_def Let_def)
  then show ?thesis by (simp add: count_bins del: fold_replicate)
qed

lemma fold_same: "fold max (replicate n x) x = x" "fold min (replicate n x) x = x" for x :: rat
  by (induction n) simp_all

lemma span_same: "span (replicate (Suc n) p) = 0"
  by (simp add: span_def fold_same del: fold_replicate)

text \<open>The width of a bin, and how far its centre is from the period.\<close>

lemma period_bin:
  fixes p :: rat
  assumes "1/10 \<le> p" and "w = max (p * (1/10)) (1/2)" and "k = of_int (round_even (p / w)) * w"
  shows "\<bar>k - p\<bar> \<le> w / 2" and "0 < k \<longleftrightarrow> 1/4 < p" and "0 < w" and "0 \<le> k"
proof -
  show w: "0 < w" using assms(2) by simp
  have "\<bar>of_int (round_even (p / w)) - p / w\<bar> * w \<le> 1/2 * w"
    using w by (intro mult_right_mono round_even_near) simp
  also have "\<bar>of_int (round_even (p / w)) - p / w\<bar> * w = \<bar>(of_int (round_even (p / w)) - p / w) * w\<bar>"
    using w by (simp add: abs_mult)
  also have "(of_int (round_even (p / w)) - p / w) * w = k - p"
    using w by (simp add: assms(3) left_diff_distrib)
  finally show "\<bar>k - p\<bar> \<le> w / 2" by simp
  have "0 < k \<longleftrightarrow> 0 < round_even (p / w)" using w by (simp add: assms(3) zero_less_mult_iff)
  also have "\<dots> \<longleftrightarrow> 1/2 < p / w" using assms(1) w by (intro round_even_pos) simp
  also have "\<dots> \<longleftrightarrow> w < 2 * p" using w by (simp add: field_simps)
  also have "\<dots> \<longleftrightarrow> 1/4 < p" using assms(1,2) by (auto simp: max_def split: if_splits)
  finally show pos: "0 < k \<longleftrightarrow> 1/4 < p" .
  have "round_even (p / w) \<ge> 0" using assms(1) w by (intro round_even_nonneg) simp
  then show "0 \<le> k" using w by (simp add: assms(3))
qed

text \<open>
  C14. At least ten packets at a regular interval of a tenth of a second or more are scored as a perfect
  beacon, in whatever order they are seen; only for intervals up to a quarter of a second the score
  is zero, because they are rounded to a bin of period zero. The interval that is reported is the
  true one to within a twentieth of it or a quarter of a second, whichever is more.
\<close>

theorem periodic_beacon_scored:
  assumes "10 \<le> n" "1/10 \<le> p" "mset ts = mset (every start p n)"
  shows "case compute_beacon_score ts of (score, interval, jitter) \<Rightarrow>
    score = (if p \<le> 1/4 then 0 else 1) \<and> \<bar>interval - p\<bar> \<le> max (p / 20) (1/4)"
proof -
  define m where "m = n - 2"
  have n: "n = Suc (Suc m)" using assms(1) by (simp add: m_def)
  have sorted: "sort ts = every start p n"
    using assms(2) by (intro properties_for_sort) (simp_all add: assms(3) sorted_every)
  have gaps: "arrival_gaps (sort ts) = replicate (Suc m) p"
    using gaps_every [of p start "Suc m"] assms(2) by (simp add: sorted n del: replicate_Suc)
  have len: "length ts = n" using mset_eq_length [OF assms(3)] by (simp add: every_def)
  define w where "w = max (p * (1/10)) (1/2)"
  define k where "k = of_int (round_even (p / w)) * w"
  note bin = period_bin [OF assms(2) w_def k_def]
  have median: "sort (replicate (Suc m) p) ! (Suc m div 2) = p"
    by (simp del: replicate_Suc)
  have near: "filter (\<lambda>d. \<bar>d - k\<bar> \<le> w) (replicate (Suc m) p) = replicate (Suc m) p"
    using bin(1,3) by (simp add: abs_minus_commute del: replicate_Suc)
  have bins: "fold (count_bin w) (replicate (Suc m) p) [] = [(k, int (Suc m))]"
    unfolding k_def by (rule bins_every)
  have peak: "peak_bin [(k, int (Suc m))] = k"
    by (simp add: peak_bin_def)
  have all: "of_int (sum_list (map snd (filter (\<lambda>(x, _). \<bar>x - k\<bar> \<le> w) [(k, int (Suc m))]))) / of_nat (Suc m) = (1 :: rat)"
    using bin(3) by (simp add: field_simps)
  have enough: "\<not> length ts < 10" "\<not> Suc m < 5" "\<not> p < 1/10" "replicate (Suc m) p \<noteq> []"
    using assms(1,2) len n by simp_all
  have score: "compute_beacon_score ts = (let jitter = (if k > 0 then 0 else 1) in (max 0 (min 1 (1 * (1 - min jitter 1))), k, jitter))"
    unfolding compute_beacon_score_def gaps Let_def length_replicate median w_def [symmetric] bins peak all near span_same
    by (simp only: enough if_False if_True div_0 simp_thms not_False_eq_True)
  have "w / 2 \<le> max (p / 20) (1/4)" by (simp add: w_def max_def)
  then have "\<bar>k - p\<bar> \<le> max (p / 20) (1/4)" using bin(1) by linarith
  then show ?thesis
    using bin(2) by (simp add: score Let_def)
qed

lemma demo_periodic: "mset [0, 60, 120, 180, 240, 300, 360, 420, 540, 480] = mset (every 0 60 10)"
  by (simp add: every_def upt_rec add_mset_commute)

theorem periodic_beacon_scored_witness:
  "case compute_beacon_score [0, 60, 120, 180, 240, 300, 360, 420, 540, 480] of (score, interval, jitter) \<Rightarrow>
    score = 1 \<and> \<bar>interval - 60\<bar> \<le> 3"
  using periodic_beacon_scored [where start = 0 and p = 60 and n = 10 and ts = "[0, 60, 120, 180, 240, 300, 360, 420, 540, 480]"] demo_periodic
  by (simp split: prod.splits)

section \<open>Blind spots\<close>

text \<open>What no conversation of the adapter carries: notes, security modes of OPC UA, numeric function codes.\<close>

definition plain_aggregate :: "'a conversation_scheme \<Rightarrow> bool" where
  "plain_aggregate g \<longleftrightarrow> cv_notes g = [] \<and> \<not> cv_opc_no_security g \<and> list_all is_str (cv_modbus_functions g)"

lemma plain_steps:
  "plain_aggregate (new_link env src dst)" "plain_aggregate (new_flow env fl)"
  "plain_aggregate g \<Longrightarrow> plain_aggregate (count_event rd env g)"
  "plain_aggregate g \<Longrightarrow> plain_aggregate (apply_protocol_transaction fr tx fl g)"
  "plain_aggregate g \<Longrightarrow> plain_aggregate (g\<lparr>cv_l2 := d\<rparr>)"
  by (simp_all add: plain_aggregate_def new_link_def new_flow_def aggregate_of_def blank_conversation_def conversation.defs count_event_def
      apply_protocol_transaction_def typed_fields_def Let_def append_new_def)

definition all_plain :: "adapter \<Rightarrow> bool" where
  "all_plain st \<longleftrightarrow> (\<forall>(k, g) \<in> set (ad_convs st). plain_aggregate g)"

lemma all_plain_set: "all_plain st \<Longrightarrow> plain_aggregate g \<Longrightarrow> all_plain (st\<lparr>ad_convs := dict_set k g (ad_convs st)\<rparr>)"
  by (auto simp: all_plain_def dest: set_mp [OF set_update_sub])

lemma all_plain_get: "all_plain st \<Longrightarrow> dict_get (ad_convs st) k = Some g \<Longrightarrow> plain_aggregate g"
  by (auto simp: all_plain_def dest: map_of_SomeD)

lemma apply_event_plain:
  assumes "all_plain st"
  shows "all_plain (apply_event fr rd e st)"
proof (cases e)
  case (LinkSeen env ob)
  then show ?thesis
    using assms by (auto simp: apply_topology_observation_def Let_def intro!: all_plain_set plain_steps split: option.split dest: all_plain_get)
next
  case (Transaction env tx)
  then show ?thesis
    using assms by (auto simp: apply_transaction_def Let_def intro!: all_plain_set plain_steps split: option.split dest: all_plain_get)
qed (use assms in \<open>simp_all add: all_plain_def\<close>)

lemma adapt_plain: "all_plain (adapt fr rd es)"
proof -
  have "all_plain st \<Longrightarrow> all_plain (fold (apply_event fr rd) es st)" for st
    by (induction es arbitrary: st) (simp_all add: apply_event_plain)
  moreover have "all_plain \<lparr>ad_convs = [], ad_assets = [], ad_l2 = []\<rparr>" by (simp add: all_plain_def)
  ultimately show ?thesis unfolding adapt_def by blast
qed

lemma finish_plain: "plain_aggregate g \<Longrightarrow> plain_aggregate (finish_conversation fr log2 assets g)"
  by (simp add: plain_aggregate_def finish_conversation_def enrich_def Let_def conversation.defs list_all_iff split: prod.split)

lemma conversations_plain: "list_all plain_aggregate (conversations_of fr rd log2 es)"
  using adapt_plain [of fr rd es]
  by (auto simp: conversations_of_def Let_def list_all_iff all_plain_def intro!: finish_plain)

lemma plain_checks:
  assumes "list_all plain_aggregate convs"
  shows "check_opc_security convs = []" "check_passive_tls convs = []" "check_conformance convs = []"
proof -
  have empty: "py_upper [] = []" "\<not> contains (c # cs) []" for c cs by (simp_all add: py_upper_def contains_def)
  show "check_opc_security convs = []"
    using assms by (auto simp: check_opc_security_def over_def list_all_iff plain_aggregate_def filter_empty_conv)
  show "check_passive_tls convs = []"
    using assms by (auto simp: check_passive_tls_def tls_of_def list_all_iff plain_aggregate_def Let_def empty any_in_def)
  show "check_conformance convs = []"
    using assms by (auto simp: check_conformance_def per_conversation_def list_all_iff plain_aggregate_def empty any_in_def filter_empty_conv)
qed

text \<open>
  C19. A capture that comes through the adapter never yields a finding on insecure OPC UA, on TLS or on
  malformed frames, whatever its events say: the adapter fills none of the fields those checks read.
\<close>

theorem bronze_blind_spots:
  "list_all (\<lambda>r. rf_category r \<notin> {''OPC_NO_SECURITY'', ''WEAK_TLS_CIPHER_OBSERVED'', ''EXPIRED_TLS_CERTIFICATE'',
       ''SELF_SIGNED_TLS_CERTIFICATE'', ''MALFORMED_INDUSTRIAL_FRAME''})
     (rr_findings (capture_report fr db sm skip skip_c2 duration (conversations_of fr rd log2 es)))"
proof -
  let ?T = "common_table @ role_table @ rogue_table"
  note plain = plain_checks [OF conversations_plain [of fr rd log2 es]]
  have "emits ?T (rr_findings (capture_report fr db sm skip skip_c2 duration (conversations_of fr rd log2 es)))"
    unfolding report_nodes
    by (rule emits_report) (auto simp: plain common_table_def
        intro: emits_more [OF emits_roles(1)] emits_more [OF emits_roles(2)] emits_more [OF emits_rogue])
  moreover have "list_all (\<lambda>(cat, _). cat \<notin> {''OPC_NO_SECURITY'', ''WEAK_TLS_CIPHER_OBSERVED'', ''EXPIRED_TLS_CERTIFICATE'',
       ''SELF_SIGNED_TLS_CERTIFICATE'', ''MALFORMED_INDUSTRIAL_FRAME''}) ?T"
    by code_simp
  ultimately show ?thesis unfolding emits_def list_all_iff by fastforce
qed

section \<open>The port summary\<close>

lemma bucket_counts:
  "dict_sum pi_connections (fold count_conversation convs b) = dict_sum pi_connections b + int (length (filter (\<lambda>c. cv_port c > 0) convs))"
  "dict_sum pi_bytes (fold count_conversation convs b) = dict_sum pi_bytes b + sum_list (map cv_bytes (filter (\<lambda>c. cv_port c > 0) convs))"
  by (induction convs arbitrary: b) (auto simp: count_conversation_def Let_def dict_sum_set count_item_def blank_item_def split: option.split)

text \<open>The rows count every conversation with a port once, and its bytes.\<close>

theorem port_bucket_accounts:
  "dict_sum pi_connections (port_bucket convs) = int (length (filter (\<lambda>c. cv_port c > 0) convs))
    \<and> dict_sum pi_bytes (port_bucket convs) = sum_list (map cv_bytes (filter (\<lambda>c. cv_port c > 0) convs))"
  by (simp add: port_bucket_def bucket_counts) (simp add: dict_sum_def)

section \<open>Anomalies\<close>

text \<open>Records come in the order of their time texts, those without one first.\<close>

theorem anomalies_sorted: "sorted (map (time_key fr) (build_l2_anomalies fr events))"
  by (simp add: build_l2_anomalies_def)

end
