(* ===== verification/Dissector.thy ===== *)
theory Dissector
  imports Bronze Fingerprint
begin

text \<open>
  The dissection stage of \<open>marlinspike/engine.py\<close>, the class \<open>OTProtocolDissector\<close>: each line that the
  external packet reader prints for a frame is a packet, its protocol is classified, it is added to
  the conversation of its MAC addresses, protocol and destination port, with the collapse of port scans and
  the cap on conversations; at the end conversations and the port summary are made of the map. What
  the reader prints is the input. A line that makes the code raise ends its pass with the state it
  left. Arguments: \<open>fl\<close> reads a float, \<open>log2\<close> is the logarithm, \<open>ords\<close> and \<open>ordn\<close> are the orders in
  which Python walks a set of texts or of numbers.
\<close>

section \<open>Packets\<close>

definition packet_fields :: "string list" where
  "packet_fields = [''frame.time'', ''frame.len'', ''frame.protocols'', ''frame.time_epoch'', ''eth.src'', ''eth.dst'', ''ip.src'', ''ip.dst'',
     ''arp.src.proto_ipv4'', ''arp.dst.proto_ipv4'', ''tcp.srcport'', ''tcp.dstport'', ''udp.srcport'', ''udp.dstport'',
     ''modbus.func_code'', ''modbus.reference_num'', ''modbus.word_cnt'', ''mbtcp.unit_id'',
     ''enip.cpf.cai.connid'', ''cip.sc'', ''cip.class'', ''cip.instance'', ''cip.id.vendor_id'', ''cip.id.device_type'',
     ''cip.id.product_name'', ''cip.id.product_code'', ''cip.id.serial_number'', ''cip.class_revision'',
     ''pn_dcp.suboption_device_nameofstation'', ''pn_dcp.suboption_vendor_id'', ''pn_dcp.suboption_device_id'',
     ''pn_dcp.suboption_device_role'', ''pn_dcp.suboption_ip_ip'',
     ''s7comm.param.func'', ''s7comm.blockinfo.blocktype'', ''s7comm.header.rosctr'', ''dnp3.al.func'', ''dnp3.al.obj'',
     ''iec60870_asdu.typeid'', ''iec60870_asdu.causetx'', ''mms.confirmedServiceRequest'', ''mms.unconfirmedService'',
     ''mms.domain'', ''mms.domainId'', ''mms.domainName'', ''mms.namedToken'', ''mms.iec61850.datset'', ''mms.iec61850.rptid'',
     ''mms.iec61850.ctlmodel'', ''goose.gocbRef'', ''goose.goID'', ''goose.datSet'', ''goose.confRev'', ''goose.simulation'',
     ''goose.ndsCom'', ''bacapp.object_name'', ''bacapp.vendor_identifier'', ''bacapp.objectType'', ''bacapp.instance_number'',
     ''opcua.servicenodeid.numeric'', ''opcua.security.spu'', ''omron.command'', ''omron.controller.model'', ''omron.controller.version'',
     ''lldp.chassis.id'', ''lldp.chassis.subtype'', ''lldp.port.id'', ''lldp.port.subtype'', ''lldp.port.desc'', ''lldp.tlv.system.name'',
     ''lldp.tlv.system.desc'', ''lldp.mgn.addr.ip4'', ''lldp.mgn.addr.ip6'', ''lldp.tlv.system_cap'', ''lldp.tlv.enable_system_cap'',
     ''lldp.ieee.802_1.port_vlan.id'', ''cdp.deviceid'', ''cdp.portid'', ''cdp.platform'', ''cdp.software_version'', ''cdp.native_vlan'',
     ''stp.root.hw'', ''stp.bridge.hw'', ''stp.port'', ''stp.root.cost'', ''stp.flags.tc'', ''stp.type'',
     ''lacp.actor.sysid'', ''lacp.actor.port'', ''lacp.partner.sysid'', ''lacp.partner.port'', ''lacp.actor.key'', ''lacp.partner.key'',
     ''dns.qry.name'', ''dns.qry.type'', ''dns.resp.type'', ''dns.a'', ''dns.txt'', ''arp.opcode'', ''arp.isgratuitous'',
     ''dhcp.option.hostname'', ''dhcp.option.vendor_class_id'', ''nbns.name'', ''http.user_agent'']"

type_synonym packet = "(string, string) dict"

text \<open>The fields of a line that are not empty; \<open>pkt.get(k, [""])[0]\<close> is \<open>field_at\<close>.\<close>

definition packet_of :: "string \<Rightarrow> packet" where
  "packet_of line = filter (\<lambda>(_, v). v \<noteq> []) (zip packet_fields (py_split (char_of (9::nat)) line))"

definition field_at :: "packet \<Rightarrow> string \<Rightarrow> string" where
  "field_at pkt k = (case dict_get pkt k of None \<Rightarrow> [] | Some v \<Rightarrow> v)"

section \<open>Protocols\<close>

definition encap_protocols :: "string list" where
  "encap_protocols = [''icmp'', ''icmpv6'', ''igmp'', ''arp'', ''lldp'', ''cdp'', ''stp'', ''rstp'', ''mstp'', ''lacp'', ''edp'']"

definition skip_layers :: "string list" where
  "skip_layers = [''eth'', ''ethertype'', ''ip'', ''ipv6'', ''tcp'', ''udp'', ''frame'', ''data'']"

definition py_capitalize :: "string \<Rightarrow> string" where
  "py_capitalize s = (case s of [] \<Rightarrow> [] | c # cs \<Rightarrow> py_upper_char c @ py_lower cs)"

definition layer_label :: "string \<Rightarrow> string" where
  "layer_label layer = (if length layer \<le> 5 then py_upper layer else py_capitalize layer)"

text \<open>The label of a stack of layers, if it gives one.\<close>

definition classify_stack :: "string \<Rightarrow> string option" where
  "classify_stack stack =
     (if stack = [] then None
      else let layers = py_split (CHR '':'') stack in
        case find (\<lambda>l. l \<in> set encap_protocols) layers of
          Some l \<Rightarrow> Some (layer_label l)
        | None \<Rightarrow> (case find (\<lambda>l. dict_get tshark_protocols l \<noteq> None) (rev layers) of
              Some l \<Rightarrow> dict_get tshark_protocols l
            | None \<Rightarrow> map_option layer_label (find (\<lambda>l. l \<notin> set skip_layers) (rev layers))))"

text \<open>\<open>_classify_protocol\<close>; no text stands for \<open>None\<close>, which the callers treat alike.\<close>

definition classify_protocol :: "string \<Rightarrow> int \<Rightarrow> string \<Rightarrow> string" where
  "classify_protocol stack port transport =
     (case classify_stack stack of
        Some name \<Rightarrow> name
      | None \<Rightarrow> (case dict_get ot_ports port of
            Some name \<Rightarrow> name
          | None \<Rightarrow> (case dict_get well_known port of
                Some (name, _) \<Rightarrow> name
              | None \<Rightarrow> if port > 0 \<and> transport \<noteq> [] then py_upper transport @ ''/'' @ show_int port else [])))"

section \<open>Conversations in the making\<close>

type_synonym buckets = "(string, string list) dict"

record conv_tally =
  dc_packets :: int
  dc_bytes :: int
  dc_first :: string
  dc_last :: string
  dc_src_ips :: "string list"
  dc_dst_ips :: "string list"
  dc_modbus :: "int list"
  dc_writes :: int
  dc_cip :: obj
  dc_pn :: obj
  dc_s7 :: "string list"
  dc_s7_access :: bool
  dc_dnp3 :: "string list"
  dc_opc :: "string list"
  dc_opc_open :: bool
  dc_bacnet :: buckets
  dc_iec_types :: "string list"
  dc_iec_causes :: "string list"
  dc_omron :: buckets
  dc_omron_model :: string
  dc_omron_version :: string
  dc_mms :: buckets
  dc_goose :: buckets
  dc_goose_sim :: bool
  dc_goose_nds :: bool
  dc_l2 :: obj
  dc_src_ports :: "int list"
  dc_transport :: string
  dc_times :: "rat list"
  dc_queries :: "string list"
  dc_query_types :: "string list"
  dc_host :: string
  dc_class :: string
  dc_nbns :: string
  dc_agent :: string

definition blank_tally :: conv_tally where
  "blank_tally = \<lparr>dc_packets = 0, dc_bytes = 0, dc_first = [], dc_last = [], dc_src_ips = [], dc_dst_ips = [], dc_modbus = [], dc_writes = 0,
     dc_cip = [], dc_pn = [], dc_s7 = [], dc_s7_access = False, dc_dnp3 = [], dc_opc = [], dc_opc_open = False,
     dc_bacnet = [(''vendor_ids'', []), (''object_names'', []), (''object_types'', [])], dc_iec_types = [], dc_iec_causes = [],
     dc_omron = [(''commands'', [])], dc_omron_model = [], dc_omron_version = [],
     dc_mms = [(''service_requests'', []), (''unconfirmed_services'', []), (''names'', []), (''datasets'', []), (''report_ids'', []),
       (''ctl_models'', [])],
     dc_goose = [(''gocb_refs'', []), (''go_ids'', []), (''datasets'', []), (''conf_revs'', [])], dc_goose_sim = False,
     dc_goose_nds = False, dc_l2 = [], dc_src_ports = [], dc_transport = [], dc_times = [], dc_queries = [], dc_query_types = [],
     dc_host = [], dc_class = [], dc_nbns = [], dc_agent = []\<rparr>"

type_synonym conv_id = "string \<times> string \<times> string \<times> int"

record arp_seen =
  ar_time :: pyval
  ar_src_mac :: string
  ar_src_ip :: string
  ar_dst_mac :: string
  ar_dst_ip :: string
  ar_opcode :: "int option"
  ar_gratuitous :: "bool option"

text \<open>The state of a run: the map, the ports seen per pair and transport, ARP observations, counters.\<close>

record dissector =
  ds_convs :: "(conv_id, conv_tally) dict"
  ds_pairs :: "(string \<times> string \<times> string, int list) dict"
  ds_arp :: "arp_seen list"
  ds_arp_full :: bool
  ds_count :: int
  ds_skipped :: int
  ds_collapsed :: int

definition start_dissector :: dissector where
  "start_dissector = \<lparr>ds_convs = [], ds_pairs = [], ds_arp = [], ds_arp_full = False, ds_count = 0, ds_skipped = 0, ds_collapsed = 0\<rparr>"

definition conv_map_cap :: nat where "conv_map_cap = 50000"

definition arp_obs_cap :: nat where "arp_obs_cap = 10000"

definition tally_at :: "dissector \<Rightarrow> conv_id \<Rightarrow> conv_tally" where
  "tally_at st k = (case dict_get (ds_convs st) k of None \<Rightarrow> blank_tally | Some t \<Rightarrow> t)"

definition put_tally :: "conv_id \<Rightarrow> conv_tally \<Rightarrow> dissector \<Rightarrow> dissector" where
  "put_tally k t st = st\<lparr>ds_convs := dict_set k t (ds_convs st)\<rparr>"

text \<open>A pair that has been seen on many destination ports is a port scan; a full map takes no new key.\<close>

definition route_scan :: "nat \<Rightarrow> string \<Rightarrow> string \<Rightarrow> string \<Rightarrow> int \<Rightarrow> string \<Rightarrow> dissector \<Rightarrow> conv_id \<times> dissector" where
  "route_scan threshold src dst protocol port transport st =
     (if threshold > 0 \<and> port > 0 \<and> transport \<noteq> []
      then let pair = (src, dst, transport);
               ports = append_new port (case dict_get (ds_pairs st) pair of None \<Rightarrow> [] | Some ps \<Rightarrow> ps);
               st1 = st\<lparr>ds_pairs := dict_set pair ports (ds_pairs st)\<rparr> in
        if length ports \<ge> threshold then ((src, dst, ''Port Scan'', 0), st1\<lparr>ds_collapsed := ds_collapsed st1 + 1\<rparr>)
        else ((src, dst, protocol, port), st1)
      else ((src, dst, protocol, port), st))"

definition overflow_key :: conv_id where
  "overflow_key = (''(overflow)'', ''(overflow)'', ''Truncated Conversations'', 0)"

definition route_cap :: "conv_id \<Rightarrow> dissector \<Rightarrow> conv_id" where
  "route_cap k st = (if dict_get (ds_convs st) k = None \<and> length (ds_convs st) \<ge> conv_map_cap then overflow_key else k)"

section \<open>What a packet adds\<close>

definition add_if :: "string \<Rightarrow> string list \<Rightarrow> string list" where
  "add_if s xs = (if s = [] then xs else append_new s xs)"

definition add_bucket :: "string \<Rightarrow> string \<Rightarrow> buckets \<Rightarrow> buckets" where
  "add_bucket k s d = dict_set k (add_if s (case dict_get d k of None \<Rightarrow> [] | Some xs \<Rightarrow> xs)) d"

definition tokens :: "string \<Rightarrow> string list" where
  "tokens raw = (if raw = [] then [] else filter (\<lambda>t. t \<noteq> []) (map py_strip (py_split (CHR '','') raw)))"

definition add_tokens :: "packet \<Rightarrow> string \<times> string \<Rightarrow> buckets \<Rightarrow> buckets" where
  "add_tokens pkt kb d = (case kb of (k, bucket) \<Rightarrow> fold (add_bucket bucket) (tokens (field_at pkt k)) d)"

text \<open>Discovery frames: \<open>_parse_lldp_inline\<close> and its siblings.\<close>

definition source_if_new :: "string \<Rightarrow> obj \<Rightarrow> obj" where
  "source_if_new s d = (if dict_get d ''source'' = None then dict_set ''source'' (PStr s) d else d)"

definition add_port_entry :: "string \<Rightarrow> string \<Rightarrow> obj \<Rightarrow> obj" where
  "add_port_entry port desc d = (if port = [] then d
     else dict_set ''ports'' (PList (append_new (PDict [(''id'', PStr port), (''desc'', PStr desc)]) (list_at d ''ports''))) d)"

definition add_vlan :: "string \<Rightarrow> obj \<Rightarrow> obj" where
  "add_vlan v d = (if v = [] then d else dict_set ''vlans'' (PList (append_new (PStr v) (list_at d ''vlans''))) d)"

definition capability_names :: "(nat \<times> string) list" where
  "capability_names = [(2, ''Bridge''), (3, ''WLAN AP''), (4, ''Router''), (5, ''Telephone''), (6, ''DOCSIS Cable''), (7, ''Station Only'')]"

definition capabilities_of :: "int \<Rightarrow> string list" where
  "capabilities_of n = map snd (filter (\<lambda>(b, _). bit n b) capability_names)"

definition set_capabilities :: "string \<Rightarrow> string \<Rightarrow> obj \<Rightarrow> obj" where
  "set_capabilities raw enabled d =
     (if raw = [] then d
      else let d1 = dict_set ''capabilities_enabled'' (PStr enabled) (dict_set ''capabilities_raw'' (PStr raw) d) in
        case py_int0 raw of
          None \<Rightarrow> d1
        | Some n \<Rightarrow> if capabilities_of n = [] then d1 else dict_set ''capabilities'' (PList (map PStr (capabilities_of n))) d1)"

definition parse_lldp :: "packet \<Rightarrow> obj \<Rightarrow> obj" where
  "parse_lldp pkt d =
     add_vlan (field_at pkt ''lldp.ieee.802_1.port_vlan.id'')
       (set_capabilities (field_at pkt ''lldp.tlv.system_cap'') (field_at pkt ''lldp.tlv.enable_system_cap'')
         (add_port_entry (field_at pkt ''lldp.port.id'') (field_at pkt ''lldp.port.desc'')
           (set_text ''mgmt_ip'' (or_else (field_at pkt ''lldp.mgn.addr.ip4'') (field_at pkt ''lldp.mgn.addr.ip6''))
             (set_text ''system_desc'' (field_at pkt ''lldp.tlv.system.desc'')
               (set_text ''system_name'' (field_at pkt ''lldp.tlv.system.name'')
                 (set_text ''chassis_id'' (field_at pkt ''lldp.chassis.id'') (source_if_new ''lldp'' d)))))))"

definition parse_cdp :: "packet \<Rightarrow> obj \<Rightarrow> obj" where
  "parse_cdp pkt d =
     add_vlan (field_at pkt ''cdp.native_vlan'')
       (add_port_entry (field_at pkt ''cdp.portid'') []
         (set_text ''software_version'' (field_at pkt ''cdp.software_version'')
           (set_text ''system_desc'' (field_at pkt ''cdp.platform'')
             (set_text ''system_name'' (field_at pkt ''cdp.deviceid'') (source_if_new ''cdp'' d)))))"

definition parse_stp :: "packet \<Rightarrow> obj \<Rightarrow> obj" where
  "parse_stp pkt d =
     (let d1 = set_text ''stp_type'' (field_at pkt ''stp.type'') (set_text ''stp_port'' (field_at pkt ''stp.port'')
            (set_text ''stp_root_cost'' (field_at pkt ''stp.root.cost'') (set_text ''stp_bridge'' (field_at pkt ''stp.bridge.hw'')
              (set_text ''stp_root'' (field_at pkt ''stp.root.hw'') (source_if_new ''stp'' d)))));
          flag = field_at pkt ''stp.flags.tc'' in
      if flag \<noteq> [] \<and> flag \<noteq> ''0'' then dict_set ''stp_topology_change'' (PBool True) d1 else d1)"

definition lacp_side :: "packet \<Rightarrow> string \<Rightarrow> obj \<Rightarrow> obj" where
  "lacp_side pkt side d = (let sys = field_at pkt (''lacp.'' @ side @ ''.sysid'') in
     if sys = [] then d
     else dict_set (''lacp_'' @ side) (PDict [(''system'', PStr sys), (''port'', PStr (field_at pkt (''lacp.'' @ side @ ''.port''))),
       (''key'', PStr (field_at pkt (''lacp.'' @ side @ ''.key'')))]) d)"

definition parse_lacp :: "packet \<Rightarrow> obj \<Rightarrow> obj" where
  "parse_lacp pkt d = lacp_side pkt ''partner'' (lacp_side pkt ''actor'' (source_if_new ''lacp'' d))"

text \<open>The branch for industrial and discovery protocols.\<close>

definition cip_of :: "packet \<Rightarrow> obj \<Rightarrow> obj" where
  "cip_of pkt old = (if list_all (\<lambda>k. field_at pkt k = []) [''cip.id.vendor_id'', ''cip.id.device_type'', ''cip.id.product_name''] then old
     else [(''vendor_id'', PStr (field_at pkt ''cip.id.vendor_id'')), (''device_type'', PStr (field_at pkt ''cip.id.device_type'')),
       (''product_name'', PStr (field_at pkt ''cip.id.product_name'')), (''product_code'', PStr (field_at pkt ''cip.id.product_code'')),
       (''serial_number'', PStr (field_at pkt ''cip.id.serial_number'')), (''revision'', PStr (field_at pkt ''cip.class_revision''))])"

definition profinet_of :: "packet \<Rightarrow> obj \<Rightarrow> obj" where
  "profinet_of pkt old =
     (if list_all (\<lambda>k. field_at pkt k = []) [''pn_dcp.suboption_device_nameofstation'', ''pn_dcp.suboption_vendor_id'', ''pn_dcp.suboption_device_id'']
      then old
      else [(''station_name'', PStr (field_at pkt ''pn_dcp.suboption_device_nameofstation'')),
        (''vendor_id'', PStr (field_at pkt ''pn_dcp.suboption_vendor_id'')), (''device_id'', PStr (field_at pkt ''pn_dcp.suboption_device_id'')),
        (''device_role'', PStr (field_at pkt ''pn_dcp.suboption_device_role'')), (''ip'', PStr (field_at pkt ''pn_dcp.suboption_ip_ip''))])"

definition mms_fields :: "(string \<times> string) list" where
  "mms_fields = [(''mms.domain'', ''names''), (''mms.domainId'', ''names''), (''mms.domainName'', ''names''), (''mms.namedToken'', ''names''),
     (''mms.iec61850.datset'', ''datasets''), (''mms.iec61850.rptid'', ''report_ids'')]"

definition goose_fields :: "(string \<times> string) list" where
  "goose_fields = [(''goose.gocbRef'', ''gocb_refs''), (''goose.goID'', ''go_ids''), (''goose.datSet'', ''datasets''), (''goose.confRev'', ''conf_revs'')]"

definition yes_text :: "string \<Rightarrow> bool" where
  "yes_text s \<longleftrightarrow> py_lower s \<in> {''1'', ''true''}"

definition write_codes :: "int list" where
  "write_codes = [5, 6, 15, 16]"

definition add_modbus :: "int \<Rightarrow> conv_tally \<Rightarrow> conv_tally" where
  "add_modbus fc t = t\<lparr>dc_modbus := append_new fc (dc_modbus t), dc_writes := dc_writes t + (if fc \<in> set write_codes then 1 else 0)\<rparr>"

definition add_typed :: "string \<Rightarrow> packet \<Rightarrow> conv_tally \<Rightarrow> conv_tally" where
  "add_typed protocol pkt t = (let f = field_at pkt in
     if contains ''Modbus'' protocol
     then (case (if text_isdigit (f ''modbus.func_code'') then py_int_str (f ''modbus.func_code'') else None) of
         None \<Rightarrow> t
       | Some fc \<Rightarrow> add_modbus fc t)
     else if contains ''EtherNet/IP'' protocol \<or> contains ''CIP'' protocol then t\<lparr>dc_cip := cip_of pkt (dc_cip t)\<rparr>
     else if contains ''PROFINET'' protocol then t\<lparr>dc_pn := profinet_of pkt (dc_pn t)\<rparr>
     else if contains ''S7comm'' protocol
     then t\<lparr>dc_s7 := add_if (f ''s7comm.param.func'') (dc_s7 t), dc_s7_access := (dc_s7_access t \<or> f ''s7comm.header.rosctr'' = ''7'')\<rparr>
     else if contains ''DNP3'' protocol then t\<lparr>dc_dnp3 := add_if (f ''dnp3.al.obj'') (dc_dnp3 t)\<rparr>
     else if contains ''IEC 60870-5-104'' protocol
     then t\<lparr>dc_iec_types := add_if (f ''iec60870_asdu.typeid'') (dc_iec_types t),
            dc_iec_causes := add_if (f ''iec60870_asdu.causetx'') (dc_iec_causes t)\<rparr>
     else if contains ''MMS (IEC 61850)'' protocol
     then t\<lparr>dc_mms := add_bucket ''ctl_models'' (f ''mms.iec61850.ctlmodel'') (fold (add_tokens pkt) mms_fields
            (add_bucket ''unconfirmed_services'' (f ''mms.unconfirmedService'')
              (add_bucket ''service_requests'' (f ''mms.confirmedServiceRequest'') (dc_mms t))))\<rparr>
     else if contains ''IEC 61850 GOOSE'' protocol \<or> contains ''R-GOOSE'' protocol
     then t\<lparr>dc_goose := fold (add_tokens pkt) goose_fields (dc_goose t),
            dc_goose_sim := (dc_goose_sim t \<or> yes_text (f ''goose.simulation'')),
            dc_goose_nds := (dc_goose_nds t \<or> yes_text (f ''goose.ndsCom''))\<rparr>
     else if contains ''BACnet'' protocol
     then t\<lparr>dc_bacnet := add_bucket ''object_types'' (f ''bacapp.objectType'') (add_bucket ''object_names'' (f ''bacapp.object_name'')
            (add_bucket ''vendor_ids'' (f ''bacapp.vendor_identifier'') (dc_bacnet t)))\<rparr>
     else if contains ''OPC-UA'' protocol
     then t\<lparr>dc_opc := dc_opc t @ (if f ''opcua.servicenodeid.numeric'' = [] then [] else [f ''opcua.servicenodeid.numeric'']),
            dc_opc_open := (dc_opc_open t \<or> contains ''none'' (py_lower (f ''opcua.security.spu'')))\<rparr>
     else if contains ''OMRON'' protocol
     then t\<lparr>dc_omron := add_bucket ''commands'' (f ''omron.command'') (dc_omron t),
            dc_omron_model := or_else (dc_omron_model t) (f ''omron.controller.model''),
            dc_omron_version := or_else (dc_omron_version t) (f ''omron.controller.version'')\<rparr>
     else if protocol = ''LLDP'' then t\<lparr>dc_l2 := parse_lldp pkt (dc_l2 t)\<rparr>
     else if protocol = ''CDP'' then t\<lparr>dc_l2 := parse_cdp pkt (dc_l2 t)\<rparr>
     else if protocol \<in> {''STP'', ''RSTP'', ''MSTP''} then t\<lparr>dc_l2 := parse_stp pkt (dc_l2 t)\<rparr>
     else if protocol = ''LACP'' then t\<lparr>dc_l2 := parse_lacp pkt (dc_l2 t)\<rparr>
     else t)"

section \<open>A line\<close>

text \<open>\<open>int(text or 0)\<close>.\<close>

definition int_or_zero :: "string \<Rightarrow> int option" where
  "int_or_zero s = (if s = [] then Some 0 else py_int_str s)"

definition add_time :: "(string \<Rightarrow> rat option) \<Rightarrow> string \<Rightarrow> rat list \<Rightarrow> rat list" where
  "add_time fl epoch ts = (if epoch \<noteq> [] \<and> length ts < 5000 then ts @ (case fl epoch of None \<Rightarrow> [] | Some q \<Rightarrow> [q]) else ts)"

definition source_of :: "packet \<Rightarrow> string" where
  "source_of pkt = or_else (field_at pkt ''ip.src'') (field_at pkt ''arp.src.proto_ipv4'')"

definition target_of :: "packet \<Rightarrow> string" where
  "target_of pkt = or_else (field_at pkt ''ip.dst'') (field_at pkt ''arp.dst.proto_ipv4'')"

text \<open>Addresses, ports, times, names: what every packet adds after its length.\<close>

definition add_meta :: "(string \<Rightarrow> rat option) \<Rightarrow> string \<Rightarrow> int \<Rightarrow> int \<Rightarrow> packet \<Rightarrow> conv_tally \<Rightarrow> conv_tally" where
  "add_meta fl transport src_port len pkt t =
     (let now = field_at pkt ''frame.time''; query = field_at pkt ''dns.qry.name'' in
      t\<lparr>dc_bytes := dc_bytes t + len,
        dc_transport := or_else (dc_transport t) transport,
        dc_src_ports := (if src_port \<noteq> 0 \<and> length (dc_src_ports t) < 100 then append_new src_port (dc_src_ports t) else dc_src_ports t),
        dc_src_ips := add_if (source_of pkt) (dc_src_ips t), dc_dst_ips := add_if (target_of pkt) (dc_dst_ips t),
        dc_first := (if dc_first t = [] \<or> now < dc_first t then now else dc_first t),
        dc_last := (if dc_last t = [] \<or> now > dc_last t then now else dc_last t),
        dc_times := add_time fl (field_at pkt ''frame.time_epoch'') (dc_times t),
        dc_queries := (if query \<noteq> [] \<and> length (dc_queries t) < 200 then append_new query (dc_queries t) else dc_queries t),
        dc_query_types := (if query \<noteq> [] then add_if (field_at pkt ''dns.qry.type'') (dc_query_types t) else dc_query_types t),
        dc_host := or_else (dc_host t) (field_at pkt ''dhcp.option.hostname''),
        dc_class := or_else (dc_class t) (field_at pkt ''dhcp.option.vendor_class_id''),
        dc_nbns := or_else (dc_nbns t) (field_at pkt ''nbns.name''),
        dc_agent := or_else (dc_agent t) (field_at pkt ''http.user_agent'')\<rparr>)"

definition arp_of :: "(string \<Rightarrow> rat option) \<Rightarrow> packet \<Rightarrow> arp_seen" where
  "arp_of fl pkt = (let epoch = field_at pkt ''frame.time_epoch''; opcode = field_at pkt ''arp.opcode'';
        grat = py_lower (field_at pkt ''arp.isgratuitous'') in
      \<lparr>ar_time = (case (if epoch = [] then None else fl epoch) of None \<Rightarrow> PStr (field_at pkt ''frame.time'') | Some q \<Rightarrow> PFloat q),
       ar_src_mac = field_at pkt ''eth.src'', ar_src_ip = or_else (field_at pkt ''arp.src.proto_ipv4'') (source_of pkt),
       ar_dst_mac = field_at pkt ''eth.dst'', ar_dst_ip = or_else (field_at pkt ''arp.dst.proto_ipv4'') (target_of pkt),
       ar_opcode = (if opcode = [] then None else py_int_str opcode),
       ar_gratuitous = (if grat \<in> {''1'', ''true''} then Some True else if grat \<in> {''0'', ''false''} then Some False else None)\<rparr>)"

definition observe_arp :: "(string \<Rightarrow> rat option) \<Rightarrow> packet \<Rightarrow> dissector \<Rightarrow> dissector" where
  "observe_arp fl pkt st =
     (if contains ''arp'' (py_lower (field_at pkt ''frame.protocols'')) \<and> \<not> ds_arp_full st
      then st\<lparr>ds_arp := ds_arp st @ [arp_of fl pkt], ds_arp_full := length (ds_arp st) + 1 \<ge> arp_obs_cap\<rparr>
      else st)"

text \<open>A function code of digits that \<open>int\<close> refuses, such as a superscript.\<close>

definition code_raises :: "string \<Rightarrow> packet \<Rightarrow> bool" where
  "code_raises protocol pkt \<longleftrightarrow> contains ''Modbus'' protocol \<and> text_isdigit (field_at pkt ''modbus.func_code'')
     \<and> py_int_str (field_at pkt ''modbus.func_code'') = None"

definition count_packet_in :: "(string \<Rightarrow> rat option) \<Rightarrow> nat \<Rightarrow> packet \<Rightarrow> int \<Rightarrow> int \<Rightarrow> string \<Rightarrow> string \<Rightarrow> dissector \<Rightarrow> dissector + dissector" where
  "count_packet_in fl threshold pkt port src_port transport protocol st =
     (case route_scan threshold (field_at pkt ''eth.src'') (field_at pkt ''eth.dst'') protocol port transport st of (k0, st1) \<Rightarrow>
        let k = route_cap k0 st1; t = tally_at st1 k; t0 = t\<lparr>dc_packets := dc_packets t + 1\<rparr> in
        case int_or_zero (field_at pkt ''frame.len'') of
          None \<Rightarrow> Inl (put_tally k t0 st1)
        | Some len \<Rightarrow>
            let t1 = add_meta fl transport src_port len pkt t0; st2 = observe_arp fl pkt st1 in
            if code_raises protocol pkt then Inl (put_tally k t1 st2) else Inr (put_tally k (add_typed protocol pkt t1) st2))"

definition strip_newlines :: "string \<Rightarrow> string" where
  "strip_newlines s = rev (dropWhile (\<lambda>c. c = char_of (10::nat)) (rev s))"

text \<open>The body of the loop over the lines; \<open>Inl\<close> is the state an exception leaves.\<close>

definition line_step :: "(string \<Rightarrow> rat option) \<Rightarrow> nat \<Rightarrow> string \<Rightarrow> dissector \<Rightarrow> dissector + dissector" where
  "line_step fl threshold line st =
     (if strip_newlines line = [] then Inr st
      else let pkt = packet_of (strip_newlines line); st1 = st\<lparr>ds_count := ds_count st + 1\<rparr>;
               skipped = st1\<lparr>ds_skipped := ds_skipped st1 + 1\<rparr>; tcp = field_at pkt ''tcp.dstport''; udp = field_at pkt ''udp.dstport'' in
        if field_at pkt ''eth.src'' = [] \<or> field_at pkt ''eth.dst'' = [] then Inr skipped
        else case (int_or_zero (or_else tcp udp), int_or_zero (or_else (field_at pkt ''tcp.srcport'') (field_at pkt ''udp.srcport''))) of
          (Some port, Some src_port) \<Rightarrow>
            (let transport = (if tcp \<noteq> [] then ''tcp'' else if udp \<noteq> [] then ''udp'' else []);
                 protocol = classify_protocol (field_at pkt ''frame.protocols'') port transport in
             if protocol = [] then Inr skipped
             else count_packet_in fl threshold pkt port src_port transport protocol st1)
        | _ \<Rightarrow> Inl st1)"

fun run_lines :: "(string \<Rightarrow> rat option) \<Rightarrow> nat \<Rightarrow> string list \<Rightarrow> dissector \<Rightarrow> dissector" where
  "run_lines fl threshold [] st = st"
| "run_lines fl threshold (l # ls) st = (case line_step fl threshold l st of
       Inl st' \<Rightarrow> st'
     | Inr st' \<Rightarrow> run_lines fl threshold ls st')"

text \<open>The passes over the chunks of a capture, until one adds no packet.\<close>

fun run_chunks :: "(dissector \<Rightarrow> dissector) list \<Rightarrow> dissector \<Rightarrow> dissector" where
  "run_chunks [] st = st"
| "run_chunks (p # ps) st = (let st' = p st in if ds_count st' = ds_count st then st' else run_chunks ps st')"

section \<open>Conversations\<close>

definition bucket_obj :: "buckets \<Rightarrow> obj" where
  "bucket_obj d = map (\<lambda>(k, xs). (k, PList (map PStr (sort xs)))) d"

definition conversation_of :: "(rat \<Rightarrow> rat) \<Rightarrow> (string list \<Rightarrow> string list) \<Rightarrow> (int list \<Rightarrow> int list) \<Rightarrow> conv_id \<Rightarrow> conv_tally \<Rightarrow> conversation" where
  "conversation_of log2 ords ordn k t =
     (case (k, compute_beacon_score (dc_times t), compute_dns_entropy log2 (ords (dc_queries t))) of
        ((src_mac, dst_mac, protocol, port), (score, interval, jitter), (entropy, ratio)) \<Rightarrow>
          blank_conversation\<lparr>cv_src_ip := (case ords (dc_src_ips t) of [] \<Rightarrow> [] | ip # _ \<Rightarrow> ip),
            cv_dst_ip := (case ords (dc_dst_ips t) of [] \<Rightarrow> [] | ip # _ \<Rightarrow> ip), cv_src_mac := src_mac, cv_dst_mac := dst_mac,
            cv_protocol := protocol, cv_port := port, cv_packets := dc_packets t, cv_bytes := dc_bytes t, cv_first := dc_first t,
            cv_last := dc_last t, cv_modbus_functions := map PInt (ordn (dc_modbus t)), cv_modbus_writes := dc_writes t,
            cv_cip_identity := dc_cip t, cv_pn_identity := dc_pn t, cv_s7_functions := ords (dc_s7 t), cv_s7_access := dc_s7_access t,
            cv_dnp3_objects := ords (dc_dnp3 t), cv_opc_sessions := map PStr (dc_opc t), cv_opc_no_security := dc_opc_open t,
            cv_bacnet_identity := bucket_obj (dc_bacnet t),
            cv_omron_identity := bucket_obj (dc_omron t) @ [(''model'', PStr (dc_omron_model t)), (''version'', PStr (dc_omron_version t))],
            cv_mms_identity := bucket_obj (dc_mms t),
            cv_goose_identity := bucket_obj (dc_goose t) @ [(''simulation'', PBool (dc_goose_sim t)), (''nds_com'', PBool (dc_goose_nds t))],
            cv_src_port := (case dc_src_ports t of [p] \<Rightarrow> p | _ \<Rightarrow> 0), cv_transport := dc_transport t,
            cv_src_ports := take 50 (ordn (dc_src_ports t)), cv_beacon_score := score, cv_beacon_interval := interval,
            cv_beacon_jitter := jitter, cv_dns_queries := take 200 (ords (dc_queries t)), cv_dns_entropy := entropy, cv_dns_ratio := ratio,
            cv_l2 := dc_l2 t, cv_dhcp_name := dc_host t, cv_dhcp_class := dc_class t, cv_nbns_name := dc_nbns t, cv_user_agent := dc_agent t\<rparr>)"

definition dissected :: "(rat \<Rightarrow> rat) \<Rightarrow> (string list \<Rightarrow> string list) \<Rightarrow> (int list \<Rightarrow> int list) \<Rightarrow> dissector \<Rightarrow> conversation list" where
  "dissected log2 ords ordn st = map (\<lambda>(k, t). conversation_of log2 ords ordn k t) (ds_convs st)"

text \<open>The dissector's own port summary counts both ends as peers and is sorted by port.\<close>

definition count_both_ends :: "conversation \<Rightarrow> (int \<times> string, port_item) dict \<Rightarrow> (int \<times> string, port_item) dict" where
  "count_both_ends c bucket =
     (if cv_port c \<le> 0 then bucket
      else let key = (cv_port c, cv_transport c); i = (case dict_get bucket key of None \<Rightarrow> blank_item | Some i \<Rightarrow> i) in
        dict_set key (count_item c (i\<lparr>pi_peers := add_if (cv_src_ip c) (pi_peers i)\<rparr>)) bucket)"

definition dissector_port_summary :: "conversation list \<Rightarrow> (string, port_row) dict" where
  "dissector_port_summary convs = fold (\<lambda>(k, i).
     dict_set (summary_key k) \<lparr>pr_port = fst k, pr_transport = snd k, pr_item = i, pr_unique_peers = length (pi_peers i)\<rparr>)
     (sort_key fst (fold count_both_ends convs [])) []"

end
