(* ===== verification/PacketReader.thy ===== *)
theory PacketReader
  imports Dissector PcapHeader
begin

text \<open>
  The reader of raw capture files that \<open>OTProtocolDissector\<close> of \<open>marlinspike/engine.py\<close> falls back to
  when the external one is not installed (\<open>_run_pure_python_pass\<close>): Ethernet frames with ARP or IPv4,
  from the classic and the block format, into the same map of conversations. Times are rationals.
  What the file's bytes are for a list of packets is defined in \<open>PcapHeader\<close>; the theorems say which
  packets of such a file this reader processes, and compare it with the reader of capture headers.
\<close>

section \<open>A frame\<close>

definition hex_byte :: "8 word \<Rightarrow> string" where
  "hex_byte b = [hex_digit (unat b div 16), hex_digit (unat b mod 16)]"

definition mac_text :: "bytes \<Rightarrow> string" where
  "mac_text bs = py_join '':'' (map hex_byte bs)"

definition ip_text :: "bytes \<Rightarrow> string" where
  "ip_text bs = py_join ''.'' (map (\<lambda>b. show_nat (unat b)) bs)"

definition add_frame :: "rat \<Rightarrow> bytes \<Rightarrow> string \<Rightarrow> string \<Rightarrow> int \<Rightarrow> conv_tally \<Rightarrow> conv_tally" where
  "add_frame ts pkt src dst sport t = t\<lparr>dc_packets := dc_packets t + 1, dc_bytes := dc_bytes t + int (length pkt),
     dc_src_ips := append_new src (dc_src_ips t), dc_dst_ips := append_new dst (dc_dst_ips t), dc_times := dc_times t @ [ts],
     dc_src_ports := (if sport \<noteq> 0 then append_new sport (dc_src_ports t) else dc_src_ports t)\<rparr>"

definition frame_ports :: "bytes \<Rightarrow> int \<times> int \<times> string" where
  "frame_ports pkt =
     (let ihl = (unat (pkt ! 14) mod 16) * 4; proto = unat (pkt ! 23) in
      if proto \<in> {6, 17} \<and> length pkt \<ge> 14 + ihl + 4
      then (int (field BigE (14 + ihl) 2 pkt), int (field BigE (16 + ihl) 2 pkt), if proto = 6 then ''tcp'' else ''udp'')
      else (0, 0, []))"

definition ip_label :: "nat \<Rightarrow> string" where
  "ip_label proto = (if proto = 6 then ''TCP'' else if proto = 17 then ''UDP'' else ''IP'')"

definition process_packet :: "rat \<Rightarrow> bytes \<Rightarrow> dissector \<Rightarrow> dissector" where
  "process_packet ts pkt st0 =
     (let st = st0\<lparr>ds_count := ds_count st0 + 1\<rparr>; skipped = st\<lparr>ds_skipped := ds_skipped st + 1\<rparr>;
          dst_mac = mac_text (take 6 pkt); src_mac = mac_text (take 6 (drop 6 pkt)); ethertype = field BigE 12 2 pkt in
      if length pkt < 14 then skipped
      else if ethertype = 0x0806 \<and> length pkt \<ge> 42
      then (let k = (src_mac, dst_mac, ''ARP'', 0) in
        put_tally k (add_frame ts pkt (ip_text (take 4 (drop 28 pkt))) (ip_text (take 4 (drop 38 pkt))) 0 (tally_at st k)) st)
      else if ethertype = 0x0800 \<and> length pkt \<ge> 34
      then (case frame_ports pkt of (sport, dport, transport) \<Rightarrow>
        let name = or_else (classify_protocol [] dport transport) (ip_label (unat (pkt ! 23))); k = (src_mac, dst_mac, name, dport) in
        put_tally k (add_frame ts pkt (ip_text (take 4 (drop 26 pkt))) (ip_text (take 4 (drop 30 pkt))) sport (tally_at st k)) st)
      else skipped)"

section \<open>Files\<close>

function raw_records :: "endian \<Rightarrow> nat \<Rightarrow> bytes \<Rightarrow> dissector \<Rightarrow> dissector" where
  "raw_records e divisor bs st =
     (if length bs < 16 then st
      else let incl_len = field e 8 4 bs; pkt = take incl_len (drop 16 bs) in
        if incl_len = 0 \<or> incl_len > 65535 then raw_records e divisor (drop (16 + incl_len) bs) st
        else if length pkt < incl_len then st
        else raw_records e divisor (drop (16 + incl_len) bs)
          (process_packet (of_nat (field e 0 4 bs) + of_nat (field e 4 4 bs) / of_nat divisor) pkt st))"
  by pat_completeness auto
termination
  by (relation "measure (\<lambda>(e, d, bs, st). length bs)") auto

declare raw_records.simps [simp del]

definition raw_pcap :: "bytes \<Rightarrow> dissector \<Rightarrow> dissector" where
  "raw_pcap bs st =
     (if length bs < 24 then st
      else let raw_magic = field LittleE 0 4 bs;
               e = (if raw_magic \<in> {0xA1B2C3D4, 0xA1B23C4D} then LittleE else BigE);
               divisor = (if raw_magic \<in> {0xA1B23C4D, 0x4D3CB2A1} then 1000000000 else 1000000)
           in raw_records e divisor (drop 24 bs) st)"

text \<open>An enhanced packet: its time is taken in microseconds whatever the interface says.\<close>

definition raw_block :: "endian \<Rightarrow> nat \<Rightarrow> bytes \<Rightarrow> dissector \<Rightarrow> dissector" where
  "raw_block e btype body st =
     (if btype = 6 \<and> length body \<ge> 20
      then process_packet (of_nat (field e 4 4 body * 2 ^ 32 + field e 8 4 body) / 1000000) (take (field e 12 4 body) (drop 20 body)) st
      else st)"

function raw_blocks :: "endian \<Rightarrow> bytes \<Rightarrow> dissector \<Rightarrow> dissector" where
  "raw_blocks e bs st =
     (if length bs < 8 then st
      else let blen = field e 4 4 bs; body = take (blen - 12) (drop 8 bs) in
        if blen < 12 \<or> blen mod 4 \<noteq> 0 then st
        else if length body < blen - 12 then st
        else raw_blocks e (drop blen bs) (raw_block e (field e 0 4 bs) body st))"
  by pat_completeness auto
termination
  by (relation "measure (\<lambda>(e, bs, st). length bs)") auto

declare raw_blocks.simps [simp del]

text \<open>The first block's length is read in little-endian order, before the order of the file is known.\<close>

definition raw_pcapng :: "bytes \<Rightarrow> dissector \<Rightarrow> dissector" where
  "raw_pcapng bs st =
     (if length bs < 12 then st
      else raw_blocks (if field LittleE 8 4 bs = 0x1A2B3C4D then LittleE else BigE) (drop (field LittleE 4 4 bs) bs) st)"

text \<open>\<open>_run_pure_python_pass\<close>; the count of collapsed packets starts again at zero.\<close>

definition raw_pass :: "bytes \<Rightarrow> dissector \<Rightarrow> dissector" where
  "raw_pass bs st0 =
     (let st = st0\<lparr>ds_collapsed := 0\<rparr>; magic = field BigE 0 4 bs in
      if length bs < 4 then st
      else if magic = 0x0A0D0D0A then raw_pcapng bs st
      else if magic \<in> {0xA1B2C3D4, 0xD4C3B2A1, 0xA1B23C4D, 0x4D3CB2A1} then raw_pcap bs st
      else st)"

end
