(* ===== verification/DissectorSafety.thy ===== *)
theory DissectorSafety
  imports PacketReader
begin

text \<open>
  What the dissection stage keeps: every packet is counted once, the state stays within its caps
  whatever is captured, which packets the collapse of port scans takes; which packets of a file the
  reader of raw captures processes; and what the checks of the risk stage cannot see of this path.
\<close>

section \<open>Counts\<close>

definition accounted :: "dissector \<Rightarrow> int" where
  "accounted st = dict_sum dc_packets (ds_convs st) + ds_skipped st"

lemma put_packets:
  assumes "dc_packets t = dc_packets (tally_at st k) + 1" "ds_convs st' = ds_convs st"
  shows "dict_sum dc_packets (ds_convs (put_tally k t st')) = dict_sum dc_packets (ds_convs st) + 1"
  using assms by (simp add: put_tally_def dict_sum_set tally_at_def blank_tally_def split: option.splits)

lemma put_others: "ds_skipped (put_tally k t st) = ds_skipped st" "ds_count (put_tally k t st) = ds_count st"
  by (simp_all add: put_tally_def)

lemma typed_packets: "dc_packets (add_typed protocol pkt t) = dc_packets t"
  by (simp add: add_typed_def add_modbus_def Let_def split: option.split)

lemma meta_packets: "dc_packets (add_meta fl transport src_port len pkt t) = dc_packets t"
  by (simp add: add_meta_def Let_def)

lemma route_scan_state:
  assumes "route_scan threshold src dst protocol port transport st = (k, st')"
  shows "ds_convs st' = ds_convs st" "ds_count st' = ds_count st" "ds_skipped st' = ds_skipped st" "ds_arp st' = ds_arp st"
    "ds_arp_full st' = ds_arp_full st"
  using assms by (auto simp: route_scan_def Let_def split: if_splits)

lemma observe_arp_state: "ds_convs (observe_arp fl pkt st) = ds_convs st" "ds_count (observe_arp fl pkt st) = ds_count st"
  "ds_skipped (observe_arp fl pkt st) = ds_skipped st"
  by (simp_all add: observe_arp_def)

text \<open>The state that a step leaves, whether it raised or not.\<close>

definition left_by :: "dissector + dissector \<Rightarrow> dissector" where
  "left_by r = (case r of Inl st \<Rightarrow> st | Inr st \<Rightarrow> st)"

definition counted_in :: "conv_id \<Rightarrow> dissector \<Rightarrow> conv_tally" where
  "counted_in k st = (tally_at st k)\<lparr>dc_packets := dc_packets (tally_at st k) + 1\<rparr>"

lemma count_packet_left:
  assumes "route_scan threshold (field_at pkt ''eth.src'') (field_at pkt ''eth.dst'') protocol port transport st = (k0, st1)"
    and "k = route_cap k0 st1"
  shows "left_by (count_packet_in fl threshold pkt port src_port transport protocol st) =
    (case int_or_zero (field_at pkt ''frame.len'') of
       None \<Rightarrow> put_tally k (counted_in k st1) st1
     | Some len \<Rightarrow> put_tally k (let t = add_meta fl transport src_port len pkt (counted_in k st1) in
           if code_raises protocol pkt then t else add_typed protocol pkt t) (observe_arp fl pkt st1))"
  by (simp add: count_packet_in_def assms Let_def left_by_def counted_in_def split: option.split)

lemma count_packet_sums:
  "accounted (left_by (count_packet_in fl threshold pkt port src_port transport protocol st)) = accounted st + 1"
  "ds_count (left_by (count_packet_in fl threshold pkt port src_port transport protocol st)) = ds_count st"
proof -
  obtain k0 st1 where r: "route_scan threshold (field_at pkt ''eth.src'') (field_at pkt ''eth.dst'') protocol port transport st = (k0, st1)"
    by fastforce
  note same = route_scan_state [OF r] and left = count_packet_left [OF r refl, of fl src_port]
  have one: "dc_packets (counted_in k st1) = dc_packets (tally_at st1 k) + 1" for k by (simp add: counted_in_def)
  show "accounted (left_by (count_packet_in fl threshold pkt port src_port transport protocol st)) = accounted st + 1"
    unfolding left by (simp add: accounted_def Let_def put_others put_packets [of _ st1] typed_packets meta_packets one observe_arp_state same
        split: option.split)
  show "ds_count (left_by (count_packet_in fl threshold pkt port src_port transport protocol st)) = ds_count st"
    unfolding left by (simp add: put_others observe_arp_state same split: option.split)
qed

lemma line_step_sums:
  "line_step fl threshold l st = Inr st' \<Longrightarrow> accounted st' - ds_count st' = accounted st - ds_count st"
  "line_step fl threshold l st = Inl st' \<Longrightarrow> accounted st' - ds_count st' \<in> {accounted st - ds_count st, accounted st - ds_count st - 1}"
proof -
  have counted: "accounted st' = accounted s + 1 \<and> ds_count st' = ds_count s"
    if "count_packet_in fl threshold pkt port src_port transport protocol s = r" "r = Inl st' \<or> r = Inr st'" for pkt port src_port transport protocol s r
    using that count_packet_sums [of fl threshold pkt port src_port transport protocol s] by (auto simp: left_by_def)
  have start: "accounted (s\<lparr>ds_count := n\<rparr>) = accounted s" "accounted (s\<lparr>ds_count := n, ds_skipped := ds_skipped s + 1\<rparr>) = accounted s + 1"
    for s n by (simp_all add: accounted_def)
  show "line_step fl threshold l st = Inr st' \<Longrightarrow> accounted st' - ds_count st' = accounted st - ds_count st"
    by (auto simp: line_step_def Let_def start split: if_splits option.splits dest!: counted)
  show "line_step fl threshold l st = Inl st' \<Longrightarrow> accounted st' - ds_count st' \<in> {accounted st - ds_count st, accounted st - ds_count st - 1}"
    by (auto simp: line_step_def Let_def start split: if_splits option.splits dest!: counted)
qed

lemma run_lines_sums:
  "accounted (run_lines fl threshold ls st) - ds_count (run_lines fl threshold ls st)
     \<in> {accounted st - ds_count st, accounted st - ds_count st - 1}"
proof (induction ls arbitrary: st)
  case (Cons l ls)
  show ?case
  proof (cases "line_step fl threshold l st")
    case (Inl st')
    then show ?thesis using line_step_sums(2) [OF Inl] by simp
  next
    case (Inr st')
    then show ?thesis using line_step_sums(1) [OF Inr] Cons [of st'] by simp
  qed
qed simp

text \<open>
  C5. Of the packets read in a pass each is counted in one conversation or as skipped, except at most
  the last one, whose line ended the pass by an exception.
\<close>

theorem packets_accounted:
  "let st = run_lines fl threshold lines start_dissector
   in dict_sum dc_packets (ds_convs st) + ds_skipped st \<in> {ds_count st - 1, ds_count st}"
  using run_lines_sums [of fl threshold "lines" start_dissector]
  by (auto simp: accounted_def start_dissector_def Let_def dict_sum_def)

section \<open>Caps\<close>

lemma dict_set_grows: "length (dict_set k v d) = (if dict_get d k = None then length d + 1 else length d)"
  by (induction d) auto

definition small_tally :: "conv_tally \<Rightarrow> bool" where
  "small_tally t \<longleftrightarrow> length (dc_times t) \<le> 5000 \<and> length (dc_src_ports t) \<le> 100 \<and> length (dc_queries t) \<le> 200"

lemma small_steps:
  "small_tally blank_tally" "small_tally t \<Longrightarrow> small_tally (t\<lparr>dc_packets := n\<rparr>)"
  "small_tally t \<Longrightarrow> small_tally (add_meta fl transport src_port len pkt t)" "small_tally t \<Longrightarrow> small_tally (add_typed protocol pkt t)"
  by (auto simp: small_tally_def blank_tally_def add_meta_def add_time_def append_new_def add_typed_def add_modbus_def Let_def split: option.split)

text \<open>The map may be one over its cap: the key for what is cut off.\<close>

definition capped :: "dissector \<Rightarrow> bool" where
  "capped st \<longleftrightarrow> (length (ds_convs st) \<le> conv_map_cap \<or> length (ds_convs st) = conv_map_cap + 1 \<and> dict_get (ds_convs st) overflow_key \<noteq> None)
     \<and> (length (ds_arp st) < arp_obs_cap \<or> ds_arp_full st \<and> length (ds_arp st) = arp_obs_cap)
     \<and> (\<forall>(k, t) \<in> set (ds_convs st). small_tally t)"

lemma capped_same:
  "capped st \<Longrightarrow> ds_convs st' = ds_convs st \<Longrightarrow> ds_arp st' = ds_arp st \<Longrightarrow> ds_arp_full st' = ds_arp_full st \<Longrightarrow> capped st'"
  by (simp add: capped_def)

lemma capped_arp: "capped st \<Longrightarrow> capped (observe_arp fl pkt st)"
  by (auto simp: capped_def observe_arp_def)

lemma capped_tally: "capped st \<Longrightarrow> small_tally (counted_in k st)"
  by (auto simp: capped_def counted_in_def tally_at_def intro!: small_steps split: option.split dest: map_of_SomeD)

lemma capped_put:
  assumes "capped st" "small_tally t" "ds_convs st = ds_convs st1"
  shows "capped (put_tally (route_cap k st1) t st)"
proof -
  have "\<forall>(j, u) \<in> set (dict_set (route_cap k st1) t (ds_convs st)). small_tally u"
    using assms(1,2) by (auto simp: capped_def dest: set_mp [OF set_update_sub])
  moreover have "length (dict_set (route_cap k st1) t (ds_convs st)) \<le> conv_map_cap
    \<or> length (dict_set (route_cap k st1) t (ds_convs st)) = conv_map_cap + 1 \<and> dict_get (dict_set (route_cap k st1) t (ds_convs st)) overflow_key \<noteq> None"
    using assms(1) by (auto simp: capped_def dict_set_grows dict_get_set route_cap_def assms(3))
  ultimately show ?thesis
    using assms(1) by (simp add: capped_def put_tally_def)
qed

lemma count_packet_capped:
  assumes "capped st"
  shows "capped (left_by (count_packet_in fl threshold pkt port src_port transport protocol st))"
proof -
  obtain k0 st1 where r: "route_scan threshold (field_at pkt ''eth.src'') (field_at pkt ''eth.dst'') protocol port transport st = (k0, st1)"
    by fastforce
  have c: "capped st1" using assms route_scan_state [OF r] by (auto intro: capped_same)
  show ?thesis
    unfolding count_packet_left [OF r refl, of fl src_port]
    by (auto simp: Let_def observe_arp_state split: option.split intro!: capped_put [where ?st1.0 = st1] capped_arp c capped_tally small_steps)
qed

lemma line_step_capped:
  assumes "capped st"
  shows "capped (left_by (line_step fl threshold l st))"
proof -
  have "capped (st\<lparr>ds_count := n\<rparr>)" "capped (st\<lparr>ds_count := n, ds_skipped := m\<rparr>)" for n m
    by (rule capped_same [OF assms]; simp)+
  then show ?thesis
    using assms by (auto simp: line_step_def Let_def left_by_def [of "Inr _"] left_by_def [of "Inl _"] count_packet_capped split: option.split)
qed

lemma run_lines_capped: "capped st \<Longrightarrow> capped (run_lines fl threshold ls st)"
proof (induction ls arbitrary: st)
  case (Cons l ls)
  then show ?case
    using line_step_capped [OF Cons.prems, of fl threshold l] by (auto simp: left_by_def split: sum.split_asm sum.split)
qed simp

lemma run_chunks_capped: "capped st \<Longrightarrow> capped (run_chunks (map (run_lines fl threshold) chunks) st)"
  by (induction chunks arbitrary: st) (simp_all add: Let_def run_lines_capped)

text \<open>
  C10. However many chunks of lines the external reader gives, and whatever they hold, the state after the
  passes over them is within its caps: at most one conversation more than the cap (the overflow
  conversation that takes what comes after it), the capped ARP observations, and in each
  conversation the capped times, source ports and queries. The raw reader, which is used when the
  external one is missing, has no such caps.
\<close>

theorem memory_bounded:
  "let st = run_chunks (map (run_lines fl threshold) chunks) start_dissector
   in length (ds_convs st) \<le> conv_map_cap + 1 \<and> length (ds_arp st) \<le> arp_obs_cap \<and> list_all (small_tally \<circ> snd) (ds_convs st)"
proof -
  have "capped start_dissector" by (simp add: capped_def start_dissector_def arp_obs_cap_def)
  from run_chunks_capped [OF this, of fl threshold chunks] show ?thesis
    by (auto simp: capped_def Let_def list_all_iff)
qed

section \<open>Port scans\<close>

text \<open>The keys of packets of one pair and transport to a list of ports.\<close>

fun routed :: "nat \<Rightarrow> string \<Rightarrow> string \<Rightarrow> string \<Rightarrow> (int \<Rightarrow> string) \<Rightarrow> int list \<Rightarrow> dissector \<Rightarrow> conv_id list" where
  "routed threshold src dst transport name [] st = []"
| "routed threshold src dst transport name (p # ps) st = (case route_scan threshold src dst (name p) p transport st of
     (k, st') \<Rightarrow> k # routed threshold src dst transport name ps st')"

definition pair_ports :: "string \<times> string \<times> string \<Rightarrow> dissector \<Rightarrow> int list" where
  "pair_ports pair st = (case dict_get (ds_pairs st) pair of None \<Rightarrow> [] | Some ps \<Rightarrow> ps)"

lemma route_scan_new:
  assumes "threshold > 0" "p > 0" "transport \<noteq> []" "p \<notin> set (pair_ports (src, dst, transport) st)"
    and "route_scan threshold src dst protocol p transport st = (k, st')"
  shows "k = (if length (pair_ports (src, dst, transport) st) + 1 \<ge> threshold then (src, dst, ''Port Scan'', 0) else (src, dst, protocol, p))"
    and "pair_ports (src, dst, transport) st' = pair_ports (src, dst, transport) st @ [p]"
  using assms by (auto simp: route_scan_def Let_def pair_ports_def append_new_def split: if_splits)

lemma routed_from:
  assumes "threshold > 0" "transport \<noteq> []" "distinct ps" "list_all (\<lambda>p. p > 0) ps" "set ps \<inter> set (pair_ports (src, dst, transport) st) = {}"
  shows "routed threshold src dst transport name ps st =
    (let n = threshold - 1 - length (pair_ports (src, dst, transport) st) in
     map (\<lambda>p. (src, dst, name p, p)) (take n ps) @ map (\<lambda>p. (src, dst, ''Port Scan'', 0)) (drop n ps))"
  using assms(3-)
proof (induction ps arbitrary: st)
  case (Cons p ps)
  obtain k st' where r: "route_scan threshold src dst (name p) p transport st = (k, st')" by fastforce
  note new = route_scan_new [OF assms(1) _ assms(2) _ r]
  have k: "k = (if length (pair_ports (src, dst, transport) st) + 1 \<ge> threshold then (src, dst, ''Port Scan'', 0) else (src, dst, name p, p))"
    and st': "pair_ports (src, dst, transport) st' = pair_ports (src, dst, transport) st @ [p]"
    using new Cons.prems by auto
  have rest: "routed threshold src dst transport name ps st' = (let n = threshold - 1 - length (pair_ports (src, dst, transport) st') in
     map (\<lambda>p. (src, dst, name p, p)) (take n ps) @ map (\<lambda>p. (src, dst, ''Port Scan'', 0)) (drop n ps))"
    using Cons.prems by (intro Cons.IH) (auto simp: st')
  then show ?case
  proof (cases "threshold - 1 - length (pair_ports (src, dst, transport) st)")
    case (Suc n)
    then have "threshold - Suc (Suc (length (pair_ports (src, dst, transport) st))) = n" by simp
    moreover have "\<not> threshold \<le> Suc (length (pair_ports (src, dst, transport) st))" using Suc by linarith
    ultimately show ?thesis using rest Suc by (simp add: r k st' Let_def)
  qed (auto simp: r k st' Let_def)
qed simp

text \<open>
  C15. Packets of one pair and transport to different destination ports: the first \<open>threshold - 1\<close> keep
  their own conversations, and from the one with the \<open>threshold\<close>-th port on all go to the port scan
  (the command line's help and a comment promise that more than the threshold are needed).
  Only destination ports are looked at, so the answers of a server to a client that opens many
  connections, which go to as many ports of the client, are a scan by the server.
\<close>

theorem port_scan_collapse:
  assumes "threshold > 0" "transport \<noteq> []" "distinct ps" "list_all (\<lambda>p. p > 0) ps"
  shows "routed threshold src dst transport name ps start_dissector =
    map (\<lambda>p. (src, dst, name p, p)) (take (threshold - 1) ps) @ map (\<lambda>p. (src, dst, ''Port Scan'', 0)) (drop (threshold - 1) ps)"
  using assms routed_from [OF assms, of src dst start_dissector name] by (simp add: pair_ports_def start_dissector_def Let_def)

theorem port_scan_collapse_witness:
  "routed 2 ''server'' ''client'' ''tcp'' (\<lambda>_. ''TLS'') [50001, 50002, 50003] start_dissector =
    [(''server'', ''client'', ''TLS'', 50001), (''server'', ''client'', ''Port Scan'', 0), (''server'', ''client'', ''Port Scan'', 0)]"
  by (subst port_scan_collapse) simp_all

section \<open>Raw captures\<close>

text \<open>The records of a classic file that hold a frame of at most 65535 bytes.\<close>

definition frame_ok :: "pcap_record \<Rightarrow> bool" where
  "frame_ok r \<longleftrightarrow> (case r of (sec, sub, orig, payload) \<Rightarrow> sec < 2 ^ 32 \<and> sub < 2 ^ 32 \<and> payload \<noteq> [] \<and> length payload \<le> 65535)"

definition process_record :: "nat \<Rightarrow> pcap_record \<Rightarrow> dissector \<Rightarrow> dissector" where
  "process_record divisor r = (case r of (sec, sub, orig, payload) \<Rightarrow> process_packet (of_nat sec + of_nat sub / of_nat divisor) payload)"

lemma raw_records_sent:
  "list_all frame_ok rs \<Longrightarrow> raw_records e divisor (concat (map (record_bytes e) rs)) st = fold (process_record divisor) rs st"
proof (induction rs arbitrary: st)
  case Nil
  then show ?case by (simp add: raw_records.simps)
next
  case (Cons r rs)
  obtain sec sub orig payload where r: "r = (sec, sub, orig, payload)" by (metis prod.exhaust)
  let ?bs = "record_bytes e r @ concat (map (record_bytes e) rs)"
  have ok: "sec < 2 ^ 32" "sub < 2 ^ 32" "payload \<noteq> []" "length payload \<le> 65535"
    using Cons.prems(1) by (simp_all add: r frame_ok_def)
  have f: "field e 0 4 ?bs = sec" "field e 4 4 ?bs = sub" "field e 8 4 ?bs = length payload"
    "drop (16 + length payload) ?bs = concat (map (record_bytes e) rs)" "take (length payload) (drop 16 ?bs) = payload" "\<not> length ?bs < 16"
    using ok by (simp_all add: r record_bytes_def)
  have "raw_records e divisor ?bs st = raw_records e divisor (concat (map (record_bytes e) rs)) (process_record divisor r st)"
    using ok(3,4) by (subst raw_records.simps) (simp only: f Let_def, simp add: process_record_def r)
  then show ?case using Cons by simp
qed

lemma raw_magic:
  "unpack_u BigE (pack_u e 4 (if nano then 0xA1B23C4D else 0xA1B2C3D4)) \<in> {0xA1B2C3D4, 0xD4C3B2A1, 0xA1B23C4D, 0x4D3CB2A1}"
  "unpack_u BigE (pack_u e 4 (if nano then 0xA1B23C4D else 0xA1B2C3D4)) \<noteq> 0x0A0D0D0A"
  "(if unpack_u LittleE (pack_u e 4 (if nano then 0xA1B23C4D else 0xA1B2C3D4)) \<in> {0xA1B2C3D4, 0xA1B23C4D} then LittleE else BigE) = e"
  "(if unpack_u LittleE (pack_u e 4 (if nano then 0xA1B23C4D else 0xA1B2C3D4)) \<in> {0xA1B23C4D, 0x4D3CB2A1} then 1000000000 else (1000000::nat))
     = (if nano then 1000000000 else 1000000)"
  by (cases e; cases nano; simp add: pack_u_def unpack_u_def swapped_4 be_nat_be_bytes)+

text \<open>
  C8. Of a classic capture file, in either byte order and time resolution, the reader of raw captures
  processes exactly the frames, in order and with their times.
\<close>

theorem raw_pcap_processed:
  assumes "list_all frame_ok rs"
  shows "raw_pass (pcap_bytes e nano snaplen network rs) st =
    fold (process_record (if nano then 1000000000 else 1000000)) rs (st\<lparr>ds_collapsed := 0\<rparr>)"
proof -
  let ?bs = "pcap_bytes e nano snaplen network rs"
  have f: "field e' 0 4 ?bs = unpack_u e' (pack_u e 4 (if nano then 0xA1B23C4D else 0xA1B2C3D4))"
    "drop 24 ?bs = concat (map (record_bytes e) rs)" "\<not> length ?bs < 4" "\<not> length ?bs < 24" for e'
    by (simp_all add: pcap_bytes_def field_first)
  show ?thesis
    unfolding raw_pass_def Let_def f raw_pcap_def raw_magic(3,4)
    by (simp only: f raw_magic if_False if_True raw_records_sent [OF assms])
qed

definition demo_frame :: bytes where
  "demo_frame = [1, 2, 3, 4, 5, 6, 7, 8, 9, 10, 11, 12, 8, 6]"

theorem raw_pcap_processed_witness:
  "ds_count (raw_pass (pcap_bytes BigE True 65535 1 [(5, 6, 14, demo_frame)]) start_dissector) = 1"
  using raw_pcap_processed [of "[(5, 6, 14, demo_frame)]" BigE True 65535 1 start_dissector]
  by (simp add: frame_ok_def demo_frame_def process_record_def process_packet_def start_dissector_def put_tally_def field_def unpack_u_def be_nat_def)

text \<open>The enhanced packets of a block file; the time is in microseconds.\<close>

definition process_item :: "ng_item \<Rightarrow> dissector \<Rightarrow> dissector" where
  "process_item x = (case x of
       NEpb i hi lo rest \<Rightarrow> process_packet (of_nat (hi * 2 ^ 32 + lo) / 1000000) (take (field LittleE 0 4 rest) (drop 8 rest))
     | _ \<Rightarrow> id)"

lemma raw_block_item:
  assumes "item_ok x"
  shows "raw_block LittleE (item_type x) (item_body LittleE x) st = process_item x st"
proof (cases x)
  case (NEpb i hi lo rest)
  have "i < 256 ^ 4" "hi < 256 ^ 4" "lo < 256 ^ 4" "8 \<le> length rest" using assms by (simp_all add: NEpb item_ok_def)
  then show ?thesis by (simp add: NEpb raw_block_def process_item_def)
qed (use assms in \<open>auto simp: raw_block_def process_item_def item_ok_def block_kind_def split: option.split\<close>)

lemma raw_blocks_sent:
  "list_all item_ok xs \<Longrightarrow> raw_blocks LittleE (concat (map (item_bytes LittleE) xs)) st = fold process_item xs st"
proof (induction xs arbitrary: st)
  case Nil
  then show ?case by (simp add: raw_blocks.simps)
next
  case (Cons x xs)
  let ?body = "item_body LittleE x" and ?bs = "item_bytes LittleE x @ concat (map (item_bytes LittleE) xs)"
  have ok: "item_ok x" "body_ok ?body" using Cons.prems by (simp_all add: item_ok_def)
  have len: "12 + length ?body < 256 ^ 4" "(12 + length ?body) mod 4 = 0" "item_type x < 256 ^ 4"
    using ok(2) by (simp_all add: body_ok_def) (presburger, use ok(1) in \<open>cases x; simp add: item_ok_def\<close>)
  have f: "field LittleE 0 4 ?bs = item_type x" "field LittleE 4 4 ?bs = 12 + length ?body" "\<not> length ?bs < 8"
    "drop (12 + length ?body) ?bs = concat (map (item_bytes LittleE) xs)" "take (12 + length ?body - 12) (drop 8 ?bs) = ?body"
    using len by (simp_all add: item_bytes_def block_bytes_def)
  have "raw_blocks LittleE ?bs st = raw_blocks LittleE (concat (map (item_bytes LittleE) xs)) (process_item x st)"
    using len(2) by (subst raw_blocks.simps) (simp only: f Let_def raw_block_item [OF ok(1)], simp)
  then show ?case using Cons by simp
qed

text \<open>
  Of a block capture file in little-endian order the enhanced packets are processed, in order.\<close>

theorem raw_pcapng_processed:
  assumes "list_all item_ok xs"
  shows "raw_pass (pcapng_bytes LittleE xs) st = fold process_item xs (st\<lparr>ds_collapsed := 0\<rparr>)"
proof -
  let ?bs = "pcapng_bytes LittleE xs"
  have f: "field e 0 4 ?bs = 0x0A0D0D0A" "field LittleE 8 4 ?bs = 0x1A2B3C4D" "field LittleE 4 4 ?bs = 28"
    "drop 28 ?bs = concat (map (item_bytes LittleE) xs)" "\<not> length ?bs < 4" "\<not> length ?bs < 12" for e
    by (simp_all add: pcapng_bytes_def shb_bytes_def field_first shb_magic(1) unpack_pack)
  show ?thesis
    by (simp only: raw_pass_def Let_def raw_pcapng_def f if_False refl if_True raw_blocks_sent [OF assms])
qed

theorem raw_pcapng_processed_witness:
  "raw_pass (pcapng_bytes LittleE [NIdb 1 65535 None, NEpb 0 0 7 (pack_u LittleE 4 14 @ pack_u LittleE 4 14 @ demo_frame @ [0, 0])]) start_dissector
    = process_packet (7 / 1000000) demo_frame start_dissector"
  using raw_pcapng_processed [of "[NIdb 1 65535 None, NEpb 0 0 7 (pack_u LittleE 4 14 @ pack_u LittleE 4 14 @ demo_frame @ [0, 0])]" start_dissector]
  by (simp add: item_ok_def body_ok_def process_item_def demo_frame_def start_dissector_def)

text \<open>
  C18. Of a block capture file in big-endian order that starts with the usual section header of 28 bytes
  and is at most 448 MiB long no packet is processed, whatever blocks follow: the length of its
  first block is read in the other order and points beyond the end of the file.
\<close>

theorem big_endian_pcapng_lost:
  assumes "length (pcapng_bytes BigE xs) \<le> 469762048"
  shows "raw_pass (pcapng_bytes BigE xs) st = st\<lparr>ds_collapsed := 0\<rparr>"
proof -
  let ?bs = "pcapng_bytes BigE xs"
  have swapped: "unpack_u LittleE (pack_u BigE 4 28) = 469762048"
    by (simp add: pack_u_def unpack_u_def swapped_4)
  have f: "field BigE 0 4 ?bs = 0x0A0D0D0A" "field LittleE 4 4 ?bs = 469762048" "\<not> length ?bs < 4" "\<not> length ?bs < 12"
    by (simp_all add: pcapng_bytes_def shb_bytes_def field_first shb_magic(1) swapped)
  have "raw_blocks e (drop 469762048 ?bs) s = s" for e s
    using assms by (subst raw_blocks.simps) simp
  then show ?thesis
    by (simp only: raw_pass_def Let_def raw_pcapng_def f if_False refl if_True)
qed

theorem big_endian_pcapng_lost_witness:
  "raw_pass (pcapng_bytes BigE [NEpb 0 0 7 (pack_u BigE 4 14 @ pack_u BigE 4 14 @ demo_frame @ [0, 0])]) start_dissector = start_dissector"
  using big_endian_pcapng_lost [of "[NEpb 0 0 7 (pack_u BigE 4 14 @ pack_u BigE 4 14 @ demo_frame @ [0, 0])]" start_dissector]
  by (simp add: pcapng_bytes_def shb_bytes_def item_bytes_def block_bytes_def demo_frame_def start_dissector_def)

end
