(* ===== verification/Spec2Isabelle.thy ===== *)
theory Spec2Isabelle
  imports CaptureApi CapdServer Wire PcapHeader Recovery AuthRoutes Scheduler Iocs GatewaySafety AgentSafety
    AggregateSafety WebhookSafety FindingsFeed ComplianceSafety EmittersSafety BronzeSafety DissectorSafety
begin

text \<open>
  A verification library for MarlinSpike, a workbench for passive discovery of industrial
  networks. The program is a Flask application (\<open>marlinspike/\<close>) with accounts, projects and
  reports, a privileged capture daemon (\<open>marlinspike-capd/\<close>) that runs dumpcap, a fleet of
  remote agents with a daemon of their own (\<open>marlinspike-agent/\<close>), and an analysis engine
  that is run as a subprocess on capture files. The library models the parts that carry state
  and decisions; each theory is named after the module it models and opens with what it holds.

  \<^bold>\<open>Values.\<close> \<open>Prelude\<close> has Python dictionaries as association lists in insertion order.
  \<open>PyVal\<close> has strings (code points up to 255), the string methods the code uses, and JSON
  values; a conversion that raises returns \<open>None\<close>, a function that raises returns \<open>Inl\<close> of the
  exception. \<open>Bytes\<close> has byte strings and integers of fixed width in both byte orders.

  \<^bold>\<open>Capture.\<close> \<open>ExclusiveCapture\<close> is the interface contract of the two tables that keep
  captures apart (one holder per interface, and \<open>any\<close> excludes everything), a locale that both
  tables interpret. \<open>CaptureSessions\<close> models \<open>capture/sessions.py\<close> (the worker that pumps a
  session's frames to subscribers and listeners, and the application's lock table),
  \<open>CapturePolicy\<close> and \<open>CaptureApi\<close> model \<open>capture/api.py\<close> (policy, start, stop, finalisation as
  transformations of a database of rows and of the lock table). \<open>Supervisor\<close>, \<open>CapdHost\<close> and
  \<open>CapdServer\<close> model the daemon: one dumpcap process, the host's interfaces, and the server,
  where each coroutine is cut at its \<open>await\<close>s into the steps of the relation \<open>capd_internal\<close>;
  the theorems hold in every reachable state, for every interleaving. \<open>Wire\<close> models the
  framing on both ends of the socket and the clients. \<open>PcapHeader\<close> models the
  reader of capture-file headers on bytes. \<open>Scheduler\<close> models the automated captures, which
  go through the start of \<open>CaptureApi\<close>.

  \<^bold>\<open>Runs.\<close> \<open>RunStore\<close> and \<open>Recovery\<close> model the table of engine runs and the reaper that
  reconciles it after a restart: liveness, the verdict per row, the atomic claim.

  \<^bold>\<open>Accounts.\<close> \<open>Auth\<close> models \<open>auth.py\<close>, \<open>csrf.py\<close> and the audit writer as operations on the
  tables of users and reset tokens; \<open>AuthSafety\<close> takes all of them as the steps of a relation
  and shows what survives any sequence of them; \<open>AuthRoutes\<close> has the routes of \<open>app.py\<close> that
  call them and the cross-site check.

  \<^bold>\<open>Fleet.\<close> \<open>FleetDb\<close> models the tables of agents, enrolment tokens and credentials
  (\<open>fleet/gateway/db.py\<close> and the agent routes of \<open>fleet/api.py\<close>), \<open>Gateway\<close> models
  \<open>fleet/gateway/server.py\<close> (attempts per address, handshake, read loop, uploads from
  positional chunks in \<open>Base64\<close>, pushed commands, the table of connections cut at its
  \<open>await\<close>s), and \<open>AgentClient\<close> models \<open>agent/client.py\<close> (chunks, spool, commands, reporter).
  \<open>FleetSafety\<close>, \<open>FleetUpload\<close>, \<open>GatewaySafety\<close> and \<open>AgentSafety\<close> hold what they promise, alone
  and together: the tables as a transition system, an upload from the agent's file to the
  gateway's, the connections under interleaving, the spool across lost links.

  \<^bold>\<open>Reports.\<close> What is made of the engine's reports. \<open>Iocs\<close> models threat hunting.
  \<open>Aggregate\<close> models \<open>aggregate.py\<close>: a report is read into the fields that the loops use,
  then folded into a project's roll-up of assets and findings; \<open>AggregateSafety\<close> compares the
  roll-up with counting over the list of reports. \<open>Webhook\<close> models \<open>webhook.py\<close> and the settings
  routes: what a finished scan sends to an outside receiver, whose answers are a function of the
  calls before, and the ledger of tickets; in \<open>WebhookSafety\<close> both ticket platforms interpret
  one locale and inherit its lemmas. \<open>FindingsFeed\<close> is the feed that joins the two. \<open>Compliance\<close>
  models \<open>compliance.py\<close>, \<open>Emitters\<close> the Snort, switch, inventory and playbook exports, each
  with the loop of \<open>app.py\<close> that reads a project's files; \<open>ComplianceSafety\<close> and
  \<open>EmittersSafety\<close> also state what they make of a report with the keys the engine writes.

  \<^bold>\<open>Analysis engine.\<close> What \<open>engine.py\<close> makes of the conversations its dissectors hand over.
  \<open>IpAddr\<close> models the part of Python's \<open>ipaddress\<close> the engine uses. \<open>EngineData\<close> has the tables of
  the engine and the records of conversations, nodes and edges. \<open>Bronze\<close> models the adapter from the
  events of the external packet engine to conversations, \<open>Dissector\<close> the built-in dissection of the lines
  that the external packet reader prints, \<open>PacketReader\<close> the reader of raw capture files that
  replaces it. \<open>Topology\<close> models the graph
  (\<open>TopologyBuilder\<close>: nodes, edges and services from conversations, merging of link-layer nodes,
  levels), \<open>Fingerprint\<close> vendors and device types, \<open>Roles\<close> roles, ranks and the whole stage
  \<open>build_topology\<close>. \<open>Risk\<close> models \<open>RiskSurface\<close>: every check over nodes, edges and conversations, the
  command-and-control indicators, the targets. \<open>TopologySafety\<close> has the invariant of the nodes
  that every pass keeps; \<open>TopologyClaims\<close>, \<open>TopologyEnds\<close> and \<open>RiskSafety\<close> hold what each stage
  promises, \<open>EngineSafety\<close> what the two do together (\<open>capture_report\<close>), and \<open>BronzeSafety\<close> what the
  adapter keeps of its events and what the checks can never see of them. \<open>DissectorSafety\<close> shows that
  every packet is counted and the state stays within its caps, and which frames of a file are read.

  \<^bold>\<open>What the theorems show.\<close> Exclusivity of captures in the daemon and in the application
  under interleaving; that a started capture respects the project's policy and that a start
  leaves the lock balanced; that a run is claimed once and judged by its row alone; that
  messages and capture headers written by one side are read back exactly; that guessing is
  bounded by the lockout, old sessions stay out, reset tokens are single use; that a revoked
  agent stays out and is cut off, that an upload arrives byte for byte in any order of its
  chunks and that an agent's messages touch the capture files of its own projects only; that a
  scheduled slot starts its captures once; that scans report exactly the first hits up to their caps; that a roll-up counts each report
  once, that every finding gets its ticket from a receiver that accepts them and that a finding with a
  ticket is not sent again, that the compliance score falls with findings, and which packets an exported access list
  lets pass; that the edges of a topology account for every conversation and end in its nodes,
  that levels and roles come from their fixed ranges, how often an edge is listed as a zone violation and
  which checks of the risk stage can never report. Some theorems
  record behaviour that the code does not intend; the manifest lists them as findings.

  \<^bold>\<open>Arguments and bounds.\<close> Code that is not in the repository is an argument of the
  definitions that use it: the JSON reader and writer, the password hash and token digest,
  address parsing, libpcap's filter compiler, the operating system's answers (processes,
  files, clock). What a theorem needs of it is a hypothesis, with a witness that meets it.
  Loops are structural or have a measure, except the walk over pcapng blocks: its positions are
  integers that a short block could move back, so it is a partial function that is shown to
  return. The hub's worker is given the list of frames it will
  receive, and the sockets the chunks they will deliver. Integers of the capture formats are
  kept at their width; the program's other integers are Python's, hence \<open>int\<close>. Times are
  microseconds or rationals, as the module has them.

  \<^bold>\<open>Steps.\<close> The daemon's coroutines and the handlers of the gateway's connections are cut at
  their \<open>await\<close>s, and their theorems hold for every interleaving. An operation on the tables of
  accounts, of the fleet or of capture rows is one step: the reads and writes of two requests
  that run at the same time do not mix (two wrong passwords checked at once may be counted as
  one by the database, which the model does not show). A shipment of the agent waits as a task,
  and once begun it runs to its end or to its break in one step.

  \<^bold>\<open>Not modelled.\<close> The remaining routes of \<open>app.py\<close>, the stage drivers of the engine,
  its malware stage and the start of the programs it runs, the other emitters, plugins, baselines, CVE matching, the start of scans by the
  gateway, certificates, translations, configuration and command lines. Logging, timing equalisation and rate limits
  are left out of the modelled functions, and the database fails only where a model says so (the
  ledger of tickets).
\<close>

end
